(* ===== verification/Prelude.thy ===== *)
theory Prelude
  imports
    Complex_Main
    "HOL-Library.Word"
    "HOL-Library.List_Lexorder"
    "HOL-Library.Char_ord"
    "HOL-Library.Product_Lexorder"
    "HOL-Library.AList"
    "HOL-Library.Multiset"
    "HOL-Library.Sublist"
begin

text \<open>
  What every component of the development shares.

  \<^item> The types of the model: a UUID is its 128-bit integer value, a point in time is
    a number of microseconds since the epoch, an exception of the source is a value of
    \<open>err\<close>, and a fallible operation returns \<open>err + 'a\<close> (\<open>Inl\<close> the exception).
  \<^item> The parts of Python's string library the source uses, on strings of ASCII
    characters.
  \<^item> Generic lemmas: the error monad \<open>bindr\<close>, first-occurrence deduplication,
    sorting by an injective key.
  \<^item> The two shapes of query result of SQLAlchemy, \<open>scalar_one\<close> and
    \<open>scalar_one_or_none\<close>.
\<close>

section \<open>Collections of facts\<close>

named_theorems svc_defs \<open>definitions of the service operations, for unfolding an operation\<close>
named_theorems frame_simps \<open>fields an operation leaves unchanged\<close>

section \<open>Types of the model\<close>

type_synonym uuid = "128 word"
type_synonym datetime = int

text \<open>
  The exceptions the modelled code raises. \<open>IntegrityError\<close> and \<open>DBAPIError\<close> are
  the database's, \<open>NoResultFound\<close> and \<open>MultipleResultsFound\<close> SQLAlchemy's, \<open>InvalidTag\<close> the
  cryptography package's; \<open>ResourceLimitExceeded\<close> is Core's own subclass of \<open>ValueError\<close>; the errors after it are
  the authentication package's and FastAPI's.
\<close>

datatype err =
    ValueError string
  | KeyError string
  | RuntimeError string
  | OverflowError
  | ZeroDivisionError
  | NoResultFound
  | MultipleResultsFound
  | IntegrityError string
  | DBAPIError string
  | StaleBaseRevisionError "uuid option"
  | DocumentValidationError string
  | TelemetryContentRejectedError string
  | InvalidTag
  | JSONDecodeError
  | TypeError
  | AttributeError
  | IndexError
  | ResourceLimitExceeded string
  | BearerValidationError string
  | OidcValidationError string
  | BootstrapReplayError string
  | AttestationRequiredError string
  | AttestationDeclinedError string
  | HTTPException int string

type_synonym 'a res = "err + 'a"

section \<open>The error monad\<close>

definition bindr :: "'a res \<Rightarrow> ('a \<Rightarrow> 'b res) \<Rightarrow> 'b res" where
  "bindr m f = (case m of Inl e \<Rightarrow> Inl e | Inr x \<Rightarrow> f x)"

lemma bindr_simps [simp]:
  "bindr (Inl e) f = Inl e"
  "bindr (Inr x) f = f x"
  by (simp_all add: bindr_def)

lemma bindr_Inr_iff: "bindr m f = Inr y \<longleftrightarrow> (\<exists>x. m = Inr x \<and> f x = Inr y)"
  by (cases m) simp_all

lemma bindr_Inl_iff: "bindr m f = Inl e \<longleftrightarrow> m = Inl e \<or> (\<exists>x. m = Inr x \<and> f x = Inl e)"
  by (cases m) auto

text \<open>How an operation that returned got there: one disjunct per branch.\<close>

lemma case_option_Inr_iff:
  "(case x of None \<Rightarrow> f | Some a \<Rightarrow> g a) = Inr y \<longleftrightarrow> x = None \<and> f = Inr y \<or> (\<exists>a. x = Some a \<and> g a = Inr y)"
  by (cases x) auto

lemma if_Inr_iff: "(if b then f else g) = Inr y \<longleftrightarrow> b \<and> f = Inr y \<or> \<not> b \<and> g = Inr y"
  by simp

lemma case_sum_Inr_iff:
  "(case x of Inl a \<Rightarrow> f a | Inr b \<Rightarrow> g b) = Inr y \<longleftrightarrow>
     (\<exists>a. x = Inl a \<and> f a = Inr y) \<or> (\<exists>b. x = Inr b \<and> g b = Inr y)"
  by (cases x) auto

lemmas Inr_iffs = bindr_Inr_iff case_option_Inr_iff if_Inr_iff case_sum_Inr_iff

lemma bindr_cong [fundef_cong]:
  "m = m' \<Longrightarrow> (\<And>x. m' = Inr x \<Longrightarrow> f x = g x) \<Longrightarrow> bindr m f = bindr m' g"
  by (cases m') simp_all

lemma not_isl_iff: "\<not> isl m \<longleftrightarrow> (\<exists>x. m = Inr x)"
  by (cases m) simp_all

definition guard_res :: "bool \<Rightarrow> err \<Rightarrow> unit res" where
  "guard_res b e = (if b then Inr () else Inl e)"

lemma guard_res_simps [simp]:
  "guard_res True e = Inr ()"
  "guard_res False e = Inl e"
  by (simp_all add: guard_res_def)

lemma guard_res_Inr_iff [simp]: "guard_res b e = Inr u \<longleftrightarrow> b"
  by (simp add: guard_res_def)

text \<open>A loop whose body may raise: it stops at the first exception.\<close>

fun fold_res :: "('a \<Rightarrow> 's \<Rightarrow> 's res) \<Rightarrow> 'a list \<Rightarrow> 's \<Rightarrow> 's res" where
  "fold_res f [] s = Inr s"
| "fold_res f (x # xs) s = bindr (f x s) (fold_res f xs)"

lemma fold_res_append: "fold_res f (xs @ ys) s = bindr (fold_res f xs s) (fold_res f ys)"
  by (induction xs arbitrary: s) (auto simp: bindr_def split: sum.splits)

lemma fold_res_inv:
  "fold_res f xs s = Inr s' \<Longrightarrow> P s \<Longrightarrow> (\<And>x s s'. x \<in> set xs \<Longrightarrow> P s \<Longrightarrow> f x s = Inr s' \<Longrightarrow> P s') \<Longrightarrow> P s'"
  by (induction xs arbitrary: s) (auto simp: bindr_Inr_iff)

lemma fold_res_total:
  "(\<And>x s. x \<in> set xs \<Longrightarrow> f x s = Inr (g x s)) \<Longrightarrow> fold_res f xs s = Inr (fold g xs s)"
  by (induction xs arbitrary: s) auto

text \<open>A comprehension whose element expression may raise.\<close>

fun map_res :: "('a \<Rightarrow> 'b res) \<Rightarrow> 'a list \<Rightarrow> 'b list res" where
  "map_res f [] = Inr []"
| "map_res f (x # xs) = bindr (f x) (\<lambda>y. bindr (map_res f xs) (\<lambda>ys. Inr (y # ys)))"

lemma map_res_cong [fundef_cong]:
  "xs = ys \<Longrightarrow> (\<And>x. x \<in> set ys \<Longrightarrow> f x = g x) \<Longrightarrow> map_res f xs = map_res g ys"
  by (induction ys arbitrary: xs) auto

lemma fold_res_cong [fundef_cong]:
  "xs = ys \<Longrightarrow> s = t \<Longrightarrow> (\<And>x u. x \<in> set ys \<Longrightarrow> f x u = g x u) \<Longrightarrow> fold_res f xs s = fold_res g ys t"
  by (induction ys arbitrary: xs s t) (auto simp: bindr_def split: sum.splits)

lemma map_res_Inr_iff: "map_res f xs = Inr ys \<longleftrightarrow> list_all2 (\<lambda>x y. f x = Inr y) xs ys"
  by (induction xs arbitrary: ys) (auto simp: bindr_Inr_iff list_all2_Cons1)

section \<open>Query results\<close>

text \<open>
  \<open>Result.scalar_one_or_none\<close> is \<open>None\<close> on no row, the row on exactly one, and
  raises on more; \<open>Result.scalar_one\<close> also raises on no row.
\<close>

fun scalar_one_or_none :: "'r list \<Rightarrow> 'r option res" where
  "scalar_one_or_none [] = Inr None"
| "scalar_one_or_none [r] = Inr (Some r)"
| "scalar_one_or_none (r # r' # rs) = Inl MultipleResultsFound"

fun scalar_one :: "'r list \<Rightarrow> 'r res" where
  "scalar_one [] = Inl NoResultFound"
| "scalar_one [r] = Inr r"
| "scalar_one (r # r' # rs) = Inl MultipleResultsFound"

lemma scalar_one_Inr_iff: "scalar_one rs = Inr r \<longleftrightarrow> rs = [r]"
  by (cases rs rule: scalar_one.cases) auto

lemma scalar_one_or_none_None_iff: "scalar_one_or_none rs = Inr None \<longleftrightarrow> rs = []"
  by (cases rs rule: scalar_one_or_none.cases) auto

lemma scalar_one_or_none_Some_iff: "scalar_one_or_none rs = Inr (Some r) \<longleftrightarrow> rs = [r]"
  by (cases rs rule: scalar_one_or_none.cases) auto

lemma scalar_one_or_none_Multiple_iff:
  "scalar_one_or_none rs = Inl e \<longleftrightarrow> e = MultipleResultsFound \<and> 2 \<le> length rs"
  by (cases rs rule: scalar_one_or_none.cases) auto

lemmas scalar_iffs = scalar_one_Inr_iff scalar_one_or_none_None_iff
  scalar_one_or_none_Some_iff scalar_one_or_none_Multiple_iff

lemma filter_singletonD: "filter P xs = [x] \<Longrightarrow> x \<in> set xs \<and> P x"
proof -
  assume "filter P xs = [x]"
  then have "x \<in> set (filter P xs)" by simp
  then show ?thesis by simp
qed

text \<open>A query by a key that at most one row has is answered by \<open>find\<close>.\<close>

lemma filter_unique:
  assumes "distinct (map key rs)" and "r \<in> set rs" and "key r = k"
  shows "filter (\<lambda>r. key r = k) rs = [r]"
  using assms
proof (induction rs)
  case (Cons a rs)
  show ?case
  proof (cases "a = r")
    case True
    have "key a \<notin> key ` set rs" using Cons.prems(1) by simp
    then have "filter (\<lambda>r. key r = k) rs = []"
      using Cons.prems(3) True by (auto simp: filter_empty_conv image_iff)
    then show ?thesis using True Cons.prems(3) by simp
  next
    case False
    then have r: "r \<in> set rs" using Cons.prems(2) by simp
    then have "key a \<noteq> k" using Cons.prems(1,3) by auto
    then show ?thesis using Cons r by simp
  qed
qed simp

section \<open>Python's strings\<close>

definition is_space :: "char \<Rightarrow> bool" where
  "is_space c \<longleftrightarrow> of_char c \<in> {9, 10, 11, 12, 13, 28, 29, 30, 31, 32 :: nat}"

definition py_lstrip :: "string \<Rightarrow> string" where
  "py_lstrip s = dropWhile is_space s"

definition py_strip :: "string \<Rightarrow> string" where
  "py_strip s = rev (dropWhile is_space (rev (py_lstrip s)))"

definition lower_char :: "char \<Rightarrow> char" where
  "lower_char c = (let n = (of_char c :: nat) in if 65 \<le> n \<and> n \<le> 90 then char_of (n + 32) else c)"

definition py_lower :: "string \<Rightarrow> string" where
  "py_lower s = map lower_char s"

definition starts_with :: "string \<Rightarrow> string \<Rightarrow> bool" where
  "starts_with s p \<longleftrightarrow> take (length p) s = p"

definition ends_with :: "string \<Rightarrow> string \<Rightarrow> bool" where
  "ends_with s p \<longleftrightarrow> length p \<le> length s \<and> drop (length s - length p) s = p"

text \<open>\<open>p in s\<close> on strings: some suffix of \<open>s\<close> starts with \<open>p\<close>.\<close>

fun py_in :: "string \<Rightarrow> string \<Rightarrow> bool" where
  "py_in p [] = (p = [])"
| "py_in p (c # s) = (starts_with (c # s) p \<or> py_in p s)"

text \<open>\<open>s.split(sep)\<close> for a separator of one character.\<close>

fun py_split :: "char \<Rightarrow> string \<Rightarrow> string list" where
  "py_split d [] = [[]]"
| "py_split d (c # s) =
     (if c = d then [] # py_split d s
      else case py_split d s of [] \<Rightarrow> [[c]] | w # ws \<Rightarrow> (c # w) # ws)"

fun py_join :: "char \<Rightarrow> string list \<Rightarrow> string" where
  "py_join d [] = []"
| "py_join d [w] = w"
| "py_join d (w # w' # ws) = w @ d # py_join d (w' # ws)"

lemma py_split_not_Nil [simp]: "py_split d s \<noteq> []"
  by (induction s) (auto split: list.splits)

lemma py_split_plain: "d \<notin> set w \<Longrightarrow> py_split d w = [w]"
  by (induction w) auto

lemma py_split_append: "d \<notin> set w \<Longrightarrow> py_split d (w @ d # s) = w # py_split d s"
  by (induction w) auto

lemma py_split_join:
  "ws \<noteq> [] \<Longrightarrow> \<forall>w \<in> set ws. d \<notin> set w \<Longrightarrow> py_split d (py_join d ws) = ws"
  by (induction d ws rule: py_join.induct) (auto simp: py_split_plain py_split_append)

text \<open>A text before a separator that it does not contain is determined by the whole.\<close>

lemma sep_inject:
  "d \<notin> set u \<Longrightarrow> d \<notin> set v \<Longrightarrow> u @ d # x = v @ d # y \<longleftrightarrow> u = v \<and> x = y"
proof (induction u arbitrary: v)
  case Nil
  then show ?case by (cases v) auto
next
  case (Cons a u)
  then show ?case by (cases v) auto
qed

lemma py_strip_empty [simp]: "py_strip [] = []"
  by (simp add: py_strip_def py_lstrip_def)

lemma py_strip_id: "\<forall>c \<in> set s. \<not> is_space c \<Longrightarrow> py_strip s = s"
proof -
  assume a: "\<forall>c \<in> set s. \<not> is_space c"
  have dw: "dropWhile is_space t = t" if "set t \<subseteq> set s" for t
    using a that by (cases t) auto
  show ?thesis by (simp add: py_strip_def py_lstrip_def dw)
qed

text \<open>Python's truthiness of an optional string: neither \<open>None\<close> nor empty.\<close>

definition truthy_str :: "string option \<Rightarrow> bool" where
  "truthy_str x = (case x of None \<Rightarrow> False | Some s \<Rightarrow> s \<noteq> [])"

lemma truthy_str_simps [simp]:
  "\<not> truthy_str None" "truthy_str (Some s) \<longleftrightarrow> s \<noteq> []"
  by (simp_all add: truthy_str_def)

section \<open>First occurrences\<close>

text \<open>
  A loop that keeps a \<open>seen\<close> set and skips an element whose key is already in it
  processes the first occurrence of each key.
\<close>

fun first_by :: "('a \<Rightarrow> 'k) \<Rightarrow> 'k list \<Rightarrow> 'a list \<Rightarrow> 'a list" where
  "first_by k seen [] = []"
| "first_by k seen (x # xs) =
     (if k x \<in> set seen then first_by k seen xs else x # first_by k (k x # seen) xs)"

lemma first_by_subset: "set (first_by k seen xs) \<subseteq> set xs"
  by (induction k seen xs rule: first_by.induct) auto

lemma first_by_keys: "k ` set (first_by k seen xs) = k ` set xs - set seen"
  by (induction k seen xs rule: first_by.induct) auto

lemma distinct_first_by: "distinct (map k (first_by k seen xs))"
proof (induction k seen xs rule: first_by.induct)
  case (2 k seen x xs)
  then show ?case
    using first_by_keys [of k "k x # seen" xs] by (auto simp flip: set_map)
qed simp

lemma sorted_first_by: "sorted (map f xs) \<Longrightarrow> sorted (map f (first_by k seen xs))"
proof (induction k seen xs rule: first_by.induct)
  case (2 k seen x xs)
  then show ?case using first_by_subset [of k "k x # seen" xs] by auto
qed simp

lemma set_first_by_inj:
  assumes "inj_on k (set xs)"
  shows "set (first_by k [] xs) = set xs"
proof (rule inj_on_image_eq_iff [THEN iffD1, OF assms first_by_subset])
  show "k ` set (first_by k [] xs) = k ` set xs" by (simp add: first_by_keys)
qed simp

text \<open>
  Sorting by an injective key and dropping repeats gives a list that depends on the set of
  elements only: order and multiplicity of the input do not matter.
\<close>

lemma first_by_sort_key_cong:
  assumes eq: "set xs = set ys" and injk: "inj_on k (set xs)" and injf: "inj_on f (set xs)"
  shows "first_by k [] (sort_key f xs) = first_by k [] (sort_key f ys)"
proof (rule map_sorted_distinct_set_unique [where f = f])
  have sx: "set (first_by k [] (sort_key f xs)) = set xs"
    using injk by (simp add: set_first_by_inj)
  have sy: "set (first_by k [] (sort_key f ys)) = set xs"
    using injk eq by (simp add: set_first_by_inj)
  show "set (first_by k [] (sort_key f xs)) = set (first_by k [] (sort_key f ys))"
    by (simp add: sx sy)
  show "inj_on f (set (first_by k [] (sort_key f xs)) \<union> set (first_by k [] (sort_key f ys)))"
    using injf by (simp add: sx sy)
  show "sorted (map f (first_by k [] (sort_key f xs)))"
    by (simp add: sorted_first_by)
  show "sorted (map f (first_by k [] (sort_key f ys)))"
    by (simp add: sorted_first_by)
  have dx: "distinct (first_by k [] (sort_key f xs))" for xs
    using distinct_first_by [of k "[]" "sort_key f xs"] by (simp add: distinct_map)
  show "distinct (map f (first_by k [] (sort_key f xs)))"
    using dx injf by (simp add: distinct_map sx)
  show "distinct (map f (first_by k [] (sort_key f ys)))"
    using dx injf by (simp add: distinct_map sy)
qed

section \<open>Association lists\<close>

text \<open>
  A Python dict that the source iterates over is an association list in insertion order.
  Assigning to a present key keeps its position (\<open>AList.update\<close>).
\<close>

lemma map_of_update_same [simp]: "map_of (AList.update k v al) k = Some v"
  by (simp add: update_conv')

lemma map_of_update_other [simp]: "k' \<noteq> k \<Longrightarrow> map_of (AList.update k v al) k' = map_of al k'"
  by (simp add: update_conv')

lemma set_update:
  "distinct (map fst al) \<Longrightarrow>
     set (AList.update k v al) = insert (k, v) {(k', v') \<in> set al. k' \<noteq> k}"
proof (induction al)
  case (Cons a al)
  then have "\<forall>v'. (fst a, v') \<notin> set al" by (auto simp: image_iff)
  then show ?case using Cons by (cases a) auto
qed simp

section \<open>Rounding\<close>

text \<open>
  Python's \<open>round\<close> rounds half to even. Floats are modelled by exact rationals.
\<close>

definition round_half_even :: "rat \<Rightarrow> int" where
  "round_half_even x =
     (let n = \<lfloor>x\<rfloor>; d = x - of_int n
      in if d < 1 / 2 then n else if 1 / 2 < d then n + 1 else if even n then n else n + 1)"

lemma round_half_even_of_int [simp]: "round_half_even (of_int n) = n"
  by (simp add: round_half_even_def)

lemma round_half_even_mono: "x \<le> y \<Longrightarrow> round_half_even x \<le> round_half_even y"
proof -
  assume le: "x \<le> y"
  then have fl: "\<lfloor>x\<rfloor> \<le> \<lfloor>y\<rfloor>" by (rule floor_mono)
  show ?thesis
  proof (cases "\<lfloor>x\<rfloor> = \<lfloor>y\<rfloor>")
    case True
    then show ?thesis using le by (auto simp: round_half_even_def Let_def)
  next
    case False
    then have "\<lfloor>x\<rfloor> + 1 \<le> \<lfloor>y\<rfloor>" using fl by simp
    then show ?thesis by (auto simp: round_half_even_def Let_def)
  qed
qed

lemma round_half_even_bounds:
  "x - 1 / 2 \<le> of_int (round_half_even x)" "of_int (round_half_even x) \<le> x + 1 / 2"
  using of_int_floor_le [of x] floor_correct [of x]
  by (auto simp: round_half_even_def Let_def simp del: of_int_floor_le)

end
