(* ===== verification/Json.thy ===== *)
theory Json
  imports Prelude
begin

text \<open>
  JSON values as the source handles them: the payloads of events and jobs, document
  trees, request bodies. An object is an association list in insertion order with
  distinct keys (a Python dict); numbers are integers.

  \<open>json_dumps\<close> is \<open>json.dumps(value, sort_keys=True, separators=(",", ":"))\<close>, the
  canonical form that \<open>payload_sha256\<close> of \<open>jobs/service.py\<close> and the signatures of
  \<open>jobs/auth_snapshot.py\<close> are computed over. SHA-256 is an argument of the definitions
  that use it.
\<close>

section \<open>Values\<close>

datatype json =
    JNull
  | JBool bool
  | JInt int
  | JStr string
  | JList "json list"
  | JObj "(string \<times> json) list"

type_synonym dict = "(string \<times> json) list"

text \<open>\<open>d.get(key)\<close>, with \<open>None\<close> for an absent key, as JSON null is.\<close>

definition jget :: "dict \<Rightarrow> string \<Rightarrow> json" where
  "jget d k = (case map_of d k of None \<Rightarrow> JNull | Some v \<Rightarrow> v)"

definition jget_or :: "dict \<Rightarrow> string \<Rightarrow> json \<Rightarrow> json" where
  "jget_or d k v = (case map_of d k of None \<Rightarrow> v | Some w \<Rightarrow> w)"

text \<open>Python's \<open>bool(value)\<close>.\<close>

fun truthy :: "json \<Rightarrow> bool" where
  "truthy JNull = False"
| "truthy (JBool b) = b"
| "truthy (JInt n) = (n \<noteq> 0)"
| "truthy (JStr s) = (s \<noteq> [])"
| "truthy (JList xs) = (xs \<noteq> [])"
| "truthy (JObj kvs) = (kvs \<noteq> [])"

text \<open>\<open>value or default\<close>.\<close>

definition jor :: "json \<Rightarrow> json \<Rightarrow> json" where
  "jor v w = (if truthy v then v else w)"

section \<open>Decimal and hexadecimal digits\<close>

fun dec_nat :: "nat \<Rightarrow> string" where
  "dec_nat n = (if n < 10 then [char_of (48 + n)] else dec_nat (n div 10) @ [char_of (48 + n mod 10)])"

declare dec_nat.simps [simp del]

definition dec_int :: "int \<Rightarrow> string" where
  "dec_int n = (if n < 0 then CHR ''-'' # dec_nat (nat (- n)) else dec_nat (nat n))"

definition hexdigit :: "nat \<Rightarrow> char" where
  "hexdigit n = (if n < 10 then char_of (48 + n) else char_of (87 + n))"

section \<open>The canonical serialisation\<close>

definition json_escape_char :: "char \<Rightarrow> string" where
  "json_escape_char c =
     (let n = (of_char c :: nat) in
      if n = 34 then [CHR 0x5C, CHR 0x22]
      else if n = 92 then [CHR 0x5C, CHR 0x5C]
      else if n = 8 then [CHR 0x5C, CHR ''b'']
      else if n = 9 then [CHR 0x5C, CHR ''t'']
      else if n = 10 then [CHR 0x5C, CHR ''n'']
      else if n = 12 then [CHR 0x5C, CHR ''f'']
      else if n = 13 then [CHR 0x5C, CHR ''r'']
      else if 32 \<le> n \<and> n \<le> 126 then [c]
      else [CHR 0x5C, CHR ''u'', CHR ''0'', CHR ''0'', hexdigit (n div 16), hexdigit (n mod 16)])"

definition json_str :: "string \<Rightarrow> string" where
  "json_str s = CHR 0x22 # concat (map json_escape_char s) @ [CHR 0x22]"

primrec json_dumps :: "json \<Rightarrow> string" where
  "json_dumps JNull = ''null''"
| "json_dumps (JBool b) = (if b then ''true'' else ''false'')"
| "json_dumps (JInt n) = dec_int n"
| "json_dumps (JStr s) = json_str s"
| "json_dumps (JList xs) = CHR ''['' # py_join (CHR '','') (map json_dumps xs) @ '']''"
| "json_dumps (JObj kvs) =
     CHR ''{'' # py_join (CHR '','')
       (map (\<lambda>(k, v). json_str k @ CHR '':'' # v)
         (sort_key fst (map (map_prod id json_dumps) kvs))) @ ''}''"

section \<open>Python's str\<close>

text \<open>
  \<open>str(value)\<close> of a scalar: a string is itself, the other scalars print as Python
  prints them. Containers print in brackets, with their members as \<open>repr\<close> prints them.
\<close>

definition py_repr_str :: "string \<Rightarrow> string" where
  "py_repr_str s =
     (let q = (if CHR 0x27 \<in> set s \<and> CHR 0x22 \<notin> set s then CHR 0x22 else CHR 0x27)
      in q # concat (map (\<lambda>c. if c = q \<or> c = CHR 0x5C then [CHR 0x5C, c]
           else if c = CHR 0x0A then [CHR 0x5C, CHR ''n'']
           else if c = CHR 0x0D then [CHR 0x5C, CHR ''r'']
           else if c = CHR 0x09 then [CHR 0x5C, CHR ''t'']
           else let n = (of_char c :: nat) in
             if 32 \<le> n \<and> n \<le> 126 then [c]
             else [CHR 0x5C, CHR ''x'', hexdigit (n div 16), hexdigit (n mod 16)]) s) @ [q])"

fun comma_join :: "string list \<Rightarrow> string" where
  "comma_join [] = []"
| "comma_join [w] = w"
| "comma_join (w # w' # ws) = w @ '', '' @ comma_join (w' # ws)"

primrec py_repr :: "json \<Rightarrow> string" where
  "py_repr JNull = ''None''"
| "py_repr (JBool b) = (if b then ''True'' else ''False'')"
| "py_repr (JInt n) = dec_int n"
| "py_repr (JStr s) = py_repr_str s"
| "py_repr (JList xs) = CHR ''['' # comma_join (map py_repr xs) @ '']''"
| "py_repr (JObj kvs) =
     CHR ''{'' # comma_join (map (\<lambda>(k, v). py_repr_str k @ '': '' @ v)
       (map (map_prod id py_repr) kvs)) @ ''}''"

definition py_str :: "json \<Rightarrow> string" where
  "py_str v = (case v of JStr s \<Rightarrow> s | _ \<Rightarrow> py_repr v)"

lemma py_str_JStr [simp]: "py_str (JStr s) = s"
  by (simp add: py_str_def)

section \<open>Dictionaries\<close>

lemma jget_Cons [simp]:
  "jget ((k, v) # d) k' = (if k' = k then v else jget d k')"
  by (simp add: jget_def)

lemma jget_Nil [simp]: "jget [] k = JNull"
  by (simp add: jget_def)

text \<open>A comprehension over a dict's items that drops a set of keys.\<close>

definition dict_without :: "string list \<Rightarrow> dict \<Rightarrow> dict" where
  "dict_without ks d = filter (\<lambda>kv. fst kv \<notin> set ks) d"

lemma map_of_dict_without:
  "map_of (dict_without ks d) k = (if k \<in> set ks then None else map_of d k)"
  unfolding dict_without_def by (induction d) auto

lemma jget_dict_without [simp]:
  "jget (dict_without ks d) k = (if k \<in> set ks then JNull else jget d k)"
  by (simp add: jget_def map_of_dict_without)

lemma jget_or_dict_without [simp]:
  "k \<in> set ks \<Longrightarrow> jget_or (dict_without ks d) k v = v"
  by (simp add: jget_or_def map_of_dict_without)

end
