(* ===== verification/Numbers.thy ===== *)
theory Numbers
  imports Json
begin

text \<open>
  Reading decimal numbers: the cast of a setting to \<open>bigint\<close> in the database (\<open>read_int\<close>) and Python's
  \<open>int(text)\<close> (\<open>py_int\<close>), with the lemmas that both read back what \<open>dec_int\<close> prints.
\<close>

section \<open>Definitions\<close>

definition dec_value :: "string \<Rightarrow> int" where
  "dec_value s = foldl (\<lambda>acc c. acc * 10 + (of_char c - 48)) 0 s"

definition all_digits :: "string \<Rightarrow> bool" where
  "all_digits s \<longleftrightarrow> s \<noteq> [] \<and> (\<forall>c \<in> set s. 48 \<le> (of_char c :: nat) \<and> (of_char c :: nat) \<le> 57)"

definition read_int :: "string \<Rightarrow> int option" where
  "read_int s =
     (if all_digits s then Some (dec_value s)
      else if s \<noteq> [] \<and> hd s = CHR ''-'' \<and> all_digits (tl s) then Some (- dec_value (tl s))
      else None)"

text \<open>Python's \<open>int(text)\<close>: surrounding space, a sign, digits with single underscores between them.\<close>

definition py_int :: "string \<Rightarrow> int option" where
  "py_int s =
     (let t = py_strip s;
          neg = (t \<noteq> [] \<and> hd t = CHR ''-'');
          u = (if t \<noteq> [] \<and> (hd t = CHR ''-'' \<or> hd t = CHR ''+'') then tl t else t);
          ws = py_split (CHR ''_'') u
      in if (\<forall>w \<in> set ws. all_digits w)
         then Some (if neg then - dec_value (concat ws) else dec_value (concat ws)) else None)"

section \<open>Reading back what was printed\<close>

lemma digit_char: "n < 10 \<Longrightarrow> (of_char (char_of (48 + n) :: char) :: nat) = 48 + n"
  by simp

lemma digit_char_int: "n < 10 \<Longrightarrow> (of_char (char_of (48 + n) :: char) :: int) = 48 + int n"
proof -
  assume "n < 10"
  then have "(of_char (char_of (48 + n) :: char) :: nat) = 48 + n" by (rule digit_char)
  then show ?thesis by (metis of_char_of of_nat_add of_nat_numeral of_nat_of_char)
qed

lemma dec_nat_read: "all_digits (dec_nat n) \<and> dec_value (dec_nat n) = int n"
proof (induction n rule: dec_nat.induct)
  case (1 n)
  show ?case
  proof (cases "n < 10")
    case True
    then show ?thesis
      by (simp add: dec_nat.simps [of n] all_digits_def dec_value_def digit_char_int)
  next
    case False
    have "n mod 10 < 10" by simp
    note d = digit_char [OF this] digit_char_int [OF this]
    have "dec_value (dec_nat (n div 10) @ [char_of (48 + n mod 10)]) =
        dec_value (dec_nat (n div 10)) * 10 + int (n mod 10)"
      using d(2) by (simp add: dec_value_def)
    moreover have "int (n div 10) * 10 + int (n mod 10) = int n"
      by (metis div_mult_mod_eq of_nat_add of_nat_mult of_nat_numeral)
    ultimately show ?thesis
      using 1 [OF False] False d(1)
      by (auto simp: dec_nat.simps [of n] all_digits_def)
  qed
qed

lemma read_dec_int [simp]: "read_int (dec_int n) = Some n"
proof (cases "n < 0")
  case True
  have "\<not> all_digits (CHR ''-'' # t)" for t by (simp add: all_digits_def)
  then show ?thesis
    using True dec_nat_read [of "nat (- n)"] by (simp add: read_int_def dec_int_def)
next
  case False
  then show ?thesis
    using dec_nat_read [of "nat n"] by (simp add: read_int_def dec_int_def)
qed

lemma dec_int_inject [simp]: "dec_int m = dec_int n \<longleftrightarrow> m = n"
  by (metis option.inject read_dec_int)

lemma dec_int_no_colon: "CHR '':'' \<notin> set (dec_int n)"
  using dec_nat_read [of "nat n"] dec_nat_read [of "nat (- n)"]
  by (auto simp: dec_int_def all_digits_def)

lemma dec_int_not_Nil [simp]: "dec_int n \<noteq> []"
  using dec_nat_read [of "nat n"] by (auto simp: dec_int_def all_digits_def)

lemma all_digits_chars:
  "all_digits s \<Longrightarrow> c \<in> set s \<Longrightarrow> \<not> is_space c \<and> c \<noteq> CHR ''_'' \<and> c \<noteq> CHR ''-'' \<and> c \<noteq> CHR ''+''"
  by (force simp: all_digits_def is_space_def)

lemma py_int_dec_int [simp]: "py_int (dec_int n) = Some n"
proof -
  define m where "m = nat \<bar>n\<bar>"
  have m: "dec_int n = (if n < 0 then CHR ''-'' # dec_nat m else dec_nat m)" "int m = \<bar>n\<bar>"
    by (simp_all add: dec_int_def m_def)
  have ds: "all_digits (dec_nat m)" "dec_value (dec_nat m) = int m" using dec_nat_read by simp_all
  have ne: "dec_nat m \<noteq> []" using ds(1) by (simp add: all_digits_def)
  have sp: "\<forall>c \<in> set (dec_int n). \<not> is_space c"
    using all_digits_chars [OF ds(1)] by (auto simp: m(1) is_space_def)
  have plain: "py_split (CHR ''_'') (dec_nat m) = [dec_nat m]"
    by (rule py_split_plain) (use all_digits_chars [OF ds(1)] in blast)
  have hd: "hd (dec_nat m) \<noteq> CHR ''-''" "hd (dec_nat m) \<noteq> CHR ''+''"
    using all_digits_chars [OF ds(1), of "hd (dec_nat m)"] ne by auto
  show ?thesis
    unfolding py_int_def py_strip_id [OF sp] Let_def using ds plain hd ne m by (cases "n < 0") simp_all
qed

end
