(* ===== verification/Ids.thy ===== *)
theory Ids
  imports Json
begin

text \<open>
  Identifiers, \<open>packages/domain-python/src/memdot_domain/ids.py\<close>, and the part of Python's
  \<open>uuid\<close> module the program uses: \<open>str(u)\<close> prints a UUID as 32 lower-case hexadecimal
  digits in groups of 8-4-4-4-12, and \<open>uuid.UUID(s)\<close> reads one back, raising
  \<open>ValueError\<close> on anything else.

  \<open>new_uuid7\<close> is modelled over the clock and the two random draws it makes. The operations of the
  services take the identifiers they draw as an argument \<open>fr\<close>: \<open>fr k\<close> is the value the
  \<open>k\<close>-th call of \<open>new_uuid7\<close> returns in that operation.
\<close>

unbundle bit_operations_syntax

section \<open>Printing\<close>

definition hex32 :: "uuid \<Rightarrow> string" where
  "hex32 u = map (\<lambda>i. hexdigit ((unat u div 16 ^ i) mod 16)) (rev [0..<32])"

definition str_uuid :: "uuid \<Rightarrow> string" where
  "str_uuid u =
     (let h = hex32 u
      in take 8 h @ CHR ''-'' # take 4 (drop 8 h) @ CHR ''-'' # take 4 (drop 12 h) @
         CHR ''-'' # take 4 (drop 16 h) @ CHR ''-'' # drop 20 h)"

section \<open>Reading\<close>

definition hexval :: "char \<Rightarrow> nat option" where
  "hexval c =
     (let n = (of_char c :: nat) in
      if 48 \<le> n \<and> n \<le> 57 then Some (n - 48)
      else if 97 \<le> n \<and> n \<le> 102 then Some (n - 87)
      else if 65 \<le> n \<and> n \<le> 70 then Some (n - 55)
      else None)"

text \<open>
  \<open>int(s, 16)\<close>: surrounding white space, a sign, a \<open>0x\<close> prefix and single underscores
  between digits are accepted.
\<close>

fun hex_digits :: "nat \<Rightarrow> string \<Rightarrow> nat option" where
  "hex_digits acc [] = Some acc"
| "hex_digits acc (c # s) =
     (case hexval c of
        Some v \<Rightarrow> hex_digits (acc * 16 + v) s
      | None \<Rightarrow>
          (case s of
             d # s' \<Rightarrow> (if c = CHR ''_'' then (case hexval d of None \<Rightarrow> None
                         | Some v \<Rightarrow> hex_digits (acc * 16 + v) s') else None)
           | [] \<Rightarrow> None))"

definition hex_number :: "string \<Rightarrow> nat option" where
  "hex_number s =
     (case s of [] \<Rightarrow> None
      | c # s' \<Rightarrow> (case hexval c of None \<Rightarrow> None | Some v \<Rightarrow> hex_digits v s'))"

definition strip_0x :: "string \<Rightarrow> string" where
  "strip_0x s =
     (if starts_with s ''0x_'' \<or> starts_with s ''0X_'' then drop 3 s
      else if starts_with s ''0x'' \<or> starts_with s ''0X'' then drop 2 s
      else s)"

definition int_base16 :: "string \<Rightarrow> int option" where
  "int_base16 s =
     (case py_strip s of
        [] \<Rightarrow> None
      | c # t \<Rightarrow>
          (if c = CHR ''-'' then map_option (\<lambda>n. - int n) (hex_number (strip_0x t))
           else if c = CHR ''+'' then map_option int (hex_number (strip_0x t))
           else map_option int (hex_number (strip_0x (c # t)))))"

text \<open>\<open>s.replace(p, "")\<close> and \<open>s.strip(chars)\<close>.\<close>

function remove_sub :: "string \<Rightarrow> string \<Rightarrow> string" where
  "remove_sub p [] = []"
| "remove_sub p (c # s) =
     (if p \<noteq> [] \<and> starts_with (c # s) p then remove_sub p (drop (length p) (c # s))
      else c # remove_sub p s)"
  by pat_completeness auto
termination
  by (relation "measure (\<lambda>(p, s). length s)") auto

definition strip_chars :: "string \<Rightarrow> string \<Rightarrow> string" where
  "strip_chars cs s =
     rev (dropWhile (\<lambda>c. c \<in> set cs) (rev (dropWhile (\<lambda>c. c \<in> set cs) s)))"

definition parse_uuid :: "string \<Rightarrow> uuid res" where
  "parse_uuid s =
     (let h = remove_sub ''-'' (strip_chars ''{}'' (remove_sub ''uuid:'' (remove_sub ''urn:'' s)))
      in if length h \<noteq> 32 then Inl (ValueError ''badly formed hexadecimal UUID string'')
         else case int_base16 h of
             None \<Rightarrow> Inl (ValueError ''invalid literal for int() with base 16'')
           | Some n \<Rightarrow> if 0 \<le> n \<and> n < 2 ^ 128 then Inr (of_int n)
                       else Inl (ValueError ''int is out of range (need a 128-bit value)''))"

section \<open>UUID version 7\<close>

text \<open>
  \<open>unix_ts_ms\<close> is the clock in milliseconds, \<open>ra\<close> and \<open>rb\<close> the integers read from
  two and eight random bytes. \<open>uuid.UUID(int=value)\<close> raises when the value needs more than 128
  bits.
\<close>

definition uuid7_value :: "int \<Rightarrow> int \<Rightarrow> int \<Rightarrow> int" where
  "uuid7_value unix_ts_ms ra rb =
     (let rand_a = ra AND 0x0FFF; rand_b = rb AND 0x3FFFFFFFFFFFFFFF
      in push_bit 80 unix_ts_ms OR push_bit 76 0x7 OR push_bit 64 rand_a OR push_bit 62 0x2 OR rand_b)"

definition new_uuid7 :: "int \<Rightarrow> int \<Rightarrow> int \<Rightarrow> uuid res" where
  "new_uuid7 unix_ts_ms ra rb =
     (let value = uuid7_value unix_ts_ms ra rb
      in if 0 \<le> value \<and> value < 2 ^ 128 then Inr (of_int value)
         else Inl (ValueError ''int is out of range (need a 128-bit value)''))"

text \<open>
  Deterministic identifiers. \<open>uuid5\<close> stands for Python's \<open>uuid.uuid5\<close> (a SHA-1 hash), an
  argument of the definitions that use it.
\<close>

definition source_revision_id :: "(uuid \<Rightarrow> string \<Rightarrow> uuid) \<Rightarrow> uuid \<Rightarrow> string \<Rightarrow> uuid" where
  "source_revision_id uuid5 source_id snapshot_sha256 = uuid5 source_id snapshot_sha256"

definition parse_run_id :: "(uuid \<Rightarrow> string \<Rightarrow> uuid) \<Rightarrow> uuid \<Rightarrow> string \<Rightarrow> uuid" where
  "parse_run_id uuid5 revision_id profile_hash = uuid5 revision_id profile_hash"

definition element_id :: "(uuid \<Rightarrow> string \<Rightarrow> uuid) \<Rightarrow> uuid \<Rightarrow> string \<Rightarrow> string \<Rightarrow> uuid" where
  "element_id uuid5 parse_run_id_value canonical_locator content_hash =
     uuid5 parse_run_id_value (canonical_locator @ CHR '':'' # content_hash)"

section \<open>Printing then reading\<close>

lemma hexval_hexdigit [simp]: "n < 16 \<Longrightarrow> hexval (hexdigit n) = Some n"
  by (auto simp: hexval_def hexdigit_def Let_def)

lemma hexdigit_ascii: "n < 16 \<Longrightarrow> (of_char (hexdigit n) :: nat) \<in> {48..57} \<union> {97..102}"
  by (auto simp: hexdigit_def)

lemma hex_digits_map:
  "hex_digits acc (map (\<lambda>i. hexdigit ((x div 16 ^ i) mod 16)) (rev [0..<n])) =
     Some (acc * 16 ^ n + x mod 16 ^ n)"
proof (induction n arbitrary: acc)
  case (Suc n)
  have "x mod 16 ^ Suc n = (x div 16 ^ n mod 16) * 16 ^ n + x mod 16 ^ n"
    by (metis add.commute mod_mult2_eq mult.commute power_Suc)
  then show ?case using Suc by (simp add: algebra_simps)
qed simp

lemma length_hex32 [simp]: "length (hex32 u) = 32"
  by (simp add: hex32_def)

lemma hex32_chars: "c \<in> set (hex32 u) \<Longrightarrow> (of_char c :: nat) \<in> {48..57} \<union> {97..102}"
proof -
  assume "c \<in> set (hex32 u)"
  then obtain i where "c = hexdigit (unat u div 16 ^ i mod 16)" by (auto simp: hex32_def)
  then show ?thesis using hexdigit_ascii [of "unat u div 16 ^ i mod 16"] by simp
qed

lemma hex32_not_in [simp]:
  "CHR ''-'' \<notin> set (hex32 u)" "CHR '':'' \<notin> set (hex32 u)" "CHR ''{'' \<notin> set (hex32 u)"
  "CHR ''}'' \<notin> set (hex32 u)" "CHR ''x'' \<notin> set (hex32 u)" "CHR ''X'' \<notin> set (hex32 u)"
  "CHR ''+'' \<notin> set (hex32 u)"
  by (auto dest: hex32_chars)

lemma hex_number_digits: "s \<noteq> [] \<Longrightarrow> hexval (hd s) \<noteq> None \<Longrightarrow> hex_number s = hex_digits 0 s"
  by (cases s) (auto simp: hex_number_def)

lemma hexval_hex32: "c \<in> set (hex32 u) \<Longrightarrow> hexval c \<noteq> None"
  by (auto simp: hex32_def)

lemma hex32_not_Nil [simp]: "hex32 u \<noteq> []"
  using length_hex32 [of u] by (metis list.size(3) zero_neq_numeral)

lemma unat_bound: "unat (u :: uuid) < 16 ^ 32"
proof -
  have "unat u < 2 ^ LENGTH(128)" by (rule unsigned_less)
  then show ?thesis by simp
qed

lemma hex_number_hex32: "hex_number (hex32 u) = Some (unat u)"
proof -
  have "unat u < 16 ^ 32" by (rule unat_bound)
  moreover have "hex_digits 0 (hex32 u) = Some (unat u mod 16 ^ 32)"
    unfolding hex32_def by (subst hex_digits_map) (simp only: mult_zero_left add_0)
  moreover have "hex_number (hex32 u) = hex_digits 0 (hex32 u)"
    using hexval_hex32 [of "hd (hex32 u)" u] by (intro hex_number_digits) auto
  ultimately show ?thesis by (simp only: mod_less)
qed

lemma strip_0x_hex32: "strip_0x (hex32 u) = hex32 u"
proof -
  have "set (take n (hex32 u)) \<subseteq> set (hex32 u)" for n by (rule set_take_subset)
  then have "\<not> starts_with (hex32 u) p" if "CHR ''x'' \<in> set p \<or> CHR ''X'' \<in> set p" for p
    unfolding starts_with_def using that hex32_not_in(5,6) [of u] by (metis subsetD)
  then show ?thesis by (simp add: strip_0x_def)
qed

lemma int_base16_hex32: "int_base16 (hex32 u) = Some (int (unat u))"
proof -
  have "py_strip (hex32 u) = hex32 u"
    by (rule py_strip_id) (auto simp: is_space_def dest!: hex32_chars)
  moreover obtain c t where ct: "hex32 u = c # t"
    by (cases "hex32 u") auto
  moreover have "c \<noteq> CHR ''-''" "c \<noteq> CHR ''+''"
    using ct hex32_not_in(1,7) [of u] by auto
  ultimately show ?thesis
    using hex_number_hex32 [of u] strip_0x_hex32 [of u]
    by (simp add: int_base16_def del: hex32_not_in)
qed

lemma remove_sub_id: "c \<in> set p \<Longrightarrow> c \<notin> set s \<Longrightarrow> remove_sub p s = s"
proof (induction s)
  case (Cons a s)
  have "\<not> starts_with (a # s) p"
    using Cons.prems set_take_subset [of "length p" "a # s"] by (metis starts_with_def subsetD)
  then show ?case using Cons by simp
qed simp

lemma remove_dash_append: "remove_sub [c] (s @ t) = remove_sub [c] s @ remove_sub [c] t"
  by (induction s) (auto simp: starts_with_def)

lemma remove_dash_Cons [simp]: "remove_sub [c] (c # s) = remove_sub [c] s"
  by (simp add: starts_with_def)

lemma strip_chars_id: "\<forall>c \<in> set cs. c \<notin> set s \<Longrightarrow> strip_chars cs s = s"
proof -
  assume a: "\<forall>c \<in> set cs. c \<notin> set s"
  have dw: "dropWhile (\<lambda>c. c \<in> set cs) t = t" if "set t \<subseteq> set s" for t
    using a that by (cases t) auto
  show ?thesis by (simp add: strip_chars_def dw)
qed

lemma set_str_uuid: "set (str_uuid u) \<subseteq> insert (CHR ''-'') (set (hex32 u))"
  unfolding str_uuid_def Let_def
  by (auto dest: in_set_takeD in_set_dropD)

lemma str_uuid_not_in [simp]:
  "CHR '':'' \<notin> set (str_uuid u)" "CHR ''{'' \<notin> set (str_uuid u)" "CHR ''}'' \<notin> set (str_uuid u)"
  using set_str_uuid [of u] hex32_not_in [of u] by auto

lemma remove_dash_str_uuid: "remove_sub ''-'' (str_uuid u) = hex32 u"
proof -
  let ?h = "hex32 u"
  have id: "remove_sub ''-'' t = t" if "set t \<subseteq> set ?h" for t
    using that hex32_not_in(1) [of u] by (intro remove_sub_id [of "CHR ''-''"]) auto
  have sub: "set (take n (drop m ?h)) \<subseteq> set ?h" "set (drop m ?h) \<subseteq> set ?h"
    "set (take n ?h) \<subseteq> set ?h" for n m
    by (meson in_set_dropD in_set_takeD subsetI)+
  have "remove_sub ''-'' (str_uuid u) =
      take 8 ?h @ take 4 (drop 8 ?h) @ take 4 (drop 12 ?h) @ take 4 (drop 16 ?h) @ drop 20 ?h"
    by (simp add: str_uuid_def Let_def remove_dash_append id sub del: remove_sub.simps)
  also have "\<dots> = ?h"
    using append_take_drop_id [of 8 ?h] append_take_drop_id [of 4 "drop 8 ?h"]
      append_take_drop_id [of 4 "drop 12 ?h"] append_take_drop_id [of 4 "drop 16 ?h"]
    by (simp add: drop_drop)
  finally show ?thesis .
qed

lemma parse_str_uuid [simp]: "parse_uuid (str_uuid u) = Inr u"
proof -
  have "remove_sub ''urn:'' (str_uuid u) = str_uuid u" "remove_sub ''uuid:'' (str_uuid u) = str_uuid u"
    by (rule remove_sub_id [of "CHR '':''"]; simp)+
  moreover have "strip_chars ''{}'' (str_uuid u) = str_uuid u"
    by (rule strip_chars_id) simp
  moreover have "uint u < 2 ^ LENGTH(128)" by (rule unsigned_less)
  ultimately show ?thesis
    by (simp add: parse_uuid_def remove_dash_str_uuid int_base16_hex32 del: remove_sub.simps)
qed

lemma str_uuid_inject [simp]: "str_uuid u = str_uuid v \<longleftrightarrow> u = v"
  by (metis Inr_inject parse_str_uuid)

lemma str_uuid_not_Nil [simp]: "str_uuid u \<noteq> []"
  by (simp add: str_uuid_def Let_def)

section \<open>Version 7 identifiers are sortable\<close>

lemma push_or_add:
  fixes a b :: int
  assumes "0 \<le> b" and "b < 2 ^ n"
  shows "push_bit n a OR b = a * 2 ^ n + b"
proof -
  have "b = take_bit n b" using assms by (simp add: take_bit_int_eq_self)
  then have "\<not> bit b m" if "n \<le> m" for m using that by (metis bit_take_bit_iff not_le)
  then have "push_bit n a AND b = 0"
    by (auto simp: bit_eq_iff bit_simps)
  then show ?thesis
    by (simp add: disjunctive_add_eq_or [symmetric] push_bit_eq_mult)
qed

lemma uuid7_value_sum:
  fixes ra rb :: int
  shows "uuid7_value ts ra rb =
     ts * 2 ^ 80 + (7 * 2 ^ 76 + (ra mod 2 ^ 12 * 2 ^ 64 + (2 * 2 ^ 62 + rb mod 2 ^ 62)))"
proof -
  have masks: "ra AND 0x0FFF = ra mod 2 ^ 12" "rb AND 0x3FFFFFFFFFFFFFFF = rb mod 2 ^ 62"
    using take_bit_eq_mask [of 12 ra] take_bit_eq_mask [of 62 rb]
    by (simp_all add: take_bit_eq_mod mask_eq_exp_minus_1 and.commute)
  have b: "0 \<le> rb mod 2 ^ 62" "rb mod 2 ^ 62 < 2 ^ 62" "0 \<le> ra mod 2 ^ 12" "ra mod 2 ^ 12 < 2 ^ 12"
    by simp_all
  have s1: "push_bit 62 2 OR (rb mod 2 ^ 62) = 2 * 2 ^ 62 + rb mod 2 ^ 62"
    by (rule push_or_add) (use b in auto)
  have s2: "push_bit 64 (ra mod 2 ^ 12) OR (2 * 2 ^ 62 + rb mod 2 ^ 62) =
      ra mod 2 ^ 12 * 2 ^ 64 + (2 * 2 ^ 62 + rb mod 2 ^ 62)"
    by (rule push_or_add) (use b in auto)
  have s3: "push_bit 76 7 OR (ra mod 2 ^ 12 * 2 ^ 64 + (2 * 2 ^ 62 + rb mod 2 ^ 62)) =
      7 * 2 ^ 76 + (ra mod 2 ^ 12 * 2 ^ 64 + (2 * 2 ^ 62 + rb mod 2 ^ 62))"
    by (rule push_or_add) (use b in auto)
  have s4: "push_bit 80 ts OR (7 * 2 ^ 76 + (ra mod 2 ^ 12 * 2 ^ 64 + (2 * 2 ^ 62 + rb mod 2 ^ 62))) =
      ts * 2 ^ 80 + (7 * 2 ^ 76 + (ra mod 2 ^ 12 * 2 ^ 64 + (2 * 2 ^ 62 + rb mod 2 ^ 62)))"
    by (rule push_or_add) (use b in auto)
  show ?thesis
    unfolding uuid7_value_def Let_def masks or.assoc s1 s2 s3 s4 ..
qed


definition uuid_version :: "uuid \<Rightarrow> int" where
  "uuid_version u = uint u div 2 ^ 76 mod 16"

definition uuid_variant :: "uuid \<Rightarrow> int" where
  "uuid_variant u = uint u div 2 ^ 62 mod 4"

definition uuid_unix_ms :: "uuid \<Rightarrow> int" where
  "uuid_unix_ms u = uint u div 2 ^ 80"

lemma uuid7_layout:
  fixes ts :: int
  assumes "0 \<le> a" "a < 2 ^ 12" "0 \<le> b" "b < 2 ^ 62"
  defines "v \<equiv> ts * 2 ^ 80 + (7 * 2 ^ 76 + (a * 2 ^ 64 + (2 * 2 ^ 62 + b)))"
  shows "v div 2 ^ 80 = ts" "v div 2 ^ 76 mod 16 = 7" "v div 2 ^ 62 mod 4 = 2"
proof -
  have "v = (7 * 2 ^ 76 + (a * 2 ^ 64 + (2 * 2 ^ 62 + b))) + ts * 2 ^ 80" by (simp add: v_def)
  moreover have "(7 * 2 ^ 76 + (a * 2 ^ 64 + (2 * 2 ^ 62 + b))) div 2 ^ 80 = 0"
    using assms(1-4) by (intro div_pos_pos_trivial) auto
  ultimately show "v div 2 ^ 80 = ts" by simp
  have "v = (a * 2 ^ 64 + (2 * 2 ^ 62 + b)) + (ts * 16 + 7) * 2 ^ 76" by (simp add: v_def algebra_simps)
  moreover have "(a * 2 ^ 64 + (2 * 2 ^ 62 + b)) div 2 ^ 76 = 0"
    using assms(1-4) by (intro div_pos_pos_trivial) auto
  ultimately have "v div 2 ^ 76 = ts * 16 + 7" by simp
  then show "v div 2 ^ 76 mod 16 = 7" by simp
  have "v = b + (ts * 262144 + 7 * 16384 + a * 4 + 2) * 2 ^ 62" by (simp add: v_def algebra_simps)
  moreover have "b div 2 ^ 62 = 0" using assms(3,4) by (intro div_pos_pos_trivial)
  ultimately have "v div 2 ^ 62 = ts * 262144 + 7 * 16384 + a * 4 + 2" by simp
  also have "\<dots> = 2 + (ts * 65536 + 28672 + a) * 4" by simp
  finally have "v div 2 ^ 62 mod 4 = (2 + (ts * 65536 + 28672 + a) * 4) mod 4" by (rule arg_cong)
  then show "v div 2 ^ 62 mod 4 = 2" by (simp only: mod_mult_self1) simp
qed

lemma new_uuid7_fields:
  assumes "0 \<le> ts" and "ts < 2 ^ 48"
  shows "\<exists>u. new_uuid7 ts ra rb = Inr u \<and> uuid_version u = 7 \<and> uuid_variant u = 2 \<and> uuid_unix_ms u = ts"
proof -
  let ?a = "ra mod 2 ^ 12" and ?b = "rb mod 2 ^ 62"
  have b: "0 \<le> ?a" "?a < 2 ^ 12" "0 \<le> ?b" "?b < 2 ^ 62" by simp_all
  let ?v = "uuid7_value ts ra rb"
  have v: "0 \<le> ?v" "?v < 2 ^ 128"
    using assms b by (auto simp: uuid7_value_sum)
  then have "uint (of_int ?v :: uuid) = ?v" by (simp add: unsigned_of_int take_bit_int_eq_self)
  moreover have "?v div 2 ^ 80 = ts" "?v div 2 ^ 76 mod 16 = 7" "?v div 2 ^ 62 mod 4 = 2"
    unfolding uuid7_value_sum by (rule uuid7_layout [OF b])+
  moreover have "new_uuid7 ts ra rb = Inr (of_int ?v)"
    unfolding new_uuid7_def Let_def using v by (simp only: if_True simp_thms)
  ultimately show ?thesis
    unfolding uuid_version_def uuid_variant_def uuid_unix_ms_def by metis
qed

section \<open>Properties\<close>

text \<open>
  The text form of an identifier determines it: \<open>uuid.UUID(str(u))\<close> is \<open>u\<close> for
  every 128-bit value, and the text form contains neither a colon nor a brace (so it can be a
  segment of a composite key).
\<close>

theorem uuid_roundtrip:
  "parse_uuid (str_uuid u) = Inr u \<and> CHR '':'' \<notin> set (str_uuid u) \<and> CHR ''{'' \<notin> set (str_uuid u)"
  by simp

text \<open>
  Identifiers sort by creation time: for a clock within 48 bits of milliseconds the
  generator succeeds whatever the random bits are, the identifier has version 7 and the RFC 9562
  variant, its top 48 bits are the clock, and a later millisecond gives a larger identifier.
\<close>

theorem new_uuid7_sortable:
  assumes "0 \<le> ts" and "ts < ts'" and "ts' < 2 ^ 48"
  shows "\<exists>u v. new_uuid7 ts ra rb = Inr u \<and> new_uuid7 ts' ra' rb' = Inr v \<and>
    uuid_version u = 7 \<and> uuid_variant u = 2 \<and> uuid_unix_ms u = ts \<and> u < v"
proof -
  obtain u where u: "new_uuid7 ts ra rb = Inr u" "uuid_version u = 7" "uuid_variant u = 2" "uuid_unix_ms u = ts"
    using new_uuid7_fields [of ts ra rb] assms by auto
  obtain v where v: "new_uuid7 ts' ra' rb' = Inr v" "uuid_unix_ms v = ts'"
    using new_uuid7_fields [of ts' ra' rb'] assms by auto
  have "\<not> uint v \<le> uint u"
    using zdiv_mono1 [of "uint v" "uint u" "2 ^ 80"] u(4) v(2) assms(2) by (simp add: uuid_unix_ms_def)
  then have "u < v" by (simp add: word_less_def)
  then show ?thesis using u v by blast
qed

theorem new_uuid7_sortable_witness:
  "\<exists>u v. new_uuid7 1000 5 6 = Inr u \<and> new_uuid7 1001 0 0 = Inr v \<and> u < v"
  using new_uuid7_sortable [of 1000 1001 5 6 0 0] by auto

end
