(* ===== verification/Json_Parse.thy ===== *)
theory Json_Parse
  imports Ids Numbers
begin

text \<open>
  \<open>json.loads\<close> on the values of \<open>Json\<close>: strings with their escapes, integers, arrays, objects (the last
  binding of a repeated key counts) and white space between tokens. A number with a fraction or an
  exponent, and a character above 255, are outside the model and are refused. The fuel is twice the
  length of the text and one more, which every nesting of the text stays below.

  The theorem of the theory is the round trip: what \<open>json_dumps\<close> prints, \<open>json_loads\<close> reads back, with
  the keys of every object in sorted order.
\<close>

section \<open>The parser\<close>

definition skip_ws :: "string \<Rightarrow> string" where
  "skip_ws s = dropWhile (\<lambda>c. c \<in> set [CHR '' '', CHR 0x09, CHR 0x0A, CHR 0x0D]) s"

definition is_digit :: "char \<Rightarrow> bool" where
  "is_digit c \<longleftrightarrow> 48 \<le> (of_char c :: nat) \<and> (of_char c :: nat) \<le> 57"

text \<open>A number token: an optional sign, then a single zero or digits that do not start with one.\<close>

definition pdigits :: "string \<Rightarrow> (int \<times> string) option" where
  "pdigits s =
     (case s of
        [] \<Rightarrow> None
      | c # t \<Rightarrow>
          if \<not> is_digit c then None
          else if c = CHR ''0'' then Some (0, t)
          else Some (dec_value (takeWhile is_digit s), dropWhile is_digit s))"

definition no_fraction :: "(int \<times> string) option \<Rightarrow> (int \<times> string) option" where
  "no_fraction x =
     (case x of None \<Rightarrow> None
      | Some (n, r) \<Rightarrow> if r \<noteq> [] \<and> hd r \<in> set [CHR ''.'', CHR ''e'', CHR ''E''] then None else Some (n, r))"

definition pnumber :: "string \<Rightarrow> (int \<times> string) option" where
  "pnumber s =
     no_fraction (case s of
        [] \<Rightarrow> None
      | c # t \<Rightarrow> if c = CHR ''-'' then map_option (apfst uminus) (pdigits t) else pdigits s)"

text \<open>The rest of a string token, after its opening quote.\<close>

fun pstr :: "string \<Rightarrow> (string \<times> string) option" where
  "pstr [] = None"
| "pstr (c # s) =
     (if c = CHR 0x22 then Some ([], s)
      else if c = CHR 0x5C then
        (case s of
           [] \<Rightarrow> None
         | e # t \<Rightarrow>
             if e = CHR ''u'' then
               (case t of
                  a # b # x # y # r \<Rightarrow>
                    (case (hexval a, hexval b, hexval x, hexval y) of
                       (Some 0, Some 0, Some h, Some l) \<Rightarrow> map_option (apfst (Cons (char_of (h * 16 + l)))) (pstr r)
                     | _ \<Rightarrow> None)
                | _ \<Rightarrow> None)
             else
               (case map_of [(CHR 0x22, CHR 0x22), (CHR 0x5C, CHR 0x5C), (CHR ''/'', CHR ''/''), (CHR ''b'', CHR 0x08),
                       (CHR ''f'', CHR 0x0C), (CHR ''n'', CHR 0x0A), (CHR ''r'', CHR 0x0D), (CHR ''t'', CHR 0x09)] e of
                  None \<Rightarrow> None
                | Some q \<Rightarrow> map_option (apfst (Cons q)) (pstr t)))
      else if (of_char c :: nat) < 32 then None
      else map_option (apfst (Cons c)) (pstr s))"

text \<open>A dict built from bindings in order: a repeated key keeps its place and takes the last value.\<close>

definition dict_of :: "(string \<times> json) list \<Rightarrow> dict" where
  "dict_of kvs = fold (\<lambda>(k, v) d. AList.update k v d) kvs []"

fun pval :: "nat \<Rightarrow> string \<Rightarrow> (json \<times> string) option"
and pelems :: "nat \<Rightarrow> string \<Rightarrow> (json list \<times> string) option"
and pmembers :: "nat \<Rightarrow> string \<Rightarrow> ((string \<times> json) list \<times> string) option" where
  "pval 0 s = None"
| "pval (Suc n) s =
     (case s of
        [] \<Rightarrow> None
      | c # t \<Rightarrow>
          if c = CHR 0x22 then map_option (apfst JStr) (pstr t)
          else if c = CHR ''['' then
            (if skip_ws t \<noteq> [] \<and> hd (skip_ws t) = CHR '']'' then Some (JList [], tl (skip_ws t))
             else map_option (apfst JList) (pelems n (skip_ws t)))
          else if c = CHR ''{'' then
            (if skip_ws t \<noteq> [] \<and> hd (skip_ws t) = CHR ''}'' then Some (JObj [], tl (skip_ws t))
             else map_option (apfst (JObj \<circ> dict_of)) (pmembers n (skip_ws t)))
          else if starts_with s ''null'' then Some (JNull, drop 4 s)
          else if starts_with s ''true'' then Some (JBool True, drop 4 s)
          else if starts_with s ''false'' then Some (JBool False, drop 5 s)
          else map_option (apfst JInt) (pnumber s))"
| "pelems 0 s = None"
| "pelems (Suc n) s =
     (case pval n s of
        None \<Rightarrow> None
      | Some (v, r) \<Rightarrow>
          (case skip_ws r of
             [] \<Rightarrow> None
           | c # q \<Rightarrow>
               if c = CHR '','' then map_option (apfst (Cons v)) (pelems n (skip_ws q))
               else if c = CHR '']'' then Some ([v], q) else None))"
| "pmembers 0 s = None"
| "pmembers (Suc n) s =
     (case s of
        [] \<Rightarrow> None
      | c # t \<Rightarrow>
          if c \<noteq> CHR 0x22 then None
          else case pstr t of
            None \<Rightarrow> None
          | Some (k, r) \<Rightarrow>
              (case skip_ws r of
                 [] \<Rightarrow> None
               | d # q \<Rightarrow>
                   if d \<noteq> CHR '':'' then None
                   else case pval n (skip_ws q) of
                     None \<Rightarrow> None
                   | Some (v, r2) \<Rightarrow>
                       (case skip_ws r2 of
                          [] \<Rightarrow> None
                        | e # p \<Rightarrow>
                            if e = CHR '','' then map_option (apfst (Cons (k, v))) (pmembers n (skip_ws p))
                            else if e = CHR ''}'' then Some ([(k, v)], p) else None)))"

definition json_loads :: "string \<Rightarrow> json option" where
  "json_loads s =
     (case pval (2 * length s + 1) (skip_ws s) of
        None \<Rightarrow> None
      | Some (v, r) \<Rightarrow> if skip_ws r = [] then Some v else None)"

section \<open>Tokens\<close>

lemma skip_ws_id: "s = [] \<or> hd s \<notin> set [CHR '' '', CHR 0x09, CHR 0x0A, CHR 0x0D] \<Longrightarrow> skip_ws s = s"
  by (cases s) (auto simp: skip_ws_def)

lemma pstr_escape: "pstr (json_escape_char c @ s) = map_option (apfst (Cons c)) (pstr s)"
proof -
  define n where "n = (of_char c :: nat)"
  have c: "c = char_of n" "n < 256" by (simp_all add: n_def)
  have h: "hexval (hexdigit (n div 16)) = Some (n div 16)" "hexval (hexdigit (n mod 16)) = Some (n mod 16)"
    using c(2) by auto
  have h0: "hexval (CHR ''0'') = Some 0" by (simp add: hexval_def)
  have eq: "c = d \<longleftrightarrow> n = of_char d" for d by (simp add: n_def)
  consider "c \<in> set [CHR 0x22, CHR 0x5C, CHR 0x08, CHR 0x09, CHR 0x0A, CHR 0x0C, CHR 0x0D]"
    | "n \<notin> {34, 92, 8, 9, 10, 12, 13}" "32 \<le> n" "n \<le> 126"
    | "n \<notin> {34, 92, 8, 9, 10, 12, 13}" "\<not> (32 \<le> n \<and> n \<le> 126)" by (auto simp: eq)
  then show ?thesis
  proof cases
    case 1
    then show ?thesis by (auto simp: json_escape_char_def)
  next
    case 2
    then have "c \<noteq> CHR 0x22" "c \<noteq> CHR 0x5C" "json_escape_char c = [c]" "\<not> (of_char c :: nat) < 32"
      by (auto simp: eq json_escape_char_def Let_def simp flip: n_def)
    then show ?thesis by simp
  next
    case 3
    then have "json_escape_char c = [CHR 0x5C, CHR ''u'', CHR ''0'', CHR ''0'', hexdigit (n div 16), hexdigit (n mod 16)]"
      by (auto simp: json_escape_char_def Let_def simp flip: n_def)
    then show ?thesis using h h0 c(1) by simp
  qed
qed

lemma pstr_json_str: "pstr (concat (map json_escape_char s) @ CHR 0x22 # rest) = Some (s, rest)"
  by (induction s) (simp_all add: pstr_escape)


section \<open>Numbers\<close>

lemma dec_nat_digits: "\<forall>c \<in> set (dec_nat n). is_digit c"
  using dec_nat_read [of n] by (auto simp: all_digits_def is_digit_def)

lemma dec_nat_not_Nil: "dec_nat n \<noteq> []"
  by (subst dec_nat.simps) simp

lemma of_char_eqD: "(of_char c :: nat) = of_char d \<Longrightarrow> c = d"
  by simp

lemma hd_dec_nat: "0 < n \<Longrightarrow> hd (dec_nat n) \<noteq> CHR ''0''"
proof (induction n rule: dec_nat.induct)
  case (1 n)
  have "(char_of (48 + k :: nat) = CHR ''0'') \<longleftrightarrow> k = 0" if "k < 10" for k
    using that of_char_eq_iff [of "char_of (48 + k :: nat)" "CHR ''0''", where ?'a = nat] by simp
  then show ?case using 1 by (subst dec_nat.simps) (auto simp: dec_nat_not_Nil div_greater_zero_iff)
qed

text \<open>What follows a value inside a document.\<close>

definition delimited :: "string \<Rightarrow> bool" where
  "delimited rest \<longleftrightarrow> rest = [] \<or> hd rest \<in> set [CHR '','', CHR '']'', CHR ''}'']"

lemma delimitedE:
  assumes "delimited rest"
  obtains "rest = []" | r where "rest = CHR '','' # r" | r where "rest = CHR '']'' # r" | r where "rest = CHR ''}'' # r"
  using assms by (cases rest) (auto simp: delimited_def)

lemma pdigits_dec_nat: "delimited rest \<Longrightarrow> pdigits (dec_nat n @ rest) = Some (int n, rest)"
proof -
  assume d: "delimited rest"
  have tail: "takeWhile is_digit rest = []" "dropWhile is_digit rest = rest"
    using d by (auto elim!: delimitedE simp: is_digit_def)
  obtain c t where ct: "dec_nat n = c # t" using dec_nat_not_Nil [of n] by (cases "dec_nat n") auto
  have all: "\<forall>x \<in> set (c # t). is_digit x" using dec_nat_digits [of n] ct by simp
  have val: "dec_value (c # t) = int n" using dec_nat_read [of n] ct by simp
  show ?thesis
  proof (cases "n = 0")
    case True
    then have "c = CHR ''0'' \<and> t = []" using ct by (subst (asm) dec_nat.simps) (auto intro: of_char_eqD)
    then show ?thesis using ct True by (simp add: pdigits_def is_digit_def)
  next
    case False
    then have "c \<noteq> CHR ''0''" using hd_dec_nat [of n] ct by simp
    moreover have "takeWhile is_digit ((c # t) @ rest) = c # t" "dropWhile is_digit ((c # t) @ rest) = rest"
      using all tail takeWhile_append2 [of "c # t" is_digit rest] dropWhile_append2 [of "c # t" is_digit rest] by auto
    ultimately show ?thesis using ct all val by (simp add: pdigits_def)
  qed
qed

lemma pnumber_dec_int: "delimited rest \<Longrightarrow> pnumber (dec_int n @ rest) = Some (n, rest)"
proof -
  assume d: "delimited rest"
  have nf: "no_fraction (Some (k, rest)) = Some (k, rest)" for k
    using d by (auto elim!: delimitedE simp: no_fraction_def)
  have hd: "dec_nat k = c # t \<Longrightarrow> c \<noteq> CHR ''-''" for k c t
    using dec_nat_digits [of k] by (auto simp: is_digit_def)
  show ?thesis
  proof (cases "n < 0")
    case True
    then show ?thesis
      using pdigits_dec_nat [OF d, of "nat (- n)"] nf [of n] by (simp add: pnumber_def dec_int_def)
  next
    case False
    obtain c t where ct: "dec_nat (nat n) = c # t"
      using dec_nat_not_Nil [of "nat n"] by (cases "dec_nat (nat n)") auto
    then show ?thesis
      using False pdigits_dec_nat [OF d, of "nat n"] nf [of n] hd [OF ct] by (simp add: pnumber_def dec_int_def)
  qed
qed


section \<open>The round trip\<close>

text \<open>A dict has distinct keys; the canonical form orders them.\<close>

primrec wf_json :: "json \<Rightarrow> bool" where
  "wf_json JNull = True"
| "wf_json (JBool b) = True"
| "wf_json (JInt n) = True"
| "wf_json (JStr s) = True"
| "wf_json (JList xs) = list_all id (map wf_json xs)"
| "wf_json (JObj kvs) = (distinct (map fst kvs) \<and> list_all snd (map (map_prod id wf_json) kvs))"

primrec canon :: "json \<Rightarrow> json" where
  "canon JNull = JNull"
| "canon (JBool b) = JBool b"
| "canon (JInt n) = JInt n"
| "canon (JStr s) = JStr s"
| "canon (JList xs) = JList (map canon xs)"
| "canon (JObj kvs) = JObj (sort_key fst (map (map_prod id canon) kvs))"

lemma insort_key_map: "insort_key f (g x) (map g xs) = map g (insort_key (f \<circ> g) x xs)"
  by (induction xs) auto

lemma sort_key_map: "sort_key f (map g xs) = map g (sort_key (f \<circ> g) xs)"
  by (induction xs) (simp_all add: insort_key_map comp_def)

lemma sort_key_values: "sort_key fst (map (map_prod id f) kvs) = map (map_prod id f) (sort_key fst kvs)"
proof -
  have "fst \<circ> map_prod id f = (fst :: _ \<times> _ \<Rightarrow> _)" by (simp add: fun_eq_iff)
  then show ?thesis by (simp add: sort_key_map)
qed

lemma map_of_canon:
  "distinct (map fst kvs) \<Longrightarrow> map_of (sort_key fst (map (map_prod id canon) kvs)) k = map_option canon (map_of kvs k)"
proof -
  assume d: "distinct (map fst kvs)"
  have "map_of (sort_key fst kvs) = map_of kvs"
    using d by (subst map_of_inject_set) (auto simp: distinct_map)
  then show ?thesis
    by (simp only: sort_key_values) (simp add: map_prod_def map_of_map)
qed

lemma dict_of_distinct: "distinct (map fst kvs) \<Longrightarrow> dict_of kvs = kvs"
proof (induction kvs rule: rev_induct)
  case (snoc kv kvs)
  have "AList.update k v al = al @ [(k, v)]" if "k \<notin> fst ` set al" for k v and al :: dict
    using that by (induction al) auto
  then show ?case using snoc by (auto simp: dict_of_def case_prod_beta)
qed (simp add: dict_of_def)

definition reads_back :: "json \<Rightarrow> bool" where
  "reads_back j \<longleftrightarrow>
     (\<forall>n rest. 2 * length (json_dumps j) \<le> n \<longrightarrow> delimited rest \<longrightarrow> pval n (json_dumps j @ rest) = Some (canon j, rest))"

text \<open>No value starts with white space or with a closing bracket.\<close>

lemma hd_json_dumps:
  "json_dumps j \<noteq> [] \<and> hd (json_dumps j) \<notin> set [CHR '' '', CHR 0x09, CHR 0x0A, CHR 0x0D, CHR '']'', CHR ''}'']"
proof (cases j)
  case (JInt n)
  have "c \<notin> set [CHR '' '', CHR 0x09, CHR 0x0A, CHR 0x0D, CHR '']'', CHR ''}'']" if "c \<in> set (dec_nat k)" for c k
    using dec_nat_digits [of k] that by (auto simp: is_digit_def)
  from this [OF hd_in_set [OF dec_nat_not_Nil]] show ?thesis
    using JInt dec_nat_not_Nil by (simp add: dec_int_def)
qed (simp_all add: json_str_def)

lemma skip_ws_dumps [simp]: "skip_ws (json_dumps j @ rest) = json_dumps j @ rest"
  using hd_json_dumps [of j] by (intro skip_ws_id) (auto simp: hd_append)

lemma skip_ws_token [simp]:
  "skip_ws (CHR 0x22 # s) = CHR 0x22 # s" "skip_ws (CHR '','' # s) = CHR '','' # s"
  "skip_ws (CHR '':'' # s) = CHR '':'' # s" "skip_ws (CHR '']'' # s) = CHR '']'' # s"
  "skip_ws (CHR ''}'' # s) = CHR ''}'' # s" "skip_ws [] = []"
  by (simp_all add: skip_ws_def)

lemma delimited_token [simp]:
  "delimited []" "delimited (CHR '','' # s)" "delimited (CHR '']'' # s)" "delimited (CHR ''}'' # s)"
  by (simp_all add: delimited_def)

lemma skip_ws_join [simp]:
  "skip_ws (py_join (CHR '','') (map json_dumps (x # xs)) @ rest) = py_join (CHR '','') (map json_dumps (x # xs)) @ rest"
  by (cases xs) (simp_all del: append_assoc add: append_assoc)

lemma pelems_dumps:
  "\<forall>x \<in> set (x0 # xs). reads_back x \<Longrightarrow> 2 * length (py_join (CHR '','') (map json_dumps (x0 # xs))) + 2 \<le> n \<Longrightarrow>
     pelems n (py_join (CHR '','') (map json_dumps (x0 # xs)) @ CHR '']'' # rest) = Some (map canon (x0 # xs), rest)"
proof (induction xs arbitrary: x0 n)
  case Nil
  then obtain m where "n = Suc m" by (cases n) auto
  then show ?case using Nil by (simp add: reads_back_def)
next
  case (Cons x xs)
  then obtain m where m: "n = Suc m" by (cases n) auto
  have r: "reads_back x0" using Cons.prems by simp
  have "pelems m (py_join (CHR '','') (map json_dumps (x # xs)) @ CHR '']'' # rest) = Some (map canon (x # xs), rest)"
    using Cons.prems m by (intro Cons.IH) auto
  moreover have "pval m (json_dumps x0 @ CHR '','' # s) = Some (canon x0, CHR '','' # s)" for s
    using r Cons.prems(2) m by (auto simp: reads_back_def)
  ultimately show ?case
    using m skip_ws_join [of x xs "CHR '']'' # rest"] by (simp del: skip_ws_join)
qed


lemma pmembers_member:
  assumes "reads_back v" and "2 * length (json_dumps v) \<le> n" and "delimited rest"
  shows "pmembers (Suc n) (json_str k @ CHR '':'' # json_dumps v @ rest) =
    (case rest of
       [] \<Rightarrow> None
     | e # p \<Rightarrow> if e = CHR '','' then map_option (apfst (Cons (k, canon v))) (pmembers n (skip_ws p))
                else if e = CHR ''}'' then Some ([(k, canon v)], p) else None)"
proof -
  have str: "pstr (concat (map json_escape_char k) @ CHR 0x22 # s) = Some (k, s)" for s
    by (rule pstr_json_str)
  have val: "pval n (json_dumps v @ rest) = Some (canon v, rest)" using assms by (simp add: reads_back_def)
  have "skip_ws rest = rest" using assms(3) by (auto elim!: delimitedE)
  then show ?thesis by (simp add: json_str_def str val)
qed

abbreviation member_str :: "string \<times> json \<Rightarrow> string" where
  "member_str kv \<equiv> json_str (fst kv) @ CHR '':'' # json_dumps (snd kv)"

lemma skip_ws_member [simp]: "skip_ws (py_join (CHR '','') (member_str kv # ms) @ rest) = py_join (CHR '','') (member_str kv # ms) @ rest"
  by (cases ms) (simp_all add: json_str_def)

lemma pmembers_dumps:
  "\<forall>kv \<in> set (kv0 # kvs). reads_back (snd kv) \<Longrightarrow>
   2 * length (py_join (CHR '','') (map member_str (kv0 # kvs))) + 2 \<le> n \<Longrightarrow>
     pmembers n (py_join (CHR '','') (map member_str (kv0 # kvs)) @ CHR ''}'' # rest)
       = Some (map (map_prod id canon) (kv0 # kvs), rest)"
proof (induction kvs arbitrary: kv0 n)
  case Nil
  then obtain m where "n = Suc m" by (cases n) auto
  then show ?case using Nil by (cases kv0) (simp add: pmembers_member del: pmembers.simps)
next
  case (Cons kv kvs)
  then obtain m where m: "n = Suc m" by (cases n) auto
  let ?tail = "py_join (CHR '','') (map member_str (kv # kvs)) @ CHR ''}'' # rest"
  have ih: "pmembers m ?tail = Some (map (map_prod id canon) (kv # kvs), rest)"
    using Cons.prems m by (intro Cons.IH) auto
  have sk: "skip_ws ?tail = ?tail" by simp
  have "pmembers n (json_str (fst kv0) @ CHR '':'' # json_dumps (snd kv0) @ CHR '','' # ?tail)
      = map_option (apfst (Cons (fst kv0, canon (snd kv0)))) (pmembers m (skip_ws ?tail))"
    unfolding m using Cons.prems m by (subst pmembers_member) auto
  then show ?case unfolding sk ih by (cases kv0) (simp add: id_def)
qed

lemma json_dumps_JObj:
  "json_dumps (JObj kvs) = CHR ''{'' # py_join (CHR '','') (map member_str (sort_key fst kvs)) @ ''}''"
  by (simp add: sort_key_values case_prod_beta comp_def)

lemma reads_back_JObj:
  assumes "\<forall>kv \<in> set kvs. reads_back (snd kv)" and "distinct (map fst kvs)"
  shows "reads_back (JObj kvs)"
proof -
  have sorted: "\<forall>kv \<in> set (sort_key fst kvs). reads_back (snd kv)" using assms(1) by simp
  have "distinct (map fst (map (map_prod id canon) (sort_key fst kvs)))"
    using assms(2) by (simp add: distinct_map inj_on_def comp_def map_prod_def case_prod_beta)
  then have dict: "dict_of (map (map_prod id canon) (sort_key fst kvs)) = sort_key fst (map (map_prod id canon) kvs)"
    by (simp add: dict_of_distinct sort_key_values)
  show ?thesis
    unfolding reads_back_def
  proof (intro allI impI)
    fix n rest assume n: "2 * length (json_dumps (JObj kvs)) \<le> n"
    then obtain m where m: "n = Suc m" unfolding json_dumps_JObj by (cases n) auto
    show "pval n (json_dumps (JObj kvs) @ rest) = Some (canon (JObj kvs), rest)"
    proof (cases "sort_key fst kvs")
      case Nil
      then show ?thesis using m dict unfolding json_dumps_JObj by (simp add: dict_of_def)
    next
      case (Cons kv l)
      let ?body = "py_join (CHR '','') (map member_str (kv # l)) @ CHR ''}'' # rest"
      have "pmembers m ?body = Some (map (map_prod id canon) (kv # l), rest)"
        using sorted n m Cons unfolding json_dumps_JObj by (intro pmembers_dumps) auto
      moreover have "skip_ws ?body = ?body" by simp
      moreover have "hd ?body = CHR 0x22" by (cases l) (simp_all add: json_str_def)
      ultimately show ?thesis
        using m Cons dict unfolding json_dumps_JObj by (simp del: pmembers.simps skip_ws_member)
    qed
  qed
qed


lemma reads_back_JList:
  assumes "\<forall>x \<in> set xs. reads_back x"
  shows "reads_back (JList xs)"
  unfolding reads_back_def
proof (intro allI impI)
  fix n rest assume n: "2 * length (json_dumps (JList xs)) \<le> n"
  then obtain m where m: "n = Suc m" by (cases n) auto
  show "pval n (json_dumps (JList xs) @ rest) = Some (canon (JList xs), rest)"
  proof (cases xs)
    case Nil
    then show ?thesis using m by simp
  next
    case (Cons x l)
    let ?body = "py_join (CHR '','') (map json_dumps (x # l)) @ CHR '']'' # rest"
    have "pelems m ?body = Some (map canon (x # l), rest)"
      using assms n m Cons by (intro pelems_dumps) auto
    moreover have "skip_ws ?body = ?body" by (rule skip_ws_join)
    moreover have "hd ?body \<noteq> CHR '']''" using hd_json_dumps [of x] by (cases l) auto
    ultimately show ?thesis using m Cons by (simp del: pelems.simps skip_ws_join)
  qed
qed

lemma pval_number: "delimited rest \<Longrightarrow> pval (Suc n) (dec_int k @ rest) = Some (JInt k, rest)"
proof -
  assume d: "delimited rest"
  have dig: "is_digit c \<or> c = CHR ''-''" if "dec_int k @ rest = c # t" for c t
    using that dec_nat_digits [of "nat k"] dec_nat_not_Nil [of "nat k"]
    by (cases "dec_nat (nat k)") (auto simp: dec_int_def split: if_splits)
  obtain c t where ct: "dec_int k @ rest = c # t"
    using dec_nat_not_Nil by (cases "dec_int k @ rest") (auto simp: dec_int_def split: if_splits)
  have "c \<notin> set [CHR 0x22, CHR ''['', CHR ''{'', CHR ''n'', CHR ''t'', CHR ''f'']"
    using dig [OF ct] by (auto simp: is_digit_def)
  then show ?thesis
    using pnumber_dec_int [OF d, of k] ct by (auto simp: starts_with_def)
qed

lemma pval_literal:
  "0 < n \<Longrightarrow> pval n (''null'' @ rest) = Some (JNull, rest)"
  "0 < n \<Longrightarrow> pval n (''true'' @ rest) = Some (JBool True, rest)"
  "0 < n \<Longrightarrow> pval n (''false'' @ rest) = Some (JBool False, rest)"
  by (cases n; simp add: starts_with_def)+

lemma reads_back: "wf_json j \<Longrightarrow> reads_back j"
proof (induction j)
  case (JInt k)
  have "pval n (dec_int k @ rest) = Some (JInt k, rest)" if le: "2 * length (dec_int k) \<le> n" and d: "delimited rest" for n rest
  proof -
    have "dec_int k \<noteq> []" by (simp add: dec_int_def dec_nat_not_Nil)
    then obtain m where "n = Suc m" using le by (cases n) auto
    then show ?thesis using pval_number [OF d] by simp
  qed
  then show ?case by (simp add: reads_back_def)
next
  case (JList xs)
  then show ?case by (intro reads_back_JList) (auto simp: list_all_iff)
next
  case (JObj kvs)
  have "reads_back (snd kv)" if "kv \<in> set kvs" for kv
    using JObj.prems JObj.IH [of kv "snd kv"] that by (auto simp: list_all_iff snds.simps)
  then show ?case using JObj.prems by (intro reads_back_JObj) auto
qed (auto simp: reads_back_def json_str_def pstr_json_str pval_literal [simplified] dest!: Suc_le_D)

lemma json_round_trip_aux: "wf_json j \<Longrightarrow> json_loads (json_dumps j) = Some (canon j)"
proof -
  assume "wf_json j"
  then have "pval (2 * length (json_dumps j) + 1) (json_dumps j @ []) = Some (canon j, [])"
    using reads_back [of j, unfolded reads_back_def, rule_format, of "2 * length (json_dumps j) + 1" "[]"] by simp
  moreover have "skip_ws (json_dumps j) = json_dumps j" using skip_ws_dumps [of j "[]"] by simp
  ultimately show ?thesis by (simp add: json_loads_def)
qed

text \<open>
  The JSON text the service signs, hashes and encrypts is decodable: what \<open>json.dumps\<close> prints for any
  value whose dicts have distinct keys, \<open>json.loads\<close> reads back as that value with the keys of every dict in
  sorted order. The parser returns within its fuel on every such text, whatever the nesting, and two values
  with the same text have the same canonical form, so a signature over the text is one over the value.
\<close>

theorem json_round_trip:
  "wf_json j \<Longrightarrow> json_loads (json_dumps j) = Some (canon j) \<and> (wf_json k \<and> json_dumps k = json_dumps j \<longrightarrow> canon k = canon j)"
  using json_round_trip_aux [of j] json_round_trip_aux [of k] by auto

theorem json_round_trip_witness:
  "json_loads (json_dumps (JObj [(''b'', JList [JInt (- 12), JNull]), (''a'', JStr [CHR 0x22, CHR 0x0A])]))
     = Some (JObj [(''a'', JStr [CHR 0x22, CHR 0x0A]), (''b'', JList [JInt (- 12), JNull])])"
  using json_round_trip [of "JObj [(''b'', JList [JInt (- 12), JNull]), (''a'', JStr [CHR 0x22, CHR 0x0A])]"] by simp

end
