(* ===== verification/Fsrs.thy ===== *)
theory Fsrs
  imports Prelude
begin

text \<open>
  The review scheduler, \<open>packages/domain-python/src/memdot_domain/fsrs.py\<close>: the card, the
  four ratings, the interval update and the scheduling priority.

  A Python float is modelled by the exact rational it stands for, so the model is the
  scheduler without binary rounding error. \<open>round(x, 4)\<close> is \<open>round4\<close>, a
  \<open>timedelta\<close> of a fractional number of days is rounded to whole microseconds, and a
  due date past the end of year 9999 raises \<open>OverflowError\<close> as \<open>datetime\<close> does.
\<close>

section \<open>Cards and ratings\<close>

datatype FsrsRating = AGAIN | HARD | GOOD | EASY

record FsrsCard =
  card_stability :: rat
  card_difficulty :: rat
  card_reps :: int
  card_lapses :: int
  card_due_at :: datetime
  card_last_review_at :: "datetime option"

definition initial_card :: "datetime \<Rightarrow> FsrsCard" where
  "initial_card now =
     \<lparr> card_stability = 1, card_difficulty = 5, card_reps = 0, card_lapses = 0, card_due_at = now,
       card_last_review_at = None \<rparr>"

definition map_outcome_to_rating :: "bool \<Rightarrow> bool \<Rightarrow> bool \<Rightarrow> bool \<Rightarrow> bool \<Rightarrow> FsrsRating" where
  "map_outcome_to_rating correct revealed substantive_hint scaffold effortless =
     (if \<not> correct \<or> revealed \<or> substantive_hint then AGAIN
      else if scaffold then HARD
      else if effortless then EASY
      else GOOD)"

section \<open>The interval update\<close>

text \<open>One day, ten minutes and the greatest \<open>datetime\<close> in microseconds.\<close>

definition us_per_day :: int where "us_per_day = 86400000000"
definition ten_minutes :: int where "ten_minutes = 600000000"
definition datetime_max :: datetime where "datetime_max = 253402300799999999"

definition round4 :: "rat \<Rightarrow> rat" where
  "round4 x = of_int (round_half_even (x * 10000)) / 10000"

definition timedelta_days :: "rat \<Rightarrow> int" where
  "timedelta_days d = round_half_even (d * of_int us_per_day)"

text \<open>The values the four branches compute before the card is rounded and built.\<close>

definition next_stability :: "FsrsRating \<Rightarrow> rat \<Rightarrow> rat" where
  "next_stability r s =
     (case r of AGAIN \<Rightarrow> max (1 / 2) (s * (1 / 2))
      | HARD \<Rightarrow> max 1 (s * (12 / 10))
      | GOOD \<Rightarrow> max 1 (s * (18 / 10))
      | EASY \<Rightarrow> max 1 (s * (24 / 10)))"

definition next_difficulty :: "FsrsRating \<Rightarrow> rat \<Rightarrow> rat" where
  "next_difficulty r d =
     (case r of AGAIN \<Rightarrow> min 10 (d + 1)
      | HARD \<Rightarrow> min 10 (d + 1 / 2)
      | GOOD \<Rightarrow> d
      | EASY \<Rightarrow> max 1 (d - 1 / 2))"

definition next_delay :: "FsrsRating \<Rightarrow> rat \<Rightarrow> int" where
  "next_delay r s =
     (case r of AGAIN \<Rightarrow> ten_minutes
      | HARD \<Rightarrow> timedelta_days (max 1 (s * (8 / 10)))
      | GOOD \<Rightarrow> timedelta_days (max 1 s)
      | EASY \<Rightarrow> timedelta_days (max 2 (s * (13 / 10))))"

definition schedule :: "FsrsCard \<Rightarrow> FsrsRating \<Rightarrow> datetime \<Rightarrow> FsrsCard res" where
  "schedule c r now =
     (let s = next_stability r (card_stability c);
          d = next_difficulty r (card_difficulty c);
          due = now + next_delay r s
      in if datetime_max < due then Inl OverflowError
         else Inr \<lparr> card_stability = round4 s, card_difficulty = round4 d,
                    card_reps = (if r = AGAIN then 0 else card_reps c + 1),
                    card_lapses = (if r = AGAIN then card_lapses c + 1 else card_lapses c),
                    card_due_at = due, card_last_review_at = Some now \<rparr>)"

section \<open>Priority\<close>

definition scheduling_priority ::
    "string \<Rightarrow> datetime option \<Rightarrow> bool \<Rightarrow> bool \<Rightarrow> datetime \<Rightarrow> int" where
  "scheduling_priority recall_state due is_prerequisite pinned now =
     (if recall_state = ''lapsed'' \<and> is_prerequisite then 0
      else if recall_state = ''due'' \<and> is_prerequisite then 1
      else if (case due of None \<Rightarrow> False | Some d \<Rightarrow> d \<le> now) then 2
      else if pinned then 4
      else 3)"

section \<open>Rounding lemmas\<close>

lemma round4_mono: "x \<le> y \<Longrightarrow> round4 x \<le> round4 y"
  unfolding round4_def by (intro divide_right_mono) (auto intro!: round_half_even_mono)

lemma round4_grid: "round4 (of_int n / 10000) = of_int n / 10000"
  by (simp add: round4_def)

lemma round4_consts [simp]:
  "round4 (1 / 2) = 1 / 2" "round4 1 = 1" "round4 10 = 10"
  using round4_grid [of 5000] round4_grid [of 10000] round4_grid [of 100000] by simp_all

lemma round4_bounds:
  "1 / 2 \<le> x \<Longrightarrow> 1 / 2 \<le> round4 x" "1 \<le> x \<Longrightarrow> 1 \<le> round4 x" "x \<le> 10 \<Longrightarrow> round4 x \<le> 10"
  using round4_mono [of "1 / 2" x] round4_mono [of 1 x] round4_mono [of x 10] by simp_all

lemma round4_half: "1 \<le> x * 2 \<Longrightarrow> 1 \<le> round4 x * 2"
  using round4_bounds(1) [of x] by simp

lemma round4_idem [simp]: "round4 (round4 x) = round4 x"
  using round4_grid [of "round_half_even (x * 10000)"] by (simp add: round4_def)

lemma timedelta_days_mono: "x \<le> y \<Longrightarrow> timedelta_days x \<le> timedelta_days y"
  unfolding timedelta_days_def us_per_day_def by (intro round_half_even_mono) simp

lemma timedelta_days_of_int [simp]: "timedelta_days (of_int n) = n * us_per_day"
  using round_half_even_of_int [of "n * us_per_day"] by (simp add: timedelta_days_def)

lemma timedelta_days_consts [simp]:
  "timedelta_days 1 = us_per_day" "timedelta_days 2 = 2 * us_per_day"
  using timedelta_days_of_int [of 1] timedelta_days_of_int [of 2] by simp_all

section \<open>The card invariant\<close>

definition wf_card :: "FsrsCard \<Rightarrow> bool" where
  "wf_card c \<longleftrightarrow> 1 / 2 \<le> card_stability c \<and> 1 \<le> card_difficulty c \<and> card_difficulty c \<le> 10 \<and>
     0 \<le> card_reps c \<and> 0 \<le> card_lapses c"

lemma wf_initial_card [simp]: "wf_card (initial_card now)"
  by (simp add: wf_card_def initial_card_def)

lemma next_stability_ge: "1 / 2 \<le> s \<Longrightarrow> 1 / 2 \<le> next_stability r s"
  by (cases r) (auto simp: next_stability_def)

lemma next_difficulty_range:
  "1 \<le> d \<Longrightarrow> d \<le> 10 \<Longrightarrow> 1 \<le> next_difficulty r d \<and> next_difficulty r d \<le> 10"
  by (cases r) (auto simp: next_difficulty_def)

lemma wf_card_schedule: "wf_card c \<Longrightarrow> schedule c r now = Inr c' \<Longrightarrow> wf_card c'"
  using next_stability_ge [of "card_stability c" r] next_difficulty_range [of "card_difficulty c" r]
  by (auto simp: schedule_def wf_card_def Let_def round4_bounds round4_half split: if_splits)

text \<open>A review history: the ratings in order, each with the time it was given.\<close>

fun review :: "FsrsCard \<Rightarrow> (FsrsRating \<times> datetime) list \<Rightarrow> FsrsCard res" where
  "review c [] = Inr c"
| "review c ((r, now) # hs) = bindr (schedule c r now) (\<lambda>c'. review c' hs)"

lemma wf_card_review: "wf_card c \<Longrightarrow> review c hs = Inr c' \<Longrightarrow> wf_card c'"
  by (induction c hs rule: review.induct) (auto simp: bindr_Inr_iff intro: wf_card_schedule)

lemma lapses_review:
  "review c hs = Inr c' \<Longrightarrow> card_lapses c' = card_lapses c + int (length (filter (\<lambda>h. fst h = AGAIN) hs))"
  by (induction c hs rule: review.induct)
    (auto simp: bindr_Inr_iff schedule_def Let_def split: if_splits)

section \<open>Delays\<close>

lemma next_delay_lower:
  "next_delay r s \<ge> (case r of AGAIN \<Rightarrow> ten_minutes | HARD \<Rightarrow> us_per_day
     | GOOD \<Rightarrow> us_per_day | EASY \<Rightarrow> 2 * us_per_day)"
  using timedelta_days_mono [of 1 "max 1 (s * (8 / 10))"] timedelta_days_mono [of 1 "max 1 s"]
    timedelta_days_mono [of 2 "max 2 (s * (13 / 10))"]
  by (cases r) (simp_all add: next_delay_def)

lemma next_delay_order:
  assumes "0 \<le> s"
  shows "next_delay AGAIN (next_stability AGAIN s) < next_delay HARD (next_stability HARD s)"
    and "next_delay HARD (next_stability HARD s) \<le> next_delay GOOD (next_stability GOOD s)"
    and "next_delay GOOD (next_stability GOOD s) \<le> next_delay EASY (next_stability EASY s)"
proof -
  show "next_delay AGAIN (next_stability AGAIN s) < next_delay HARD (next_stability HARD s)"
    using next_delay_lower [of HARD "next_stability HARD s"]
    by (simp add: next_delay_def [of AGAIN] ten_minutes_def us_per_day_def)
  have "max 1 (max 1 (s * (12 / 10)) * (8 / 10)) \<le> max 1 (max 1 (s * (18 / 10)))"
    using assms by (simp add: max_def)
  then show "next_delay HARD (next_stability HARD s) \<le> next_delay GOOD (next_stability GOOD s)"
    by (simp only: next_delay_def next_stability_def FsrsRating.case timedelta_days_mono)
  have "max 1 (max 1 (s * (18 / 10))) \<le> max 2 (max 1 (s * (24 / 10)) * (13 / 10))"
    using assms by (simp add: max_def)
  then show "next_delay GOOD (next_stability GOOD s) \<le> next_delay EASY (next_stability EASY s)"
    by (simp only: next_delay_def next_stability_def FsrsRating.case timedelta_days_mono)
qed

section \<open>Repetitions and due dates over a history\<close>

definition streak :: "(FsrsRating \<times> datetime) list \<Rightarrow> int" where
  "streak hs = int (length (takeWhile (\<lambda>h. fst h \<noteq> AGAIN) (rev hs)))"

lemma schedule_reps:
  "schedule c r now = Inr c' \<Longrightarrow> card_reps c' = (if r = AGAIN then 0 else card_reps c + 1)"
  by (auto simp: schedule_def Let_def split: if_splits)

lemma review_reps:
  "review c hs = Inr c' \<Longrightarrow>
     card_reps c' = streak hs + (if \<exists>h \<in> set hs. fst h = AGAIN then 0 else card_reps c)"
proof (induction c hs rule: review.induct)
  case (2 c r now hs)
  then obtain x where x: "schedule c r now = Inr x" "review x hs = Inr c'"
    by (auto simp: bindr_Inr_iff)
  have ih: "card_reps c' = streak hs + (if \<exists>h \<in> set hs. fst h = AGAIN then 0 else card_reps x)"
    using 2(1) [OF x] .
  show ?case
  proof (cases "\<exists>h \<in> set hs. fst h = AGAIN")
    case True
    then have "streak ((r, now) # hs) = streak hs"
      by (auto simp: streak_def takeWhile_append)
    then show ?thesis using ih True by auto
  next
    case False
    then have "takeWhile (\<lambda>h. fst h \<noteq> AGAIN) (rev hs) = rev hs"
      by (auto simp: takeWhile_eq_all_conv)
    then have "streak hs = int (length hs)" and
      "streak ((r, now) # hs) = int (length hs) + (if r = AGAIN then 0 else 1)"
      using False by (simp_all add: streak_def takeWhile_append del: takeWhile_eq_all_conv)
    then show ?thesis using ih False schedule_reps [OF x(1)] by auto
  qed
qed (simp add: streak_def)

lemma next_delay_pos: "0 < next_delay r s"
  using next_delay_lower [of r s] by (cases r) (auto simp: ten_minutes_def us_per_day_def)

lemma review_snoc: "review c (hs @ [(r, now)]) = bindr (review c hs) (\<lambda>c'. schedule c' r now)"
proof (induction c hs rule: review.induct)
  case (1 c)
  then show ?case by (cases "schedule c r now") auto
next
  case (2 c r' now' hs)
  then show ?case by (cases "schedule c r' now'") auto
qed

text \<open>Answering every review GOOD exactly when it is due.\<close>

fun on_time_good :: "nat \<Rightarrow> FsrsCard \<Rightarrow> FsrsCard res" where
  "on_time_good 0 c = Inr c"
| "on_time_good (Suc n) c = bindr (schedule c GOOD (card_due_at c)) (on_time_good n)"

section \<open>Properties\<close>

text \<open>
  (C39) Whatever the history of ratings of a new card, the card stays well-formed (stability at
  least 0.5, difficulty between 1 and 10, counters non-negative), \<open>lapses\<close> counts the AGAIN
  ratings and \<open>reps\<close> the ratings since the last AGAIN.
\<close>

theorem review_history:
  assumes "review (initial_card created) hs = Inr c"
  shows "wf_card c \<and> card_lapses c = int (length (filter (\<lambda>h. fst h = AGAIN) hs)) \<and>
    card_reps c = streak hs"
  using wf_card_review [OF wf_initial_card assms] lapses_review [OF assms] review_reps [OF assms]
  by (simp add: initial_card_def)

theorem review_history_witness:
  "\<exists>c. review (initial_card 0) [(GOOD, 0), (AGAIN, 5), (HARD, 9)] = Inr c \<and> wf_card c \<and>
     card_lapses c = 1 \<and> card_reps c = 1"
proof -
  let ?hs = "[(GOOD, 0), (AGAIN, 5), (HARD, 9)] :: (FsrsRating \<times> datetime) list"
  have "\<not> isl (review (initial_card 0) ?hs)"
    by code_simp
  then obtain c where c: "review (initial_card 0) ?hs = Inr c" by (auto simp: not_isl_iff)
  show ?thesis
    using review_history [OF c] c by (auto simp: streak_def)
qed

text \<open>
  A better rating never brings the next review forward: the delays a review of the same card
  gets are ordered AGAIN, HARD, GOOD, EASY, the first one strictly below the second; AGAIN is due
  in ten minutes, HARD and GOOD in at least a day, EASY in at least two.
\<close>

theorem schedule_delay_order:
  assumes "wf_card c" and "schedule c AGAIN now = Inr ca" and "schedule c HARD now = Inr ch"
    and "schedule c GOOD now = Inr cg" and "schedule c EASY now = Inr ce"
  shows "card_due_at ca = now + ten_minutes \<and> card_due_at ca < card_due_at ch \<and>
    now + us_per_day \<le> card_due_at ch \<and> card_due_at ch \<le> card_due_at cg \<and>
    card_due_at cg \<le> card_due_at ce \<and> now + 2 * us_per_day \<le> card_due_at ce"
proof -
  have due: "card_due_at c' = now + next_delay r (next_stability r (card_stability c))"
    if "schedule c r now = Inr c'" for r c'
    using that by (auto simp: schedule_def Let_def split: if_splits)
  have "0 \<le> card_stability c" using assms(1) by (simp add: wf_card_def)
  note order = next_delay_order [OF this]
  show ?thesis
    using order next_delay_lower [of HARD "next_stability HARD (card_stability c)"]
      next_delay_lower [of EASY "next_stability EASY (card_stability c)"]
    by (simp add: due [OF assms(2)] due [OF assms(3)] due [OF assms(4)] due [OF assms(5)]
        next_delay_def [of AGAIN])
qed

theorem schedule_delay_order_witness:
  "\<exists>ca ch cg ce. schedule (initial_card 0) AGAIN 0 = Inr ca \<and> schedule (initial_card 0) HARD 0 = Inr ch \<and>
     schedule (initial_card 0) GOOD 0 = Inr cg \<and> schedule (initial_card 0) EASY 0 = Inr ce \<and>
     card_due_at ca < card_due_at ch \<and> card_due_at cg \<le> card_due_at ce"
proof -
  have "\<not> isl (schedule (initial_card 0) AGAIN 0)" "\<not> isl (schedule (initial_card 0) HARD 0)"
    "\<not> isl (schedule (initial_card 0) GOOD 0)" "\<not> isl (schedule (initial_card 0) EASY 0)"
    by code_simp+
  then show ?thesis
    unfolding not_isl_iff using schedule_delay_order [OF wf_initial_card, of 0 0] by blast
qed

text \<open>
  The intervals have no cap, so a card that is always answered GOOD on time leaves the range of
  \<open>datetime\<close>: for a card created on 1 January 2026 the first 23 reviews succeed and the
  24th raises \<open>OverflowError\<close>.
\<close>

theorem schedule_overflow:
  "on_time_good 24 (initial_card 1767225600000000) = Inl OverflowError \<and>
   \<not> isl (on_time_good 23 (initial_card 1767225600000000))"
  by code_simp

end
