(* ===== verification/Learning.thy ===== *)
theory Learning
  imports Json
begin

text \<open>
  The learning vocabulary, \<open>packages/domain-python/src/memdot_domain/learning.py\<close>: the string
  enumerations with their values and parsers, and the classification of an event as
  evidence of mastery.

  A \<open>StrEnum\<close> is a datatype with a \<open>value\<close> function. \<open>Enum(s)\<close> parses a string and
  raises \<open>ValueError\<close> when no member has that value.
\<close>

section \<open>Enumerations\<close>

datatype CurriculumNodeKind = UNIT | OBJECTIVE | CONCEPT | SOURCE_UNIT

definition node_kind_value :: "CurriculumNodeKind \<Rightarrow> string" where
  "node_kind_value k =
     (case k of UNIT \<Rightarrow> ''unit'' | OBJECTIVE \<Rightarrow> ''objective'' | CONCEPT \<Rightarrow> ''concept''
      | SOURCE_UNIT \<Rightarrow> ''source_unit'')"

datatype ConfirmationState = SUGGESTED | CONFIRMED

definition confirmation_value :: "ConfirmationState \<Rightarrow> string" where
  "confirmation_value c = (case c of SUGGESTED \<Rightarrow> ''suggested'' | CONFIRMED \<Rightarrow> ''confirmed'')"

datatype AssessmentItemType = MCQ | SHORT_ANSWER | WRITTEN

definition item_type_value :: "AssessmentItemType \<Rightarrow> string" where
  "item_type_value t =
     (case t of MCQ \<Rightarrow> ''mcq'' | SHORT_ANSWER \<Rightarrow> ''short_answer'' | WRITTEN \<Rightarrow> ''written'')"

datatype AssessmentState = DRAFT | PROVISIONAL | HUMAN_VERIFIED | RETIRED

definition assessment_state_value :: "AssessmentState \<Rightarrow> string" where
  "assessment_state_value s =
     (case s of DRAFT \<Rightarrow> ''draft'' | PROVISIONAL \<Rightarrow> ''provisional''
      | HUMAN_VERIFIED \<Rightarrow> ''human_verified'' | RETIRED \<Rightarrow> ''retired'')"

datatype LearnerEventType =
    ATTEMPT_STARTED | RESPONSE_CAPTURED | CONFIDENCE_RECORDED | HINT_REQUESTED | HINT_REVEALED
  | ANSWER_REVEALED | GRADE_RECORDED | REVIEW_RATED | ITEM_RETIRED | USER_CHAT_MARKER
  | PROJECTION_CORRECTED

definition event_type_value :: "LearnerEventType \<Rightarrow> string" where
  "event_type_value t =
     (case t of ATTEMPT_STARTED \<Rightarrow> ''attempt_started'' | RESPONSE_CAPTURED \<Rightarrow> ''response_captured''
      | CONFIDENCE_RECORDED \<Rightarrow> ''confidence_recorded'' | HINT_REQUESTED \<Rightarrow> ''hint_requested''
      | HINT_REVEALED \<Rightarrow> ''hint_revealed'' | ANSWER_REVEALED \<Rightarrow> ''answer_revealed''
      | GRADE_RECORDED \<Rightarrow> ''grade_recorded'' | REVIEW_RATED \<Rightarrow> ''review_rated''
      | ITEM_RETIRED \<Rightarrow> ''item_retired'' | USER_CHAT_MARKER \<Rightarrow> ''user_chat_marker''
      | PROJECTION_CORRECTED \<Rightarrow> ''projection_corrected'')"

datatype EvidenceEligibility = ELIGIBLE | INELIGIBLE

definition eligibility_value :: "EvidenceEligibility \<Rightarrow> string" where
  "eligibility_value e = (case e of ELIGIBLE \<Rightarrow> ''eligible'' | INELIGIBLE \<Rightarrow> ''ineligible'')"

datatype EvidenceState = UNASSESSED | PRACTICING | DEMONSTRATED | DELAYED_DEMONSTRATED

definition evidence_state_value :: "EvidenceState \<Rightarrow> string" where
  "evidence_state_value s =
     (case s of UNASSESSED \<Rightarrow> ''unassessed'' | PRACTICING \<Rightarrow> ''practicing''
      | DEMONSTRATED \<Rightarrow> ''demonstrated'' | DELAYED_DEMONSTRATED \<Rightarrow> ''delayed_demonstrated'')"

datatype RecallState = CURRENT | DUE | LAPSED

definition recall_state_value :: "RecallState \<Rightarrow> string" where
  "recall_state_value s = (case s of CURRENT \<Rightarrow> ''current'' | DUE \<Rightarrow> ''due'' | LAPSED \<Rightarrow> ''lapsed'')"

datatype ConfidenceLabel = GUESSING | UNSURE | SURE

definition confidence_value :: "ConfidenceLabel \<Rightarrow> string" where
  "confidence_value c = (case c of GUESSING \<Rightarrow> ''guessing'' | UNSURE \<Rightarrow> ''unsure'' | SURE \<Rightarrow> ''sure'')"

section \<open>Parsing a member from its value\<close>

definition enum_parse :: "('e \<Rightarrow> string) \<Rightarrow> 'e list \<Rightarrow> string \<Rightarrow> 'e res" where
  "enum_parse value members s =
     (case find (\<lambda>m. value m = s) members of
        None \<Rightarrow> Inl (ValueError s) | Some m \<Rightarrow> Inr m)"

definition parse_node_kind :: "string \<Rightarrow> CurriculumNodeKind res" where
  "parse_node_kind = enum_parse node_kind_value [UNIT, OBJECTIVE, CONCEPT, SOURCE_UNIT]"

definition parse_confirmation :: "string \<Rightarrow> ConfirmationState res" where
  "parse_confirmation = enum_parse confirmation_value [SUGGESTED, CONFIRMED]"

definition parse_item_type :: "string \<Rightarrow> AssessmentItemType res" where
  "parse_item_type = enum_parse item_type_value [MCQ, SHORT_ANSWER, WRITTEN]"

definition parse_event_type :: "string \<Rightarrow> LearnerEventType res" where
  "parse_event_type = enum_parse event_type_value
     [ATTEMPT_STARTED, RESPONSE_CAPTURED, CONFIDENCE_RECORDED, HINT_REQUESTED, HINT_REVEALED,
      ANSWER_REVEALED, GRADE_RECORDED, REVIEW_RATED, ITEM_RETIRED, USER_CHAT_MARKER,
      PROJECTION_CORRECTED]"

lemma enum_parse_InrD: "enum_parse value ms s = Inr m \<Longrightarrow> value m = s"
  by (auto simp: enum_parse_def find_Some_iff split: option.splits)

lemma enum_parse_value:
  "m \<in> set ms \<Longrightarrow> inj_on value (set ms) \<Longrightarrow> enum_parse value ms (value m) = Inr m"
  by (auto simp: enum_parse_def find_None_iff find_Some_iff inj_on_def split: option.splits)

lemma inj_event_type_value: "inj event_type_value"
proof (rule injI)
  fix a b assume "event_type_value a = event_type_value b"
  then show "a = b" by (cases a; cases b; simp add: event_type_value_def)
qed

lemma inj_confirmation_value: "inj confirmation_value"
  by (rule injI) (auto simp: confirmation_value_def split: ConfirmationState.splits)

lemma parse_event_type_value [simp]: "parse_event_type (event_type_value t) = Inr t"
  unfolding parse_event_type_def
proof (rule enum_parse_value)
  show "t \<in> set [ATTEMPT_STARTED, RESPONSE_CAPTURED, CONFIDENCE_RECORDED, HINT_REQUESTED,
      HINT_REVEALED, ANSWER_REVEALED, GRADE_RECORDED, REVIEW_RATED, ITEM_RETIRED,
      USER_CHAT_MARKER, PROJECTION_CORRECTED]"
    by (cases t) simp_all
qed (rule inj_on_subset [OF inj_event_type_value subset_UNIV])

lemma parse_event_type_InrD: "parse_event_type s = Inr t \<Longrightarrow> event_type_value t = s"
  unfolding parse_event_type_def by (rule enum_parse_InrD)

lemma parse_confirmation_InrD: "parse_confirmation s = Inr c \<Longrightarrow> confirmation_value c = s"
  unfolding parse_confirmation_def by (rule enum_parse_InrD)

section \<open>Eligibility\<close>

definition INELIGIBLE_MASTERY_EVENTS :: "LearnerEventType list" where
  "INELIGIBLE_MASTERY_EVENTS = [HINT_REVEALED, ANSWER_REVEALED, USER_CHAT_MARKER]"

definition classify_event_eligibility ::
    "string \<Rightarrow> bool \<Rightarrow> bool \<Rightarrow> bool \<Rightarrow> (EvidenceEligibility \<times> string option) res" where
  "classify_event_eligibility event_type answer_revealed substantive_hint response_before_feedback =
     bindr (parse_event_type event_type) (\<lambda>et.
       if et \<in> set INELIGIBLE_MASTERY_EVENTS then Inr (INELIGIBLE, Some (event_type_value et))
       else if answer_revealed then Inr (INELIGIBLE, Some ''answer_revealed'')
       else if substantive_hint then Inr (INELIGIBLE, Some ''substantive_hint'')
       else if \<not> response_before_feedback \<and> et = GRADE_RECORDED
         then Inr (INELIGIBLE, Some ''response_after_feedback'')
       else Inr (ELIGIBLE, None))"

lemma classify_eligible_iff:
  "classify_event_eligibility s ar sh rbf = Inr (ELIGIBLE, r) \<longleftrightarrow>
     r = None \<and> \<not> ar \<and> \<not> sh \<and>
     (\<exists>et. parse_event_type s = Inr et \<and> et \<notin> set INELIGIBLE_MASTERY_EVENTS \<and>
        (rbf \<or> et \<noteq> GRADE_RECORDED))"
  by (auto simp: classify_event_eligibility_def bindr_Inr_iff)

end
