(* ===== verification/Evidence.thy ===== *)
theory Evidence
  imports Learning Ids
begin

text \<open>
  The Evidence Twin, \<open>packages/domain-python/src/memdot_domain/evidence_twin.py\<close>: a projection of
  the learner's event log onto a state per concept.

  The source keeps a dict of mutable \<open>ConceptEvidence\<close> objects; the model keeps an association
  list in the dict's insertion order and updates an entry in place. The loop body is
  \<open>replay_step\<close> (what happens to an event that was not seen before), the loop with its
  \<open>seen\<close> set is \<open>replay_loop\<close>.
\<close>

section \<open>Records\<close>

record LearnerEventRecord =
  ler_event_id :: uuid
  ler_event_type :: string
  ler_concept_node_id :: "uuid option"
  ler_assessment_item_id :: "uuid option"
  ler_occurred_at :: datetime
  ler_eligibility :: string
  ler_payload :: dict

record ConceptEvidence =
  ce_concept_node_id :: uuid
  ce_evidence_state :: EvidenceState
  ce_recall_state :: RecallState
  ce_eligible_grades :: int
  ce_ineligible_hits :: int

definition new_evidence :: "uuid \<Rightarrow> ConceptEvidence" where
  "new_evidence c =
     \<lparr> ce_concept_node_id = c, ce_evidence_state = UNASSESSED, ce_recall_state = CURRENT,
       ce_eligible_grades = 0, ce_ineligible_hits = 0 \<rparr>"

section \<open>One event\<close>

definition apply_event :: "LearnerEventRecord \<Rightarrow> ConceptEvidence \<Rightarrow> ConceptEvidence" where
  "apply_event e st =
     (if ler_eligibility e \<noteq> eligibility_value ELIGIBLE then
        st\<lparr> ce_ineligible_hits := ce_ineligible_hits st + 1,
            ce_evidence_state :=
              (if ce_evidence_state st = UNASSESSED then PRACTICING else ce_evidence_state st) \<rparr>
      else if ler_event_type e = event_type_value ATTEMPT_STARTED then
        st\<lparr> ce_evidence_state :=
              (if ce_evidence_state st = UNASSESSED then PRACTICING else ce_evidence_state st) \<rparr>
      else if ler_event_type e = event_type_value GRADE_RECORDED then
        (if truthy (jget_or (ler_payload e) ''correct'' (JBool False)) then
           st\<lparr> ce_eligible_grades := ce_eligible_grades st + 1,
               ce_evidence_state :=
                 (if ce_eligible_grades st + 1 \<ge> 2 then DELAYED_DEMONSTRATED else DEMONSTRATED),
               ce_recall_state := CURRENT \<rparr>
         else st\<lparr> ce_evidence_state := PRACTICING, ce_recall_state := LAPSED \<rparr>)
      else if ler_event_type e = event_type_value REVIEW_RATED then
        (let rating = py_lower (py_str (jget_or (ler_payload e) ''rating'' (JStr ''again'')))
         in if rating = ''again'' then st\<lparr> ce_recall_state := LAPSED \<rparr>
            else if rating \<in> set [''hard'', ''good'', ''easy''] then st\<lparr> ce_recall_state := CURRENT \<rparr>
            else st)
      else st)"

definition replay_step ::
    "LearnerEventRecord \<Rightarrow> (uuid \<times> ConceptEvidence) list \<Rightarrow> (uuid \<times> ConceptEvidence) list" where
  "replay_step e projections =
     (case ler_concept_node_id e of
        None \<Rightarrow> projections
      | Some c \<Rightarrow>
          let st = (case map_of projections c of None \<Rightarrow> new_evidence c | Some st \<Rightarrow> st)
          in AList.update c (apply_event e st) projections)"

section \<open>The loop\<close>

fun replay_loop ::
    "uuid list \<Rightarrow> (uuid \<times> ConceptEvidence) list \<Rightarrow> LearnerEventRecord list \<Rightarrow>
     (uuid \<times> ConceptEvidence) list" where
  "replay_loop seen projections [] = projections"
| "replay_loop seen projections (e # es) =
     (if ler_event_id e \<in> set seen then replay_loop seen projections es
      else replay_loop (ler_event_id e # seen) (replay_step e projections) es)"

definition event_key :: "LearnerEventRecord \<Rightarrow> datetime \<times> string" where
  "event_key e = (ler_occurred_at e, str_uuid (ler_event_id e))"

definition replay_evidence :: "LearnerEventRecord list \<Rightarrow> (uuid \<times> ConceptEvidence) list" where
  "replay_evidence events = replay_loop [] [] (sort_key event_key events)"

section \<open>The loop as a fold over first occurrences\<close>

lemma replay_loop_fold:
  "replay_loop seen projections es = fold replay_step (first_by ler_event_id seen es) projections"
  by (induction seen projections es rule: replay_loop.induct) auto

definition canonical_log :: "LearnerEventRecord list \<Rightarrow> LearnerEventRecord list" where
  "canonical_log events = first_by ler_event_id [] (sort_key event_key events)"

lemma replay_evidence_fold: "replay_evidence events = fold replay_step (canonical_log events) []"
  by (simp add: replay_evidence_def replay_loop_fold canonical_log_def)

text \<open>An event log in which an identifier names one event.\<close>

definition coherent_log :: "LearnerEventRecord list \<Rightarrow> bool" where
  "coherent_log events \<longleftrightarrow> inj_on ler_event_id (set events)"

lemma coherent_log_key: "coherent_log events \<Longrightarrow> inj_on event_key (set events)"
  unfolding coherent_log_def event_key_def by (auto simp: inj_on_def)

lemma set_canonical_log: "coherent_log events \<Longrightarrow> set (canonical_log events) = set events"
  unfolding canonical_log_def coherent_log_def by (simp add: set_first_by_inj)

lemma distinct_canonical_log: "distinct (canonical_log events)"
  using distinct_first_by [of ler_event_id "[]" "sort_key event_key events"]
  by (simp add: canonical_log_def distinct_map)

lemma canonical_log_cong:
  assumes "coherent_log es" and "set es = set es'"
  shows "canonical_log es = canonical_log es'"
  unfolding canonical_log_def
  by (rule first_by_sort_key_cong)
    (use assms coherent_log_key in \<open>auto simp: coherent_log_def\<close>)

section \<open>What a concept's state records\<close>

text \<open>The events of a concept, and which of them are eligible correct grades.\<close>

definition concerns :: "uuid \<Rightarrow> LearnerEventRecord \<Rightarrow> bool" where
  "concerns c e \<longleftrightarrow> ler_concept_node_id e = Some c"

definition eligible_correct :: "LearnerEventRecord \<Rightarrow> bool" where
  "eligible_correct e \<longleftrightarrow>
     ler_eligibility e = eligibility_value ELIGIBLE \<and> ler_event_type e = event_type_value GRADE_RECORDED \<and>
     truthy (jget_or (ler_payload e) ''correct'' (JBool False))"

definition ineligible :: "LearnerEventRecord \<Rightarrow> bool" where
  "ineligible e \<longleftrightarrow> ler_eligibility e \<noteq> eligibility_value ELIGIBLE"

definition concept_state :: "uuid \<Rightarrow> LearnerEventRecord list \<Rightarrow> ConceptEvidence" where
  "concept_state c es = fold apply_event (filter (concerns c) es) (new_evidence c)"

lemma map_of_replay_step:
  "map_of (replay_step e p) c =
     (if concerns c e then Some (apply_event e (case map_of p c of None \<Rightarrow> new_evidence c | Some st \<Rightarrow> st))
      else map_of p c)"
  by (auto simp: replay_step_def concerns_def Let_def split: option.splits)

lemma map_of_fold_replay:
  "map_of (fold replay_step es p) c =
     (if filter (concerns c) es = [] then map_of p c
      else Some (fold apply_event (filter (concerns c) es)
             (case map_of p c of None \<Rightarrow> new_evidence c | Some st \<Rightarrow> st)))"
  by (induction es arbitrary: p) (auto simp: map_of_replay_step)

lemma map_of_replay_evidence:
  "map_of (replay_evidence events) c =
     (if filter (concerns c) (canonical_log events) = [] then None
      else Some (concept_state c (canonical_log events)))"
  by (simp add: replay_evidence_fold map_of_fold_replay concept_state_def)

lemma apply_event_grades:
  "ce_eligible_grades (apply_event e st) = ce_eligible_grades st + (if eligible_correct e then 1 else 0)"
  by (auto simp: apply_event_def eligible_correct_def Let_def event_type_value_def)

lemma apply_event_hits:
  "ce_ineligible_hits (apply_event e st) = ce_ineligible_hits st + (if ineligible e then 1 else 0)"
  by (auto simp: apply_event_def ineligible_def Let_def)

lemma fold_apply_grades:
  "ce_eligible_grades (fold apply_event es st) =
     ce_eligible_grades st + int (length (filter eligible_correct es))"
  by (induction es arbitrary: st) (auto simp: apply_event_grades)

lemma fold_apply_hits:
  "ce_ineligible_hits (fold apply_event es st) =
     ce_ineligible_hits st + int (length (filter ineligible es))"
  by (induction es arbitrary: st) (auto simp: apply_event_hits)

section \<open>Mastery needs eligible correct grades\<close>

definition mastery_ok :: "ConceptEvidence \<Rightarrow> bool" where
  "mastery_ok st \<longleftrightarrow> 0 \<le> ce_eligible_grades st \<and>
     (ce_evidence_state st = DEMONSTRATED \<longrightarrow> 1 \<le> ce_eligible_grades st) \<and>
     (ce_evidence_state st = DELAYED_DEMONSTRATED \<longrightarrow> 2 \<le> ce_eligible_grades st)"

lemma mastery_ok_apply: "mastery_ok st \<Longrightarrow> mastery_ok (apply_event e st)"
  by (auto simp: mastery_ok_def apply_event_def Let_def)

lemma mastery_ok_fold: "mastery_ok st \<Longrightarrow> mastery_ok (fold apply_event es st)"
  by (induction es arbitrary: st) (auto simp: mastery_ok_apply)

lemma mastery_ok_new [simp]: "mastery_ok (new_evidence c)"
  by (simp add: mastery_ok_def new_evidence_def)

section \<open>Properties\<close>

text \<open>
  (C37) The projection is a function of the set of events: replaying a log in which an identifier
  names one event, in any order and with any event delivered any number of times, gives the
  same projection.
\<close>

theorem replay_evidence_deterministic:
  assumes "coherent_log es" and "set es = set es'"
  shows "replay_evidence es = replay_evidence es'"
  using canonical_log_cong [OF assms] by (simp add: replay_evidence_fold)

theorem replay_evidence_deterministic_witness:
  "\<exists>e e'. e \<noteq> e' \<and> replay_evidence [e', e] \<noteq> [] \<and> replay_evidence [e', e, e'] = replay_evidence [e, e']"
proof -
  let ?e = "\<lambda>i. \<lparr> ler_event_id = i, ler_event_type = event_type_value GRADE_RECORDED,
    ler_concept_node_id = Some 7, ler_assessment_item_id = None, ler_occurred_at = int (unat i),
    ler_eligibility = eligibility_value ELIGIBLE, ler_payload = [(''correct'', JBool True)] \<rparr>"
  have "coherent_log [?e 1, ?e 2, ?e 1]" by (auto simp: coherent_log_def inj_on_def)
  then have "replay_evidence [?e 1, ?e 2, ?e 1] = replay_evidence [?e 2, ?e 1]"
    by (rule replay_evidence_deterministic) auto
  moreover have "replay_evidence [?e 1, ?e 2] \<noteq> []"
    by (simp add: replay_evidence_def event_key_def replay_step_def)
  moreover have "?e 2 \<noteq> ?e 1" by simp
  ultimately show ?thesis by (intro exI [of _ "?e 2"] exI [of _ "?e 1"] conjI)
qed

text \<open>
  Mastery is earned: in the projection of any log a concept's \<open>eligible_grades\<close> is the number
  of distinct eligible, correct grades recorded for it, \<open>ineligible_hits\<close> the number of distinct
  ineligible events; DEMONSTRATED requires at least one such grade and
  DELAYED_DEMONSTRATED at least two, whatever the rest of the log says.
\<close>

theorem replay_evidence_mastery:
  assumes "map_of (replay_evidence events) c = Some st"
  shows "ce_eligible_grades st =
      int (length (filter eligible_correct (filter (concerns c) (canonical_log events)))) \<and>
    ce_ineligible_hits st =
      int (length (filter ineligible (filter (concerns c) (canonical_log events)))) \<and>
    (ce_evidence_state st = DEMONSTRATED \<longrightarrow> 1 \<le> ce_eligible_grades st) \<and>
    (ce_evidence_state st = DELAYED_DEMONSTRATED \<longrightarrow> 2 \<le> ce_eligible_grades st)"
proof -
  have st: "st = concept_state c (canonical_log events)"
    using assms by (auto simp: map_of_replay_evidence split: if_splits)
  have "mastery_ok st"
    unfolding st concept_state_def by (rule mastery_ok_fold) simp
  then show ?thesis
    by (simp add: st concept_state_def fold_apply_grades fold_apply_hits new_evidence_def mastery_ok_def)
qed

theorem replay_evidence_mastery_witness:
  "\<exists>events st. map_of (replay_evidence events) 7 = Some st \<and>
     ce_evidence_state st = DELAYED_DEMONSTRATED \<and> 2 \<le> ce_eligible_grades st"
proof -
  let ?e = "\<lambda>i. \<lparr> ler_event_id = i, ler_event_type = event_type_value GRADE_RECORDED,
    ler_concept_node_id = Some 7, ler_assessment_item_id = None, ler_occurred_at = int (unat i),
    ler_eligibility = eligibility_value ELIGIBLE, ler_payload = [(''correct'', JBool True)] \<rparr>"
  have "map_option ce_evidence_state (map_of (replay_evidence [?e 1, ?e 2]) 7) = Some DELAYED_DEMONSTRATED"
    by (simp add: replay_evidence_def event_key_def replay_step_def apply_event_def new_evidence_def
        eligibility_value_def event_type_value_def jget_or_def jget_def)
  then obtain st where st: "map_of (replay_evidence [?e 1, ?e 2]) 7 = Some st"
    "ce_evidence_state st = DELAYED_DEMONSTRATED" by auto
  show ?thesis
    using replay_evidence_mastery [OF st(1)] st by blast
qed

end
