(* ===== verification/Curriculum.thy ===== *)
theory Curriculum
  imports Learning
begin

text \<open>
  Cycle detection on prerequisite edges, \<open>would_create_cycle\<close> of
  \<open>packages/domain-python/src/memdot_domain/learning.py\<close>.

  The graph is the list of edges with the new edge added. \<open>dfs\<close> visits a list of
  nodes (the loop \<open>for nxt in graph.get(node, ())\<close>) with the visited nodes and the nodes on
  the recursion stack; it returns whether a node on the stack was met again, and the nodes
  visited by then. The recursion is nested: the nodes visited below one
  successor are visited already for the next one. It ends because every recursive descent
  visits a node of the graph that was not visited before.
\<close>

section \<open>The search\<close>

definition succs :: "('a \<times> 'a) list \<Rightarrow> 'a \<Rightarrow> 'a list" where
  "succs g x = remdups (map snd (filter (\<lambda>e. fst e = x) g))"

function (sequential) dfs :: "('a \<times> 'a) list \<Rightarrow> 'a list \<Rightarrow> 'a list \<Rightarrow> 'a list \<Rightarrow> bool \<times> 'a list" where
  "dfs g [] visited stack = (False, visited)"
| "dfs g (x # xs) visited stack =
     (if x \<in> set stack then (True, visited)
      else if x \<in> set visited then dfs g xs visited stack
      else let r = dfs g (succs g x) (x # visited) (x # stack)
           in if fst r then r else dfs g xs (snd r) stack)"
  by pat_completeness auto

lemma dfs_visited_mono:
  "dfs_dom (g, xs, visited, stack) \<Longrightarrow> set visited \<subseteq> set (snd (dfs g xs visited stack))"
proof (induction g xs visited stack rule: dfs.pinduct)
  case (1 g visited stack)
  then show ?case by (simp add: dfs.psimps(1))
next
  case (2 g x xs visited stack)
  note unfold = dfs.psimps(2) [OF 2(1)] and IH = 2(2-4)
  let ?r = "dfs g (succs g x) (x # visited) (x # stack)"
  consider (stack) "x \<in> set stack" | (seen) "x \<notin> set stack" "x \<in> set visited"
    | (new) "x \<notin> set stack" "x \<notin> set visited" by blast
  then show ?case
  proof cases
    case stack
    then show ?thesis by (simp add: unfold)
  next
    case seen
    then show ?thesis using IH(1) by (simp add: unfold)
  next
    case new
    then have "set (x # visited) \<subseteq> set (snd ?r)" by (rule IH(2))
    moreover have "set (snd ?r) \<subseteq> set (snd (dfs g xs (snd ?r) stack))" if "\<not> fst ?r"
      using IH(3) [OF new refl that] .
    ultimately show ?thesis using new by (auto simp: unfold Let_def)
  qed
qed

definition graph_nodes :: "('a \<times> 'a) list \<Rightarrow> 'a set" where
  "graph_nodes g = fst ` set g \<union> snd ` set g"

lemma finite_graph_nodes [simp]: "finite (graph_nodes g)"
  by (simp add: graph_nodes_def)

lemma succs_leaf: "x \<notin> graph_nodes g \<Longrightarrow> succs g x = []"
  by (auto simp: succs_def graph_nodes_def filter_empty_conv)

text \<open>
  A node outside the graph can only be one of the nodes the search starts from, so it has
  no successors; the number of unvisited nodes, graph and start nodes together, is what
  shrinks.
\<close>

termination dfs
proof (relation "inv_image (finite_psubset <*lex*> less_than)
    (\<lambda>(g, xs, visited, stack). (graph_nodes g - set visited, length xs))", goal_cases)
  case 1
  show ?case by auto
next
  case (2 g x xs visited stack)
  then show ?case by simp
next
  case (3 g x xs visited stack)
  show ?case
  proof (cases "x \<in> graph_nodes g")
    case True
    with 3 show ?thesis by (auto simp: finite_psubset_def)
  next
    case False
    then have "graph_nodes g - set (x # visited) = graph_nodes g - set visited" by auto
    with False show ?thesis by (simp add: succs_leaf)
  qed
next
  case (4 g x xs visited stack r)
  then have "set (x # visited) \<subseteq> set (snd r)" using dfs_visited_mono by blast
  then have "graph_nodes g - set (snd r) \<subset> graph_nodes g - set visited \<or>
      graph_nodes g - set (snd r) = graph_nodes g - set visited" by auto
  then show ?case by (auto simp: finite_psubset_def)
qed

definition would_create_cycle :: "('a \<times> 'a) list \<Rightarrow> 'a \<Rightarrow> 'a \<Rightarrow> bool" where
  "would_create_cycle edges new_from new_to = fst (dfs (edges @ [(new_from, new_to)]) [new_from] [] [])"

declare dfs.simps(2) [simp del]

lemmas dfs_Cons = dfs.simps(2)

section \<open>Successors and edges\<close>

lemma set_succs [simp]: "y \<in> set (succs g x) \<longleftrightarrow> (x, y) \<in> set g"
  by (force simp: succs_def)

section \<open>An answer of True exhibits a cycle\<close>

text \<open>
  Every node on the stack has a path to every node about to be visited; so a node met again
  on the stack lies on a cycle.
\<close>

lemma dfs_True_cycle:
  assumes "fst (dfs g xs visited stack)"
    and "\<forall>s \<in> set stack. \<forall>x \<in> set xs. (s, x) \<in> (set g)\<^sup>+"
  shows "\<exists>y. (y, y) \<in> (set g)\<^sup>+"
  using assms
proof (induction g xs visited stack rule: dfs.induct)
  case (2 g x xs visited stack)
  note IH = 2(1-3) and ret = 2(4) and path = 2(5)
  let ?r = "dfs g (succs g x) (x # visited) (x # stack)"
  have rest: "\<forall>s \<in> set stack. \<forall>y \<in> set xs. (s, y) \<in> (set g)\<^sup>+" using path by simp
  have below: "\<forall>s \<in> set (x # stack). \<forall>y \<in> set (succs g x). (s, y) \<in> (set g)\<^sup>+"
    using path by (auto intro: trancl_into_trancl)
  consider (stack) "x \<in> set stack" | (seen) "x \<notin> set stack" "x \<in> set visited"
    | (new) "x \<notin> set stack" "x \<notin> set visited" by blast
  then show ?case
  proof cases
    case stack
    then show ?thesis using path by auto
  next
    case seen
    then show ?thesis using IH(1) ret rest by (simp add: dfs_Cons)
  next
    case new
    show ?thesis
    proof (cases "fst ?r")
      case True
      then show ?thesis using IH(2) new below by blast
    next
      case False
      then have "fst (dfs g xs (snd ?r) stack)" using ret new by (simp add: dfs_Cons Let_def)
      then show ?thesis using IH(3) [OF new refl False] rest by blast
    qed
  qed
qed simp

section \<open>An answer of False leaves an acyclic, closed set of finished nodes\<close>

definition finished :: "'a list \<Rightarrow> 'a list \<Rightarrow> 'a set" where
  "finished visited stack = set visited - set stack"

definition dfs_inv :: "('a \<times> 'a) list \<Rightarrow> 'a list \<Rightarrow> 'a list \<Rightarrow> bool" where
  "dfs_inv g visited stack \<longleftrightarrow> set stack \<subseteq> set visited \<and>
     (\<forall>(u, v) \<in> set g. u \<in> finished visited stack \<longrightarrow> v \<in> finished visited stack) \<and>
     acyclic (Restr (set g) (finished visited stack))"

lemma dfs_inv_enter:
  assumes "dfs_inv g visited stack" and "x \<notin> set visited"
  shows "dfs_inv g (x # visited) (x # stack)"
proof -
  have "finished (x # visited) (x # stack) = finished visited stack"
    using assms(2) by (auto simp: finished_def)
  then show ?thesis using assms(1) by (auto simp: dfs_inv_def)
qed

lemma acyclic_add_top:
  assumes ac: "acyclic (Restr r F)" and closed: "\<forall>(u, v) \<in> r. u \<in> F \<longrightarrow> v \<in> F"
    and succ: "\<forall>v. (x, v) \<in> r \<longrightarrow> v \<in> F" and x: "x \<notin> F"
  shows "acyclic (Restr r (insert x F))"
proof -
  let ?R = "Restr r (insert x F)"
  have into: "b \<in> F" if "(a, b) \<in> ?R\<^sup>+" for a b
    using that closed succ by (induction rule: trancl.induct) auto
  have inside: "(a, b) \<in> (Restr r F)\<^sup>+" if "(a, b) \<in> ?R\<^sup>+" "a \<in> F" for a b
    using that
  proof (induction rule: trancl.induct)
    case (r_into_trancl a b)
    then show ?case using closed by auto
  next
    case (trancl_into_trancl a b c)
    have "b \<in> F" using into trancl_into_trancl.hyps(1) by blast
    then have "(b, c) \<in> Restr r F" using closed trancl_into_trancl.hyps(2) by auto
    then show ?case using trancl_into_trancl by (meson trancl.trancl_into_trancl)
  qed
  show ?thesis
    using ac into inside unfolding acyclic_def by blast
qed

lemma dfs_inv_leave:
  assumes inv: "dfs_inv g visited (x # stack)" and x: "x \<notin> set stack"
    and succ: "set (succs g x) \<subseteq> finished visited (x # stack)"
  shows "dfs_inv g visited stack"
    and "finished visited stack = insert x (finished visited (x # stack))"
proof -
  show eq: "finished visited stack = insert x (finished visited (x # stack))"
    using inv x by (auto simp: finished_def dfs_inv_def)
  have "acyclic (Restr (set g) (insert x (finished visited (x # stack))))"
    by (rule acyclic_add_top) (use inv succ in \<open>auto simp: dfs_inv_def finished_def\<close>)
  then show "dfs_inv g visited stack"
    using inv succ unfolding dfs_inv_def eq by auto
qed

lemma dfs_False_inv:
  assumes "\<not> fst (dfs g xs visited stack)" and "dfs_inv g visited stack"
  shows "dfs_inv g (snd (dfs g xs visited stack)) stack \<and>
    set xs \<subseteq> finished (snd (dfs g xs visited stack)) stack \<and>
    set visited \<subseteq> set (snd (dfs g xs visited stack))"
  using assms
proof (induction g xs visited stack rule: dfs.induct)
  case (2 g x xs visited stack)
  note IH = 2(1-3) and ret = 2(4) and inv = 2(5)
  let ?r = "dfs g (succs g x) (x # visited) (x # stack)"
  have nostack: "x \<notin> set stack" using ret by (auto simp: dfs_Cons)
  show ?case
  proof (cases "x \<in> set visited")
    case True
    then show ?thesis using IH(1) nostack ret inv by (auto simp: dfs_Cons finished_def)
  next
    case False
    have noc: "\<not> fst ?r" using ret nostack False by (auto simp: dfs_Cons Let_def)
    then have below: "dfs_inv g (snd ?r) (x # stack)" "set (succs g x) \<subseteq> finished (snd ?r) (x # stack)"
        "set (x # visited) \<subseteq> set (snd ?r)"
      using IH(2) [OF nostack False] dfs_inv_enter [OF inv False] by auto
    have unf: "dfs g (x # xs) visited stack = dfs g xs (snd ?r) stack"
      using nostack False noc by (simp add: dfs_Cons Let_def)
    have "x \<in> set (snd (dfs g xs (snd ?r) stack))" "dfs_inv g (snd (dfs g xs (snd ?r) stack)) stack"
        "set xs \<subseteq> finished (snd (dfs g xs (snd ?r) stack)) stack"
        "set visited \<subseteq> set (snd (dfs g xs (snd ?r) stack))"
      using IH(3) [OF nostack False refl noc] dfs_inv_leave(1) [OF below(1) nostack below(2)]
        ret below(3) unfolding unf by auto
    then show ?thesis unfolding unf using nostack by (auto simp: finished_def)
  qed
qed (simp add: finished_def)

section \<open>Correctness\<close>

lemma closed_rtrancl: "(a, b) \<in> r\<^sup>* \<Longrightarrow> \<forall>(u, v) \<in> r. u \<in> F \<longrightarrow> v \<in> F \<Longrightarrow> a \<in> F \<Longrightarrow> (a, b) \<in> (Restr r F)\<^sup>*"
proof (induction rule: rtrancl_induct)
  case (step b c)
  have "b \<in> F" if "(a, b) \<in> (Restr r F)\<^sup>*" using that step.prems(2)
    by (induction rule: rtrancl_induct) auto
  then show ?case using step by (auto intro: rtrancl_into_rtrancl)
qed simp

lemma would_create_cycle_sound:
  "would_create_cycle edges f t \<Longrightarrow> \<not> acyclic (insert (f, t) (set edges))"
  using dfs_True_cycle [of "edges @ [(f, t)]" "[f]" "[]" "[]"]
  by (auto simp: would_create_cycle_def acyclic_def)

lemma would_create_cycle_complete:
  assumes "acyclic (set edges)" and "\<not> would_create_cycle edges f t"
  shows "acyclic (insert (f, t) (set edges))"
proof -
  let ?g = "edges @ [(f, t)]" and ?r = "dfs (edges @ [(f, t)]) [f] [] []"
  let ?F = "finished (snd ?r) []"
  have inv: "dfs_inv ?g (snd ?r) []" and f: "f \<in> ?F"
    using dfs_False_inv [of ?g "[f]" "[]" "[]"] assms(2)
    by (auto simp: would_create_cycle_def dfs_inv_def finished_def acyclic_def)
  have "(t, f) \<notin> (set edges)\<^sup>*"
  proof
    assume "(t, f) \<in> (set edges)\<^sup>*"
    then have "(t, f) \<in> (set ?g)\<^sup>*" by (rule rtrancl_mono [THEN subsetD, rotated]) auto
    moreover have t: "t \<in> ?F" using inv f by (auto simp: dfs_inv_def)
    moreover have "\<forall>(u, v) \<in> set ?g. u \<in> ?F \<longrightarrow> v \<in> ?F" using inv by (simp add: dfs_inv_def)
    ultimately have "(t, f) \<in> (Restr (set ?g) ?F)\<^sup>*" by (intro closed_rtrancl)
    then have "(f, f) \<in> (Restr (set ?g) ?F)\<^sup>+"
      using f t by (intro rtrancl_into_trancl2 [of f t]) auto
    then show False using inv by (auto simp: dfs_inv_def acyclic_def)
  qed
  then show ?thesis using assms(1) by (simp add: acyclic_insert)
qed

lemma would_create_cycle_iff:
  "acyclic (set edges) \<Longrightarrow> would_create_cycle edges f t \<longleftrightarrow> \<not> acyclic (insert (f, t) (set edges))"
  by (meson would_create_cycle_sound would_create_cycle_complete)

section \<open>Properties\<close>

text \<open>
  (C38) The cycle check decides what it is asked: when the prerequisite edges in force are
  acyclic, it answers true exactly when the new edge would close a cycle (the search
  terminates on every graph).
\<close>

theorem would_create_cycle_correct:
  assumes "acyclic (set edges)"
  shows "would_create_cycle edges f t \<longleftrightarrow> \<not> acyclic (insert (f, t) (set edges))"
  using assms by (rule would_create_cycle_iff)

theorem would_create_cycle_correct_witness:
  "acyclic (set [(1 :: nat, 2)]) \<and> would_create_cycle [(1 :: nat, 2)] 2 1 \<and>
   \<not> acyclic (insert (2, 1) (set [(1 :: nat, 2)]))"
proof -
  have ac: "acyclic (set [(1 :: nat, 2)])"
    by (rule acyclicI_order [of _ "\<lambda>x. 2 - x"]) simp
  moreover have "would_create_cycle [(1 :: nat, 2)] 2 1"
    by code_simp
  ultimately show ?thesis
    using would_create_cycle_correct [OF ac, of 2 1] by simp
qed

end
