(* ===== verification/Retrieval.thy ===== *)
theory Retrieval
  imports Ids
begin

text \<open>
  Weighted reciprocal-rank fusion and private-space exclusion,
  \<open>packages/domain-python/src/memdot_domain/retrieval.py\<close>.

  The dict of lane results is an association list in the order the caller builds it; the
  dict \<open>scores\<close> is one in insertion order. Scores are exact rationals. \<open>sorted\<close> is
  \<open>sort_key\<close>, which is stable as Python's is.
\<close>

section \<open>Lanes, candidates\<close>

datatype CandidateLane = TEMPORAL_EXACT | EXACT | OSS_SEMANTIC | TEX | GRAPH

definition RRF_K :: int where "RRF_K = 60"

definition LANE_WEIGHTS :: "(CandidateLane \<times> rat) list" where
  "LANE_WEIGHTS =
     [(TEMPORAL_EXACT, 2), (EXACT, 3 / 2), (OSS_SEMANTIC, 1), (TEX, 1), (GRAPH, 4 / 5)]"

record RetrievalCandidate =
  rc_candidate_id :: string
  rc_canonical_type :: string
  rc_canonical_id :: uuid
  rc_revision_id :: uuid
  rc_space_id :: uuid
  rc_lane :: CandidateLane
  rc_rank :: int
  rc_locator :: "string option"
  rc_snippet :: "string option"
  rc_score_hint :: "rat option"

record FusedCandidate =
  fc_candidate_id :: string
  fc_canonical_type :: string
  fc_canonical_id :: uuid
  fc_revision_id :: uuid
  fc_space_id :: uuid
  fc_fused_score :: rat
  fc_lanes :: "CandidateLane list"
  fc_locator :: "string option"
  fc_snippet :: "string option"

section \<open>Fusion\<close>

definition rrf_contribution :: "int \<Rightarrow> rat \<Rightarrow> int \<Rightarrow> rat res" where
  "rrf_contribution rank weight k =
     (if k + rank = 0 then Inl ZeroDivisionError else Inr (weight / of_int (k + rank)))"

definition new_fused :: "CandidateLane \<Rightarrow> rat \<Rightarrow> RetrievalCandidate \<Rightarrow> FusedCandidate" where
  "new_fused lane contrib c =
     \<lparr> fc_candidate_id = rc_candidate_id c, fc_canonical_type = rc_canonical_type c,
       fc_canonical_id = rc_canonical_id c, fc_revision_id = rc_revision_id c,
       fc_space_id = rc_space_id c, fc_fused_score = contrib, fc_lanes = [lane],
       fc_locator = rc_locator c, fc_snippet = rc_snippet c \<rparr>"

definition merge_fused :: "CandidateLane \<Rightarrow> rat \<Rightarrow> RetrievalCandidate \<Rightarrow> FusedCandidate \<Rightarrow> FusedCandidate" where
  "merge_fused lane contrib c f =
     f\<lparr> fc_fused_score := fc_fused_score f + contrib,
        fc_lanes := fc_lanes f @ [lane],
        fc_locator := (if fc_locator f = None \<and> truthy_str (rc_locator c) then rc_locator c
                       else fc_locator f),
        fc_snippet := (if fc_snippet f = None \<and> truthy_str (rc_snippet c) then rc_snippet c
                       else fc_snippet f) \<rparr>"

definition fuse_one ::
    "CandidateLane \<Rightarrow> rat \<Rightarrow> int \<Rightarrow> RetrievalCandidate \<Rightarrow> (string \<times> FusedCandidate) list \<Rightarrow>
     (string \<times> FusedCandidate) list res" where
  "fuse_one lane weight k c scores =
     bindr (rrf_contribution (rc_rank c) weight k) (\<lambda>contrib.
       Inr (AList.update (rc_candidate_id c)
         (case map_of scores (rc_candidate_id c) of
            None \<Rightarrow> new_fused lane contrib c
          | Some f \<Rightarrow> merge_fused lane contrib c f) scores))"

definition lane_weight :: "(CandidateLane \<times> rat) list \<Rightarrow> CandidateLane \<Rightarrow> rat" where
  "lane_weight ws lane = (case map_of ws lane of None \<Rightarrow> 1 | Some w \<Rightarrow> w)"

definition fuse_lane ::
    "(CandidateLane \<times> rat) list \<Rightarrow> int \<Rightarrow> CandidateLane \<times> RetrievalCandidate list \<Rightarrow>
     (string \<times> FusedCandidate) list \<Rightarrow> (string \<times> FusedCandidate) list res" where
  "fuse_lane ws k lr scores =
     fold_res (fuse_one (fst lr) (lane_weight ws (fst lr)) k) (snd lr) scores"

definition active_weights :: "(CandidateLane \<times> rat) list option \<Rightarrow> (CandidateLane \<times> rat) list" where
  "active_weights weights =
     (case weights of None \<Rightarrow> LANE_WEIGHTS | Some ws \<Rightarrow> if ws = [] then LANE_WEIGHTS else ws)"

definition fused_key :: "FusedCandidate \<Rightarrow> rat \<times> string" where
  "fused_key f = (- fc_fused_score f, fc_candidate_id f)"

definition fuse_candidates ::
    "(CandidateLane \<times> RetrievalCandidate list) list \<Rightarrow> int \<Rightarrow> (CandidateLane \<times> rat) list option \<Rightarrow>
     FusedCandidate list res" where
  "fuse_candidates lane_results k weights =
     bindr (fold_res (fuse_lane (active_weights weights) k) lane_results []) (\<lambda>scores.
       Inr (sort_key fused_key (map snd scores)))"

section \<open>Private-space exclusion\<close>

datatype SpaceVisibility = GENERAL | LEARNING | PRIVATE

text \<open>
  \<open>sp\<close> reads the space of a candidate: the source is generic over fused and lane
  candidates.
\<close>

definition exclude_private_spaces ::
    "('c \<Rightarrow> uuid) \<Rightarrow> 'c list \<Rightarrow> (uuid \<times> SpaceVisibility) list \<Rightarrow> string \<Rightarrow> 'c list" where
  "exclude_private_spaces sp candidates space_visibility purpose =
     (if purpose \<noteq> ''external_read'' then candidates
      else filter (\<lambda>c. (case map_of space_visibility (sp c) of None \<Rightarrow> GENERAL | Some v \<Rightarrow> v) \<noteq> PRIVATE)
             candidates)"

section \<open>The scores are the sums of the contributions\<close>

text \<open>All hits in the order the loops visit them.\<close>

definition hits ::
    "(CandidateLane \<times> RetrievalCandidate list) list \<Rightarrow> (CandidateLane \<times> RetrievalCandidate) list" where
  "hits lane_results = concat (map (\<lambda>(l, cs). map (\<lambda>c. (l, c)) cs) lane_results)"

definition hit_score :: "(CandidateLane \<times> rat) list \<Rightarrow> int \<Rightarrow> CandidateLane \<times> RetrievalCandidate \<Rightarrow> rat" where
  "hit_score ws k h = lane_weight ws (fst h) / of_int (k + rc_rank (snd h))"

definition total_score ::
    "(CandidateLane \<times> rat) list \<Rightarrow> int \<Rightarrow> string \<Rightarrow> (CandidateLane \<times> RetrievalCandidate) list \<Rightarrow> rat" where
  "total_score ws k i hs = sum_list (map (hit_score ws k) (filter (\<lambda>h. rc_candidate_id (snd h) = i) hs))"

definition fuse_hit ::
    "(CandidateLane \<times> rat) list \<Rightarrow> int \<Rightarrow> CandidateLane \<times> RetrievalCandidate \<Rightarrow>
     (string \<times> FusedCandidate) list \<Rightarrow> (string \<times> FusedCandidate) list res" where
  "fuse_hit ws k h = fuse_one (fst h) (lane_weight ws (fst h)) k (snd h)"

lemma fold_fuse_lane:
  "fold_res (fuse_lane ws k) lrs s = fold_res (fuse_hit ws k) (hits lrs) s"
proof (induction lrs arbitrary: s)
  case (Cons lr lrs)
  have "fuse_lane ws k lr s = fold_res (fuse_hit ws k) (map (Pair (fst lr)) (snd lr)) s"
    unfolding fuse_lane_def
    by (induction "snd lr" arbitrary: lr s) (auto simp: fuse_hit_def bindr_def split: sum.splits)
  then show ?case using Cons
    by (cases lr) (simp add: hits_def fold_res_append bindr_def split: sum.splits)
qed (simp add: hits_def)

text \<open>What holds of \<open>scores\<close> after the hits \<open>hs\<close>.\<close>

definition scores_ok ::
    "(CandidateLane \<times> rat) list \<Rightarrow> int \<Rightarrow> (CandidateLane \<times> RetrievalCandidate) list \<Rightarrow>
     (string \<times> FusedCandidate) list \<Rightarrow> bool" where
  "scores_ok ws k hs s \<longleftrightarrow> distinct (map fst s) \<and>
     fst ` set s = (rc_candidate_id \<circ> snd) ` set hs \<and>
     (\<forall>(i, f) \<in> set s. fc_candidate_id f = i \<and> fc_fused_score f = total_score ws k i hs)"

lemma scores_ok_Nil [simp]: "scores_ok ws k [] []"
  by (simp add: scores_ok_def)

lemma total_score_snoc:
  "total_score ws k i (hs @ [h]) =
     total_score ws k i hs + (if rc_candidate_id (snd h) = i then hit_score ws k h else 0)"
  by (simp add: total_score_def)

lemma total_score_absent: "i \<notin> (rc_candidate_id \<circ> snd) ` set hs \<Longrightarrow> total_score ws k i hs = 0"
  by (force simp: total_score_def filter_empty_conv intro: arg_cong [where f = sum_list, of _ "[]", simplified])

lemma scores_ok_step:
  assumes ok: "scores_ok ws k hs s" and nz: "k + rc_rank (snd h) \<noteq> 0"
  obtains s' where "fuse_hit ws k h s = Inr s'" "scores_ok ws k (hs @ [h]) s'"
proof -
  let ?i = "rc_candidate_id (snd h)"
  let ?f = "case map_of s ?i of None \<Rightarrow> new_fused (fst h) (hit_score ws k h) (snd h)
      | Some f \<Rightarrow> merge_fused (fst h) (hit_score ws k h) (snd h) f"
  have eq: "fuse_hit ws k h s = Inr (AList.update ?i ?f s)"
    using nz by (simp add: fuse_hit_def fuse_one_def rrf_contribution_def hit_score_def
        split: option.split)
  have d: "distinct (map fst s)" using ok by (simp add: scores_ok_def)
  have f: "fc_candidate_id ?f = ?i \<and> fc_fused_score ?f = total_score ws k ?i (hs @ [h])"
  proof (cases "map_of s ?i")
    case None
    then have "?i \<notin> (rc_candidate_id \<circ> snd) ` set hs"
      using ok by (simp add: scores_ok_def map_of_eq_None_iff)
    then show ?thesis using None
      by (simp add: new_fused_def total_score_snoc total_score_absent)
  next
    case (Some g)
    then have "(?i, g) \<in> set s" by (rule map_of_SomeD)
    then show ?thesis using ok Some
      by (auto simp: scores_ok_def merge_fused_def total_score_snoc)
  qed
  have "scores_ok ws k (hs @ [h]) (AList.update ?i ?f s)"
    unfolding scores_ok_def
  proof (intro conjI)
    show "distinct (map fst (AList.update ?i ?f s))" using d by (rule distinct_update)
    show "fst ` set (AList.update ?i ?f s) = (rc_candidate_id \<circ> snd) ` set (hs @ [h])"
      using ok by (simp add: scores_ok_def dom_update)
    show "\<forall>(i, g) \<in> set (AList.update ?i ?f s).
        fc_candidate_id g = i \<and> fc_fused_score g = total_score ws k i (hs @ [h])"
      using ok f d by (auto simp: scores_ok_def set_update total_score_snoc)
  qed
  with eq show ?thesis by (rule that)
qed

lemma fold_fuse_hit:
  assumes "\<forall>h \<in> set hs'. k + rc_rank (snd h) \<noteq> 0" and "scores_ok ws k hs s"
  shows "\<exists>s'. fold_res (fuse_hit ws k) hs' s = Inr s' \<and> scores_ok ws k (hs @ hs') s'"
  using assms
proof (induction hs' arbitrary: hs s)
  case (Cons h hs')
  obtain s1 where s1: "fuse_hit ws k h s = Inr s1" "scores_ok ws k (hs @ [h]) s1"
    using Cons.prems scores_ok_step [of ws k hs s h] by auto
  have "\<forall>h \<in> set hs'. k + rc_rank (snd h) \<noteq> 0" using Cons.prems(1) by simp
  from Cons.IH [OF this s1(2)] show ?case using s1(1) by simp
qed simp

section \<open>Properties\<close>

text \<open>
  (C40) Reciprocal rank fusion: with positive ranks (and the constant 60) fusion does not fail; its
  result lists each candidate identifier of the lanes exactly once, best first (ties by
  identifier), and the score of a candidate is the sum over all its hits of the weight of the lane
  over \<open>k + rank\<close>.
\<close>

theorem fuse_candidates_correct:
  assumes "\<forall>h \<in> set (hits lane_results). 0 < rc_rank (snd h)" and "0 \<le> k"
  shows "\<exists>fs. fuse_candidates lane_results k weights = Inr fs \<and> sorted (map fused_key fs) \<and>
    distinct (map fc_candidate_id fs) \<and>
    fc_candidate_id ` set fs = (rc_candidate_id \<circ> snd) ` set (hits lane_results) \<and>
    (\<forall>f \<in> set fs. fc_fused_score f =
       total_score (active_weights weights) k (fc_candidate_id f) (hits lane_results))"
proof -
  let ?ws = "active_weights weights"
  have "\<forall>h \<in> set (hits lane_results). k + rc_rank (snd h) \<noteq> 0"
    using assms by fastforce
  then obtain s where s: "fold_res (fuse_hit ?ws k) (hits lane_results) [] = Inr s"
    and ok: "scores_ok ?ws k (hits lane_results) s"
    using fold_fuse_hit [of "hits lane_results" k ?ws "[]" "[]"] by auto
  have ids: "map (fc_candidate_id \<circ> snd) s = map fst s"
    using ok by (auto simp: scores_ok_def)
  then have "fc_candidate_id ` snd ` set s = fst ` set s"
    by (metis (no_types) image_comp list.set_map)
  moreover have "distinct (map fc_candidate_id (sort_key fused_key (map snd s)))"
  proof -
    have "mset (map fc_candidate_id (sort_key fused_key (map snd s))) = mset (map fst s)"
      by (simp add: ids [symmetric] multiset.map_comp)
    then show ?thesis using ok by (metis mset_eq_imp_distinct_iff scores_ok_def)
  qed
  ultimately show ?thesis
    using ok s by (auto simp: fuse_candidates_def fold_fuse_lane scores_ok_def)
qed

definition sample_hit :: "string \<Rightarrow> CandidateLane \<Rightarrow> int \<Rightarrow> RetrievalCandidate" where
  "sample_hit i lane rank =
     \<lparr> rc_candidate_id = i, rc_canonical_type = ''document'', rc_canonical_id = 1, rc_revision_id = 2,
       rc_space_id = 3, rc_lane = lane, rc_rank = rank, rc_locator = None, rc_snippet = None,
       rc_score_hint = None \<rparr>"

theorem fuse_candidates_correct_witness:
  "\<exists>fs. fuse_candidates [(EXACT, [sample_hit ''a'' EXACT 1]), (GRAPH, [sample_hit ''a'' GRAPH 1])] 60 None =
     Inr fs \<and> fc_candidate_id ` set fs = {''a''} \<and> (\<forall>f \<in> set fs. fc_fused_score f = 23 / 610)"
proof -
  let ?lr = "[(EXACT, [sample_hit ''a'' EXACT 1]), (GRAPH, [sample_hit ''a'' GRAPH 1])]"
  have hits: "hits ?lr = [(EXACT, sample_hit ''a'' EXACT 1), (GRAPH, sample_hit ''a'' GRAPH 1)]"
    by (simp add: hits_def)
  have ids: "rc_candidate_id (sample_hit ''a'' l r) = ''a''" "rc_rank (sample_hit ''a'' l r) = r" for l r
    by (simp_all add: sample_hit_def)
  have score: "total_score (active_weights None) 60 ''a'' (hits ?lr) = 23 / 610"
    by (simp add: hits ids total_score_def hit_score_def active_weights_def lane_weight_def LANE_WEIGHTS_def)
  obtain fs where "fuse_candidates ?lr 60 None = Inr fs" "fc_candidate_id ` set fs = {''a''}"
    "\<forall>f \<in> set fs. fc_fused_score f = total_score (active_weights None) 60 (fc_candidate_id f) (hits ?lr)"
    using fuse_candidates_correct [of ?lr 60 None] by (auto simp: hits ids)
  then show ?thesis using score by (metis image_eqI singletonD)
qed

text \<open>
  For the purpose of an external read no candidate of a private space is passed on, and
  the others are, in their order; any other purpose passes everything on.
\<close>

theorem exclude_private_spaces_external:
  "(\<forall>c \<in> set (exclude_private_spaces sp cands vis ''external_read''). map_of vis (sp c) \<noteq> Some PRIVATE) \<and>
   (\<forall>c \<in> set cands. map_of vis (sp c) \<noteq> Some PRIVATE \<longrightarrow>
      c \<in> set (exclude_private_spaces sp cands vis ''external_read'')) \<and>
   subseq (exclude_private_spaces sp cands vis purpose) cands \<and>
   (purpose \<noteq> ''external_read'' \<longrightarrow> exclude_private_spaces sp cands vis purpose = cands)"
  by (auto simp: exclude_private_spaces_def split: option.splits)


theorem exclude_private_spaces_external_witness:
  "exclude_private_spaces id [1, 2, 3] [(2, PRIVATE)] ''external_read'' = [1, 3] \<and>
   map_of [(2, PRIVATE)] (1 :: uuid) \<noteq> Some PRIVATE"
  using exclude_private_spaces_external [of id "[1, 2, 3]" "[(2, PRIVATE)]" "''general''"]
  by (simp add: exclude_private_spaces_def)

end
