(* ===== verification/Context_Compiler.thy ===== *)
theory Context_Compiler
  imports Retrieval
begin

text \<open>
  The context compiler, \<open>packages/domain-python/src/memdot_domain/context_compiler.py\<close>: fused
  candidates are packed into a receipt within a budget of items and characters; what does
  not fit, and every repeat, is listed as omitted with its reason.

  The loop over the candidates is \<open>pack\<close>. SHA-256 is the argument \<open>sha\<close>, and the
  receipt identifier (\<open>uuid.uuid4()\<close>) an argument too.
\<close>

section \<open>Data\<close>

datatype OmitReason = BUDGET | PRIVATE_SPACE | RETRACTED | STALE | DUPLICATE | POLICY

definition omit_value :: "OmitReason \<Rightarrow> string" where
  "omit_value r =
     (case r of BUDGET \<Rightarrow> ''budget_exceeded'' | PRIVATE_SPACE \<Rightarrow> ''private_space_excluded''
      | RETRACTED \<Rightarrow> ''retracted'' | STALE \<Rightarrow> ''stale_revision'' | DUPLICATE \<Rightarrow> ''duplicate''
      | POLICY \<Rightarrow> ''policy_excluded'')"

record ContextBudget =
  max_tokens :: int
  max_items :: int

definition default_budget :: ContextBudget where
  "default_budget = \<lparr> max_tokens = 4096, max_items = 32 \<rparr>"

definition char_budget :: "ContextBudget \<Rightarrow> int" where
  "char_budget b = max_tokens b * 4"

record EvidenceItem =
  ei_rank :: int
  ei_canonical_type :: string
  ei_canonical_id :: uuid
  ei_revision_id :: uuid
  ei_locator :: "string option"
  ei_text :: string
  ei_selected :: bool
  ei_omit_reason :: "OmitReason option"

record ContextReceipt =
  cr_receipt_id :: uuid
  cr_query_hash :: string
  cr_purpose :: string
  cr_policy_version :: string
  cr_eligible_spaces :: "uuid list"
  cr_provider_versions :: "(string \<times> string) list"
  cr_budget :: ContextBudget
  cr_context_hash :: string
  cr_partial :: bool
  cr_items :: "EvidenceItem list"

section \<open>Hashes\<close>

definition query_hash :: "(string \<Rightarrow> string) \<Rightarrow> string \<Rightarrow> string \<Rightarrow> string \<Rightarrow> string" where
  "query_hash sha query purpose policy_version =
     sha (json_dumps (JObj [(''query'', JStr (py_strip query)), (''purpose'', JStr purpose),
       (''policy_version'', JStr policy_version)]))"

definition item_json :: "EvidenceItem \<Rightarrow> json" where
  "item_json i =
     JObj [(''rank'', JInt (ei_rank i)), (''canonical_type'', JStr (ei_canonical_type i)),
       (''canonical_id'', JStr (str_uuid (ei_canonical_id i))),
       (''revision_id'', JStr (str_uuid (ei_revision_id i))),
       (''selected'', JBool (ei_selected i)),
       (''omit_reason'', (case ei_omit_reason i of None \<Rightarrow> JNull | Some r \<Rightarrow> JStr (omit_value r)))]"

definition context_hash :: "(string \<Rightarrow> string) \<Rightarrow> EvidenceItem list \<Rightarrow> string" where
  "context_hash sha items = sha (json_dumps (JList (map item_json items)))"

section \<open>Packing\<close>

definition candidate_text :: "(string \<times> string) list \<Rightarrow> FusedCandidate \<Rightarrow> string" where
  "candidate_text corpus c =
     (case map_of corpus (fc_candidate_id c) of
        Some t \<Rightarrow> t
      | None \<Rightarrow> (case fc_snippet c of None \<Rightarrow> [] | Some s \<Rightarrow> s))"

definition evidence_item ::
    "int \<Rightarrow> FusedCandidate \<Rightarrow> string \<Rightarrow> bool \<Rightarrow> OmitReason option \<Rightarrow> EvidenceItem" where
  "evidence_item rank c text selected omit =
     \<lparr> ei_rank = rank, ei_canonical_type = fc_canonical_type c, ei_canonical_id = fc_canonical_id c,
       ei_revision_id = fc_revision_id c, ei_locator = fc_locator c,
       ei_text = (if selected then text else []), ei_selected = selected,
       ei_omit_reason = omit \<rparr>"

definition selected_count :: "EvidenceItem list \<Rightarrow> int" where
  "selected_count items = int (length (filter ei_selected items))"

fun pack ::
    "ContextBudget \<Rightarrow> (string \<times> string) list \<Rightarrow> int \<Rightarrow> EvidenceItem list \<Rightarrow> int \<Rightarrow> string list \<Rightarrow>
     FusedCandidate list \<Rightarrow> EvidenceItem list" where
  "pack b corpus rank items used_chars seen [] = items"
| "pack b corpus rank items used_chars seen (c # cs) =
     (let text = candidate_text corpus c in
      if fc_candidate_id c \<in> set seen then
        pack b corpus (rank + 1) (items @ [evidence_item rank c text False (Some DUPLICATE)])
          used_chars seen cs
      else if max_items b \<le> selected_count items then
        pack b corpus (rank + 1) (items @ [evidence_item rank c text False (Some BUDGET)])
          used_chars seen cs
      else if char_budget b < used_chars + int (length text) then
        pack b corpus (rank + 1) (items @ [evidence_item rank c text False (Some BUDGET)])
          used_chars seen cs
      else
        pack b corpus (rank + 1) (items @ [evidence_item rank c text True None])
          (used_chars + int (length text)) (fc_candidate_id c # seen) cs)"

definition compile_context ::
    "(string \<Rightarrow> string) \<Rightarrow> uuid \<Rightarrow> string \<Rightarrow> string \<Rightarrow> string \<Rightarrow> uuid list \<Rightarrow> (string \<times> string) list \<Rightarrow>
     FusedCandidate list \<Rightarrow> (string \<times> string) list \<Rightarrow> ContextBudget option \<Rightarrow> ContextReceipt" where
  "compile_context sha receipt_id query purpose policy_version eligible_spaces provider_versions
     candidates corpus_text budget =
     (let b = (case budget of None \<Rightarrow> default_budget | Some b \<Rightarrow> b);
          items = pack b corpus_text 1 [] 0 [] candidates
      in \<lparr> cr_receipt_id = receipt_id, cr_query_hash = query_hash sha query purpose policy_version,
           cr_purpose = purpose, cr_policy_version = policy_version,
           cr_eligible_spaces = eligible_spaces, cr_provider_versions = provider_versions,
           cr_budget = b, cr_context_hash = context_hash sha items,
           cr_partial = (\<exists>i \<in> set items. \<not> ei_selected i), cr_items = items \<rparr>)"

section \<open>Budgets\<close>

definition selected_chars :: "EvidenceItem list \<Rightarrow> int" where
  "selected_chars items = sum_list (map (\<lambda>i. int (length (ei_text i))) (filter ei_selected items))"

definition within_budget :: "ContextBudget \<Rightarrow> EvidenceItem list \<Rightarrow> bool" where
  "within_budget b items \<longleftrightarrow> selected_count items \<le> max 0 (max_items b) \<and>
     selected_chars items \<le> max 0 (char_budget b)"

lemma selected_snoc [simp]:
  "selected_count (items @ [i]) = selected_count items + (if ei_selected i then 1 else 0)"
  "selected_chars (items @ [i]) =
     selected_chars items + (if ei_selected i then int (length (ei_text i)) else 0)"
  by (simp_all add: selected_count_def selected_chars_def)

lemma evidence_item_sel [simp]:
  "ei_selected (evidence_item r c t s om) = s"
  "ei_text (evidence_item r c t s om) = (if s then t else [])"
  "ei_omit_reason (evidence_item r c t s om) = om"
  "ei_rank (evidence_item r c t s om) = r"
  "ei_canonical_id (evidence_item r c t s om) = fc_canonical_id c"
  "ei_canonical_type (evidence_item r c t s om) = fc_canonical_type c"
  "ei_revision_id (evidence_item r c t s om) = fc_revision_id c"
  by (simp_all add: evidence_item_def)

lemma pack_within_budget:
  assumes "within_budget b items" and "used = selected_chars items"
  shows "within_budget b (pack b corpus rank items used seen cs)"
  using assms
proof (induction b corpus rank items used seen cs rule: pack.induct)
  case (2 b corpus rank items used seen c cs)
  have keep: "within_budget b (items @ [evidence_item rank c (candidate_text corpus c) False om])" for om
    using 2(5) by (simp add: within_budget_def)
  have take: "within_budget b (items @ [evidence_item rank c (candidate_text corpus c) True None])"
    if "\<not> max_items b \<le> selected_count items"
      and "\<not> char_budget b < used + int (length (candidate_text corpus c))"
    using 2(5,6) that by (auto simp: within_budget_def)
  show ?case
    using 2 keep take by (simp add: Let_def)
qed simp

section \<open>One item per candidate\<close>

text \<open>
  The items a run of \<open>pack\<close> adds, related to the candidates it was given: the \<open>j\<close>-th
  item describes the \<open>j\<close>-th candidate, is numbered in order, and carries the candidate's
  text exactly when it is selected.
\<close>

definition describes :: "(string \<times> string) list \<Rightarrow> int \<Rightarrow> FusedCandidate \<Rightarrow> EvidenceItem \<Rightarrow> bool" where
  "describes corpus rank c i \<longleftrightarrow> ei_rank i = rank \<and>
     ei_canonical_type i = fc_canonical_type c \<and> ei_canonical_id i = fc_canonical_id c \<and>
     ei_revision_id i = fc_revision_id c \<and>
     ei_text i = (if ei_selected i then candidate_text corpus c else []) \<and>
     (ei_omit_reason i = None \<longleftrightarrow> ei_selected i) \<and>
     (\<not> ei_selected i \<longrightarrow> ei_omit_reason i = Some DUPLICATE \<or> ei_omit_reason i = Some BUDGET)"

lemma describes_evidence_item [simp]:
  "describes corpus r c (evidence_item r c (candidate_text corpus c) True None)"
  "describes corpus r c (evidence_item r c t False (Some DUPLICATE))"
  "describes corpus r c (evidence_item r c t False (Some BUDGET))"
  by (simp_all add: describes_def)

fun describes_all :: "(string \<times> string) list \<Rightarrow> int \<Rightarrow> FusedCandidate list \<Rightarrow> EvidenceItem list \<Rightarrow> bool" where
  "describes_all corpus rank [] [] = True"
| "describes_all corpus rank (c # cs) (i # is) =
     (describes corpus rank c i \<and> describes_all corpus (rank + 1) cs is)"
| "describes_all corpus rank _ _ = False"

lemma describes_all_Cons:
  "describes_all corpus rank (c # cs) is \<longleftrightarrow>
     (\<exists>i is'. is = i # is' \<and> describes corpus rank c i \<and> describes_all corpus (rank + 1) cs is')"
  by (cases "is") auto

lemma describes_all_length: "describes_all corpus rank cs is \<Longrightarrow> length is = length cs"
  by (induction corpus rank cs "is" rule: describes_all.induct) auto

lemma describes_all_nth:
  "describes_all corpus rank cs is \<Longrightarrow> j < length cs \<Longrightarrow>
     describes corpus (rank + int j) (cs ! j) (is ! j)"
proof (induction corpus rank cs "is" arbitrary: j rule: describes_all.induct)
  case (2 corpus rank c cs i "is")
  then show ?case by (cases j) (auto simp: algebra_simps)
qed auto

lemma pack_extends:
  "\<exists>new. pack b corpus rank items used seen cs = items @ new \<and> describes_all corpus rank cs new"
proof (induction b corpus rank items used seen cs rule: pack.induct)
  case (2 b corpus rank items used seen c cs)
  have step: "\<exists>new. pack b corpus (rank + 1) (items @ [i]) u s cs = items @ new \<and>
      describes_all corpus rank (c # cs) new"
    if "describes corpus rank c i"
      and "\<exists>new. pack b corpus (rank + 1) (items @ [i]) u s cs = (items @ [i]) @ new \<and>
        describes_all corpus (rank + 1) cs new" for i u s
    using that by (force simp: describes_all_Cons)
  show ?case
    using 2 by (simp add: Let_def step)
qed auto

lemma pack_items_length: "length (pack b corpus rank [] used seen cs) = length cs"
  using pack_extends [of b corpus rank "[]" used seen cs] describes_all_length by force

section \<open>Nothing is left out without need\<close>

text \<open>
  When the candidates are distinct, few enough and short enough, each of them is
  selected; so a receipt is partial only when a budget or a repeat made it so.
\<close>

definition corpus_chars :: "(string \<times> string) list \<Rightarrow> FusedCandidate list \<Rightarrow> int" where
  "corpus_chars corpus cs = sum_list (map (\<lambda>c. int (length (candidate_text corpus c))) cs)"

lemma corpus_chars_nonneg: "0 \<le> corpus_chars corpus cs"
  by (induction cs) (auto simp: corpus_chars_def)

lemma pack_all_selected:
  assumes "distinct (map fc_candidate_id cs)" and "fc_candidate_id ` set cs \<inter> set seen = {}"
    and "selected_count items + int (length cs) \<le> max_items b"
    and "used + corpus_chars corpus cs \<le> char_budget b"
    and "\<forall>i \<in> set items. ei_selected i"
  shows "\<forall>i \<in> set (pack b corpus rank items used seen cs). ei_selected i"
  using assms
proof (induction b corpus rank items used seen cs rule: pack.induct)
  case (2 b corpus rank items used seen c cs)
  have fits: "\<not> char_budget b < used + int (length (candidate_text corpus c))"
    using 2(8) corpus_chars_nonneg [of corpus cs] by (simp add: corpus_chars_def)
  have "\<forall>i \<in> set (pack b corpus (rank + 1)
      (items @ [evidence_item rank c (candidate_text corpus c) True None])
      (used + int (length (candidate_text corpus c))) (fc_candidate_id c # seen) cs). ei_selected i"
    by (rule 2(4) [OF refl]) (use 2(5-9) fits in \<open>auto simp: corpus_chars_def\<close>)
  moreover have "fc_candidate_id c \<notin> set seen" "\<not> max_items b \<le> selected_count items"
    using 2(6,7) by auto
  ultimately show ?case
    using fits by (simp add: Let_def)
qed simp

text \<open>The candidates a run selects are distinct: the identifier of a selected one is in \<open>seen\<close>.\<close>

fun picked :: "FusedCandidate list \<Rightarrow> EvidenceItem list \<Rightarrow> string list" where
  "picked (c # cs) (i # is) = (if ei_selected i then [fc_candidate_id c] else []) @ picked cs is"
| "picked _ _ = []"

lemma picked_pack:
  "\<exists>new. pack b corpus rank items used seen cs = items @ new \<and> distinct (picked cs new) \<and>
     set (picked cs new) \<inter> set seen = {}"
proof (induction b corpus rank items used seen cs rule: pack.induct)
  case (2 b corpus rank items used seen c cs)
  have step: "\<exists>new. pack b corpus (rank + 1) (items @ [i]) u s cs = items @ new \<and>
      distinct (picked (c # cs) new) \<and> set (picked (c # cs) new) \<inter> set seen = {}"
    if "\<exists>new. pack b corpus (rank + 1) (items @ [i]) u s cs = (items @ [i]) @ new \<and>
        distinct (picked cs new) \<and> set (picked cs new) \<inter> set s = {}"
      and "s = (if ei_selected i then [fc_candidate_id c] else []) @ seen"
      and "ei_selected i \<longrightarrow> fc_candidate_id c \<notin> set seen" for i u s
  proof -
    from that(1) obtain new where new: "pack b corpus (rank + 1) (items @ [i]) u s cs = items @ i # new"
      "distinct (picked cs new)" "set (picked cs new) \<inter> set s = {}" by auto
    show ?thesis
      by (rule exI [of _ "i # new"]) (use that(2,3) new in auto)
  qed
  show ?case
    using 2 by (simp add: Let_def step)
qed auto

lemma picked_all:
  "length is = length cs \<Longrightarrow> \<forall>i \<in> set is. ei_selected i \<Longrightarrow> picked cs is = map fc_candidate_id cs"
  by (induction cs "is" rule: picked.induct) auto

lemma describes_all_omit:
  "describes_all corpus rank cs is \<Longrightarrow> i \<in> set is \<Longrightarrow> (ei_omit_reason i = None \<longleftrightarrow> ei_selected i)"
  by (induction corpus rank cs "is" rule: describes_all.induct) (auto simp: describes_def)

section \<open>Properties\<close>

text \<open>
  The receipt never exceeds its budget: at most \<open>max_items\<close> items are selected and their
  texts together have at most \<open>4 * max_tokens\<close> characters (nothing is selected when a
  budget is not positive).
\<close>

theorem compile_context_within_budget:
  "within_budget (cr_budget (compile_context sha rid q purpose pv spaces prov cands corpus budget))
     (cr_items (compile_context sha rid q purpose pv spaces prov cands corpus budget))"
  by (simp add: compile_context_def Let_def pack_within_budget)
    (rule pack_within_budget; simp add: within_budget_def selected_count_def selected_chars_def)

text \<open>
  The receipt accounts for every candidate: its \<open>j\<close>-th item has rank \<open>j + 1\<close> and describes
  the \<open>j\<close>-th candidate, with its text exactly when it is selected and otherwise with the
  reason DUPLICATE or BUDGET; no candidate identifier is selected twice; and the receipt is marked
  partial exactly when some candidate was left out.
\<close>

theorem compile_context_accounts:
  "let r = compile_context sha rid q purpose pv spaces prov cands corpus budget in
     describes_all corpus 1 cands (cr_items r) \<and> distinct (picked cands (cr_items r)) \<and>
     (cr_partial r \<longleftrightarrow> (\<exists>i. i \<in> set (cr_items r) \<and> ei_omit_reason i \<noteq> None))"
proof -
  define b where "b = (case budget of None \<Rightarrow> default_budget | Some b \<Rightarrow> b)"
  define items where "items = pack b corpus 1 [] 0 [] cands"
  have desc: "describes_all corpus 1 cands items"
    using pack_extends [of b corpus 1 "[]" 0 "[]" cands] by (auto simp: items_def)
  moreover have "distinct (picked cands items)"
    using picked_pack [of b corpus 1 "[]" 0 "[]" cands] by (auto simp: items_def)
  moreover have "(\<exists>i \<in> set items. \<not> ei_selected i) \<longleftrightarrow> (\<exists>i. i \<in> set items \<and> ei_omit_reason i \<noteq> None)"
    by (meson describes_all_omit [OF desc])
  ultimately show ?thesis
    by (simp add: compile_context_def Let_def b_def items_def)
qed

text \<open>
  Nothing is left out without need: when the candidate identifiers are distinct and all
  candidates fit in both budgets, the receipt selects each of them and is not partial.
\<close>

theorem compile_context_complete:
  assumes "distinct (map fc_candidate_id cands)"
    and "int (length cands) \<le> max_items b"
    and "corpus_chars corpus cands \<le> char_budget b"
  shows "\<not> cr_partial (compile_context sha rid q purpose pv spaces prov cands corpus (Some b)) \<and>
    picked cands (cr_items (compile_context sha rid q purpose pv spaces prov cands corpus (Some b))) =
      map fc_candidate_id cands"
proof -
  define items where "items = pack b corpus 1 [] 0 [] cands"
  have sel: "\<forall>i \<in> set items. ei_selected i"
    unfolding items_def
    by (rule pack_all_selected) (use assms in \<open>auto simp: selected_count_def\<close>)
  moreover have "picked cands items = map fc_candidate_id cands"
    by (rule picked_all) (simp_all add: sel items_def pack_items_length)
  ultimately show ?thesis
    by (simp add: compile_context_def Let_def items_def)
qed

definition sample_candidate :: "string \<Rightarrow> FusedCandidate" where
  "sample_candidate cid =
     \<lparr> fc_candidate_id = cid, fc_canonical_type = ''document'', fc_canonical_id = 1,
       fc_revision_id = 2, fc_space_id = 3, fc_fused_score = 1, fc_lanes = [],
       fc_locator = None, fc_snippet = Some ''hello'' \<rparr>"

theorem compile_context_complete_witness:
  "\<not> cr_partial (compile_context id 7 ''q'' ''general'' ''v1'' [] []
      [sample_candidate ''a'', sample_candidate ''b''] [] (Some default_budget))"
  using compile_context_complete [of "[sample_candidate ''a'', sample_candidate ''b'']" default_budget "[]"]
  by (simp add: sample_candidate_def default_budget_def corpus_chars_def char_budget_def
      candidate_text_def)

end
