(* ===== verification/Policy.thy ===== *)
theory Policy
  imports Prelude
begin

text \<open>
  The admission policy of the API, \<open>services/core/src/memdot_core/policy.py\<close>: the fixed-window
  rate limiter, the per-key concurrency tracker and the process-wide overload breaker.

  A \<open>defaultdict\<close> is a map whose absent keys read as the default. The clock
  (\<open>time.monotonic()\<close>, in seconds) is an argument; \<open>allow\<close> reads it once, and a second time
  when the default factory makes the bucket of a new key.

  The two trackers keep the same contract, the locale \<open>bounded_gate\<close>: its lemmas are proved
  once and hold of both.
\<close>

section \<open>The fixed-window rate limiter\<close>

record RateBucket =
  bucket_count :: int
  window_start :: rat

record InMemoryRateLimiter =
  rl_limit :: int
  rl_window :: rat
  rl_buckets :: "string \<rightharpoonup> RateBucket"

definition new_rate_limiter :: "int \<Rightarrow> rat \<Rightarrow> InMemoryRateLimiter" where
  "new_rate_limiter limit window_seconds =
     \<lparr> rl_limit = limit, rl_window = window_seconds, rl_buckets = Map.empty \<rparr>"

definition allow :: "InMemoryRateLimiter \<Rightarrow> string \<Rightarrow> rat \<Rightarrow> rat \<Rightarrow> bool \<times> InMemoryRateLimiter" where
  "allow rl key now created =
     (let bucket = (case rl_buckets rl key of
                      None \<Rightarrow> \<lparr> bucket_count = 0, window_start = created \<rparr>
                    | Some b \<Rightarrow> b);
          bucket' = (if rl_window rl \<le> now - window_start bucket
                     then \<lparr> bucket_count = 0, window_start = now \<rparr> else bucket)
      in if rl_limit rl \<le> bucket_count bucket'
         then (False, rl\<lparr> rl_buckets := (rl_buckets rl)(key \<mapsto> bucket') \<rparr>)
         else (True, rl\<lparr> rl_buckets := (rl_buckets rl)(key \<mapsto>
                         bucket'\<lparr> bucket_count := bucket_count bucket' + 1 \<rparr>) \<rparr>))"

text \<open>
  A sequence of requests, each with its key and the two clock readings; the result counts
  the ones of key \<open>k\<close> that were allowed.
\<close>

fun allowed_count ::
    "string \<Rightarrow> InMemoryRateLimiter \<Rightarrow> (string \<times> rat \<times> rat) list \<Rightarrow> nat" where
  "allowed_count k rl [] = 0"
| "allowed_count k rl ((key, now, created) # cs) =
     (case allow rl key now created of (ok, rl') \<Rightarrow>
        (if ok \<and> key = k then 1 else 0) + allowed_count k rl' cs)"

section \<open>The concurrency tracker and the overload breaker\<close>

record ConcurrencyTracker =
  ct_max :: int
  ct_active :: "string \<Rightarrow> int"

definition new_concurrency_tracker :: "int \<Rightarrow> ConcurrencyTracker" where
  "new_concurrency_tracker max_active = \<lparr> ct_max = max_active, ct_active = (\<lambda>_. 0) \<rparr>"

definition ct_try_acquire :: "ConcurrencyTracker \<Rightarrow> string \<Rightarrow> bool \<times> ConcurrencyTracker" where
  "ct_try_acquire t key =
     (if ct_max t \<le> ct_active t key then (False, t)
      else (True, t\<lparr> ct_active := (ct_active t)(key := ct_active t key + 1) \<rparr>))"

definition ct_release :: "ConcurrencyTracker \<Rightarrow> string \<Rightarrow> ConcurrencyTracker" where
  "ct_release t key =
     (if 0 < ct_active t key then t\<lparr> ct_active := (ct_active t)(key := ct_active t key - 1) \<rparr> else t)"

record OverloadBreaker =
  ob_max :: int
  ob_inflight :: int

definition new_overload_breaker :: "int \<Rightarrow> OverloadBreaker" where
  "new_overload_breaker max_inflight = \<lparr> ob_max = max_inflight, ob_inflight = 0 \<rparr>"

definition ob_try_acquire :: "OverloadBreaker \<Rightarrow> bool \<times> OverloadBreaker" where
  "ob_try_acquire b =
     (if ob_max b \<le> ob_inflight b then (False, b)
      else (True, b\<lparr> ob_inflight := ob_inflight b + 1 \<rparr>))"

definition ob_release :: "OverloadBreaker \<Rightarrow> OverloadBreaker" where
  "ob_release b = (if 0 < ob_inflight b then b\<lparr> ob_inflight := ob_inflight b - 1 \<rparr> else b)"

section \<open>The contract of a gate\<close>

text \<open>
  Operations on a gate, and the run of a sequence of them. \<open>granted\<close> and \<open>returned\<close>
  count the successful acquisitions and the releases of a key.
\<close>

datatype 'k gate_op = Acquire 'k | Release 'k

fun run_gate :: "('s \<Rightarrow> 'k \<Rightarrow> bool \<times> 's) \<Rightarrow> ('s \<Rightarrow> 'k \<Rightarrow> 's) \<Rightarrow> 's \<Rightarrow> 'k gate_op list \<Rightarrow> 's" where
  "run_gate acq rel s [] = s"
| "run_gate acq rel s (Acquire k # ops) = run_gate acq rel (snd (acq s k)) ops"
| "run_gate acq rel s (Release k # ops) = run_gate acq rel (rel s k) ops"

text \<open>
  The holders of a key along a run in which nobody releases what was not granted: \<open>None\<close>
  when some release had no grant before it.
\<close>

fun holders :: "('s \<Rightarrow> 'k \<Rightarrow> bool \<times> 's) \<Rightarrow> ('s \<Rightarrow> 'k \<Rightarrow> 's) \<Rightarrow> 'k \<Rightarrow> int \<Rightarrow> 's \<Rightarrow> 'k gate_op list \<Rightarrow> int option" where
  "holders acq rel k n s [] = Some n"
| "holders acq rel k n s (Acquire j # ops) =
     holders acq rel k (if j = k \<and> fst (acq s j) then n + 1 else n) (snd (acq s j)) ops"
| "holders acq rel k n s (Release j # ops) =
     (if j = k then (if 0 < n then holders acq rel k (n - 1) (rel s j) ops else None)
      else holders acq rel k n (rel s j) ops)"

locale bounded_gate =
  fixes in_use :: "'s \<Rightarrow> 'k \<Rightarrow> int" and capacity :: "'s \<Rightarrow> int"
    and acquire :: "'s \<Rightarrow> 'k \<Rightarrow> bool \<times> 's" and release :: "'s \<Rightarrow> 'k \<Rightarrow> 's"
  assumes acquire_iff: "fst (acquire s k) \<longleftrightarrow> in_use s k < capacity s"
    and acquire_use: "in_use (snd (acquire s k)) j =
      in_use s j + (if j = k \<and> in_use s k < capacity s then 1 else 0)"
    and acquire_capacity: "capacity (snd (acquire s k)) = capacity s"
    and release_use: "in_use (release s k) j =
      in_use s j - (if j = k \<and> 0 < in_use s k then 1 else 0)"
    and release_capacity: "capacity (release s k) = capacity s"
begin

lemma capacity_run: "capacity (run_gate acquire release s ops) = capacity s"
proof (induction ops arbitrary: s)
  case (Cons op ops)
  then show ?case by (cases op) (auto simp: acquire_capacity release_capacity)
qed simp

lemma run_bounds:
  "0 \<le> in_use s k \<Longrightarrow> in_use s k \<le> capacity s \<Longrightarrow>
     0 \<le> in_use (run_gate acquire release s ops) k \<and>
     in_use (run_gate acquire release s ops) k \<le> capacity s"
proof (induction ops arbitrary: s)
  case (Cons op ops)
  show ?case
  proof (cases op)
    case (Acquire j)
    then show ?thesis
      using Cons.IH [of "snd (acquire s j)"] Cons.prems
      by (cases "j = k") (auto simp: acquire_use acquire_capacity split: if_splits)
  next
    case (Release j)
    then show ?thesis
      using Cons.IH [of "release s j"] Cons.prems
      by (cases "j = k") (auto simp: release_use release_capacity split: if_splits)
  qed
qed simp

lemma run_holders:
  "holders acquire release k (in_use s k) s ops = Some n \<Longrightarrow>
     in_use (run_gate acquire release s ops) k = n"
proof (induction ops arbitrary: s)
  case (Cons op ops)
  show ?case
  proof (cases op)
    case (Acquire j)
    then show ?thesis
      using Cons.IH [of "snd (acquire s j)"] Cons.prems
      by (cases "j = k") (auto simp: acquire_use acquire_iff split: if_splits)
  next
    case (Release j)
    then show ?thesis
      using Cons.IH [of "release s j"] Cons.prems
      by (cases "j = k") (auto simp: release_use split: if_splits)
  qed
qed simp

lemma release_frees:
  "0 < capacity s \<Longrightarrow> in_use s k \<le> capacity s \<Longrightarrow> fst (acquire (release s k) k)"
  by (auto simp: acquire_iff release_use release_capacity)

end

interpretation tracker: bounded_gate ct_active ct_max ct_try_acquire ct_release
  by unfold_locales (auto simp: ct_try_acquire_def ct_release_def)

interpretation breaker: bounded_gate "\<lambda>b (k :: unit). ob_inflight b" ob_max
  "\<lambda>b k. ob_try_acquire b" "\<lambda>b k. ob_release b"
  by unfold_locales (auto simp: ob_try_acquire_def ob_release_def)

section \<open>The rate limiter's window\<close>

lemma allow_limits [simp]:
  "rl_limit (snd (allow rl key now created)) = rl_limit rl"
  "rl_window (snd (allow rl key now created)) = rl_window rl"
  by (simp_all add: allow_def Let_def)

lemma allow_other: "key \<noteq> k \<Longrightarrow> rl_buckets (snd (allow rl key now created)) k = rl_buckets rl k"
  by (simp add: allow_def Let_def)

text \<open>A bucket whose window starts at \<open>t\<close> or later has room for the rest of its limit only.\<close>

lemma allowed_fresh:
  assumes "rl_buckets rl k = Some b" and "t \<le> window_start b"
    and "\<forall>(key, now, created) \<in> set cs. now < t + rl_window rl"
  shows "int (allowed_count k rl cs) \<le> max 0 (rl_limit rl - bucket_count b)"
  using assms
proof (induction cs arbitrary: rl b)
  case (Cons c cs)
  obtain key now created where c: "c = (key, now, created)" by (cases c)
  let ?rl = "snd (allow rl key now created)"
  have times: "\<forall>(key, now, created) \<in> set cs. now < t + rl_window ?rl" "now < t + rl_window rl"
    using Cons.prems(3) c by auto
  show ?case
  proof (cases "key = k")
    case False
    then have "rl_buckets ?rl k = Some b" using Cons.prems(1) allow_other by metis
    from Cons.IH [OF this Cons.prems(2) times(1)] show ?thesis
      using False c by (simp add: split_beta)
  next
    case True
    let ?ok = "bucket_count b < rl_limit rl"
    have keep: "\<not> rl_window rl \<le> now - window_start b" using times(2) Cons.prems(2) by simp
    have a: "fst (allow rl key now created) = ?ok"
      "rl_buckets ?rl k = Some (b\<lparr> bucket_count := bucket_count b + (if ?ok then 1 else 0) \<rparr>)"
      using keep True Cons.prems(1) by (auto simp: allow_def Let_def)
    from Cons.IH [OF a(2) _ times(1)] show ?thesis
      using a(1) True c Cons.prems(2) by (auto simp: split_beta)
  qed
qed simp

lemma allowed_window:
  assumes "\<forall>b. rl_buckets rl k = Some b \<longrightarrow> 0 \<le> bucket_count b" and "0 \<le> rl_limit rl"
    and "\<forall>(key, now, created) \<in> set cs. t \<le> now \<and> now \<le> created \<and> now < t + rl_window rl"
  shows "int (allowed_count k rl cs) \<le> 2 * rl_limit rl -
    (case rl_buckets rl k of None \<Rightarrow> 0 | Some b \<Rightarrow> min (bucket_count b) (rl_limit rl))"
  using assms
proof (induction cs arbitrary: rl)
  case (Cons c cs)
  obtain key now created where c: "c = (key, now, created)" by (cases c)
  let ?rl = "snd (allow rl key now created)"
  have tm: "t \<le> now" "now \<le> created" "now < t + rl_window rl" using Cons.prems(3) c by auto
  have times: "\<forall>(key, now, created) \<in> set cs. t \<le> now \<and> now \<le> created \<and> now < t + rl_window ?rl"
    using Cons.prems(3) by simp
  then have times': "\<forall>(key, now, created) \<in> set cs. now < t + rl_window ?rl" by auto
  show ?case
  proof (cases "key = k")
    case False
    then have same: "rl_buckets ?rl k = rl_buckets rl k" by (rule allow_other)
    have "int (allowed_count k ?rl cs) \<le> 2 * rl_limit ?rl -
        (case rl_buckets ?rl k of None \<Rightarrow> 0 | Some b \<Rightarrow> min (bucket_count b) (rl_limit ?rl))"
      by (rule Cons.IH) (use Cons.prems(1,2) times same in auto)
    then show ?thesis using False c by (simp add: split_beta same split: option.splits)
  next
    case True
    define b where "b = (case rl_buckets rl k of
      None \<Rightarrow> \<lparr> bucket_count = 0, window_start = created \<rparr> | Some b \<Rightarrow> b)"
    show ?thesis
    proof (cases "t \<le> window_start b \<or> rl_window rl \<le> now - window_start b")
      case fresh: True
      define b' where "b' = (if rl_window rl \<le> now - window_start b
        then \<lparr> bucket_count = 0, window_start = now \<rparr> else b)"
      define n where "n = (if bucket_count b' < rl_limit rl then 1 else 0 :: int)"
      have "rl_buckets ?rl k = Some (b'\<lparr> bucket_count := bucket_count b' + n \<rparr>)"
        using True by (auto simp: allow_def Let_def b_def b'_def n_def split: option.split)
      moreover have "t \<le> window_start (b'\<lparr> bucket_count := bucket_count b' + n \<rparr>)"
        using fresh tm by (auto simp: b'_def)
      ultimately have "int (allowed_count k ?rl cs) \<le> max 0 (rl_limit ?rl - (bucket_count b' + n))"
        using allowed_fresh [OF _ _ times'] by fastforce
      moreover have "fst (allow rl key now created) \<longleftrightarrow> n = 1"
        using True by (auto simp: allow_def Let_def b_def b'_def n_def split: option.split)
      ultimately show ?thesis
        using True c Cons.prems(1,2)
        by (auto simp: split_beta n_def b'_def b_def split: option.splits if_splits)
    next
      case False
      then obtain b0 where b0: "rl_buckets rl k = Some b0" "b = b0"
        using tm by (cases "rl_buckets rl k") (auto simp: b_def)
      define n where "n = (if bucket_count b0 < rl_limit rl then 1 else 0 :: int)"
      have st: "rl_buckets ?rl k = Some (b0\<lparr> bucket_count := bucket_count b0 + n \<rparr>)"
        "fst (allow rl key now created) \<longleftrightarrow> n = 1"
        using True b0 False by (auto simp: allow_def Let_def n_def)
      have "int (allowed_count k ?rl cs) \<le> 2 * rl_limit ?rl -
          (case rl_buckets ?rl k of None \<Rightarrow> 0 | Some b \<Rightarrow> min (bucket_count b) (rl_limit ?rl))"
        by (rule Cons.IH) (use Cons.prems(1,2) times st b0 in \<open>auto simp: n_def\<close>)
      then show ?thesis
        using True c st b0 by (auto simp: split_beta n_def)
    qed
  qed
qed (auto split: option.splits)

definition limiter_ok :: "int \<Rightarrow> rat \<Rightarrow> InMemoryRateLimiter \<Rightarrow> bool" where
  "limiter_ok limit w rl \<longleftrightarrow> rl_limit rl = limit \<and> rl_window rl = w \<and>
     (\<forall>k b. rl_buckets rl k = Some b \<longrightarrow> 0 \<le> bucket_count b)"

lemma limiter_ok_allow:
  assumes "limiter_ok limit w rl"
  shows "limiter_ok limit w (snd (allow rl key now created))"
  using assms by (auto simp: limiter_ok_def allow_def Let_def split: option.split)

lemma limiter_ok_fold:
  "limiter_ok limit w rl \<Longrightarrow>
     limiter_ok limit w (fold (\<lambda>(key, now, created) rl. snd (allow rl key now created)) es rl)"
  by (induction es arbitrary: rl) (auto simp: limiter_ok_allow)

section \<open>Properties\<close>

text \<open>
  The rate limiter bounds bursts: among the requests of a new limiter that arrive within one
  window length of each other (any interleaving with other keys, any earlier traffic), at
  most twice the limit are allowed for one key.
\<close>

theorem rate_limiter_burst:
  assumes "0 \<le> limit"
    and "rl = fold (\<lambda>(key, now, created) rl. snd (allow rl key now created)) earlier (new_rate_limiter limit w)"
    and "\<forall>(key, now, created) \<in> set cs. t \<le> now \<and> now \<le> created \<and> now < t + w"
  shows "int (allowed_count k rl cs) \<le> 2 * limit"
proof -
  have "limiter_ok limit w rl"
    unfolding assms(2) by (rule limiter_ok_fold) (simp add: new_rate_limiter_def limiter_ok_def)
  then have ok: "rl_limit rl = limit" "rl_window rl = w" "\<And>b. rl_buckets rl k = Some b \<Longrightarrow> 0 \<le> bucket_count b"
    by (auto simp: limiter_ok_def)
  have "int (allowed_count k rl cs) \<le> 2 * rl_limit rl -
      (case rl_buckets rl k of None \<Rightarrow> 0 | Some b \<Rightarrow> min (bucket_count b) (rl_limit rl))"
    by (rule allowed_window) (use assms(1,3) ok in auto)
  moreover have "0 \<le> (case rl_buckets rl k of None \<Rightarrow> 0 | Some b \<Rightarrow> min (bucket_count b) (rl_limit rl))"
    using ok(3) assms(1) by (simp add: ok(1) split: option.split)
  ultimately show ?thesis using ok(1) by simp
qed

theorem rate_limiter_burst_witness:
  "allowed_count ''u'' (new_rate_limiter 1 60) [(''u'', 0, 0), (''u'', 1, 1)] = 1 \<and>
   int (allowed_count ''u'' (new_rate_limiter 1 60) [(''u'', 0, 0), (''u'', 1, 1)]) \<le> 2 * 1"
  using rate_limiter_burst [of 1 "new_rate_limiter 1 60" "[]" 60 "[(''u'', 0, 0), (''u'', 1, 1)]" 0 "''u''"]
  by (simp add: allow_def new_rate_limiter_def)

text \<open>
  The concurrency tracker never lets more than its maximum run for one key, whatever the
  sequence of acquisitions and releases; when nobody releases without a grant, its counter is
  exactly the number of holders.
\<close>

theorem concurrency_tracker_bound:
  assumes "0 \<le> m"
    and "holders ct_try_acquire ct_release k 0 (new_concurrency_tracker m) ops = Some n"
  shows "ct_active (run_gate ct_try_acquire ct_release (new_concurrency_tracker m) ops) k = n \<and>
    0 \<le> n \<and> n \<le> m"
proof -
  have "ct_active (run_gate ct_try_acquire ct_release (new_concurrency_tracker m) ops) k = n"
    by (rule tracker.run_holders) (use assms in \<open>simp add: new_concurrency_tracker_def\<close>)
  then show ?thesis
    using tracker.run_bounds [of "new_concurrency_tracker m" k ops] assms(1)
    by (simp add: new_concurrency_tracker_def)
qed

theorem concurrency_tracker_bound_witness:
  "ct_active (run_gate ct_try_acquire ct_release (new_concurrency_tracker 2)
     [Acquire ''a'', Acquire ''a'', Acquire ''a'', Release ''a'', Acquire ''b'']) ''a'' = 1"
  using concurrency_tracker_bound [of 2 "''a''"
    "[Acquire ''a'', Acquire ''a'', Acquire ''a'', Release ''a'', Acquire ''b'']" 1]
  by (simp add: new_concurrency_tracker_def ct_try_acquire_def ct_release_def)

text \<open>
  The overload breaker stays between 0 and its maximum over any run, and a release always
  makes room: the next acquisition succeeds.
\<close>

theorem overload_breaker_bound:
  assumes "0 < m" and "b = run_gate (\<lambda>b k. ob_try_acquire b) (\<lambda>b k. ob_release b) (new_overload_breaker m) (ops :: unit gate_op list)"
  shows "0 \<le> ob_inflight b \<and> ob_inflight b \<le> m \<and> fst (ob_try_acquire (ob_release b))"
  using breaker.run_bounds [of "new_overload_breaker m" ops]
    breaker.capacity_run [of "new_overload_breaker m" ops] breaker.release_frees [of b] assms
  by (simp add: new_overload_breaker_def)

theorem overload_breaker_bound_witness:
  "fst (ob_try_acquire (ob_release (run_gate (\<lambda>b k. ob_try_acquire b) (\<lambda>b k. ob_release b)
     (new_overload_breaker 1) [Acquire (), Acquire ()])))"
  using overload_breaker_bound [OF _ refl, of 1 "[Acquire (), Acquire ()]"] by simp

end
