(* ===== verification/Telemetry.thy ===== *)
theory Telemetry
  imports Json
begin

text \<open>
  The telemetry allowlist, \<open>packages/domain-python/src/memdot_domain/telemetry.py\<close>: payloads are
  rejected when a dictionary key at any depth is one that carries user content, and reduced
  to allowlisted scalar attributes.
\<close>

section \<open>The lists\<close>

definition FORBIDDEN_TELEMETRY_KEYS :: "string list" where
  "FORBIDDEN_TELEMETRY_KEYS =
     [''content'', ''text'', ''body'', ''prompt'', ''completion'', ''message'', ''user_content'',
      ''assertion_text'', ''plain_text'', ''exact_text'', ''sealed_answer'', ''patch_json'',
      ''payload'', ''conversation_turn'', ''turn_content'', ''query'', ''snippet'', ''corpus'',
      ''document_json'', ''memdot_document'', ''raw_turn'', ''captured_text'']"

definition ALLOWED_TELEMETRY_KEYS :: "string list" where
  "ALLOWED_TELEMETRY_KEYS =
     [''account_id'', ''actor_id'', ''correlation_id'', ''request_id'', ''service'', ''route'',
      ''method'', ''status_code'', ''error_code'', ''duration_ms'', ''job_type'', ''job_id'',
      ''event_type'', ''entity_type'', ''entity_id'', ''space_id'', ''purpose'', ''scope'',
      ''client_id'', ''tool_name'', ''counter_name'', ''count'', ''dependency'', ''degraded'',
      ''partial'']"

section \<open>Walking a payload\<close>

definition key_path :: "string \<Rightarrow> string \<Rightarrow> string" where
  "key_path pfx key = (if pfx \<noteq> [] then pfx @ CHR ''.'' # key else key)"

definition index_path :: "string \<Rightarrow> nat \<Rightarrow> string" where
  "index_path pfx i = pfx @ CHR ''['' # dec_nat i @ '']''"

fun walk_keys :: "string \<Rightarrow> json \<Rightarrow> string list"
  and walk_dict :: "string \<Rightarrow> dict \<Rightarrow> string list"
  and walk_items :: "string \<Rightarrow> nat \<Rightarrow> json list \<Rightarrow> string list" where
  "walk_keys pfx (JObj d) = walk_dict pfx d"
| "walk_keys pfx (JList vs) = walk_items pfx 0 vs"
| "walk_keys pfx JNull = []"
| "walk_keys pfx (JBool b) = []"
| "walk_keys pfx (JInt i) = []"
| "walk_keys pfx (JStr s) = []"
| "walk_dict pfx [] = []"
| "walk_dict pfx ((k, v) # d) =
     key_path pfx k # walk_keys (key_path pfx k) v @ walk_dict pfx d"
| "walk_items pfx i [] = []"
| "walk_items pfx i (v # vs) = walk_keys (index_path pfx i) v @ walk_items pfx (i + 1) vs"

definition path_leaf :: "string \<Rightarrow> string" where
  "path_leaf path = py_lower (hd (py_split (CHR ''['') (last (py_split (CHR ''.'') path))))"

definition reject_forbidden_telemetry_fields :: "dict \<Rightarrow> unit res" where
  "reject_forbidden_telemetry_fields payload =
     (case find (\<lambda>path. path_leaf path \<in> set FORBIDDEN_TELEMETRY_KEYS) (walk_keys [] (JObj payload)) of
        Some path \<Rightarrow> Inl (TelemetryContentRejectedError (''forbidden telemetry field: '' @ path))
      | None \<Rightarrow> Inr ())"

fun is_scalar :: "json \<Rightarrow> bool" where
  "is_scalar (JObj d) = False"
| "is_scalar (JList vs) = False"
| "is_scalar v = True"

definition sanitize_telemetry_attributes :: "dict \<Rightarrow> string list option \<Rightarrow> dict res" where
  "sanitize_telemetry_attributes payload extra_allowed =
     bindr (reject_forbidden_telemetry_fields payload) (\<lambda>_.
       let allowed = ALLOWED_TELEMETRY_KEYS @ (case extra_allowed of None \<Rightarrow> [] | Some e \<Rightarrow> e)
       in Inr (filter (\<lambda>(k, v). k \<in> set allowed \<and> is_scalar v) payload))"

section \<open>Every key at every depth is looked at\<close>

fun all_keys :: "json \<Rightarrow> string list"
  and dict_keys :: "dict \<Rightarrow> string list"
  and item_keys :: "json list \<Rightarrow> string list" where
  "all_keys (JObj d) = dict_keys d"
| "all_keys (JList vs) = item_keys vs"
| "all_keys JNull = []"
| "all_keys (JBool b) = []"
| "all_keys (JInt i) = []"
| "all_keys (JStr s) = []"
| "dict_keys [] = []"
| "dict_keys ((k, v) # d) = k # all_keys v @ dict_keys d"
| "item_keys [] = []"
| "item_keys (v # vs) = all_keys v @ item_keys vs"

lemma last_py_split_append: "last (py_split d (p @ d # k)) = last (py_split d k)"
proof (induction p)
  case (Cons c p)
  have "py_split d (p @ d # k) \<noteq> []" by simp
  moreover have "length (py_split d (p @ d # k)) \<noteq> 1"
    by (induction p) (auto split: list.splits)
  ultimately show ?case
    using Cons by (auto split: list.splits)
qed simp

lemma path_leaf_key_path:
  assumes "CHR ''.'' \<notin> set k" and "CHR ''['' \<notin> set k"
  shows "path_leaf (key_path pfx k) = py_lower k"
  using assms by (simp add: path_leaf_def key_path_def last_py_split_append py_split_plain)

lemma walk_covers:
  "k \<in> set (all_keys v) \<Longrightarrow> \<exists>q. key_path q k \<in> set (walk_keys p v)"
  "k \<in> set (dict_keys d) \<Longrightarrow> \<exists>q. key_path q k \<in> set (walk_dict p d)"
  "k \<in> set (item_keys vs) \<Longrightarrow> \<exists>q. key_path q k \<in> set (walk_items p i vs)"
  by (induction p v and p d and p i vs rule: walk_keys_walk_dict_walk_items.induct) auto

lemma forbidden_plain:
  "py_lower k \<in> set FORBIDDEN_TELEMETRY_KEYS \<Longrightarrow> CHR ''.'' \<notin> set k \<and> CHR ''['' \<notin> set k"
proof -
  assume a: "py_lower k \<in> set FORBIDDEN_TELEMETRY_KEYS"
  have "\<forall>f \<in> set FORBIDDEN_TELEMETRY_KEYS. CHR ''.'' \<notin> set f \<and> CHR ''['' \<notin> set f"
    by (simp add: FORBIDDEN_TELEMETRY_KEYS_def)
  then have "CHR ''.'' \<notin> set (py_lower k)" "CHR ''['' \<notin> set (py_lower k)" using a by auto
  moreover have "lower_char (CHR ''.'') = CHR ''.''" "lower_char (CHR ''['') = CHR ''[''"
    by (simp_all add: lower_char_def Let_def)
  ultimately show ?thesis by (metis image_eqI list.set_map py_lower_def)
qed

section \<open>Properties\<close>

text \<open>
  The filter fails closed: a payload passes only if no dictionary key at any depth, through
  nested objects and lists, is (in any letter case) one of the content-bearing keys.
\<close>

theorem telemetry_rejects_nested_content:
  assumes "k \<in> set (all_keys (JObj payload))" and "py_lower k \<in> set FORBIDDEN_TELEMETRY_KEYS"
  shows "\<exists>m. reject_forbidden_telemetry_fields payload = Inl (TelemetryContentRejectedError m)"
proof -
  obtain q where q: "key_path q k \<in> set (walk_keys [] (JObj payload))"
    using walk_covers(1) [OF assms(1)] by blast
  have "path_leaf (key_path q k) \<in> set FORBIDDEN_TELEMETRY_KEYS"
    using path_leaf_key_path forbidden_plain [OF assms(2)] assms(2) by simp
  with q show ?thesis
    by (auto simp: reject_forbidden_telemetry_fields_def find_None_iff split: option.splits)
qed

theorem telemetry_rejects_nested_content_witness:
  "\<exists>m. reject_forbidden_telemetry_fields
     [(''a'', JList [JObj [(''Prompt'', JStr ''secret'')]])] = Inl (TelemetryContentRejectedError m)"
proof (rule telemetry_rejects_nested_content)
  show "''Prompt'' \<in> set (all_keys (JObj [(''a'', JList [JObj [(''Prompt'', JStr ''secret'')]])]))" by simp
  show "py_lower ''Prompt'' \<in> set FORBIDDEN_TELEMETRY_KEYS" by code_simp
qed

text \<open>
  What is emitted is allowlisted: the attributes are entries of the payload, in its order and with
  unchanged values, every one scalar and under an allowed key; and the call fails exactly
  when the payload is rejected.
\<close>

theorem sanitize_telemetry_output:
  assumes "sanitize_telemetry_attributes payload extra = Inr out"
  shows "subseq out payload \<and>
    (\<forall>(k, v) \<in> set out. is_scalar v \<and>
       (k \<in> set ALLOWED_TELEMETRY_KEYS \<or> (\<exists>e. extra = Some e \<and> k \<in> set e))) \<and>
    reject_forbidden_telemetry_fields payload = Inr ()"
  using assms
  by (auto simp: sanitize_telemetry_attributes_def bindr_Inr_iff Let_def split: option.splits)

theorem sanitize_telemetry_output_witness:
  "\<exists>out. sanitize_telemetry_attributes [(''route'', JStr ''/v1''), (''size'', JInt 3)] None = Inr out \<and>
     (\<forall>(k, v) \<in> set out. is_scalar v)"
proof -
  have "sanitize_telemetry_attributes [(''route'', JStr ''/v1''), (''size'', JInt 3)] None =
      Inr [(''route'', JStr ''/v1'')]"
    by code_simp
  from sanitize_telemetry_output [OF this] this show ?thesis by auto
qed

end
