(* ===== verification/Mcp_Ids.thy ===== *)
theory Mcp_Ids
  imports Ids
begin

text \<open>
  Public identifiers and labels of the MCP surface, \<open>packages/domain-python/src/memdot_domain/mcp.py\<close>.
\<close>

section \<open>Labels\<close>

datatype ConversationCompleteness = COMPLETE | PARTIAL | SUMMARY | UNKNOWN

definition completeness_value :: "ConversationCompleteness \<Rightarrow> string" where
  "completeness_value c =
     (case c of COMPLETE \<Rightarrow> ''complete'' | PARTIAL \<Rightarrow> ''partial'' | SUMMARY \<Rightarrow> ''summary''
      | UNKNOWN \<Rightarrow> ''unknown'')"

datatype McpInteractionCompleteness = SINGLE_TURN | PARTIAL_THREAD | COMPLETE_IMPORT

definition interaction_value :: "McpInteractionCompleteness \<Rightarrow> string" where
  "interaction_value c =
     (case c of SINGLE_TURN \<Rightarrow> ''single_turn'' | PARTIAL_THREAD \<Rightarrow> ''partial_thread''
      | COMPLETE_IMPORT \<Rightarrow> ''complete_import'')"

datatype CaptureOrigin = NATIVE | EXTERNAL_MCP | IMPORT

definition capture_origin_value :: "CaptureOrigin \<Rightarrow> string" where
  "capture_origin_value c =
     (case c of NATIVE \<Rightarrow> ''native'' | EXTERNAL_MCP \<Rightarrow> ''external_mcp'' | IMPORT \<Rightarrow> ''import'')"

definition map_mcp_completeness_to_conversation :: "string \<Rightarrow> ConversationCompleteness" where
  "map_mcp_completeness_to_conversation value =
     (let normalized = py_lower (py_strip value) in
      if normalized = interaction_value COMPLETE_IMPORT then COMPLETE
      else if normalized = interaction_value PARTIAL_THREAD then PARTIAL
      else if normalized = interaction_value SINGLE_TURN then PARTIAL
      else case find (\<lambda>c. completeness_value c = normalized) [COMPLETE, PARTIAL, SUMMARY, UNKNOWN] of
             Some c \<Rightarrow> c
           | None \<Rightarrow> UNKNOWN)"

definition capture_origin_for_client :: "string \<Rightarrow> CaptureOrigin" where
  "capture_origin_for_client source_client =
     (let lowered = py_lower (py_strip source_client) in
      if lowered \<in> set [''native'', ''memdot'', ''first_party''] then NATIVE
      else if lowered \<in> set [''import'', ''bulk_import''] then IMPORT
      else EXTERNAL_MCP)"

section \<open>Public identifiers\<close>

definition MCP_ID_PREFIX :: string where "MCP_ID_PREFIX = ''memdot''"

definition encode_mcp_public_id :: "string \<Rightarrow> uuid \<Rightarrow> uuid option \<Rightarrow> string" where
  "encode_mcp_public_id canonical_type canonical_id revision_id =
     py_join (CHR '':'') ([MCP_ID_PREFIX, canonical_type, str_uuid canonical_id] @
       (case revision_id of None \<Rightarrow> [] | Some r \<Rightarrow> [str_uuid r]))"

definition mcp_uuid :: "string \<Rightarrow> uuid res" where
  "mcp_uuid s = (case parse_uuid s of Inr u \<Rightarrow> Inr u | Inl e \<Rightarrow> Inl (ValueError ''invalid mcp public id''))"

definition decode_mcp_public_id :: "string \<Rightarrow> (string \<times> uuid \<times> uuid option) res" where
  "decode_mcp_public_id mcp_id =
     (let parts = py_split (CHR '':'') mcp_id in
      if length parts < 3 \<or> parts ! 0 \<noteq> MCP_ID_PREFIX
      then Inl (ValueError ''invalid mcp public id'')
      else bindr (mcp_uuid (parts ! 2)) (\<lambda>canonical_id.
        if 4 \<le> length parts
        then bindr (mcp_uuid (parts ! 3)) (\<lambda>r. Inr (parts ! 1, canonical_id, Some r))
        else Inr (parts ! 1, canonical_id, None)))"

definition rstrip_slash :: "string \<Rightarrow> string" where
  "rstrip_slash s = rev (dropWhile (\<lambda>c. c = CHR ''/'') (rev s))"

definition citation_url :: "string \<Rightarrow> string \<Rightarrow> uuid \<Rightarrow> string" where
  "citation_url public_base_url canonical_type canonical_id =
     rstrip_slash public_base_url @ ''/library/'' @ canonical_type @ ''/'' @ str_uuid canonical_id"

section \<open>Properties\<close>

lemma mcp_uuid_str [simp]: "mcp_uuid (str_uuid u) = Inr u"
  by (simp add: mcp_uuid_def)

lemma split_encoded:
  assumes "CHR '':'' \<notin> set t"
  shows "py_split (CHR '':'') (encode_mcp_public_id t i r) =
    [MCP_ID_PREFIX, t, str_uuid i] @ (case r of None \<Rightarrow> [] | Some r \<Rightarrow> [str_uuid r])"
  unfolding encode_mcp_public_id_def
  by (rule py_split_join) (use assms in \<open>auto simp: MCP_ID_PREFIX_def split: option.splits\<close>)

lemma decode_encode:
  "CHR '':'' \<notin> set t \<Longrightarrow> decode_mcp_public_id (encode_mcp_public_id t i r) = Inr (t, i, r)"
  by (cases r) (simp_all add: decode_mcp_public_id_def split_encoded)

text \<open>
  Public identifiers round-trip: decoding an encoded identifier gives back the type, the
  identifier and the optional revision, for every type name without a colon; so two encodings are
  equal only when they name the same thing.
\<close>

theorem mcp_public_id_roundtrip:
  assumes "CHR '':'' \<notin> set t"
  shows "decode_mcp_public_id (encode_mcp_public_id t i r) = Inr (t, i, r)"
  using assms by (rule decode_encode)

theorem mcp_public_id_roundtrip_witness:
  "decode_mcp_public_id (encode_mcp_public_id ''document'' 7 (Some 9)) = Inr (''document'', 7, Some 9)"
  by (rule mcp_public_id_roundtrip) simp

lemma py_split_parts: "w \<in> set (py_split d s) \<Longrightarrow> d \<notin> set w"
  by (induction s arbitrary: w) (auto split: if_splits list.splits)

lemma decode_type_plain: "decode_mcp_public_id s = Inr (t, i, r) \<Longrightarrow> CHR '':'' \<notin> set t"
  by (auto simp: decode_mcp_public_id_def Let_def bindr_Inr_iff split: if_splits
      intro!: py_split_parts [of _ _ s])

text \<open>
  Decoding fails safely: any string at all either raises the one \<open>ValueError\<close> the callers
  handle, or decodes to something whose own public identifier decodes to the same.
\<close>

theorem mcp_public_id_decode_total:
  "decode_mcp_public_id s = Inl (ValueError ''invalid mcp public id'') \<or>
   (\<exists>t i r. decode_mcp_public_id s = Inr (t, i, r) \<and>
      decode_mcp_public_id (encode_mcp_public_id t i r) = Inr (t, i, r))"
proof (cases "decode_mcp_public_id s")
  case (Inl e)
  have "e = ValueError ''invalid mcp public id''"
    using Inl by (auto simp: decode_mcp_public_id_def mcp_uuid_def Let_def bindr_Inl_iff
        split: if_splits sum.splits)
  then show ?thesis using Inl by simp
next
  case (Inr x)
  then obtain t i r where x: "decode_mcp_public_id s = Inr (t, i, r)" by (cases x) auto
  have "decode_mcp_public_id (encode_mcp_public_id t i r) = Inr (t, i, r)"
    by (rule decode_encode) (rule decode_type_plain [OF x])
  then show ?thesis using x by blast
qed

end
