(* ===== verification/Object_Keys.thy ===== *)
theory Object_Keys
  imports Ids
begin

text \<open>
  Object storage keys, \<open>packages/domain-python/src/memdot_domain/object_keys.py\<close>, and the in-memory
  adapter \<open>packages/provider-adapters/src/memdot_provider_adapters/memory_object_storage.py\<close> of the
  storage port. SHA-256 of the stored bytes is the argument \<open>sha\<close>; the bytes are a string.
\<close>

section \<open>Keys\<close>

datatype ObjectLifecycleClass = ORIGINAL | ARTIFACT | QUARANTINE | EXPORT

definition lifecycle_value :: "ObjectLifecycleClass \<Rightarrow> string" where
  "lifecycle_value l =
     (case l of ORIGINAL \<Rightarrow> ''original'' | ARTIFACT \<Rightarrow> ''artifact'' | QUARANTINE \<Rightarrow> ''quarantine''
      | EXPORT \<Rightarrow> ''export'')"

record ObjectKeyParts =
  okp_account_id :: uuid
  okp_space_id :: uuid
  okp_lifecycle :: ObjectLifecycleClass
  okp_artifact_id :: uuid
  okp_filename :: string

definition filename_safe :: "char \<Rightarrow> bool" where
  "filename_safe c \<longleftrightarrow>
     (let n = (of_char c :: nat) in 97 \<le> n \<and> n \<le> 122 \<or> 65 \<le> n \<and> n \<le> 90 \<or> 48 \<le> n \<and> n \<le> 57) \<or>
     c \<in> set ''._-''"

text \<open>\<open>re.sub(r"[^a-zA-Z0-9._-]+", "_", s)\<close>: a maximal run of other characters becomes one underscore.\<close>

function sub_unsafe :: "string \<Rightarrow> string" where
  "sub_unsafe [] = []"
| "sub_unsafe (c # s) =
     (if filename_safe c then c # sub_unsafe s
      else CHR ''_'' # sub_unsafe (dropWhile (\<lambda>c. \<not> filename_safe c) s))"
  by pat_completeness auto
termination by (relation "measure length") (auto simp: le_imp_less_Suc length_dropWhile_le)

definition sanitize_filename :: "string \<Rightarrow> string" where
  "sanitize_filename filename =
     (let cleaned = take 128 (sub_unsafe (py_strip filename))
      in if cleaned = [] then ''object'' else cleaned)"

definition build_object_key :: "ObjectKeyParts \<Rightarrow> string res" where
  "build_object_key p =
     (if py_in ''..'' (okp_filename p) \<or> starts_with (okp_filename p) ''/''
      then Inl (ValueError ''invalid object filename'')
      else Inr (''accounts/'' @ str_uuid (okp_account_id p) @ ''/spaces/'' @ str_uuid (okp_space_id p) @
        ''/'' @ lifecycle_value (okp_lifecycle p) @ ''/'' @ str_uuid (okp_artifact_id p) @ ''/'' @
        sanitize_filename (okp_filename p)))"

definition assert_key_account_binding :: "string \<Rightarrow> uuid \<Rightarrow> unit res" where
  "assert_key_account_binding object_key account_id =
     (if \<not> starts_with object_key (''accounts/'' @ str_uuid account_id @ ''/'')
      then Inl (ValueError ''object_key_account_mismatch'')
      else if py_in ''..'' object_key then Inl (ValueError ''object_key_traversal_denied'')
      else Inr ())"

definition quarantine_key :: "uuid \<Rightarrow> uuid \<Rightarrow> string \<Rightarrow> string res" where
  "quarantine_key account_id upload_id filename =
     build_object_key \<lparr> okp_account_id = account_id, okp_space_id = upload_id,
       okp_lifecycle = QUARANTINE, okp_artifact_id = upload_id, okp_filename = filename \<rparr>"

section \<open>The storage adapter\<close>

record StoredObjectMeta =
  som_object_key :: string
  som_byte_count :: int
  som_sha256 :: string
  som_content_type :: "string option"

type_synonym object_store = "string \<rightharpoonup> string \<times> string \<times> string"

definition put_bytes ::
    "(string \<Rightarrow> string) \<Rightarrow> object_store \<Rightarrow> string \<Rightarrow> string \<Rightarrow> string \<Rightarrow> uuid \<Rightarrow> string option \<Rightarrow> object_store res" where
  "put_bytes sha objs object_key data content_type account_id sha256 =
     bindr (assert_key_account_binding object_key account_id) (\<lambda>_.
       let digest = (case sha256 of None \<Rightarrow> sha data | Some d \<Rightarrow> if d = [] then sha data else d)
       in Inr (objs(object_key \<mapsto> (data, content_type, digest))))"

definition head_object :: "object_store \<Rightarrow> string \<Rightarrow> uuid \<Rightarrow> StoredObjectMeta res" where
  "head_object objs object_key account_id =
     bindr (assert_key_account_binding object_key account_id) (\<lambda>_.
       case objs object_key of
         None \<Rightarrow> Inl (KeyError object_key)
       | Some (data, content_type, digest) \<Rightarrow>
           Inr \<lparr> som_object_key = object_key, som_byte_count = int (length data), som_sha256 = digest,
                 som_content_type = Some content_type \<rparr>)"

definition verify_upload_completion ::
    "object_store \<Rightarrow> string \<Rightarrow> uuid \<Rightarrow> string \<Rightarrow> int \<Rightarrow> StoredObjectMeta res" where
  "verify_upload_completion objs object_key account_id expected_sha256 expected_byte_count =
     bindr (head_object objs object_key account_id) (\<lambda>meta.
       if som_byte_count meta \<noteq> expected_byte_count \<or>
          py_lower (som_sha256 meta) \<noteq> py_lower expected_sha256
       then Inl (ValueError ''upload_verification_failed'') else Inr meta)"

definition promote_from_quarantine ::
    "object_store \<Rightarrow> string \<Rightarrow> ObjectKeyParts \<Rightarrow> uuid \<Rightarrow> (StoredObjectMeta \<times> object_store) res" where
  "promote_from_quarantine objs qkey target_parts account_id =
     (case objs qkey of
        None \<Rightarrow> Inl (KeyError qkey)
      | Some obj \<Rightarrow>
          bindr (build_object_key target_parts) (\<lambda>target_key.
          bindr (head_object (objs(target_key \<mapsto> obj)) target_key account_id) (\<lambda>meta.
            Inr (meta, objs(target_key \<mapsto> obj)))))"

definition read_object_bytes :: "object_store \<Rightarrow> string \<Rightarrow> uuid \<Rightarrow> string res" where
  "read_object_bytes objs object_key account_id =
     bindr (assert_key_account_binding object_key account_id) (\<lambda>_.
       case objs object_key of None \<Rightarrow> Inl (KeyError object_key) | Some (data, _) \<Rightarrow> Inr data)"

section \<open>Substrings\<close>

lemma starts_with_iff: "starts_with s p \<longleftrightarrow> prefix p s"
  by (metis append_eq_conv_conj append_take_drop_id prefix_def starts_with_def)

lemma py_in_iff: "py_in p s \<longleftrightarrow> sublist p s"
  by (induction s) (auto simp: starts_with_iff sublist_Cons_right)

lemma dots_append:
  assumes "d \<noteq> CHR ''.''"
  shows "py_in ''..'' (s @ d # t) \<longleftrightarrow> py_in ''..'' s \<or> py_in ''..'' t"
proof (induction s)
  case Nil
  then show ?case using assms by (auto simp: starts_with_def)
next
  case (Cons c s)
  then show ?case using assms by (cases s) (auto simp: starts_with_def)
qed

lemma no_dot: "CHR ''.'' \<notin> set s \<Longrightarrow> \<not> py_in ''..'' s"
  by (induction s) (auto simp: starts_with_def)

lemma sub_unsafe_dot: "sub_unsafe s = CHR ''.'' # t \<Longrightarrow> \<exists>u. s = CHR ''.'' # u"
  by (cases s) (auto split: if_splits)

lemma sub_unsafe_dots: "py_in ''..'' (sub_unsafe s) \<Longrightarrow> py_in ''..'' s"
proof (induction s rule: sub_unsafe.induct)
  case (2 c s)
  show ?case
  proof (cases "filename_safe c")
    case True
    then have "(c = CHR ''.'' \<and> (\<exists>t. sub_unsafe s = CHR ''.'' # t)) \<or> py_in ''..'' (sub_unsafe s)"
      using 2(3) by (cases "sub_unsafe s") (auto simp: starts_with_def)
    then show ?thesis
      using 2(1) True sub_unsafe_dot by (fastforce simp: starts_with_def)
  next
    case False
    then have "py_in ''..'' (sub_unsafe (dropWhile (\<lambda>c. \<not> filename_safe c) s))"
      using 2(3) by (cases "sub_unsafe (dropWhile (\<lambda>c. \<not> filename_safe c) s)")
        (auto simp: starts_with_def)
    then have "py_in ''..'' (dropWhile (\<lambda>c. \<not> filename_safe c) s)" using 2(2) False by simp
    then show ?thesis
      by (simp add: py_in_iff) (meson suffix_dropWhile suffix_imp_sublist sublist_order.order_trans
          sublist_Cons_right)
  qed
qed simp

lemma sublist_strip: "sublist (py_strip s) s"
proof -
  have "sublist (py_lstrip s) s"
    by (simp add: py_lstrip_def suffix_dropWhile suffix_imp_sublist)
  moreover have "sublist (rev (dropWhile is_space (rev t))) t" for t
    by (metis rev_rev_ident sublist_rev suffix_dropWhile suffix_imp_sublist)
  ultimately show ?thesis
    unfolding py_strip_def by (meson sublist_order.order_trans)
qed

lemma sanitize_no_dots:
  assumes "\<not> py_in ''..'' f"
  shows "\<not> py_in ''..'' (sanitize_filename f)"
proof -
  have "\<not> py_in ''..'' (py_strip f)"
    using assms sublist_strip by (meson py_in_iff sublist_order.order_trans)
  then have "\<not> py_in ''..'' (sub_unsafe (py_strip f))" using sub_unsafe_dots by blast
  then have "\<not> py_in ''..'' (take 128 (sub_unsafe (py_strip f)))"
    by (meson py_in_iff sublist_order.order_trans sublist_take)
  moreover have "\<not> py_in ''..'' ''object''" by (rule no_dot) simp
  ultimately show ?thesis by (simp add: sanitize_filename_def Let_def)
qed

lemma set_sub_unsafe: "set (sub_unsafe s) \<subseteq> {c. filename_safe c}"
  by (induction s rule: sub_unsafe.induct) (auto simp: filename_safe_def)

lemma sanitize_safe: "set (sanitize_filename f) \<subseteq> {c. filename_safe c}"
proof -
  have "set (take 128 (sub_unsafe s)) \<subseteq> {c. filename_safe c}" for s
    using set_sub_unsafe [of s] set_take_subset [of 128 "sub_unsafe s"] by blast
  moreover have "set ''object'' \<subseteq> {c. filename_safe c}" by (simp add: filename_safe_def)
  ultimately show ?thesis by (simp add: sanitize_filename_def Let_def del: list.set)
qed

lemma str_uuid_no_dot: "CHR ''.'' \<notin> set (str_uuid u)"
proof -
  have "CHR ''.'' \<notin> set (hex32 u)" by (auto dest!: hex32_chars)
  then show ?thesis
    by (auto simp: str_uuid_def Let_def dest: in_set_takeD in_set_dropD)
qed

lemma length_str_uuid [simp]: "length (str_uuid u) = 36"
  by (simp add: str_uuid_def Let_def)

definition key_directory :: "ObjectKeyParts \<Rightarrow> string" where
  "key_directory p = ''accounts/'' @ str_uuid (okp_account_id p) @ ''/spaces/'' @ str_uuid (okp_space_id p) @
     ''/'' @ lifecycle_value (okp_lifecycle p) @ ''/'' @ str_uuid (okp_artifact_id p)"

lemma key_shape:
  assumes "build_object_key p = Inr key"
  shows "key = key_directory p @ CHR ''/'' # sanitize_filename (okp_filename p)"
    and "\<not> py_in ''..'' (okp_filename p)"
  using assms by (auto simp: build_object_key_def key_directory_def split: if_splits)

lemma ends_with_append: "ends_with (a @ b) b"
  by (simp add: ends_with_def)

lemma key_no_dots:
  assumes "build_object_key p = Inr key"
  shows "\<not> py_in ''..'' key"
proof -
  have "\<not> py_in ''..'' (key_directory p)"
    by (rule no_dot) (cases "okp_lifecycle p"; auto simp: str_uuid_no_dot lifecycle_value_def key_directory_def)
  moreover have "\<not> py_in ''..'' (sanitize_filename (okp_filename p))"
    using key_shape(2) [OF assms] by (rule sanitize_no_dots)
  ultimately show ?thesis
    unfolding key_shape(1) [OF assms] by (simp add: dots_append del: py_in.simps)
qed

lemma key_prefix:
  assumes "build_object_key p = Inr key"
  shows "starts_with key (''accounts/'' @ str_uuid a @ ''/'') \<longleftrightarrow> a = okp_account_id p"
proof -
  obtain rest where key: "key = ''accounts/'' @ str_uuid (okp_account_id p) @ CHR ''/'' # rest"
    using assms by (auto simp: build_object_key_def split: if_splits)
  show ?thesis
    unfolding key starts_with_iff by (auto simp: prefix_def)
qed

section \<open>Properties\<close>

text \<open>
  Keys are bound to their account: a key that \<open>build_object_key\<close> returns passes the
  binding check for the account it was built for and for no other account, contains no
  dot-dot segment, and ends in a file name of safe characters, so without a slash.
\<close>

theorem object_key_account_binding:
  assumes "build_object_key p = Inr key"
  shows "(assert_key_account_binding key a = Inr () \<longleftrightarrow> a = okp_account_id p) \<and> \<not> py_in ''..'' key \<and>
    ends_with key (CHR ''/'' # sanitize_filename (okp_filename p)) \<and>
    CHR ''/'' \<notin> set (sanitize_filename (okp_filename p))"
proof -
  have "ends_with key (CHR ''/'' # sanitize_filename (okp_filename p))"
    unfolding key_shape(1) [OF assms] by (rule ends_with_append)
  moreover have "CHR ''/'' \<notin> set (sanitize_filename (okp_filename p))"
    using sanitize_safe [of "okp_filename p"] by (auto simp: filename_safe_def)
  ultimately show ?thesis
    using key_no_dots [OF assms] key_prefix [OF assms, of a]
    by (auto simp: assert_key_account_binding_def split: if_splits)
qed

theorem object_key_account_binding_witness:
  "\<exists>key. quarantine_key 1 2 ''notes 1.pdf'' = Inr key \<and>
     assert_key_account_binding key 1 = Inr () \<and> assert_key_account_binding key 3 \<noteq> Inr ()"
proof -
  let ?p = "\<lparr> okp_account_id = 1, okp_space_id = 2, okp_lifecycle = QUARANTINE, okp_artifact_id = 2,
    okp_filename = ''notes 1.pdf'' \<rparr>"
  have "\<not> py_in ''..'' ''notes 1.pdf''" "\<not> starts_with ''notes 1.pdf'' ''/''"
    by code_simp+
  then obtain key where "build_object_key ?p = Inr key"
    by (auto simp: build_object_key_def simp del: py_in.simps)
  then show ?thesis
    using object_key_account_binding [of ?p key 1] object_key_account_binding [of ?p key 3]
    by (auto simp: quarantine_key_def)
qed

text \<open>
  Storage is account-bound and keeps what was put: bytes put for an account are read back
  unchanged by it with the right length, other objects are untouched, and reading any object
  through a key that is not the account's raises before the store is consulted.
\<close>

theorem object_store_put_read:
  assumes "put_bytes sha objs key data ct acct None = Inr objs'"
  shows "read_object_bytes objs' key acct = Inr data \<and>
    verify_upload_completion objs' key acct (sha data) (int (length data)) =
      Inr \<lparr> som_object_key = key, som_byte_count = int (length data), som_sha256 = sha data,
            som_content_type = Some ct \<rparr> \<and>
    (\<forall>k. k \<noteq> key \<longrightarrow> objs' k = objs k) \<and>
    (\<forall>other. other \<noteq> acct \<longrightarrow>
       read_object_bytes objs' key other = Inl (ValueError ''object_key_account_mismatch''))"
proof -
  have bound: "assert_key_account_binding key acct = Inr ()" and
    objs': "objs' = objs(key \<mapsto> (data, ct, sha data))"
    using assms by (auto simp: put_bytes_def bindr_Inr_iff)
  have "\<not> starts_with key (''accounts/'' @ str_uuid other @ ''/'')" if "other \<noteq> acct" for other
    using bound that
    by (auto simp: assert_key_account_binding_def starts_with_iff prefix_def split: if_splits)
  then show ?thesis
    using bound
    by (auto simp: objs' read_object_bytes_def verify_upload_completion_def head_object_def
        assert_key_account_binding_def split: if_splits)
qed

theorem object_store_put_read_witness:
  "\<exists>objs. put_bytes (\<lambda>s. s) Map.empty (''accounts/'' @ str_uuid 1 @ ''/x'') ''data'' ''text/plain'' 1 None = Inr objs \<and>
     read_object_bytes objs (''accounts/'' @ str_uuid 1 @ ''/x'') 1 = Inr ''data''"
proof -
  have "\<not> py_in ''..'' (''accounts/'' @ str_uuid 1 @ ''/x'')"
    by (rule no_dot) (simp add: str_uuid_no_dot)
  then have "assert_key_account_binding (''accounts/'' @ str_uuid 1 @ ''/x'') 1 = Inr ()"
    by (simp add: assert_key_account_binding_def starts_with_iff prefix_def del: py_in.simps)
  then obtain objs where "put_bytes (\<lambda>s. s) Map.empty (''accounts/'' @ str_uuid 1 @ ''/x'') ''data'' ''text/plain'' 1 None = Inr objs"
    by (simp add: put_bytes_def)
  from object_store_put_read [OF this] this show ?thesis by blast
qed

end
