(* ===== verification/Ledger.thy ===== *)
theory Ledger
  imports Json Ids
begin

text \<open>
  The database under the services, \<open>services/core/src/memdot_core/db/models/tenancy.py\<close> and
  \<open>ledger.py\<close> in the same directory, for the tables that every service shares: accounts, spaces,
  actors, grants, the outbox, durable jobs, idempotency records, tombstones and sources.

  A table is the list of its rows in insertion order. \<open>insert\_\<close> functions check what the
  table declares: primary key, unique constraints (a NULL never clashes), CHECK
  constraints and the foreign keys between modelled tables; a violation is \<open>IntegrityError\<close> with the
  constraint's name. Columns with a server default are fields that the insertion sets.

  Sessions are created with \<open>autoflush=False\<close> (\<open>services/core/src/memdot_core/db/session.py\<close>), so
  a query does not see rows that were added but not flushed. A session is the tables the
  database holds together with the list of pending insertions; \<open>flush\<close> runs them.

  The services' own tables extend \<open>core_db\<close> in the theories that use them. \<open>env\<close> collects
  what a call reads from outside the program: the clocks, fresh identifiers and nonces,
  SHA-256, HMAC-SHA-256 and the configured keys.
\<close>

section \<open>Rows\<close>

record Account =
  acc_id :: uuid
  acc_account_id :: uuid
  acc_status :: string
  acc_display_name :: "string option"
  acc_timezone :: "string option"
  acc_created_at :: datetime
  acc_updated_at :: datetime

record AccountMember =
  am_id :: uuid
  am_account_id :: uuid
  am_user_id :: uuid
  am_role :: string
  am_created_at :: datetime

record Space =
  sp_id :: uuid
  sp_account_id :: uuid
  sp_name :: string
  sp_visibility :: string
  sp_created_at :: datetime

record Actor =
  act_id :: uuid
  act_account_id :: uuid
  act_kind :: string
  act_reference_id :: "uuid option"
  act_revoked_at :: "datetime option"
  act_created_at :: datetime

record ExternalClientGrant =
  gr_id :: uuid
  gr_account_id :: uuid
  gr_actor_id :: uuid
  gr_client_id :: string
  gr_scopes :: string
  gr_revoked_at :: "datetime option"
  gr_created_at :: datetime

record Source =
  src_id :: uuid
  src_account_id :: uuid
  src_space_id :: uuid
  src_title :: string
  src_processing_status :: string
  src_created_at :: datetime
  src_updated_at :: datetime

record AuditEvent =
  ae_id :: uuid
  ae_account_id :: uuid
  ae_actor_id :: "uuid option"
  ae_event_type :: string
  ae_payload :: dict
  ae_recorded_at :: datetime

record OutboxEvent =
  oe_id :: uuid
  oe_account_id :: uuid
  oe_event_type :: string
  oe_payload_sha256 :: string
  oe_payload :: dict
  oe_durable_job_id :: "uuid option"
  oe_created_at :: datetime
  oe_published_at :: "datetime option"
  oe_claim_token :: "uuid option"
  oe_claim_expires_at :: "datetime option"
  oe_claimed_by :: "string option"

record IdempotencyRecord =
  ir_id :: uuid
  ir_account_id :: uuid
  ir_idempotency_key :: string
  ir_fingerprint_sha256 :: string
  ir_response_status :: int
  ir_route :: "string option"
  ir_response_body :: "json option"
  ir_response_headers :: "json option"
  ir_created_at :: datetime

record DurableJob =
  dj_id :: uuid
  dj_account_id :: uuid
  dj_job_type :: string
  dj_status :: string
  dj_space_id :: "uuid option"
  dj_correlation_id :: "uuid option"
  dj_idempotency_key :: "string option"
  dj_payload :: dict
  dj_progress :: dict
  dj_error_code :: "string option"
  dj_error_detail_safe :: "string option"
  dj_auth_snapshot :: "dict option"
  dj_created_at :: datetime
  dj_updated_at :: datetime
  dj_cancelled_at :: "datetime option"
  dj_dead_letter_at :: "datetime option"

record JobAttempt =
  ja_id :: uuid
  ja_account_id :: uuid
  ja_job_id :: uuid
  ja_attempt_number :: int
  ja_status :: string
  ja_started_at :: "datetime option"
  ja_finished_at :: "datetime option"
  ja_error_code :: "string option"
  ja_error_detail_safe :: "string option"
  ja_created_at :: datetime

record DeletionTombstone =
  dt_id :: uuid
  dt_account_id :: uuid
  dt_entity_type :: string
  dt_entity_id :: uuid
  dt_space_id :: "uuid option"
  dt_restore_key :: "string option"
  dt_tombstoned_at :: datetime

record DeletionWorkflow =
  dw_id :: uuid
  dw_account_id :: uuid
  dw_entity_type :: string
  dw_entity_id :: uuid
  dw_space_id :: "uuid option"
  dw_state :: string
  dw_tombstone_id :: "uuid option"
  dw_created_at :: datetime
  dw_updated_at :: datetime

text \<open>The transaction-local settings \<open>app.*\<close> that carry the sealed tenant context.\<close>

record tenant_settings =
  set_account_id :: string
  set_actor_id :: string
  set_purpose :: string
  set_seal :: string
  set_issued_at :: string
  set_nonce :: string
  set_pointer_outbox_ok :: string

record core_db =
  t_account :: "Account list"
  t_account_member :: "AccountMember list"
  t_space :: "Space list"
  t_actor :: "Actor list"
  t_grant :: "ExternalClientGrant list"
  t_source :: "Source list"
  t_audit :: "AuditEvent list"
  t_outbox :: "OutboxEvent list"
  t_idempotency :: "IdempotencyRecord list"
  t_job :: "DurableJob list"
  t_attempt :: "JobAttempt list"
  t_tombstone :: "DeletionTombstone list"
  t_workflow :: "DeletionWorkflow list"
  settings :: tenant_settings

section \<open>The environment of a call\<close>

record env =
  now :: datetime
  clock :: int
  fresh :: "nat \<Rightarrow> uuid"
  nonce_hex :: string
  sha256 :: "string \<Rightarrow> string"
  hmac_sha256 :: "string \<Rightarrow> string \<Rightarrow> string"
  signing_key :: string
  context_secret :: string
  snapshot_key :: string
  role_is_core :: bool

section \<open>Sessions\<close>

type_synonym 'd session = "'d \<times> ('d \<Rightarrow> 'd res) list"
type_synonym ('d, 'a) op = "'d session \<Rightarrow> ('a \<times> 'd session) res"

definition tables :: "'d session \<Rightarrow> 'd" where
  "tables s = fst s"

definition add :: "('d \<Rightarrow> 'd res) \<Rightarrow> 'd session \<Rightarrow> 'd session" where
  "add ins s = (fst s, snd s @ [ins])"

definition flush :: "'d session \<Rightarrow> 'd session res" where
  "flush s = bindr (fold_res (\<lambda>ins. ins) (snd s) (fst s)) (\<lambda>d. Inr (d, []))"

text \<open>A statement that runs at once in the database, such as a function call or an update.\<close>

definition execute :: "('d \<Rightarrow> 'd res) \<Rightarrow> 'd session \<Rightarrow> 'd session res" where
  "execute f s = bindr (f (fst s)) (\<lambda>d. Inr (d, snd s))"

lemma session_simps [simp]:
  "tables (d, ps) = d"
  "add ins (d, ps) = (d, ps @ [ins])"
  "flush (d, []) = Inr (d, [])"
  "execute f (d, ps) = bindr (f d) (\<lambda>d'. Inr (d', ps))"
  by (simp_all add: tables_def add_def flush_def execute_def)

lemma flush_Cons [simp]: "flush (d, ins # ps) = bindr (ins d) (\<lambda>d'. flush (d', ps))"
  by (cases "ins d") (simp_all add: flush_def)

lemma flush_pending: "flush s = Inr s' \<Longrightarrow> snd s' = []"
  by (auto simp: flush_def bindr_Inr_iff)

section \<open>Insertion\<close>

definition unique_key :: "string \<Rightarrow> ('r \<Rightarrow> 'k option) \<Rightarrow> 'r \<Rightarrow> 'r list \<Rightarrow> unit res" where
  "unique_key name key r rows =
     guard_res (key r = None \<or> key r \<notin> key ` set rows) (IntegrityError name)"

definition foreign_key :: "string \<Rightarrow> 'k option \<Rightarrow> ('p \<Rightarrow> 'k) \<Rightarrow> 'p list \<Rightarrow> unit res" where
  "foreign_key name k pkey parents =
     guard_res (case k of None \<Rightarrow> True | Some x \<Rightarrow> x \<in> pkey ` set parents) (IntegrityError name)"

definition check_in :: "string \<Rightarrow> string \<Rightarrow> string list \<Rightarrow> unit res" where
  "check_in name v vs = guard_res (v \<in> set vs) (IntegrityError name)"

lemma unique_key_Inr [simp]:
  "unique_key name key r rows = Inr u \<longleftrightarrow> key r = None \<or> key r \<notin> key ` set rows"
  by (simp add: unique_key_def)

lemma foreign_key_Inr [simp]:
  "foreign_key name k pkey parents = Inr u \<longleftrightarrow> (\<forall>x. k = Some x \<longrightarrow> x \<in> pkey ` set parents)"
  by (auto simp: foreign_key_def split: option.splits)

lemma check_in_Inr [simp]: "check_in name v vs = Inr u \<longleftrightarrow> v \<in> set vs"
  by (simp add: check_in_def)

text \<open>
  The trigger \<open>memdot_deny_pending_product_write\<close> (migration 0001) on the product tables: an account that
  has not attested yet writes nothing.
\<close>

definition pending_gate :: "uuid \<Rightarrow> 'a core_db_scheme \<Rightarrow> unit res" where
  "pending_gate account_id d =
     guard_res (\<forall>a \<in> set (t_account d). acc_id a = account_id \<longrightarrow> acc_status a \<noteq> ''pending_attestation'')
       (DBAPIError ''pending_attestation_product_write_denied'')"

lemma pending_gate_Inr [simp]:
  "pending_gate a d = Inr u \<longleftrightarrow>
     (\<forall>x \<in> set (t_account d). acc_id x = a \<longrightarrow> acc_status x \<noteq> ''pending_attestation'')"
  by (simp add: pending_gate_def)

definition insert_outbox :: "OutboxEvent \<Rightarrow> 'a core_db_scheme \<Rightarrow> 'a core_db_scheme res" where
  "insert_outbox r d =
     bindr (unique_key ''pk_outbox_event'' (\<lambda>r. Some (oe_id r)) r (t_outbox d)) (\<lambda>_.
     bindr (foreign_key ''fk_outbox_durable_job''
       (map_option (\<lambda>j. (oe_account_id r, j)) (oe_durable_job_id r))
       (\<lambda>j. (dj_account_id j, dj_id j)) (t_job d)) (\<lambda>_.
     Inr (d\<lparr> t_outbox := t_outbox d @ [r] \<rparr>)))"

definition insert_idempotency :: "IdempotencyRecord \<Rightarrow> 'a core_db_scheme \<Rightarrow> 'a core_db_scheme res" where
  "insert_idempotency r d =
     bindr (unique_key ''pk_idempotency_record'' (\<lambda>r. Some (ir_id r)) r (t_idempotency d)) (\<lambda>_.
     bindr (unique_key ''uq_idempotency_record_1'' (\<lambda>r. Some (ir_account_id r, ir_idempotency_key r))
       r (t_idempotency d)) (\<lambda>_.
     Inr (d\<lparr> t_idempotency := t_idempotency d @ [r] \<rparr>)))"

definition JOB_STATUSES :: "string list" where
  "JOB_STATUSES = [''pending'', ''queued'', ''running'', ''succeeded'', ''failed'', ''cancelled'', ''dead_letter'']"

definition insert_job :: "DurableJob \<Rightarrow> 'a core_db_scheme \<Rightarrow> 'a core_db_scheme res" where
  "insert_job r d =
     bindr (unique_key ''pk_durable_job'' (\<lambda>r. Some (dj_id r)) r (t_job d)) (\<lambda>_.
     bindr (check_in ''ck_durable_job_status'' (dj_status r) JOB_STATUSES) (\<lambda>_.
     Inr (d\<lparr> t_job := t_job d @ [r] \<rparr>)))"

definition insert_attempt :: "JobAttempt \<Rightarrow> 'a core_db_scheme \<Rightarrow> 'a core_db_scheme res" where
  "insert_attempt r d =
     bindr (unique_key ''pk_job_attempt'' (\<lambda>r. Some (ja_id r)) r (t_attempt d)) (\<lambda>_.
     bindr (foreign_key ''fk_job_attempt_job'' (Some (ja_account_id r, ja_job_id r))
       (\<lambda>j. (dj_account_id j, dj_id j)) (t_job d)) (\<lambda>_.
     Inr (d\<lparr> t_attempt := t_attempt d @ [r] \<rparr>)))"

definition tombstone_entity :: "DeletionTombstone \<Rightarrow> uuid \<times> string \<times> uuid" where
  "tombstone_entity r = (dt_account_id r, dt_entity_type r, dt_entity_id r)"

definition insert_tombstone :: "DeletionTombstone \<Rightarrow> 'a core_db_scheme \<Rightarrow> 'a core_db_scheme res" where
  "insert_tombstone r d =
     bindr (pending_gate (dt_account_id r) d) (\<lambda>_.
     bindr (unique_key ''pk_deletion_tombstone'' (\<lambda>r. Some (dt_id r)) r (t_tombstone d)) (\<lambda>_.
     bindr (unique_key ''uq_deletion_tombstone_entity'' (\<lambda>r. Some (tombstone_entity r)) r (t_tombstone d)) (\<lambda>_.
     Inr (d\<lparr> t_tombstone := t_tombstone d @ [r] \<rparr>))))"

definition WORKFLOW_STATES :: "string list" where
  "WORKFLOW_STATES = [''accepted'', ''tombstoned'', ''revoking_grants'', ''purging_projections'',
     ''completed'', ''failed'', ''cancelled'']"

definition insert_workflow :: "DeletionWorkflow \<Rightarrow> 'a core_db_scheme \<Rightarrow> 'a core_db_scheme res" where
  "insert_workflow r d =
     bindr (unique_key ''pk_deletion_workflow'' (\<lambda>r. Some (dw_id r)) r (t_workflow d)) (\<lambda>_.
     bindr (check_in ''ck_deletion_workflow_state'' (dw_state r) WORKFLOW_STATES) (\<lambda>_.
     bindr (foreign_key ''fk_deletion_workflow_tombstone''
       (map_option (\<lambda>t. (dw_account_id r, t)) (dw_tombstone_id r))
       (\<lambda>t. (dt_account_id t, dt_id t)) (t_tombstone d)) (\<lambda>_.
     Inr (d\<lparr> t_workflow := t_workflow d @ [r] \<rparr>))))"

definition insert_audit :: "AuditEvent \<Rightarrow> 'a core_db_scheme \<Rightarrow> 'a core_db_scheme res" where
  "insert_audit r d =
     bindr (unique_key ''pk_audit_event'' (\<lambda>r. Some (ae_id r)) r (t_audit d)) (\<lambda>_.
     Inr (d\<lparr> t_audit := t_audit d @ [r] \<rparr>))"

lemmas insert_defs = insert_outbox_def insert_idempotency_def insert_job_def insert_attempt_def
  insert_tombstone_def insert_workflow_def insert_audit_def

text \<open>An \<open>UPDATE\<close> of the rows a query found, by primary key.\<close>

definition update_rows :: "('r \<Rightarrow> bool) \<Rightarrow> ('r \<Rightarrow> 'r) \<Rightarrow> 'r list \<Rightarrow> 'r list" where
  "update_rows sel f rows = map (\<lambda>r. if sel r then f r else r) rows"

lemma length_update_rows [simp]: "length (update_rows sel f rows) = length rows"
  by (simp add: update_rows_def)

lemma map_update_rows:
  "(\<And>r. sel r \<Longrightarrow> g (f r) = g r) \<Longrightarrow> map g (update_rows sel f rows) = map g rows"
  by (auto simp: update_rows_def)

lemma filter_update_rows:
  "(\<And>r. sel r \<Longrightarrow> P (f r) = P r) \<Longrightarrow> filter P (update_rows sel f rows) = update_rows sel f (filter P rows)"
  by (induction rows) (auto simp: update_rows_def)

lemma update_rows_none: "(\<And>r. r \<in> set rows \<Longrightarrow> \<not> sel r) \<Longrightarrow> update_rows sel f rows = rows"
  by (induction rows) (auto simp: update_rows_def)

section \<open>The contract of a table with a unique key\<close>

text \<open>
  A table whose insertion checks a key: an insertion that succeeds appends the row, and the key was
  free. Its lemmas are what the services rely on: keys stay distinct, a lookup by key
  finds exactly the inserted row and never raises \<open>MultipleResultsFound\<close>.
\<close>

locale keyed_table =
  fixes rows :: "'d \<Rightarrow> 'r list" and key :: "'r \<Rightarrow> 'k" and ins :: "'r \<Rightarrow> 'd \<Rightarrow> 'd res"
  assumes ins_appends: "ins r d = Inr d' \<Longrightarrow> rows d' = rows d @ [r]"
    and ins_fresh: "ins r d = Inr d' \<Longrightarrow> key r \<notin> key ` set (rows d)"
begin

lemma distinct_keys:
  "ins r d = Inr d' \<Longrightarrow> distinct (map key (rows d)) \<Longrightarrow> distinct (map key (rows d'))"
  using ins_appends ins_fresh by fastforce

lemma lookup_inserted:
  assumes "ins r d = Inr d'" and "distinct (map key (rows d))"
  shows "scalar_one_or_none (filter (\<lambda>x. key x = key r) (rows d')) = Inr (Some r)"
  using filter_unique [OF distinct_keys [OF assms], of r "key r"] ins_appends [OF assms(1)] by simp

lemma lookup_other:
  "ins r d = Inr d' \<Longrightarrow> k \<noteq> key r \<Longrightarrow>
     filter (\<lambda>x. key x = k) (rows d') = filter (\<lambda>x. key x = k) (rows d)"
  by (simp add: ins_appends)

lemma lookup_total:
  assumes "distinct (map key (rows d))"
  shows "\<exists>v. scalar_one_or_none (filter (\<lambda>x. key x = k) (rows d)) = Inr v"
proof (cases "\<exists>r \<in> set (rows d). key r = k")
  case True
  then obtain r where "r \<in> set (rows d)" "key r = k" by blast
  then have "filter (\<lambda>x. key x = k) (rows d) = [r]" using assms by (simp add: filter_unique)
  then show ?thesis by simp
next
  case False
  then have "filter (\<lambda>x. key x = k) (rows d) = []" by (auto simp: filter_empty_conv)
  then show ?thesis by simp
qed

lemma insert_twice: "ins r d = Inr d' \<Longrightarrow> key q = key r \<Longrightarrow> ins q d' = Inr d'' \<Longrightarrow> False"
  using ins_fresh [of q d' d''] ins_appends [of r d d'] by auto

end

interpretation tombstone_table: keyed_table t_tombstone tombstone_entity insert_tombstone
  by unfold_locales (auto simp: insert_tombstone_def bindr_Inr_iff)

interpretation idempotency_table:
  keyed_table t_idempotency "\<lambda>r. (ir_account_id r, ir_idempotency_key r)" insert_idempotency
  by unfold_locales (auto simp: insert_idempotency_def bindr_Inr_iff)

interpretation job_table: keyed_table t_job dj_id insert_job
  by unfold_locales (auto simp: insert_job_def bindr_Inr_iff)

interpretation outbox_table: keyed_table t_outbox oe_id insert_outbox
  by unfold_locales (auto simp: insert_outbox_def bindr_Inr_iff)

interpretation workflow_table: keyed_table t_workflow dw_id insert_workflow
  by unfold_locales (auto simp: insert_workflow_def bindr_Inr_iff)

interpretation attempt_table: keyed_table t_attempt ja_id insert_attempt
  by unfold_locales (auto simp: insert_attempt_def bindr_Inr_iff)

end
