(* ===== verification/Tenant.thy ===== *)
theory Tenant
  imports Ledger Numbers
begin

text \<open>
  The sealed tenant context: \<open>packages/domain-python/src/memdot_domain/tenancy.py\<close>,
  \<open>services/core/src/memdot_core/db/tenant.py\<close> and the database functions
  \<open>memdot_begin_tenant_context\<close>, \<open>memdot_clear_tenant_context\<close>, \<open>memdot_rls_ok\<close> and
  \<open>memdot_external_space_ok\<close> of migration 0001 that it calls.

  The runtime signs account, actor, purpose, time and nonce with HMAC-SHA-256; the database checks
  the signature, the actor and the purpose, and writes the settings that every row policy
  re-verifies. HMAC-SHA-256 is the environment's function \<open>hmac_sha256\<close> (key, message).
\<close>

section \<open>Purposes\<close>

datatype RequestPurpose =
    FIRST_PARTY | EXTERNAL_READ | EXTERNAL_PROPOSE | EXTERNAL_INTERACTION | WORKER | MIGRATION | ADMIN

definition purpose_value :: "RequestPurpose \<Rightarrow> string" where
  "purpose_value p =
     (case p of FIRST_PARTY \<Rightarrow> ''first_party'' | EXTERNAL_READ \<Rightarrow> ''external_read''
      | EXTERNAL_PROPOSE \<Rightarrow> ''external_propose'' | EXTERNAL_INTERACTION \<Rightarrow> ''external_interaction''
      | WORKER \<Rightarrow> ''worker'' | MIGRATION \<Rightarrow> ''migration'' | ADMIN \<Rightarrow> ''admin'')"

definition PURPOSES :: "RequestPurpose list" where
  "PURPOSES = [FIRST_PARTY, EXTERNAL_READ, EXTERNAL_PROPOSE, EXTERNAL_INTERACTION, WORKER, MIGRATION, ADMIN]"

definition RUNTIME_PURPOSES :: "RequestPurpose list" where
  "RUNTIME_PURPOSES = [FIRST_PARTY, EXTERNAL_READ, EXTERNAL_PROPOSE, EXTERNAL_INTERACTION, WORKER]"

record TenantContext =
  tc_account_id :: uuid
  tc_actor_id :: uuid
  tc_purpose :: RequestPurpose

text \<open>
  The authenticated request, \<open>services/core/src/memdot_core/request_context.py\<close>; a
  \<open>frozenset\<close> is a list without meaning of its order.
\<close>

record RequestContext =
  ctx_account_id :: uuid
  ctx_actor_id :: uuid
  ctx_user_id :: uuid
  ctx_purpose :: RequestPurpose
  ctx_correlation_id :: uuid
  ctx_session_id :: "uuid option"
  ctx_scopes :: "string list"
  ctx_eligible_space_ids :: "uuid list"
  ctx_last_auth_at :: "datetime option"

definition tenant_of :: "RequestContext \<Rightarrow> TenantContext" where
  "tenant_of ctx =
     \<lparr> tc_account_id = ctx_account_id ctx, tc_actor_id = ctx_actor_id ctx, tc_purpose = ctx_purpose ctx \<rparr>"

section \<open>The seal\<close>

definition context_message :: "string \<Rightarrow> string \<Rightarrow> string \<Rightarrow> string \<Rightarrow> string \<Rightarrow> string" where
  "context_message account actor purpose issued_at nonce =
     account @ CHR '':'' # actor @ CHR '':'' # purpose @ CHR '':'' # issued_at @ CHR '':'' # nonce"

definition tenant_signing_key :: "env \<Rightarrow> string res" where
  "tenant_signing_key E =
     (if length (signing_key E) < 32
      then Inl (RuntimeError ''CORE_TENANT_CONTEXT_SIGNING_KEY must contain at least 32 characters'')
      else Inr (signing_key E))"

definition sign_tenant_context :: "env \<Rightarrow> TenantContext \<Rightarrow> int \<Rightarrow> string \<Rightarrow> string res" where
  "sign_tenant_context E c issued_at nonce =
     bindr (tenant_signing_key E) (\<lambda>key.
       Inr (hmac_sha256 E key (context_message (str_uuid (tc_account_id c)) (str_uuid (tc_actor_id c))
         (purpose_value (tc_purpose c)) (dec_int issued_at) nonce)))"

section \<open>The database functions\<close>

definition empty_settings :: tenant_settings where
  "empty_settings =
     \<lparr> set_account_id = [], set_actor_id = [], set_purpose = [], set_seal = [], set_issued_at = [],
       set_nonce = [], set_pointer_outbox_ok = [] \<rparr>"

definition memdot_clear_tenant_context :: "'a core_db_scheme \<Rightarrow> 'a core_db_scheme" where
  "memdot_clear_tenant_context d = d\<lparr> settings := empty_settings \<rparr>"

text \<open>
  The actor checks by purpose. \<open>SELECT ... INTO\<close> takes the first row; the actor's primary key makes
  it the only one. The grant is the latest of the actor's grants.
\<close>

definition latest_grant :: "ExternalClientGrant list \<Rightarrow> ExternalClientGrant option" where
  "latest_grant gs = (case rev (sort_key gr_created_at gs) of [] \<Rightarrow> None | g # _ \<Rightarrow> Some g)"

definition check_purpose_actor :: "'a core_db_scheme \<Rightarrow> uuid \<Rightarrow> string \<Rightarrow> Actor \<Rightarrow> unit res" where
  "check_purpose_actor d account_id purpose a =
     (if purpose = ''first_party'' then
        (if act_kind a \<noteq> ''user'' then Inl (DBAPIError ''purpose_actor_mismatch'')
         else if \<not> (\<exists>m \<in> set (t_account_member d).
                  am_account_id m = account_id \<and> Some (am_user_id m) = act_reference_id a)
         then Inl (DBAPIError ''membership_missing'') else Inr ())
      else if purpose \<in> set [''external_read'', ''external_propose'', ''external_interaction''] then
        (if act_kind a \<noteq> ''external_client'' then Inl (DBAPIError ''purpose_actor_mismatch'')
         else case latest_grant (filter (\<lambda>g. gr_account_id g = account_id \<and> gr_actor_id g = act_id a) (t_grant d)) of
                None \<Rightarrow> Inl (DBAPIError ''grant_missing'')
              | Some g \<Rightarrow> if gr_revoked_at g \<noteq> None then Inl (DBAPIError ''grant_revoked'') else Inr ())
      else if purpose = ''worker'' then
        (if act_kind a \<noteq> ''system'' then Inl (DBAPIError ''worker_requires_system_actor'') else Inr ())
      else Inr ())"

definition find_actor :: "'a core_db_scheme \<Rightarrow> uuid \<Rightarrow> uuid \<Rightarrow> Actor option" where
  "find_actor d account_id actor_id =
     find (\<lambda>a. act_id a = actor_id \<and> act_account_id a = account_id) (t_actor d)"

definition memdot_begin_tenant_context ::
    "env \<Rightarrow> uuid \<Rightarrow> uuid \<Rightarrow> string \<Rightarrow> int \<Rightarrow> string \<Rightarrow> string \<Rightarrow> 'a core_db_scheme \<Rightarrow> 'a core_db_scheme res" where
  "memdot_begin_tenant_context E account_id actor_id purpose issued_at nonce signature d =
     (if purpose \<in> set [''migration'', ''admin''] \<and> role_is_core E
      then Inl (DBAPIError ''purpose_not_allowed_for_runtime'')
      else if purpose \<notin> set (map purpose_value PURPOSES) then Inl (DBAPIError ''invalid_purpose'')
      else if 60 < \<bar>clock E - issued_at\<bar> then Inl (DBAPIError ''tenant_context_expired'')
      else if nonce = [] \<or> 128 < length nonce then Inl (DBAPIError ''tenant_context_nonce_invalid'')
      else if signature \<noteq> hmac_sha256 E (context_secret E)
                (context_message (str_uuid account_id) (str_uuid actor_id) purpose (dec_int issued_at) nonce)
      then Inl (DBAPIError ''tenant_context_signature_invalid'')
      else case find_actor d account_id actor_id of
             None \<Rightarrow> Inl (DBAPIError ''invalid_actor'')
           | Some a \<Rightarrow>
               if act_revoked_at a \<noteq> None then Inl (DBAPIError ''actor_revoked'')
               else bindr (check_purpose_actor d account_id purpose a) (\<lambda>_.
                 Inr (d\<lparr> settings := (settings d)\<lparr>
                   set_account_id := str_uuid account_id, set_actor_id := str_uuid actor_id,
                   set_purpose := purpose, set_issued_at := dec_int issued_at, set_nonce := nonce,
                   set_seal := signature \<rparr> \<rparr>)))"

text \<open>
  \<open>memdot_rls_ok\<close>. \<open>issued_at::bigint\<close> reads the setting back; a text that is not a number makes the
  cast raise, which denies the row as \<open>false\<close> does.
\<close>

definition memdot_rls_ok :: "env \<Rightarrow> 'a core_db_scheme \<Rightarrow> uuid \<Rightarrow> bool" where
  "memdot_rls_ok E d row_account_id =
     (let g = settings d in
      set_account_id g \<noteq> [] \<and> set_seal g \<noteq> [] \<and> set_actor_id g \<noteq> [] \<and> set_issued_at g \<noteq> [] \<and>
      set_nonce g \<noteq> [] \<and>
      (case read_int (set_issued_at g) of None \<Rightarrow> False | Some t \<Rightarrow> \<bar>clock E - t\<bar> \<le> 60) \<and>
      str_uuid row_account_id = set_account_id g \<and>
      set_seal g = hmac_sha256 E (context_secret E)
        (context_message (set_account_id g) (set_actor_id g) (set_purpose g) (set_issued_at g) (set_nonce g)) \<and>
      (case parse_uuid (set_actor_id g) of
         Inl _ \<Rightarrow> False
       | Inr u \<Rightarrow> (case find_actor d row_account_id u of
                     None \<Rightarrow> False | Some a \<Rightarrow> act_revoked_at a = None)) \<and>
      \<not> (set_purpose g \<in> set [''migration'', ''admin''] \<and> role_is_core E))"

definition memdot_external_space_ok :: "'a core_db_scheme \<Rightarrow> uuid \<Rightarrow> uuid \<Rightarrow> bool" where
  "memdot_external_space_ok d account_id space_id \<longleftrightarrow>
     (\<exists>s \<in> set (t_space d). sp_account_id s = account_id \<and> sp_id s = space_id \<and>
        sp_visibility s \<in> set [''general'', ''learning''])"

section \<open>The runtime's side\<close>

definition reset_tenant_context :: "'a core_db_scheme session \<Rightarrow> 'a core_db_scheme session res" where
  "reset_tenant_context s = execute (\<lambda>d. Inr (memdot_clear_tenant_context d)) s"

definition apply_tenant_context ::
    "env \<Rightarrow> TenantContext \<Rightarrow> 'a core_db_scheme session \<Rightarrow> 'a core_db_scheme session res" where
  "apply_tenant_context E c s =
     (if tc_purpose c \<notin> set RUNTIME_PURPOSES
      then Inl (ValueError (''unsupported purpose: '' @ purpose_value (tc_purpose c)))
      else bindr (sign_tenant_context E c (clock E) (nonce_hex E)) (\<lambda>signature.
        execute (memdot_begin_tenant_context E (tc_account_id c) (tc_actor_id c)
          (purpose_value (tc_purpose c)) (clock E) (nonce_hex E) signature) s))"

text \<open>
  \<open>with tenant_scope(db, ctx): body\<close>. An exception rolls the transaction back and is raised again,
  so the result is the exception; a normal exit, early returns included, flushes.
\<close>

definition tenant_scope ::
    "env \<Rightarrow> TenantContext \<Rightarrow> ('a core_db_scheme, 'b) op \<Rightarrow> ('a core_db_scheme, 'b) op" where
  "tenant_scope E c body s =
     bindr (reset_tenant_context s) (\<lambda>s1.
     bindr (apply_tenant_context E c s1) (\<lambda>s2.
     bindr (body s2) (\<lambda>(r, s3).
     bindr (flush s3) (\<lambda>s4. Inr (r, s4)))))"

definition current_account_id :: "'a core_db_scheme session \<Rightarrow> string option" where
  "current_account_id s =
     (let row = set_account_id (settings (tables s)) in if py_strip row = [] then None else Some row)"

section \<open>What the message binds\<close>

lemma purpose_value_inject [simp]: "purpose_value p = purpose_value q \<longleftrightarrow> p = q"
  by (cases p; cases q) (simp_all add: purpose_value_def)

lemma purpose_no_colon: "CHR '':'' \<notin> set (purpose_value p)"
  by (cases p) (simp_all add: purpose_value_def)

lemma context_message_inject:
  "context_message (str_uuid a) (str_uuid b) (purpose_value p) (dec_int t) n =
     context_message (str_uuid a') (str_uuid b') (purpose_value p') (dec_int t') n' \<longleftrightarrow>
   a = a' \<and> b = b' \<and> p = p' \<and> t = t' \<and> n = n'"
  by (simp add: context_message_def sep_inject purpose_no_colon dec_int_no_colon str_uuid_not_in)

section \<open>What a successful context means\<close>

definition sealed :: "tenant_settings \<Rightarrow> uuid \<Rightarrow> uuid \<Rightarrow> string \<Rightarrow> int \<Rightarrow> string \<Rightarrow> string \<Rightarrow> bool" where
  "sealed g account actor purpose issued_at nonce seal \<longleftrightarrow>
     set_account_id g = str_uuid account \<and> set_actor_id g = str_uuid actor \<and> set_purpose g = purpose \<and>
     set_issued_at g = dec_int issued_at \<and> set_nonce g = nonce \<and> set_seal g = seal"

lemma begin_Inr:
  assumes "memdot_begin_tenant_context E account actor purpose issued_at nonce seal d = Inr d'"
  obtains a where
    "find_actor d account actor = Some a" "act_revoked_at a = None"
    "check_purpose_actor d account purpose a = Inr ()"
    "seal = hmac_sha256 E (context_secret E)
       (context_message (str_uuid account) (str_uuid actor) purpose (dec_int issued_at) nonce)"
    "\<bar>clock E - issued_at\<bar> \<le> 60" "nonce \<noteq> []" "length nonce \<le> 128"
    "\<not> (purpose \<in> set [''migration'', ''admin''] \<and> role_is_core E)"
    "purpose \<in> set (map purpose_value PURPOSES)"
    "sealed (settings d') account actor purpose issued_at nonce seal"
    "d' = d\<lparr> settings := settings d' \<rparr>"
  using assms
  by (auto simp: memdot_begin_tenant_context_def bindr_Inr_iff sealed_def split: if_splits option.splits)

lemma apply_Inr:
  assumes "apply_tenant_context E c (d, ps) = Inr (d', ps')"
  obtains signature where
    "memdot_begin_tenant_context E (tc_account_id c) (tc_actor_id c) (purpose_value (tc_purpose c))
       (clock E) (nonce_hex E) signature d = Inr d'"
    "ps' = ps" "tc_purpose c \<in> set RUNTIME_PURPOSES"
  using assms by (auto simp: apply_tenant_context_def bindr_Inr_iff split: if_splits)

lemma find_actor_settings [simp]: "find_actor (d\<lparr> settings := g \<rparr>) a u = find_actor d a u"
  by (simp add: find_actor_def)

lemma rls_ok_sealed:
  assumes "sealed (settings d) account actor purpose issued_at nonce seal"
    and "seal = hmac_sha256 E (context_secret E)
       (context_message (str_uuid account) (str_uuid actor) purpose (dec_int issued_at) nonce)"
    and "seal \<noteq> []" and "nonce \<noteq> []" and "\<bar>clock E - issued_at\<bar> \<le> 60"
    and "\<not> (purpose \<in> set [''migration'', ''admin''] \<and> role_is_core E)"
    and "find_actor d account actor = Some a" and "act_revoked_at a = None"
  shows "memdot_rls_ok E d row_account \<longleftrightarrow> row_account = account"
  using assms by (auto simp: memdot_rls_ok_def sealed_def Let_def)

lemma tenant_scope_Inr:
  assumes "tenant_scope E c body (d, ps) = Inr (r, d', ps')"
  obtains d1 s3 where
    "apply_tenant_context E c (memdot_clear_tenant_context d, ps) = Inr (d1, ps)"
    "body (d1, ps) = Inr (r, s3)" "flush s3 = Inr (d', ps')" "ps' = []"
proof -
  obtain s2 s3 where a: "apply_tenant_context E c (memdot_clear_tenant_context d, ps) = Inr s2"
    and b: "body s2 = Inr (r, s3)" "flush s3 = Inr (d', ps')"
    using assms by (auto simp: tenant_scope_def reset_tenant_context_def bindr_Inr_iff)
  obtain d1 where "s2 = (d1, ps)"
    using a by (cases s2) (auto elim: apply_Inr)
  then show ?thesis using that a b flush_pending [OF b(2)] by simp
qed

lemma apply_only_settings:
  assumes "apply_tenant_context E c (d, ps) = Inr (d', ps')"
  shows "ps' = ps \<and> d' = d\<lparr> settings := settings d' \<rparr>"
  using assms by (elim apply_Inr begin_Inr) auto

text \<open>
  A successful scope ran its body on the tables it was given, with other settings, and then
  flushed. This is what the services' proofs use of it.
\<close>

lemma tenant_scope_body:
  assumes "tenant_scope E c body (d, ps) = Inr (r, d', ps')"
  obtains g s3 where "body (d\<lparr> settings := g \<rparr>, ps) = Inr (r, s3)" "flush s3 = Inr (d', ps')" "ps' = []"
proof -
  obtain d1 s3 where a: "apply_tenant_context E c (memdot_clear_tenant_context d, ps) = Inr (d1, ps)"
    and b: "body (d1, ps) = Inr (r, s3)" "flush s3 = Inr (d', ps')" "ps' = []"
    using tenant_scope_Inr [OF assms] .
  have "d1 = d\<lparr> settings := settings d1 \<rparr>"
    using apply_only_settings [OF a] by (simp add: memdot_clear_tenant_context_def)
  then show ?thesis using b that by metis
qed

section \<open>A concrete environment and database\<close>

definition demo_env :: env where
  "demo_env =
     \<lparr> now = 1000000, clock = 1, fresh = (\<lambda>k. of_nat (1000 + k)), nonce_hex = ''abcd'',
       sha256 = (\<lambda>s. s), hmac_sha256 = (\<lambda>k m. CHR ''h'' # k @ m), signing_key = replicate 32 (CHR ''k''),
       context_secret = replicate 32 (CHR ''k''), snapshot_key = replicate 32 (CHR ''s''),
       role_is_core = True \<rparr>"

definition demo_core :: core_db where
  "demo_core =
     \<lparr> t_account = [\<lparr> acc_id = 1, acc_account_id = 1, acc_status = ''active'', acc_display_name = None,
         acc_timezone = None, acc_created_at = 0, acc_updated_at = 0 \<rparr>],
       t_account_member = [\<lparr> am_id = 2, am_account_id = 1, am_user_id = 10, am_role = ''owner'',
         am_created_at = 0 \<rparr>],
       t_space = [\<lparr> sp_id = 5, sp_account_id = 1, sp_name = ''main'', sp_visibility = ''general'',
           sp_created_at = 0 \<rparr>,
         \<lparr> sp_id = 6, sp_account_id = 1, sp_name = ''diary'', sp_visibility = ''private'',
           sp_created_at = 0 \<rparr>],
       t_actor = [\<lparr> act_id = 20, act_account_id = 1, act_kind = ''user'', act_reference_id = Some 10,
           act_revoked_at = None, act_created_at = 0 \<rparr>,
         \<lparr> act_id = 21, act_account_id = 1, act_kind = ''system'', act_reference_id = None,
           act_revoked_at = None, act_created_at = 0 \<rparr>],
       t_grant = [], t_source = [], t_audit = [], t_outbox = [], t_idempotency = [], t_job = [],
       t_attempt = [], t_tombstone = [], t_workflow = [], settings = empty_settings \<rparr>"

definition demo_tenant :: TenantContext where
  "demo_tenant = \<lparr> tc_account_id = 1, tc_actor_id = 20, tc_purpose = FIRST_PARTY \<rparr>"

definition demo_ctx :: RequestContext where
  "demo_ctx =
     \<lparr> ctx_account_id = 1, ctx_actor_id = 20, ctx_user_id = 10, ctx_purpose = FIRST_PARTY,
       ctx_correlation_id = 77, ctx_session_id = None, ctx_scopes = [], ctx_eligible_space_ids = [],
       ctx_last_auth_at = None \<rparr>"

lemma demo_ctx_tenant [simp]: "tenant_of demo_ctx = demo_tenant" "ctx_account_id demo_ctx = 1"
  by (simp_all add: demo_ctx_def demo_tenant_def tenant_of_def)

lemma demo_env_sel [simp]:
  "now demo_env = 1000000" "fresh demo_env k = of_nat (1000 + k)" "clock demo_env = 1"
  by (simp_all add: demo_env_def)

text \<open>Any extension of the concrete tables admits the first-party context.\<close>

lemma demo_apply:
  assumes "t_actor d = t_actor demo_core" and "t_account_member d = t_account_member demo_core"
  shows "\<exists>g. apply_tenant_context demo_env demo_tenant (d, ps) = Inr (d\<lparr> settings := g \<rparr>, ps)"
proof -
  have "find_actor d 1 20 = Some \<lparr> act_id = 20, act_account_id = 1, act_kind = ''user'',
      act_reference_id = Some 10, act_revoked_at = None, act_created_at = 0 \<rparr>"
    using assms by (simp add: find_actor_def demo_core_def)
  then show ?thesis
    using assms
    by (simp add: apply_tenant_context_def demo_tenant_def RUNTIME_PURPOSES_def PURPOSES_def
        sign_tenant_context_def tenant_signing_key_def demo_env_def purpose_value_def
        memdot_begin_tenant_context_def check_purpose_actor_def demo_core_def)
      blast
qed

lemma demo_scope:
  assumes "t_actor d = t_actor demo_core" and "t_account_member d = t_account_member demo_core"
  obtains g where "tenant_scope demo_env demo_tenant body (d, ps) =
    bindr (body (d\<lparr> settings := g \<rparr>, ps)) (\<lambda>(r, s3). bindr (flush s3) (\<lambda>s4. Inr (r, s4)))"
proof -
  obtain g where "apply_tenant_context demo_env demo_tenant (memdot_clear_tenant_context d, ps) =
      Inr ((memdot_clear_tenant_context d)\<lparr> settings := g \<rparr>, ps)"
    using demo_apply [of "memdot_clear_tenant_context d" ps] assms
    by (auto simp: memdot_clear_tenant_context_def)
  then show ?thesis
    using that by (simp add: tenant_scope_def reset_tenant_context_def memdot_clear_tenant_context_def)
qed

section \<open>Properties\<close>

text \<open>
  (C1) Tenant isolation: after the runtime has established a context, and as long as the database
  clock is within a minute of it, the row policies let through exactly the rows of the
  context's account (\<open>hex\<close>: an HMAC is never the empty text).
\<close>

theorem tenant_context_isolates:
  assumes "apply_tenant_context E c (d, ps) = Inr (d', ps')"
    and "\<bar>t - clock E\<bar> \<le> 60" and hex: "\<And>k m. hmac_sha256 E k m \<noteq> []"
  shows "memdot_rls_ok (E\<lparr> clock := t \<rparr>) d' row_account \<longleftrightarrow> row_account = tc_account_id c"
proof -
  obtain sig where b: "memdot_begin_tenant_context E (tc_account_id c) (tc_actor_id c)
      (purpose_value (tc_purpose c)) (clock E) (nonce_hex E) sig d = Inr d'"
    using assms(1) by (rule apply_Inr)
  show ?thesis
    using b
  proof (rule begin_Inr)
    fix a assume a: "find_actor d (tc_account_id c) (tc_actor_id c) = Some a" "act_revoked_at a = None"
      and sig: "sig = hmac_sha256 E (context_secret E) (context_message (str_uuid (tc_account_id c))
        (str_uuid (tc_actor_id c)) (purpose_value (tc_purpose c)) (dec_int (clock E)) (nonce_hex E))"
      and n: "nonce_hex E \<noteq> []"
      and r: "\<not> (purpose_value (tc_purpose c) \<in> set [''migration'', ''admin''] \<and> role_is_core E)"
      and s: "sealed (settings d') (tc_account_id c) (tc_actor_id c) (purpose_value (tc_purpose c))
        (clock E) (nonce_hex E) sig"
      and d': "d' = d\<lparr> settings := settings d' \<rparr>"
    have "find_actor d' (tc_account_id c) (tc_actor_id c) = Some a"
      using a(1) d' by (metis find_actor_settings)
    then show ?thesis
      using rls_ok_sealed [OF s, of "E\<lparr> clock := t \<rparr>" a row_account] sig hex n assms(2) r a(2) by simp
  qed
qed

theorem tenant_context_isolates_witness:
  "\<exists>d'. apply_tenant_context demo_env demo_tenant (demo_core, []) = Inr (d', []) \<and>
     memdot_rls_ok (demo_env\<lparr> clock := 40 \<rparr>) d' 1 \<and> \<not> memdot_rls_ok (demo_env\<lparr> clock := 40 \<rparr>) d' 2"
proof -
  obtain g where g: "apply_tenant_context demo_env demo_tenant (demo_core, []) =
      Inr (demo_core\<lparr> settings := g \<rparr>, [])"
    using demo_apply [of demo_core "[]"] by auto
  have hex: "hmac_sha256 demo_env k m \<noteq> []" for k m by (simp add: demo_env_def)
  show ?thesis
    using tenant_context_isolates [OF g, of 40 1] tenant_context_isolates [OF g, of 40 2] hex g
    by (auto simp: demo_tenant_def)
qed

text \<open>
  Fail closed: once the context is cleared no row of any account is let through, whatever the
  environment.
\<close>

theorem cleared_context_denies:
  "\<not> memdot_rls_ok E (memdot_clear_tenant_context d) row_account \<and>
   current_account_id (memdot_clear_tenant_context d, ps) = None"
  by (simp add: memdot_rls_ok_def memdot_clear_tenant_context_def empty_settings_def Let_def
      current_account_id_def)

text \<open>
  (C2) Admission: when the database accepts a context, the caller knew the HMAC of exactly this account,
  actor, purpose, time and nonce under the database's key, at most a minute old; the actor exists
  in the account and is not revoked; a first-party actor is a user and a member, an external one is an
  external client whose latest grant stands, a worker is a system actor, and the runtime role
  gets neither migration nor admin.
\<close>

theorem tenant_context_admission:
  assumes "memdot_begin_tenant_context E account actor (purpose_value p) issued_at nonce sig d = Inr d'"
  shows "\<exists>a. find_actor d account actor = Some a \<and> act_revoked_at a = None \<and>
    sig = hmac_sha256 E (context_secret E)
      (context_message (str_uuid account) (str_uuid actor) (purpose_value p) (dec_int issued_at) nonce) \<and>
    \<bar>clock E - issued_at\<bar> \<le> 60 \<and>
    (p = FIRST_PARTY \<longrightarrow> act_kind a = ''user'' \<and> (\<exists>m \<in> set (t_account_member d).
       am_account_id m = account \<and> Some (am_user_id m) = act_reference_id a)) \<and>
    (p \<in> {EXTERNAL_READ, EXTERNAL_PROPOSE, EXTERNAL_INTERACTION} \<longrightarrow> act_kind a = ''external_client'' \<and>
       (\<exists>g. latest_grant (filter (\<lambda>g. gr_account_id g = account \<and> gr_actor_id g = act_id a) (t_grant d)) =
          Some g \<and> gr_revoked_at g = None)) \<and>
    (p = WORKER \<longrightarrow> act_kind a = ''system'') \<and>
    (p \<in> {MIGRATION, ADMIN} \<longrightarrow> \<not> role_is_core E)"
  using assms
  by (elim begin_Inr; cases p)
    (auto simp: check_purpose_actor_def purpose_value_def split: if_splits option.splits)

theorem tenant_context_admission_witness:
  "\<exists>sig d' a. memdot_begin_tenant_context demo_env 1 20 (purpose_value FIRST_PARTY) 1 ''abcd'' sig demo_core = Inr d' \<and>
     find_actor demo_core 1 20 = Some a \<and> act_kind a = ''user''"
proof -
  obtain g where "apply_tenant_context demo_env demo_tenant (demo_core, []) = Inr (demo_core\<lparr> settings := g \<rparr>, [])"
    using demo_apply [of demo_core "[]"] by auto
  then obtain sig where b: "memdot_begin_tenant_context demo_env 1 20 (purpose_value FIRST_PARTY) 1 ''abcd'' sig demo_core =
      Inr (demo_core\<lparr> settings := g \<rparr>)"
    by (rule apply_Inr) (simp add: demo_tenant_def, simp add: demo_env_def)
  then show ?thesis using tenant_context_admission [OF b] by blast
qed

text \<open>
  The seal is specific: the signed message determines account, actor, purpose, time and nonce, so
  a signature made for one context is never a signature of the message of another.
\<close>

theorem context_message_binds:
  "context_message (str_uuid a) (str_uuid b) (purpose_value p) (dec_int t) n =
     context_message (str_uuid a') (str_uuid b') (purpose_value p') (dec_int t') n' \<longleftrightarrow>
   a = a' \<and> b = b' \<and> p = p' \<and> t = t' \<and> n = n'"
  by (rule context_message_inject)

end
