(* ===== verification/Row_Policies.thy ===== *)
theory Row_Policies
  imports Tenant
begin

text \<open>
  The row policies that look at more than the account, \<open>services/core/alembic/versions\<close>, migrations 0001, 0003, 0004 and 0005: which rows
  of spaces, documents, elements, proposals and conversations the purpose in the settings lets a query read, and which new
  rows of proposals, conversations and turns it lets an insert write. The account test \<open>memdot_rls_ok\<close> that every
  policy starts with is in \<open>Tenant\<close>; every modelled query names its account, and under a live seal that test agrees with it.
  Memory items, memory revisions, curriculum nodes and edges, receipts and tombstones have a policy without any test of the
  purpose (\<open>tenant_first_party\<close> of migrations 0003 and 0004), so their rows are not restricted here.
\<close>

section \<open>The policies\<close>

definition internal_purpose :: "'a core_db_scheme \<Rightarrow> bool" where
  "internal_purpose d \<longleftrightarrow>
     set_purpose (settings d) \<in> set [''first_party'', ''worker'', ''migration'', ''admin'']"

text \<open>\<open>space\<close>: \<open>tenant_first_party\<close>, \<open>tenant_external_read\<close> and \<open>tenant_external_write\<close>.\<close>

definition space_row_visible :: "'a core_db_scheme \<Rightarrow> Space \<Rightarrow> bool" where
  "space_row_visible d row \<longleftrightarrow>
     internal_purpose d \<or>
     set_purpose (settings d) \<in> set [''external_read'', ''external_interaction'', ''external_propose''] \<and>
       sp_visibility row \<in> set [''general'', ''learning'']"

text \<open>Documents with their revisions and pointers, elements and proposals: \<open>tenant_first_party\<close> and \<open>tenant_external_read\<close>.\<close>

definition product_row_visible :: "'a core_db_scheme \<Rightarrow> uuid \<Rightarrow> uuid \<Rightarrow> bool" where
  "product_row_visible d account_id space_id \<longleftrightarrow>
     internal_purpose d \<or>
     set_purpose (settings d) = ''external_read'' \<and> memdot_external_space_ok d account_id space_id"

text \<open>Conversations and turns: also \<open>tenant_external_interaction\<close>, which covers inserts.\<close>

definition chat_row_writable :: "'a core_db_scheme \<Rightarrow> uuid \<Rightarrow> uuid \<Rightarrow> bool" where
  "chat_row_writable d account_id space_id \<longleftrightarrow>
     internal_purpose d \<or>
     set_purpose (settings d) = ''external_interaction'' \<and> memdot_external_space_ok d account_id space_id"

definition chat_row_visible :: "'a core_db_scheme \<Rightarrow> uuid \<Rightarrow> uuid \<Rightarrow> bool" where
  "chat_row_visible d account_id space_id \<longleftrightarrow>
     product_row_visible d account_id space_id \<or> chat_row_writable d account_id space_id"

text \<open>\<open>WITH CHECK\<close> of an insert.\<close>

definition policy_check :: "string \<Rightarrow> bool \<Rightarrow> unit res" where
  "policy_check table ok =
     guard_res ok (DBAPIError (''new row violates row-level security policy for table '' @ table))"

lemma policy_check_simps [simp]:
  "policy_check table ok = Inr u \<longleftrightarrow> ok" "ok \<Longrightarrow> policy_check table ok = Inr ()"
  by (simp_all add: policy_check_def)

text \<open>
  The trigger \<open>memdot_deny_pending_product_write\<close> reads the account under its policy, which shows it to internal purposes only;
  finding no account it lets the row pass.
\<close>

definition write_gate :: "uuid \<Rightarrow> 'a core_db_scheme \<Rightarrow> unit res" where
  "write_gate account_id d = (if internal_purpose d then pending_gate account_id d else Inr ())"

lemma write_gate_Inr [simp]:
  "write_gate a d = Inr u \<longleftrightarrow>
     (internal_purpose d \<longrightarrow> (\<forall>x \<in> set (t_account d). acc_id x = a \<longrightarrow> acc_status x \<noteq> ''pending_attestation''))"
  by (simp add: write_gate_def)

section \<open>Private spaces\<close>

definition private_space :: "'a core_db_scheme \<Rightarrow> uuid \<Rightarrow> uuid \<Rightarrow> bool" where
  "private_space d account_id space_id \<longleftrightarrow>
     (\<exists>row \<in> set (t_space d). sp_account_id row = account_id \<and> sp_id row = space_id \<and> sp_visibility row = ''private'')"

text \<open>The primary key of \<open>space\<close>.\<close>

definition space_key :: "'a core_db_scheme \<Rightarrow> bool" where
  "space_key d \<longleftrightarrow> distinct (map sp_id (t_space d))"

lemma external_space_not_private:
  assumes "space_key d" and "memdot_external_space_ok d account space"
  shows "\<not> private_space d account space"
proof -
  obtain s where s: "s \<in> set (t_space d)" "sp_id s = space" "sp_visibility s \<noteq> ''private''"
    using assms(2) by (auto simp: memdot_external_space_ok_def)
  have "row = s" if "row \<in> set (t_space d)" "sp_id row = space" for row
    using that s assms(1) by (auto simp: space_key_def distinct_map dest: inj_onD)
  then show ?thesis using s(3) by (auto simp: private_space_def)
qed

lemma policies_cong:
  assumes "t_space d' = t_space d" and "set_purpose (settings d') = set_purpose (settings d)"
  shows "internal_purpose d' = internal_purpose d" "space_row_visible d' = space_row_visible d"
    "product_row_visible d' = product_row_visible d" "chat_row_writable d' = chat_row_writable d"
    "chat_row_visible d' = chat_row_visible d" "private_space d' = private_space d" "space_key d' = space_key d"
  using assms
  by (auto simp: internal_purpose_def space_row_visible_def product_row_visible_def chat_row_writable_def chat_row_visible_def
      private_space_def space_key_def memdot_external_space_ok_def fun_eq_iff)

section \<open>The purpose of a scope\<close>

lemma apply_purpose:
  assumes "apply_tenant_context E c (d, ps) = Inr (d', ps')"
  shows "set_purpose (settings d') = purpose_value (tc_purpose c)"
  using assms by (elim apply_Inr begin_Inr) (simp add: sealed_def)

lemma tenant_scope_purpose:
  assumes "tenant_scope E c body (d, ps) = Inr (r, d', ps')"
  obtains g s3 where "body (d\<lparr> settings := g \<rparr>, ps) = Inr (r, s3)" "flush s3 = Inr (d', ps')" "ps' = []"
    "set_purpose g = purpose_value (tc_purpose c)"
proof -
  obtain d1 s3 where a: "apply_tenant_context E c (memdot_clear_tenant_context d, ps) = Inr (d1, ps)"
    and b: "body (d1, ps) = Inr (r, s3)" "flush s3 = Inr (d', ps')" "ps' = []"
    using tenant_scope_Inr [OF assms] .
  have "d1 = d\<lparr> settings := settings d1 \<rparr>"
    using apply_only_settings [OF a] by (simp add: memdot_clear_tenant_context_def)
  then show ?thesis using b apply_purpose [OF a] that by metis
qed

lemma demo_scope_purpose:
  assumes "t_actor d = t_actor demo_core" and "t_account_member d = t_account_member demo_core"
  obtains g where "tenant_scope demo_env demo_tenant body (d, ps) =
      bindr (body (d\<lparr> settings := g \<rparr>, ps)) (\<lambda>(r, s3). bindr (flush s3) (\<lambda>s4. Inr (r, s4)))"
    "set_purpose g = ''first_party''"
proof -
  obtain g where g: "apply_tenant_context demo_env demo_tenant (memdot_clear_tenant_context d, ps) =
      Inr ((memdot_clear_tenant_context d)\<lparr> settings := g \<rparr>, ps)"
    using demo_apply [of "memdot_clear_tenant_context d" ps] assms
    by (auto simp: memdot_clear_tenant_context_def)
  then have "set_purpose g = ''first_party''"
    using apply_purpose [OF g] by (simp add: demo_tenant_def purpose_value_def)
  then show ?thesis
    using that g by (simp add: tenant_scope_def reset_tenant_context_def memdot_clear_tenant_context_def)
qed

end
