(* ===== verification/Deletion.thy ===== *)
theory Deletion
  imports Tenant
begin

text \<open>
  Deletion, \<open>services/core/src/memdot_core/deletion/service.py\<close>: a deletion is accepted by writing a
  tombstone, together with a workflow row and an outbox event in the same transaction; the
  tombstone is the truth every reader consults.
\<close>

section \<open>Operations\<close>

definition payload_sha256 :: "env \<Rightarrow> dict \<Rightarrow> string" where
  "payload_sha256 E payload = sha256 E (json_dumps (JObj payload))"

definition tombstones_of :: "uuid \<Rightarrow> string \<Rightarrow> uuid \<Rightarrow> 'a core_db_scheme \<Rightarrow> DeletionTombstone list" where
  "tombstones_of account_id entity_type entity_id d =
     filter (\<lambda>t. tombstone_entity t = (account_id, entity_type, entity_id)) (t_tombstone d)"

definition is_tombstoned :: "uuid \<Rightarrow> string \<Rightarrow> uuid \<Rightarrow> 'a core_db_scheme \<Rightarrow> bool res" where
  "is_tombstoned account_id entity_type entity_id d =
     bindr (scalar_one_or_none (tombstones_of account_id entity_type entity_id d)) (\<lambda>row. Inr (row \<noteq> None))"

definition list_tombstones :: "uuid \<Rightarrow> 'a core_db_scheme \<Rightarrow> DeletionTombstone list" where
  "list_tombstones account_id d = filter (\<lambda>t. dt_account_id t = account_id) (t_tombstone d)"

definition outbox_event :: "env \<Rightarrow> uuid \<Rightarrow> uuid \<Rightarrow> string \<Rightarrow> dict \<Rightarrow> uuid option \<Rightarrow> OutboxEvent" where
  "outbox_event E event_id account_id event_type payload job =
     \<lparr> oe_id = event_id, oe_account_id = account_id, oe_event_type = event_type,
       oe_payload_sha256 = payload_sha256 E payload, oe_payload = payload, oe_durable_job_id = job,
       oe_created_at = now E, oe_published_at = None, oe_claim_token = None,
       oe_claim_expires_at = None, oe_claimed_by = None \<rparr>"

definition new_workflow :: "env \<Rightarrow> uuid \<Rightarrow> uuid \<Rightarrow> string \<Rightarrow> uuid \<Rightarrow> uuid option \<Rightarrow> uuid \<Rightarrow> DeletionWorkflow" where
  "new_workflow E workflow_id account_id entity_type entity_id space_id tombstone_id =
     \<lparr> dw_id = workflow_id, dw_account_id = account_id, dw_entity_type = entity_type,
       dw_entity_id = entity_id, dw_space_id = space_id, dw_state = ''tombstoned'',
       dw_tombstone_id = Some tombstone_id, dw_created_at = now E, dw_updated_at = now E \<rparr>"

definition new_tombstone ::
    "env \<Rightarrow> uuid \<Rightarrow> uuid \<Rightarrow> string \<Rightarrow> uuid \<Rightarrow> uuid option \<Rightarrow> string option \<Rightarrow> DeletionTombstone" where
  "new_tombstone E tombstone_id account_id entity_type entity_id space_id restore_key =
     \<lparr> dt_id = tombstone_id, dt_account_id = account_id, dt_entity_type = entity_type,
       dt_entity_id = entity_id, dt_space_id = space_id, dt_restore_key = restore_key,
       dt_tombstoned_at = now E \<rparr>"

definition tombstoned_payload :: "uuid \<Rightarrow> uuid \<Rightarrow> string \<Rightarrow> uuid \<Rightarrow> dict" where
  "tombstoned_payload workflow_id tombstone_id entity_type entity_id =
     [(''workflow_id'', JStr (str_uuid workflow_id)), (''tombstone_id'', JStr (str_uuid tombstone_id)),
      (''entity_type'', JStr entity_type), (''entity_id'', JStr (str_uuid entity_id)),
      (''state'', JStr ''tombstoned'')]"

text \<open>The body of \<open>create_tombstone\<close> inside its tenant scope.\<close>

definition bury ::
    "env \<Rightarrow> uuid \<Rightarrow> string \<Rightarrow> uuid \<Rightarrow> uuid option \<Rightarrow> string option \<Rightarrow> ('a core_db_scheme, uuid) op" where
  "bury E account_id entity_type entity_id space_id restore_key s =
     (let tombstone_id = fresh E 0; workflow_id = fresh E 1 in
      bindr (scalar_one_or_none (tombstones_of account_id entity_type entity_id (tables s))) (\<lambda>existing.
        case existing of
          Some t \<Rightarrow> Inr (dt_id t, s)
        | None \<Rightarrow>
            let s1 = add (insert_tombstone (new_tombstone E tombstone_id account_id entity_type entity_id
                       space_id restore_key)) s;
                s2 = add (insert_workflow
                       (new_workflow E workflow_id account_id entity_type entity_id space_id tombstone_id)) s1;
                s3 = add (insert_outbox (outbox_event E (fresh E 2) account_id ''deletion.tombstoned''
                       (tombstoned_payload workflow_id tombstone_id entity_type entity_id) None)) s2
            in Inr (tombstone_id, s3)))"

definition create_tombstone ::
    "env \<Rightarrow> RequestContext \<Rightarrow> string \<Rightarrow> uuid \<Rightarrow> uuid option \<Rightarrow> string option \<Rightarrow> ('a core_db_scheme, uuid) op" where
  "create_tombstone E ctx entity_type entity_id space_id restore_key s =
     tenant_scope E (tenant_of ctx)
       (bury E (ctx_account_id ctx) entity_type entity_id space_id restore_key) s"

text \<open>
  The loop of \<open>replay_tombstones_after_restore\<close>: identifiers are drawn in turn, so the counter
  of draws is threaded through; the pending rows are not flushed here.
\<close>

fun replay_tombstones_loop ::
    "env \<Rightarrow> uuid \<Rightarrow> nat \<Rightarrow> int \<Rightarrow> DeletionTombstone list \<Rightarrow> ('a core_db_scheme, int) op" where
  "replay_tombstones_loop E account_id k applied [] s = Inr (applied, s)"
| "replay_tombstones_loop E account_id k applied (row # rows) s =
     bindr (scalar_one_or_none (tombstones_of account_id (dt_entity_type row) (dt_entity_id row) (tables s)))
       (\<lambda>existing. case existing of
          Some _ \<Rightarrow> replay_tombstones_loop E account_id k applied rows s
        | None \<Rightarrow>
            let s1 = add (insert_tombstone (row\<lparr> dt_id := fresh E k, dt_account_id := account_id \<rparr>)) s;
                s2 = add (insert_workflow (new_workflow E (fresh E (k + 1)) account_id
                       (dt_entity_type row) (dt_entity_id row) (dt_space_id row) (fresh E k))) s1
            in replay_tombstones_loop E account_id (k + 2) (applied + 1) rows s2)"

definition replay_tombstones_after_restore ::
    "env \<Rightarrow> uuid \<Rightarrow> DeletionTombstone list option \<Rightarrow> ('a core_db_scheme, int) op" where
  "replay_tombstones_after_restore E account_id tombstones s =
     replay_tombstones_loop E account_id 0 0
       (case tombstones of Some ts \<Rightarrow> ts | None \<Rightarrow> list_tombstones account_id (tables s)) s"

definition opt_str :: "uuid option \<Rightarrow> json" where
  "opt_str u = (case u of None \<Rightarrow> JNull | Some v \<Rightarrow> JStr (str_uuid v))"

definition set_workflow_state ::
    "env \<Rightarrow> uuid \<Rightarrow> string \<Rightarrow> 'a core_db_scheme \<Rightarrow> 'a core_db_scheme res" where
  "set_workflow_state E workflow_id state d =
     bindr (check_in ''ck_deletion_workflow_state'' state WORKFLOW_STATES) (\<lambda>_.
       Inr (d\<lparr> t_workflow := update_rows (\<lambda>w. dw_id w = workflow_id)
         (\<lambda>w. w\<lparr> dw_state := state, dw_updated_at := now E \<rparr>) (t_workflow d) \<rparr>))"

definition advance_deletion_workflow ::
    "env \<Rightarrow> RequestContext \<Rightarrow> uuid \<Rightarrow> string \<Rightarrow> ('a core_db_scheme, (uuid \<times> string) option) op" where
  "advance_deletion_workflow E ctx workflow_id state s =
     (if state \<notin> set WORKFLOW_STATES then Inl (ValueError ''invalid_deletion_state'')
      else tenant_scope E (tenant_of ctx) (\<lambda>s.
        bindr (scalar_one_or_none (filter (\<lambda>w. dw_account_id w = ctx_account_id ctx \<and> dw_id w = workflow_id)
                 (t_workflow (tables s)))) (\<lambda>row.
          case row of
            None \<Rightarrow> Inr (None, s)
          | Some w \<Rightarrow>
              let payload = [(''workflow_id'', JStr (str_uuid (dw_id w))),
                    (''tombstone_id'', opt_str (dw_tombstone_id w)),
                    (''entity_type'', JStr (dw_entity_type w)), (''entity_id'', JStr (str_uuid (dw_entity_id w))),
                    (''state'', JStr state)];
                  s1 = add (set_workflow_state E workflow_id state) s;
                  s2 = add (insert_outbox (outbox_event E (fresh E 0) (ctx_account_id ctx)
                         ''deletion.workflow_advanced'' payload None)) s1
              in Inr (Some (workflow_id, state), s2))) s)"

section \<open>What the readers consult\<close>

text \<open>The table invariant: one tombstone per entity of an account.\<close>

definition tombstones_ok :: "'a core_db_scheme \<Rightarrow> bool" where
  "tombstones_ok d \<longleftrightarrow> distinct (map tombstone_entity (t_tombstone d))"

definition buried :: "'a core_db_scheme \<Rightarrow> (uuid \<times> string \<times> uuid) set" where
  "buried d = tombstone_entity ` set (t_tombstone d)"

lemma is_tombstoned_iff:
  assumes "tombstones_ok d"
  shows "is_tombstoned a t e d = Inr ((a, t, e) \<in> buried d)"
proof (cases "(a, t, e) \<in> buried d")
  case True
  then obtain r where r: "r \<in> set (t_tombstone d)" "tombstone_entity r = (a, t, e)"
    by (auto simp: buried_def)
  have "tombstones_of a t e d = [r]"
    unfolding tombstones_of_def
    by (rule filter_unique) (use assms r in \<open>simp_all add: tombstones_ok_def\<close>)
  then show ?thesis using True by (simp add: is_tombstoned_def)
next
  case False
  then have "tombstones_of a t e d = []"
    by (auto simp: tombstones_of_def buried_def filter_empty_conv image_iff)
  then show ?thesis using False by (simp add: is_tombstoned_def)
qed

lemma insert_tombstone_buried:
  assumes "insert_tombstone r d = Inr d'" and "tombstones_ok d"
  shows "tombstones_ok d' \<and> buried d' = insert (tombstone_entity r) (buried d) \<and>
    t_workflow d' = t_workflow d \<and> t_outbox d' = t_outbox d"
proof -
  have "tombstones_ok d'"
    using tombstone_table.distinct_keys [OF assms(1)] assms(2) by (simp add: tombstones_ok_def)
  moreover have "t_tombstone d' = t_tombstone d @ [r]" by (rule tombstone_table.ins_appends [OF assms(1)])
  moreover have "t_workflow d' = t_workflow d" "t_outbox d' = t_outbox d"
    using assms(1) by (auto simp: insert_tombstone_def bindr_Inr_iff)
  ultimately show ?thesis by (auto simp: buried_def)
qed

lemma other_inserts_tombstones:
  "insert_workflow w d = Inr d' \<Longrightarrow> t_tombstone d' = t_tombstone d \<and> t_workflow d' = t_workflow d @ [w] \<and> t_outbox d' = t_outbox d"
  "insert_outbox e d = Inr d' \<Longrightarrow> t_tombstone d' = t_tombstone d \<and> t_workflow d' = t_workflow d \<and> t_outbox d' = t_outbox d @ [e]"
  by (auto simp: insert_workflow_def insert_outbox_def bindr_Inr_iff)

lemma tombstones_of_settings [simp]:
  "tombstones_of a t e (d\<lparr> settings := g \<rparr>) = tombstones_of a t e d"
  "tombstones_ok (d\<lparr> settings := g \<rparr>) = tombstones_ok d"
  "buried (d\<lparr> settings := g \<rparr>) = buried d"
  by (simp_all add: tombstones_of_def tombstones_ok_def buried_def)

lemma flush_one: "flush (d, [a]) = Inr (d', ps) \<longleftrightarrow> a d = Inr d' \<and> ps = []"
  by (auto simp: bindr_Inr_iff)

lemma flush_three:
  "flush (d, [a, b, c]) = Inr (d', ps) \<longleftrightarrow>
     (\<exists>d1 d2. a d = Inr d1 \<and> b d1 = Inr d2 \<and> c d2 = Inr d' \<and> ps = [])"
  by (auto simp: bindr_Inr_iff)

lemma row_sels [simp]:
  "tombstone_entity (new_tombstone E i a ty e sp rk) = (a, ty, e)"
  "dt_id (new_tombstone E i a ty e sp rk) = i"
  "dw_state (new_workflow E w a ty e sp i) = ''tombstoned''"
  "dw_tombstone_id (new_workflow E w a ty e sp i) = Some i"
  "oe_event_type (outbox_event E i a et p j) = et"
  "oe_payload (outbox_event E i a et p j) = p"
  "oe_account_id (outbox_event E i a et p j) = a"
  "oe_id (outbox_event E i a et p j) = i"
  by (simp_all add: new_tombstone_def tombstone_entity_def new_workflow_def outbox_event_def)

text \<open>What a successful deletion request did: found the tombstone there, or wrote all three rows.\<close>

lemma create_tombstone_cases:
  assumes "create_tombstone E ctx ty e sp rk (d, []) = Inr (tid, d', ps')"
  obtains
    (exists) t where "tombstones_of (ctx_account_id ctx) ty e d = [t]" "tid = dt_id t"
      "t_tombstone d' = t_tombstone d" "t_workflow d' = t_workflow d" "t_outbox d' = t_outbox d"
  | (new) g d1 d2 where "tombstones_of (ctx_account_id ctx) ty e d = []" "tid = fresh E 0"
      "insert_tombstone (new_tombstone E tid (ctx_account_id ctx) ty e sp rk) (d\<lparr> settings := g \<rparr>) = Inr d1"
      "insert_workflow (new_workflow E (fresh E 1) (ctx_account_id ctx) ty e sp tid) d1 = Inr d2"
      "insert_outbox (outbox_event E (fresh E 2) (ctx_account_id ctx) ''deletion.tombstoned''
         (tombstoned_payload (fresh E 1) tid ty e) None) d2 = Inr d'"
  using assms unfolding create_tombstone_def
proof (rule tenant_scope_body)
  fix g s3
  assume b: "bury E (ctx_account_id ctx) ty e sp rk (d\<lparr> settings := g \<rparr>, []) = Inr (tid, s3)"
    and f: "flush s3 = Inr (d', ps')"
  then obtain ex where ex: "scalar_one_or_none (tombstones_of (ctx_account_id ctx) ty e d) = Inr ex"
    by (auto simp: bury_def bindr_Inr_iff Let_def)
  show thesis
  proof (cases ex)
    case None
    then have n: "tombstones_of (ctx_account_id ctx) ty e d = []" using ex by (simp add: scalar_iffs)
    then have s3: "tid = fresh E 0" "s3 = (d\<lparr> settings := g \<rparr>,
        [insert_tombstone (new_tombstone E tid (ctx_account_id ctx) ty e sp rk),
         insert_workflow (new_workflow E (fresh E 1) (ctx_account_id ctx) ty e sp tid),
         insert_outbox (outbox_event E (fresh E 2) (ctx_account_id ctx) ''deletion.tombstoned''
           (tombstoned_payload (fresh E 1) tid ty e) None)])"
      using b by (auto simp: bury_def Let_def)
    show thesis using f new [OF n s3(1)] unfolding s3(2) flush_three by blast
  next
    case (Some t)
    then show thesis
      using b f ex by (intro exists [of t]) (auto simp: bury_def scalar_iffs Let_def)
  qed
qed

lemma create_tombstone_effect:
  assumes "create_tombstone E ctx ty e sp rk (d, []) = Inr (tid, d', ps')" and "tombstones_ok d"
  shows "tombstones_ok d' \<and> buried d' = insert (ctx_account_id ctx, ty, e) (buried d) \<and>
    (\<exists>t \<in> set (t_tombstone d'). tombstone_entity t = (ctx_account_id ctx, ty, e) \<and> dt_id t = tid)"
  using assms(1)
proof (cases rule: create_tombstone_cases)
  case (exists t)
  then have "t \<in> set (t_tombstone d)" "tombstone_entity t = (ctx_account_id ctx, ty, e)"
    by (auto simp: tombstones_of_def dest!: filter_singletonD)
  then show ?thesis using exists assms(2) by (force simp: buried_def tombstones_ok_def)
next
  case (new g d1 d2)
  have "tombstones_ok d1 \<and> buried d1 = insert (ctx_account_id ctx, ty, e) (buried d)"
    "t_tombstone d' = t_tombstone d1"
    using insert_tombstone_buried [OF new(3)] assms(2) other_inserts_tombstones(1) [OF new(4)]
      other_inserts_tombstones(2) [OF new(5)] by auto
  moreover have "t_tombstone d1 = t_tombstone d @ [new_tombstone E tid (ctx_account_id ctx) ty e sp rk]"
    using tombstone_table.ins_appends [OF new(3)] by simp
  ultimately show ?thesis by (simp add: tombstones_ok_def buried_def)
qed

section \<open>Replay after a restore\<close>

text \<open>
  The rows the loop adds for a list of tombstones: those whose entity has no tombstone in the
  database, in order.
\<close>

definition missing :: "uuid \<Rightarrow> 'a core_db_scheme \<Rightarrow> DeletionTombstone list \<Rightarrow> DeletionTombstone list" where
  "missing a d rows = filter (\<lambda>r. (a, dt_entity_type r, dt_entity_id r) \<notin> buried d) rows"

lemma scalar_tombstones:
  "tombstones_ok d \<Longrightarrow> \<exists>t. scalar_one_or_none (tombstones_of a ty e d) = Inr t \<and>
     (t = None \<longleftrightarrow> (a, ty, e) \<notin> buried d)"
  using is_tombstoned_iff [of d a ty e] by (auto simp: is_tombstoned_def bindr_Inr_iff)

lemma replay_tombstones_none_missing:
  "tombstones_ok (tables s) \<Longrightarrow> missing a (tables s) rows = [] \<Longrightarrow>
     replay_tombstones_loop E a k applied rows s = Inr (applied, s)"
proof (induction rows)
  case (Cons r rows)
  obtain t where "scalar_one_or_none (tombstones_of a (dt_entity_type r) (dt_entity_id r) (tables s)) = Inr (Some t)"
    using scalar_tombstones [OF Cons.prems(1), of a "dt_entity_type r" "dt_entity_id r"] Cons.prems(2)
    by (auto simp: missing_def split: if_splits)
  then show ?case using Cons by (simp add: missing_def split: if_splits)
qed simp

lemma replay_tombstones_total:
  "tombstones_ok d \<Longrightarrow>
     \<exists>pend. replay_tombstones_loop E a k applied rows (d, ps) = Inr (applied + int (length (missing a d rows)), d, ps @ pend) \<and>
       (\<forall>d0 d' q. tombstones_ok d0 \<longrightarrow> flush (d0, pend) = Inr (d', q) \<longrightarrow>
          tombstones_ok d' \<and> buried d' = buried d0 \<union>
            (\<lambda>r. (a, dt_entity_type r, dt_entity_id r)) ` set (missing a d rows))"
proof (induction rows arbitrary: k applied ps)
  case (Cons r rows)
  let ?e = "(a, dt_entity_type r, dt_entity_id r)"
  obtain t where t: "scalar_one_or_none (tombstones_of a (dt_entity_type r) (dt_entity_id r) d) = Inr t"
    "t = None \<longleftrightarrow> ?e \<notin> buried d"
    using scalar_tombstones [OF Cons.prems] by blast
  show ?case
  proof (cases t)
    case (Some x)
    then show ?thesis
      using Cons.IH [OF Cons.prems, of k applied ps] t by (simp add: missing_def)
  next
    case None
    let ?i1 = "insert_tombstone (r\<lparr> dt_id := fresh E k, dt_account_id := a \<rparr>)"
    let ?i2 = "insert_workflow (new_workflow E (fresh E (k + 1)) a (dt_entity_type r) (dt_entity_id r)
      (dt_space_id r) (fresh E k))"
    obtain pend where run: "replay_tombstones_loop E a (k + 2) (applied + 1) rows (d, ps @ [?i1, ?i2]) =
        Inr (applied + 1 + int (length (missing a d rows)), d, (ps @ [?i1, ?i2]) @ pend)"
      and fl: "\<And>d0 d' q. tombstones_ok d0 \<Longrightarrow> flush (d0, pend) = Inr (d', q) \<Longrightarrow>
          tombstones_ok d' \<and> buried d' = buried d0 \<union>
            (\<lambda>r. (a, dt_entity_type r, dt_entity_id r)) ` set (missing a d rows)"
      using Cons.IH [OF Cons.prems] by blast
    have m: "missing a d (r # rows) = r # missing a d rows" using t None by (simp add: missing_def)
    have fl': "tombstones_ok d' \<and> buried d' = buried d0 \<union>
            (\<lambda>r. (a, dt_entity_type r, dt_entity_id r)) ` set (missing a d (r # rows))"
      if ok: "tombstones_ok d0" and f: "flush (d0, ?i1 # ?i2 # pend) = Inr (d', q)" for d0 d' q
    proof -
      obtain d1 d2 where d1: "?i1 d0 = Inr d1" and d2: "?i2 d1 = Inr d2" and f2: "flush (d2, pend) = Inr (d', q)"
        using f by (auto simp: bindr_Inr_iff)
      have "tombstones_ok d2 \<and> buried d2 = insert ?e (buried d0)"
        using insert_tombstone_buried [OF d1 ok] other_inserts_tombstones(1) [OF d2]
        by (simp add: tombstones_ok_def buried_def tombstone_entity_def)
      then show ?thesis using fl [OF _ f2] m by auto
    qed
    show ?thesis
      by (rule exI [of _ "?i1 # ?i2 # pend"]) (use run t None m fl' in simp)
  qed
qed (simp add: missing_def)

section \<open>Concrete runs\<close>

lemma demo_bury:
  assumes "t_actor d = t_actor demo_core" and "t_account_member d = t_account_member demo_core"
  obtains g where "create_tombstone demo_env demo_ctx ty e sp rk (d, []) =
    bindr (bury demo_env 1 ty e sp rk (d\<lparr> settings := g \<rparr>, [])) (\<lambda>(r, s3). bindr (flush s3) (\<lambda>s4. Inr (r, s4)))"
  using demo_scope [OF assms, of "bury demo_env 1 ty e sp rk" "[]"]
  by (auto simp: create_tombstone_def)

lemma demo_create_tombstone:
  "\<exists>d'. create_tombstone demo_env demo_ctx ty 9 None None (demo_core, []) = Inr (1000, d', []) \<and>
     t_actor d' = t_actor demo_core \<and> t_account_member d' = t_account_member demo_core \<and>
     t_tombstone d' = [new_tombstone demo_env 1000 1 ty 9 None None]"
proof -
  obtain g where "create_tombstone demo_env demo_ctx ty 9 None None (demo_core, []) =
      bindr (bury demo_env 1 ty 9 None None (demo_core\<lparr> settings := g \<rparr>, []))
        (\<lambda>(r, s3). bindr (flush s3) (\<lambda>s4. Inr (r, s4)))"
    by (rule demo_bury [OF refl refl])
  then show ?thesis
    by (simp add: bury_def Let_def tombstones_of_def demo_core_def insert_defs
        unique_key_def foreign_key_def check_in_def pending_gate_def new_tombstone_def
        new_workflow_def WORKFLOW_STATES_def outbox_event_def)
qed

lemma demo_tombstones_ok: "tombstones_ok demo_core"
  by (simp add: tombstones_ok_def demo_core_def)

section \<open>Properties\<close>

text \<open>
  A deletion takes effect with its transaction: once \<open>create_tombstone\<close> has returned, the entity
  reads as tombstoned; every entity that was tombstoned stays so; no other entity is affected; and
  nothing is left pending.
\<close>

theorem create_tombstone_buries:
  assumes "create_tombstone E ctx ty e sp rk (d, []) = Inr (tid, d', ps')" and "tombstones_ok d"
  shows "is_tombstoned (ctx_account_id ctx) ty e d' = Inr True \<and>
    (\<forall>a' ty' e'. (a', ty', e') \<noteq> (ctx_account_id ctx, ty, e) \<longrightarrow>
       is_tombstoned a' ty' e' d' = is_tombstoned a' ty' e' d) \<and> tombstones_ok d' \<and> ps' = []"
proof -
  have "ps' = []" using assms(1) unfolding create_tombstone_def by (rule tenant_scope_body)
  moreover have ok: "tombstones_ok d'" and b: "buried d' = insert (ctx_account_id ctx, ty, e) (buried d)"
    using create_tombstone_effect [OF assms] by simp_all
  ultimately show ?thesis
    by (auto simp: is_tombstoned_iff [OF ok] is_tombstoned_iff [OF assms(2)] b)
qed

theorem create_tombstone_buries_witness:
  "\<exists>d'. create_tombstone demo_env demo_ctx ''document'' 9 None None (demo_core, []) = Inr (1000, d', []) \<and>
     is_tombstoned 1 ''document'' 9 d' = Inr True"
proof -
  obtain d' where d': "create_tombstone demo_env demo_ctx ''document'' 9 None None (demo_core, []) = Inr (1000, d', [])"
    using demo_create_tombstone by blast
  then show ?thesis using create_tombstone_buries [OF d' demo_tombstones_ok] by auto
qed

text \<open>
  Deletion is idempotent: a second request for the same entity, whoever issues it in the
  account and whatever its other arguments, returns the first tombstone's identifier and writes no
  tombstone, no workflow and no event.
\<close>

theorem create_tombstone_idempotent:
  assumes "create_tombstone E ctx ty e sp rk (d, []) = Inr (tid, d', ps')" and "tombstones_ok d"
    and "create_tombstone E2 ctx2 ty e sp2 rk2 (d', []) = Inr (tid2, d'', ps'')"
    and "ctx_account_id ctx2 = ctx_account_id ctx"
  shows "tid2 = tid \<and> t_tombstone d'' = t_tombstone d' \<and> t_workflow d'' = t_workflow d' \<and>
    t_outbox d'' = t_outbox d'"
proof -
  have ok: "tombstones_ok d'" and inn: "\<exists>t \<in> set (t_tombstone d'). tombstone_entity t = (ctx_account_id ctx, ty, e) \<and> dt_id t = tid"
    using create_tombstone_effect [OF assms(1,2)] by auto
  then obtain t where t: "t \<in> set (t_tombstone d')" "tombstone_entity t = (ctx_account_id ctx, ty, e)" "dt_id t = tid"
    by blast
  have "tombstones_of (ctx_account_id ctx) ty e d' = [t]"
    unfolding tombstones_of_def by (rule filter_unique) (use ok t in \<open>simp_all add: tombstones_ok_def\<close>)
  with assms(3) show ?thesis
    by (cases rule: create_tombstone_cases) (use t assms(4) in auto)
qed

theorem create_tombstone_idempotent_witness:
  "\<exists>d' d'' q. create_tombstone demo_env demo_ctx ''document'' 9 None None (demo_core, []) = Inr (1000, d', []) \<and>
     create_tombstone demo_env demo_ctx ''document'' 9 (Some 5) None (d', []) = Inr (1000, d'', q) \<and>
     t_outbox d'' = t_outbox d'"
proof -
  obtain d' where d': "create_tombstone demo_env demo_ctx ''document'' 9 None None (demo_core, []) = Inr (1000, d', [])"
    and t: "t_actor d' = t_actor demo_core" "t_account_member d' = t_account_member demo_core"
      "t_tombstone d' = [new_tombstone demo_env 1000 1 ''document'' 9 None None]"
    using demo_create_tombstone by blast
  obtain g where "create_tombstone demo_env demo_ctx ''document'' 9 (Some 5) None (d', []) =
      bindr (bury demo_env 1 ''document'' 9 (Some 5) None (d'\<lparr> settings := g \<rparr>, []))
        (\<lambda>(r, s3). bindr (flush s3) (\<lambda>s4. Inr (r, s4)))"
    by (rule demo_bury [OF t(1,2)])
  then have "create_tombstone demo_env demo_ctx ''document'' 9 (Some 5) None (d', []) =
      Inr (1000, d'\<lparr> settings := g \<rparr>, [])"
    using t(3) by (simp add: bury_def Let_def tombstones_of_def)
  then show ?thesis
    using create_tombstone_idempotent [OF d' demo_tombstones_ok, of demo_env demo_ctx] d' by blast
qed

text \<open>
  Tombstone, workflow and outbox event are written together: a request for an entity without a
  tombstone appends exactly one row to each of the three tables, the workflow in state
  \<open>tombstoned\<close> and pointing to the tombstone, the event carrying both identifiers.
\<close>

theorem create_tombstone_transactional:
  assumes "create_tombstone E ctx ty e sp rk (d, []) = Inr (tid, d', ps')" and "tombstones_ok d"
    and "(ctx_account_id ctx, ty, e) \<notin> buried d"
  shows "\<exists>t w ev. t_tombstone d' = t_tombstone d @ [t] \<and> t_workflow d' = t_workflow d @ [w] \<and>
    t_outbox d' = t_outbox d @ [ev] \<and> tombstone_entity t = (ctx_account_id ctx, ty, e) \<and> dt_id t = tid \<and>
    dw_state w = ''tombstoned'' \<and> dw_tombstone_id w = Some tid \<and>
    oe_event_type ev = ''deletion.tombstoned'' \<and>
    jget (oe_payload ev) ''workflow_id'' = JStr (str_uuid (dw_id w)) \<and>
    jget (oe_payload ev) ''tombstone_id'' = JStr (str_uuid tid)"
  using assms(1)
proof (cases rule: create_tombstone_cases)
  case (exists t)
  then have "(ctx_account_id ctx, ty, e) \<in> buried d"
    by (force simp: tombstones_of_def buried_def dest!: filter_singletonD)
  then show ?thesis using assms(3) by contradiction
next
  case (new g d1 d2)
  have "t_tombstone d1 = t_tombstone d @ [new_tombstone E tid (ctx_account_id ctx) ty e sp rk]"
    using tombstone_table.ins_appends [OF new(3)] by simp
  moreover have "t_workflow d1 = t_workflow d" "t_outbox d1 = t_outbox d"
    using insert_tombstone_buried [OF new(3)] assms(2) by simp_all
  ultimately show ?thesis
    using other_inserts_tombstones(1) [OF new(4)] other_inserts_tombstones(2) [OF new(5)]
    by (simp add: tombstoned_payload_def new_workflow_def)
qed

theorem create_tombstone_transactional_witness:
  "\<exists>d' t w ev. create_tombstone demo_env demo_ctx ''document'' 9 None None (demo_core, []) = Inr (1000, d', []) \<and>
     t_tombstone d' = [t] \<and> t_workflow d' = [w] \<and> t_outbox d' = [ev]"
proof -
  obtain d' where d': "create_tombstone demo_env demo_ctx ''document'' 9 None None (demo_core, []) = Inr (1000, d', [])"
    using demo_create_tombstone by blast
  have "(ctx_account_id demo_ctx, ''document'', 9) \<notin> buried demo_core"
    by (simp add: buried_def demo_core_def)
  from create_tombstone_transactional [OF d' demo_tombstones_ok this] d' show ?thesis
    by (auto simp: demo_core_def)
qed

text \<open>
  Replaying a saved list of tombstones after a restore reports how many were missing, and once the
  session is flushed every entity of the list is tombstoned and nothing else has changed
  its state.
\<close>

theorem replay_tombstones_restores:
  assumes "tombstones_ok d"
  shows "\<exists>pend. replay_tombstones_after_restore E a (Some ts) (d, []) =
      Inr (int (length (missing a d ts)), d, pend) \<and>
    (\<forall>d' q. flush (d, pend) = Inr (d', q) \<longrightarrow>
       buried d' = buried d \<union> (\<lambda>t. (a, dt_entity_type t, dt_entity_id t)) ` set ts)"
proof -
  obtain pend where r: "replay_tombstones_loop E a 0 0 ts (d, []) = Inr (0 + int (length (missing a d ts)), d, [] @ pend)"
    and f: "\<And>d0 d' q. tombstones_ok d0 \<Longrightarrow> flush (d0, pend) = Inr (d', q) \<Longrightarrow>
          tombstones_ok d' \<and> buried d' = buried d0 \<union>
            (\<lambda>r. (a, dt_entity_type r, dt_entity_id r)) ` set (missing a d ts)"
    using replay_tombstones_total [OF assms, of E a 0 0 ts "[]"] by blast
  have "buried d \<union> (\<lambda>r. (a, dt_entity_type r, dt_entity_id r)) ` set (missing a d ts) =
      buried d \<union> (\<lambda>t. (a, dt_entity_type t, dt_entity_id t)) ` set ts"
    by (auto simp: missing_def)
  then show ?thesis
    using r f [OF assms] by (auto simp: replay_tombstones_after_restore_def)
qed

theorem replay_tombstones_restores_witness:
  "\<exists>pend d'. replay_tombstones_after_restore demo_env 1
      (Some [new_tombstone demo_env 3 1 ''document'' 9 None None]) (demo_core, []) = Inr (1, demo_core, pend) \<and>
     flush (demo_core, pend) = Inr (d', []) \<and> buried d' = {(1, ''document'', 9)}"
proof -
  let ?ts = "[new_tombstone demo_env 3 1 ''document'' 9 None None]"
  obtain pend where p: "replay_tombstones_after_restore demo_env 1 (Some ?ts) (demo_core, []) =
        Inr (int (length (missing 1 demo_core ?ts)), demo_core, pend)"
    and f: "\<forall>d' q. flush (demo_core, pend) = Inr (d', q) \<longrightarrow>
       buried d' = buried demo_core \<union> (\<lambda>t. (1, dt_entity_type t, dt_entity_id t)) ` set ?ts"
    using replay_tombstones_restores [OF demo_tombstones_ok, of demo_env 1 ?ts] by blast
  have run: "replay_tombstones_after_restore demo_env 1 (Some ?ts) (demo_core, []) =
      Inr (1, demo_core, [insert_tombstone (new_tombstone demo_env 1000 1 ''document'' 9 None None),
        insert_workflow (new_workflow demo_env 1001 1 ''document'' 9 None 1000)])"
    by (simp add: replay_tombstones_after_restore_def tombstones_of_def demo_core_def new_tombstone_def)
  have "\<exists>d'. flush (demo_core, [insert_tombstone (new_tombstone demo_env 1000 1 ''document'' 9 None None),
        insert_workflow (new_workflow demo_env 1001 1 ''document'' 9 None 1000)]) = Inr (d', [])"
    by (simp add: demo_core_def insert_defs unique_key_def foreign_key_def check_in_def pending_gate_def
        new_tombstone_def new_workflow_def WORKFLOW_STATES_def)
  then obtain d' where d': "flush (demo_core, pend) = Inr (d', [])"
    using p run by auto
  moreover have "buried d' = {(1, ''document'', 9)}"
    using f d' by (simp add: buried_def demo_core_def new_tombstone_def)
  ultimately show ?thesis using p run by (intro exI conjI) auto
qed

text \<open>
  The route's own call passes no list, and then the replay never does anything: it reads the
  tombstones the database still has and finds each of them present, so it reports 0 and
  adds no row, whatever a restore has lost.
\<close>

theorem replay_without_list_is_vacuous:
  assumes "tombstones_ok d"
  shows "replay_tombstones_after_restore E a None (d, ps) = Inr (0, d, ps)"
proof -
  have "missing a d (list_tombstones a d) = []"
    by (force simp: missing_def list_tombstones_def buried_def tombstone_entity_def filter_empty_conv)
  then show ?thesis
    by (simp add: replay_tombstones_after_restore_def replay_tombstones_none_missing assms)
qed

theorem replay_without_list_is_vacuous_witness:
  "replay_tombstones_after_restore demo_env 1 None (demo_core, []) = Inr (0, demo_core, [])"
  by (rule replay_without_list_is_vacuous [OF demo_tombstones_ok])

end
