(* ===== verification/Jobs.thy ===== *)
theory Jobs
  imports Deletion
begin

text \<open>
  The transactional outbox and durable jobs, \<open>services/core/src/memdot_core/jobs/service.py\<close>, with the
  database functions \<open>memdot_claim_outbox_events\<close> and \<open>memdot_ack_outbox_event\<close> of migration
  0002 that hand events to workers under a lease.

  A claim runs in one statement; rows that a concurrent claim has locked are skipped
  (\<open>FOR UPDATE SKIP LOCKED\<close>), which is the argument \<open>locked\<close>. The claim token
  (\<open>gen_random_uuid()\<close>) is an argument.
\<close>

section \<open>Enqueueing\<close>

record EnqueuedJob =
  ej_job_id :: uuid
  ej_outbox_event_id :: uuid

text \<open>\<open>{**payload, "durable_job_id": str(job_id)}\<close>.\<close>

definition bound_payload :: "dict \<Rightarrow> uuid \<Rightarrow> dict" where
  "bound_payload payload job_id = AList.update ''durable_job_id'' (JStr (str_uuid job_id)) payload"

text \<open>
  The authorization snapshot is built by \<open>auth_snapshot.py\<close> (theory \<open>Auth_Snapshot\<close>); here it is
  the argument \<open>snapshot\<close>, a function of the identifiers in the payload.
\<close>

definition resource_ids :: "dict \<Rightarrow> (string \<times> string) list" where
  "resource_ids payload =
     map (\<lambda>(k, v). (k, py_str v)) (filter (\<lambda>(k, v). ends_with k ''_id'' \<and> v \<noteq> JNull) payload)"

definition job_row ::
    "env \<Rightarrow> RequestContext \<Rightarrow> dict option \<Rightarrow> uuid \<Rightarrow> string \<Rightarrow> uuid \<Rightarrow> dict \<Rightarrow> string option \<Rightarrow> DurableJob" where
  "job_row E ctx snapshot job_id job_type space_id payload idempotency_key =
     \<lparr> dj_id = job_id, dj_account_id = ctx_account_id ctx, dj_job_type = job_type, dj_status = ''queued'',
       dj_space_id = Some space_id, dj_correlation_id = Some (ctx_correlation_id ctx),
       dj_idempotency_key = idempotency_key, dj_payload = payload, dj_progress = [],
       dj_error_code = None, dj_error_detail_safe = None, dj_auth_snapshot = snapshot,
       dj_created_at = now E, dj_updated_at = now E, dj_cancelled_at = None, dj_dead_letter_at = None \<rparr>"

definition jobs_with_key :: "uuid \<Rightarrow> string \<Rightarrow> 'a core_db_scheme \<Rightarrow> DurableJob list" where
  "jobs_with_key account_id k d =
     filter (\<lambda>j. dj_account_id j = account_id \<and> dj_idempotency_key j = Some k) (t_job d)"

definition events_of_job :: "uuid \<Rightarrow> uuid \<Rightarrow> string \<Rightarrow> 'a core_db_scheme \<Rightarrow> OutboxEvent list" where
  "events_of_job account_id job_id event_type d =
     filter (\<lambda>e. oe_account_id e = account_id \<and> oe_durable_job_id e = Some job_id \<and> oe_event_type e = event_type)
       (t_outbox d)"

text \<open>
  The replay of an idempotency key: \<open>Inr (Some job)\<close> when the job and its event are there,
  \<open>Inr None\<close> when a new job is to be made.
\<close>

definition find_enqueued ::
    "env \<Rightarrow> uuid \<Rightarrow> string \<Rightarrow> uuid \<Rightarrow> dict \<Rightarrow> string \<Rightarrow> string option \<Rightarrow> 'a core_db_scheme \<Rightarrow> EnqueuedJob option res" where
  "find_enqueued E account_id job_type space_id payload event_type idempotency_key d =
     (if \<not> truthy_str idempotency_key then Inr None
      else bindr (scalar_one_or_none (jobs_with_key account_id (the idempotency_key) d)) (\<lambda>existing.
        case existing of
          None \<Rightarrow> Inr None
        | Some j \<Rightarrow>
            if dj_job_type j \<noteq> job_type \<or> dj_space_id j \<noteq> Some space_id \<or>
               payload_sha256 E (dict_without [''durable_job_id''] (dj_payload j)) \<noteq> payload_sha256 E payload
            then Inl (ValueError ''idempotency_conflict'')
            else bindr (scalar_one_or_none (events_of_job account_id (dj_id j) event_type d)) (\<lambda>ev.
              Inr (map_option (\<lambda>e. \<lparr> ej_job_id = dj_id j, ej_outbox_event_id = oe_id e \<rparr>) ev))))"

text \<open>The body of the tenant scope: the job and its event, under two fresh identifiers.\<close>

definition enqueue_rows ::
    "env \<Rightarrow> RequestContext \<Rightarrow> (uuid \<Rightarrow> (string \<times> string) list \<Rightarrow> dict) \<Rightarrow> string \<Rightarrow> uuid \<Rightarrow> dict \<Rightarrow> string \<Rightarrow>
     string option \<Rightarrow> ('a core_db_scheme, EnqueuedJob) op" where
  "enqueue_rows E ctx snapshot job_type space_id payload event_type idempotency_key s =
     (let job_id = fresh E 0; event_id = fresh E 1; bound = bound_payload payload job_id;
          s1 = add (insert_job (job_row E ctx (Some (snapshot space_id (resource_ids bound))) job_id job_type
                 space_id bound idempotency_key)) s;
          s2 = add (insert_outbox (outbox_event E event_id (ctx_account_id ctx) event_type bound (Some job_id))) s1
      in Inr (\<lparr> ej_job_id = job_id, ej_outbox_event_id = event_id \<rparr>, s2))"

definition enqueue_job_with_outbox ::
    "env \<Rightarrow> RequestContext \<Rightarrow> (uuid \<Rightarrow> (string \<times> string) list \<Rightarrow> dict) \<Rightarrow> string \<Rightarrow> uuid \<Rightarrow> dict \<Rightarrow> string \<Rightarrow>
     string option \<Rightarrow> ('a core_db_scheme, EnqueuedJob) op" where
  "enqueue_job_with_outbox E ctx snapshot job_type space_id payload event_type idempotency_key s =
     bindr (find_enqueued E (ctx_account_id ctx) job_type space_id payload event_type idempotency_key (tables s))
       (\<lambda>found. case found of
          Some ej \<Rightarrow> Inr (ej, s)
        | None \<Rightarrow> tenant_scope E (tenant_of ctx)
            (enqueue_rows E ctx snapshot job_type space_id payload event_type idempotency_key) s)"

section \<open>Leases\<close>

record ClaimedEvent =
  ce_id :: uuid
  ce_account_id :: uuid
  ce_event_type :: string
  ce_payload_sha256 :: string
  ce_payload :: dict
  ce_claim_token :: "uuid option"

definition claimable :: "datetime \<Rightarrow> OutboxEvent \<Rightarrow> bool" where
  "claimable t e \<longleftrightarrow> oe_published_at e = None \<and>
     (case oe_claim_expires_at e of None \<Rightarrow> True | Some x \<Rightarrow> x < t)"

definition claim_candidates :: "datetime \<Rightarrow> uuid list \<Rightarrow> nat \<Rightarrow> OutboxEvent list \<Rightarrow> OutboxEvent list" where
  "claim_candidates t locked n es =
     take n (sort_key oe_created_at (filter (\<lambda>e. claimable t e \<and> oe_id e \<notin> set locked) es))"

definition memdot_claim_outbox_events ::
    "env \<Rightarrow> uuid \<Rightarrow> uuid list \<Rightarrow> string \<Rightarrow> int \<Rightarrow> int \<Rightarrow> 'a core_db_scheme \<Rightarrow>
     (OutboxEvent list \<times> 'a core_db_scheme) res" where
  "memdot_claim_outbox_events E token locked worker_id batch_size lease_seconds d =
     (if batch_size < 0 then Inl (DBAPIError ''LIMIT must not be negative'')
      else let ids = map oe_id (claim_candidates (now E) locked (nat batch_size) (t_outbox d));
               rows = update_rows (\<lambda>e. oe_id e \<in> set ids)
                 (\<lambda>e. e\<lparr> oe_claim_token := Some token,
                         oe_claim_expires_at := Some (now E + lease_seconds * 1000000),
                         oe_claimed_by := Some worker_id \<rparr>) (t_outbox d)
           in Inr (filter (\<lambda>e. oe_id e \<in> set ids) rows, d\<lparr> t_outbox := rows \<rparr>))"

definition claimed_event :: "OutboxEvent \<Rightarrow> ClaimedEvent" where
  "claimed_event e =
     \<lparr> ce_id = oe_id e, ce_account_id = oe_account_id e, ce_event_type = oe_event_type e,
       ce_payload_sha256 = oe_payload_sha256 e, ce_payload = oe_payload e,
       ce_claim_token = oe_claim_token e \<rparr>"

definition claim_outbox_batch ::
    "env \<Rightarrow> uuid \<Rightarrow> uuid list \<Rightarrow> string \<Rightarrow> int \<Rightarrow> int \<Rightarrow> ('a core_db_scheme, ClaimedEvent list) op" where
  "claim_outbox_batch E token locked worker_id batch_size lease_seconds s =
     bindr (memdot_claim_outbox_events E token locked worker_id batch_size lease_seconds (fst s))
       (\<lambda>(rows, d). Inr (map claimed_event rows, d, snd s))"

definition ack_matches :: "uuid \<Rightarrow> uuid \<Rightarrow> uuid \<Rightarrow> OutboxEvent \<Rightarrow> bool" where
  "ack_matches account_id event_id token e \<longleftrightarrow> oe_account_id e = account_id \<and> oe_id e = event_id \<and>
     oe_claim_token e = Some token \<and> oe_published_at e = None"

definition memdot_ack_outbox_event ::
    "env \<Rightarrow> uuid \<Rightarrow> uuid \<Rightarrow> uuid \<Rightarrow> 'a core_db_scheme \<Rightarrow> bool \<times> 'a core_db_scheme" where
  "memdot_ack_outbox_event E account_id event_id token d =
     (length (filter (ack_matches account_id event_id token) (t_outbox d)) = 1,
      d\<lparr> t_outbox := update_rows (ack_matches account_id event_id token)
        (\<lambda>e. e\<lparr> oe_published_at := Some (now E), oe_claim_token := None, oe_claim_expires_at := None,
                oe_claimed_by := None \<rparr>) (t_outbox d) \<rparr>)"

definition ack_outbox_event :: "env \<Rightarrow> uuid \<Rightarrow> uuid \<Rightarrow> uuid \<Rightarrow> ('a core_db_scheme, bool) op" where
  "ack_outbox_event E account_id event_id claim_token s =
     (let (ok, d) = memdot_ack_outbox_event E account_id event_id claim_token (fst s) in Inr (ok, d, snd s))"

section \<open>Attempts\<close>

definition find_job :: "uuid \<Rightarrow> uuid \<Rightarrow> 'a core_db_scheme \<Rightarrow> DurableJob res" where
  "find_job account_id job_id d =
     scalar_one (filter (\<lambda>j. dj_account_id j = account_id \<and> dj_id j = job_id) (t_job d))"

text \<open>A changed attribute of a loaded row is written by the next flush.\<close>

definition update_job :: "uuid \<Rightarrow> (DurableJob \<Rightarrow> DurableJob) \<Rightarrow> 'a core_db_scheme \<Rightarrow> 'a core_db_scheme res" where
  "update_job job_id f d = Inr (d\<lparr> t_job := update_rows (\<lambda>j. dj_id j = job_id) f (t_job d) \<rparr>)"

definition update_attempt :: "uuid \<Rightarrow> (JobAttempt \<Rightarrow> JobAttempt) \<Rightarrow> 'a core_db_scheme \<Rightarrow> 'a core_db_scheme res" where
  "update_attempt attempt_id f d = Inr (d\<lparr> t_attempt := update_rows (\<lambda>a. ja_id a = attempt_id) f (t_attempt d) \<rparr>)"

definition attempts_of :: "uuid \<Rightarrow> uuid \<Rightarrow> 'a core_db_scheme \<Rightarrow> JobAttempt list" where
  "attempts_of account_id job_id d =
     filter (\<lambda>a. ja_account_id a = account_id \<and> ja_job_id a = job_id) (t_attempt d)"

definition next_attempt_number :: "JobAttempt list \<Rightarrow> int" where
  "next_attempt_number as =
     (case sort_key (\<lambda>a. - ja_attempt_number a) as of [] \<Rightarrow> 1 | a # _ \<Rightarrow> ja_attempt_number a + 1)"

definition start_job_attempt :: "env \<Rightarrow> uuid \<Rightarrow> uuid \<Rightarrow> ('a core_db_scheme, uuid) op" where
  "start_job_attempt E account_id job_id s =
     bindr (find_job account_id job_id (tables s)) (\<lambda>job.
     let next_no = next_attempt_number (attempts_of account_id job_id (tables s));
         attempt_id = fresh E 0;
         s1 = add (insert_attempt
           \<lparr> ja_id = attempt_id, ja_account_id = account_id, ja_job_id = job_id, ja_attempt_number = next_no,
             ja_status = ''running'', ja_started_at = Some (now E), ja_finished_at = None,
             ja_error_code = None, ja_error_detail_safe = None, ja_created_at = now E \<rparr>) s;
         s2 = add (update_job job_id (\<lambda>j. j\<lparr> dj_status := ''running'', dj_updated_at := now E \<rparr>)) s1
     in bindr (flush s2) (\<lambda>s3. Inr (attempt_id, s3)))"

definition complete_job ::
    "env \<Rightarrow> uuid \<Rightarrow> uuid \<Rightarrow> uuid \<Rightarrow> bool \<Rightarrow> string option \<Rightarrow> string option \<Rightarrow> ('a core_db_scheme, unit) op" where
  "complete_job E account_id job_id attempt_id succeeded error_code error_detail_safe s =
     bindr (find_job account_id job_id (tables s)) (\<lambda>job.
     bindr (scalar_one (filter (\<lambda>a. ja_account_id a = account_id \<and> ja_id a = attempt_id) (t_attempt (tables s)))) (\<lambda>attempt.
     let status = (if succeeded then ''succeeded'' else ''failed'');
         s1 = add (update_attempt attempt_id (\<lambda>a. a\<lparr> ja_finished_at := Some (now E), ja_status := status,
                ja_error_code := error_code, ja_error_detail_safe := error_detail_safe \<rparr>)) s;
         s2 = add (update_job job_id (\<lambda>j. j\<lparr> dj_status := status, dj_error_code := error_code,
                dj_error_detail_safe := error_detail_safe, dj_updated_at := now E \<rparr>)) s1
     in bindr (flush s2) (\<lambda>s3. Inr ((), s3))))"

definition retry_delay_seconds :: "nat \<Rightarrow> int" where
  "retry_delay_seconds attempt_number = min (2 ^ attempt_number) 300 + int (attempt_number mod 7)"

definition mark_dead_letter :: "env \<Rightarrow> uuid \<Rightarrow> uuid \<Rightarrow> ('a core_db_scheme, unit) op" where
  "mark_dead_letter E account_id job_id s =
     bindr (find_job account_id job_id (tables s)) (\<lambda>job.
     bindr (flush (add (update_job job_id (\<lambda>j. j\<lparr> dj_status := ''dead_letter'',
       dj_dead_letter_at := Some (now E), dj_updated_at := now E \<rparr>)) s)) (\<lambda>s1. Inr ((), s1)))"

definition cancel_job :: "env \<Rightarrow> uuid \<Rightarrow> uuid \<Rightarrow> ('a core_db_scheme, unit) op" where
  "cancel_job E account_id job_id s =
     bindr (find_job account_id job_id (tables s)) (\<lambda>job.
     bindr (flush (add (update_job job_id (\<lambda>j. j\<lparr> dj_status := ''cancelled'',
       dj_cancelled_at := Some (now E), dj_updated_at := now E \<rparr>)) s)) (\<lambda>s1. Inr ((), s1)))"

section \<open>What a claim does\<close>

lemma set_update_rows: "e \<in> set (update_rows sel f rows) \<longleftrightarrow> (\<exists>r \<in> set rows. e = (if sel r then f r else r))"
  by (auto simp: update_rows_def)

lemma claim_candidates_sub:
  "e \<in> set (claim_candidates t locked n es) \<Longrightarrow> e \<in> set es \<and> claimable t e \<and> oe_id e \<notin> set locked"
  by (auto simp: claim_candidates_def dest!: in_set_takeD)

definition leased :: "uuid \<Rightarrow> string \<Rightarrow> datetime \<Rightarrow> OutboxEvent \<Rightarrow> OutboxEvent" where
  "leased token worker_id until e =
     e\<lparr> oe_claim_token := Some token, oe_claim_expires_at := Some until, oe_claimed_by := Some worker_id \<rparr>"

lemma leased_sel [simp]:
  "oe_id (leased tk w u e) = oe_id e" "oe_published_at (leased tk w u e) = oe_published_at e"
  "oe_claim_expires_at (leased tk w u e) = Some u" "oe_claim_token (leased tk w u e) = Some tk"
  "oe_account_id (leased tk w u e) = oe_account_id e"
  by (simp_all add: leased_def)

definition claimed_ids :: "env \<Rightarrow> uuid list \<Rightarrow> int \<Rightarrow> 'a core_db_scheme \<Rightarrow> uuid list" where
  "claimed_ids E locked batch_size d = map oe_id (claim_candidates (now E) locked (nat batch_size) (t_outbox d))"

lemma claim_Inr:
  assumes "memdot_claim_outbox_events E token locked w b l d = Inr (rows, d')"
  shows "0 \<le> b"
    and "rows = filter (\<lambda>e. oe_id e \<in> set (claimed_ids E locked b d)) (t_outbox d')"
    and "d' = d\<lparr> t_outbox := update_rows (\<lambda>e. oe_id e \<in> set (claimed_ids E locked b d))
      (leased token w (now E + l * 1000000)) (t_outbox d) \<rparr>"
  using assms
  by (auto simp: memdot_claim_outbox_events_def claimed_ids_def leased_def [abs_def] Let_def split: if_splits)

lemma claimed_ids_claimable:
  assumes "distinct (map oe_id (t_outbox d))" and "e \<in> set (t_outbox d)"
    and "oe_id e \<in> set (claimed_ids E locked b d)"
  shows "claimable (now E) e"
proof -
  obtain e' where "e' \<in> set (claim_candidates (now E) locked (nat b) (t_outbox d))" "oe_id e' = oe_id e"
    using assms(3) by (auto simp: claimed_ids_def)
  then have "e' \<in> set (t_outbox d)" "claimable (now E) e'" "oe_id e' = oe_id e"
    using claim_candidates_sub by blast+
  moreover have "inj_on oe_id (set (t_outbox d))" using assms(1) by (simp add: distinct_map)
  ultimately show ?thesis using assms(2) by (metis inj_onD)
qed

text \<open>A returned event is a row of the table that was claimable, now leased under the token.\<close>

lemma claim_returned:
  assumes "memdot_claim_outbox_events E token locked w b l d = Inr (rows, d')"
    and "distinct (map oe_id (t_outbox d))" and "e \<in> set rows"
  obtains e0 where "e0 \<in> set (t_outbox d)" "e = leased token w (now E + l * 1000000) e0"
    "claimable (now E) e0" "oe_id e0 \<in> set (claimed_ids E locked b d)"
proof -
  have ids: "oe_id e \<in> set (claimed_ids E locked b d)" and e: "e \<in> set (t_outbox d')"
    using assms(3) by (simp_all add: claim_Inr(2) [OF assms(1)])
  obtain e0 where e0: "e0 \<in> set (t_outbox d)"
    "e = (if oe_id e0 \<in> set (claimed_ids E locked b d) then leased token w (now E + l * 1000000) e0 else e0)"
    using e unfolding claim_Inr(3) [OF assms(1)] by (auto simp: set_update_rows)
  with ids have "e = leased token w (now E + l * 1000000) e0" "oe_id e0 \<in> set (claimed_ids E locked b d)"
    by (auto split: if_splits)
  then show ?thesis using that e0(1) claimed_ids_claimable [OF assms(2) e0(1)] by blast
qed

lemma claim_ids_same:
  assumes "memdot_claim_outbox_events E token locked w b l d = Inr (rows, d')"
  shows "map oe_id (t_outbox d') = map oe_id (t_outbox d)"
  unfolding claim_Inr(3) [OF assms] by (simp add: map_update_rows)

section \<open>The outbox as a state machine\<close>

text \<open>
  The world of the workers: the clock, the database, and two ghost histories, the leases
  granted (event, from, until) and the events acknowledged with success. Steps: time passes, an
  event is published to the outbox, a worker claims a batch, a worker acknowledges with any token.
\<close>

record world =
  w_time :: datetime
  w_db :: core_db
  w_leases :: "(uuid \<times> datetime \<times> datetime) list"
  w_acked :: "uuid list"

inductive outbox_step :: "env \<Rightarrow> world \<Rightarrow> world \<Rightarrow> bool" for E where
  tick: "w_time w \<le> t \<Longrightarrow> outbox_step E w (w\<lparr> w_time := t \<rparr>)"
| publish: "insert_outbox e (w_db w) = Inr d \<Longrightarrow> outbox_step E w (w\<lparr> w_db := d \<rparr>)"
| claim: "0 \<le> l \<Longrightarrow> memdot_claim_outbox_events (E\<lparr> now := w_time w \<rparr>) token locked worker b l (w_db w) = Inr (rows, d) \<Longrightarrow>
    outbox_step E w (w\<lparr> w_db := d,
      w_leases := w_leases w @ map (\<lambda>e. (oe_id e, w_time w, w_time w + l * 1000000)) rows \<rparr>)"
| ack: "memdot_ack_outbox_event (E\<lparr> now := w_time w \<rparr>) account event token (w_db w) = (ok, d) \<Longrightarrow>
    outbox_step E w (w\<lparr> w_db := d, w_acked := (if ok then w_acked w @ [event] else w_acked w) \<rparr>)"

inductive_cases outbox_step_cases: "outbox_step E w w'"

definition start_world :: "datetime \<Rightarrow> core_db \<Rightarrow> world" where
  "start_world t d = \<lparr> w_time = t, w_db = d, w_leases = [], w_acked = [] \<rparr>"

definition reachable :: "env \<Rightarrow> world \<Rightarrow> world \<Rightarrow> bool" where
  "reachable E w w' \<longleftrightarrow> (outbox_step E)\<^sup>*\<^sup>* w w'"

text \<open>The row of an event that was leased until \<open>u\<close>: published, or leased at least that long.\<close>

definition holds :: "OutboxEvent list \<Rightarrow> uuid \<Rightarrow> datetime \<Rightarrow> bool" where
  "holds es i u \<longleftrightarrow> (\<exists>e \<in> set es. oe_id e = i \<and>
     (oe_published_at e \<noteq> None \<or> (\<exists>x. oe_claim_expires_at e = Some x \<and> u \<le> x)))"

definition published :: "OutboxEvent list \<Rightarrow> uuid \<Rightarrow> bool" where
  "published es i \<longleftrightarrow> (\<exists>e \<in> set es. oe_id e = i \<and> oe_published_at e \<noteq> None)"

definition exclusive :: "(uuid \<times> datetime \<times> datetime) list \<Rightarrow> bool" where
  "exclusive ls \<longleftrightarrow> sorted_wrt (\<lambda>(i, f, u) (j, f', u'). i = j \<longrightarrow> u < f') ls"

definition outbox_inv :: "world \<Rightarrow> bool" where
  "outbox_inv w \<longleftrightarrow> distinct (map oe_id (t_outbox (w_db w))) \<and>
     (\<forall>(i, f, u) \<in> set (w_leases w). holds (t_outbox (w_db w)) i u) \<and> exclusive (w_leases w) \<and>
     (\<forall>i \<in> set (w_acked w). published (t_outbox (w_db w)) i) \<and> distinct (w_acked w)"

lemma outbox_inv_start:
  "distinct (map oe_id (t_outbox d)) \<Longrightarrow> outbox_inv (start_world t d)"
  by (simp add: outbox_inv_def start_world_def exclusive_def)

lemma holds_append: "holds es i u \<Longrightarrow> holds (es @ es') i u"
  by (auto simp: holds_def)

lemma published_append: "published es i \<Longrightarrow> published (es @ es') i"
  by (auto simp: published_def)

lemma holds_update:
  assumes "holds es i u" and "\<And>e. e \<in> set es \<Longrightarrow> oe_id (f e) = oe_id e"
    and "\<And>e. e \<in> set es \<Longrightarrow> sel e \<Longrightarrow> oe_published_at e \<noteq> None \<or> (\<exists>x. oe_claim_expires_at e = Some x \<and> u \<le> x) \<Longrightarrow>
      oe_published_at (f e) \<noteq> None \<or> (\<exists>x. oe_claim_expires_at (f e) = Some x \<and> u \<le> x)"
  shows "holds (update_rows sel f es) i u"
proof -
  obtain e where e: "e \<in> set es" "oe_id e = i"
    "oe_published_at e \<noteq> None \<or> (\<exists>x. oe_claim_expires_at e = Some x \<and> u \<le> x)"
    using assms(1) by (auto simp: holds_def)
  let ?e = "if sel e then f e else e"
  have "?e \<in> set (update_rows sel f es)" using e(1) by (auto simp: update_rows_def)
  moreover have "oe_id ?e = i" using e assms(2) by simp
  moreover have "oe_published_at ?e \<noteq> None \<or> (\<exists>x. oe_claim_expires_at ?e = Some x \<and> u \<le> x)"
    using e assms(3) by simp
  ultimately show ?thesis unfolding holds_def by blast
qed

lemma published_update:
  assumes "published es i" and "\<And>e. e \<in> set es \<Longrightarrow> oe_id (f e) = oe_id e"
    and "\<And>e. e \<in> set es \<Longrightarrow> oe_published_at e \<noteq> None \<Longrightarrow> oe_published_at (f e) \<noteq> None"
  shows "published (update_rows sel f es) i"
proof -
  obtain e where e: "e \<in> set es" "oe_id e = i" "oe_published_at e \<noteq> None"
    using assms(1) by (auto simp: published_def)
  let ?e = "if sel e then f e else e"
  have "?e \<in> set (update_rows sel f es)" using e(1) by (auto simp: update_rows_def)
  moreover have "oe_id ?e = i" "oe_published_at ?e \<noteq> None" using e assms(2,3) by simp_all
  ultimately show ?thesis unfolding published_def by blast
qed

lemma claimable_not_held:
  assumes "distinct (map oe_id es)" and "holds es i u" and "e \<in> set es" and "oe_id e = i" and "claimable t e"
  shows "u < t"
proof -
  obtain e' where "e' \<in> set es" "oe_id e' = i"
    and e': "oe_published_at e' \<noteq> None \<or> (\<exists>x. oe_claim_expires_at e' = Some x \<and> u \<le> x)"
    using assms(2) by (auto simp: holds_def)
  moreover have "inj_on oe_id (set es)" using assms(1) by (simp add: distinct_map)
  ultimately have "e' = e" using assms(3,4) by (metis inj_onD)
  then show ?thesis using e' assms(5) by (auto simp: claimable_def)
qed

lemma exclusive_batch:
  "distinct (map oe_id rows) \<Longrightarrow>
     sorted_wrt (\<lambda>(i, f, u) (j, f', u'). i = j \<longrightarrow> u < f') (map (\<lambda>e. (oe_id e, t, u)) rows)"
  by (induction rows) auto

lemma outbox_inv_claim:
  assumes inv: "outbox_inv w" and l: "0 \<le> l"
    and c: "memdot_claim_outbox_events (E\<lparr> now := w_time w \<rparr>) token locked worker b l (w_db w) = Inr (rows, d)"
  shows "outbox_inv (w\<lparr> w_db := d,
      w_leases := w_leases w @ map (\<lambda>e. (oe_id e, w_time w, w_time w + l * 1000000)) rows \<rparr>)"
proof -
  let ?t = "w_time w" and ?E = "E\<lparr> now := w_time w \<rparr>"
  let ?u = "?t + l * 1000000"
  have dist: "distinct (map oe_id (t_outbox (w_db w)))" using inv by (simp add: outbox_inv_def)
  have dist': "distinct (map oe_id (t_outbox d))" using dist claim_ids_same [OF c] by simp
  have tab: "t_outbox d = update_rows (\<lambda>e. oe_id e \<in> set (claimed_ids ?E locked b (w_db w)))
      (leased token worker ?u) (t_outbox (w_db w))"
    using claim_Inr(3) [OF c] by simp
  have "holds (t_outbox d) i u" if "(i, f, u) \<in> set (w_leases w)" for i f u
  proof -
    have h: "holds (t_outbox (w_db w)) i u" using inv that by (auto simp: outbox_inv_def)
    show ?thesis unfolding tab
    proof (rule holds_update [OF h])
      fix e assume e: "e \<in> set (t_outbox (w_db w))" "oe_id e \<in> set (claimed_ids ?E locked b (w_db w))"
        and p: "oe_published_at e \<noteq> None \<or> (\<exists>x. oe_claim_expires_at e = Some x \<and> u \<le> x)"
      have "claimable ?t e" using claimed_ids_claimable [OF dist e] by simp
      then have "u < ?t" using p by (auto simp: claimable_def)
      then show "oe_published_at (leased token worker ?u e) \<noteq> None \<or>
          (\<exists>x. oe_claim_expires_at (leased token worker ?u e) = Some x \<and> u \<le> x)" using l by simp
    qed simp
  qed
  moreover have new: "e \<in> set (t_outbox d) \<and> oe_claim_expires_at e = Some ?u \<and>
      (\<exists>e0 \<in> set (t_outbox (w_db w)). oe_id e0 = oe_id e \<and> claimable ?t e0)" if e: "e \<in> set rows" for e
  proof -
    obtain e0 where "e0 \<in> set (t_outbox (w_db w))" "e = leased token worker (now ?E + l * 1000000) e0"
      "claimable (now ?E) e0"
      using claim_returned [OF c dist e] by metis
    moreover have "e \<in> set (t_outbox d)" using e claim_Inr(2) [OF c] by simp
    ultimately show ?thesis by auto
  qed
  moreover have "u < ?t" if le: "(i, f, u) \<in> set (w_leases w)" "e \<in> set rows" "oe_id e = i" for i f u e
  proof -
    obtain e0 where "e0 \<in> set (t_outbox (w_db w))" "oe_id e0 = i" "claimable ?t e0"
      using new [OF le(2)] le(3) by auto
    then show ?thesis using claimable_not_held [OF dist, of i u e0 ?t] inv le(1)
      by (auto simp: outbox_inv_def)
  qed
  moreover have "sorted_wrt (\<lambda>(i, f, u) (j, f', u'). i = j \<longrightarrow> u < f') (map (\<lambda>e. (oe_id e, ?t, ?u)) rows)"
    by (rule exclusive_batch) (use dist' in \<open>simp add: claim_Inr(2) [OF c] distinct_map_filter\<close>)
  moreover have "published (t_outbox d) i" if "i \<in> set (w_acked w)" for i
    unfolding tab using inv that by (auto simp: outbox_inv_def intro!: published_update)
  ultimately show ?thesis
    using inv dist' by (auto simp: outbox_inv_def exclusive_def sorted_wrt_append holds_def)
qed

lemma ack_Inr:
  assumes "memdot_ack_outbox_event E account event token d = (ok, d')"
  shows "ok \<longleftrightarrow> length (filter (ack_matches account event token) (t_outbox d)) = 1"
    and "t_outbox d' = update_rows (ack_matches account event token)
      (\<lambda>e. e\<lparr> oe_published_at := Some (now E), oe_claim_token := None, oe_claim_expires_at := None,
              oe_claimed_by := None \<rparr>) (t_outbox d)"
  using assms by (auto simp: memdot_ack_outbox_event_def)

lemma ack_true_unpublished:
  assumes "memdot_ack_outbox_event E account event token d = (True, d')"
  obtains e where "e \<in> set (t_outbox d)" "ack_matches account event token e"
  using ack_Inr(1) [OF assms] by (metis filter_singletonD length_0_conv length_Suc_conv One_nat_def)

lemma outbox_inv_ack:
  assumes inv: "outbox_inv w"
    and a: "memdot_ack_outbox_event (E\<lparr> now := w_time w \<rparr>) account event token (w_db w) = (ok, d)"
  shows "outbox_inv (w\<lparr> w_db := d, w_acked := (if ok then w_acked w @ [event] else w_acked w) \<rparr>)"
proof -
  let ?f = "\<lambda>e. e\<lparr> oe_published_at := Some (w_time w), oe_claim_token := None, oe_claim_expires_at := None,
              oe_claimed_by := None \<rparr>"
  have tab: "t_outbox d = update_rows (ack_matches account event token) ?f (t_outbox (w_db w))"
    using ack_Inr(2) [OF a] by simp
  have dist: "distinct (map oe_id (t_outbox (w_db w)))" using inv by (simp add: outbox_inv_def)
  have "distinct (map oe_id (t_outbox d))" unfolding tab using dist by (simp add: map_update_rows)
  moreover have "holds (t_outbox d) i u" if "(i, f, u) \<in> set (w_leases w)" for i f u
    unfolding tab using inv that by (auto simp: outbox_inv_def intro!: holds_update)
  moreover have "published (t_outbox d) i" if "i \<in> set (w_acked w)" for i
    unfolding tab using inv that by (auto simp: outbox_inv_def intro!: published_update)
  moreover have "published (t_outbox d) event \<and> event \<notin> set (w_acked w)" if "ok"
  proof -
    have a': "memdot_ack_outbox_event (E\<lparr> now := w_time w \<rparr>) account event token (w_db w) = (True, d)"
      using a that by simp
    obtain e where e: "e \<in> set (t_outbox (w_db w))" "ack_matches account event token e"
      using a' by (rule ack_true_unpublished)
    have "?f e \<in> set (t_outbox d)" unfolding tab using e by (force simp: set_update_rows)
    then have "published (t_outbox d) event"
      unfolding published_def by (rule bexI [rotated]) (use e(2) in \<open>simp add: ack_matches_def\<close>)
    moreover have "\<not> published (t_outbox (w_db w)) event"
      using e dist by (auto simp: published_def ack_matches_def distinct_map dest: inj_onD)
    ultimately show ?thesis using inv by (auto simp: outbox_inv_def)
  qed
  ultimately show ?thesis using inv by (auto simp: outbox_inv_def)
qed

lemma outbox_inv_publish:
  assumes "outbox_inv w" and "insert_outbox e (w_db w) = Inr d"
  shows "outbox_inv (w\<lparr> w_db := d \<rparr>)"
  using assms(1) outbox_table.ins_appends [OF assms(2)] outbox_table.distinct_keys [OF assms(2)]
  by (auto simp: outbox_inv_def holds_append published_append)

lemma outbox_inv_step: "outbox_step E w w' \<Longrightarrow> outbox_inv w \<Longrightarrow> outbox_inv w'"
  by (induction rule: outbox_step.induct)
    (simp_all add: outbox_inv_claim outbox_inv_ack outbox_inv_publish, simp add: outbox_inv_def)

lemma outbox_inv_reachable: "reachable E w w' \<Longrightarrow> outbox_inv w \<Longrightarrow> outbox_inv w'"
  unfolding reachable_def by (induction rule: rtranclp_induct) (auto intro: outbox_inv_step)

section \<open>Enqueueing again\<close>

lemma dict_without_bound:
  "''durable_job_id'' \<notin> fst ` set payload \<Longrightarrow> dict_without [''durable_job_id''] (bound_payload payload j) = payload"
  unfolding dict_without_def bound_payload_def
  by (induction payload) (auto simp: filter_id_conv)

lemma insert_job_frame:
  "insert_job j d = Inr d' \<Longrightarrow> t_job d' = t_job d @ [j] \<and> t_outbox d' = t_outbox d"
  by (auto simp: insert_job_def bindr_Inr_iff)

lemma insert_outbox_frame:
  "insert_outbox e d = Inr d' \<Longrightarrow> t_outbox d' = t_outbox d @ [e] \<and> t_job d' = t_job d"
  by (auto simp: insert_outbox_def bindr_Inr_iff)

lemma flush_two:
  "flush (d, [a, b]) = Inr (d', ps) \<longleftrightarrow> (\<exists>d1. a d = Inr d1 \<and> b d1 = Inr d' \<and> ps = [])"
  by (auto simp: bindr_Inr_iff)

text \<open>What a successful first call wrote.\<close>

lemma enqueue_new:
  assumes "enqueue_job_with_outbox E ctx snap ty sp payload et key (d, []) = Inr (ej, d', ps')"
    and "find_enqueued E (ctx_account_id ctx) ty sp payload et key d = Inr None"
  shows "ej = \<lparr> ej_job_id = fresh E 0, ej_outbox_event_id = fresh E 1 \<rparr> \<and> ps' = [] \<and>
    t_job d' = t_job d @ [job_row E ctx (Some (snap sp (resource_ids (bound_payload payload (fresh E 0)))))
      (fresh E 0) ty sp (bound_payload payload (fresh E 0)) key] \<and>
    t_outbox d' = t_outbox d @ [outbox_event E (fresh E 1) (ctx_account_id ctx) et
      (bound_payload payload (fresh E 0)) (Some (fresh E 0))] \<and>
    fresh E 0 \<notin> dj_id ` set (t_job d)"
proof -
  let ?j = "job_row E ctx (Some (snap sp (resource_ids (bound_payload payload (fresh E 0)))))
      (fresh E 0) ty sp (bound_payload payload (fresh E 0)) key"
  let ?e = "outbox_event E (fresh E 1) (ctx_account_id ctx) et (bound_payload payload (fresh E 0)) (Some (fresh E 0))"
  have "tenant_scope E (tenant_of ctx) (enqueue_rows E ctx snap ty sp payload et key) (d, []) = Inr (ej, d', ps')"
    using assms by (simp add: enqueue_job_with_outbox_def)
  then obtain g where e: "ej = \<lparr> ej_job_id = fresh E 0, ej_outbox_event_id = fresh E 1 \<rparr>"
    and f: "flush (d\<lparr> settings := g \<rparr>, [insert_job ?j, insert_outbox ?e]) = Inr (d', ps')"
    by (rule tenant_scope_body) (auto simp: enqueue_rows_def Let_def)
  obtain d1 where d1: "insert_job ?j (d\<lparr> settings := g \<rparr>) = Inr d1" "insert_outbox ?e d1 = Inr d'" "ps' = []"
    using f unfolding flush_two by blast
  show ?thesis
    using e d1(3) insert_job_frame [OF d1(1)] insert_outbox_frame [OF d1(2)] job_table.ins_fresh [OF d1(1)]
    by (simp add: job_row_def)
qed

text \<open>
  Every event that belongs to a job names a job of the table (the foreign key), so a fresh job has
  no events yet.
\<close>

definition events_have_jobs :: "'a core_db_scheme \<Rightarrow> bool" where
  "events_have_jobs d \<longleftrightarrow>
     (\<forall>e \<in> set (t_outbox d). \<forall>j. oe_durable_job_id e = Some j \<longrightarrow> j \<in> dj_id ` set (t_job d))"

lemma enqueue_first:
  assumes "enqueue_job_with_outbox E ctx snap ty sp payload et (Some k) (d, []) = Inr (ej, d', ps')"
    and "k \<noteq> []" and "jobs_with_key (ctx_account_id ctx) k d = []" and "events_have_jobs d"
  shows "ps' = []" and "\<exists>j. jobs_with_key (ctx_account_id ctx) k d' = [j] \<and> dj_id j = ej_job_id ej \<and>
      dj_job_type j = ty \<and> dj_space_id j = Some sp \<and> dj_payload j = bound_payload payload (ej_job_id ej)"
    and "\<exists>e. events_of_job (ctx_account_id ctx) (ej_job_id ej) et d' = [e] \<and> oe_id e = ej_outbox_event_id ej"
proof -
  have "find_enqueued E (ctx_account_id ctx) ty sp payload et (Some k) d = Inr None"
    using assms(2,3) by (simp add: find_enqueued_def)
  note n = enqueue_new [OF assms(1) this]
  show "ps' = []" using n by simp
  show "\<exists>j. jobs_with_key (ctx_account_id ctx) k d' = [j] \<and> dj_id j = ej_job_id ej \<and>
      dj_job_type j = ty \<and> dj_space_id j = Some sp \<and> dj_payload j = bound_payload payload (ej_job_id ej)"
    using n assms(3) by (auto simp: jobs_with_key_def job_row_def)
  have "events_of_job (ctx_account_id ctx) (fresh E 0) et d = []"
    using n assms(4) by (auto simp: events_of_job_def events_have_jobs_def filter_empty_conv)
  then show "\<exists>e. events_of_job (ctx_account_id ctx) (ej_job_id ej) et d' = [e] \<and> oe_id e = ej_outbox_event_id ej"
    using n by (auto simp: events_of_job_def outbox_event_def)
qed

section \<open>Attempt numbers\<close>

lemma next_attempt_number_max:
  assumes "a \<in> set as"
  shows "ja_attempt_number a < next_attempt_number as"
proof -
  let ?s = "sort_key (\<lambda>a. - ja_attempt_number a) as"
  obtain b bs where b: "?s = b # bs" using assms by (cases ?s) (metis empty_iff empty_set set_sort, blast)
  have "sorted (map (\<lambda>a. - ja_attempt_number a) ?s)" by (rule sorted_sort_key)
  moreover have "a \<in> set ?s" using assms by simp
  ultimately have "ja_attempt_number a \<le> ja_attempt_number b" unfolding b by auto
  then show ?thesis by (simp add: next_attempt_number_def b)
qed

lemma next_attempt_number_in: "as \<noteq> [] \<Longrightarrow> \<exists>a \<in> set as. next_attempt_number as = ja_attempt_number a + 1"
proof -
  assume "as \<noteq> []"
  then obtain b bs where b: "sort_key (\<lambda>a. - ja_attempt_number a) as = b # bs"
    by (cases "sort_key (\<lambda>a. - ja_attempt_number a) as") (metis set_empty set_sort, blast)
  then have "b \<in> set as" by (metis list.set_intros(1) set_sort)
  then show ?thesis using b by (auto simp: next_attempt_number_def)
qed

text \<open>The attempts of a job are numbered 1, 2, 3 and so on, in the order they were started.\<close>

definition attempts_numbered :: "'a core_db_scheme \<Rightarrow> bool" where
  "attempts_numbered d \<longleftrightarrow>
     (\<forall>a j. map ja_attempt_number (attempts_of a j d) = map int [1..<Suc (length (attempts_of a j d))])"

lemma numbered_next:
  assumes "map ja_attempt_number as = map int [1..<Suc (length as)]"
  shows "next_attempt_number as = int (Suc (length as))"
proof (cases "as = []")
  case False
  obtain a where a: "a \<in> set as" "next_attempt_number as = ja_attempt_number a + 1"
    using next_attempt_number_in [OF False] by blast
  have nums: "ja_attempt_number ` set as = int ` {1..length as}"
    using arg_cong [OF assms, of set]
    by (simp only: set_map set_upt atLeastLessThanSuc_atLeastAtMost)
  have "ja_attempt_number a \<le> int (length as)" using a(1) nums by force
  moreover have "\<exists>b \<in> set as. ja_attempt_number b = int (length as)"
    using nums False by (metis (no_types, lifting) One_nat_def atLeastAtMost_iff image_iff
        imageI length_greater_0_conv less_eq_Suc_le order_refl)
  ultimately show ?thesis using a(2) next_attempt_number_max by fastforce
qed (simp add: next_attempt_number_def)

lemma update_job_attempts:
  "update_job i f d = Inr d' \<Longrightarrow> t_attempt d' = t_attempt d"
  by (auto simp: update_job_def)

lemma update_job_jobs:
  "update_job i f d = Inr d' \<Longrightarrow> t_job d' = update_rows (\<lambda>j. dj_id j = i) f (t_job d)"
  by (auto simp: update_job_def)

lemma insert_attempt_frame:
  "insert_attempt a d = Inr d' \<Longrightarrow> t_attempt d' = t_attempt d @ [a] \<and> t_job d' = t_job d"
  by (auto simp: insert_attempt_def bindr_Inr_iff)

lemma ack_count:
  assumes "distinct (map oe_id es)"
  shows "length (filter (ack_matches a i tk) es) = 1 \<longleftrightarrow> (\<exists>e \<in> set es. ack_matches a i tk e)"
proof
  assume "\<exists>e \<in> set es. ack_matches a i tk e"
  then obtain e where e: "e \<in> set es" "ack_matches a i tk e" by blast
  have "filter (ack_matches a i tk) es = filter (ack_matches a i tk) (filter (\<lambda>x. oe_id x = i) es)"
    by (auto simp: ack_matches_def intro: filter_cong)
  also have "filter (\<lambda>x. oe_id x = i) es = [e]"
    by (rule filter_unique) (use assms e in \<open>simp_all add: ack_matches_def\<close>)
  finally show "length (filter (ack_matches a i tk) es) = 1" using e by simp
next
  assume "length (filter (ack_matches a i tk) es) = 1"
  then show "\<exists>e \<in> set es. ack_matches a i tk e"
    by (metis One_nat_def filter_empty_conv list.size(3) nat.simps(3))
qed

lemma ack_rows:
  assumes "e' \<in> set (t_outbox (snd (memdot_ack_outbox_event E a i tk d)))"
  shows "\<exists>e0 \<in> set (t_outbox d). oe_id e' = oe_id e0 \<and> (\<not> ack_matches a i tk e0 \<or> oe_published_at e' \<noteq> None)"
proof -
  obtain e0 where "e0 \<in> set (t_outbox d)" and "e' = (if ack_matches a i tk e0 then e0\<lparr> oe_published_at := Some (now E),
      oe_claim_token := None, oe_claim_expires_at := None, oe_claimed_by := None \<rparr> else e0)"
    using assms by (auto simp: memdot_ack_outbox_event_def set_update_rows simp del: if_split)
  then show ?thesis by (intro bexI [of _ e0]) auto
qed

lemma length_filter_conj: "length (filter (\<lambda>x. P x \<and> Q x) xs) \<le> length (filter P xs)"
  by (induction xs) auto

section \<open>Concrete runs\<close>

definition demo_event :: OutboxEvent where
  "demo_event = outbox_event demo_env 50 1 ''source.upload_completed'' [] None"

definition demo_outbox :: core_db where
  "demo_outbox = demo_core\<lparr> t_outbox := [demo_event] \<rparr>"

lemma demo_enqueue:
  "\<exists>d'. enqueue_job_with_outbox demo_env demo_ctx (\<lambda>_ _. []) ''ingest'' 5 [(''source_id'', JStr ''s'')]
     ''source.upload_completed'' (Some ''k1'') (demo_core, []) =
     Inr (\<lparr> ej_job_id = 1000, ej_outbox_event_id = 1001 \<rparr>, d', [])"
proof -
  obtain g where "tenant_scope demo_env demo_tenant (enqueue_rows demo_env demo_ctx (\<lambda>_ _. []) ''ingest'' 5
        [(''source_id'', JStr ''s'')] ''source.upload_completed'' (Some ''k1'')) (demo_core, []) =
      bindr (enqueue_rows demo_env demo_ctx (\<lambda>_ _. []) ''ingest'' 5
        [(''source_id'', JStr ''s'')] ''source.upload_completed'' (Some ''k1'') (demo_core\<lparr> settings := g \<rparr>, []))
        (\<lambda>(r, s3). bindr (flush s3) (\<lambda>s4. Inr (r, s4)))"
    by (rule demo_scope [OF refl refl])
  moreover have "find_enqueued demo_env 1 ''ingest'' 5 [(''source_id'', JStr ''s'')] ''source.upload_completed''
      (Some ''k1'') demo_core = Inr None"
    by (simp add: find_enqueued_def jobs_with_key_def demo_core_def)
  ultimately show ?thesis
    by (simp add: enqueue_job_with_outbox_def)
      (simp add: enqueue_rows_def Let_def demo_core_def insert_defs
        unique_key_def foreign_key_def check_in_def JOB_STATUSES_def job_row_def outbox_event_def)
qed

section \<open>Properties\<close>

text \<open>
  (C18) Leases are exclusive and delivery is acknowledged at most once: along every run of the outbox, with any
  number of workers claiming, any acknowledgements and any passage of time, two leases of the same
  event never overlap (the later begins after the earlier has expired), no event is acknowledged
  with success twice, and an acknowledged event is published.
\<close>

theorem outbox_leases_exclusive:
  assumes "distinct (map oe_id (t_outbox d))" and "reachable E (start_world t d) w"
  shows "exclusive (w_leases w) \<and> distinct (w_acked w) \<and>
    (\<forall>i \<in> set (w_acked w). published (t_outbox (w_db w)) i)"
  using outbox_inv_reachable [OF assms(2)] outbox_inv_start [OF assms(1)] by (simp add: outbox_inv_def)

theorem outbox_leases_exclusive_witness:
  "\<exists>w. reachable demo_env (start_world 0 demo_outbox) w \<and> w_leases w = [(50, 0, 30000000)] \<and>
     exclusive (w_leases w) \<and> distinct (w_acked w)"
proof -
  have ids: "distinct (map oe_id (t_outbox demo_outbox))" by (simp add: demo_outbox_def)
  obtain rows d where c: "memdot_claim_outbox_events (demo_env\<lparr> now := w_time (start_world 0 demo_outbox) \<rparr>)
      9 [] ''w1'' 10 30 (w_db (start_world 0 demo_outbox)) = Inr (rows, d)" and rows: "map oe_id rows = [50]"
    by (simp add: memdot_claim_outbox_events_def start_world_def demo_outbox_def claim_candidates_def
        claimable_def demo_event_def outbox_event_def Let_def update_rows_def)
  let ?w = "(start_world 0 demo_outbox)\<lparr> w_db := d, w_leases := w_leases (start_world 0 demo_outbox) @
    map (\<lambda>e. (oe_id e, w_time (start_world 0 demo_outbox), w_time (start_world 0 demo_outbox) + 30 * 1000000)) rows \<rparr>"
  have "outbox_step demo_env (start_world 0 demo_outbox) ?w"
    by (rule outbox_step.claim [OF _ c]) simp
  then have r: "reachable demo_env (start_world 0 demo_outbox) ?w"
    unfolding reachable_def by (rule r_into_rtranclp)
  moreover have "w_leases ?w = [(50, 0, 30000000)]"
    using rows by (auto simp: start_world_def)
  ultimately show ?thesis using outbox_leases_exclusive [OF ids r] by blast
qed

text \<open>
  (C19) No event is lost: an event that is neither published nor under a running lease (its worker may have
  died) is returned by the next claim whose batch has room for all claimable events, with the
  claim's token and a lease from now on.
\<close>

theorem claim_recovers:
  assumes "e \<in> set (t_outbox d)" and "claimable (now E) e" and "oe_id e \<notin> set locked"
    and "int (length (filter (claimable (now E)) (t_outbox d))) \<le> b"
  shows "\<exists>rows d'. memdot_claim_outbox_events E token locked w b l d = Inr (rows, d') \<and>
    leased token w (now E + l * 1000000) e \<in> set rows"
proof -
  let ?es = "filter (\<lambda>e. claimable (now E) e \<and> oe_id e \<notin> set locked) (t_outbox d)"
  have "length ?es \<le> length (filter (claimable (now E)) (t_outbox d))"
    by (rule length_filter_conj)
  then have "length ?es \<le> nat b" using assms(4) by linarith
  then have "set (claim_candidates (now E) locked (nat b) (t_outbox d)) = set ?es"
    by (simp add: claim_candidates_def)
  then have inn: "oe_id e \<in> set (claimed_ids E locked b d)"
    using assms(1-3) by (simp add: claimed_ids_def)
  have "0 \<le> b" using assms(4) by linarith
  then obtain rows d' where c: "memdot_claim_outbox_events E token locked w b l d = Inr (rows, d')"
    by (simp add: memdot_claim_outbox_events_def Let_def)
  have "leased token w (now E + l * 1000000) e \<in> set rows"
    unfolding claim_Inr(2) [OF c] claim_Inr(3) [OF c] using inn assms(1) by (force simp: set_update_rows)
  then show ?thesis using c by blast
qed

theorem claim_recovers_witness:
  "\<exists>rows d'. memdot_claim_outbox_events demo_env 9 [] ''w1'' 10 30 demo_outbox = Inr (rows, d') \<and>
     leased 9 ''w1'' (1000000 + 30 * 1000000) demo_event \<in> set rows"
  using claim_recovers [of demo_event demo_outbox demo_env "[]" 10 9 "''w1''" 30]
  by (simp add: demo_outbox_def claimable_def demo_event_def outbox_event_def)

text \<open>
  Acknowledgement is fenced by the claim token: it succeeds exactly when the event of that account is
  unpublished and still carries that token; so a worker whose lease was taken over, or that
  acknowledges twice, is told \<open>false\<close> and changes nothing.
\<close>

theorem ack_fenced:
  assumes "distinct (map oe_id (t_outbox d))"
  shows "(fst (memdot_ack_outbox_event E account event token d) \<longleftrightarrow>
      (\<exists>e \<in> set (t_outbox d). ack_matches account event token e)) \<and>
    (\<not> fst (memdot_ack_outbox_event E account event token d) \<longrightarrow>
      snd (memdot_ack_outbox_event E account event token d) = d) \<and>
    (fst (memdot_ack_outbox_event E account event token d) \<longrightarrow>
      \<not> fst (memdot_ack_outbox_event E2 account2 event token2
        (snd (memdot_ack_outbox_event E account event token d))))"
proof -
  have one: "fst (memdot_ack_outbox_event E a event tk d0) \<longleftrightarrow> (\<exists>e \<in> set (t_outbox d0). ack_matches a event tk e)"
    if "distinct (map oe_id (t_outbox d0))" for E a tk and d0 :: "'a core_db_scheme"
    using ack_count [OF that] by (simp add: memdot_ack_outbox_event_def)
  have none: "\<not> ack_matches account2 event token2 e'"
    if ok: "fst (memdot_ack_outbox_event E account event token d)"
      and row: "e' \<in> set (t_outbox (snd (memdot_ack_outbox_event E account event token d)))" for e'
  proof -
    obtain e where e: "e \<in> set (t_outbox d)" "ack_matches account event token e"
      using ok one [OF assms] by blast
    obtain e0 where e0: "e0 \<in> set (t_outbox d)"
      "oe_id e' = oe_id e0" "\<not> ack_matches account event token e0 \<or> oe_published_at e' \<noteq> None"
      using ack_rows [OF row] by blast
    show ?thesis
    proof
      assume m: "ack_matches account2 event token2 e'"
      then have "oe_id e0 = oe_id e" using e(2) e0(2) by (simp add: ack_matches_def)
      then have "e0 = e" using assms e(1) e0(1) by (auto simp: distinct_map dest: inj_onD)
      then show False using e0(3) e(2) m by (simp add: ack_matches_def)
    qed
  qed
  have ids: "distinct (map oe_id (t_outbox (snd (memdot_ack_outbox_event E account event token d))))"
    using assms by (simp add: memdot_ack_outbox_event_def map_update_rows)
  have same: "snd (memdot_ack_outbox_event E account event token d) = d"
    if "\<not> (\<exists>e \<in> set (t_outbox d). ack_matches account event token e)"
    using that by (simp add: memdot_ack_outbox_event_def update_rows_none)
  show ?thesis using one [OF assms] one [OF ids] none same by blast
qed

theorem ack_fenced_witness:
  "\<not> fst (memdot_ack_outbox_event demo_env 1 50 8 (demo_outbox\<lparr> t_outbox := [leased 9 ''w1'' 5 demo_event] \<rparr>)) \<and>
   fst (memdot_ack_outbox_event demo_env 1 50 9 (demo_outbox\<lparr> t_outbox := [leased 9 ''w1'' 5 demo_event] \<rparr>))"
  using ack_fenced [of "demo_outbox\<lparr> t_outbox := [leased 9 ''w1'' 5 demo_event] \<rparr>" demo_env 1 50 8]
    ack_fenced [of "demo_outbox\<lparr> t_outbox := [leased 9 ''w1'' 5 demo_event] \<rparr>" demo_env 1 50 9]
  by (simp add: ack_matches_def demo_event_def outbox_event_def)

text \<open>
  Enqueueing is idempotent: repeating a request with the same idempotency key, type, space, event type
  and payload returns the same job and event and changes nothing, while reusing the key for another
  payload digest, type or space raises \<open>idempotency_conflict\<close>.
\<close>

theorem enqueue_idempotent:
  assumes "enqueue_job_with_outbox E ctx snap ty sp payload et (Some k) (d, []) = Inr (ej, d', ps')"
    and "k \<noteq> []" and "jobs_with_key (ctx_account_id ctx) k d = []" and "events_have_jobs d"
    and "''durable_job_id'' \<notin> fst ` set payload" and "ctx_account_id ctx2 = ctx_account_id ctx"
    and "sha256 E2 = sha256 E"
  shows "enqueue_job_with_outbox E2 ctx2 snap2 ty sp payload et (Some k) (d', []) = Inr (ej, d', []) \<and>
    (ty2 \<noteq> ty \<or> sp2 \<noteq> sp \<or> payload_sha256 E payload2 \<noteq> payload_sha256 E payload \<longrightarrow>
     enqueue_job_with_outbox E2 ctx2 snap2 ty2 sp2 payload2 et (Some k) (d', []) =
       Inl (ValueError ''idempotency_conflict''))"
proof -
  note first = enqueue_first [OF assms(1-4)]
  obtain j where j: "jobs_with_key (ctx_account_id ctx) k d' = [j]" "dj_id j = ej_job_id ej"
    "dj_job_type j = ty" "dj_space_id j = Some sp" "dj_payload j = bound_payload payload (ej_job_id ej)"
    using first(2) by blast
  obtain e where e: "events_of_job (ctx_account_id ctx) (ej_job_id ej) et d' = [e]"
    "oe_id e = ej_outbox_event_id ej"
    using first(3) by blast
  have "payload_sha256 E2 p = payload_sha256 E p" for p using assms(7) by (simp add: payload_sha256_def)
  then show ?thesis
    using j e assms(2,6) dict_without_bound [OF assms(5)]
    by (auto simp: enqueue_job_with_outbox_def find_enqueued_def)
qed

theorem enqueue_idempotent_witness:
  "\<exists>d'. enqueue_job_with_outbox demo_env demo_ctx (\<lambda>_ _. []) ''ingest'' 5 [(''source_id'', JStr ''s'')]
       ''source.upload_completed'' (Some ''k1'') (demo_core, []) =
       Inr (\<lparr> ej_job_id = 1000, ej_outbox_event_id = 1001 \<rparr>, d', []) \<and>
     enqueue_job_with_outbox demo_env demo_ctx (\<lambda>_ _. []) ''ingest'' 5 [(''source_id'', JStr ''s'')]
       ''source.upload_completed'' (Some ''k1'') (d', []) =
       Inr (\<lparr> ej_job_id = 1000, ej_outbox_event_id = 1001 \<rparr>, d', [])"
proof -
  obtain d' where d': "enqueue_job_with_outbox demo_env demo_ctx (\<lambda>_ _. []) ''ingest'' 5 [(''source_id'', JStr ''s'')]
       ''source.upload_completed'' (Some ''k1'') (demo_core, []) =
       Inr (\<lparr> ej_job_id = 1000, ej_outbox_event_id = 1001 \<rparr>, d', [])"
    using demo_enqueue by blast
  show ?thesis
    using enqueue_idempotent [OF d', of demo_ctx demo_env] d'
    by (auto simp: jobs_with_key_def events_have_jobs_def demo_core_def)
qed

text \<open>
  Attempts are numbered without gaps: starting an attempt of a job keeps every job's attempts numbered
  1, 2, 3 in the order they were started, and marks the job running.
\<close>

theorem start_attempt_numbers:
  assumes "start_job_attempt E a j (d, []) = Inr (i, d', ps')" and "attempts_numbered d"
  shows "attempts_numbered d' \<and> length (attempts_of a j d') = Suc (length (attempts_of a j d)) \<and>
    (\<forall>r \<in> set (t_job d'). dj_id r = j \<longrightarrow> dj_status r = ''running'')"
proof -
  obtain n d1 where d1: "insert_attempt n d = Inr d1" and d2: "update_job j (\<lambda>r. r\<lparr> dj_status := ''running'', dj_updated_at := now E \<rparr>) d1 = Inr d'"
    and n: "ja_account_id n = a" "ja_job_id n = j" "ja_attempt_number n = next_attempt_number (attempts_of a j d)"
    using assms(1) by (auto simp: start_job_attempt_def bindr_Inr_iff Let_def)
  have att: "t_attempt d' = t_attempt d @ [n]"
    using insert_attempt_frame [OF d1] update_job_attempts [OF d2] by simp
  have of: "attempts_of a' j' d' = attempts_of a' j' d @ (if a' = a \<and> j' = j then [n] else [])" for a' j'
    using n by (auto simp: attempts_of_def att)
  have "map ja_attempt_number (attempts_of a j d) = map int [1..<Suc (length (attempts_of a j d))]"
    using assms(2) by (simp add: attempts_numbered_def)
  then have "ja_attempt_number n = int (Suc (length (attempts_of a j d)))"
    using numbered_next n(3) by simp
  then have "map ja_attempt_number (attempts_of a' j' d') = map int [1..<Suc (length (attempts_of a' j' d'))]" for a' j'
    using assms(2) of [of a' j'] by (simp add: attempts_numbered_def)
  moreover have "\<forall>r \<in> set (t_job d'). dj_id r = j \<longrightarrow> dj_status r = ''running''"
    unfolding update_job_jobs [OF d2] by (simp add: update_rows_def ball_Un)
  ultimately show ?thesis using of [of a j] by (simp add: attempts_numbered_def)
qed

theorem start_attempt_numbers_witness:
  "\<exists>(d :: core_db) i d'. start_job_attempt demo_env 1 1000 (d, []) = Inr (i, d', []) \<and> attempts_numbered d' \<and>
     length (attempts_of 1 1000 d') = 1"
proof -
  let ?j = "job_row demo_env demo_ctx None 1000 ''ingest'' 5 [] None"
  let ?d = "demo_core\<lparr> t_job := [?j] \<rparr>"
  have num: "attempts_numbered ?d" by (simp add: attempts_numbered_def attempts_of_def demo_core_def)
  obtain i d' where run: "start_job_attempt demo_env 1 1000 (?d, []) = Inr (i, d', [])"
    by (simp add: start_job_attempt_def find_job_def job_row_def demo_core_def attempts_of_def
        next_attempt_number_def insert_attempt_def unique_key_def foreign_key_def update_job_def)
  have "length (attempts_of 1 1000 ?d) = 0" by (simp add: attempts_of_def demo_core_def)
  then have "attempts_numbered d'" "length (attempts_of 1 1000 d') = 1"
    using start_attempt_numbers [OF run num] by simp_all
  with run show ?thesis by blast
qed

end
