(* ===== verification/Idempotency.thy ===== *)
theory Idempotency
  imports Tenant
begin

text \<open>
  Idempotency keys, \<open>services/core/src/memdot_core/idempotency.py\<close>: the fingerprint of a request, the
  validation of the header, and the record that lets a retry replay the stored response. The abstract
  specification is a partial map from keys to outcomes; the record operations refine it.
\<close>

section \<open>Requests\<close>

definition upper_char :: "char \<Rightarrow> char" where
  "upper_char c = (let n = (of_char c :: nat) in if 97 \<le> n \<and> n \<le> 122 then char_of (n - 32) else c)"

text \<open>The body is the text its bytes decode to.\<close>

definition fingerprint_request :: "env \<Rightarrow> string \<Rightarrow> string \<Rightarrow> string \<Rightarrow> string" where
  "fingerprint_request E meth path body = sha256 E (map upper_char meth @ CHR '':'' # path @ CHR '':'' # body)"

text \<open>The argument is the header, \<open>None\<close> when absent.\<close>

definition idempotency_key_from_request :: "string option \<Rightarrow> string option" where
  "idempotency_key_from_request header =
     (let raw = py_strip (case header of None \<Rightarrow> [] | Some h \<Rightarrow> h) in
      if raw = [] then None else if 256 < length raw then None else Some raw)"

section \<open>Records\<close>

record IdempotencyDecision =
  id_replay :: bool
  id_conflict :: bool
  id_record_id :: uuid
  id_response_status :: "int option"
  id_response_body :: "dict option"

definition record_with_key :: "uuid \<Rightarrow> string \<Rightarrow> 'a core_db_scheme \<Rightarrow> IdempotencyRecord list" where
  "record_with_key account_id k d =
     filter (\<lambda>r. (ir_account_id r, ir_idempotency_key r) = (account_id, k)) (t_idempotency d)"

definition stored_body :: "json option \<Rightarrow> dict option" where
  "stored_body b = (case b of Some (JObj kvs) \<Rightarrow> Some kvs | _ \<Rightarrow> None)"

definition begin_idempotency ::
    "env \<Rightarrow> uuid \<Rightarrow> string \<Rightarrow> string \<Rightarrow> string \<Rightarrow> ('a core_db_scheme, IdempotencyDecision) op" where
  "begin_idempotency E account_id route idempotency_key fingerprint s =
     bindr (scalar_one_or_none (record_with_key account_id idempotency_key (tables s))) (\<lambda>existing.
     case existing of
       Some r \<Rightarrow>
         if ir_fingerprint_sha256 r \<noteq> fingerprint then
           Inr (\<lparr> id_replay = False, id_conflict = True, id_record_id = ir_id r, id_response_status = Some 409,
                  id_response_body = None \<rparr>, s)
         else
           Inr (\<lparr> id_replay = True, id_conflict = False, id_record_id = ir_id r,
                  id_response_status = Some (ir_response_status r),
                  id_response_body = stored_body (ir_response_body r) \<rparr>, s)
     | None \<Rightarrow>
         bindr (flush (add (insert_idempotency
           \<lparr> ir_id = fresh E 0, ir_account_id = account_id, ir_idempotency_key = idempotency_key,
             ir_fingerprint_sha256 = fingerprint, ir_response_status = 0, ir_route = Some route,
             ir_response_body = None, ir_response_headers = None, ir_created_at = now E \<rparr>) s)) (\<lambda>s1.
         Inr (\<lparr> id_replay = False, id_conflict = False, id_record_id = fresh E 0, id_response_status = None,
                id_response_body = None \<rparr>, s1)))"

definition store_response :: "int \<Rightarrow> dict \<Rightarrow> IdempotencyRecord \<Rightarrow> IdempotencyRecord" where
  "store_response response_status response_body r =
     r\<lparr> ir_response_status := response_status, ir_response_body := Some (JObj response_body) \<rparr>"

definition complete_idempotency ::
    "uuid \<Rightarrow> uuid \<Rightarrow> int \<Rightarrow> dict \<Rightarrow> ('a core_db_scheme, unit) op" where
  "complete_idempotency record_id account_id response_status response_body s =
     bindr (scalar_one_or_none (filter (\<lambda>r. ir_id r = record_id \<and> ir_account_id r = account_id)
         (t_idempotency (tables s)))) (\<lambda>row.
     case row of
       None \<Rightarrow> Inr ((), s)
     | Some r \<Rightarrow>
         bindr (flush (add (\<lambda>d. Inr (d\<lparr> t_idempotency :=
             update_rows (\<lambda>q. ir_id q = ir_id r) (store_response response_status response_body) (t_idempotency d) \<rparr>)) s))
           (\<lambda>s1. Inr ((), s1)))"

section \<open>The specification\<close>

text \<open>
  What an account's keys promise: a key is bound to the fingerprint of its first request, and its
  outcome is the response stored for it (status 0 and no body while that request is still running).
\<close>

type_synonym outcome = "string \<times> uuid \<times> int \<times> dict option"

definition spec_begin ::
    "uuid \<Rightarrow> string \<Rightarrow> string \<Rightarrow> (string \<rightharpoonup> outcome) \<Rightarrow> IdempotencyDecision \<times> (string \<rightharpoonup> outcome)" where
  "spec_begin new_id k fingerprint m =
     (case m k of
        None \<Rightarrow> (\<lparr> id_replay = False, id_conflict = False, id_record_id = new_id, id_response_status = None,
                   id_response_body = None \<rparr>, m(k \<mapsto> (fingerprint, new_id, 0, None)))
      | Some (fp, i, st, b) \<Rightarrow>
          (if fp \<noteq> fingerprint
           then \<lparr> id_replay = False, id_conflict = True, id_record_id = i, id_response_status = Some 409,
                  id_response_body = None \<rparr>
           else \<lparr> id_replay = True, id_conflict = False, id_record_id = i, id_response_status = Some st,
                  id_response_body = b \<rparr>, m))"

definition spec_complete :: "uuid \<Rightarrow> int \<Rightarrow> dict \<Rightarrow> (string \<rightharpoonup> outcome) \<Rightarrow> (string \<rightharpoonup> outcome)" where
  "spec_complete i st b m =
     (\<lambda>k. case m k of None \<Rightarrow> None
          | Some (fp, j, s0, b0) \<Rightarrow> if j = i then Some (fp, j, st, Some b) else Some (fp, j, s0, b0))"

definition outcome_of :: "IdempotencyRecord \<Rightarrow> outcome" where
  "outcome_of r = (ir_fingerprint_sha256 r, ir_id r, ir_response_status r, stored_body (ir_response_body r))"

definition outcomes :: "uuid \<Rightarrow> 'a core_db_scheme \<Rightarrow> (string \<rightharpoonup> outcome)" where
  "outcomes account_id d k = map_option outcome_of (List.find (\<lambda>_. True) (record_with_key account_id k d))"

text \<open>Both keys of the table identify at most one record.\<close>

definition idempotency_keys_ok :: "'a core_db_scheme \<Rightarrow> bool" where
  "idempotency_keys_ok d \<longleftrightarrow> distinct (map (\<lambda>r. (ir_account_id r, ir_idempotency_key r)) (t_idempotency d)) \<and>
     distinct (map ir_id (t_idempotency d))"

section \<open>Refinement\<close>

lemma find_True [simp]: "List.find (\<lambda>_. True) xs = (case xs of [] \<Rightarrow> None | x # _ \<Rightarrow> Some x)"
  by (cases xs) simp_all

lemma outcomes_simps:
  "record_with_key a k d = [] \<Longrightarrow> outcomes a d k = None"
  "record_with_key a k d = [r] \<Longrightarrow> outcomes a d k = Some (outcome_of r)"
  by (simp_all add: outcomes_def)

lemma outcomes_cong: "t_idempotency d' = t_idempotency d \<Longrightarrow> outcomes a d' = outcomes a d"
  by (rule ext) (simp add: outcomes_def record_with_key_def)

lemma outcomes_insert:
  assumes "insert_idempotency r d = Inr d'"
  shows "outcomes (ir_account_id r) d' = (outcomes (ir_account_id r) d)(ir_idempotency_key r \<mapsto> outcome_of r)"
proof (rule ext)
  fix k
  have rows: "t_idempotency d' = t_idempotency d @ [r]"
    by (rule idempotency_table.ins_appends [OF assms])
  have "record_with_key (ir_account_id r) (ir_idempotency_key r) d = []"
    using idempotency_table.ins_fresh [OF assms] unfolding record_with_key_def filter_empty_conv
    by (metis (no_types, lifting) imageI)
  then show "outcomes (ir_account_id r) d' k =
      ((outcomes (ir_account_id r) d)(ir_idempotency_key r \<mapsto> outcome_of r)) k"
    using rows by (auto simp: outcomes_def record_with_key_def)
qed

lemma begin_refines:
  assumes "begin_idempotency E a route k fp (d, []) = Inr (dec, d', ps')"
  shows "(dec, outcomes a d') = spec_begin (fresh E 0) k fp (outcomes a d) \<and> ps' = []"
proof -
  obtain x where x: "scalar_one_or_none (record_with_key a k d) = Inr x"
    using assms by (auto simp: begin_idempotency_def bindr_Inr_iff)
  show ?thesis
  proof (cases x)
    case None
    then have "outcomes a d k = None" using x by (simp add: scalar_iffs outcomes_simps)
    moreover have "outcome_of \<lparr> ir_id = i, ir_account_id = a, ir_idempotency_key = k, ir_fingerprint_sha256 = fp,
        ir_response_status = 0, ir_route = rt, ir_response_body = None, ir_response_headers = h, ir_created_at = t \<rparr> =
        (fp, i, 0, None)" for i rt h t
      by (simp add: outcome_of_def stored_body_def)
    ultimately show ?thesis
      using assms x None by (auto simp: begin_idempotency_def bindr_Inr_iff spec_begin_def dest!: outcomes_insert)
  next
    case (Some r)
    then have "outcomes a d k = Some (outcome_of r)" using x by (simp add: scalar_iffs outcomes_simps)
    then show ?thesis
      using assms x Some by (auto simp: begin_idempotency_def spec_begin_def outcome_of_def split: if_splits)
  qed
qed

lemma begin_keys_ok:
  assumes "begin_idempotency E a route k fp (d, []) = Inr (dec, d', ps')" and "idempotency_keys_ok d"
  shows "idempotency_keys_ok d'"
proof -
  have "insert_idempotency r d = Inr e \<Longrightarrow> idempotency_keys_ok e" for r e
    using assms(2) by (auto simp: insert_idempotency_def bindr_Inr_iff idempotency_keys_ok_def)
  then show ?thesis
    using assms by (auto simp: begin_idempotency_def Inr_iffs)
qed

lemma record_update_rows:
  "record_with_key a k (d\<lparr> t_idempotency := update_rows sel (store_response st b) (t_idempotency d) \<rparr>) =
     update_rows sel (store_response st b) (record_with_key a k d)"
  unfolding record_with_key_def by (simp add: filter_update_rows store_response_def)

lemma complete_refines:
  assumes "complete_idempotency i a st b (d, []) = Inr (u, d', ps')" and "idempotency_keys_ok d"
  shows "outcomes a d' = spec_complete i st b (outcomes a d)" "idempotency_keys_ok d'" "ps' = []"
proof -
  obtain x where x: "scalar_one_or_none (filter (\<lambda>r. ir_id r = i \<and> ir_account_id r = a) (t_idempotency d)) = Inr x"
    using assms by (auto simp: complete_idempotency_def bindr_Inr_iff)
  have "outcomes a d' = spec_complete i st b (outcomes a d) \<and> idempotency_keys_ok d' \<and> ps' = []"
  proof (cases x)
    case None
    then have no: "r \<in> set (t_idempotency d) \<Longrightarrow> ir_account_id r = a \<Longrightarrow> ir_id r \<noteq> i" for r
      using x by (auto simp: scalar_iffs filter_empty_conv)
    have "outcomes a d k = spec_complete i st b (outcomes a d) k" for k
    proof (cases "record_with_key a k d")
      case (Cons r rs)
      then have "r \<in> set (record_with_key a k d)" by simp
      then have "ir_id r \<noteq> i" using no by (auto simp: record_with_key_def)
      then show ?thesis using Cons by (simp add: outcomes_def spec_complete_def outcome_of_def)
    qed (simp add: outcomes_def spec_complete_def)
    then show ?thesis using assms x None by (auto simp: complete_idempotency_def)
  next
    case (Some r)
    have r: "ir_id r = i" using x Some filter_singletonD by (fastforce simp: scalar_iffs)
    have d': "d' = d\<lparr> t_idempotency := update_rows (\<lambda>q. ir_id q = i) (store_response st b) (t_idempotency d) \<rparr>"
      "ps' = []"
      using assms(1) x Some r by (auto simp: complete_idempotency_def)
    have "outcomes a d' k = spec_complete i st b (outcomes a d) k" for k
      unfolding d' outcomes_def record_update_rows
      by (cases "record_with_key a k d")
        (simp_all add: update_rows_def spec_complete_def outcome_of_def store_response_def stored_body_def outcomes_def)
    moreover have "idempotency_keys_ok d'"
      using assms(2) unfolding d' idempotency_keys_ok_def by (simp add: map_update_rows store_response_def)
    ultimately show ?thesis using d'(2) by auto
  qed
  then show "outcomes a d' = spec_complete i st b (outcomes a d)" "idempotency_keys_ok d'" "ps' = []" by simp_all
qed

section \<open>Sequences of calls\<close>

datatype idem_call =
    Begin env string string string
  | Complete uuid int dict

fun run_calls ::
    "uuid \<Rightarrow> idem_call list \<Rightarrow> 'a core_db_scheme session \<Rightarrow> (IdempotencyDecision list \<times> 'a core_db_scheme session) res" where
  "run_calls a [] s = Inr ([], s)"
| "run_calls a (Begin E route k fp # cs) s =
     bindr (begin_idempotency E a route k fp s) (\<lambda>(dec, s1).
     bindr (run_calls a cs s1) (\<lambda>(decs, s2). Inr (dec # decs, s2)))"
| "run_calls a (Complete i st b # cs) s =
     bindr (complete_idempotency i a st b s) (\<lambda>(_, s1). run_calls a cs s1)"

fun spec_calls :: "idem_call list \<Rightarrow> (string \<rightharpoonup> outcome) \<Rightarrow> IdempotencyDecision list \<times> (string \<rightharpoonup> outcome)" where
  "spec_calls [] m = ([], m)"
| "spec_calls (Begin E route k fp # cs) m =
     (let (dec, m1) = spec_begin (fresh E 0) k fp m; (decs, m2) = spec_calls cs m1 in (dec # decs, m2))"
| "spec_calls (Complete i st b # cs) m = spec_calls cs (spec_complete i st b m)"

section \<open>Properties\<close>

text \<open>
  (C29) The idempotency records of an account implement the specification: over every sequence of begun and
  completed requests the decisions are those of the abstract key map. A key is bound to its first
  fingerprint, another fingerprint conflicts, and a retry replays the stored response.
\<close>

theorem idempotency_refines_spec:
  assumes "run_calls a cs (d, []) = Inr (decs, d', ps')" and "idempotency_keys_ok d"
  shows "spec_calls cs (outcomes a d) = (decs, outcomes a d')"
  using assms
proof (induction cs arbitrary: d decs)
  case (Cons c cs)
  show ?case
  proof (cases c)
    case (Begin E route k fp)
    obtain dec d1 ps1 decs1 where b: "begin_idempotency E a route k fp (d, []) = Inr (dec, d1, ps1)"
      and r: "run_calls a cs (d1, ps1) = Inr (decs1, d', ps')" "decs = dec # decs1"
      using Cons.prems(1) Begin by (auto simp: bindr_Inr_iff)
    have ref: "spec_begin (fresh E 0) k fp (outcomes a d) = (dec, outcomes a d1)" "ps1 = []"
      using begin_refines [OF b] by simp_all
    from Cons.IH [of d1 decs1] r ref(2) begin_keys_ok [OF b Cons.prems(2)]
    show ?thesis using Begin ref(1) r(2) by simp
  next
    case (Complete i st bd)
    obtain u d1 ps1 where b: "complete_idempotency i a st bd (d, []) = Inr (u, d1, ps1)"
      and r: "run_calls a cs (d1, ps1) = Inr (decs, d', ps')"
      using Cons.prems(1) Complete by (auto simp: bindr_Inr_iff)
    from Cons.IH [of d1 decs] r complete_refines [OF b Cons.prems(2)] show ?thesis using Complete by simp
  qed
qed simp

definition demo_calls :: "idem_call list" where
  "demo_calls = [Begin demo_env ''/v1'' ''key'' ''f1'', Begin demo_env ''/v1'' ''key'' ''f2'',
     Complete 1000 201 [(''id'', JStr ''x'')], Begin demo_env ''/v1'' ''key'' ''f1'']"

theorem idempotency_refines_spec_witness:
  "\<exists>decs (d' :: core_db) ps'. run_calls 1 demo_calls (demo_core, []) = Inr (decs, d', ps') \<and>
     map id_conflict decs = [False, True, False] \<and>
     map id_response_body decs = [None, None, Some [(''id'', JStr ''x'')]] \<and>
     spec_calls demo_calls (outcomes 1 demo_core) = (decs, outcomes 1 d')"
proof -
  have "\<exists>decs (d' :: core_db) ps'. run_calls 1 demo_calls (demo_core, []) = Inr (decs, d', ps') \<and>
     map id_conflict decs = [False, True, False] \<and>
     map id_response_body decs = [None, None, Some [(''id'', JStr ''x'')]]"
    by (simp add: demo_calls_def begin_idempotency_def complete_idempotency_def record_with_key_def demo_core_def
        insert_idempotency_def unique_key_def update_rows_def store_response_def stored_body_def)
  then obtain decs and d' :: core_db and ps' where run: "run_calls 1 demo_calls (demo_core, []) = Inr (decs, d', ps')"
    "map id_conflict decs = [False, True, False]"
    "map id_response_body decs = [None, None, Some [(''id'', JStr ''x'')]]"
    by (elim exE conjE)
  have "idempotency_keys_ok demo_core" by (simp add: idempotency_keys_ok_def demo_core_def)
  note idempotency_refines_spec [OF run(1) this]
  with run show ?thesis by (intro exI [of _ decs] exI [of _ d'] exI [of _ ps'] conjI)
qed

end
