(* ===== verification/Auth_Snapshot.thy ===== *)
theory Auth_Snapshot
  imports Deletion
begin

text \<open>
  Authorization snapshots of durable jobs, \<open>services/core/src/memdot_core/jobs/auth_snapshot.py\<close>: a signed,
  expiring copy of the caller's authority that a worker revalidates before it acts. The HMAC is the
  environment's function; the optional key and clock arguments of the source are the environment's.
\<close>

section \<open>Signing\<close>

definition SNAPSHOT_VERSION :: int where "SNAPSHOT_VERSION = 1"
definition DEFAULT_TTL_SECONDS :: int where "DEFAULT_TTL_SECONDS = 3600"

definition snapshot_signing_key :: "env \<Rightarrow> string res" where
  "snapshot_signing_key E =
     (let value = py_strip (snapshot_key E) in
      if length value < 32
      then Inl (RuntimeError ''CORE_JOB_AUTH_SNAPSHOT_KEY must contain at least 32 bytes (no session-key fallback)'')
      else Inr value)"

definition canonical_payload :: "dict \<Rightarrow> string" where
  "canonical_payload payload = json_dumps (JObj payload)"

definition sign_snapshot :: "env \<Rightarrow> dict \<Rightarrow> string res" where
  "sign_snapshot E payload =
     bindr (snapshot_signing_key E) (\<lambda>key. Inr (hmac_sha256 E key (canonical_payload payload)))"

definition snapshot_body :: "env \<Rightarrow> RequestContext \<Rightarrow> uuid option \<Rightarrow> (string \<times> string) list \<Rightarrow> int \<Rightarrow> dict" where
  "snapshot_body E ctx space_id resource_ids ttl_seconds =
     [(''v'', JInt SNAPSHOT_VERSION),
      (''account_id'', JStr (str_uuid (ctx_account_id ctx))),
      (''actor_id'', JStr (str_uuid (ctx_actor_id ctx))),
      (''purpose'', JStr (purpose_value (ctx_purpose ctx))),
      (''scopes'', JList (map JStr (sort (remdups (ctx_scopes ctx))))),
      (''space_id'', (case space_id of None \<Rightarrow> JNull | Some i \<Rightarrow> JStr (str_uuid i))),
      (''resource_ids'', JObj (map (\<lambda>(k, v). (k, JStr v)) resource_ids)),
      (''request_id'', JStr (str_uuid (ctx_correlation_id ctx))),
      (''correlation_id'', JStr (str_uuid (ctx_correlation_id ctx))),
      (''accepted_at'', JInt (clock E)),
      (''exp'', JInt (clock E + ttl_seconds))]"

definition auth_snapshot_from_context ::
    "env \<Rightarrow> RequestContext \<Rightarrow> uuid option \<Rightarrow> (string \<times> string) list \<Rightarrow> int \<Rightarrow> dict res" where
  "auth_snapshot_from_context E ctx space_id resource_ids ttl_seconds =
     (let body = snapshot_body E ctx space_id resource_ids ttl_seconds in
      bindr (sign_snapshot E body) (\<lambda>signature. Inr (AList.update ''sig'' (JStr signature) body)))"

definition unsigned_fields :: "dict \<Rightarrow> dict" where
  "unsigned_fields snapshot = dict_without [''sig''] snapshot"

definition verify_snapshot_signature :: "env \<Rightarrow> dict \<Rightarrow> bool res" where
  "verify_snapshot_signature E snapshot =
     (case py_int (py_str (jget snapshot ''v'')) of
        None \<Rightarrow> Inr False
      | Some version \<Rightarrow>
          if version \<noteq> SNAPSHOT_VERSION then Inr False
          else case jget snapshot ''sig'' of
            JStr signature \<Rightarrow>
              if signature = [] then Inr False
              else bindr (sign_snapshot E (unsigned_fields snapshot)) (\<lambda>expected.
                if expected \<noteq> signature then Inr False
                else case map_of snapshot ''exp'' of
                  None \<Rightarrow> Inr False
                | Some e \<Rightarrow> (case py_int (py_str e) of
                    None \<Rightarrow> Inr False | Some t \<Rightarrow> Inr (clock E \<le> t)))
          | _ \<Rightarrow> Inr False)"

section \<open>Revalidation\<close>

definition parse_purpose :: "string \<Rightarrow> RequestPurpose option" where
  "parse_purpose s = List.find (\<lambda>p. purpose_value p = s) PURPOSES"

definition space_check :: "uuid \<Rightarrow> json \<Rightarrow> uuid option \<Rightarrow> 'a core_db_scheme \<Rightarrow> bool res" where
  "space_check account_id space_raw expected_space_id d =
     (if \<not> truthy space_raw then Inr True
      else case parse_uuid (py_str space_raw) of
        Inl _ \<Rightarrow> Inr False
      | Inr space_id \<Rightarrow>
          if expected_space_id \<noteq> None \<and> Some space_id \<noteq> expected_space_id then Inr False
          else bindr (scalar_one_or_none (filter (\<lambda>s. sp_account_id s = account_id \<and> sp_id s = space_id) (t_space d)))
            (\<lambda>space. Inr (space \<noteq> None)))"

definition source_check :: "uuid \<Rightarrow> json \<Rightarrow> 'a core_db_scheme \<Rightarrow> bool res" where
  "source_check account_id resource_raw d =
     (case (case resource_raw of JObj kvs \<Rightarrow> jget kvs ''source_id'' | _ \<Rightarrow> JNull) of
        JNull \<Rightarrow> Inr True
      | source_raw \<Rightarrow>
          (case parse_uuid (py_str source_raw) of
             Inl _ \<Rightarrow> Inr False
           | Inr source_id \<Rightarrow>
               bindr (is_tombstoned account_id ''source'' source_id d) (\<lambda>dead.
               if dead then Inr False
               else bindr (scalar_one_or_none (filter (\<lambda>s. src_account_id s = account_id \<and> src_id s = source_id)
                   (t_source d))) (\<lambda>source. Inr (source \<noteq> None)))))"

definition validate_auth_snapshot ::
    "env \<Rightarrow> uuid \<Rightarrow> dict option \<Rightarrow> uuid option \<Rightarrow> 'a core_db_scheme \<Rightarrow> bool res" where
  "validate_auth_snapshot E account_id snapshot expected_space_id d =
     (case snapshot of
        None \<Rightarrow> Inr False
      | Some snap \<Rightarrow>
          bindr (verify_snapshot_signature E snap) (\<lambda>valid.
          if \<not> valid then Inr False
          else if py_str (jget snap ''account_id'') \<noteq> str_uuid account_id then Inr False
          else case (map_of snap ''actor_id'', map_of snap ''purpose'') of
            (Some actor_raw, Some purpose_raw) \<Rightarrow>
              (case (parse_uuid (py_str actor_raw), parse_purpose (py_str purpose_raw)) of
                 (Inr actor_id, Some purpose) \<Rightarrow>
                   if purpose \<notin> set [FIRST_PARTY, WORKER] then Inr False
                   else
                     bindr (scalar_one_or_none (filter (\<lambda>a. acc_id a = account_id) (t_account d))) (\<lambda>account.
                     case account of
                       None \<Rightarrow> Inr False
                     | Some acc \<Rightarrow>
                         if acc_status acc \<noteq> ''active'' then Inr False
                         else bindr (scalar_one_or_none (filter (\<lambda>a. act_account_id a = account_id \<and>
                             act_id a = actor_id) (t_actor d))) (\<lambda>actor.
                         case actor of
                           None \<Rightarrow> Inr False
                         | Some act \<Rightarrow>
                             if act_revoked_at act \<noteq> None then Inr False
                             else bindr (space_check account_id (jget snap ''space_id'') expected_space_id d) (\<lambda>ok.
                             if \<not> ok then Inr False
                             else source_check account_id (jget snap ''resource_ids'') d)))
               | _ \<Rightarrow> Inr False)
          | _ \<Rightarrow> Inr False))"

section \<open>Lemmas\<close>

lemma unsigned_signed:
  "''sig'' \<notin> fst ` set body \<Longrightarrow> unsigned_fields (AList.update ''sig'' s body) = body"
  by (induction body) (auto simp: unsigned_fields_def dict_without_def)

lemma snapshot_body_keys: "''sig'' \<notin> fst ` set (snapshot_body E ctx space_id rids ttl)"
  by (simp add: snapshot_body_def)

lemma verify_snapshot_True:
  assumes "verify_snapshot_signature E snap = Inr True"
  obtains key t e where "snapshot_signing_key E = Inr key"
    "jget snap ''sig'' = JStr (hmac_sha256 E key (canonical_payload (unsigned_fields snap)))"
    "map_of snap ''exp'' = Some e" "py_int (py_str e) = Some t" "clock E \<le> t"
  using assms
  by (auto simp: verify_snapshot_signature_def sign_snapshot_def bindr_Inr_iff
      split: option.splits if_splits json.splits)

lemma py_str_JInt [simp]: "py_str (JInt n) = dec_int n"
  by (simp add: py_str_def)

lemma snapshot_Inr:
  assumes "auth_snapshot_from_context E ctx sp rids ttl = Inr snap"
  obtains key where "snapshot_signing_key E = Inr key"
    "snap = AList.update ''sig'' (JStr (hmac_sha256 E key (canonical_payload (snapshot_body E ctx sp rids ttl))))
       (snapshot_body E ctx sp rids ttl)"
  using assms by (auto simp: auth_snapshot_from_context_def sign_snapshot_def bindr_Inr_iff Let_def)

lemma map_of_snapshot:
  "map_of (AList.update ''sig'' s (snapshot_body E ctx sp rids ttl)) ''v'' = Some (JInt SNAPSHOT_VERSION)"
  "map_of (AList.update ''sig'' s (snapshot_body E ctx sp rids ttl)) ''exp'' = Some (JInt (clock E + ttl))"
  "map_of (AList.update ''sig'' s (snapshot_body E ctx sp rids ttl)) ''sig'' = Some s"
  by (simp_all add: update_conv snapshot_body_def)

lemma validate_True_source:
  assumes "validate_auth_snapshot E account_id (Some snap) expected d = Inr True"
  shows "source_check account_id (jget snap ''resource_ids'') d = Inr True"
  using assms
  by (auto simp: validate_auth_snapshot_def Inr_iffs)

section \<open>Properties\<close>

text \<open>
  A snapshot the service issues is accepted by the signature check exactly until it expires: under
  the same key, at every time up to acceptance plus the time to live and at no later one
  (\<open>hex\<close>: an HMAC is never the empty text).
\<close>

theorem snapshot_accepted_until_expiry:
  assumes "auth_snapshot_from_context E ctx space_id rids ttl = Inr snap"
    and hex: "\<And>k m. hmac_sha256 E k m \<noteq> []"
  shows "verify_snapshot_signature (E\<lparr> clock := t \<rparr>) snap = Inr (t \<le> clock E + ttl)"
proof -
  obtain key where k: "snapshot_signing_key E = Inr key"
    and snap: "snap = AList.update ''sig'' (JStr (hmac_sha256 E key
       (canonical_payload (snapshot_body E ctx space_id rids ttl)))) (snapshot_body E ctx space_id rids ttl)"
    using snapshot_Inr [OF assms(1)] .
  have k': "snapshot_signing_key (E\<lparr> clock := t \<rparr>) = Inr key"
    using k by (simp add: snapshot_signing_key_def)
  show ?thesis
    unfolding snap
    by (simp add: verify_snapshot_signature_def jget_def map_of_snapshot unsigned_signed [OF snapshot_body_keys]
        sign_snapshot_def k' hex)
qed

theorem snapshot_accepted_until_expiry_witness:
  "\<exists>snap. auth_snapshot_from_context demo_env demo_ctx (Some 5) [] 3600 = Inr snap \<and>
     verify_snapshot_signature (demo_env\<lparr> clock := 3601 \<rparr>) snap = Inr True \<and>
     verify_snapshot_signature (demo_env\<lparr> clock := 3602 \<rparr>) snap = Inr False"
proof -
  have "\<not> is_space (CHR ''s'')" by (simp add: is_space_def)
  then have "py_strip (replicate 32 (CHR ''s'')) = replicate 32 (CHR ''s'')" by (intro py_strip_id) auto
  then have "\<exists>snap. auth_snapshot_from_context demo_env demo_ctx (Some 5) [] 3600 = Inr snap"
    by (simp add: auth_snapshot_from_context_def sign_snapshot_def snapshot_signing_key_def demo_env_def Let_def)
  then obtain snap where s: "auth_snapshot_from_context demo_env demo_ctx (Some 5) [] 3600 = Inr snap" by blast
  have hex: "hmac_sha256 demo_env k m \<noteq> []" for k m by (simp add: demo_env_def)
  show ?thesis
    using s snapshot_accepted_until_expiry [OF s hex, of 3601] snapshot_accepted_until_expiry [OF s hex, of 3602]
    by simp
qed

section \<open>The tombstones over time\<close>

text \<open>
  What can happen to the tombstones: the two operations that write the table, each committed, and anything else the
  program does, which leaves the table as it is (only \<open>deletion/service.py\<close> writes it).
\<close>

inductive tombstone_step :: "'a core_db_scheme \<Rightarrow> 'a core_db_scheme \<Rightarrow> bool" where
  step_bury: "create_tombstone E ctx ty e sp rk (d, []) = Inr (tid, d', ps) \<Longrightarrow> tombstone_step d d'"
| step_restore: "replay_tombstones_after_restore E a rows (d, []) = Inr (n, s) \<Longrightarrow> flush s = Inr (d', ps) \<Longrightarrow>
    tombstone_step d d'"
| step_elsewhere: "t_tombstone d' = t_tombstone d \<Longrightarrow> tombstone_step d d'"

lemma tombstone_step_buried:
  "tombstone_step d d' \<Longrightarrow> tombstones_ok d \<Longrightarrow> tombstones_ok d' \<and> buried d \<subseteq> buried d'"
proof (induction rule: tombstone_step.induct)
  case (step_bury E ctx ty e sp rk d tid d' ps)
  then show ?case using create_tombstone_effect [OF step_bury.hyps] by auto
next
  case (step_restore E a rows d n s d' ps)
  let ?rows = "case rows of Some ts \<Rightarrow> ts | None \<Rightarrow> list_tombstones a d"
  obtain pend where "replay_tombstones_loop E a 0 0 ?rows (d, []) = Inr (0 + int (length (missing a d ?rows)), d, [] @ pend)"
    and fl: "\<And>d0 d' q. tombstones_ok d0 \<Longrightarrow> flush (d0, pend) = Inr (d', q) \<Longrightarrow> tombstones_ok d' \<and> buried d' = buried d0 \<union>
      (\<lambda>r. (a, dt_entity_type r, dt_entity_id r)) ` set (missing a d ?rows)"
    using replay_tombstones_total [OF step_restore.prems, of E a 0 0 ?rows "[]"] by blast
  then have "s = (d, pend)" using step_restore.hyps(1) by (cases rows) (simp_all add: replay_tombstones_after_restore_def)
  then show ?case using fl [OF step_restore.prems] step_restore.hyps(2) by blast
qed (simp add: tombstones_ok_def buried_def)

lemma tombstone_steps_buried:
  "tombstone_step\<^sup>*\<^sup>* d d' \<Longrightarrow> tombstones_ok d \<Longrightarrow> tombstones_ok d' \<and> buried d \<subseteq> buried d'"
  by (induction rule: rtranclp_induct) (use tombstone_step_buried in blast)+

lemma parse_uuid_none: "parse_uuid ''None'' \<noteq> Inr u"
  by code_simp

lemma buried_source_refused:
  assumes "is_tombstoned account_id ''source'' source_id d = Inr True"
    and "parse_uuid (py_str (jget kvs ''source_id'')) = Inr source_id"
  shows "source_check account_id (JObj kvs) d = Inr False"
  using assms by (cases "jget kvs ''source_id''") (auto simp: source_check_def py_str_def parse_uuid_none)

definition demo_source_db :: core_db where
  "demo_source_db = demo_core\<lparr> t_source := [\<lparr> src_id = 9, src_account_id = 1, src_space_id = 5, src_title = ''notes'',
     src_processing_status = ''ready'', src_created_at = 0, src_updated_at = 0 \<rparr>] \<rparr>"

lemma demo_source_tombstone:
  "\<exists>d'. create_tombstone demo_env demo_ctx ''source'' 9 None None (demo_source_db, []) = Inr (1000, d', [])"
proof -
  obtain g where "create_tombstone demo_env demo_ctx ''source'' 9 None None (demo_source_db, []) =
      bindr (bury demo_env 1 ''source'' 9 None None (demo_source_db\<lparr> settings := g \<rparr>, []))
        (\<lambda>(r, s3). bindr (flush s3) (\<lambda>s4. Inr (r, s4)))"
    by (rule demo_bury [of demo_source_db]) (simp_all add: demo_source_db_def)
  then show ?thesis
    by (simp add: bury_def Let_def tombstones_of_def demo_core_def demo_source_db_def insert_defs
        unique_key_def foreign_key_def check_in_def pending_gate_def new_tombstone_def
        new_workflow_def WORKFLOW_STATES_def outbox_event_def)
qed

lemma demo_source_snapshot:
  obtains snap where "auth_snapshot_from_context demo_env demo_ctx (Some 5) [(''source_id'', str_uuid 9)] 3600 = Inr snap"
    "jget snap ''resource_ids'' = JObj [(''source_id'', JStr (str_uuid 9))]"
    "validate_auth_snapshot demo_env 1 (Some snap) (Some 5) demo_source_db = Inr True"
proof -
  have "\<not> is_space (CHR ''s'')" by (simp add: is_space_def)
  then have "py_strip (replicate 32 (CHR ''s'')) = replicate 32 (CHR ''s'')" by (intro py_strip_id) auto
  then obtain snap where s: "auth_snapshot_from_context demo_env demo_ctx (Some 5) [(''source_id'', str_uuid 9)] 3600 = Inr snap"
    by (simp add: auth_snapshot_from_context_def sign_snapshot_def snapshot_signing_key_def demo_env_def Let_def)
  then obtain sig where snap: "snap = AList.update ''sig'' sig
      (snapshot_body demo_env demo_ctx (Some 5) [(''source_id'', str_uuid 9)] 3600)"
    by (rule snapshot_Inr) blast
  have hex: "hmac_sha256 demo_env k m \<noteq> []" for k m by (simp add: demo_env_def)
  have v: "verify_snapshot_signature demo_env snap = Inr True"
    using snapshot_accepted_until_expiry [OF s hex, of 1] by (simp add: demo_env_def)
  have "validate_auth_snapshot demo_env 1 (Some snap) (Some 5) demo_source_db = Inr True"
    by (simp add: validate_auth_snapshot_def v jget_def)
       (simp add: snap update_conv snapshot_body_def demo_ctx_def demo_source_db_def demo_core_def parse_purpose_def PURPOSES_def
        purpose_value_def space_check_def source_check_def jget_def is_tombstoned_def tombstones_of_def)
  moreover have "jget snap ''resource_ids'' = JObj [(''source_id'', JStr (str_uuid 9))]"
    by (simp add: snap jget_def update_conv snapshot_body_def)
  ultimately show thesis using that s by blast
qed

section \<open>Revocation\<close>

text \<open>
  (C30) Deleting a source revokes the jobs that name it, for good: once the tombstone of the source is written, and in every later
  state of the tombstones, no snapshot with that source among its resources, in whatever spelling of the identifier, passes
  revalidation in the account, whatever else it claims and whenever it is checked.
\<close>

theorem tombstone_revokes_snapshots:
  assumes "create_tombstone E ctx ''source'' source_id sp rk (d, []) = Inr (tid, d1, ps)" and "tombstones_ok d"
    and "tombstone_step\<^sup>*\<^sup>* d1 d2"
    and "jget snap ''resource_ids'' = JObj kvs" and "parse_uuid (py_str (jget kvs ''source_id'')) = Inr source_id"
  shows "validate_auth_snapshot E2 (ctx_account_id ctx) (Some snap) expected d2 \<noteq> Inr True"
proof
  assume "validate_auth_snapshot E2 (ctx_account_id ctx) (Some snap) expected d2 = Inr True"
  then have "source_check (ctx_account_id ctx) (JObj kvs) d2 = Inr True"
    using validate_True_source assms(4) by metis
  moreover have "is_tombstoned (ctx_account_id ctx) ''source'' source_id d2 = Inr True"
    using create_tombstone_effect [OF assms(1,2)] tombstone_steps_buried [OF assms(3)] by (auto simp: is_tombstoned_iff)
  ultimately show False using buried_source_refused [OF _ assms(5)] by fastforce
qed

theorem tombstone_revokes_snapshots_witness:
  "\<exists>snap d1 d2. validate_auth_snapshot demo_env 1 (Some snap) (Some 5) demo_source_db = Inr True \<and>
     create_tombstone demo_env demo_ctx ''source'' 9 None None (demo_source_db, []) = Inr (1000, d1, []) \<and>
     d2 = d1\<lparr> t_workflow := [] \<rparr> \<and> validate_auth_snapshot demo_env 1 (Some snap) (Some 5) d2 \<noteq> Inr True"
proof -
  obtain snap where s: "jget snap ''resource_ids'' = JObj [(''source_id'', JStr (str_uuid 9))]"
    "validate_auth_snapshot demo_env 1 (Some snap) (Some 5) demo_source_db = Inr True"
    by (rule demo_source_snapshot)
  obtain d1 where c: "create_tombstone demo_env demo_ctx ''source'' 9 None None (demo_source_db, []) = Inr (1000, d1, [])"
    using demo_source_tombstone by blast
  have ok: "tombstones_ok demo_source_db" by (simp add: tombstones_ok_def demo_source_db_def demo_core_def)
  have "tombstone_step\<^sup>*\<^sup>* d1 (d1\<lparr> t_workflow := [] \<rparr>)" by (intro r_into_rtranclp step_elsewhere) simp
  from tombstone_revokes_snapshots [OF c ok this s(1), of demo_env "Some 5"] show ?thesis using s(2) c by auto
qed

end
