(* ===== verification/Conversations.thy ===== *)
theory Conversations
  imports Deletion Mcp_Ids Json_Parse Row_Policies
begin

text \<open>
  Conversations, \<open>services/core/src/memdot_core/conversations/service.py\<close> and \<open>crypto.py\<close> beside it: the
  two tables with their constraints and the trigger of migration 0007, the encryption of a turn's payload,
  and the five operations.

  AES-GCM, SHA-256's digest, the 12 random bytes of a nonce and the environment variable with the key are
  the fields of \<open>crypto\<close>, arguments of the definitions; the theorems state the law they use (decryption
  under the same key, nonce and associated data undoes encryption). Replies are records with the fields of
  the dicts the source returns, times unformatted. Column lengths are not modelled. The database orders
  rows that compare equal as it likes; the model keeps them in insertion order.
\<close>

section \<open>Tables\<close>

record Conversation =
  cv_id :: uuid
  cv_account_id :: uuid
  cv_space_id :: uuid
  cv_source_client :: string
  cv_completeness :: string
  cv_created_at :: datetime

record ConversationTurn =
  ct_id :: uuid
  ct_account_id :: uuid
  ct_space_id :: uuid
  ct_conversation_id :: uuid
  ct_role :: string
  ct_turn_index :: int
  ct_payload_json :: "dict option"
  ct_payload_ciphertext :: "string option"
  ct_payload_nonce :: "string option"
  ct_occurred_at :: datetime
  ct_parent_turn_id :: "uuid option"
  ct_context_receipt_id :: "uuid option"
  ct_client_turn_id :: "string option"
  ct_created_at :: datetime

text \<open>Of the context receipts a turn may point to, only the keys matter here.\<close>

record conv_db = core_db +
  t_conversation :: "Conversation list"
  t_turn :: "ConversationTurn list"
  t_receipt_key :: "(uuid \<times> uuid) list"

definition insert_conversation :: "Conversation \<Rightarrow> 'a conv_db_scheme \<Rightarrow> 'a conv_db_scheme res" where
  "insert_conversation r d =
     bindr (write_gate (cv_account_id r) d) (\<lambda>_.
     bindr (policy_check ''conversation'' (chat_row_writable d (cv_account_id r) (cv_space_id r))) (\<lambda>_.
     bindr (unique_key ''pk_conversation'' (\<lambda>r. Some (cv_id r)) r (t_conversation d)) (\<lambda>_.
     bindr (foreign_key ''fk_conversation_space'' (Some (cv_account_id r, cv_space_id r))
       (\<lambda>p. (sp_account_id p, sp_id p)) (t_space d)) (\<lambda>_.
     Inr (d\<lparr> t_conversation := t_conversation d @ [r] \<rparr>)))))"

text \<open>The trigger \<open>memdot_validate_conversation_turn_links\<close>.\<close>

definition validate_turn_links :: "ConversationTurn \<Rightarrow> 'a conv_db_scheme \<Rightarrow> unit res" where
  "validate_turn_links r d =
     bindr (case ct_parent_turn_id r of
         None \<Rightarrow> Inr ()
       | Some p \<Rightarrow> guard_res (\<exists>q \<in> set (t_turn d). ct_account_id q = ct_account_id r \<and> ct_id q = p \<and>
             ct_conversation_id q = ct_conversation_id r \<and> ct_space_id q = ct_space_id r)
           (DBAPIError ''conversation_parent_mismatch'')) (\<lambda>_.
     case ct_context_receipt_id r of
       None \<Rightarrow> Inr ()
     | Some i \<Rightarrow> guard_res ((ct_account_id r, i) \<in> set (t_receipt_key d)) (DBAPIError ''conversation_receipt_mismatch''))"

definition insert_turn :: "ConversationTurn \<Rightarrow> 'a conv_db_scheme \<Rightarrow> 'a conv_db_scheme res" where
  "insert_turn r d =
     bindr (write_gate (ct_account_id r) d) (\<lambda>_.
     bindr (validate_turn_links r d) (\<lambda>_.
     bindr (policy_check ''conversation_turn'' (chat_row_writable d (ct_account_id r) (ct_space_id r))) (\<lambda>_.
     bindr (unique_key ''pk_conversation_turn'' (\<lambda>r. Some (ct_id r)) r (t_turn d)) (\<lambda>_.
     bindr (unique_key ''uq_conversation_turn_client''
       (\<lambda>r. map_option (\<lambda>c. (ct_account_id r, ct_conversation_id r, c)) (ct_client_turn_id r)) r (t_turn d)) (\<lambda>_.
     bindr (guard_res ((ct_payload_ciphertext r = None) = (ct_payload_nonce r = None))
       (IntegrityError ''ck_conversation_turn_encrypted'')) (\<lambda>_.
     bindr (foreign_key ''fk_conversation_turn_conversation'' (Some (ct_account_id r, ct_conversation_id r))
       (\<lambda>c. (cv_account_id c, cv_id c)) (t_conversation d)) (\<lambda>_.
     bindr (foreign_key ''fk_conversation_turn_conversation_space''
       (Some (ct_account_id r, ct_space_id r, ct_conversation_id r))
       (\<lambda>c. (cv_account_id c, cv_space_id c, cv_id c)) (t_conversation d)) (\<lambda>_.
     bindr (foreign_key ''fk_conversation_turn_parent''
       (map_option (\<lambda>p. (ct_account_id r, p)) (ct_parent_turn_id r))
       (\<lambda>t. (ct_account_id t, ct_id t)) (t_turn d)) (\<lambda>_.
     Inr (d\<lparr> t_turn := t_turn d @ [r] \<rparr>))))))))))"

definition set_completeness :: "Conversation \<Rightarrow> string \<Rightarrow> 'a conv_db_scheme \<Rightarrow> 'a conv_db_scheme res" where
  "set_completeness conv v d =
     bindr (pending_gate (cv_account_id conv) d) (\<lambda>_.
       Inr (d\<lparr> t_conversation := update_rows (\<lambda>c. cv_id c = cv_id conv) (\<lambda>c. c\<lparr> cv_completeness := v \<rparr>)
         (t_conversation d) \<rparr>))"

section \<open>Payload encryption\<close>

record crypto =
  payload_key_env :: "string option"
  sha256_digest :: "string \<Rightarrow> string"
  token_bytes :: string
  aesgcm_encrypt :: "string \<Rightarrow> string \<Rightarrow> string \<Rightarrow> string \<Rightarrow> string"
  aesgcm_decrypt :: "string \<Rightarrow> string \<Rightarrow> string \<Rightarrow> string \<Rightarrow> string option"

definition AAD :: string where
  "AAD = ''memdot-conversation-turn-v1''"

definition pepper_from_env :: "crypto \<Rightarrow> string res" where
  "pepper_from_env C =
     (let v = py_strip (case payload_key_env C of None \<Rightarrow> [] | Some x \<Rightarrow> x)
      in if length v < 32
         then Inl (RuntimeError ''CORE_CONVERSATION_PAYLOAD_KEY must contain at least 32 bytes (no session-pepper fallback)'')
         else Inr v)"

definition payload_key :: "crypto \<Rightarrow> string option \<Rightarrow> string res" where
  "payload_key C pepper =
     bindr (case pepper of Some p \<Rightarrow> Inr p | None \<Rightarrow> pepper_from_env C) (\<lambda>material. Inr (sha256_digest C material))"

definition encrypt_payload :: "crypto \<Rightarrow> dict \<Rightarrow> string option \<Rightarrow> (string \<times> string) res" where
  "encrypt_payload C payload pepper =
     (let nonce = token_bytes C; plaintext = json_dumps (JObj payload)
      in bindr (payload_key C pepper) (\<lambda>k. Inr (aesgcm_encrypt C k nonce plaintext AAD, nonce)))"

definition decrypt_payload :: "crypto \<Rightarrow> string \<Rightarrow> string \<Rightarrow> string option \<Rightarrow> dict res" where
  "decrypt_payload C ciphertext nonce pepper =
     bindr (payload_key C pepper) (\<lambda>k.
     bindr (case aesgcm_decrypt C k nonce ciphertext AAD of None \<Rightarrow> Inl InvalidTag | Some p \<Rightarrow> Inr p) (\<lambda>plaintext.
     bindr (case json_loads plaintext of None \<Rightarrow> Inl JSONDecodeError | Some j \<Rightarrow> Inr j) (\<lambda>decoded.
       case decoded of JObj d \<Rightarrow> Inr d | _ \<Rightarrow> Inl (ValueError ''invalid_conversation_payload''))))"

definition payload_content :: "dict option \<Rightarrow> string option" where
  "payload_content turn_payload =
     (case turn_payload of
        None \<Rightarrow> None
      | Some d \<Rightarrow> if d = [] then None
                  else case jget d ''content'' of JNull \<Rightarrow> None | v \<Rightarrow> Some (py_str v))"

section \<open>Operations\<close>

definition turn_content :: "crypto \<Rightarrow> ConversationTurn \<Rightarrow> string option" where
  "turn_content C turn =
     (let fallback = payload_content (ct_payload_json turn) in
      case (ct_payload_ciphertext turn, ct_payload_nonce turn) of
        (Some c, Some n) \<Rightarrow>
          if c \<noteq> [] \<and> n \<noteq> [] then
            (case decrypt_payload C c n None of Inr decrypted \<Rightarrow> payload_content (Some decrypted) | Inl _ \<Rightarrow> fallback)
          else fallback
      | _ \<Rightarrow> fallback)"

record conversation_reply =
  cr_conversation_id :: uuid
  cr_space_id :: uuid
  cr_source_client :: string
  cr_completeness :: string
  cr_capture_origin :: string

record turn_view =
  tv_turn_id :: uuid
  tv_role :: string
  tv_turn_index :: int
  tv_content :: "string option"
  tv_client_turn_id :: "string option"
  tv_occurred_at :: datetime
  tv_parent_turn_id :: "uuid option"
  tv_context_receipt_id :: "uuid option"

record turn_reply =
  tr_turn_id :: uuid
  tr_turn_index :: int
  tr_role :: string
  tr_content :: "string option"
  tr_client_turn_id :: "string option"
  tr_idempotent :: bool
  tr_auto_native :: bool

definition conversation_view :: "Conversation \<Rightarrow> conversation_reply" where
  "conversation_view row =
     \<lparr> cr_conversation_id = cv_id row, cr_space_id = cv_space_id row, cr_source_client = cv_source_client row,
       cr_completeness = cv_completeness row,
       cr_capture_origin = capture_origin_value (capture_origin_for_client (cv_source_client row)) \<rparr>"

definition view_turn :: "crypto \<Rightarrow> ConversationTurn \<Rightarrow> turn_view" where
  "view_turn C t =
     \<lparr> tv_turn_id = ct_id t, tv_role = ct_role t, tv_turn_index = ct_turn_index t, tv_content = turn_content C t,
       tv_client_turn_id = ct_client_turn_id t, tv_occurred_at = ct_occurred_at t,
       tv_parent_turn_id = ct_parent_turn_id t, tv_context_receipt_id = ct_context_receipt_id t \<rparr>"

definition new_conversation :: "env \<Rightarrow> uuid \<Rightarrow> uuid \<Rightarrow> string \<Rightarrow> string \<Rightarrow> Conversation" where
  "new_conversation E account_id space_id source_client completeness =
     \<lparr> cv_id = fresh E 0, cv_account_id = account_id, cv_space_id = space_id, cv_source_client = source_client,
       cv_completeness = completeness, cv_created_at = now E \<rparr>"

definition create_conversation ::
    "env \<Rightarrow> RequestContext \<Rightarrow> uuid \<Rightarrow> string \<Rightarrow> string \<Rightarrow> ('a conv_db_scheme, conversation_reply) op" where
  "create_conversation E ctx space_id source_client completeness s =
     (let row = new_conversation E (ctx_account_id ctx) space_id source_client completeness
      in tenant_scope E (tenant_of ctx) (\<lambda>s. Inr (conversation_view row, add (insert_conversation row) s)) s)"

fun visible_conversations :: "uuid \<Rightarrow> Conversation list \<Rightarrow> 'a conv_db_scheme \<Rightarrow> Conversation list res" where
  "visible_conversations account_id [] d = Inr []"
| "visible_conversations account_id (row # rows) d =
     bindr (is_tombstoned account_id ''conversation'' (cv_id row) d) (\<lambda>gone.
     bindr (visible_conversations account_id rows d) (\<lambda>visible. Inr (if gone then visible else row # visible)))"

definition list_conversations ::
    "RequestContext \<Rightarrow> uuid option \<Rightarrow> 'a conv_db_scheme \<Rightarrow> (conversation_reply \<times> datetime) list res" where
  "list_conversations ctx space_id d =
     (let rows = sort_key (\<lambda>c. - cv_created_at c)
            (filter (\<lambda>c. cv_account_id c = ctx_account_id ctx \<and>
               (case space_id of None \<Rightarrow> True | Some sp \<Rightarrow> cv_space_id c = sp)) (t_conversation d))
      in bindr (visible_conversations (ctx_account_id ctx) rows d)
           (\<lambda>visible. Inr (map (\<lambda>row. (conversation_view row, cv_created_at row)) visible)))"

definition conversation_rows :: "uuid \<Rightarrow> uuid \<Rightarrow> 'a conv_db_scheme \<Rightarrow> Conversation list" where
  "conversation_rows account_id conversation_id d =
     filter (\<lambda>c. cv_account_id c = account_id \<and> cv_id c = conversation_id) (t_conversation d)"

definition turn_rows :: "uuid \<Rightarrow> uuid \<Rightarrow> 'a conv_db_scheme \<Rightarrow> ConversationTurn list" where
  "turn_rows account_id conversation_id d =
     filter (\<lambda>t. ct_account_id t = account_id \<and> ct_conversation_id t = conversation_id) (t_turn d)"

definition get_conversation ::
    "crypto \<Rightarrow> RequestContext \<Rightarrow> uuid \<Rightarrow> 'a conv_db_scheme \<Rightarrow> (conversation_reply \<times> turn_view list) option res" where
  "get_conversation C ctx conversation_id d =
     bindr (is_tombstoned (ctx_account_id ctx) ''conversation'' conversation_id d) (\<lambda>gone.
     if gone then Inr None
     else bindr (scalar_one_or_none (conversation_rows (ctx_account_id ctx) conversation_id d)) (\<lambda>row.
       case row of
         None \<Rightarrow> Inr None
       | Some conv \<Rightarrow> Inr (Some (conversation_view conv,
           map (view_turn C) (sort_key ct_turn_index (turn_rows (ctx_account_id ctx) conversation_id d))))))"

text \<open>
  \<open>(last_turn or -1) + 1\<close>, where the query of \<open>last_turn\<close> is not limited to one row: it raises when the
  conversation has two turns or more.
\<close>

definition next_turn_index :: "uuid \<Rightarrow> uuid \<Rightarrow> 'a conv_db_scheme \<Rightarrow> int res" where
  "next_turn_index account_id conversation_id d =
     bindr (scalar_one_or_none (map ct_turn_index
       (sort_key (\<lambda>t. - ct_turn_index t) (turn_rows account_id conversation_id d)))) (\<lambda>last_turn.
     Inr ((case last_turn of None \<Rightarrow> -1 | Some n \<Rightarrow> if n = 0 then -1 else n) + 1))"

definition replay_turn ::
    "crypto \<Rightarrow> string \<Rightarrow> string option \<Rightarrow> bool \<Rightarrow> ConversationTurn \<Rightarrow> turn_reply res" where
  "replay_turn C role content auto_native existing =
     (let prior_content = turn_content C existing
      in if ct_role existing \<noteq> role \<or> (content \<noteq> None \<and> prior_content \<noteq> content)
         then Inl (ValueError ''idempotency_conflict'')
         else Inr \<lparr> tr_turn_id = ct_id existing, tr_turn_index = ct_turn_index existing, tr_role = ct_role existing,
           tr_content = prior_content, tr_client_turn_id = ct_client_turn_id existing, tr_idempotent = True,
           tr_auto_native = auto_native \<rparr>)"

text \<open>The payload of a new turn: plain marker, ciphertext and nonce.\<close>

definition turn_payload :: "crypto \<Rightarrow> string option \<Rightarrow> (dict option \<times> string option \<times> string option) res" where
  "turn_payload C content =
     (case content of
        None \<Rightarrow> Inr (None, None, None)
      | Some c \<Rightarrow> bindr (encrypt_payload C [(''content'', JStr c)] None)
          (\<lambda>(ciphertext, nonce). Inr (Some [(''encrypted'', JBool True)], Some ciphertext, Some nonce)))"

record turn_input =
  ti_role :: string
  ti_content :: "string option"
  ti_client_turn_id :: "string option"
  ti_parent_turn_id :: "uuid option"
  ti_context_receipt_id :: "uuid option"
  ti_occurred_at :: "datetime option"
  ti_auto_native :: bool

definition new_turn ::
    "env \<Rightarrow> Conversation \<Rightarrow> uuid \<Rightarrow> turn_input \<Rightarrow> int \<Rightarrow> dict option \<times> string option \<times> string option \<Rightarrow> ConversationTurn" where
  "new_turn E conv account_id i turn_index p =
     \<lparr> ct_id = fresh E 0, ct_account_id = account_id, ct_space_id = cv_space_id conv,
       ct_conversation_id = cv_id conv, ct_role = ti_role i, ct_turn_index = turn_index,
       ct_payload_json = fst p, ct_payload_ciphertext = fst (snd p), ct_payload_nonce = snd (snd p),
       ct_occurred_at = (case ti_occurred_at i of None \<Rightarrow> now E | Some t \<Rightarrow> t),
       ct_parent_turn_id = ti_parent_turn_id i, ct_context_receipt_id = ti_context_receipt_id i,
       ct_client_turn_id = ti_client_turn_id i, ct_created_at = now E \<rparr>"

definition capture_turn ::
    "env \<Rightarrow> crypto \<Rightarrow> RequestContext \<Rightarrow> Conversation \<Rightarrow> turn_input \<Rightarrow> ('a conv_db_scheme, turn_reply) op" where
  "capture_turn E C ctx conv i s =
     bindr (next_turn_index (ctx_account_id ctx) (cv_id conv) (tables s)) (\<lambda>turn_index.
     bindr (turn_payload C (ti_content i)) (\<lambda>payload.
       let row = new_turn E conv (ctx_account_id ctx) i turn_index payload in
       tenant_scope E (tenant_of ctx) (\<lambda>s.
         let s1 = add (insert_turn row) s;
             s2 = (if ti_auto_native i \<and> cv_source_client conv \<in> set [''native'', ''memdot'', ''first_party'']
                   then add (set_completeness conv (completeness_value COMPLETE)) s1 else s1)
         in Inr (\<lparr> tr_turn_id = ct_id row, tr_turn_index = turn_index, tr_role = ti_role i,
              tr_content = ti_content i, tr_client_turn_id = ti_client_turn_id i, tr_idempotent = False,
              tr_auto_native = ti_auto_native i \<rparr>, s2)) s))"

definition append_turn ::
    "env \<Rightarrow> crypto \<Rightarrow> RequestContext \<Rightarrow> uuid \<Rightarrow> turn_input \<Rightarrow> ('a conv_db_scheme, turn_reply option) op" where
  "append_turn E C ctx conversation_id i s =
     bindr (is_tombstoned (ctx_account_id ctx) ''conversation'' conversation_id (tables s)) (\<lambda>gone.
     if gone then Inr (None, s)
     else bindr (scalar_one_or_none (conversation_rows (ctx_account_id ctx) conversation_id (tables s))) (\<lambda>row.
       case row of
         None \<Rightarrow> Inr (None, s)
       | Some conv \<Rightarrow>
           bindr (if truthy_str (ti_client_turn_id i)
                  then scalar_one_or_none (filter (\<lambda>t. ct_client_turn_id t = ti_client_turn_id i)
                    (turn_rows (ctx_account_id ctx) conversation_id (tables s)))
                  else Inr None) (\<lambda>existing.
           case existing of
             Some t \<Rightarrow> bindr (replay_turn C (ti_role i) (ti_content i) (ti_auto_native i) t) (\<lambda>r. Inr (Some r, s))
           | None \<Rightarrow> bindr (capture_turn E C ctx conv i s) (\<lambda>(r, s'). Inr (Some r, s')))))"

definition delete_conversation :: "env \<Rightarrow> RequestContext \<Rightarrow> uuid \<Rightarrow> ('a conv_db_scheme, bool) op" where
  "delete_conversation E ctx conversation_id s =
     bindr (scalar_one_or_none (conversation_rows (ctx_account_id ctx) conversation_id (tables s))) (\<lambda>row.
       case row of
         None \<Rightarrow> Inr (False, s)
       | Some conv \<Rightarrow>
           bindr (create_tombstone E ctx ''conversation'' conversation_id (Some (cv_space_id conv)) None s)
             (\<lambda>(_, s'). Inr (True, s')))"


section \<open>What a successful append did\<close>

lemma capture_turn_Inr:
  assumes "capture_turn E C ctx conv i (d, []) = Inr (r, d', ps')"
  obtains n p g d1 where
    "next_turn_index (ctx_account_id ctx) (cv_id conv) d = Inr n" "turn_payload C (ti_content i) = Inr p"
    "insert_turn (new_turn E conv (ctx_account_id ctx) i n p) (d\<lparr> settings := g \<rparr>) = Inr d1"
    "d' = d1 \<or> set_completeness conv ''complete'' d1 = Inr d'" "ps' = []"
    "tr_turn_id r = fresh E 0" "tr_turn_index r = n" "\<not> tr_idempotent r"
proof -
  obtain n p where n: "next_turn_index (ctx_account_id ctx) (cv_id conv) d = Inr n"
    and p: "turn_payload C (ti_content i) = Inr p"
    using assms by (auto simp: capture_turn_def bindr_Inr_iff)
  note scope = assms [unfolded capture_turn_def, simplified, unfolded n p, simplified Let_def bindr_simps]
  show thesis
    using scope
    by (rule tenant_scope_body)
      (auto simp: bindr_Inr_iff completeness_value_def new_turn_def intro!: that [OF n p] split: if_splits)
qed

lemma append_turn_cases:
  assumes "append_turn E C ctx cid i (d, []) = Inr (Some r, d', ps')"
  obtains
    (replayed) t where "truthy_str (ti_client_turn_id i)"
      "filter (\<lambda>t. ct_client_turn_id t = ti_client_turn_id i) (turn_rows (ctx_account_id ctx) cid d) = [t]"
      "replay_turn C (ti_role i) (ti_content i) (ti_auto_native i) t = Inr r" "tr_idempotent r" "d' = d"
  | (captured) conv where "is_tombstoned (ctx_account_id ctx) ''conversation'' cid d = Inr False"
      "conversation_rows (ctx_account_id ctx) cid d = [conv]"
      "truthy_str (ti_client_turn_id i) \<Longrightarrow>
        filter (\<lambda>t. ct_client_turn_id t = ti_client_turn_id i) (turn_rows (ctx_account_id ctx) cid d) = []"
      "capture_turn E C ctx conv i (d, []) = Inr (r, d', ps')"
proof -
  obtain conv existing where gone: "is_tombstoned (ctx_account_id ctx) ''conversation'' cid d = Inr False"
    and conv: "conversation_rows (ctx_account_id ctx) cid d = [conv]"
    and ex: "(if truthy_str (ti_client_turn_id i)
        then scalar_one_or_none (filter (\<lambda>t. ct_client_turn_id t = ti_client_turn_id i)
          (turn_rows (ctx_account_id ctx) cid d)) else Inr None) = Inr existing"
    and run: "(case existing of
        Some t \<Rightarrow> bindr (replay_turn C (ti_role i) (ti_content i) (ti_auto_native i) t) (\<lambda>r. Inr (Some r, d, []))
      | None \<Rightarrow> bindr (capture_turn E C ctx conv i (d, [])) (\<lambda>(r, s'). Inr (Some r, s'))) = Inr (Some r, d', ps')"
    using assms unfolding append_turn_def
    by (auto simp: bindr_Inr_iff scalar_iffs case_option_Inr_iff simp del: if_split split: if_split_asm)
  show thesis
  proof (cases existing)
    case None
    then show thesis
      using gone conv ex run by (intro captured [of conv]) (auto simp: scalar_iffs bindr_Inr_iff split: if_splits)
  next
    case (Some t)
    then show thesis
      using ex run by (intro replayed [of t])
        (auto simp: scalar_iffs bindr_Inr_iff replay_turn_def Let_def split: if_splits)
  qed
qed

lemma insert_turn_effect:
  assumes "insert_turn r d = Inr d'"
  shows "t_turn d' = t_turn d @ [r]" "t_tombstone d' = t_tombstone d" "t_conversation d' = t_conversation d"
  using assms by (auto simp: insert_turn_def bindr_Inr_iff)

lemma set_completeness_effect:
  assumes "set_completeness conv v d = Inr d'"
  shows "t_turn d' = t_turn d" "t_tombstone d' = t_tombstone d"
    "t_conversation d' = update_rows (\<lambda>c. cv_id c = cv_id conv) (\<lambda>c. c\<lparr> cv_completeness := v \<rparr>) (t_conversation d)"
  using assms by (auto simp: set_completeness_def bindr_Inr_iff)

text \<open>The tables after a capture: one more turn, the tombstones as they were, the conversation still there.\<close>

lemma capture_turn_effect:
  assumes "capture_turn E C ctx conv i (d, []) = Inr (r, d', ps')"
    and "conversation_rows (ctx_account_id ctx) cid d = [conv]"
  obtains n p conv' where
    "next_turn_index (ctx_account_id ctx) cid d = Inr n" "turn_payload C (ti_content i) = Inr p"
    "t_turn d' = t_turn d @ [new_turn E conv (ctx_account_id ctx) i n p]" "t_tombstone d' = t_tombstone d"
    "conversation_rows (ctx_account_id ctx) cid d' = [conv']" "cv_id conv = cid"
    "ps' = []" "tr_turn_id r = fresh E 0" "tr_turn_index r = n" "\<not> tr_idempotent r"
  using assms(1)
proof (rule capture_turn_Inr)
  fix n p g d1
  assume a: "next_turn_index (ctx_account_id ctx) (cv_id conv) d = Inr n" "turn_payload C (ti_content i) = Inr p"
    and ins: "insert_turn (new_turn E conv (ctx_account_id ctx) i n p) (d\<lparr> settings := g \<rparr>) = Inr d1"
    and upd: "d' = d1 \<or> set_completeness conv ''complete'' d1 = Inr d'"
    and r: "ps' = []" "tr_turn_id r = fresh E 0" "tr_turn_index r = n" "\<not> tr_idempotent r"
  have id: "cv_id conv = cid" using assms(2) by (auto simp: conversation_rows_def dest!: filter_singletonD)
  have d1: "t_turn d1 = t_turn d @ [new_turn E conv (ctx_account_id ctx) i n p]" "t_tombstone d1 = t_tombstone d"
    "t_conversation d1 = t_conversation d"
    using insert_turn_effect [OF ins] by simp_all
  then have d': "t_turn d' = t_turn d1" "t_tombstone d' = t_tombstone d1"
    using upd set_completeness_effect by blast+
  have "\<exists>conv'. conversation_rows (ctx_account_id ctx) cid d' = [conv']"
  proof (cases "d' = d1")
    case True
    then show ?thesis using assms(2) d1 by (simp add: conversation_rows_def)
  next
    case False
    then have "conversation_rows (ctx_account_id ctx) cid d'
        = update_rows (\<lambda>c. cv_id c = cv_id conv) (\<lambda>c. c\<lparr> cv_completeness := ''complete'' \<rparr>)
            (conversation_rows (ctx_account_id ctx) cid d)"
      using upd d1 set_completeness_effect(3) [of conv "''complete''" d1 d']
      by (simp add: conversation_rows_def filter_update_rows)
    then show ?thesis using assms(2) by (simp add: update_rows_def)
  qed
  then show thesis using that a r d1 d' id by metis
qed


section \<open>Encryption at rest\<close>

text \<open>
  The documented behaviour of AES-GCM the code relies on: decrypting what was encrypted under the same key,
  nonce and associated data gives the plaintext back; a ciphertext carries a tag, so it is never empty; a
  nonce of 12 bytes is not empty.
\<close>

definition aead_laws :: "crypto \<Rightarrow> bool" where
  "aead_laws C \<longleftrightarrow>
     (\<forall>k n p a. aesgcm_decrypt C k n (aesgcm_encrypt C k n p a) a = Some p \<and> aesgcm_encrypt C k n p a \<noteq> []) \<and>
     length (token_bytes C) = 12"

lemma payload_key_token [simp]: "payload_key (C\<lparr> token_bytes := x \<rparr>) pepper = payload_key C pepper"
  by (cases pepper) (simp_all add: payload_key_def pepper_from_env_def)

lemma decrypt_encrypt:
  assumes "encrypt_payload C payload pepper = Inr (c, n)" and "aead_laws C" and "wf_json (JObj payload)"
  shows "decrypt_payload (C\<lparr> token_bytes := x \<rparr>) c n pepper = Inr (sort_key fst (map (map_prod id canon) payload))"
  using assms json_round_trip_aux [of "JObj payload"]
  by (auto simp: encrypt_payload_def decrypt_payload_def aead_laws_def Let_def bindr_Inr_iff)

lemma encrypt_payload_Inr:
  assumes "encrypt_payload C payload pepper = Inr (c, n)" and "aead_laws C"
  shows "c \<noteq> [] \<and> n \<noteq> []"
  using assms by (auto simp: encrypt_payload_def aead_laws_def Let_def bindr_Inr_iff)

lemma turn_payload_Some:
  assumes "turn_payload C (Some c) = Inr p"
  obtains ct n where "encrypt_payload C [(''content'', JStr c)] None = Inr (ct, n)"
    "p = (Some [(''encrypted'', JBool True)], Some ct, Some n)"
  using assms by (auto simp: turn_payload_def bindr_Inr_iff)

lemma turn_content_new:
  assumes "turn_payload C (Some c) = Inr p" and "aead_laws C"
  shows "turn_content (C\<lparr> token_bytes := x \<rparr>) (new_turn E conv a i k p) = Some c"
  using assms(1)
proof (rule turn_payload_Some)
  fix ct n
  assume e: "encrypt_payload C [(''content'', JStr c)] None = Inr (ct, n)"
    and p: "p = (Some [(''encrypted'', JBool True)], Some ct, Some n)"
  have "decrypt_payload (C\<lparr> token_bytes := x \<rparr>) ct n None = Inr [(''content'', JStr c)]"
    using decrypt_encrypt [OF e assms(2)] by simp
  then show ?thesis
    using encrypt_payload_Inr [OF e assms(2)] p by (simp add: turn_content_def new_turn_def payload_content_def)
qed

lemma turn_content_plain:
  "turn_payload C None = Inr p \<Longrightarrow> turn_content C' (new_turn E conv a i k p) = None"
  by (auto simp: turn_payload_def turn_content_def new_turn_def payload_content_def)

lemma new_turn_sel [simp]:
  "ct_id (new_turn E conv a i k p) = fresh E 0" "ct_account_id (new_turn E conv a i k p) = a"
  "ct_conversation_id (new_turn E conv a i k p) = cv_id conv" "ct_role (new_turn E conv a i k p) = ti_role i"
  "ct_turn_index (new_turn E conv a i k p) = k" "ct_payload_json (new_turn E conv a i k p) = fst p"
  "ct_client_turn_id (new_turn E conv a i k p) = ti_client_turn_id i"
  by (simp_all add: new_turn_def)

section \<open>A concrete database\<close>

definition demo_crypto :: crypto where
  "demo_crypto =
     \<lparr> payload_key_env = Some (replicate 32 (CHR ''k'')), sha256_digest = (\<lambda>s. s),
       token_bytes = replicate 12 (CHR ''n''), aesgcm_encrypt = (\<lambda>k n p a. CHR ''t'' # p),
       aesgcm_decrypt = (\<lambda>k n c a. if c = [] then None else Some (tl c)) \<rparr>"

definition demo_conv :: conv_db where
  "demo_conv = core_db.extend demo_core
     \<lparr> t_conversation = [\<lparr> cv_id = 40, cv_account_id = 1, cv_space_id = 5, cv_source_client = ''native'',
         cv_completeness = ''partial'', cv_created_at = 0 \<rparr>],
       t_turn = [], t_receipt_key = [] \<rparr>"

definition demo_turn :: turn_input where
  "demo_turn =
     \<lparr> ti_role = ''user'', ti_content = Some ''hi'', ti_client_turn_id = Some ''c1'', ti_parent_turn_id = None,
       ti_context_receipt_id = None, ti_occurred_at = None, ti_auto_native = True \<rparr>"

lemma demo_aead: "aead_laws demo_crypto"
  by (simp add: aead_laws_def demo_crypto_def)

lemma demo_conv_core [simp]:
  "t_actor demo_conv = t_actor demo_core" "t_account_member demo_conv = t_account_member demo_core"
  "t_tombstone demo_conv = []" "t_turn demo_conv = []"
  by (simp_all add: demo_conv_def core_db.defs demo_core_def)

lemma demo_append_turn:
  "\<exists>r d'. append_turn demo_env demo_crypto demo_ctx 40 demo_turn (demo_conv, []) = Inr (Some r, d', []) \<and>
     \<not> tr_idempotent r \<and> tr_turn_id r = 1000"
proof -
  let ?row = "new_turn demo_env (hd (t_conversation demo_conv)) 1 demo_turn 0
    (Some [(''encrypted'', JBool True)], Some (CHR ''t'' # json_dumps (JObj [(''content'', JStr ''hi'')])), Some (replicate 12 (CHR ''n'')))"
  let ?reply = "\<lparr> tr_turn_id = 1000, tr_turn_index = 0, tr_role = ''user'', tr_content = Some ''hi'',
    tr_client_turn_id = Some ''c1'', tr_idempotent = False, tr_auto_native = True \<rparr>"
  define body where "body = (\<lambda>s :: conv_db session. (Inr (?reply,
    add (set_completeness (hd (t_conversation demo_conv)) ''complete'') (add (insert_turn ?row) s)) :: (turn_reply \<times> conv_db session) res))"
  obtain g where sc: "tenant_scope demo_env demo_tenant body (demo_conv, []) =
      bindr (body (demo_conv\<lparr> settings := g \<rparr>, [])) (\<lambda>(r, s3). bindr (flush s3) (\<lambda>s4. Inr (r, s4)))"
    and g: "set_purpose g = ''first_party''"
    by (rule demo_scope_purpose [OF demo_conv_core(1,2)])
  have conv: "conversation_rows 1 40 demo_conv = [hd (t_conversation demo_conv)]"
    by (simp add: conversation_rows_def demo_conv_def core_db.defs)
  have cap: "capture_turn demo_env demo_crypto demo_ctx (hd (t_conversation demo_conv)) demo_turn (demo_conv, []) =
      tenant_scope demo_env demo_tenant body (demo_conv, [])"
    by (simp add: body_def capture_turn_def next_turn_index_def turn_rows_def turn_payload_def demo_turn_def
        encrypt_payload_def payload_key_def pepper_from_env_def demo_crypto_def py_strip_def py_lstrip_def
        demo_conv_def core_db.defs completeness_value_def new_turn_def is_space_def numeral_eq_Suc)
  have "\<exists>d'. tenant_scope demo_env demo_tenant body (demo_conv, []) = Inr (?reply, d', [])"
    unfolding sc
    by (simp add: body_def demo_conv_def core_db.defs demo_core_def demo_turn_def insert_turn_def set_completeness_def
        validate_turn_links_def unique_key_def foreign_key_def pending_gate_def write_gate_def new_turn_def chat_row_writable_def internal_purpose_def g)
  then show ?thesis
    by (auto simp: append_turn_def conv cap is_tombstoned_def tombstones_of_def turn_rows_def)
qed


section \<open>Sequences of operations\<close>

inductive conv_step :: "'a conv_db_scheme \<Rightarrow> 'a conv_db_scheme \<Rightarrow> bool" where
  step_create: "create_conversation E ctx sp client compl (d, []) = Inr (r, d', ps) \<Longrightarrow> conv_step d d'"
| step_append: "append_turn E C ctx cid i (d, []) = Inr (r, d', ps) \<Longrightarrow> conv_step d d'"
| step_delete: "delete_conversation E ctx cid (d, []) = Inr (b, d', ps) \<Longrightarrow> conv_step d d'"

inductive_cases conv_stepE: "conv_step d d'"

lemma create_conversation_effect:
  assumes "create_conversation E ctx sp client compl (d, []) = Inr (r, d', ps)"
  shows "t_turn d' = t_turn d \<and> t_tombstone d' = t_tombstone d"
  using assms unfolding create_conversation_def Let_def
  by (rule tenant_scope_body) (auto simp: insert_conversation_def bindr_Inr_iff)

lemma create_tombstone_turns:
  assumes "create_tombstone E ctx ty e sp rk (d, []) = Inr (tid, d', ps')"
  shows "t_turn d' = t_turn d"
  using assms
  by (cases rule: create_tombstone_cases)
    (use assms in \<open>auto simp: create_tombstone_def bury_def Let_def bindr_Inr_iff insert_defs scalar_iffs elim!: tenant_scope_body\<close>)

lemma delete_conversation_Inr:
  assumes "delete_conversation E ctx cid (d, []) = Inr (b, d', ps)"
  obtains "\<not> b" "d' = d" | tid sp where "b" "create_tombstone E ctx ''conversation'' cid (Some sp) None (d, []) = Inr (tid, d', ps)"
  using assms by (auto simp: delete_conversation_def bindr_Inr_iff case_option_Inr_iff)

text \<open>What a turn can be: a conversation has at most two of them, both at index 0.\<close>

definition turns_ok :: "'a conv_db_scheme \<Rightarrow> bool" where
  "turns_ok d \<longleftrightarrow> (\<forall>a c. length (turn_rows a c d) \<le> 2) \<and> (\<forall>t \<in> set (t_turn d). ct_turn_index t = 0)"

lemma next_turn_index_Inr:
  assumes "next_turn_index a c d = Inr n" and "turns_ok d"
  shows "n = 0 \<and> length (turn_rows a c d) \<le> 1"
proof -
  let ?l = "sort_key (\<lambda>t. - ct_turn_index t) (turn_rows a c d)"
  obtain x where x: "scalar_one_or_none (map ct_turn_index ?l) = Inr x"
    and n: "n = (case x of None \<Rightarrow> -1 | Some n \<Rightarrow> if n = 0 then -1 else n) + 1"
    using assms(1) by (auto simp: next_turn_index_def bindr_Inr_iff)
  have len: "length (map ct_turn_index ?l) = length (turn_rows a c d)" by simp
  show ?thesis
  proof (cases x)
    case None
    then have "map ct_turn_index ?l = []" using x by (simp only: scalar_iffs)
    then show ?thesis using len n None by simp
  next
    case (Some m)
    then have eq: "map ct_turn_index ?l = [m]" using x by (simp only: scalar_iffs)
    then have "m \<in> ct_turn_index ` set (turn_rows a c d)" by (metis list.set_intros(1) set_map set_sort)
    then have "m = 0" using assms(2) by (auto simp: turns_ok_def turn_rows_def)
    then show ?thesis using len eq n Some by simp
  qed
qed

lemma append_turn_turns:
  assumes "append_turn E C ctx cid i (d, []) = Inr (r, d', ps)" and "turns_ok d"
  shows "turns_ok d'"
proof (cases r)
  case None
  then have "d' = d"
    using assms(1) by (auto simp: append_turn_def bindr_Inr_iff case_option_Inr_iff split: if_splits)
  then show ?thesis using assms(2) by simp
next
  case (Some r')
  from assms(1) [unfolded Some] show ?thesis
  proof (cases rule: append_turn_cases)
    case (captured conv)
    from captured(4,2) show ?thesis
    proof (rule capture_turn_effect)
      fix n p
      let ?row = "new_turn E conv (ctx_account_id ctx) i n p"
      assume n: "next_turn_index (ctx_account_id ctx) cid d = Inr n" and id: "cv_id conv = cid"
        and t: "t_turn d' = t_turn d @ [?row]"
      have "length (turn_rows a c d') \<le> 2" for a c
        using assms(2) next_turn_index_Inr [OF n assms(2)] t id by (cases "a = ctx_account_id ctx \<and> c = cid") (auto simp: turn_rows_def turns_ok_def)
      then show ?thesis using assms(2) next_turn_index_Inr [OF n assms(2)] t by (auto simp: turns_ok_def)
    qed
  qed (use assms(2) in simp)
qed

lemma turns_ok_cong: "t_turn d' = t_turn d \<Longrightarrow> turns_ok d' = turns_ok d"
  by (simp add: turns_ok_def turn_rows_def)

lemma conv_step_turns: "conv_step d d' \<Longrightarrow> turns_ok d \<Longrightarrow> turns_ok d'"
proof (induction rule: conv_step.induct)
  case step_create
  then show ?case using create_conversation_effect turns_ok_cong by blast
next
  case step_append
  then show ?case using append_turn_turns by blast
next
  case (step_delete E ctx cid d b d' ps)
  from step_delete(1) show ?case
    using step_delete(2) create_tombstone_turns turns_ok_cong by (cases rule: delete_conversation_Inr) blast+
qed

lemma conv_steps_turns: "conv_step\<^sup>*\<^sup>* d d' \<Longrightarrow> turns_ok d \<Longrightarrow> turns_ok d'"
  by (induction rule: rtranclp_induct) (auto intro: conv_step_turns)


lemma buried_cong: "t_tombstone d' = t_tombstone d \<Longrightarrow> buried d' = buried d \<and> tombstones_ok d' = tombstones_ok d"
  by (simp add: buried_def tombstones_ok_def)

lemma append_turn_tombstones:
  assumes "append_turn E C ctx cid i (d, []) = Inr (r, d', ps)"
  shows "t_tombstone d' = t_tombstone d"
proof (cases r)
  case None
  then show ?thesis
    using assms by (auto simp: append_turn_def bindr_Inr_iff case_option_Inr_iff split: if_splits)
next
  case (Some r')
  from assms [unfolded Some] show ?thesis
    by (cases rule: append_turn_cases) (auto elim: capture_turn_effect)
qed

lemma conv_step_buried:
  "conv_step d d' \<Longrightarrow> tombstones_ok d \<Longrightarrow> tombstones_ok d' \<and> buried d \<subseteq> buried d'"
proof (induction rule: conv_step.induct)
  case step_create
  then show ?case using create_conversation_effect buried_cong by blast
next
  case step_append
  then show ?case using append_turn_tombstones buried_cong by blast
next
  case (step_delete E ctx cid d b d' ps)
  from step_delete(1) show ?case
    by (cases rule: delete_conversation_Inr) (use step_delete(2) create_tombstone_effect in blast)+
qed

lemma conv_steps_buried:
  "conv_step\<^sup>*\<^sup>* d d' \<Longrightarrow> tombstones_ok d \<Longrightarrow> tombstones_ok d' \<and> buried d \<subseteq> buried d'"
  by (induction rule: rtranclp_induct) (auto dest: conv_step_buried)

lemma visible_conversations_visible:
  assumes "visible_conversations a rows d = Inr vs" and "is_tombstoned a ''conversation'' cid d = Inr True"
  shows "cid \<notin> cv_id ` set vs"
  using assms by (induction rows arbitrary: vs) (auto simp: bindr_Inr_iff split: if_splits)

lemma demo_delete_conversation:
  "\<exists>d'. delete_conversation demo_env demo_ctx 40 (demo_conv, []) = Inr (True, d', [])"
proof -
  obtain g where "create_tombstone demo_env demo_ctx ''conversation'' 40 (Some 5) None (demo_conv, []) =
      bindr (bury demo_env 1 ''conversation'' 40 (Some 5) None (demo_conv\<lparr> settings := g \<rparr>, []))
        (\<lambda>(r, s3). bindr (flush s3) (\<lambda>s4. Inr (r, s4)))"
    by (rule demo_bury [OF demo_conv_core(1,2)])
  then show ?thesis
    by (simp add: delete_conversation_def conversation_rows_def bury_def Let_def tombstones_of_def demo_conv_def core_db.defs
        demo_core_def insert_defs unique_key_def foreign_key_def check_in_def pending_gate_def
        new_tombstone_def new_workflow_def WORKFLOW_STATES_def outbox_event_def)
qed

section \<open>Properties\<close>

text \<open>
  (C31) Captured content survives encryption at rest: a new turn with content stores no plain text but the
  marker \<open>encrypted\<close>, and reading the conversation afterwards, with the same key and whatever nonces are
  drawn later, shows the turn with its role and exactly the content that was given (\<open>aead_laws\<close>: AES-GCM
  decryption undoes encryption).
\<close>

theorem captured_turn_reads_back:
  assumes "append_turn E C ctx cid i (d, []) = Inr (Some r, d', ps')" and "\<not> tr_idempotent r"
    and "ti_content i = Some content" and "aead_laws C"
  shows "(\<exists>row \<in> set (t_turn d'). ct_id row = tr_turn_id r \<and> ct_payload_json row = Some [(''encrypted'', JBool True)]) \<and>
    (\<exists>reply turns. get_conversation (C\<lparr> token_bytes := x \<rparr>) ctx cid d' = Inr (Some (reply, turns)) \<and>
       (\<exists>v \<in> set turns. tv_turn_id v = tr_turn_id r \<and> tv_role v = ti_role i \<and> tv_content v = Some content))"
  using assms(1)
proof (cases rule: append_turn_cases)
  case (captured conv)
  from captured(4,2) show ?thesis
  proof (rule capture_turn_effect)
    fix n p conv'
    let ?row = "new_turn E conv (ctx_account_id ctx) i n p"
    assume p: "turn_payload C (ti_content i) = Inr p" and t: "t_turn d' = t_turn d @ [?row]"
      and tb: "t_tombstone d' = t_tombstone d" and c: "conversation_rows (ctx_account_id ctx) cid d' = [conv']"
      and id: "cv_id conv = cid" and r: "tr_turn_id r = fresh E 0"
    have "is_tombstoned (ctx_account_id ctx) ''conversation'' cid d' = Inr False"
      using captured(1) tb by (simp add: is_tombstoned_def tombstones_of_def)
    then have get: "get_conversation (C\<lparr> token_bytes := x \<rparr>) ctx cid d' = Inr (Some (conversation_view conv',
        map (view_turn (C\<lparr> token_bytes := x \<rparr>)) (sort_key ct_turn_index (turn_rows (ctx_account_id ctx) cid d'))))"
      using c by (simp add: get_conversation_def)
    have "?row \<in> set (turn_rows (ctx_account_id ctx) cid d')" using t id by (simp add: turn_rows_def)
    moreover have "turn_content (C\<lparr> token_bytes := x \<rparr>) ?row = Some content"
      using p assms(3,4) by (simp add: turn_content_new)
    moreover have "fst p = Some [(''encrypted'', JBool True)]"
      using p assms(3) by (auto elim: turn_payload_Some)
    ultimately show ?thesis using get t r by (auto simp: view_turn_def intro: bexI [of _ ?row])
  qed
qed (use assms(2) in simp)

theorem captured_turn_reads_back_witness:
  "\<exists>r d' reply turns. append_turn demo_env demo_crypto demo_ctx 40 demo_turn (demo_conv, []) = Inr (Some r, d', []) \<and>
     get_conversation (demo_crypto\<lparr> token_bytes := [] \<rparr>) demo_ctx 40 d' = Inr (Some (reply, turns)) \<and>
     (\<exists>v \<in> set turns. tv_content v = Some ''hi'')"
proof -
  obtain r d' where a: "append_turn demo_env demo_crypto demo_ctx 40 demo_turn (demo_conv, []) = Inr (Some r, d', [])"
    "\<not> tr_idempotent r"
    using demo_append_turn by blast
  have "ti_content demo_turn = Some ''hi''" by (simp add: demo_turn_def)
  from captured_turn_reads_back [OF a this demo_aead, of "[]"] show ?thesis using a(1) by blast
qed

text \<open>
  Capture is idempotent per client turn id: after a turn with such an id was captured, another append
  under the same id writes nothing; with the same role and either no content or the same content it answers
  with the first turn, and any other role or content is refused as a conflict. The clock, the identifiers and
  the nonces drawn by the retry do not matter.
\<close>

theorem turn_retry:
  assumes "append_turn E C ctx cid i (d, []) = Inr (Some r, d', ps')" and "\<not> tr_idempotent r"
    and "ti_client_turn_id i = Some k" and "k \<noteq> []" and "ti_client_turn_id j = Some k" and "aead_laws C"
  shows "append_turn E' (C\<lparr> token_bytes := x \<rparr>) ctx cid j (d', []) =
    (if ti_role j = ti_role i \<and> (ti_content j = None \<or> ti_content j = ti_content i)
     then Inr (Some \<lparr> tr_turn_id = tr_turn_id r, tr_turn_index = tr_turn_index r, tr_role = ti_role i,
       tr_content = ti_content i, tr_client_turn_id = Some k, tr_idempotent = True,
       tr_auto_native = ti_auto_native j \<rparr>, d', [])
     else Inl (ValueError ''idempotency_conflict''))"
  using assms(1)
proof (cases rule: append_turn_cases)
  case (captured conv)
  from captured(4,2) show ?thesis
  proof (rule capture_turn_effect)
    fix n p conv'
    let ?row = "new_turn E conv (ctx_account_id ctx) i n p"
    assume p: "turn_payload C (ti_content i) = Inr p" and t: "t_turn d' = t_turn d @ [?row]"
      and tb: "t_tombstone d' = t_tombstone d" and c: "conversation_rows (ctx_account_id ctx) cid d' = [conv']"
      and id: "cv_id conv = cid" and r: "tr_turn_id r = fresh E 0" "tr_turn_index r = n"
    have gone: "is_tombstoned (ctx_account_id ctx) ''conversation'' cid d' = Inr False"
      using captured(1) tb by (simp add: is_tombstoned_def tombstones_of_def)
    have "filter (\<lambda>t. ct_client_turn_id t = Some k) (turn_rows (ctx_account_id ctx) cid d) = []"
      using captured(3) assms(3,4) by simp
    then have f: "filter (\<lambda>t. ct_client_turn_id t = Some k) (turn_rows (ctx_account_id ctx) cid d') = [?row]"
      using t id assms(3) by (simp add: turn_rows_def)
    have "turn_content (C\<lparr> token_bytes := x \<rparr>) ?row = ti_content i"
      using p assms(6) turn_content_new turn_content_plain by (cases "ti_content i") auto
    then show ?thesis
      using gone c f assms(3-5) r
      by (cases "ti_content j") (auto simp: append_turn_def replay_turn_def Let_def)
  qed
qed (use assms(2) in simp)

theorem turn_retry_witness:
  "\<exists>d'. append_turn demo_env (demo_crypto\<lparr> token_bytes := [] \<rparr>) demo_ctx 40 (demo_turn\<lparr> ti_content := Some ''no'' \<rparr>)
     (d' :: conv_db, [])
     = Inl (ValueError ''idempotency_conflict'')"
proof -
  obtain r d' where a: "append_turn demo_env demo_crypto demo_ctx 40 demo_turn (demo_conv, []) = Inr (Some r, d', [])"
    "\<not> tr_idempotent r"
    using demo_append_turn by blast
  have "ti_client_turn_id demo_turn = Some ''c1''" "''c1'' \<noteq> []"
    "ti_client_turn_id (demo_turn\<lparr> ti_content := Some ''no'' \<rparr>) = Some ''c1''"
    by (simp_all add: demo_turn_def)
  from turn_retry [OF a this demo_aead, of demo_env "[]"] show ?thesis by (auto simp: demo_turn_def)
qed

text \<open>
  Turn numbering: starting without turns, whatever conversations, turns and deletions follow, every stored
  turn has index 0 and no conversation has more than two turns; every further append to a conversation with two
  turns that is not a replay raises \<open>MultipleResultsFound\<close>, unless the conversation is not visible.
\<close>

theorem conversation_holds_two_turns:
  assumes "conv_step\<^sup>*\<^sup>* d0 d" and "t_turn d0 = []"
  shows "(\<forall>t \<in> set (t_turn d). ct_turn_index t = 0) \<and> length (turn_rows (ctx_account_id ctx) cid d) \<le> 2 \<and>
    (length (turn_rows (ctx_account_id ctx) cid d) = 2 \<and>
     (\<forall>t \<in> set (turn_rows (ctx_account_id ctx) cid d). ct_client_turn_id t \<noteq> ti_client_turn_id i) \<longrightarrow>
       append_turn E C ctx cid i (d, []) \<in> {Inl MultipleResultsFound, Inr (None, d, [])})"
proof -
  have ok: "turns_ok d" using conv_steps_turns [OF assms(1)] assms(2) by (simp add: turns_ok_def turn_rows_def)
  have "append_turn E C ctx cid i (d, []) \<in> {Inl MultipleResultsFound, Inr (None, d, [])}"
    if two: "length (turn_rows (ctx_account_id ctx) cid d) = 2"
      and new: "\<forall>t \<in> set (turn_rows (ctx_account_id ctx) cid d). ct_client_turn_id t \<noteq> ti_client_turn_id i"
  proof -
    have idx: "next_turn_index (ctx_account_id ctx) cid d = Inl MultipleResultsFound"
      using two unfolding next_turn_index_def bindr_Inl_iff scalar_iffs by simp
    have none: "filter (\<lambda>t. ct_client_turn_id t = ti_client_turn_id i) (turn_rows (ctx_account_id ctx) cid d) = []"
      using new by (simp add: filter_empty_conv)
    have id: "conversation_rows (ctx_account_id ctx) cid d = [conv] \<Longrightarrow> cv_id conv = cid" for conv
      by (auto simp: conversation_rows_def dest!: filter_singletonD)
    show ?thesis
      by (cases "tombstones_of (ctx_account_id ctx) ''conversation'' cid d" rule: scalar_one.cases;
          cases "conversation_rows (ctx_account_id ctx) cid d" rule: scalar_one.cases)
        (use idx id in \<open>auto simp: append_turn_def is_tombstoned_def none capture_turn_def\<close>)
  qed
  then show ?thesis using ok by (simp add: turns_ok_def)
qed

theorem conversation_holds_two_turns_witness:
  "\<exists>d. conv_step\<^sup>*\<^sup>* demo_conv d \<and> (\<exists>t \<in> set (t_turn d). ct_turn_index t = 0)"
proof -
  obtain r d' where a: "append_turn demo_env demo_crypto demo_ctx 40 demo_turn (demo_conv, []) = Inr (Some r, d', [])"
    "\<not> tr_idempotent r"
    using demo_append_turn by blast
  have st: "conv_step\<^sup>*\<^sup>* demo_conv d'" using step_append [OF a(1)] by blast
  from a(1) have "t_turn d' \<noteq> []"
    by (cases rule: append_turn_cases) (use a(2) in \<open>auto elim: capture_turn_effect\<close>)
  then have "hd (t_turn d') \<in> set (t_turn d')" by simp
  then show ?thesis using conversation_holds_two_turns [OF st demo_conv_core(4)] st by blast
qed

text \<open>
  (C32) A deleted conversation is gone for good: after \<open>delete_conversation\<close> has answered true, and after any
  further sequence of conversation operations, reading it answers none, appending to it answers none and
  changes nothing, and no listing shows it.
\<close>

theorem deleted_conversation_invisible:
  assumes "delete_conversation E ctx cid (d, []) = Inr (True, d1, ps)" and "tombstones_ok d"
    and "conv_step\<^sup>*\<^sup>* d1 d2"
  shows "get_conversation C ctx cid d2 = Inr None \<and>
    append_turn E' C ctx cid i (d2, []) = Inr (None, d2, []) \<and>
    (list_conversations ctx sp d2 = Inr l \<longrightarrow> cid \<notin> (cr_conversation_id \<circ> fst) ` set l)"
proof -
  from assms(1) obtain tid sp where "create_tombstone E ctx ''conversation'' cid (Some sp) None (d, []) = Inr (tid, d1, ps)"
    by (cases rule: delete_conversation_Inr) auto
  from create_tombstone_effect [OF this assms(2)]
  have d1: "tombstones_ok d1" "(ctx_account_id ctx, ''conversation'', cid) \<in> buried d1" by auto
  then have gone: "is_tombstoned (ctx_account_id ctx) ''conversation'' cid d2 = Inr True"
    using conv_steps_buried [OF assms(3)] by (auto simp: is_tombstoned_iff)
  moreover have "cid \<notin> (cr_conversation_id \<circ> fst) ` set l" if li: "list_conversations ctx sp d2 = Inr l" for sp
  proof -
    obtain rows vs where "visible_conversations (ctx_account_id ctx) rows d2 = Inr vs"
      and l: "l = map (\<lambda>row. (conversation_view row, cv_created_at row)) vs"
      using li unfolding list_conversations_def Let_def bindr_Inr_iff by blast
    then have "cid \<notin> cv_id ` set vs" using visible_conversations_visible gone by blast
    then show ?thesis by (auto simp: l conversation_view_def)
  qed
  ultimately show ?thesis by (simp add: get_conversation_def append_turn_def)
qed

theorem deleted_conversation_invisible_witness:
  "\<exists>d1. delete_conversation demo_env demo_ctx 40 (demo_conv, []) = Inr (True, d1, []) \<and>
     get_conversation demo_crypto demo_ctx 40 d1 = Inr None"
proof -
  obtain d1 where d1: "delete_conversation demo_env demo_ctx 40 (demo_conv, []) = Inr (True, d1, [])"
    using demo_delete_conversation by blast
  have "tombstones_ok demo_conv" by (simp add: tombstones_ok_def)
  from deleted_conversation_invisible [OF d1 this rtranclp.rtrancl_refl, of demo_crypto demo_env demo_turn None "[]"]
  show ?thesis using d1 by blast
qed

end
