(* ===== verification/Document.thy ===== *)
theory Document
  imports Deletion
begin

text \<open>
  The document format, \<open>packages/domain-python/src/memdot_domain/document.py\<close>: URL policy, block
  identifiers, plain-text extraction, Markdown import and export, HTML export.

  Documents are JSON trees, and the walkers meet whatever a client sends, so every place where Python would
  raise on an unexpected type is a branch of the model (\<open>TypeError\<close>, \<open>AttributeError\<close>). The recursion is
  over the nesting of the tree.

  The pydantic library is an argument: \<open>model_validate\<close> gives the text of the validation error or the JSON
  dump of the validated model; the validators the source attaches to the model are definitions of their own.
  The check of a bracketed host by \<open>urllib\<close>'s \<open>ipaddress\<close> is an argument as well.
\<close>

section \<open>Python on JSON values\<close>

text \<open>Iteration, attribute \<open>get\<close>, hashing and \<open>int\<close>.\<close>

fun py_iter :: "json \<Rightarrow> json list res" where
  "py_iter (JList xs) = Inr xs"
| "py_iter (JStr s) = Inr (map (\<lambda>c. JStr [c]) s)"
| "py_iter (JObj d) = Inr (map (\<lambda>kv. JStr (fst kv)) d)"
| "py_iter _ = Inl TypeError"

fun jattr :: "json \<Rightarrow> string \<Rightarrow> json res" where
  "jattr (JObj d) k = Inr (jget d k)"
| "jattr _ k = Inl AttributeError"

fun hashable :: "json \<Rightarrow> bool" where
  "hashable (JList _) = False"
| "hashable (JObj _) = False"
| "hashable _ = True"

fun json_int :: "json \<Rightarrow> int res" where
  "json_int (JInt n) = Inr n"
| "json_int (JBool b) = Inr (if b then 1 else 0)"
| "json_int (JStr s) = (case py_int s of None \<Rightarrow> Inl (ValueError ''invalid literal for int()'') | Some n \<Rightarrow> Inr n)"
| "json_int _ = Inl TypeError"

text \<open>What the walkers iterate over: \<open>node.get("content") or []\<close>.\<close>

definition kids :: "dict \<Rightarrow> json list res" where
  "kids d = py_iter (jor (jget d ''content'') (JList []))"

definition is_text :: "dict \<Rightarrow> bool" where
  "is_text d \<longleftrightarrow> jget d ''type'' = JStr ''text''"

lemma size_jget: "size (jget d k) < size (JObj d)"
proof (cases "map_of d k")
  case (Some v)
  then have "(k, v) \<in> set d" by (rule map_of_SomeD)
  then have "size_prod (\<lambda>_. 0) size (k, v) < Suc (size_list (size_prod (\<lambda>_. 0) size) d)"
    by (metis less_Suc_eq_le size_list_estimation' order_refl)
  then show ?thesis using Some by (simp add: jget_def)
qed (simp add: jget_def)

lemma size_py_iter: "py_iter v = Inr cs \<Longrightarrow> c \<in> set cs \<Longrightarrow> size c < size v \<or> (\<exists>s. c = JStr s)"
  by (cases v) (auto simp: less_Suc_eq_le intro: size_list_estimation')

lemma size_kids: "kids d = Inr cs \<Longrightarrow> JObj c \<in> set cs \<Longrightarrow> size (JObj c) < size (JObj d)"
proof -
  assume a: "kids d = Inr cs" "JObj c \<in> set cs"
  have "size (jor (jget d ''content'') (JList [])) \<le> size (JObj d)"
    using size_jget [of d "''content''"] by (auto simp: jor_def)
  then show ?thesis using size_py_iter [OF a [unfolded kids_def]] by fastforce
qed

section \<open>Types\<close>

datatype BlockType =
  PARAGRAPH | HEADING | BULLET_LIST | ORDERED_LIST | LIST_ITEM | BLOCKQUOTE | CODE_BLOCK | HORIZONTAL_RULE | IMAGE | UNSUPPORTED

definition block_type_value :: "BlockType \<Rightarrow> string" where
  "block_type_value t =
     (case t of PARAGRAPH \<Rightarrow> ''paragraph'' | HEADING \<Rightarrow> ''heading'' | BULLET_LIST \<Rightarrow> ''bulletList''
      | ORDERED_LIST \<Rightarrow> ''orderedList'' | LIST_ITEM \<Rightarrow> ''listItem'' | BLOCKQUOTE \<Rightarrow> ''blockquote''
      | CODE_BLOCK \<Rightarrow> ''codeBlock'' | HORIZONTAL_RULE \<Rightarrow> ''horizontalRule'' | IMAGE \<Rightarrow> ''image''
      | UNSUPPORTED \<Rightarrow> ''unsupported_block'')"

datatype MarkType = BOLD | ITALIC | CODE | LINK

definition mark_type_value :: "MarkType \<Rightarrow> string" where
  "mark_type_value t = (case t of BOLD \<Rightarrow> ''bold'' | ITALIC \<Rightarrow> ''italic'' | CODE \<Rightarrow> ''code'' | LINK \<Rightarrow> ''link'')"

section \<open>URLs\<close>

definition is_alpha :: "char \<Rightarrow> bool" where
  "is_alpha c \<longleftrightarrow> (let n = (of_char c :: nat) in 65 \<le> n \<and> n \<le> 90 \<or> 97 \<le> n \<and> n \<le> 122)"

definition scheme_char :: "char \<Rightarrow> bool" where
  "scheme_char c \<longleftrightarrow> is_alpha c \<or> (48 \<le> (of_char c :: nat) \<and> (of_char c :: nat) \<le> 57) \<or> c \<in> set ''+-.''"

text \<open>Scheme and network location of \<open>urllib.parse.urlparse\<close>.\<close>

definition split_scheme :: "string \<Rightarrow> string \<times> string" where
  "split_scheme u =
     (let p = takeWhile (\<lambda>c. c \<noteq> CHR '':'') u
      in if CHR '':'' \<in> set u \<and> p \<noteq> [] \<and> is_alpha (hd p) \<and> (\<forall>c \<in> set p. scheme_char c)
         then (py_lower p, drop (length p + 1) u) else ([], u))"

definition urlparse :: "(string \<Rightarrow> bool) \<Rightarrow> string \<Rightarrow> (string \<times> string) res" where
  "urlparse bracketed_ok url =
     (let u = filter (\<lambda>c. c \<notin> set [CHR 0x09, CHR 0x0D, CHR 0x0A]) (dropWhile (\<lambda>c. (of_char c :: nat) \<le> 32) url);
          (scheme, rest) = split_scheme u;
          netloc = (if starts_with rest ''//'' then takeWhile (\<lambda>c. c \<notin> set ''/?#'') (drop 2 rest) else [])
      in if (CHR ''['' \<in> set netloc) \<noteq> (CHR '']'' \<in> set netloc) then Inl (ValueError ''Invalid IPv6 URL'')
         else if CHR ''['' \<in> set netloc \<and> \<not> bracketed_ok netloc then Inl (ValueError ''Invalid IPv6 URL'')
         else Inr (scheme, netloc))"

definition is_https_url :: "(string \<Rightarrow> bool) \<Rightarrow> string \<Rightarrow> bool res" where
  "is_https_url B url = bindr (urlparse B (py_strip url)) (\<lambda>(scheme, netloc). Inr (scheme = ''https'' \<and> netloc \<noteq> []))"

definition sanitize_url :: "(string \<Rightarrow> bool) \<Rightarrow> string \<Rightarrow> string res" where
  "sanitize_url B url =
     bindr (is_https_url B url) (\<lambda>ok.
       if \<not> ok then Inl (DocumentValidationError ''url_must_be_https'') else Inr (py_strip url))"

section \<open>The model's own validators\<close>

definition validate_href :: "(string \<Rightarrow> bool) \<Rightarrow> string option \<Rightarrow> string option res" where
  "validate_href B v = (case v of None \<Rightarrow> Inr None | Some u \<Rightarrow> bindr (sanitize_url B u) (\<lambda>w. Inr (Some w)))"

definition validate_src :: "(string \<Rightarrow> bool) \<Rightarrow> string option \<Rightarrow> string option res" where
  "validate_src B v = (case v of None \<Rightarrow> Inr None | Some u \<Rightarrow> bindr (sanitize_url B u) (\<lambda>w. Inr (Some w)))"

definition validate_heading_level :: "BlockType \<Rightarrow> int option \<Rightarrow> string option \<Rightarrow> unit res" where
  "validate_heading_level t level src =
     (if t = HEADING \<and> level = None then Inl (ValueError ''heading_requires_level'')
      else if t = IMAGE \<and> \<not> truthy_str src then Inl (ValueError ''image_requires_src'')
      else Inr ())"

definition validate_schema :: "string \<Rightarrow> string res" where
  "validate_schema v = (if v \<noteq> ''memdot-document'' then Inl (ValueError ''invalid_schema'') else Inr v)"

definition validate_version :: "int \<Rightarrow> int res" where
  "validate_version v = (if v \<noteq> 1 then Inl (ValueError ''unsupported_schema_version'') else Inr v)"

section \<open>Block identifiers and links\<close>

definition note_block_id :: "json \<Rightarrow> string list \<Rightarrow> string list res" where
  "note_block_id block_id seen =
     (if \<not> truthy block_id then Inr seen
      else if \<not> hashable block_id then Inl TypeError
      else if block_id \<in> JStr ` set seen then Inl (DocumentValidationError ''duplicate_block_id'')
      else Inr (py_str block_id # seen))"

definition check_mark :: "(string \<Rightarrow> bool) \<Rightarrow> json \<Rightarrow> unit res" where
  "check_mark B mark =
     (case mark of
        JObj m \<Rightarrow>
          if jget m ''type'' = JStr ''link'' then
            bindr (jattr (jor (jget m ''attrs'') (JObj [])) ''href'') (\<lambda>href.
              if truthy href then bindr (sanitize_url B (py_str href)) (\<lambda>_. Inr ()) else Inr ())
          else Inr ()
      | _ \<Rightarrow> Inr ())"

definition check_marks :: "(string \<Rightarrow> bool) \<Rightarrow> dict \<Rightarrow> unit res" where
  "check_marks B c =
     bindr (py_iter (jor (jget c ''marks'') (JList []))) (\<lambda>marks. fold_res (\<lambda>mark _. check_mark B mark) marks ())"

function collect_block_ids :: "(string \<Rightarrow> bool) \<Rightarrow> dict \<Rightarrow> string list \<Rightarrow> string list res" where
  "collect_block_ids B node seen =
     bindr (jattr (jor (jget node ''attrs'') (JObj [])) ''blockId'') (\<lambda>block_id.
     bindr (note_block_id block_id seen) (\<lambda>seen1.
     bindr (kids node) (\<lambda>children.
       fold_res (\<lambda>child seen.
         case child of
           JObj c \<Rightarrow> if is_text c then bindr (check_marks B c) (\<lambda>_. Inr seen) else collect_block_ids B c seen
         | _ \<Rightarrow> Inr seen) children seen1)))"
  by pat_completeness auto
termination by (relation "measure (\<lambda>(B, d, s). size (JObj d))") (use size_kids in \<open>auto simp del: json.size\<close>)

definition root_blocks :: "json \<Rightarrow> json list res" where
  "root_blocks node = bindr (jattr (jor node (JObj [])) ''content'') (\<lambda>c. py_iter (jor c (JList [])))"

definition validate_document_payload ::
    "(string \<Rightarrow> bool) \<Rightarrow> (dict \<Rightarrow> string + dict) \<Rightarrow> dict \<Rightarrow> dict res" where
  "validate_document_payload B model_validate payload =
     (case model_validate payload of
        Inl msg \<Rightarrow> Inl (DocumentValidationError msg)
      | Inr doc \<Rightarrow>
          bindr (root_blocks (jget payload ''root'')) (\<lambda>blocks.
          bindr (fold_res (\<lambda>block seen. case block of JObj b \<Rightarrow> collect_block_ids B b seen | _ \<Rightarrow> Inr seen) blocks [])
            (\<lambda>_. Inr doc)))"

section \<open>Plain text\<close>

text \<open>The argument of the exports: a validated model, by its dump, or a plain dict.\<close>

datatype doc_arg = Model dict | Plain dict

definition doc_root :: "doc_arg \<Rightarrow> json" where
  "doc_root doc = (case doc of Model dump \<Rightarrow> jget dump ''root'' | Plain d \<Rightarrow> jget d ''root'')"

definition canonical_document_json :: "(dict \<Rightarrow> string + dict) \<Rightarrow> doc_arg \<Rightarrow> string res" where
  "canonical_document_json model_validate doc =
     (case doc of
        Model dump \<Rightarrow> Inr (json_dumps (JObj dump))
      | Plain d \<Rightarrow> (case model_validate d of Inl msg \<Rightarrow> Inl (ValueError msg) | Inr dump \<Rightarrow> Inr (json_dumps (JObj dump))))"

definition content_sha256 :: "(string \<Rightarrow> string) \<Rightarrow> (dict \<Rightarrow> string + dict) \<Rightarrow> doc_arg \<Rightarrow> string res" where
  "content_sha256 sha model_validate doc = bindr (canonical_document_json model_validate doc) (\<lambda>t. Inr (sha t))"

definition inline_plain :: "dict \<Rightarrow> string" where
  "inline_plain node = py_str (jor (jget node ''text'') (JStr []))"

definition heading_level :: "dict \<Rightarrow> int res" where
  "heading_level node =
     bindr (jattr (jor (jget node ''attrs'') (JObj [])) ''level'') (\<lambda>level. json_int (jor level (JInt 1)))"

definition decorate_plain :: "dict \<Rightarrow> string \<Rightarrow> string res" where
  "decorate_plain node text =
     (let t = jget node ''type'' in
      if t = JStr ''heading'' \<and> text \<noteq> [] then
        bindr (heading_level node) (\<lambda>level. Inr (replicate (nat level) (CHR ''#'') @ CHR '' '' # text @ [CHR 0x0A]))
      else if \<not> hashable t then Inl TypeError
      else if t \<in> set [JStr ''paragraph'', JStr ''codeBlock'', JStr ''listItem''] \<and> text \<noteq> [] then Inr (text @ [CHR 0x0A])
      else if t = JStr ''blockquote'' \<and> text \<noteq> [] then Inr (''> '' @ text @ [CHR 0x0A])
      else Inr text)"

function block_plain :: "dict \<Rightarrow> string res" where
  "block_plain node =
     (if jget node ''type'' = JStr ''horizontalRule'' then Inr (CHR 0x0A # ''---'' @ [CHR 0x0A])
      else
        bindr (kids node) (\<lambda>children.
        bindr (map_res (\<lambda>child.
          case child of JObj c \<Rightarrow> if is_text c then Inr (inline_plain c) else block_plain c | _ \<Rightarrow> Inr []) children)
          (\<lambda>parts. decorate_plain node (py_strip (concat parts)))))"
  by pat_completeness auto
termination by (relation "measure (\<lambda>d. size (JObj d))") (use size_kids in \<open>auto simp del: json.size\<close>)

definition extract_plain_text :: "doc_arg \<Rightarrow> string res" where
  "extract_plain_text doc =
     bindr (root_blocks (doc_root doc)) (\<lambda>blocks.
     bindr (map_res (\<lambda>block. case block of JObj b \<Rightarrow> bindr (block_plain b) (\<lambda>t. Inr (py_strip t)) | _ \<Rightarrow> Inr []) blocks)
       (\<lambda>chunks. Inr (py_strip (py_join (CHR 0x0A) (filter (\<lambda>chunk. chunk \<noteq> []) chunks)))))"

declare collect_block_ids.simps [simp del] block_plain.simps [simp del]


section \<open>Markdown\<close>

definition is_linebreak :: "char \<Rightarrow> bool" where
  "is_linebreak c \<longleftrightarrow> (of_char c :: nat) \<in> {10, 11, 12, 13, 28, 29, 30, 133}"

text \<open>\<open>str.splitlines\<close>: a carriage return and a line feed together are one break.\<close>

function splitlines_from :: "string \<Rightarrow> string \<Rightarrow> string list" where
  "splitlines_from cur [] = (if cur = [] then [] else [rev cur])"
| "splitlines_from cur (c # s) =
     (if c = CHR 0x0D \<and> s \<noteq> [] \<and> hd s = CHR 0x0A then rev cur # splitlines_from [] (tl s)
      else if is_linebreak c then rev cur # splitlines_from [] s
      else splitlines_from (c # cur) s)"
  by pat_completeness auto
termination by (relation "measure (\<lambda>(cur, s). length s)") auto

definition splitlines :: "string \<Rightarrow> string list" where
  "splitlines s = splitlines_from [] s"

text \<open>The pattern of a heading on a stripped line: one to six number signs, white space, the rest.\<close>

definition heading_match :: "string \<Rightarrow> (nat \<times> string) option" where
  "heading_match s =
     (let n = length (takeWhile (\<lambda>c. c = CHR ''#'') s); r = dropWhile (\<lambda>c. c = CHR ''#'') s
      in if 1 \<le> n \<and> n \<le> 6 \<and> r \<noteq> [] \<and> is_space (hd r) then Some (n, dropWhile is_space r) else None)"

definition text_node :: "string \<Rightarrow> json" where
  "text_node t = JObj [(''type'', JStr ''text''), (''text'', JStr t)]"

definition markdown_block :: "uuid \<Rightarrow> string \<Rightarrow> json" where
  "markdown_block block_id stripped =
     (case heading_match stripped of
        Some (level, t) \<Rightarrow>
          JObj [(''type'', JStr ''heading''),
            (''attrs'', JObj [(''blockId'', JStr (str_uuid block_id)), (''level'', JInt (int level))]),
            (''content'', JList [text_node t])]
      | None \<Rightarrow>
          JObj [(''type'', JStr ''paragraph''), (''attrs'', JObj [(''blockId'', JStr (str_uuid block_id))]),
            (''content'', JList [text_node stripped])])"

fun markdown_blocks :: "(nat \<Rightarrow> uuid) \<Rightarrow> nat \<Rightarrow> string list \<Rightarrow> json list" where
  "markdown_blocks ids k [] = []"
| "markdown_blocks ids k (line # ls) =
     (let stripped = py_strip line
      in if stripped = [] then markdown_blocks ids k ls
         else markdown_block (ids k) stripped # markdown_blocks ids (k + 1) ls)"

definition document_from_markdown :: "(nat \<Rightarrow> uuid) \<Rightarrow> string \<Rightarrow> uuid option \<Rightarrow> dict" where
  "document_from_markdown ids markdown document_id =
     (let (doc_id, k) = (case document_id of Some u \<Rightarrow> (u, 0) | None \<Rightarrow> (ids 0, 1))
      in [(''schema'', JStr ''memdot-document''), (''schemaVersion'', JInt 1), (''documentId'', JStr (str_uuid doc_id)),
          (''root'', JObj [(''type'', JStr ''doc''), (''content'', JList (markdown_blocks ids k (splitlines markdown)))])])"

definition document_to_markdown :: "doc_arg \<Rightarrow> string res" where
  "document_to_markdown doc = extract_plain_text doc"

section \<open>HTML\<close>

definition html_escape_char :: "char \<Rightarrow> string" where
  "html_escape_char c =
     (if c = CHR ''&'' then ''&amp;'' else if c = CHR ''<'' then ''&lt;'' else if c = CHR ''>'' then ''&gt;''
      else if c = CHR 0x22 then ''&quot;'' else if c = CHR 0x27 then ''&#x27;'' else [c])"

definition html_escape :: "string \<Rightarrow> string" where
  "html_escape s = concat (map html_escape_char s)"

definition element :: "string \<Rightarrow> string \<Rightarrow> string" where
  "element tag inner = CHR ''<'' # tag @ CHR ''>'' # inner @ ''</'' @ tag @ ''>''"

definition anchor :: "string \<Rightarrow> string \<Rightarrow> string" where
  "anchor href inner = ''<a href='' @ CHR 0x22 # href @ CHR 0x22 # CHR ''>'' # inner @ ''</a>''"

definition img :: "string \<Rightarrow> string \<Rightarrow> string" where
  "img src alt = ''<img src='' @ CHR 0x22 # src @ CHR 0x22 # '' alt='' @ CHR 0x22 # alt @ CHR 0x22 # ''/>''"

definition unsupported_div :: "string \<Rightarrow> string" where
  "unsupported_div inner = ''<div data-unsupported>'' @ inner @ ''</div>''"

definition render_mark :: "json \<Rightarrow> string \<Rightarrow> string res" where
  "render_mark mark text =
     (case mark of
        JObj m \<Rightarrow>
          let mtype = jget m ''type'' in
          if mtype = JStr ''bold'' then Inr (element ''strong'' text)
          else if mtype = JStr ''italic'' then Inr (element ''em'' text)
          else if mtype = JStr ''code'' then Inr (element ''code'' text)
          else if mtype = JStr ''link'' then
            bindr (jattr (jor (jget m ''attrs'') (JObj [])) ''href'') (\<lambda>href.
              Inr (anchor (html_escape (py_str (jor href (JStr [])))) text))
          else Inr text
      | _ \<Rightarrow> Inr text)"

definition render_inline :: "dict \<Rightarrow> string res" where
  "render_inline node =
     bindr (py_iter (jor (jget node ''marks'') (JList []))) (\<lambda>marks.
       fold_res render_mark marks (html_escape (inline_plain node)))"

definition render_image :: "dict \<Rightarrow> string res" where
  "render_image node =
     (let attrs = jor (jget node ''attrs'') (JObj []) in
      bindr (jattr attrs ''src'') (\<lambda>src.
      bindr (jattr attrs ''alt'') (\<lambda>alt.
        Inr (img (html_escape (py_str (jor src (JStr [])))) (html_escape (py_str (jor alt (JStr []))))))))"

definition children_of :: "json list \<Rightarrow> dict list" where
  "children_of cs = concat (map (\<lambda>c. case c of JObj d \<Rightarrow> [d] | _ \<Rightarrow> []) cs)"

text \<open>
  \<open>render_block\<close>: \<open>inner\<close> renders text children as inline nodes, \<open>items\<close> renders every child as a block; the
  first is computed for every node, the second for lists only.
\<close>

function render_block :: "dict \<Rightarrow> string res" where
  "render_block node =
     bindr (kids node) (\<lambda>cs.
     bindr (map_res (\<lambda>child. if is_text child then render_inline child else render_block child) (children_of cs)) (\<lambda>rendered.
       let ntype = jget node ''type''; inner = concat rendered in
       if ntype = JStr ''heading'' then
         bindr (heading_level node) (\<lambda>level. Inr (element (CHR ''h'' # dec_int level) inner))
       else if ntype = JStr ''paragraph'' then Inr (element ''p'' inner)
       else if ntype = JStr ''codeBlock'' then Inr (element ''pre'' (element ''code'' inner))
       else if ntype = JStr ''blockquote'' then Inr (element ''blockquote'' inner)
       else if ntype = JStr ''horizontalRule'' then Inr ''<hr/>''
       else if ntype = JStr ''image'' then render_image node
       else if \<not> hashable ntype then Inl TypeError
       else if ntype \<in> set [JStr ''bulletList'', JStr ''orderedList''] then
         bindr (map_res render_block (children_of cs)) (\<lambda>items.
           Inr (element (if ntype = JStr ''bulletList'' then ''ul'' else ''ol'') (concat items)))
       else if ntype = JStr ''listItem'' then Inr (element ''li'' inner)
       else Inr (unsupported_div inner)))"
  by pat_completeness auto
termination
  by (relation "measure (\<lambda>d. size (JObj d))") (use size_kids in \<open>auto simp del: json.size simp: children_of_def split: json.splits\<close>)

declare render_block.simps [simp del]

definition document_to_html :: "doc_arg \<Rightarrow> string res" where
  "document_to_html doc =
     bindr (root_blocks (doc_root doc)) (\<lambda>blocks.
     bindr (map_res render_block (children_of blocks)) (\<lambda>body.
       Inr (''<!DOCTYPE html><html><body>'' @ concat body @ ''</body></html>'')))"


section \<open>Stripped text\<close>

definition trimmed :: "string \<Rightarrow> bool" where
  "trimmed s \<longleftrightarrow> s \<noteq> [] \<longrightarrow> \<not> is_space (hd s) \<and> \<not> is_space (last s)"

lemma dropWhile_hd: "s \<noteq> [] \<Longrightarrow> \<not> P (hd s) \<Longrightarrow> dropWhile P s = s"
  by (cases s) auto

lemma py_strip_trimmed: "trimmed s \<Longrightarrow> py_strip s = s"
  by (cases "s = []") (simp_all add: trimmed_def py_strip_def py_lstrip_def dropWhile_hd hd_rev)

lemma trimmed_py_strip: "trimmed (py_strip s)"
proof -
  let ?t = "dropWhile is_space s" and ?u = "dropWhile is_space (rev (dropWhile is_space s))"
  have "\<not> is_space (hd ?u)" if "?u \<noteq> []" using hd_dropWhile [OF that] .
  moreover have "last ?u = hd ?t" if "?u \<noteq> []"
  proof -
    obtain xs where x: "rev ?t = xs @ ?u" by (metis takeWhile_dropWhile_id)
    have "last (rev ?t) = last (xs @ ?u)" by (rule arg_cong [OF x])
    also have "\<dots> = last ?u" by (rule last_appendR [OF that])
    finally show ?thesis using that by (cases "?t = []") (simp_all add: last_rev)
  qed
  moreover have "\<not> is_space (hd ?t)" if "?u \<noteq> []"
  proof (rule hd_dropWhile)
    show "?t \<noteq> []" using that by (metis dropWhile.simps(1) rev.simps(1))
  qed
  ultimately show ?thesis by (simp add: trimmed_def py_strip_def py_lstrip_def hd_rev last_rev)
qed

lemma py_strip_snoc: "trimmed s \<Longrightarrow> is_space c \<Longrightarrow> py_strip (s @ [c]) = s"
  by (cases "s = []") (simp_all add: trimmed_def py_strip_def py_lstrip_def dropWhile_hd hd_rev)

lemma trimmed_append: "trimmed s \<Longrightarrow> trimmed t \<Longrightarrow> s \<noteq> [] \<Longrightarrow> t \<noteq> [] \<Longrightarrow> trimmed (s @ m @ t)"
  by (simp add: trimmed_def)

lemma trimmed_join: "\<forall>w \<in> set ws. w \<noteq> [] \<and> trimmed w \<Longrightarrow> trimmed (py_join d ws) \<and> (ws \<noteq> [] \<longrightarrow> py_join d ws \<noteq> [])"
  by (induction d ws rule: py_join.induct) (auto simp: trimmed_def)

lemma set_py_strip: "set (py_strip s) \<subseteq> set s"
proof -
  have sub: "set (dropWhile P t) \<subseteq> set t" for P and t :: string by (auto dest: set_dropWhileD)
  show ?thesis
    using sub [of is_space "rev (dropWhile is_space s)"] sub [of is_space s] by (auto simp: py_strip_def py_lstrip_def)
qed

section \<open>The normal form of imported Markdown\<close>

definition norm_line :: "string \<Rightarrow> string" where
  "norm_line s = (case heading_match s of Some (n, t) \<Rightarrow> replicate n (CHR ''#'') @ CHR '' '' # t | None \<Rightarrow> s)"

definition text_lines :: "string \<Rightarrow> string list" where
  "text_lines markdown = filter (\<lambda>s. s \<noteq> []) (map py_strip (splitlines markdown))"

definition markdown_normal :: "string \<Rightarrow> string" where
  "markdown_normal markdown = py_join (CHR 0x0A) (map norm_line (text_lines markdown))"

lemma heading_match_Some:
  assumes "heading_match s = Some (n, t)" and "trimmed s"
  shows "1 \<le> n \<and> n \<le> 6 \<and> t \<noteq> [] \<and> trimmed t \<and> set t \<subseteq> set s"
proof -
  let ?r = "dropWhile (\<lambda>c. c = CHR ''#'') s"
  have t: "t = dropWhile is_space ?r" and n: "1 \<le> n" "n \<le> 6" and r: "?r \<noteq> []"
    using assms(1) by (auto simp: heading_match_def Let_def split: if_splits)
  have s: "s \<noteq> []" using r by auto
  have lr: "last ?r = last s" using r by (metis last_appendR takeWhile_dropWhile_id)
  have "t \<noteq> []"
  proof
    assume "t = []"
    then have "\<forall>c \<in> set ?r. is_space c" by (simp add: t)
    then show False using last_in_set [OF r] lr assms(2) s by (simp add: trimmed_def)
  qed
  moreover have "last t = last ?r" using \<open>t \<noteq> []\<close> t by (metis last_appendR takeWhile_dropWhile_id)
  moreover have "\<not> is_space (hd t)" using \<open>t \<noteq> []\<close> t hd_dropWhile by metis
  moreover have "set t \<subseteq> set s" by (auto simp: t dest!: set_dropWhileD)
  ultimately show ?thesis using n lr assms(2) s by (simp add: trimmed_def)
qed

lemma heading_match_build:
  assumes "1 \<le> n" "n \<le> 6" "t \<noteq> []" "\<not> is_space (hd t)"
  shows "heading_match (replicate n (CHR ''#'') @ CHR '' '' # t) = Some (n, t)"
proof -
  have "is_space (CHR '' '')" by (simp add: is_space_def)
  then show ?thesis
    using assms by (simp add: heading_match_def takeWhile_append dropWhile_append dropWhile_hd)
qed

lemma norm_line_props:
  assumes "trimmed s" "s \<noteq> []"
  shows "trimmed (norm_line s)" "norm_line s \<noteq> []" "norm_line (norm_line s) = norm_line s"
    "set (norm_line s) \<subseteq> set s \<union> {CHR ''#'', CHR '' ''}"
proof -
  have hash: "\<not> is_space (CHR ''#'')" by (simp add: is_space_def)
  have "trimmed (norm_line s) \<and> norm_line s \<noteq> [] \<and> norm_line (norm_line s) = norm_line s \<and>
      set (norm_line s) \<subseteq> set s \<union> {CHR ''#'', CHR '' ''}"
  proof (cases "heading_match s")
    case None
    then show ?thesis using assms by (auto simp: norm_line_def)
  next
    case (Some nt)
    obtain n t where nt: "nt = (n, t)" by (cases nt)
    note h = heading_match_Some [OF Some [unfolded nt] assms(1)]
    have n: "norm_line s = replicate n (CHR ''#'') @ CHR '' '' # t" using Some nt by (simp add: norm_line_def)
    have "norm_line (norm_line s) = norm_line s"
      using heading_match_build [of n t] h by (simp add: n norm_line_def [of "replicate n (CHR ''#'') @ _"] trimmed_def)
    moreover have "trimmed (norm_line s)" unfolding n using h hash by (cases n) (auto simp: trimmed_def)
    ultimately show ?thesis using n h by (auto split: if_splits)
  qed
  then show "trimmed (norm_line s)" "norm_line s \<noteq> []" "norm_line (norm_line s) = norm_line s"
    "set (norm_line s) \<subseteq> set s \<union> {CHR ''#'', CHR '' ''}" by blast+
qed

lemma splitlines_no_break:
  "\<forall>c \<in> set cur. \<not> is_linebreak c \<Longrightarrow> l \<in> set (splitlines_from cur s) \<Longrightarrow> c \<in> set l \<Longrightarrow> \<not> is_linebreak c"
  by (induction cur s rule: splitlines_from.induct) (auto split: if_splits)

lemma splitlines_word:
  "\<forall>c \<in> set w. \<not> is_linebreak c \<Longrightarrow> splitlines_from cur (w @ s) = splitlines_from (rev w @ cur) s"
proof (induction w arbitrary: cur)
  case (Cons c w)
  then have "c \<noteq> CHR 0x0D" by (auto simp: is_linebreak_def)
  then show ?case using Cons by simp
qed simp

lemma splitlines_join:
  "\<forall>w \<in> set ws. w \<noteq> [] \<and> (\<forall>c \<in> set w. \<not> is_linebreak c) \<Longrightarrow> splitlines (py_join (CHR 0x0A) ws) = ws"
proof (induction "CHR 0x0A" ws rule: py_join.induct)
  case (2 w)
  then show ?case using splitlines_word [of w "[]" "[]"] by (simp add: splitlines_def)
next
  case (3 w w' ws)
  have "is_linebreak (CHR 0x0A)" by (simp add: is_linebreak_def)
  then show ?case using 3 splitlines_word [of w "[]"] by (simp add: splitlines_def)
qed (simp add: splitlines_def)

lemma text_lines_props:
  assumes "s \<in> set (text_lines markdown)"
  shows "s \<noteq> []" "trimmed s" "\<forall>c \<in> set s. \<not> is_linebreak c"
proof -
  obtain l where l: "l \<in> set (splitlines_from [] markdown)" "s = py_strip l" "s \<noteq> []"
    using assms by (auto simp: text_lines_def splitlines_def)
  then show "s \<noteq> []" "trimmed s" by (simp_all add: trimmed_py_strip)
  show "\<forall>c \<in> set s. \<not> is_linebreak c"
    using splitlines_no_break [of "[]" l markdown] set_py_strip [of l] l by auto
qed

lemma markdown_normal_idem: "markdown_normal (markdown_normal markdown) = markdown_normal markdown"
proof -
  let ?ls = "map norm_line (text_lines markdown)"
  have ok: "\<forall>w \<in> set ?ls. w \<noteq> [] \<and> trimmed w \<and> (\<forall>c \<in> set w. \<not> is_linebreak c) \<and> norm_line w = w"
  proof
    fix w assume "w \<in> set ?ls"
    then obtain s where s: "s \<in> set (text_lines markdown)" "w = norm_line s" by auto
    have p: "s \<noteq> []" "trimmed s" "\<forall>c \<in> set s. \<not> is_linebreak c" using text_lines_props [OF s(1)] by auto
    have "\<not> is_linebreak (CHR ''#'')" "\<not> is_linebreak (CHR '' '')" by (simp_all add: is_linebreak_def)
    then have "\<forall>c \<in> set w. \<not> is_linebreak c" using norm_line_props(4) [OF p(2,1)] p(3) s(2) by auto
    then show "w \<noteq> [] \<and> trimmed w \<and> (\<forall>c \<in> set w. \<not> is_linebreak c) \<and> norm_line w = w"
      using norm_line_props(1-3) [OF p(2,1)] s(2) by simp
  qed
  then have "splitlines (markdown_normal markdown) = ?ls"
    unfolding markdown_normal_def by (intro splitlines_join) auto
  then have "text_lines (markdown_normal markdown) = ?ls"
  proof -
    have "map py_strip ?ls = ?ls" using ok py_strip_trimmed by (intro map_idI) blast
    moreover have "filter (\<lambda>s. s \<noteq> []) ?ls = ?ls" using ok by (intro filter_True) blast
    ultimately show ?thesis by (simp only: text_lines_def [of "markdown_normal markdown"] \<open>splitlines (markdown_normal markdown) = ?ls\<close>)
  qed
  then have "markdown_normal (markdown_normal markdown) = py_join (CHR 0x0A) (map norm_line ?ls)"
    by (simp add: markdown_normal_def)
  also have "map norm_line ?ls = ?ls" using ok by (intro map_idI) auto
  finally show ?thesis by (simp add: markdown_normal_def)
qed


lemma block_plain_markdown:
  assumes "trimmed s" "s \<noteq> []"
  shows "\<exists>b. markdown_block u s = JObj b \<and> bindr (block_plain b) (\<lambda>t. Inr (py_strip t)) = Inr (norm_line s)"
proof -
  have sp: "is_space (CHR 0x0A)" by (simp add: is_space_def)
  show ?thesis
  proof (cases "heading_match s")
    case None
    then show ?thesis
      using assms sp by (simp add: markdown_block_def block_plain.simps kids_def jor_def text_node_def is_text_def
          inline_plain_def decorate_plain_def py_strip_trimmed py_strip_snoc norm_line_def)
  next
    case (Some nt)
    obtain n t where nt: "nt = (n, t)" by (cases nt)
    note h = heading_match_Some [OF Some [unfolded nt] assms(1)]
    have norm: "norm_line s = replicate n (CHR ''#'') @ CHR '' '' # t" using Some nt by (simp add: norm_line_def)
    then have "py_strip ((replicate n (CHR ''#'') @ CHR '' '' # t) @ [CHR 0x0A]) = norm_line s"
      using norm_line_props(1) [OF assms] sp py_strip_snoc by metis
    then show ?thesis
      using Some nt h norm by (simp add: markdown_block_def block_plain.simps kids_def jor_def text_node_def is_text_def
          inline_plain_def decorate_plain_def heading_level_def py_strip_trimmed)
  qed
qed

lemma markdown_blocks_plain:
  "map_res (\<lambda>block. case block of JObj b \<Rightarrow> bindr (block_plain b) (\<lambda>t. Inr (py_strip t)) | _ \<Rightarrow> Inr [])
     (markdown_blocks ids k ls) = Inr (map norm_line (filter (\<lambda>s. s \<noteq> []) (map py_strip ls)))"
proof (induction ls arbitrary: k)
  case (Cons l ls)
  show ?case
  proof (cases "py_strip l = []")
    case True
    then show ?thesis using Cons by simp
  next
    case False
    obtain b where b: "markdown_block (ids k) (py_strip l) = JObj b"
      "bindr (block_plain b) (\<lambda>t. Inr (py_strip t)) = Inr (norm_line (py_strip l))"
      using block_plain_markdown [OF trimmed_py_strip False] by blast
    then show ?thesis using Cons [of "Suc k"] False by simp
  qed
qed simp

section \<open>The HTML that the export can produce\<close>

text \<open>
  Text and attribute values without markup characters, elements from a fixed list, links, images, rules and the
  marker of an unsupported block; nothing else.
\<close>

definition no_markup :: "string \<Rightarrow> bool" where
  "no_markup s \<longleftrightarrow> (\<forall>c \<in> set s. c \<notin> set [CHR ''<'', CHR ''>'', CHR 0x22, CHR 0x27])"

inductive html_ok :: "string \<Rightarrow> bool" where
  html_text: "no_markup s \<Longrightarrow> html_ok s"
| html_append: "html_ok s \<Longrightarrow> html_ok t \<Longrightarrow> html_ok (s @ t)"
| html_element: "tag \<in> set [''strong'', ''em'', ''code'', ''p'', ''pre'', ''blockquote'', ''ul'', ''ol'', ''li''] \<Longrightarrow>
    html_ok s \<Longrightarrow> html_ok (element tag s)"
| html_heading: "html_ok s \<Longrightarrow> html_ok (element (CHR ''h'' # dec_int n) s)"
| html_anchor: "no_markup href \<Longrightarrow> html_ok s \<Longrightarrow> html_ok (anchor href s)"
| html_img: "no_markup src \<Longrightarrow> no_markup alt \<Longrightarrow> html_ok (img src alt)"
| html_hr: "html_ok ''<hr/>''"
| html_div: "html_ok s \<Longrightarrow> html_ok (unsupported_div s)"

lemma no_markup_escape: "no_markup (html_escape s)"
  by (auto simp: no_markup_def html_escape_def html_escape_char_def split: if_splits)

lemma html_ok_concat: "\<forall>s \<in> set ss. html_ok s \<Longrightarrow> html_ok (concat ss)"
proof (induction ss)
  case Nil
  show ?case by (rule html_text) (simp add: no_markup_def)
qed (simp add: html_append)

lemma map_res_all: "map_res f xs = Inr ys \<Longrightarrow> (\<And>x y. x \<in> set xs \<Longrightarrow> f x = Inr y \<Longrightarrow> P y) \<Longrightarrow> \<forall>y \<in> set ys. P y"
  unfolding map_res_Inr_iff by (induction xs ys rule: list_all2_induct) auto

lemma render_inline_ok: "render_inline c = Inr s \<Longrightarrow> html_ok s"
proof -
  assume "render_inline c = Inr s"
  then obtain marks where m: "fold_res render_mark marks (html_escape (inline_plain c)) = Inr s"
    by (auto simp: render_inline_def bindr_Inr_iff)
  show ?thesis
  proof (rule fold_res_inv [where P = html_ok, OF m])
    show "html_ok (html_escape (inline_plain c))" by (intro html_text no_markup_escape)
    fix mark t t' assume "html_ok t" "render_mark mark t = Inr t'"
    then show "html_ok t'"
      by (auto simp: render_mark_def Let_def bindr_Inr_iff no_markup_escape intro: html_element html_anchor
          split: json.splits if_splits)
  qed
qed

lemma children_smaller: "kids node = Inr cs \<Longrightarrow> c \<in> set (children_of cs) \<Longrightarrow> size (JObj c) < size (JObj node)"
  using size_kids [of node cs c] by (auto simp: children_of_def split: json.splits)

lemma render_block_ok: "render_block node = Inr s \<Longrightarrow> html_ok s"
proof (induction "size (JObj node)" arbitrary: node s rule: less_induct)
  case less
  obtain cs rendered where k: "kids node = Inr cs"
    and r: "map_res (\<lambda>child. if is_text child then render_inline child else render_block child) (children_of cs) = Inr rendered"
    using less.prems by (subst (asm) render_block.simps) (auto simp: bindr_Inr_iff)
  have ih: "html_ok y" if "x \<in> set (children_of cs)" "render_block x = Inr y" for x y
    using less.hyps [OF children_smaller [OF k that(1)] that(2)] .
  have "\<forall>y \<in> set rendered. html_ok y"
    by (rule map_res_all [OF r]) (use ih render_inline_ok in \<open>auto split: if_splits\<close>)
  then have inner: "html_ok (concat rendered)" by (rule html_ok_concat)
  have items: "html_ok (concat ys)" if "map_res render_block (children_of cs) = Inr ys" for ys
    using map_res_all [OF that ih] by (rule html_ok_concat)
  have pre: "html_ok (element ''pre'' (element ''code'' (concat rendered)))"
    using inner by (intro html_element) auto
  have image: "render_image node = Inr t \<Longrightarrow> html_ok t" for t
    by (auto simp: render_image_def Let_def bindr_Inr_iff no_markup_escape intro: html_img)
  show ?case
    using less.prems k r inner items image pre
    by (subst (asm) render_block.simps)
      (auto simp: Let_def bindr_Inr_iff intro: html_element html_heading html_hr html_div split: if_splits)
qed

section \<open>The nodes of a document\<close>

text \<open>Block nodes in document order, the text nodes below them and the string identifiers of the blocks.\<close>

function block_nodes :: "dict \<Rightarrow> dict list" where
  "block_nodes node =
     node # (case kids node of
               Inl _ \<Rightarrow> []
             | Inr cs \<Rightarrow> concat (map (\<lambda>c. case c of JObj d \<Rightarrow> if is_text d then [] else block_nodes d | _ \<Rightarrow> []) cs))"
  by pat_completeness auto
termination by (relation "measure (\<lambda>d. size (JObj d))") (use size_kids in \<open>auto simp del: json.size\<close>)

declare block_nodes.simps [simp del]

definition document_blocks :: "dict \<Rightarrow> dict list" where
  "document_blocks payload =
     (case root_blocks (jget payload ''root'') of
        Inl _ \<Rightarrow> []
      | Inr bs \<Rightarrow> concat (map block_nodes (children_of bs)))"

definition string_id :: "dict \<Rightarrow> string list" where
  "string_id node =
     (case jor (jget node ''attrs'') (JObj []) of
        JObj a \<Rightarrow> (case jget a ''blockId'' of JStr s \<Rightarrow> if s = [] then [] else [s] | _ \<Rightarrow> [])
      | _ \<Rightarrow> [])"

definition texts_of :: "dict \<Rightarrow> dict list" where
  "texts_of node = (case kids node of Inl _ \<Rightarrow> [] | Inr cs \<Rightarrow> filter is_text (children_of cs))"

definition mark_href :: "json \<Rightarrow> string list" where
  "mark_href mark =
     (case mark of
        JObj m \<Rightarrow>
          if jget m ''type'' = JStr ''link'' then
            (case jattr (jor (jget m ''attrs'') (JObj [])) ''href'' of
               Inr h \<Rightarrow> if truthy h then [py_str h] else []
             | Inl _ \<Rightarrow> [])
          else []
      | _ \<Rightarrow> [])"

definition link_hrefs :: "dict \<Rightarrow> string list" where
  "link_hrefs c =
     (case py_iter (jor (jget c ''marks'') (JList [])) of Inl _ \<Rightarrow> [] | Inr marks \<Rightarrow> concat (map mark_href marks))"

lemma note_block_id_Inr:
  assumes "jattr (jor (jget node ''attrs'') (JObj [])) ''blockId'' = Inr bid" and "note_block_id bid seen = Inr seen1"
  shows "set seen \<union> set (string_id node) \<subseteq> set seen1 \<and> set (string_id node) \<inter> set seen = {} \<and> distinct (string_id node)"
  using assms
  by (cases "jor (jget node ''attrs'') (JObj [])")
    (auto simp: note_block_id_def string_id_def split: if_splits json.splits)

lemma check_mark_Inr: "check_mark B m = Inr u \<Longrightarrow> h \<in> set (mark_href m) \<Longrightarrow> is_https_url B h = Inr True"
proof (cases m)
  case (JObj d)
  assume a: "check_mark B m = Inr u" "h \<in> set (mark_href m)"
  then have link: "jget d ''type'' = JStr ''link''" 
    by (cases "jget d ''type'' = JStr ''link''") (simp_all add: mark_href_def JObj)
  show ?thesis
    using a by (cases "jattr (jor (jget d ''attrs'') (JObj [])) ''href''")
      (auto simp: JObj link mark_href_def check_mark_def sanitize_url_def bindr_Inr_iff if_Inr_iff split: if_split_asm)
qed (simp_all add: mark_href_def)

lemma check_marks_Inr:
  assumes "check_marks B c = Inr u" and "h \<in> set (link_hrefs c)"
  shows "is_https_url B h = Inr True"
proof -
  obtain marks where m: "py_iter (jor (jget c ''marks'') (JList [])) = Inr marks"
    and f: "fold_res (\<lambda>mark _. check_mark B mark) marks () = Inr ()"
    using assms(1) by (auto simp: check_marks_def bindr_Inr_iff)
  have "check_mark B mk = Inr ()" if "mk \<in> set marks" for mk
    using f that by (induction marks) (auto simp: bindr_Inr_iff)
  then show ?thesis using assms(2) m check_mark_Inr by (auto simp: link_hrefs_def)
qed

lemma kids_texts: "kids node = Inr cs \<Longrightarrow> c \<in> set (texts_of node) \<longleftrightarrow> JObj c \<in> set cs \<and> is_text c"
  by (force simp: texts_of_def children_of_def split: json.splits)

text \<open>
  What the walk establishes for a list of nodes: the identifiers it meets are new and distinct, it remembers
  them, and every link below them is an HTTPS URL.
\<close>

definition walked :: "(string \<Rightarrow> bool) \<Rightarrow> dict list \<Rightarrow> string list \<Rightarrow> string list \<Rightarrow> bool" where
  "walked B nodes seen seen' \<longleftrightarrow>
     (let ids = concat (map string_id nodes) in
      set seen \<union> set ids \<subseteq> set seen' \<and> set ids \<inter> set seen = {} \<and> distinct ids) \<and>
     (\<forall>n \<in> set nodes. \<forall>c \<in> set (texts_of n). \<forall>h \<in> set (link_hrefs c). is_https_url B h = Inr True)"

lemma walked_append:
  "walked B xs seen seen1 \<Longrightarrow> walked B ys seen1 seen2 \<Longrightarrow> walked B (xs @ ys) seen seen2"
  unfolding walked_def Let_def map_append concat_append set_append distinct_append by blast

lemma walked_Nil: "set seen \<subseteq> set seen' \<Longrightarrow> walked B [] seen seen'"
  by (simp add: walked_def)

lemma walked_fold:
  assumes "fold_res f xs seen = Inr seen'"
    and "\<And>x s s'. x \<in> set xs \<Longrightarrow> f x s = Inr s' \<Longrightarrow> walked B (g x) s s'"
  shows "walked B (concat (map g xs)) seen seen'"
  using assms
proof (induction xs arbitrary: seen)
  case (Cons x xs)
  then obtain s1 where "f x seen = Inr s1" "fold_res f xs s1 = Inr seen'" by (auto simp: bindr_Inr_iff)
  then show ?case using Cons walked_append by fastforce
qed (simp add: walked_Nil)

lemma collect_block_ids_walked:
  "collect_block_ids B node seen = Inr seen' \<Longrightarrow> walked B (block_nodes node) seen seen'"
proof (induction "size (JObj node)" arbitrary: node seen seen' rule: less_induct)
  case less
  let ?g = "\<lambda>c. case c of JObj d \<Rightarrow> if is_text d then [] else block_nodes d | _ \<Rightarrow> []"
  let ?f = "\<lambda>child seen. case child of
      JObj c \<Rightarrow> if is_text c then bindr (check_marks B c) (\<lambda>_. Inr seen) else collect_block_ids B c seen | _ \<Rightarrow> Inr seen"
  obtain bid seen1 cs where b: "jattr (jor (jget node ''attrs'') (JObj [])) ''blockId'' = Inr bid"
    "note_block_id bid seen = Inr seen1" and k: "kids node = Inr cs" and f: "fold_res ?f cs seen1 = Inr seen'"
    using less.prems by (subst (asm) collect_block_ids.simps) (auto simp: bindr_Inr_iff)
  have step: "walked B (?g x) s s'" if x: "x \<in> set cs" and s: "?f x s = Inr s'" for x s s'
  proof (cases x)
    case (JObj d)
    have "size (JObj d) < size (JObj node)" using size_kids [OF k] x JObj by blast
    then show ?thesis
      using s JObj less.hyps [of d s s'] by (cases "is_text d") (auto simp: bindr_Inr_iff walked_Nil)
  qed (use s in \<open>simp_all add: walked_Nil\<close>)
  have texts: "is_https_url B h = Inr True" if c: "c \<in> set (texts_of node)" and h: "h \<in> set (link_hrefs c)" for c h
  proof -
    have "JObj c \<in> set cs" "is_text c" using c kids_texts [OF k] by auto
    then have "\<exists>u. check_marks B c = Inr u"
      using f by (induction cs arbitrary: seen1) (auto simp: bindr_Inr_iff)
    then show ?thesis using check_marks_Inr h by blast
  qed
  have "walked B [node] seen seen1" using note_block_id_Inr [OF b] texts by (simp add: walked_def Let_def)
  from walked_append [OF this walked_fold [OF f step]] show ?case
    by (subst block_nodes.simps) (simp add: k)
qed

section \<open>Properties\<close>

text \<open>
  (C36) A payload that passes validation obeys the document policy at every depth: no two blocks carry the same
  textual identifier, and every link of every text node is an HTTPS URL with a host.
\<close>

theorem validated_document_policy:
  assumes "validate_document_payload B model_validate payload = Inr doc"
  shows "distinct (concat (map string_id (document_blocks payload))) \<and>
    (\<forall>n \<in> set (document_blocks payload). \<forall>c \<in> set (texts_of n). \<forall>h \<in> set (link_hrefs c). is_https_url B h = Inr True)"
proof -
  obtain blocks seen' where r: "root_blocks (jget payload ''root'') = Inr blocks"
    and f: "fold_res (\<lambda>block seen. case block of JObj b \<Rightarrow> collect_block_ids B b seen | _ \<Rightarrow> Inr seen) blocks [] = Inr seen'"
    using assms by (auto simp: validate_document_payload_def bindr_Inr_iff split: sum.splits)
  have "walked B (concat (map (\<lambda>b. case b of JObj d \<Rightarrow> block_nodes d | _ \<Rightarrow> []) blocks)) [] seen'"
    by (rule walked_fold [OF f]) (auto simp: walked_Nil intro: collect_block_ids_walked split: json.splits)
  moreover have "concat (map (\<lambda>b. case b of JObj d \<Rightarrow> block_nodes d | _ \<Rightarrow> []) blocks) = document_blocks payload"
    unfolding document_blocks_def r by (induction blocks) (auto simp: children_of_def split: json.splits)
  ultimately have "walked B (document_blocks payload) [] seen'" by simp
  then show ?thesis by (auto simp: walked_def Let_def)
qed


definition demo_document :: dict where
  "demo_document =
     [(''schema'', JStr ''memdot-document''), (''root'', JObj [(''type'', JStr ''doc''), (''content'', JList
        [JObj [(''type'', JStr ''blockquote''), (''attrs'', JObj [(''blockId'', JStr ''a'')]), (''content'', JList
           [JObj [(''type'', JStr ''paragraph''), (''attrs'', JObj [(''blockId'', JStr ''b'')]), (''content'', JList
              [JObj [(''type'', JStr ''text''), (''text'', JStr ''<x>''), (''marks'', JList
                 [JObj [(''type'', JStr ''link''), (''attrs'', JObj [(''href'', JStr ''https://m.dev/a'')])]])]])]])]])])]"

lemma demo_https: "is_https_url B ''https://m.dev/a'' = Inr True"
  by (simp add: is_https_url_def urlparse_def split_scheme_def starts_with_def py_strip_def py_lstrip_def is_space_def
      is_alpha_def scheme_char_def py_lower_def lower_char_def Let_def)

lemma demo_document_validates: "validate_document_payload B Inr demo_document = Inr demo_document"
  by (simp add: validate_document_payload_def demo_document_def root_blocks_def jor_def collect_block_ids.simps kids_def
      is_text_def check_marks_def check_mark_def sanitize_url_def demo_https note_block_id_def image_iff)

theorem validated_document_policy_witness:
  "validate_document_payload (\<lambda>_. True) Inr demo_document = Inr demo_document \<and>
     distinct (concat (map string_id (document_blocks demo_document)))"
  using validated_document_policy [OF demo_document_validates] demo_document_validates by blast

text \<open>
  Importing Markdown and exporting it again gives the normal form of the text: its non-blank lines, stripped,
  with one space after the signs of a heading. The normal form is a fixed point, so nothing drifts over further
  round trips, whatever identifiers the blocks are given.
\<close>

theorem markdown_round_trip:
  "document_to_markdown (Plain (document_from_markdown ids markdown document_id)) = Inr (markdown_normal markdown) \<and>
   document_to_markdown (Plain (document_from_markdown ids' (markdown_normal markdown) document_id'))
     = Inr (markdown_normal markdown)"
proof -
  have one: "document_to_markdown (Plain (document_from_markdown ids md did)) = Inr (markdown_normal md)" for ids md did
  proof -
    define k where "k = (if did = None then 1 else 0 :: nat)"
    define blocks where "blocks = markdown_blocks ids k (splitlines md)"
    have r: "root_blocks (doc_root (Plain (document_from_markdown ids md did))) = Inr blocks"
      by (cases did) (auto simp: root_blocks_def doc_root_def document_from_markdown_def jor_def k_def blocks_def)
    have ls: "\<forall>w \<in> set (map norm_line (text_lines md)). w \<noteq> [] \<and> trimmed w"
      using text_lines_props norm_line_props by fastforce
    then have "py_strip (markdown_normal md) = markdown_normal md"
      unfolding markdown_normal_def using trimmed_join py_strip_trimmed by blast
    moreover have "filter (\<lambda>chunk. chunk \<noteq> []) (map norm_line (text_lines md)) = map norm_line (text_lines md)"
      using ls by (intro filter_True) blast
    ultimately show ?thesis
      unfolding document_to_markdown_def extract_plain_text_def r blocks_def bindr_simps markdown_blocks_plain
      by (simp only: bindr_simps markdown_normal_def text_lines_def [symmetric])
  qed
  show ?thesis using one one [of ids' "markdown_normal markdown" document_id'] by (simp add: markdown_normal_idem)
qed

text \<open>
  (C35) The HTML export passes no markup through: whatever the document holds, at any depth and of any JSON type,
  the body is made of escaped text and of elements from the fixed list \<open>html_ok\<close>, with escaped attribute values
  (no scripts, no other tags or attributes, every element closed).
\<close>

theorem html_export_is_safe:
  assumes "document_to_html doc = Inr s"
  shows "\<exists>body. s = ''<!DOCTYPE html><html><body>'' @ body @ ''</body></html>'' \<and> html_ok body"
proof -
  obtain blocks body where b: "map_res render_block (children_of blocks) = Inr body"
    and s: "s = ''<!DOCTYPE html><html><body>'' @ concat body @ ''</body></html>''"
    using assms by (auto simp: document_to_html_def bindr_Inr_iff)
  have "\<forall>y \<in> set body. html_ok y" by (rule map_res_all [OF b]) (rule render_block_ok)
  then show ?thesis using s html_ok_concat by blast
qed

theorem html_export_is_safe_witness:
  "\<exists>s body. document_to_html (Plain demo_document) = Inr s \<and>
     s = ''<!DOCTYPE html><html><body>'' @ body @ ''</body></html>'' \<and> html_ok body"
proof -
  have "\<exists>s. document_to_html (Plain demo_document) = Inr s"
    by (simp add: document_to_html_def demo_document_def root_blocks_def doc_root_def jor_def children_of_def
        render_block.simps kids_def is_text_def render_inline_def render_mark_def inline_plain_def)
  then show ?thesis using html_export_is_safe by blast
qed

text \<open>
  The walk looks at identifiers and links only: a block below another one may carry any image address. Validation
  of such a document depends on the model alone, which types nested content as \<open>Any\<close>.
\<close>

lemma nested_image_unchecked:
  assumes "model_validate [(''root'', JObj [(''content'', JList [JObj [(''content'', JList
      [JObj [(''type'', JStr ''image''), (''attrs'', JObj [(''src'', JStr src)])]])]])])] = Inr doc"
  shows "validate_document_payload B model_validate [(''root'', JObj [(''content'', JList [JObj [(''content'', JList
      [JObj [(''type'', JStr ''image''), (''attrs'', JObj [(''src'', JStr src)])]])]])])] = Inr doc"
  using assms
  by (simp add: validate_document_payload_def root_blocks_def jor_def collect_block_ids.simps kids_def is_text_def
      note_block_id_def)

end
