(* ===== verification/Pointers.thy ===== *)
theory Pointers
  imports Deletion
begin

text \<open>
  What the database functions \<open>memdot_set_current_*_revision\<close> share (migrations 0001 and 0003, called through
  \<open>services/core/src/memdot_core/db/tenant.py\<close>): who may move a pointer, how a repeated event is
  recognised, the outbox event written with every move; and the contract their callers rely on, as a locale
  that the document and the memory pointers interpret.
\<close>

section \<open>Shared steps\<close>

definition pointer_authorized :: "env \<Rightarrow> uuid \<Rightarrow> 'a core_db_scheme \<Rightarrow> unit res" where
  "pointer_authorized E account_id d =
     guard_res (memdot_rls_ok E d account_id \<and> set_purpose (settings d) \<in> set [''first_party'', ''worker''])
       (DBAPIError ''pointer_authorization_denied'')"

definition find_event :: "uuid \<Rightarrow> uuid \<Rightarrow> 'a core_db_scheme \<Rightarrow> OutboxEvent option" where
  "find_event account_id event_id d = find (\<lambda>e. oe_account_id e = account_id \<and> oe_id e = event_id) (t_outbox d)"

definition pointer_event :: "env \<Rightarrow> uuid \<Rightarrow> uuid \<Rightarrow> string \<Rightarrow> string \<Rightarrow> dict \<Rightarrow> OutboxEvent" where
  "pointer_event E event_id account_id event_type payload_hash payload =
     \<lparr> oe_id = event_id, oe_account_id = account_id, oe_event_type = event_type, oe_payload_sha256 = payload_hash,
       oe_payload = payload, oe_durable_job_id = None, oe_created_at = now E, oe_published_at = None,
       oe_claim_token = None, oe_claim_expires_at = None, oe_claimed_by = None \<rparr>"

text \<open>The trigger \<open>memdot_deny_private_space_relabel\<close> on an update that changes the space of a row.\<close>

definition visibility_of :: "uuid \<Rightarrow> uuid \<Rightarrow> 'a core_db_scheme \<Rightarrow> string option" where
  "visibility_of account_id space_id d =
     map_option sp_visibility (find (\<lambda>s. sp_id s = space_id \<and> sp_account_id s = account_id) (t_space d))"

definition private_relabel :: "uuid \<Rightarrow> uuid \<Rightarrow> uuid \<Rightarrow> 'a core_db_scheme \<Rightarrow> unit res" where
  "private_relabel account_id old_space new_space d =
     guard_res (\<not> (new_space \<noteq> old_space \<and> visibility_of account_id old_space d = Some ''private'' \<and>
         visibility_of account_id new_space d \<noteq> Some ''private''))
       (DBAPIError ''private_parent_space_relabel_denied'')"

lemma pointer_event_sel [simp]:
  "oe_id (pointer_event E i a ty h p) = i" "oe_account_id (pointer_event E i a ty h p) = a"
  "oe_payload_sha256 (pointer_event E i a ty h p) = h"
  by (simp_all add: pointer_event_def)

lemma find_SomeD: "find P xs = Some x \<Longrightarrow> x \<in> set xs \<and> P x"
  by (induction xs) (auto split: if_splits)

lemma find_snoc: "find P (xs @ [x]) = (case find P xs of None \<Rightarrow> if P x then Some x else None | Some y \<Rightarrow> Some y)"
  by (induction xs) auto

lemma find_update_rows:
  "(\<And>r. sel r \<Longrightarrow> P (f r) = P r) \<Longrightarrow>
     find P (update_rows sel f rows) = map_option (\<lambda>r. if sel r then f r else r) (find P rows)"
  by (induction rows) (auto simp: update_rows_def)

lemma find_event_appended:
  assumes "find_event a i d = None" and "t_outbox d' = t_outbox d @ [pointer_event E i a ty h p]"
  shows "find_event a i d' = Some (pointer_event E i a ty h p)"
  using assms by (simp add: find_event_def find_snoc)

section \<open>The contract\<close>

text \<open>
  An entity has at most one current revision. A call for a new event moves the pointer of its entity to a
  revision of that entity, leaves the other pointers alone and writes the event; a call for an event that is
  already recorded changes nothing, and is accepted only for the payload and the revision the event stands for.
\<close>

locale revision_pointer =
  fixes current :: "'d \<Rightarrow> uuid \<times> uuid \<Rightarrow> uuid option"
    and known :: "'d \<Rightarrow> uuid \<Rightarrow> uuid \<Rightarrow> uuid \<Rightarrow> uuid \<Rightarrow> bool"
    and event :: "'d \<Rightarrow> uuid \<Rightarrow> uuid \<Rightarrow> OutboxEvent option"
    and move :: "env \<Rightarrow> uuid \<Rightarrow> uuid \<Rightarrow> uuid \<Rightarrow> uuid \<Rightarrow> uuid \<Rightarrow> uuid \<Rightarrow> string \<Rightarrow> dict \<Rightarrow> 'd \<Rightarrow> 'd res"
  assumes move_new:
      "move E p a sp e r ev h pl d = Inr d' \<Longrightarrow> event d a ev = None \<Longrightarrow>
         known d a sp e r \<and> current d' = (current d)((a, e) \<mapsto> r) \<and>
         (\<exists>x. event d' a ev = Some x \<and> oe_payload_sha256 x = h)"
    and move_again:
      "move E p a sp e r ev h pl d = Inr d' \<Longrightarrow> event d a ev = Some x \<Longrightarrow>
         d' = d \<and> oe_payload_sha256 x = h \<and> current d (a, e) = Some r"
begin

lemma move_current: "move E p a sp e r ev h pl d = Inr d' \<Longrightarrow> current d' (a, e) = Some r"
  using move_new [of E p a sp e r ev h pl d d'] move_again [of E p a sp e r ev h pl d d']
  by (cases "event d a ev") auto

lemma move_other:
  "move E p a sp e r ev h pl d = Inr d' \<Longrightarrow> k \<noteq> (a, e) \<Longrightarrow> current d' k = current d k"
  using move_new [of E p a sp e r ev h pl d d'] move_again [of E p a sp e r ev h pl d d']
  by (cases "event d a ev") auto

lemma move_twice:
  assumes "move E p a sp e r ev h pl d = Inr d'" and "move E' p' a sp' e' r' ev h' pl' d' = Inr d''"
  shows "d'' = d' \<and> h' = h \<and> current d' (a, e') = Some r'"
proof -
  obtain x where "event d' a ev = Some x" "oe_payload_sha256 x = h"
    using move_new [OF assms(1)] move_again [OF assms(1)] by (cases "event d a ev") auto
  then show ?thesis using move_again [OF assms(2)] by auto
qed

lemma move_unknown:
  "event d a ev = None \<Longrightarrow> \<not> known d a sp e r \<Longrightarrow> move E p a sp e r ev h pl d \<noteq> Inr d'"
  using move_new [of E p a sp e r ev h pl d d'] by blast

end

text \<open>
  With the stored revisions made explicit: a pointer can only ever be set to a revision that the database holds
  already, and setting it stores none.
\<close>

locale stored_pointer = revision_pointer +
  fixes stored :: "'a \<Rightarrow> uuid set"
  assumes known_stored: "known d a sp e r \<Longrightarrow> r \<in> stored d"
    and move_stores: "move E p a sp e r ev h pl d = Inr d' \<Longrightarrow> stored d' = stored d"
begin

definition pointers_ok :: "'a \<Rightarrow> bool" where
  "pointers_ok d \<longleftrightarrow> (\<forall>k r. current d k = Some r \<longrightarrow> r \<in> stored d)"

lemma move_to_stored:
  assumes "move E p a sp e r ev h pl d = Inr d'" and "pointers_ok d"
  shows "r \<in> stored d'"
proof (cases "event d a ev")
  case None
  then show ?thesis using move_new [OF assms(1)] known_stored move_stores [OF assms(1)] by blast
next
  case (Some x)
  then show ?thesis using move_again [OF assms(1)] assms(2) by (auto simp: pointers_ok_def)
qed

end

end
