(* ===== verification/Documents.thy ===== *)
theory Documents
  imports Pointers Document
begin

text \<open>
  The document service, \<open>services/core/src/memdot_core/documents/service.py\<close>, over the tables of \<open>ledger.py\<close>, and the
  database function \<open>memdot_set_current_document_revision\<close> (migration 0001). The document format itself is in
  \<open>Document\<close>; pydantic's validation and \<open>urllib\<close>'s check of bracketed hosts are arguments, as there.
\<close>

section \<open>Tables\<close>

record AuthoredDocument =
  ad_id :: uuid
  ad_account_id :: uuid
  ad_space_id :: uuid
  ad_title :: string
  ad_created_at :: datetime

record DocumentRevision =
  dr_id :: uuid
  dr_account_id :: uuid
  dr_space_id :: uuid
  dr_document_id :: uuid
  dr_base_revision_id :: "uuid option"
  dr_content_sha256 :: string
  dr_schema_version :: int
  dr_content_json :: dict
  dr_plain_text :: string
  dr_author_actor_id :: "uuid option"
  dr_proposal_id :: "uuid option"
  dr_created_at :: datetime

record CurrentDocumentRevision =
  cd_id :: uuid
  cd_account_id :: uuid
  cd_space_id :: uuid
  cd_document_id :: uuid
  cd_revision_id :: uuid
  cd_updated_at :: datetime

record doc_db = core_db +
  t_document :: "AuthoredDocument list"
  t_document_revision :: "DocumentRevision list"
  t_document_pointer :: "CurrentDocumentRevision list"

definition insert_document :: "AuthoredDocument \<Rightarrow> 'a doc_db_scheme \<Rightarrow> 'a doc_db_scheme res" where
  "insert_document r d =
     bindr (pending_gate (ad_account_id r) d) (\<lambda>_.
     bindr (unique_key ''pk_authored_document'' (\<lambda>r. Some (ad_id r)) r (t_document d)) (\<lambda>_.
     bindr (foreign_key ''fk_authored_document_space'' (Some (ad_account_id r, ad_space_id r))
       (\<lambda>p. (sp_account_id p, sp_id p)) (t_space d)) (\<lambda>_.
     Inr (d\<lparr> t_document := t_document d @ [r] \<rparr>))))"

definition insert_document_revision :: "DocumentRevision \<Rightarrow> 'a doc_db_scheme \<Rightarrow> 'a doc_db_scheme res" where
  "insert_document_revision r d =
     bindr (pending_gate (dr_account_id r) d) (\<lambda>_.
     bindr (unique_key ''pk_document_revision'' (\<lambda>r. Some (dr_id r)) r (t_document_revision d)) (\<lambda>_.
     bindr (foreign_key ''fk_document_revision_document'' (Some (dr_account_id r, dr_document_id r))
       (\<lambda>x. (ad_account_id x, ad_id x)) (t_document d)) (\<lambda>_.
     bindr (foreign_key ''fk_document_revision_document_space'' (Some (dr_account_id r, dr_space_id r, dr_document_id r))
       (\<lambda>x. (ad_account_id x, ad_space_id x, ad_id x)) (t_document d)) (\<lambda>_.
     Inr (d\<lparr> t_document_revision := t_document_revision d @ [r] \<rparr>)))))"

section \<open>The pointer\<close>

definition find_document_pointer :: "uuid \<Rightarrow> uuid \<Rightarrow> 'a doc_db_scheme \<Rightarrow> CurrentDocumentRevision option" where
  "find_document_pointer account_id document_id d =
     find (\<lambda>c. cd_account_id c = account_id \<and> cd_document_id c = document_id) (t_document_pointer d)"

definition document_pointer_keys :: "CurrentDocumentRevision \<Rightarrow> 'a doc_db_scheme \<Rightarrow> unit res" where
  "document_pointer_keys c d =
     bindr (foreign_key ''fk_current_document_revision_document'' (Some (cd_account_id c, cd_document_id c))
       (\<lambda>x. (ad_account_id x, ad_id x)) (t_document d)) (\<lambda>_.
     bindr (foreign_key ''fk_current_document_revision_revision'' (Some (cd_account_id c, cd_revision_id c))
       (\<lambda>r. (dr_account_id r, dr_id r)) (t_document_revision d)) (\<lambda>_.
     foreign_key ''fk_current_document_revision_same_document''
       (Some (cd_account_id c, cd_space_id c, cd_document_id c, cd_revision_id c))
       (\<lambda>r. (dr_account_id r, dr_space_id r, dr_document_id r, dr_id r)) (t_document_revision d)))"

definition upsert_document_pointer :: "CurrentDocumentRevision \<Rightarrow> 'a doc_db_scheme \<Rightarrow> 'a doc_db_scheme res" where
  "upsert_document_pointer c d =
     bindr (pending_gate (cd_account_id c) d) (\<lambda>_.
     case find_document_pointer (cd_account_id c) (cd_document_id c) d of
       None \<Rightarrow>
         bindr (unique_key ''pk_current_document_revision'' (\<lambda>c. Some (cd_id c)) c (t_document_pointer d)) (\<lambda>_.
         bindr (document_pointer_keys c d) (\<lambda>_.
         Inr (d\<lparr> t_document_pointer := t_document_pointer d @ [c] \<rparr>)))
     | Some old \<Rightarrow>
         bindr (private_relabel (cd_account_id c) (cd_space_id old) (cd_space_id c) d) (\<lambda>_.
         bindr (document_pointer_keys c d) (\<lambda>_.
         Inr (d\<lparr> t_document_pointer := update_rows
           (\<lambda>x. cd_account_id x = cd_account_id c \<and> cd_document_id x = cd_document_id c)
           (\<lambda>x. x\<lparr> cd_space_id := cd_space_id c, cd_revision_id := cd_revision_id c, cd_updated_at := cd_updated_at c \<rparr>)
           (t_document_pointer d) \<rparr>))))"

definition memdot_set_current_document_revision ::
    "env \<Rightarrow> uuid \<Rightarrow> uuid \<Rightarrow> uuid \<Rightarrow> uuid \<Rightarrow> uuid \<Rightarrow> uuid \<Rightarrow> string \<Rightarrow> dict \<Rightarrow> 'a doc_db_scheme \<Rightarrow> 'a doc_db_scheme res" where
  "memdot_set_current_document_revision E pointer_id account_id space_id document_id revision_id event_id payload_hash payload d =
     bindr (pointer_authorized E account_id d) (\<lambda>_.
     case find_event account_id event_id d of
       Some e \<Rightarrow>
         if oe_payload_sha256 e = payload_hash \<and>
            map_option cd_revision_id (find_document_pointer account_id document_id d) = Some revision_id
         then Inr d else Inl (DBAPIError ''pointer_event_conflict'')
     | None \<Rightarrow>
         bindr (insert_outbox (pointer_event E event_id account_id ''document.current_revision_changed'' payload_hash payload) d) (\<lambda>d1.
         bindr (upsert_document_pointer
           \<lparr> cd_id = pointer_id, cd_account_id = account_id, cd_space_id = space_id, cd_document_id = document_id,
             cd_revision_id = revision_id, cd_updated_at = now E \<rparr> d1) (\<lambda>d2.
         Inr (d2\<lparr> settings := (settings d2)\<lparr> set_pointer_outbox_ok := [] \<rparr> \<rparr>))))"

definition set_current_document_revision ::
    "env \<Rightarrow> uuid \<Rightarrow> uuid \<Rightarrow> uuid \<Rightarrow> uuid \<Rightarrow> uuid \<Rightarrow> uuid \<Rightarrow> string \<Rightarrow> dict \<Rightarrow> 'a doc_db_scheme session \<Rightarrow> 'a doc_db_scheme session res" where
  "set_current_document_revision E pointer_id account_id space_id document_id revision_id event_id payload_hash payload s =
     execute (memdot_set_current_document_revision E pointer_id account_id space_id document_id revision_id event_id
       payload_hash payload) s"

section \<open>Operations\<close>

record doc_model =
  bracketed_ok :: "string \<Rightarrow> bool"
  model_validate :: "dict \<Rightarrow> string + dict"

definition validated_body :: "doc_model \<Rightarrow> dict \<Rightarrow> dict res" where
  "validated_body M body = validate_document_payload (bracketed_ok M) (model_validate M) body"

definition empty_document :: "uuid \<Rightarrow> dict" where
  "empty_document document_id =
     [(''schema'', JStr ''memdot-document''), (''schemaVersion'', JInt 1), (''documentId'', JStr (str_uuid document_id)),
      (''root'', JObj [(''type'', JStr ''doc''), (''content'', JList [])])]"

definition new_document_revision ::
    "env \<Rightarrow> uuid \<Rightarrow> uuid \<Rightarrow> uuid \<Rightarrow> uuid \<Rightarrow> uuid option \<Rightarrow> string \<Rightarrow> dict \<Rightarrow> string \<Rightarrow> uuid \<Rightarrow> uuid option \<Rightarrow> DocumentRevision" where
  "new_document_revision E revision_id account_id space_id document_id base_id digest content plain actor_id proposal_id =
     \<lparr> dr_id = revision_id, dr_account_id = account_id, dr_space_id = space_id, dr_document_id = document_id,
       dr_base_revision_id = base_id, dr_content_sha256 = digest, dr_schema_version = 1, dr_content_json = content,
       dr_plain_text = plain, dr_author_actor_id = Some actor_id, dr_proposal_id = proposal_id, dr_created_at = now E \<rparr>"

record DocumentCreateResult =
  dcr_document_id :: uuid
  dcr_revision_id :: uuid
  dcr_space_id :: uuid

definition create_document ::
    "env \<Rightarrow> doc_model \<Rightarrow> RequestContext \<Rightarrow> uuid \<Rightarrow> string \<Rightarrow> dict option \<Rightarrow> ('a doc_db_scheme, DocumentCreateResult) op" where
  "create_document E M ctx space_id title document_body s =
     (let document_id = fresh E 0; revision_id = fresh E 1; pointer_id = fresh E 2; event_id = fresh E 3;
          account_id = ctx_account_id ctx;
          given = (case document_body of Some b \<Rightarrow> if b = [] then empty_document document_id else b
                   | None \<Rightarrow> empty_document document_id);
          body = AList.update ''documentId'' (JStr (str_uuid document_id)) given
      in bindr (validated_body M body) (\<lambda>validated.
         bindr (content_sha256 (sha256 E) (model_validate M) (Model validated)) (\<lambda>digest.
         bindr (extract_plain_text (Model validated)) (\<lambda>plain.
         let outbox_payload = [(''document_id'', JStr (str_uuid document_id)), (''revision_id'', JStr (str_uuid revision_id)),
               (''space_id'', JStr (str_uuid space_id)), (''content_sha256'', JStr digest),
               (''author_actor_id'', JStr (str_uuid (ctx_actor_id ctx)))]
         in tenant_scope E (tenant_of ctx) (\<lambda>s.
              let s1 = add (insert_document \<lparr> ad_id = document_id, ad_account_id = account_id, ad_space_id = space_id,
                    ad_title = title, ad_created_at = now E \<rparr>) s;
                  s2 = add (insert_document_revision (new_document_revision E revision_id account_id space_id document_id None
                    digest validated plain (ctx_actor_id ctx) None)) s1
              in bindr (set_current_document_revision E pointer_id account_id space_id document_id revision_id event_id
                   (payload_sha256 E outbox_payload) outbox_payload s2) (\<lambda>s3.
                 Inr (\<lparr> dcr_document_id = document_id, dcr_revision_id = revision_id, dcr_space_id = space_id \<rparr>, s3))) s))))"

record RevisionSaveResult =
  rsr_document_id :: uuid
  rsr_revision_id :: uuid
  rsr_content_sha256 :: string

definition document_pointers :: "uuid \<Rightarrow> uuid \<Rightarrow> 'a doc_db_scheme \<Rightarrow> CurrentDocumentRevision list" where
  "document_pointers account_id document_id d =
     filter (\<lambda>c. cd_account_id c = account_id \<and> cd_document_id c = document_id) (t_document_pointer d)"

text \<open>The scope of \<open>save_revision\<close>, after the optimistic check.\<close>

definition write_revision ::
    "env \<Rightarrow> RequestContext \<Rightarrow> AuthoredDocument \<Rightarrow> CurrentDocumentRevision option \<Rightarrow> uuid option \<Rightarrow> uuid option \<Rightarrow> dict \<Rightarrow> string \<Rightarrow> string \<Rightarrow>
     ('a doc_db_scheme, RevisionSaveResult) op" where
  "write_revision E ctx doc_row current base_revision_id proposal_id validated digest plain s =
     (let revision_id = fresh E 0; pointer_id = (case current of Some c \<Rightarrow> cd_id c | None \<Rightarrow> fresh E 1); event_id = fresh E 2;
          account_id = ctx_account_id ctx; document_id = ad_id doc_row; space_id = ad_space_id doc_row;
          outbox_payload = [(''document_id'', JStr (str_uuid document_id)), (''revision_id'', JStr (str_uuid revision_id)),
            (''space_id'', JStr (str_uuid space_id)), (''base_revision_id'', opt_str base_revision_id),
            (''content_sha256'', JStr digest), (''author_actor_id'', JStr (str_uuid (ctx_actor_id ctx))),
            (''proposal_id'', opt_str proposal_id)]
      in tenant_scope E (tenant_of ctx) (\<lambda>s.
           let s1 = add (insert_document_revision (new_document_revision E revision_id account_id space_id document_id
                 base_revision_id digest validated plain (ctx_actor_id ctx) proposal_id)) s
           in bindr (set_current_document_revision E pointer_id account_id space_id document_id revision_id event_id
                (payload_sha256 E outbox_payload) outbox_payload s1) (\<lambda>s2.
              Inr (\<lparr> rsr_document_id = document_id, rsr_revision_id = revision_id, rsr_content_sha256 = digest \<rparr>, s2))) s)"

definition save_revision ::
    "env \<Rightarrow> doc_model \<Rightarrow> RequestContext \<Rightarrow> uuid \<Rightarrow> uuid option \<Rightarrow> dict \<Rightarrow> uuid option \<Rightarrow> ('a doc_db_scheme, RevisionSaveResult) op" where
  "save_revision E M ctx document_id base_revision_id document_body proposal_id s =
     bindr (validated_body M (AList.update ''documentId'' (JStr (str_uuid document_id)) document_body)) (\<lambda>validated.
     bindr (scalar_one_or_none (document_pointers (ctx_account_id ctx) document_id (tables s))) (\<lambda>current.
     let current_revision_id = map_option cd_revision_id current in
     if base_revision_id \<noteq> current_revision_id then Inl (StaleBaseRevisionError current_revision_id)
     else bindr (scalar_one (filter (\<lambda>x. ad_account_id x = ctx_account_id ctx \<and> ad_id x = document_id) (t_document (tables s)))) (\<lambda>doc_row.
          bindr (content_sha256 (sha256 E) (model_validate M) (Model validated)) (\<lambda>digest.
          bindr (extract_plain_text (Model validated)) (\<lambda>plain.
            write_revision E ctx doc_row current base_revision_id proposal_id validated digest plain s)))))"

definition get_current_revision :: "RequestContext \<Rightarrow> uuid \<Rightarrow> 'a doc_db_scheme \<Rightarrow> DocumentRevision option res" where
  "get_current_revision ctx document_id d =
     bindr (scalar_one_or_none (document_pointers (ctx_account_id ctx) document_id d)) (\<lambda>current.
       case current of
         None \<Rightarrow> Inr None
       | Some c \<Rightarrow> scalar_one_or_none (filter (\<lambda>r. dr_account_id r = ctx_account_id ctx \<and> dr_id r = cd_revision_id c)
           (t_document_revision d)))"

definition list_revisions :: "RequestContext \<Rightarrow> uuid \<Rightarrow> 'a doc_db_scheme \<Rightarrow> DocumentRevision list" where
  "list_revisions ctx document_id d =
     sort_key dr_created_at (filter (\<lambda>r. dr_account_id r = ctx_account_id ctx \<and> dr_document_id r = document_id) (t_document_revision d))"

definition get_revision :: "RequestContext \<Rightarrow> uuid \<Rightarrow> uuid \<Rightarrow> 'a doc_db_scheme \<Rightarrow> DocumentRevision option res" where
  "get_revision ctx document_id revision_id d =
     scalar_one_or_none (filter (\<lambda>r. dr_account_id r = ctx_account_id ctx \<and> dr_document_id r = document_id \<and> dr_id r = revision_id)
       (t_document_revision d))"

definition validate_or_raise :: "doc_model \<Rightarrow> dict \<Rightarrow> unit res" where
  "validate_or_raise M document_body =
     (case validated_body M document_body of
        Inl (DocumentValidationError msg) \<Rightarrow> Inl (ValueError msg)
      | Inl e \<Rightarrow> Inl e
      | Inr _ \<Rightarrow> Inr ())"


text \<open>\<open>revision_payload\<close>; the formatting of a time is an argument.\<close>

definition revision_payload :: "(datetime \<Rightarrow> string) \<Rightarrow> DocumentRevision \<Rightarrow> dict" where
  "revision_payload isoformat r =
     [(''revisionId'', JStr (str_uuid (dr_id r))), (''documentId'', JStr (str_uuid (dr_document_id r))),
      (''spaceId'', JStr (str_uuid (dr_space_id r))), (''baseRevisionId'', opt_str (dr_base_revision_id r)),
      (''contentSha256'', JStr (dr_content_sha256 r)), (''schemaVersion'', JInt (dr_schema_version r)),
      (''document'', JObj (dr_content_json r)), (''plainText'', JStr (dr_plain_text r)),
      (''authorActorId'', opt_str (dr_author_actor_id r)), (''createdAt'', JStr (isoformat (dr_created_at r)))]"

section \<open>The pointer keeps its contract\<close>

definition current_document :: "'a doc_db_scheme \<Rightarrow> uuid \<times> uuid \<Rightarrow> uuid option" where
  "current_document d k = map_option cd_revision_id (find_document_pointer (fst k) (snd k) d)"

definition document_revision_known :: "'a doc_db_scheme \<Rightarrow> uuid \<Rightarrow> uuid \<Rightarrow> uuid \<Rightarrow> uuid \<Rightarrow> bool" where
  "document_revision_known d a sp e r \<longleftrightarrow>
     (a, sp, e, r) \<in> (\<lambda>x. (dr_account_id x, dr_space_id x, dr_document_id x, dr_id x)) ` set (t_document_revision d)"

lemma upsert_document_pointer_Inr:
  assumes "upsert_document_pointer c d = Inr d'"
  shows "document_revision_known d (cd_account_id c) (cd_space_id c) (cd_document_id c) (cd_revision_id c) \<and>
    current_document d' = (current_document d)((cd_account_id c, cd_document_id c) \<mapsto> cd_revision_id c) \<and>
    t_outbox d' = t_outbox d \<and> t_document_revision d' = t_document_revision d"
proof -
  have known: "document_pointer_keys c d = Inr () \<Longrightarrow>
      document_revision_known d (cd_account_id c) (cd_space_id c) (cd_document_id c) (cd_revision_id c)"
    by (simp add: document_pointer_keys_def document_revision_known_def bindr_Inr_iff)
  show ?thesis
  proof (cases "find_document_pointer (cd_account_id c) (cd_document_id c) d")
    case None
    then have "document_pointer_keys c d = Inr ()" and d': "d' = d\<lparr> t_document_pointer := t_document_pointer d @ [c] \<rparr>"
      using assms by (auto simp: upsert_document_pointer_def bindr_Inr_iff)
    moreover have "current_document d' = (current_document d)((cd_account_id c, cd_document_id c) \<mapsto> cd_revision_id c)"
      using None by (auto simp: d' fun_eq_iff current_document_def find_document_pointer_def find_snoc split: option.splits)
    ultimately show ?thesis using known by simp
  next
    case (Some old)
    let ?sel = "\<lambda>x. cd_account_id x = cd_account_id c \<and> cd_document_id x = cd_document_id c"
    let ?f = "\<lambda>x. x\<lparr> cd_space_id := cd_space_id c, cd_revision_id := cd_revision_id c, cd_updated_at := cd_updated_at c \<rparr>"
    have "document_pointer_keys c d = Inr ()" and d': "d' = d\<lparr> t_document_pointer := update_rows ?sel ?f (t_document_pointer d) \<rparr>"
      using assms Some by (auto simp: upsert_document_pointer_def bindr_Inr_iff)
    moreover have "current_document d' k = ((current_document d)((cd_account_id c, cd_document_id c) \<mapsto> cd_revision_id c)) k" for k
    proof -
      have "find_document_pointer (fst k) (snd k) d' = map_option (\<lambda>r. if ?sel r then ?f r else r) (find_document_pointer (fst k) (snd k) d)"
        unfolding find_document_pointer_def d' by (simp add: find_update_rows)
      moreover have "?sel r = (k = (cd_account_id c, cd_document_id c))" if "find_document_pointer (fst k) (snd k) d = Some r" for r
        using that by (cases k) (auto simp: find_document_pointer_def dest!: find_SomeD)
      ultimately show ?thesis
        using Some by (cases "find_document_pointer (fst k) (snd k) d") (auto simp: current_document_def)
    qed
    ultimately show ?thesis using known by (simp add: fun_eq_iff)
  qed
qed

interpretation document_pointer: stored_pointer current_document document_revision_known
  "\<lambda>d a ev. find_event a ev d" memdot_set_current_document_revision "\<lambda>d. dr_id ` set (t_document_revision d)"
proof
  fix E p a sp e r ev h pl and d d' :: "'a doc_db_scheme"
  assume mv: "memdot_set_current_document_revision E p a sp e r ev h pl d = Inr d'" and new: "find_event a ev d = None"
  let ?ev = "pointer_event E ev a ''document.current_revision_changed'' h pl"
  obtain d1 d2 where i: "insert_outbox ?ev d = Inr d1"
    and u: "upsert_document_pointer \<lparr> cd_id = p, cd_account_id = a, cd_space_id = sp, cd_document_id = e,
        cd_revision_id = r, cd_updated_at = now E \<rparr> d1 = Inr d2"
    and d': "d' = d2\<lparr> settings := (settings d2)\<lparr> set_pointer_outbox_ok := [] \<rparr> \<rparr>"
    using mv new by (auto simp: memdot_set_current_document_revision_def bindr_Inr_iff)
  have d1: "d1 = d\<lparr> t_outbox := t_outbox d @ [?ev] \<rparr>" using i by (auto simp: insert_outbox_def bindr_Inr_iff)
  have "t_outbox d' = t_outbox d @ [?ev]" using upsert_document_pointer_Inr [OF u] d1 d' by simp
  then have "find_event a ev d' = Some ?ev" using find_event_appended [OF new] by blast
  moreover have "current_document d' = current_document d2" "current_document d1 = current_document d"
    "document_revision_known d1 = document_revision_known d"
    by (simp_all add: d' d1 fun_eq_iff current_document_def find_document_pointer_def document_revision_known_def)
  ultimately show "document_revision_known d a sp e r \<and> current_document d' = (current_document d)((a, e) \<mapsto> r) \<and>
      (\<exists>x. find_event a ev d' = Some x \<and> oe_payload_sha256 x = h)"
    using upsert_document_pointer_Inr [OF u] by simp
next
  fix E p a sp e r ev h pl x and d d' :: "'a doc_db_scheme"
  assume "memdot_set_current_document_revision E p a sp e r ev h pl d = Inr d'" and "find_event a ev d = Some x"
  then show "d' = d \<and> oe_payload_sha256 x = h \<and> current_document d (a, e) = Some r"
    by (auto simp: memdot_set_current_document_revision_def bindr_Inr_iff current_document_def split: if_splits)
next
  fix E p a sp e r ev h pl and d d' :: "'a doc_db_scheme"
  show "document_revision_known d a sp e r \<Longrightarrow> r \<in> dr_id ` set (t_document_revision d)"
    by (auto simp: document_revision_known_def)
  assume "memdot_set_current_document_revision E p a sp e r ev h pl d = Inr d'"
  then show "dr_id ` set (t_document_revision d') = dr_id ` set (t_document_revision d)"
    by (auto simp: memdot_set_current_document_revision_def insert_outbox_def bindr_Inr_iff case_option_Inr_iff
        dest!: upsert_document_pointer_Inr split: if_splits)
qed

section \<open>Revisions are never written\<close>

definition document_refs_ok :: "'a doc_db_scheme \<Rightarrow> bool" where
  "document_refs_ok d \<longleftrightarrow> (\<forall>c \<in> set (t_document_pointer d). cd_revision_id c \<in> dr_id ` set (t_document_revision d))"

lemma document_pointers_ok: "document_refs_ok d \<Longrightarrow> document_pointer.pointers_ok d"
  by (auto simp: document_pointer.pointers_ok_def document_refs_ok_def current_document_def find_document_pointer_def
      dest!: find_SomeD)

lemma document_pointer_set_to_stored:
  assumes "set_current_document_revision E p a sp e r ev h pl (d, ps) = Inr (d1, ps1)" and "document_refs_ok d"
  shows "ps1 = ps \<and> r \<in> dr_id ` set (t_document_revision d1)"
  using assms(1) document_pointer.move_to_stored [OF _ document_pointers_ok [OF assms(2)]]
  by (auto simp: set_current_document_revision_def bindr_Inr_iff)

lemma stored_document_revision_not_inserted:
  "dr_id r \<in> dr_id ` set (t_document_revision d) \<Longrightarrow> insert_document_revision r d \<noteq> Inr d'"
  by (auto simp: insert_document_revision_def bindr_Inr_iff image_iff)

lemma new_document_revision_id [simp]: "dr_id (new_document_revision E i a sp e b dg ct pl ac pr) = i"
  by (simp add: new_document_revision_def)

lemma revision_after_pointer_fails:
  assumes "document_refs_ok d" and "dr_id row = r"
    and "set_current_document_revision E p a sp e r ev h pl (d, us @ [insert_document_revision row]) = Inr (d1, ps1)"
    and "\<And>u d d'. u \<in> set us \<Longrightarrow> u d = Inr d' \<Longrightarrow> t_document_revision d' = t_document_revision d"
  shows "flush (d1, ps1) \<noteq> Inr x"
proof
  assume fl: "flush (d1, ps1) = Inr x"
  note st = document_pointer_set_to_stored [OF assms(3,1)]
  have fr: "fold_res (\<lambda>ins. ins) (us @ [insert_document_revision row]) d1 = Inr (fst x)"
    using fl st by (auto simp: flush_def bindr_Inr_iff)
  then obtain d2 where "fold_res (\<lambda>ins. ins) us d1 = Inr d2" and i: "insert_document_revision row d2 = Inr (fst x)"
    by (auto simp: fold_res_append bindr_Inr_iff)
  then have "t_document_revision d2 = t_document_revision d1"
    using fold_res_inv [of "\<lambda>ins. ins" us d1 d2 "\<lambda>d. t_document_revision d = t_document_revision d1"] assms(4) by force
  then show False using stored_document_revision_not_inserted [of row d2 "fst x"] st assms(2) i by simp
qed

lemma insert_document_revisions: "insert_document r d = Inr d' \<Longrightarrow> t_document_revision d' = t_document_revision d"
  by (auto simp: insert_document_def bindr_Inr_iff)

lemma document_refs_settings [simp]: "document_refs_ok (d\<lparr> settings := g \<rparr>) = document_refs_ok d"
  by (simp add: document_refs_ok_def)

lemma pointer_scope_fails:
  assumes "document_refs_ok d" and "dr_id row = r" and "\<And>d :: 'a doc_db_scheme. pre (d, []) = (d, us)"
    and "\<And>u d d'. u \<in> set us \<Longrightarrow> u d = Inr d' \<Longrightarrow> t_document_revision d' = t_document_revision d"
  shows "tenant_scope E c (\<lambda>s. bindr (set_current_document_revision E p a sp e r ev h pl
      (add (insert_document_revision row) (pre s))) (\<lambda>s'. Inr (res, s'))) (d, []) \<noteq> Inr y"
proof
  obtain q d' ps where y: "y = (q, d', ps)" by (cases y)
  assume "tenant_scope E c (\<lambda>s. bindr (set_current_document_revision E p a sp e r ev h pl
      (add (insert_document_revision row) (pre s))) (\<lambda>s'. Inr (res, s'))) (d, []) = Inr y"
  then show False
    unfolding y
  proof (rule tenant_scope_body)
    fix g s3
    assume "bindr (set_current_document_revision E p a sp e r ev h pl (add (insert_document_revision row) (pre (d\<lparr> settings := g \<rparr>, []))))
        (\<lambda>s'. Inr (res, s')) = Inr (q, s3)" and fl: "flush s3 = Inr (d', ps)"
    then have "set_current_document_revision E p a sp e r ev h pl (d\<lparr> settings := g \<rparr>, us @ [insert_document_revision row]) = Inr (fst s3, snd s3)"
      by (auto simp: bindr_Inr_iff assms(3))
    then have "flush (fst s3, snd s3) \<noteq> Inr (d', ps)"
      by (rule revision_after_pointer_fails [OF _ assms(2), rotated]) (erule (1) assms(4), simp add: assms(1))
    then show False using fl by simp
  qed
qed

lemma write_revision_fails:
  "document_refs_ok d \<Longrightarrow> write_revision E ctx doc cur base pr val dig pl (d, []) \<noteq> Inr y"
  unfolding write_revision_def Let_def by (rule pointer_scope_fails [where us = "[]"]) auto

section \<open>Properties\<close>

text \<open>
  No document is ever stored: whatever the body and the base revision, \<open>create_document\<close> and \<open>save_revision\<close>
  raise. The statement that sets the current pointer runs before the pending revision is flushed, so its foreign key
  refuses it (or, were the identifier taken, the flush is refused).
\<close>

theorem documents_never_written:
  assumes "document_refs_ok d"
  shows "isl (create_document E M ctx sp title body (d, [])) \<and> isl (save_revision E M ctx did base body' pr (d, []))"
proof -
  have "save_revision E M ctx did base body' pr (d, []) \<noteq> Inr y" for y
    using write_revision_fails [OF assms] by (auto simp: save_revision_def bindr_Inr_iff Let_def split: if_splits)
  moreover have "create_document E M ctx sp title body (d, []) \<noteq> Inr y" for y
  proof -
    let ?doc = "\<lparr> ad_id = fresh E 0, ad_account_id = ctx_account_id ctx, ad_space_id = sp, ad_title = title, ad_created_at = now E \<rparr>"
    have "tenant_scope E (tenant_of ctx) (\<lambda>s. bindr (set_current_document_revision E (fresh E 2) (ctx_account_id ctx) sp (fresh E 0)
        (fresh E 1) (fresh E 3) h pl (add (insert_document_revision (new_document_revision E (fresh E 1) (ctx_account_id ctx) sp
          (fresh E 0) None dig val plain (ctx_actor_id ctx) None)) (add (insert_document ?doc) s))) (\<lambda>s'. Inr (res, s'))) (d, []) \<noteq> Inr y"
      for h pl dig val plain res
      by (rule pointer_scope_fails [OF assms, where us = "[insert_document ?doc]"]) (auto dest: insert_document_revisions)
    then show ?thesis by (simp add: create_document_def Let_def bindr_Inr_iff)
  qed
  ultimately show ?thesis by (metis not_isl_iff)
qed


theorem documents_never_written_witness:
  "isl (create_document demo_env \<lparr> bracketed_ok = (\<lambda>_. True), model_validate = Inr \<rparr> demo_ctx 5 ''t'' None
     (core_db.extend demo_core \<lparr> t_document = [], t_document_revision = [], t_document_pointer = [] \<rparr>, []))"
  using documents_never_written [of "core_db.extend demo_core \<lparr> t_document = [], t_document_revision = [], t_document_pointer = [] \<rparr>"]
  by (simp add: document_refs_ok_def core_db.defs)

end
