(* ===== verification/Memory.thy ===== *)
theory Memory
  imports Pointers Row_Policies
begin

text \<open>
  Memory items and proposals, \<open>services/core/src/memdot_core/memory/service.py\<close> with
  \<open>packages/domain-python/src/memdot_domain/memory.py\<close> and the tables of \<open>ledger.py\<close>, and the database
  function \<open>memdot_set_current_memory_revision\<close> (migration 0003).
\<close>

section \<open>Vocabulary\<close>

datatype TruthClass =
  SOURCE_ASSERTION | USER_ASSERTION | EXTERNAL_KNOWLEDGE | DERIVED_PROPOSAL | APPROVED_DERIVED | LEARNER_EVIDENCE | SYSTEM_METADATA

definition truth_class_value :: "TruthClass \<Rightarrow> string" where
  "truth_class_value t =
     (case t of SOURCE_ASSERTION \<Rightarrow> ''source_assertion'' | USER_ASSERTION \<Rightarrow> ''user_assertion''
      | EXTERNAL_KNOWLEDGE \<Rightarrow> ''external_knowledge'' | DERIVED_PROPOSAL \<Rightarrow> ''derived_proposal''
      | APPROVED_DERIVED \<Rightarrow> ''approved_derived'' | LEARNER_EVIDENCE \<Rightarrow> ''learner_evidence''
      | SYSTEM_METADATA \<Rightarrow> ''system_metadata'')"

datatype ProposalStatus = PENDING | APPROVED | REJECTED | EXPIRED | CONFLICTED

definition proposal_status_value :: "ProposalStatus \<Rightarrow> string" where
  "proposal_status_value t =
     (case t of PENDING \<Rightarrow> ''pending'' | APPROVED \<Rightarrow> ''approved'' | REJECTED \<Rightarrow> ''rejected''
      | EXPIRED \<Rightarrow> ''expired'' | CONFLICTED \<Rightarrow> ''conflicted'')"

definition PROPOSAL_STATUSES :: "ProposalStatus list" where
  "PROPOSAL_STATUSES = [PENDING, APPROVED, REJECTED, EXPIRED, CONFLICTED]"

text \<open>\<open>ProposalStatus(status)\<close> raises on a text that is no status.\<close>

definition parse_proposal_status :: "string \<Rightarrow> ProposalStatus res" where
  "parse_proposal_status s =
     (case find (\<lambda>t. proposal_status_value t = s) PROPOSAL_STATUSES of
        Some t \<Rightarrow> Inr t | None \<Rightarrow> Inl (ValueError (s @ '' is not a valid ProposalStatus'')))"

datatype MemoryAssertionType = FACT | RELATIONSHIP | SUMMARY | DEFINITION

datatype MemoryRevisionStatus = ACTIVE | SUPERSEDED | RETRACTED

definition memory_status_value :: "MemoryRevisionStatus \<Rightarrow> string" where
  "memory_status_value t = (case t of ACTIVE \<Rightarrow> ''active'' | SUPERSEDED \<Rightarrow> ''superseded'' | RETRACTED \<Rightarrow> ''retracted'')"

definition MEMORY_STATUSES :: "MemoryRevisionStatus list" where
  "MEMORY_STATUSES = [ACTIVE, SUPERSEDED, RETRACTED]"

definition parse_memory_status :: "string \<Rightarrow> MemoryRevisionStatus res" where
  "parse_memory_status s =
     (case find (\<lambda>t. memory_status_value t = s) MEMORY_STATUSES of
        Some t \<Rightarrow> Inr t | None \<Rightarrow> Inl (ValueError (s @ '' is not a valid MemoryRevisionStatus'')))"

definition RETRIEVABLE_PROPOSAL_STATUSES :: "ProposalStatus list" where
  "RETRIEVABLE_PROPOSAL_STATUSES = [APPROVED]"

definition EXCLUDED_PROPOSAL_STATUSES :: "ProposalStatus list" where
  "EXCLUDED_PROPOSAL_STATUSES = [PENDING, REJECTED, EXPIRED, CONFLICTED]"

definition is_retrievable_proposal_status :: "string \<Rightarrow> bool res" where
  "is_retrievable_proposal_status s = bindr (parse_proposal_status s) (\<lambda>t. Inr (t \<in> set RETRIEVABLE_PROPOSAL_STATUSES))"

definition is_excluded_proposal_status :: "string \<Rightarrow> bool res" where
  "is_excluded_proposal_status s = bindr (parse_proposal_status s) (\<lambda>t. Inr (t \<in> set EXCLUDED_PROPOSAL_STATUSES))"

definition memory_truth_class_for_proposal :: "bool \<Rightarrow> TruthClass" where
  "memory_truth_class_for_proposal approved = (if approved then APPROVED_DERIVED else DERIVED_PROPOSAL)"

definition is_active_memory_status :: "string \<Rightarrow> bool res" where
  "is_active_memory_status s = bindr (parse_memory_status s) (\<lambda>t. Inr (t = ACTIVE))"

definition is_retracted_memory_status :: "string \<Rightarrow> bool res" where
  "is_retracted_memory_status s = bindr (parse_memory_status s) (\<lambda>t. Inr (t = RETRACTED))"

section \<open>Tables\<close>

record MemoryItem =
  mi_id :: uuid
  mi_account_id :: uuid
  mi_space_id :: uuid
  mi_title :: string
  mi_created_at :: datetime

record MemoryRevision =
  mr_id :: uuid
  mr_account_id :: uuid
  mr_space_id :: uuid
  mr_memory_item_id :: uuid
  mr_base_revision_id :: "uuid option"
  mr_assertion_text :: string
  mr_truth_class :: string
  mr_status :: string
  mr_content_sha256 :: string
  mr_provenance_json :: dict
  mr_created_at :: datetime

record CurrentMemoryRevision =
  cm_id :: uuid
  cm_account_id :: uuid
  cm_space_id :: uuid
  cm_memory_item_id :: uuid
  cm_revision_id :: uuid
  cm_updated_at :: datetime

record Proposal =
  pr_id :: uuid
  pr_account_id :: uuid
  pr_space_id :: uuid
  pr_target_type :: string
  pr_target_id :: uuid
  pr_base_revision_id :: "uuid option"
  pr_truth_class :: string
  pr_status :: string
  pr_patch_json :: dict
  pr_resolved_at :: "datetime option"
  pr_created_at :: datetime

record mem_db = core_db +
  t_memory_item :: "MemoryItem list"
  t_memory_revision :: "MemoryRevision list"
  t_memory_pointer :: "CurrentMemoryRevision list"
  t_proposal :: "Proposal list"

definition insert_memory_item :: "MemoryItem \<Rightarrow> 'a mem_db_scheme \<Rightarrow> 'a mem_db_scheme res" where
  "insert_memory_item r d =
     bindr (pending_gate (mi_account_id r) d) (\<lambda>_.
     bindr (unique_key ''pk_memory_item'' (\<lambda>r. Some (mi_id r)) r (t_memory_item d)) (\<lambda>_.
     bindr (foreign_key ''fk_memory_item_space'' (Some (mi_account_id r, mi_space_id r))
       (\<lambda>p. (sp_account_id p, sp_id p)) (t_space d)) (\<lambda>_.
     Inr (d\<lparr> t_memory_item := t_memory_item d @ [r] \<rparr>))))"

definition insert_memory_revision :: "MemoryRevision \<Rightarrow> 'a mem_db_scheme \<Rightarrow> 'a mem_db_scheme res" where
  "insert_memory_revision r d =
     bindr (pending_gate (mr_account_id r) d) (\<lambda>_.
     bindr (unique_key ''pk_memory_revision'' (\<lambda>r. Some (mr_id r)) r (t_memory_revision d)) (\<lambda>_.
     bindr (check_in ''ck_memory_revision_status'' (mr_status r) (map memory_status_value MEMORY_STATUSES)) (\<lambda>_.
     bindr (foreign_key ''fk_memory_revision_item'' (Some (mr_account_id r, mr_memory_item_id r))
       (\<lambda>i. (mi_account_id i, mi_id i)) (t_memory_item d)) (\<lambda>_.
     bindr (foreign_key ''fk_memory_revision_item_space'' (Some (mr_account_id r, mr_space_id r, mr_memory_item_id r))
       (\<lambda>i. (mi_account_id i, mi_space_id i, mi_id i)) (t_memory_item d)) (\<lambda>_.
     Inr (d\<lparr> t_memory_revision := t_memory_revision d @ [r] \<rparr>))))))"

definition proposal_checks :: "Proposal \<Rightarrow> 'a mem_db_scheme \<Rightarrow> unit res" where
  "proposal_checks r d =
     bindr (pending_gate (pr_account_id r) d) (\<lambda>_.
     bindr (check_in ''ck_proposal_status'' (pr_status r) (map proposal_status_value PROPOSAL_STATUSES)) (\<lambda>_.
     bindr (check_in ''ck_proposal_truth_class'' (pr_truth_class r) [''derived_proposal'']) (\<lambda>_.
     foreign_key ''fk_proposal_space'' (Some (pr_account_id r, pr_space_id r)) (\<lambda>p. (sp_account_id p, sp_id p)) (t_space d))))"

definition insert_proposal :: "Proposal \<Rightarrow> 'a mem_db_scheme \<Rightarrow> 'a mem_db_scheme res" where
  "insert_proposal r d =
     bindr (policy_check ''proposal'' (internal_purpose d)) (\<lambda>_.
     bindr (unique_key ''pk_proposal'' (\<lambda>r. Some (pr_id r)) r (t_proposal d)) (\<lambda>_.
     bindr (proposal_checks r d) (\<lambda>_. Inr (d\<lparr> t_proposal := t_proposal d @ [r] \<rparr>))))"

text \<open>The update a flush issues for a proposal whose status and time of resolution were assigned.\<close>

definition update_proposal :: "Proposal \<Rightarrow> 'a mem_db_scheme \<Rightarrow> 'a mem_db_scheme res" where
  "update_proposal r d =
     bindr (proposal_checks r d) (\<lambda>_.
       Inr (d\<lparr> t_proposal := update_rows (\<lambda>p. pr_id p = pr_id r)
         (\<lambda>p. p\<lparr> pr_status := pr_status r, pr_resolved_at := pr_resolved_at r \<rparr>) (t_proposal d) \<rparr>))"

section \<open>The pointer\<close>

definition find_memory_pointer :: "uuid \<Rightarrow> uuid \<Rightarrow> 'a mem_db_scheme \<Rightarrow> CurrentMemoryRevision option" where
  "find_memory_pointer account_id item_id d =
     find (\<lambda>c. cm_account_id c = account_id \<and> cm_memory_item_id c = item_id) (t_memory_pointer d)"

definition memory_pointer_keys :: "CurrentMemoryRevision \<Rightarrow> 'a mem_db_scheme \<Rightarrow> unit res" where
  "memory_pointer_keys c d =
     bindr (foreign_key ''fk_current_memory_revision_item'' (Some (cm_account_id c, cm_memory_item_id c))
       (\<lambda>i. (mi_account_id i, mi_id i)) (t_memory_item d)) (\<lambda>_.
     bindr (foreign_key ''fk_current_memory_revision_revision'' (Some (cm_account_id c, cm_revision_id c))
       (\<lambda>r. (mr_account_id r, mr_id r)) (t_memory_revision d)) (\<lambda>_.
     foreign_key ''fk_current_memory_revision_same_item''
       (Some (cm_account_id c, cm_space_id c, cm_memory_item_id c, cm_revision_id c))
       (\<lambda>r. (mr_account_id r, mr_space_id r, mr_memory_item_id r, mr_id r)) (t_memory_revision d)))"

text \<open>\<open>INSERT ... ON CONFLICT (account_id, memory_item_id) DO UPDATE\<close>.\<close>

definition upsert_memory_pointer :: "CurrentMemoryRevision \<Rightarrow> 'a mem_db_scheme \<Rightarrow> 'a mem_db_scheme res" where
  "upsert_memory_pointer c d =
     bindr (pending_gate (cm_account_id c) d) (\<lambda>_.
     case find_memory_pointer (cm_account_id c) (cm_memory_item_id c) d of
       None \<Rightarrow>
         bindr (unique_key ''pk_current_memory_revision'' (\<lambda>c. Some (cm_id c)) c (t_memory_pointer d)) (\<lambda>_.
         bindr (memory_pointer_keys c d) (\<lambda>_.
         Inr (d\<lparr> t_memory_pointer := t_memory_pointer d @ [c] \<rparr>)))
     | Some old \<Rightarrow>
         bindr (private_relabel (cm_account_id c) (cm_space_id old) (cm_space_id c) d) (\<lambda>_.
         bindr (memory_pointer_keys c d) (\<lambda>_.
         Inr (d\<lparr> t_memory_pointer := update_rows
           (\<lambda>x. cm_account_id x = cm_account_id c \<and> cm_memory_item_id x = cm_memory_item_id c)
           (\<lambda>x. x\<lparr> cm_space_id := cm_space_id c, cm_revision_id := cm_revision_id c, cm_updated_at := cm_updated_at c \<rparr>)
           (t_memory_pointer d) \<rparr>))))"

definition memdot_set_current_memory_revision ::
    "env \<Rightarrow> uuid \<Rightarrow> uuid \<Rightarrow> uuid \<Rightarrow> uuid \<Rightarrow> uuid \<Rightarrow> uuid \<Rightarrow> string \<Rightarrow> dict \<Rightarrow> 'a mem_db_scheme \<Rightarrow> 'a mem_db_scheme res" where
  "memdot_set_current_memory_revision E pointer_id account_id space_id memory_item_id revision_id event_id payload_hash payload d =
     bindr (pointer_authorized E account_id d) (\<lambda>_.
     case find_event account_id event_id d of
       Some e \<Rightarrow>
         if oe_payload_sha256 e = payload_hash \<and>
            map_option cm_revision_id (find_memory_pointer account_id memory_item_id d) = Some revision_id
         then Inr d else Inl (DBAPIError ''pointer_event_conflict'')
     | None \<Rightarrow>
         bindr (insert_outbox (pointer_event E event_id account_id ''memory.current_revision_changed'' payload_hash payload) d) (\<lambda>d1.
         bindr (upsert_memory_pointer
           \<lparr> cm_id = pointer_id, cm_account_id = account_id, cm_space_id = space_id, cm_memory_item_id = memory_item_id,
             cm_revision_id = revision_id, cm_updated_at = now E \<rparr> d1) (\<lambda>d2.
         Inr (d2\<lparr> settings := (settings d2)\<lparr> set_pointer_outbox_ok := [] \<rparr> \<rparr>))))"

text \<open>\<open>set_current_memory_revision\<close> of \<open>db/tenant.py\<close> runs the function at once: pending rows are not flushed first.\<close>

definition set_current_memory_revision ::
    "env \<Rightarrow> uuid \<Rightarrow> uuid \<Rightarrow> uuid \<Rightarrow> uuid \<Rightarrow> uuid \<Rightarrow> uuid \<Rightarrow> string \<Rightarrow> dict \<Rightarrow> 'a mem_db_scheme session \<Rightarrow> 'a mem_db_scheme session res" where
  "set_current_memory_revision E pointer_id account_id space_id memory_item_id revision_id event_id payload_hash payload s =
     execute (memdot_set_current_memory_revision E pointer_id account_id space_id memory_item_id revision_id event_id
       payload_hash payload) s"


section \<open>Operations\<close>

definition assertion_sha256 :: "env \<Rightarrow> string \<Rightarrow> string" where
  "assertion_sha256 E t = sha256 E t"

definition new_memory_revision ::
    "env \<Rightarrow> uuid \<Rightarrow> uuid \<Rightarrow> uuid \<Rightarrow> uuid \<Rightarrow> uuid option \<Rightarrow> string \<Rightarrow> TruthClass \<Rightarrow> dict \<Rightarrow> MemoryRevision" where
  "new_memory_revision E revision_id account_id space_id item_id base_id assertion truth provenance =
     \<lparr> mr_id = revision_id, mr_account_id = account_id, mr_space_id = space_id, mr_memory_item_id = item_id,
       mr_base_revision_id = base_id, mr_assertion_text = assertion, mr_truth_class = truth_class_value truth,
       mr_status = memory_status_value ACTIVE, mr_content_sha256 = assertion_sha256 E assertion,
       mr_provenance_json = provenance, mr_created_at = now E \<rparr>"

record MemoryItemResult =
  mir_memory_item_id :: uuid
  mir_space_id :: uuid

definition create_memory_item ::
    "env \<Rightarrow> RequestContext \<Rightarrow> uuid \<Rightarrow> string \<Rightarrow> string \<Rightarrow> ('a mem_db_scheme, MemoryItemResult) op" where
  "create_memory_item E ctx space_id title assertion_text s =
     (let item_id = fresh E 0; revision_id = fresh E 1; pointer_id = fresh E 2; event_id = fresh E 3;
          outbox_payload = [(''memory_item_id'', JStr (str_uuid item_id)), (''revision_id'', JStr (str_uuid revision_id)),
            (''space_id'', JStr (str_uuid space_id))]
      in tenant_scope E (tenant_of ctx) (\<lambda>s.
           let s1 = add (insert_memory_item \<lparr> mi_id = item_id, mi_account_id = ctx_account_id ctx, mi_space_id = space_id,
                 mi_title = title, mi_created_at = now E \<rparr>) s;
               s2 = add (insert_memory_revision (new_memory_revision E revision_id (ctx_account_id ctx) space_id item_id None
                 assertion_text USER_ASSERTION [(''author_actor_id'', JStr (str_uuid (ctx_actor_id ctx)))])) s1
           in bindr (set_current_memory_revision E pointer_id (ctx_account_id ctx) space_id item_id revision_id event_id
                (payload_sha256 E outbox_payload) outbox_payload s2) (\<lambda>s3.
              Inr (\<lparr> mir_memory_item_id = item_id, mir_space_id = space_id \<rparr>, s3))) s)"

record ProposalResult =
  prr_proposal_id :: uuid
  prr_status :: string

definition new_proposal :: "env \<Rightarrow> uuid \<Rightarrow> uuid \<Rightarrow> string \<Rightarrow> uuid \<Rightarrow> dict \<Rightarrow> uuid option \<Rightarrow> Proposal" where
  "new_proposal E account_id space_id target_type target_id patch_json base_revision_id =
     \<lparr> pr_id = fresh E 0, pr_account_id = account_id, pr_space_id = space_id, pr_target_type = target_type,
       pr_target_id = target_id, pr_base_revision_id = base_revision_id,
       pr_truth_class = truth_class_value DERIVED_PROPOSAL, pr_status = proposal_status_value PENDING,
       pr_patch_json = patch_json, pr_resolved_at = None, pr_created_at = now E \<rparr>"

definition create_proposal ::
    "env \<Rightarrow> RequestContext \<Rightarrow> uuid \<Rightarrow> string \<Rightarrow> uuid \<Rightarrow> dict \<Rightarrow> uuid option \<Rightarrow> ('a mem_db_scheme, ProposalResult) op" where
  "create_proposal E ctx space_id target_type target_id patch_json base_revision_id s =
     (let row = new_proposal E (ctx_account_id ctx) space_id target_type target_id patch_json base_revision_id
      in tenant_scope E (tenant_of ctx) (\<lambda>s.
           Inr (\<lparr> prr_proposal_id = pr_id row, prr_status = proposal_status_value PENDING \<rparr>, add (insert_proposal row) s)) s)"

text \<open>The part of \<open>resolve_proposal\<close> that writes an approved assertion into memory.\<close>

definition materialize ::
    "env \<Rightarrow> RequestContext \<Rightarrow> Proposal \<Rightarrow> string \<Rightarrow> 'a mem_db_scheme session \<Rightarrow> 'a mem_db_scheme session res" where
  "materialize E ctx proposal assertion s =
     (let account_id = ctx_account_id ctx; item_id = pr_target_id proposal in
      bindr (scalar_one (filter (\<lambda>i. mi_account_id i = account_id \<and> mi_id i = item_id) (t_memory_item (tables s)))) (\<lambda>item.
      bindr (scalar_one_or_none (filter (\<lambda>c. cm_account_id c = account_id \<and> cm_memory_item_id c = item_id)
          (t_memory_pointer (tables s)))) (\<lambda>current.
        let base_id = map_option cm_revision_id current; revision_id = fresh E 0;
            pointer_id = (case current of Some c \<Rightarrow> cm_id c | None \<Rightarrow> fresh E 1); event_id = fresh E 2;
            outbox_payload = [(''memory_item_id'', JStr (str_uuid item_id)), (''revision_id'', JStr (str_uuid revision_id)),
              (''space_id'', JStr (str_uuid (mi_space_id item))), (''proposal_id'', JStr (str_uuid (pr_id proposal)))];
            s1 = add (insert_memory_revision (new_memory_revision E revision_id account_id (mi_space_id item) item_id base_id
              assertion (memory_truth_class_for_proposal True) [(''proposal_id'', JStr (str_uuid (pr_id proposal)))])) s
        in set_current_memory_revision E pointer_id account_id (mi_space_id item) item_id revision_id event_id
             (payload_sha256 E outbox_payload) outbox_payload s1)))"

definition resolve_body ::
    "env \<Rightarrow> RequestContext \<Rightarrow> Proposal \<Rightarrow> bool \<Rightarrow> ('a mem_db_scheme, ProposalResult) op" where
  "resolve_body E ctx proposal approve s =
     (let new_status = (if approve then APPROVED else REJECTED);
          s1 = add (update_proposal (proposal\<lparr> pr_status := proposal_status_value new_status, pr_resolved_at := Some (now E) \<rparr>)) s;
          result = \<lparr> prr_proposal_id = pr_id proposal, prr_status = proposal_status_value new_status \<rparr>
      in if approve \<and> pr_target_type proposal = ''memory_item'' then
           (let assertion = py_str (jor (jget (pr_patch_json proposal) ''assertion_text'') (JStr []))
            in if assertion \<noteq> [] then bindr (materialize E ctx proposal assertion s1) (\<lambda>s2. Inr (result, s2))
               else Inr (result, s1))
         else Inr (result, s1))"

definition resolve_proposal ::
    "env \<Rightarrow> RequestContext \<Rightarrow> uuid \<Rightarrow> bool \<Rightarrow> ('a mem_db_scheme, ProposalResult) op" where
  "resolve_proposal E ctx proposal_id approve s =
     bindr (scalar_one (filter (\<lambda>p. pr_account_id p = ctx_account_id ctx \<and> pr_id p = proposal_id) (t_proposal (tables s)))) (\<lambda>proposal.
       if pr_status proposal \<noteq> proposal_status_value PENDING
       then Inr (\<lparr> prr_proposal_id = proposal_id, prr_status = pr_status proposal \<rparr>, s)
       else tenant_scope E (tenant_of ctx) (resolve_body E ctx proposal approve) s)"

record memory_view =
  mv_memory_item_id :: uuid
  mv_space_id :: uuid
  mv_title :: string
  mv_current_revision :: "MemoryRevision option"

definition get_memory_item :: "RequestContext \<Rightarrow> uuid \<Rightarrow> 'a mem_db_scheme \<Rightarrow> memory_view option res" where
  "get_memory_item ctx memory_item_id d =
     bindr (scalar_one_or_none (filter (\<lambda>i. mi_account_id i = ctx_account_id ctx \<and> mi_id i = memory_item_id) (t_memory_item d))) (\<lambda>item.
       case item of
         None \<Rightarrow> Inr None
       | Some i \<Rightarrow>
           bindr (scalar_one_or_none (filter (\<lambda>c. cm_account_id c = ctx_account_id ctx \<and> cm_memory_item_id c = memory_item_id)
               (t_memory_pointer d))) (\<lambda>current.
           bindr (case current of
               None \<Rightarrow> Inr None
             | Some c \<Rightarrow> scalar_one_or_none (filter (\<lambda>r. mr_account_id r = ctx_account_id ctx \<and> mr_id r = cm_revision_id c)
                 (t_memory_revision d))) (\<lambda>revision.
             Inr (Some \<lparr> mv_memory_item_id = mi_id i, mv_space_id = mi_space_id i, mv_title = mi_title i,
               mv_current_revision = revision \<rparr>))))"

section \<open>The pointer keeps its contract\<close>

definition current_memory :: "'a mem_db_scheme \<Rightarrow> uuid \<times> uuid \<Rightarrow> uuid option" where
  "current_memory d k = map_option cm_revision_id (find_memory_pointer (fst k) (snd k) d)"

definition memory_revision_known :: "'a mem_db_scheme \<Rightarrow> uuid \<Rightarrow> uuid \<Rightarrow> uuid \<Rightarrow> uuid \<Rightarrow> bool" where
  "memory_revision_known d a sp e r \<longleftrightarrow>
     (a, sp, e, r) \<in> (\<lambda>x. (mr_account_id x, mr_space_id x, mr_memory_item_id x, mr_id x)) ` set (t_memory_revision d)"

lemma upsert_memory_pointer_Inr:
  assumes "upsert_memory_pointer c d = Inr d'"
  shows "memory_revision_known d (cm_account_id c) (cm_space_id c) (cm_memory_item_id c) (cm_revision_id c) \<and>
    current_memory d' = (current_memory d)((cm_account_id c, cm_memory_item_id c) \<mapsto> cm_revision_id c) \<and>
    t_outbox d' = t_outbox d \<and> t_memory_revision d' = t_memory_revision d"
proof -
  have known: "memory_pointer_keys c d = Inr () \<Longrightarrow>
      memory_revision_known d (cm_account_id c) (cm_space_id c) (cm_memory_item_id c) (cm_revision_id c)"
    by (simp add: memory_pointer_keys_def memory_revision_known_def bindr_Inr_iff)
  show ?thesis
  proof (cases "find_memory_pointer (cm_account_id c) (cm_memory_item_id c) d")
    case None
    then have "memory_pointer_keys c d = Inr ()" and d': "d' = d\<lparr> t_memory_pointer := t_memory_pointer d @ [c] \<rparr>"
      using assms by (auto simp: upsert_memory_pointer_def bindr_Inr_iff)
    moreover have "current_memory d' = (current_memory d)((cm_account_id c, cm_memory_item_id c) \<mapsto> cm_revision_id c)"
      using None by (auto simp: d' fun_eq_iff current_memory_def find_memory_pointer_def find_snoc split: option.splits)
    ultimately show ?thesis using known by simp
  next
    case (Some old)
    let ?sel = "\<lambda>x. cm_account_id x = cm_account_id c \<and> cm_memory_item_id x = cm_memory_item_id c"
    let ?f = "\<lambda>x. x\<lparr> cm_space_id := cm_space_id c, cm_revision_id := cm_revision_id c, cm_updated_at := cm_updated_at c \<rparr>"
    have "memory_pointer_keys c d = Inr ()" and d': "d' = d\<lparr> t_memory_pointer := update_rows ?sel ?f (t_memory_pointer d) \<rparr>"
      using assms Some by (auto simp: upsert_memory_pointer_def bindr_Inr_iff)
    moreover have "current_memory d' k = ((current_memory d)((cm_account_id c, cm_memory_item_id c) \<mapsto> cm_revision_id c)) k" for k
    proof -
      have "find_memory_pointer (fst k) (snd k) d' = map_option (\<lambda>r. if ?sel r then ?f r else r) (find_memory_pointer (fst k) (snd k) d)"
        unfolding find_memory_pointer_def d' by (simp add: find_update_rows)
      moreover have "?sel r = (k = (cm_account_id c, cm_memory_item_id c))" if "find_memory_pointer (fst k) (snd k) d = Some r" for r
        using that by (cases k) (auto simp: find_memory_pointer_def find_Some_iff)
      ultimately show ?thesis
        using Some by (cases "find_memory_pointer (fst k) (snd k) d") (auto simp: current_memory_def)
    qed
    ultimately show ?thesis using known by (simp add: fun_eq_iff)
  qed
qed

interpretation memory_pointer: revision_pointer current_memory memory_revision_known
  "\<lambda>d a ev. find_event a ev d" memdot_set_current_memory_revision
proof
  fix E p a sp e r ev h pl and d d' :: "'a mem_db_scheme"
  assume mv: "memdot_set_current_memory_revision E p a sp e r ev h pl d = Inr d'" and new: "find_event a ev d = None"
  let ?ev = "pointer_event E ev a ''memory.current_revision_changed'' h pl"
  obtain d1 d2 where i: "insert_outbox ?ev d = Inr d1"
    and u: "upsert_memory_pointer \<lparr> cm_id = p, cm_account_id = a, cm_space_id = sp, cm_memory_item_id = e,
        cm_revision_id = r, cm_updated_at = now E \<rparr> d1 = Inr d2"
    and d': "d' = d2\<lparr> settings := (settings d2)\<lparr> set_pointer_outbox_ok := [] \<rparr> \<rparr>"
    using mv new by (auto simp: memdot_set_current_memory_revision_def bindr_Inr_iff)
  have d1: "d1 = d\<lparr> t_outbox := t_outbox d @ [?ev] \<rparr>" using i by (auto simp: insert_outbox_def bindr_Inr_iff)
  have "t_outbox d' = t_outbox d @ [?ev]" using upsert_memory_pointer_Inr [OF u] d1 d' by simp
  then have "find_event a ev d' = Some ?ev" using find_event_appended [OF new] by blast
  moreover have "current_memory d' = current_memory d2" "current_memory d1 = current_memory d"
    "memory_revision_known d1 = memory_revision_known d"
    by (simp_all add: d' d1 fun_eq_iff current_memory_def find_memory_pointer_def memory_revision_known_def)
  ultimately show "memory_revision_known d a sp e r \<and> current_memory d' = (current_memory d)((a, e) \<mapsto> r) \<and>
      (\<exists>x. find_event a ev d' = Some x \<and> oe_payload_sha256 x = h)"
    using upsert_memory_pointer_Inr [OF u] by simp
next
  fix E p a sp e r ev h pl x and d d' :: "'a mem_db_scheme"
  assume "memdot_set_current_memory_revision E p a sp e r ev h pl d = Inr d'" and "find_event a ev d = Some x"
  then show "d' = d \<and> oe_payload_sha256 x = h \<and> current_memory d (a, e) = Some r"
    by (auto simp: memdot_set_current_memory_revision_def bindr_Inr_iff current_memory_def split: if_splits)
qed


section \<open>Memory is never written\<close>

text \<open>The foreign key of the pointers, as an invariant of the tables.\<close>

definition memory_refs_ok :: "'a mem_db_scheme \<Rightarrow> bool" where
  "memory_refs_ok d \<longleftrightarrow> (\<forall>c \<in> set (t_memory_pointer d). cm_revision_id c \<in> mr_id ` set (t_memory_revision d))"

interpretation memory_pointer: stored_pointer current_memory memory_revision_known
  "\<lambda>d a ev. find_event a ev d" memdot_set_current_memory_revision "\<lambda>d. mr_id ` set (t_memory_revision d)"
proof
  fix E p a sp e r ev h pl and d d' :: "'a mem_db_scheme"
  show "memory_revision_known d a sp e r \<Longrightarrow> r \<in> mr_id ` set (t_memory_revision d)"
    by (auto simp: memory_revision_known_def)
  assume "memdot_set_current_memory_revision E p a sp e r ev h pl d = Inr d'"
  then show "mr_id ` set (t_memory_revision d') = mr_id ` set (t_memory_revision d)"
    by (auto simp: memdot_set_current_memory_revision_def insert_outbox_def bindr_Inr_iff case_option_Inr_iff
        dest!: upsert_memory_pointer_Inr split: if_splits)
qed

lemma memory_pointers_ok: "memory_refs_ok d \<Longrightarrow> memory_pointer.pointers_ok d"
  by (auto simp: memory_pointer.pointers_ok_def memory_refs_ok_def current_memory_def find_memory_pointer_def dest!: find_SomeD)

definition memory_tables :: "'a mem_db_scheme \<Rightarrow> MemoryItem list \<times> MemoryRevision list \<times> CurrentMemoryRevision list" where
  "memory_tables d = (t_memory_item d, t_memory_revision d, t_memory_pointer d)"

lemma memory_refs_ok_cong: "memory_tables d' = memory_tables d \<Longrightarrow> memory_refs_ok d' = memory_refs_ok d"
  by (simp add: memory_tables_def memory_refs_ok_def)

text \<open>The pointer can only be set to a revision the database already holds; the pending one is not there yet.\<close>

lemma pointer_set_to_stored:
  assumes "set_current_memory_revision E p a sp e r ev h pl (d, ps) = Inr (d1, ps1)" and "memory_refs_ok d"
  shows "ps1 = ps \<and> r \<in> mr_id ` set (t_memory_revision d1)"
  using assms(1) memory_pointer.move_to_stored [OF _ memory_pointers_ok [OF assms(2)]]
  by (auto simp: set_current_memory_revision_def bindr_Inr_iff)

lemma stored_revision_not_inserted: "mr_id r \<in> mr_id ` set (t_memory_revision d) \<Longrightarrow> insert_memory_revision r d \<noteq> Inr d'"
  by (auto simp: insert_memory_revision_def bindr_Inr_iff image_iff)

lemma new_memory_revision_id [simp]: "mr_id (new_memory_revision E i a sp e b t tc p) = i"
  by (simp add: new_memory_revision_def)

lemma create_memory_item_fails:
  assumes "memory_refs_ok d"
  shows "create_memory_item E ctx sp title text (d, []) \<noteq> Inr (r, d', ps')"
proof
  assume "create_memory_item E ctx sp title text (d, []) = Inr (r, d', ps')"
  then show False
    unfolding create_memory_item_def Let_def
  proof (rule tenant_scope_body)
    fix g s3
    let ?d = "d\<lparr> settings := g \<rparr>"
    let ?item = "insert_memory_item \<lparr> mi_id = fresh E 0, mi_account_id = ctx_account_id ctx, mi_space_id = sp, mi_title = title, mi_created_at = now E \<rparr>"
    let ?rev = "new_memory_revision E (fresh E 1) (ctx_account_id ctx) sp (fresh E 0) None text USER_ASSERTION
        [(''author_actor_id'', JStr (str_uuid (ctx_actor_id ctx)))]"
    let ?pl = "[(''memory_item_id'', JStr (str_uuid (fresh E 0))), (''revision_id'', JStr (str_uuid (fresh E 1))), (''space_id'', JStr (str_uuid sp))]"
    assume "bindr (set_current_memory_revision E (fresh E 2) (ctx_account_id ctx) sp (fresh E 0) (fresh E 1) (fresh E 3)
        (payload_sha256 E ?pl) ?pl (add (insert_memory_revision ?rev) (add ?item (?d, []))))
        (\<lambda>s3. Inr (\<lparr> mir_memory_item_id = fresh E 0, mir_space_id = sp \<rparr>, s3)) = Inr (r, s3)"
      and fl: "flush s3 = Inr (d', ps')"
    then have "set_current_memory_revision E (fresh E 2) (ctx_account_id ctx) sp (fresh E 0) (fresh E 1) (fresh E 3)
        (payload_sha256 E ?pl) ?pl (?d, [?item, insert_memory_revision ?rev]) = Inr s3"
      by (auto simp: bindr_Inr_iff)
    moreover have "memory_refs_ok ?d" using assms by (simp add: memory_refs_ok_def)
    ultimately obtain d1 where s3: "s3 = (d1, [?item, insert_memory_revision ?rev])"
      and st: "fresh E 1 \<in> mr_id ` set (t_memory_revision d1)"
      using pointer_set_to_stored [of E "fresh E 2" _ sp "fresh E 0" "fresh E 1" "fresh E 3" _ ?pl ?d _ "fst s3" "snd s3"]
      by (cases s3) auto
    obtain d2 where "?item d1 = Inr d2" "insert_memory_revision ?rev d2 = Inr d'"
      using fl s3 by (auto simp: bindr_Inr_iff)
    moreover have "t_memory_revision d2 = t_memory_revision d1"
      using \<open>?item d1 = Inr d2\<close> by (auto simp: insert_memory_item_def bindr_Inr_iff)
    ultimately show False
      using stored_revision_not_inserted [of ?rev d2 d'] st by simp
  qed
qed

lemma materialize_fails:
  assumes "memory_refs_ok d" and "materialize E ctx p t (d, [u]) = Inr (d1, ps1)"
    and "\<And>d d'. u d = Inr d' \<Longrightarrow> t_memory_revision d' = t_memory_revision d"
  shows "flush (d1, ps1) \<noteq> Inr (d', ps')"
proof
  assume fl: "flush (d1, ps1) = Inr (d', ps')"
  obtain row :: MemoryRevision and pid a sp h pl where "mr_id row = fresh E 0"
    and set: "set_current_memory_revision E pid a sp (pr_target_id p) (fresh E 0) (fresh E 2) h pl (d, [u, insert_memory_revision row]) = Inr (d1, ps1)"
    using assms(2) by (auto simp: materialize_def Let_def bindr_Inr_iff intro: that [rotated])
  note st = pointer_set_to_stored [OF set assms(1)]
  obtain d2 where "u d1 = Inr d2" "insert_memory_revision row d2 = Inr d'"
    using fl st by (auto simp: bindr_Inr_iff)
  then show False
    using stored_revision_not_inserted [of row d2 d'] assms(3) [of d1 d2] st \<open>mr_id row = fresh E 0\<close> by simp
qed

section \<open>What an operation can do\<close>

lemma update_proposal_effect:
  assumes "update_proposal r d = Inr d'"
  shows "memory_tables d' = memory_tables d" "t_memory_revision d' = t_memory_revision d"
    "t_proposal d' = update_rows (\<lambda>p. pr_id p = pr_id r)
       (\<lambda>p. p\<lparr> pr_status := pr_status r, pr_resolved_at := pr_resolved_at r \<rparr>) (t_proposal d)"
  using assms by (auto simp: update_proposal_def bindr_Inr_iff memory_tables_def)

lemma resolve_proposal_cases:
  assumes "resolve_proposal E ctx pid approve (d, []) = Inr (r, d', ps')" and "memory_refs_ok d"
  obtains
    (settled) p where "filter (\<lambda>p. pr_account_id p = ctx_account_id ctx \<and> pr_id p = pid) (t_proposal d) = [p]"
      "pr_status p \<noteq> ''pending''" "r = \<lparr> prr_proposal_id = pid, prr_status = pr_status p \<rparr>" "d' = d"
  | (resolved) p st where "filter (\<lambda>p. pr_account_id p = ctx_account_id ctx \<and> pr_id p = pid) (t_proposal d) = [p]"
      "pr_status p = ''pending''" "st = (if approve then ''approved'' else ''rejected'')"
      "r = \<lparr> prr_proposal_id = pid, prr_status = st \<rparr>" "memory_tables d' = memory_tables d"
      "t_proposal d' = update_rows (\<lambda>p. pr_id p = pid)
         (\<lambda>p. p\<lparr> pr_status := st, pr_resolved_at := Some (now E) \<rparr>) (t_proposal d)"
      "\<not> (approve \<and> pr_target_type p = ''memory_item'' \<and> py_str (jor (jget (pr_patch_json p) ''assertion_text'') (JStr [])) \<noteq> [])"
proof -
  obtain p where p: "filter (\<lambda>p. pr_account_id p = ctx_account_id ctx \<and> pr_id p = pid) (t_proposal d) = [p]"
    using assms(1) by (auto simp: resolve_proposal_def bindr_Inr_iff scalar_iffs)
  then have pid: "pr_id p = pid" by (auto dest!: filter_singletonD)
  show thesis
  proof (cases "pr_status p = ''pending''")
    case False
    then show thesis
      using assms(1) p by (intro settled [of p]) (auto simp: resolve_proposal_def proposal_status_value_def)
  next
    case True
    let ?st = "if approve then ''approved'' else ''rejected''"
    let ?row = "p\<lparr> pr_status := ?st, pr_resolved_at := Some (now E) \<rparr>"
    have "tenant_scope E (tenant_of ctx) (resolve_body E ctx p approve) (d, []) = Inr (r, d', ps')"
      using assms(1) p True by (simp add: resolve_proposal_def proposal_status_value_def)
    then show thesis
    proof (rule tenant_scope_body)
      fix g s3
      assume b: "resolve_body E ctx p approve (d\<lparr> settings := g \<rparr>, []) = Inr (r, s3)" and fl: "flush s3 = Inr (d', ps')"
      have ok: "memory_refs_ok (d\<lparr> settings := g \<rparr>)" using assms(2) by (simp add: memory_refs_ok_def)
      have st: "proposal_status_value (if approve then APPROVED else REJECTED) = ?st" by (simp add: proposal_status_value_def)
      let ?mat = "approve \<and> pr_target_type p = ''memory_item'' \<and> py_str (jor (jget (pr_patch_json p) ''assertion_text'') (JStr [])) \<noteq> []"
      have "s3 = (d\<lparr> settings := g \<rparr>, [update_proposal ?row]) \<and> \<not> ?mat \<and> r = \<lparr> prr_proposal_id = pid, prr_status = ?st \<rparr>"
      proof (rule ccontr)
        assume "\<not> ?thesis"
        then obtain t where "materialize E ctx p t (d\<lparr> settings := g \<rparr>, [update_proposal ?row]) = Inr s3"
          using b pid unfolding resolve_body_def Let_def st by (auto simp: bindr_Inr_iff split: if_split_asm)
        then show False
          using materialize_fails [OF ok, of E ctx p t "update_proposal ?row" "fst s3" "snd s3" d' ps'] update_proposal_effect(2) fl
          unfolding prod.collapse by blast
      qed
      then have u: "update_proposal ?row (d\<lparr> settings := g \<rparr>) = Inr d'" and nm: "\<not> ?mat" and r: "r = \<lparr> prr_proposal_id = pid, prr_status = ?st \<rparr>"
        using fl by (auto simp: bindr_Inr_iff)
      show thesis
        using update_proposal_effect [OF u] pid nm by (intro resolved [OF p True refl r]) (simp_all add: memory_tables_def)
    qed
  qed
qed


section \<open>Sequences of operations\<close>

inductive mem_step :: "'a mem_db_scheme \<Rightarrow> 'a mem_db_scheme \<Rightarrow> bool" where
  step_item: "create_memory_item E ctx sp title text (d, []) = Inr (mir, d', ps) \<Longrightarrow> mem_step d d'"
| step_propose: "create_proposal E ctx sp ty tid patch base (d, []) = Inr (r, d', ps) \<Longrightarrow> mem_step d d'"
| step_resolve: "resolve_proposal E ctx pid approve (d, []) = Inr (r, d', ps) \<Longrightarrow> mem_step d d'"

definition mem_ok :: "'a mem_db_scheme \<Rightarrow> bool" where
  "mem_ok d \<longleftrightarrow> memory_refs_ok d \<and> distinct (map pr_id (t_proposal d))"

lemma create_proposal_effect:
  assumes "create_proposal E ctx sp ty tid patch base (d, []) = Inr (r, d', ps)"
  obtains row where "memory_tables d' = memory_tables d" "t_proposal d' = t_proposal d @ [row]"
    "pr_id row \<notin> pr_id ` set (t_proposal d)"
  using assms unfolding create_proposal_def Let_def
  by (rule tenant_scope_body) (auto simp: insert_proposal_def bindr_Inr_iff memory_tables_def image_iff)

text \<open>A step keeps the memory tables, the invariant and every proposal that is settled.\<close>

lemma mem_step_effect:
  assumes "mem_step d d'" and "mem_ok d"
  shows "memory_tables d' = memory_tables d \<and> mem_ok d' \<and>
    (\<forall>p \<in> set (t_proposal d). pr_status p \<noteq> ''pending'' \<longrightarrow> p \<in> set (t_proposal d'))"
  using assms
proof (induction rule: mem_step.induct)
  case (step_item E ctx sp title assertion d mir d' ps)
  then show ?case using create_memory_item_fails [of d E ctx sp title assertion mir d' ps] by (simp add: mem_ok_def)
next
  case (step_propose E ctx sp ty tid patch base d r d' ps)
  from step_propose(1) obtain row where "memory_tables d' = memory_tables d" "t_proposal d' = t_proposal d @ [row]"
    "pr_id row \<notin> pr_id ` set (t_proposal d)"
    by (rule create_proposal_effect)
  then show ?case using step_propose(2) memory_refs_ok_cong [of d' d] by (auto simp: mem_ok_def)
next
  case (step_resolve E ctx pid approve d r d' ps)
  have refs: "memory_refs_ok d" and ids: "distinct (map pr_id (t_proposal d))" using step_resolve(2) by (simp_all add: mem_ok_def)
  from step_resolve(1) refs show ?case
  proof (cases rule: resolve_proposal_cases)
    case (settled p)
    then show ?thesis using step_resolve(2) by simp
  next
    case (resolved p st)
    have p: "p \<in> set (t_proposal d)" "pr_id p = pid" using resolved(1) by (auto dest!: filter_singletonD)
    have "q \<in> set (t_proposal d')" if "q \<in> set (t_proposal d)" "pr_status q \<noteq> ''pending''" for q
    proof -
      have "pr_id q \<noteq> pid" using that p resolved(2) ids by (metis distinct_map inj_onD)
      then show ?thesis using that by (force simp: resolved(6) update_rows_def)
    qed
    moreover have "map pr_id (t_proposal d') = map pr_id (t_proposal d)"
      unfolding resolved(6) by (rule map_update_rows) simp
    ultimately show ?thesis using resolved(5) refs ids memory_refs_ok_cong [of d' d] by (simp add: mem_ok_def)
  qed
qed

lemma mem_steps_effect:
  "mem_step\<^sup>*\<^sup>* d d' \<Longrightarrow> mem_ok d \<Longrightarrow> memory_tables d' = memory_tables d \<and> mem_ok d' \<and>
    (\<forall>p \<in> set (t_proposal d). pr_status p \<noteq> ''pending'' \<longrightarrow> p \<in> set (t_proposal d'))"
proof (induction rule: rtranclp_induct)
  case (step y z)
  then show ?case using mem_step_effect [of y z] by auto
qed simp

section \<open>A concrete database\<close>

definition demo_mem :: mem_db where
  "demo_mem = core_db.extend demo_core
     \<lparr> t_memory_item = [\<lparr> mi_id = 30, mi_account_id = 1, mi_space_id = 5, mi_title = ''t'', mi_created_at = 0 \<rparr>],
       t_memory_revision = [new_memory_revision demo_env 31 1 5 30 None ''old'' USER_ASSERTION []],
       t_memory_pointer = [\<lparr> cm_id = 32, cm_account_id = 1, cm_space_id = 5, cm_memory_item_id = 30, cm_revision_id = 31, cm_updated_at = 0 \<rparr>],
       t_proposal = [\<lparr> pr_id = 50, pr_account_id = 1, pr_space_id = 5, pr_target_type = ''memory_item'', pr_target_id = 30,
         pr_base_revision_id = None, pr_truth_class = ''derived_proposal'', pr_status = ''pending'',
         pr_patch_json = [(''assertion_text'', JStr ''new'')], pr_resolved_at = None, pr_created_at = 0 \<rparr>] \<rparr>"

lemma demo_mem_core [simp]:
  "t_actor demo_mem = t_actor demo_core" "t_account_member demo_mem = t_account_member demo_core"
  by (simp_all add: demo_mem_def core_db.defs)

lemma demo_mem_ok: "mem_ok demo_mem"
  by (simp add: mem_ok_def memory_refs_ok_def demo_mem_def core_db.defs new_memory_revision_def)

lemma demo_reject:
  "\<exists>d'. resolve_proposal demo_env demo_ctx 50 False (demo_mem, []) = Inr (\<lparr> prr_proposal_id = 50, prr_status = ''rejected'' \<rparr>, d', [])"
proof -
  let ?p = "hd (t_proposal demo_mem)"
  obtain g where sc: "tenant_scope demo_env demo_tenant (resolve_body demo_env demo_ctx ?p False) (demo_mem, []) =
      bindr (resolve_body demo_env demo_ctx ?p False (demo_mem\<lparr> settings := g \<rparr>, [])) (\<lambda>(r, s3). bindr (flush s3) (\<lambda>s4. Inr (r, s4)))"
    by (rule demo_scope [OF demo_mem_core])
  have p: "filter (\<lambda>p. pr_account_id p = 1 \<and> pr_id p = 50) (t_proposal demo_mem) = [?p]" "pr_status ?p = ''pending''"
    by (simp_all add: demo_mem_def core_db.defs)
  have "resolve_proposal demo_env demo_ctx 50 False (demo_mem, []) =
      tenant_scope demo_env demo_tenant (resolve_body demo_env demo_ctx ?p False) (demo_mem, [])"
    using p by (simp add: resolve_proposal_def proposal_status_value_def)
  then show ?thesis
    unfolding sc
    by (simp add: resolve_body_def update_proposal_def proposal_checks_def pending_gate_def check_in_def foreign_key_def
        PROPOSAL_STATUSES_def proposal_status_value_def demo_mem_def core_db.defs demo_core_def)
qed

section \<open>Properties\<close>

text \<open>
  (C33) The first resolution of a proposal is final: once a proposal has been resolved, and whatever operations of
  the service follow, every later attempt to approve or reject it answers with the first result and changes
  nothing.
\<close>

theorem proposal_resolution_final:
  assumes "resolve_proposal E ctx pid approve (d, []) = Inr (r, d1, ps)" and "mem_ok d" and "mem_step\<^sup>*\<^sup>* d1 d2"
  shows "prr_status r \<noteq> ''pending'' \<and> resolve_proposal E' ctx pid approve' (d2, []) = Inr (r, d2, [])"
proof -
  have refs: "memory_refs_ok d" using assms(2) by (simp add: mem_ok_def)
  have ok1: "mem_ok d1" using mem_step_effect [OF step_resolve [OF assms(1)] assms(2)] by blast
  obtain p where p: "p \<in> set (t_proposal d1)" "pr_account_id p = ctx_account_id ctx" "pr_id p = pid"
    "pr_status p \<noteq> ''pending''" "r = \<lparr> prr_proposal_id = pid, prr_status = pr_status p \<rparr>"
    using assms(1) refs
  proof (cases rule: resolve_proposal_cases)
    case (settled p)
    then show thesis using that [of p] by (auto dest!: filter_singletonD)
  next
    case (resolved p st)
    have "p \<in> set (t_proposal d)" "pr_account_id p = ctx_account_id ctx" "pr_id p = pid"
      using resolved(1) by (auto dest!: filter_singletonD)
    then show thesis
      using that [of "p\<lparr> pr_status := st, pr_resolved_at := Some (now E) \<rparr>"] resolved(3,4)
      by (auto simp: resolved(6) update_rows_def)
  qed
  have "p \<in> set (t_proposal d2)" and ids: "distinct (map pr_id (t_proposal d2))"
    using mem_steps_effect [OF assms(3) ok1] p by (auto simp: mem_ok_def)
  then have "filter (\<lambda>q. pr_id q = pid) (t_proposal d2) = [p]" using p(3) by (intro filter_unique)
  then have "filter (\<lambda>q. pr_account_id q = ctx_account_id ctx \<and> pr_id q = pid) (t_proposal d2) = [p]"
  proof -
    have "filter (\<lambda>q. pr_account_id q = ctx_account_id ctx \<and> pr_id q = pid) (t_proposal d2)
        = filter (\<lambda>q. pr_account_id q = ctx_account_id ctx) (filter (\<lambda>q. pr_id q = pid) (t_proposal d2))" by (simp add: conj_commute)
    then show ?thesis using \<open>filter (\<lambda>q. pr_id q = pid) (t_proposal d2) = [p]\<close> p(2) by simp
  qed
  then show ?thesis using p by (simp add: resolve_proposal_def proposal_status_value_def)
qed

theorem proposal_resolution_final_witness:
  "\<exists>d1. resolve_proposal demo_env demo_ctx 50 True (d1 :: mem_db, []) = Inr (\<lparr> prr_proposal_id = 50, prr_status = ''rejected'' \<rparr>, d1, [])"
proof -
  obtain d1 where d1: "resolve_proposal demo_env demo_ctx 50 False (demo_mem, []) = Inr (\<lparr> prr_proposal_id = 50, prr_status = ''rejected'' \<rparr>, d1, [])"
    using demo_reject by blast
  from proposal_resolution_final [OF d1 demo_mem_ok rtranclp.rtrancl_refl] show ?thesis by blast
qed

text \<open>
  (C34) Memory is never written: over every sequence of operations of the service the items, revisions and current
  pointers stay as they were. In every state reached, creating an item fails, and so does approving a pending
  proposal for a memory item that carries an assertion: the pointer is set by a statement that runs before the
  pending revision is flushed, and its foreign key refuses it.
\<close>

theorem memory_never_written:
  assumes "mem_step\<^sup>*\<^sup>* d0 d" and "mem_ok d0"
  shows "memory_tables d = memory_tables d0 \<and>
    isl (create_memory_item E ctx sp title text (d, [])) \<and>
    (\<forall>p \<in> set (t_proposal d). pr_account_id p = ctx_account_id ctx \<and> pr_status p = ''pending'' \<and>
       pr_target_type p = ''memory_item'' \<and> py_str (jor (jget (pr_patch_json p) ''assertion_text'') (JStr [])) \<noteq> [] \<longrightarrow>
       isl (resolve_proposal E ctx (pr_id p) True (d, [])))"
proof -
  have tab: "memory_tables d = memory_tables d0" and ok: "memory_refs_ok d" and ids: "distinct (map pr_id (t_proposal d))"
    using mem_steps_effect [OF assms] by (simp_all add: mem_ok_def)
  have "isl (create_memory_item E ctx sp title text (d, []))"
    using create_memory_item_fails [OF ok] by (metis not_isl_iff prod.collapse)
  moreover have "isl (resolve_proposal E ctx (pr_id p) True (d, []))"
    if p: "p \<in> set (t_proposal d)" "pr_account_id p = ctx_account_id ctx" "pr_status p = ''pending''"
      "pr_target_type p = ''memory_item''" and a: "py_str (jor (jget (pr_patch_json p) ''assertion_text'') (JStr [])) \<noteq> []" for p
  proof (rule ccontr)
    assume "\<not> isl (resolve_proposal E ctx (pr_id p) True (d, []))"
    then obtain r d' ps where "resolve_proposal E ctx (pr_id p) True (d, []) = Inr (r, d', ps)"
      unfolding not_isl_iff by auto
    then show False
      using ok
    proof (cases rule: resolve_proposal_cases)
      case (settled q)
      then have "q = p" using p ids by (auto dest!: filter_singletonD simp: distinct_map inj_on_def)
      then show False using settled p by simp
    next
      case (resolved q st)
      then have "q = p" using p ids by (auto dest!: filter_singletonD simp: distinct_map inj_on_def)
      then show False using resolved(7) p a by simp
    qed
  qed
  ultimately show ?thesis using tab by auto
qed


theorem memory_never_written_witness:
  "isl (create_memory_item demo_env demo_ctx 5 ''t'' ''x'' (demo_mem, [])) \<and>
   isl (resolve_proposal demo_env demo_ctx 50 True (demo_mem, []))"
proof -
  note all = memory_never_written [OF rtranclp.rtrancl_refl demo_mem_ok, of demo_env demo_ctx 5 "''t''" "''x''"]
  have "hd (t_proposal demo_mem) \<in> set (t_proposal demo_mem)" "pr_id (hd (t_proposal demo_mem)) = 50"
    "pr_account_id (hd (t_proposal demo_mem)) = ctx_account_id demo_ctx" "pr_status (hd (t_proposal demo_mem)) = ''pending''"
    "pr_target_type (hd (t_proposal demo_mem)) = ''memory_item''"
    "py_str (jor (jget (pr_patch_json (hd (t_proposal demo_mem))) ''assertion_text'') (JStr [])) \<noteq> []"
    by (simp_all add: demo_mem_def core_db.defs jor_def)
  then show ?thesis using all by metis
qed

text \<open>
  The database function that moves a pointer: a move for a new event makes the revision current for its item,
  touches no other item, and is refused unless the revision belongs to that item and space; a repetition of the event
  leaves the database as it is, and the same event cannot stand for another payload.
\<close>

theorem memory_pointer_moves:
  assumes "memdot_set_current_memory_revision E p a sp e r ev h pl d = Inr d'" and "find_event a ev d = None"
  shows "current_memory d' = (current_memory d)((a, e) \<mapsto> r) \<and> memory_revision_known d a sp e r \<and>
    (memdot_set_current_memory_revision E' p' a sp' e' r' ev h' pl' d' = Inr d'' \<longrightarrow> d'' = d' \<and> h' = h)"
  using memory_pointer.move_new [OF assms] memory_pointer.move_twice [OF assms(1)] by blast

text \<open>The sealed settings of the concrete first-party context.\<close>

definition demo_settings :: tenant_settings where
  "demo_settings = empty_settings\<lparr> set_account_id := str_uuid 1, set_actor_id := str_uuid 20, set_purpose := ''first_party'',
     set_issued_at := dec_int 1, set_nonce := ''abcd'',
     set_seal := hmac_sha256 demo_env (context_secret demo_env)
       (context_message (str_uuid 1) (str_uuid 20) ''first_party'' (dec_int 1) ''abcd'') \<rparr>"

lemma demo_rls: "memdot_rls_ok demo_env (demo_mem\<lparr> settings := demo_settings \<rparr>) 1"
proof -
  have "find_actor (demo_mem\<lparr> settings := demo_settings \<rparr>) 1 20 = Some (hd (t_actor demo_core))"
    by (simp add: find_actor_def demo_core_def)
  then show ?thesis
    by (simp add: memdot_rls_ok_def demo_settings_def demo_env_def demo_core_def str_uuid_not_Nil)
qed

theorem memory_pointer_moves_witness:
  "\<exists>d'. memdot_set_current_memory_revision demo_env 33 1 5 30 31 34 ''h'' [] (demo_mem\<lparr> settings := demo_settings \<rparr>) = Inr d' \<and>
     current_memory d' (1, 30) = Some 31"
proof -
  let ?d = "demo_mem\<lparr> settings := demo_settings \<rparr>"
  have ev: "find_event 1 34 ?d = None" by (simp add: find_event_def demo_mem_def core_db.defs demo_core_def)
  have auth: "pointer_authorized demo_env 1 ?d = Inr ()"
    using demo_rls by (simp add: pointer_authorized_def demo_settings_def)
  have "\<exists>d'. memdot_set_current_memory_revision demo_env 33 1 5 30 31 34 ''h'' [] ?d = Inr d'"
    unfolding memdot_set_current_memory_revision_def auth ev
    by (simp add: insert_outbox_def unique_key_def foreign_key_def
        upsert_memory_pointer_def find_memory_pointer_def private_relabel_def memory_pointer_keys_def pending_gate_def
        pointer_event_def demo_mem_def core_db.defs demo_core_def new_memory_revision_def)
  then obtain d' where "memdot_set_current_memory_revision demo_env 33 1 5 30 31 34 ''h'' [] ?d = Inr d'" by blast
  from this memory_pointer_moves [OF this ev] show ?thesis by auto
qed

end
