(* ===== verification/Learning_Service.thy ===== *)
theory Learning_Service
  imports Tenant Fsrs Evidence Curriculum
begin

text \<open>
  The learning service, \<open>services/core/src/memdot_core/learning/service.py\<close>, over its tables of
  \<open>db/models/ledger.py\<close>: courses and curriculum, sealed assessments, attempts and their
  server-side grading, the learner event log with its Evidence Twin projection, and review scheduling.

  Constraints are those the ORM classes declare together with the ones migrations 0004 and 0006 add
  (foreign keys to the course and the nodes, the edge checks). The JSON object
  \<open>fsrs_state\<close> of four numbers is a record; a reply is the dict the source returns, apart from
  \<open>apply_review_rating\<close>, whose reply with its floats is a record.
\<close>

section \<open>Rows\<close>

record Course =
  co_id :: uuid
  co_account_id :: uuid
  co_space_id :: uuid
  co_title :: string
  co_created_at :: datetime

record CurriculumNode =
  cn_id :: uuid
  cn_account_id :: uuid
  cn_space_id :: uuid
  cn_course_id :: uuid
  cn_kind :: string
  cn_title :: string
  cn_confirmation :: string
  cn_created_at :: datetime

record CurriculumEdge =
  ed_id :: uuid
  ed_account_id :: uuid
  ed_space_id :: uuid
  ed_course_id :: uuid
  ed_from_node_id :: uuid
  ed_to_node_id :: uuid
  ed_edge_kind :: string
  ed_confirmation :: string
  ed_created_at :: datetime

record AssessmentItem =
  ai_id :: uuid
  ai_account_id :: uuid
  ai_space_id :: uuid
  ai_course_id :: uuid
  ai_concept_node_id :: "uuid option"
  ai_title :: string
  ai_created_at :: datetime

record AssessmentRevision =
  ar_id :: uuid
  ar_account_id :: uuid
  ar_space_id :: uuid
  ar_assessment_item_id :: uuid
  ar_item_type :: string
  ar_prompt :: string
  ar_sealed_answer :: dict
  ar_sealed_rubric :: dict
  ar_source_locators :: "json list"
  ar_difficulty :: "rat option"
  ar_guessing_chance :: "rat option"
  ar_state :: string
  ar_content_sha256 :: string
  ar_created_at :: datetime

record AssessmentAttempt =
  at_id :: uuid
  at_account_id :: uuid
  at_space_id :: uuid
  at_user_id :: uuid
  at_course_id :: uuid
  at_assessment_item_id :: uuid
  at_assessment_revision_id :: uuid
  at_response_json :: dict
  at_confidence :: "string option"
  at_hint_revealed :: bool
  at_answer_revealed :: bool
  at_feedback_at :: "datetime option"
  at_status :: string
  at_client_attempt_id :: "string option"
  at_created_at :: datetime

record LearnerEvent =
  le_id :: uuid
  le_account_id :: uuid
  le_space_id :: uuid
  le_course_id :: uuid
  le_user_id :: uuid
  le_concept_node_id :: "uuid option"
  le_assessment_item_id :: "uuid option"
  le_assessment_revision_id :: "uuid option"
  le_attempt_id :: "uuid option"
  le_client_event_id :: "string option"
  le_event_type :: string
  le_occurred_at :: datetime
  le_received_at :: datetime
  le_payload_schema_version :: int
  le_payload :: dict
  le_eligibility :: string
  le_exclusion_reason :: "string option"

record FsrsState =
  fs_stability :: rat
  fs_difficulty :: rat
  fs_reps :: int
  fs_lapses :: int

record ReviewItem =
  ri_id :: uuid
  ri_account_id :: uuid
  ri_space_id :: uuid
  ri_course_id :: uuid
  ri_user_id :: uuid
  ri_assessment_item_id :: uuid
  ri_assessment_revision_id :: uuid
  ri_fsrs_state :: FsrsState
  ri_due_at :: "datetime option"
  ri_priority :: int
  ri_updated_at :: datetime

record LearnerProjection =
  lp_id :: uuid
  lp_account_id :: uuid
  lp_space_id :: uuid
  lp_course_id :: uuid
  lp_user_id :: uuid
  lp_concept_node_id :: uuid
  lp_evidence_state :: string
  lp_recall_state :: string
  lp_confidence :: "string option"
  lp_coverage :: int
  lp_projection_json :: dict
  lp_updated_at :: datetime

record learning_db = core_db +
  t_course :: "Course list"
  t_node :: "CurriculumNode list"
  t_edge :: "CurriculumEdge list"
  t_item :: "AssessmentItem list"
  t_revision :: "AssessmentRevision list"
  t_assess :: "AssessmentAttempt list"
  t_event :: "LearnerEvent list"
  t_review :: "ReviewItem list"
  t_projection :: "LearnerProjection list"

section \<open>Insertions\<close>

definition course_fk :: "string \<Rightarrow> uuid \<Rightarrow> uuid \<Rightarrow> learning_db \<Rightarrow> unit res" where
  "course_fk name account_id course_id d =
     foreign_key name (Some (account_id, course_id)) (\<lambda>c. (co_account_id c, co_id c)) (t_course d)"

definition insert_course :: "Course \<Rightarrow> learning_db \<Rightarrow> learning_db res" where
  "insert_course r d =
     bindr (pending_gate (co_account_id r) d) (\<lambda>_.
     bindr (unique_key ''pk_course'' (\<lambda>r. Some (co_id r)) r (t_course d)) (\<lambda>_.
     bindr (foreign_key ''fk_course_space'' (Some (co_account_id r, co_space_id r))
       (\<lambda>s. (sp_account_id s, sp_id s)) (t_space d)) (\<lambda>_.
     Inr (d\<lparr> t_course := t_course d @ [r] \<rparr>))))"

definition insert_node :: "CurriculumNode \<Rightarrow> learning_db \<Rightarrow> learning_db res" where
  "insert_node r d =
     bindr (pending_gate (cn_account_id r) d) (\<lambda>_.
     bindr (unique_key ''pk_curriculum_node'' (\<lambda>r. Some (cn_id r)) r (t_node d)) (\<lambda>_.
     bindr (course_fk ''fk_curriculum_node_course'' (cn_account_id r) (cn_course_id r) d) (\<lambda>_.
     Inr (d\<lparr> t_node := t_node d @ [r] \<rparr>))))"

definition insert_edge :: "CurriculumEdge \<Rightarrow> learning_db \<Rightarrow> learning_db res" where
  "insert_edge r d =
     bindr (pending_gate (ed_account_id r) d) (\<lambda>_.
     bindr (unique_key ''pk_curriculum_edge'' (\<lambda>r. Some (ed_id r)) r (t_edge d)) (\<lambda>_.
     bindr (unique_key ''uq_curriculum_edge_pair''
       (\<lambda>r. Some (ed_account_id r, ed_course_id r, ed_from_node_id r, ed_to_node_id r, ed_edge_kind r))
       r (t_edge d)) (\<lambda>_.
     bindr (course_fk ''fk_curriculum_edge_course'' (ed_account_id r) (ed_course_id r) d) (\<lambda>_.
     bindr (foreign_key ''fk_curriculum_edge_from'' (Some (ed_account_id r, ed_from_node_id r))
       (\<lambda>n. (cn_account_id n, cn_id n)) (t_node d)) (\<lambda>_.
     bindr (foreign_key ''fk_curriculum_edge_to'' (Some (ed_account_id r, ed_to_node_id r))
       (\<lambda>n. (cn_account_id n, cn_id n)) (t_node d)) (\<lambda>_.
     bindr (guard_res (ed_from_node_id r \<noteq> ed_to_node_id r) (IntegrityError ''ck_curriculum_edge_no_self'')) (\<lambda>_.
     Inr (d\<lparr> t_edge := t_edge d @ [r] \<rparr>))))))))"

definition insert_item :: "AssessmentItem \<Rightarrow> learning_db \<Rightarrow> learning_db res" where
  "insert_item r d =
     bindr (pending_gate (ai_account_id r) d) (\<lambda>_.
     bindr (unique_key ''pk_assessment_item'' (\<lambda>r. Some (ai_id r)) r (t_item d)) (\<lambda>_.
     bindr (course_fk ''fk_assessment_item_course'' (ai_account_id r) (ai_course_id r) d) (\<lambda>_.
     Inr (d\<lparr> t_item := t_item d @ [r] \<rparr>))))"

definition insert_revision :: "AssessmentRevision \<Rightarrow> learning_db \<Rightarrow> learning_db res" where
  "insert_revision r d =
     bindr (pending_gate (ar_account_id r) d) (\<lambda>_.
     bindr (unique_key ''pk_assessment_revision'' (\<lambda>r. Some (ar_id r)) r (t_revision d)) (\<lambda>_.
     bindr (foreign_key ''fk_assessment_revision_item'' (Some (ar_account_id r, ar_assessment_item_id r))
       (\<lambda>i. (ai_account_id i, ai_id i)) (t_item d)) (\<lambda>_.
     bindr (guard_res (length (ar_content_sha256 r) = 64) (IntegrityError ''ck_assessment_revision_sha_len'')) (\<lambda>_.
     Inr (d\<lparr> t_revision := t_revision d @ [r] \<rparr>)))))"

text \<open>
  The trigger \<open>memdot_validate_assessment_attempt\<close> (migration 0007): course, item and revision of an
  attempt belong together.
\<close>

definition validate_assessment_attempt :: "AssessmentAttempt \<Rightarrow> learning_db \<Rightarrow> unit res" where
  "validate_assessment_attempt r d =
     guard_res
       ((\<exists>c \<in> set (t_course d). co_account_id c = at_account_id r \<and> co_id c = at_course_id r \<and>
           co_space_id c = at_space_id r) \<and>
        (\<exists>i \<in> set (t_item d). ai_account_id i = at_account_id r \<and> ai_id i = at_assessment_item_id r \<and>
           ai_course_id i = at_course_id r \<and> ai_space_id i = at_space_id r) \<and>
        (\<exists>v \<in> set (t_revision d). ar_account_id v = at_account_id r \<and> ar_id v = at_assessment_revision_id r \<and>
           ar_assessment_item_id v = at_assessment_item_id r \<and> ar_space_id v = at_space_id r))
       (DBAPIError ''assessment_attempt_target_mismatch'')"

definition insert_assess :: "AssessmentAttempt \<Rightarrow> learning_db \<Rightarrow> learning_db res" where
  "insert_assess r d =
     bindr (validate_assessment_attempt r d) (\<lambda>_.
     bindr (unique_key ''pk_assessment_attempt'' (\<lambda>r. Some (at_id r)) r (t_assess d)) (\<lambda>_.
     bindr (unique_key ''uq_assessment_attempt_client''
       (\<lambda>r. map_option (\<lambda>c. (at_account_id r, c)) (at_client_attempt_id r)) r (t_assess d)) (\<lambda>_.
     bindr (foreign_key ''fk_assessment_attempt_item'' (Some (at_account_id r, at_assessment_item_id r))
       (\<lambda>i. (ai_account_id i, ai_id i)) (t_item d)) (\<lambda>_.
     bindr (course_fk ''fk_assessment_attempt_course'' (at_account_id r) (at_course_id r) d) (\<lambda>_.
     Inr (d\<lparr> t_assess := t_assess d @ [r] \<rparr>))))))"

definition event_client_key :: "LearnerEvent \<Rightarrow> (uuid \<times> string) option" where
  "event_client_key r = map_option (\<lambda>c. (le_account_id r, c)) (le_client_event_id r)"

definition insert_event :: "LearnerEvent \<Rightarrow> learning_db \<Rightarrow> learning_db res" where
  "insert_event r d =
     bindr (pending_gate (le_account_id r) d) (\<lambda>_.
     bindr (unique_key ''pk_learner_event'' (\<lambda>r. Some (le_id r)) r (t_event d)) (\<lambda>_.
     bindr (unique_key ''uq_learner_event_client'' event_client_key r (t_event d)) (\<lambda>_.
     bindr (course_fk ''fk_learner_event_course'' (le_account_id r) (le_course_id r) d) (\<lambda>_.
     Inr (d\<lparr> t_event := t_event d @ [r] \<rparr>)))))"

definition review_key :: "ReviewItem \<Rightarrow> uuid \<times> uuid \<times> uuid" where
  "review_key r = (ri_account_id r, ri_user_id r, ri_assessment_item_id r)"

definition insert_review :: "ReviewItem \<Rightarrow> learning_db \<Rightarrow> learning_db res" where
  "insert_review r d =
     bindr (pending_gate (ri_account_id r) d) (\<lambda>_.
     bindr (unique_key ''pk_review_item'' (\<lambda>r. Some (ri_id r)) r (t_review d)) (\<lambda>_.
     bindr (unique_key ''uq_review_item_user_item'' (\<lambda>r. Some (review_key r)) r (t_review d)) (\<lambda>_.
     bindr (course_fk ''fk_review_item_course'' (ri_account_id r) (ri_course_id r) d) (\<lambda>_.
     Inr (d\<lparr> t_review := t_review d @ [r] \<rparr>)))))"

definition projection_key :: "LearnerProjection \<Rightarrow> uuid \<times> uuid \<times> uuid" where
  "projection_key r = (lp_account_id r, lp_user_id r, lp_concept_node_id r)"

definition insert_projection :: "LearnerProjection \<Rightarrow> learning_db \<Rightarrow> learning_db res" where
  "insert_projection r d =
     bindr (pending_gate (lp_account_id r) d) (\<lambda>_.
     bindr (unique_key ''pk_learner_projection'' (\<lambda>r. Some (lp_id r)) r (t_projection d)) (\<lambda>_.
     bindr (unique_key ''uq_learner_projection_user_concept'' (\<lambda>r. Some (projection_key r)) r (t_projection d)) (\<lambda>_.
     bindr (course_fk ''fk_learner_projection_course'' (lp_account_id r) (lp_course_id r) d) (\<lambda>_.
     Inr (d\<lparr> t_projection := t_projection d @ [r] \<rparr>)))))"

lemmas learning_insert_defs = insert_course_def insert_node_def insert_edge_def insert_item_def
  insert_revision_def insert_assess_def insert_event_def insert_review_def insert_projection_def
  course_fk_def validate_assessment_attempt_def

interpretation review_table: keyed_table t_review review_key insert_review
  by unfold_locales (auto simp: insert_review_def bindr_Inr_iff)

interpretation projection_table: keyed_table t_projection projection_key insert_projection
  by unfold_locales (auto simp: insert_projection_def bindr_Inr_iff)

interpretation event_table: keyed_table t_event le_id insert_event
  by unfold_locales (auto simp: insert_event_def bindr_Inr_iff)

interpretation assess_table: keyed_table t_assess at_id insert_assess
  by unfold_locales (auto simp: insert_assess_def bindr_Inr_iff)

section \<open>Courses and curriculum\<close>

definition find_course :: "uuid \<Rightarrow> uuid \<Rightarrow> learning_db \<Rightarrow> Course res" where
  "find_course account_id course_id d =
     scalar_one (filter (\<lambda>c. co_account_id c = account_id \<and> co_id c = course_id) (t_course d))"

definition create_course :: "env \<Rightarrow> RequestContext \<Rightarrow> uuid \<Rightarrow> string \<Rightarrow> (learning_db, uuid \<times> uuid) op" where
  "create_course E ctx space_id title s =
     tenant_scope E (tenant_of ctx) (\<lambda>s.
       Inr ((fresh E 0, space_id), add (insert_course
         \<lparr> co_id = fresh E 0, co_account_id = ctx_account_id ctx, co_space_id = space_id, co_title = title,
           co_created_at = now E \<rparr>) s)) s"

definition add_curriculum_node ::
    "env \<Rightarrow> RequestContext \<Rightarrow> uuid \<Rightarrow> string \<Rightarrow> string \<Rightarrow> string \<Rightarrow> (learning_db, uuid) op" where
  "add_curriculum_node E ctx course_id kind title confirmation s =
     tenant_scope E (tenant_of ctx) (\<lambda>s.
       bindr (find_course (ctx_account_id ctx) course_id (tables s)) (\<lambda>course.
       bindr (parse_node_kind kind) (\<lambda>k.
       bindr (parse_confirmation confirmation) (\<lambda>c.
         Inr (fresh E 0, add (insert_node
           \<lparr> cn_id = fresh E 0, cn_account_id = ctx_account_id ctx, cn_space_id = co_space_id course,
             cn_course_id = course_id, cn_kind = node_kind_value k, cn_title = title,
             cn_confirmation = confirmation_value c, cn_created_at = now E \<rparr>) s))))) s"

definition confirmed_edges :: "uuid \<Rightarrow> uuid \<Rightarrow> learning_db \<Rightarrow> CurriculumEdge list" where
  "confirmed_edges account_id course_id d =
     filter (\<lambda>e. ed_account_id e = account_id \<and> ed_course_id e = course_id \<and>
       ed_confirmation e = confirmation_value CONFIRMED) (t_edge d)"

definition new_edge ::
    "env \<Rightarrow> RequestContext \<Rightarrow> Course \<Rightarrow> uuid \<Rightarrow> uuid \<Rightarrow> uuid \<Rightarrow> ConfirmationState \<Rightarrow> CurriculumEdge" where
  "new_edge E ctx course course_id from_node_id to_node_id c =
     \<lparr> ed_id = fresh E 0, ed_account_id = ctx_account_id ctx, ed_space_id = co_space_id course,
       ed_course_id = course_id, ed_from_node_id = from_node_id, ed_to_node_id = to_node_id,
       ed_edge_kind = ''prerequisite'', ed_confirmation = confirmation_value c, ed_created_at = now E \<rparr>"

definition prerequisite_body ::
    "env \<Rightarrow> RequestContext \<Rightarrow> uuid \<Rightarrow> uuid \<Rightarrow> uuid \<Rightarrow> string \<Rightarrow> (learning_db, uuid) op" where
  "prerequisite_body E ctx course_id from_node_id to_node_id confirmation s =
     bindr (find_course (ctx_account_id ctx) course_id (tables s)) (\<lambda>course.
     let existing = confirmed_edges (ctx_account_id ctx) course_id (tables s);
         edge_pairs = map (\<lambda>e. (str_uuid (ed_from_node_id e), str_uuid (ed_to_node_id e))) existing
     in if confirmation = confirmation_value CONFIRMED \<and>
           would_create_cycle edge_pairs (str_uuid from_node_id) (str_uuid to_node_id)
        then Inl (ValueError ''confirmed_prerequisite_cycle'')
        else bindr (parse_confirmation confirmation) (\<lambda>c.
          Inr (fresh E 0, add (insert_edge (new_edge E ctx course course_id from_node_id to_node_id c)) s)))"

definition add_prerequisite_edge ::
    "env \<Rightarrow> RequestContext \<Rightarrow> uuid \<Rightarrow> uuid \<Rightarrow> uuid \<Rightarrow> string \<Rightarrow> (learning_db, uuid) op" where
  "add_prerequisite_edge E ctx course_id from_node_id to_node_id confirmation s =
     tenant_scope E (tenant_of ctx) (prerequisite_body E ctx course_id from_node_id to_node_id confirmation) s"

section \<open>Assessments\<close>

definition create_assessment ::
    "env \<Rightarrow> RequestContext \<Rightarrow> uuid \<Rightarrow> string \<Rightarrow> string \<Rightarrow> string \<Rightarrow> dict \<Rightarrow> uuid option \<Rightarrow> dict option \<Rightarrow>
     json list option \<Rightarrow> (learning_db, uuid \<times> uuid) op" where
  "create_assessment E ctx course_id title item_type prompt sealed_answer concept_node_id sealed_rubric
     source_locators s =
     (let digest = sha256 E (json_dumps (JObj [(''prompt'', JStr prompt), (''answer'', JObj sealed_answer),
            (''type'', JStr item_type)])) in
      tenant_scope E (tenant_of ctx) (\<lambda>s.
        bindr (find_course (ctx_account_id ctx) course_id (tables s)) (\<lambda>course.
        let item_id = fresh E 0; rev_id = fresh E 1 in
        bindr (flush (add (insert_item
          \<lparr> ai_id = item_id, ai_account_id = ctx_account_id ctx, ai_space_id = co_space_id course,
            ai_course_id = course_id, ai_concept_node_id = concept_node_id, ai_title = title,
            ai_created_at = now E \<rparr>) s)) (\<lambda>s1.
        bindr (parse_item_type item_type) (\<lambda>t.
        Inr ((item_id, rev_id), add (insert_revision
          \<lparr> ar_id = rev_id, ar_account_id = ctx_account_id ctx, ar_space_id = co_space_id course,
            ar_assessment_item_id = item_id, ar_item_type = item_type_value t, ar_prompt = prompt,
            ar_sealed_answer = sealed_answer,
            ar_sealed_rubric = (case sealed_rubric of None \<Rightarrow> [] | Some r \<Rightarrow> r),
            ar_source_locators = (case source_locators of None \<Rightarrow> [] | Some l \<Rightarrow> l),
            ar_difficulty = None, ar_guessing_chance = None,
            ar_state = assessment_state_value PROVISIONAL, ar_content_sha256 = digest,
            ar_created_at = now E \<rparr>) s1))))) s)"

definition prompt_view :: "uuid \<Rightarrow> uuid \<Rightarrow> AssessmentRevision \<Rightarrow> dict" where
  "prompt_view assessment_item_id revision_id rv =
     [(''assessmentItemId'', JStr (str_uuid assessment_item_id)), (''revisionId'', JStr (str_uuid revision_id)),
      (''itemType'', JStr (ar_item_type rv)), (''prompt'', JStr (ar_prompt rv)), (''state'', JStr (ar_state rv))]"

definition get_assessment_for_attempt ::
    "env \<Rightarrow> RequestContext \<Rightarrow> uuid \<Rightarrow> uuid \<Rightarrow> (learning_db, dict) op" where
  "get_assessment_for_attempt E ctx assessment_item_id revision_id s =
     tenant_scope E (tenant_of ctx) (\<lambda>s.
       bindr (scalar_one (filter (\<lambda>r. ar_account_id r = ctx_account_id ctx \<and>
           ar_assessment_item_id r = assessment_item_id \<and> ar_id r = revision_id) (t_revision (tables s)))) (\<lambda>rv.
         Inr (prompt_view assessment_item_id revision_id rv, s))) s"

section \<open>Attempts\<close>

definition learner_event ::
    "env \<Rightarrow> uuid \<Rightarrow> RequestContext \<Rightarrow> uuid \<Rightarrow> uuid \<Rightarrow> uuid option \<Rightarrow> uuid option \<Rightarrow> uuid option \<Rightarrow> uuid option \<Rightarrow>
     string option \<Rightarrow> string \<Rightarrow> datetime \<Rightarrow> dict \<Rightarrow> string \<Rightarrow> string option \<Rightarrow> LearnerEvent" where
  "learner_event E event_id ctx space_id course_id concept item revision attempt client_event_id event_type
     occurred_at payload eligibility reason =
     \<lparr> le_id = event_id, le_account_id = ctx_account_id ctx, le_space_id = space_id, le_course_id = course_id,
       le_user_id = ctx_user_id ctx, le_concept_node_id = concept, le_assessment_item_id = item,
       le_assessment_revision_id = revision, le_attempt_id = attempt, le_client_event_id = client_event_id,
       le_event_type = event_type, le_occurred_at = occurred_at, le_received_at = now E,
       le_payload_schema_version = 1, le_payload = payload, le_eligibility = eligibility,
       le_exclusion_reason = reason \<rparr>"

definition attempt_reply :: "uuid \<Rightarrow> string \<Rightarrow> bool \<Rightarrow> dict" where
  "attempt_reply attempt_id status idempotent =
     [(''attemptId'', JStr (str_uuid attempt_id)), (''status'', JStr status), (''idempotent'', JBool idempotent)]"

definition attempts_with_client_id :: "uuid \<Rightarrow> string \<Rightarrow> learning_db \<Rightarrow> AssessmentAttempt list" where
  "attempts_with_client_id account_id c d =
     filter (\<lambda>a. at_account_id a = account_id \<and> at_client_attempt_id a = Some c) (t_assess d)"

definition new_attempt ::
    "env \<Rightarrow> RequestContext \<Rightarrow> uuid \<Rightarrow> uuid \<Rightarrow> uuid \<Rightarrow> uuid \<Rightarrow> string option \<Rightarrow> AssessmentAttempt" where
  "new_attempt E ctx space_id course_id item_id revision_id client_attempt_id =
     \<lparr> at_id = fresh E 0, at_account_id = ctx_account_id ctx, at_space_id = space_id,
       at_user_id = ctx_user_id ctx, at_course_id = course_id, at_assessment_item_id = item_id,
       at_assessment_revision_id = revision_id, at_response_json = [], at_confidence = None,
       at_hint_revealed = False, at_answer_revealed = False, at_feedback_at = None,
       at_status = ''in_progress'', at_client_attempt_id = client_attempt_id, at_created_at = now E \<rparr>"

definition start_attempt_body ::
    "env \<Rightarrow> RequestContext \<Rightarrow> uuid \<Rightarrow> uuid \<Rightarrow> uuid \<Rightarrow> string option \<Rightarrow> (learning_db, dict) op" where
  "start_attempt_body E ctx course_id item_id revision_id client_attempt_id s =
     (let d = tables s; account_id = ctx_account_id ctx in
      bindr (find_course account_id course_id d) (\<lambda>course.
      bindr (scalar_one (filter (\<lambda>i. ai_account_id i = account_id \<and> ai_id i = item_id \<and>
          ai_course_id i = course_id \<and> ai_space_id i = co_space_id course) (t_item d))) (\<lambda>item.
      bindr (scalar_one (filter (\<lambda>r. ar_account_id r = account_id \<and> ar_id r = revision_id \<and>
          ar_assessment_item_id r = ai_id item \<and> ar_space_id r = co_space_id course) (t_revision d))) (\<lambda>_.
      bindr (if truthy_str client_attempt_id
             then scalar_one_or_none (attempts_with_client_id account_id (the client_attempt_id) d)
             else Inr None) (\<lambda>existing.
      case existing of
        Some a \<Rightarrow>
          if at_user_id a \<noteq> ctx_user_id ctx \<or> at_course_id a \<noteq> course_id \<or>
             at_assessment_item_id a \<noteq> item_id \<or> at_assessment_revision_id a \<noteq> revision_id
          then Inl (ValueError ''idempotency_conflict'')
          else Inr (attempt_reply (at_id a) (at_status a) True, s)
      | None \<Rightarrow>
          let attempt_id = fresh E 0;
              s1 = add (insert_assess (new_attempt E ctx (co_space_id course) course_id item_id revision_id
                     client_attempt_id)) s;
              s2 = add (insert_event (learner_event E (fresh E 1) ctx (co_space_id course) course_id None
                     (Some item_id) (Some revision_id) (Some attempt_id)
                     (Some (''attempt-started:'' @ str_uuid attempt_id)) (event_type_value ATTEMPT_STARTED)
                     (now E) [] ''ineligible'' (Some ''attempt_started''))) s1
          in Inr (attempt_reply attempt_id ''in_progress'' False, s2))))))"

definition start_assessment_attempt ::
    "env \<Rightarrow> RequestContext \<Rightarrow> uuid \<Rightarrow> uuid \<Rightarrow> uuid \<Rightarrow> string option \<Rightarrow> (learning_db, dict) op" where
  "start_assessment_attempt E ctx course_id item_id revision_id client_attempt_id s =
     tenant_scope E (tenant_of ctx)
       (start_attempt_body E ctx course_id item_id revision_id client_attempt_id) s"

definition update_assess ::
    "uuid \<Rightarrow> (AssessmentAttempt \<Rightarrow> AssessmentAttempt) \<Rightarrow> learning_db \<Rightarrow> learning_db res" where
  "update_assess attempt_id f d = Inr (d\<lparr> t_assess := update_rows (\<lambda>a. at_id a = attempt_id) f (t_assess d) \<rparr>)"

definition reveal_body ::
    "env \<Rightarrow> RequestContext \<Rightarrow> uuid \<Rightarrow> bool \<Rightarrow> bool \<Rightarrow> (learning_db, dict option) op" where
  "reveal_body E ctx attempt_id hint answer s =
     bindr (scalar_one_or_none (filter (\<lambda>a. at_account_id a = ctx_account_id ctx \<and> at_id a = attempt_id \<and>
         at_user_id a = ctx_user_id ctx) (t_assess (tables s)))) (\<lambda>found.
     case found of
       None \<Rightarrow> Inr (None, s)
     | Some row \<Rightarrow>
         if at_status row \<noteq> ''in_progress'' then Inr (None, s)
         else
           let row' = row\<lparr> at_hint_revealed := at_hint_revealed row \<or> hint,
                 at_answer_revealed := at_answer_revealed row \<or> answer \<rparr>;
               event_type = (if answer \<or> \<not> hint then event_type_value ANSWER_REVEALED
                             else event_type_value HINT_REVEALED);
               s1 = add (update_assess attempt_id (\<lambda>a. a\<lparr> at_hint_revealed := at_hint_revealed a \<or> hint,
                      at_answer_revealed := at_answer_revealed a \<or> answer \<rparr>)) s;
               s2 = (if hint \<or> answer
                     then add (insert_event (learner_event E (fresh E 0) ctx (at_space_id row) (at_course_id row)
                            None (Some (at_assessment_item_id row)) (Some (at_assessment_revision_id row))
                            (Some (at_id row)) (Some (event_type @ CHR '':'' # str_uuid (at_id row))) event_type
                            (now E) [] ''ineligible'' (Some event_type))) s1
                     else s1)
           in Inr (Some [(''attemptId'', JStr (str_uuid (at_id row))), (''hintRevealed'', JBool (at_hint_revealed row')),
                (''answerRevealed'', JBool (at_answer_revealed row')), (''status'', JStr (at_status row))], s2))"

definition record_attempt_reveal ::
    "env \<Rightarrow> RequestContext \<Rightarrow> uuid \<Rightarrow> bool \<Rightarrow> bool \<Rightarrow> (learning_db, dict option) op" where
  "record_attempt_reveal E ctx attempt_id hint answer s =
     tenant_scope E (tenant_of ctx) (reveal_body E ctx attempt_id hint answer) s"

section \<open>The event log\<close>

text \<open>The keys a client must not declare.\<close>

definition ADVERSARIAL_KEYS :: "string list" where
  "ADVERSARIAL_KEYS = [''correct'', ''grade'', ''eligibility'', ''eligible'', ''user_id'']"

definition append_event_body ::
    "env \<Rightarrow> RequestContext \<Rightarrow> uuid \<Rightarrow> string \<Rightarrow> datetime \<Rightarrow> string option \<Rightarrow> uuid option \<Rightarrow> uuid option \<Rightarrow>
     uuid option \<Rightarrow> uuid option \<Rightarrow> dict \<Rightarrow> EvidenceEligibility \<Rightarrow> string option \<Rightarrow> (learning_db, uuid) op" where
  "append_event_body E ctx course_id event_type occurred_at client_event_id concept item revision attempt body
     eligibility reason s =
     bindr (if truthy_str client_event_id
            then scalar_one_or_none (filter (\<lambda>e. le_account_id e = ctx_account_id ctx \<and>
              le_client_event_id e = client_event_id) (t_event (tables s)))
            else Inr None) (\<lambda>existing.
     case existing of
       Some e \<Rightarrow> Inr (le_id e, s)
     | None \<Rightarrow>
         bindr (find_course (ctx_account_id ctx) course_id (tables s)) (\<lambda>course.
         bindr (parse_event_type event_type) (\<lambda>et.
         Inr (fresh E 0, add (insert_event (learner_event E (fresh E 0) ctx (co_space_id course) course_id concept
           item revision attempt client_event_id (event_type_value et) occurred_at body
           (eligibility_value eligibility) reason)) s))))"

definition append_learner_event ::
    "env \<Rightarrow> RequestContext \<Rightarrow> uuid \<Rightarrow> string \<Rightarrow> datetime \<Rightarrow> string option \<Rightarrow> uuid option \<Rightarrow> uuid option \<Rightarrow>
     uuid option \<Rightarrow> uuid option \<Rightarrow> dict option \<Rightarrow> bool \<Rightarrow> bool \<Rightarrow> bool \<Rightarrow> (learning_db, uuid) op" where
  "append_learner_event E ctx course_id event_type occurred_at client_event_id concept item revision attempt
     payload answer_revealed substantive_hint response_before_feedback s =
     (let body = dict_without ADVERSARIAL_KEYS (case payload of None \<Rightarrow> [] | Some p \<Rightarrow> p) in
      bindr (classify_event_eligibility event_type answer_revealed substantive_hint response_before_feedback)
        (\<lambda>(eligibility, reason).
          tenant_scope E (tenant_of ctx) (append_event_body E ctx course_id event_type occurred_at client_event_id
            concept item revision attempt body eligibility reason) s))"

section \<open>Review scheduling\<close>

record ReviewReply =
  rr_rating :: FsrsRating
  rr_due_at :: datetime
  rr_stability :: rat
  rr_difficulty :: rat
  rr_priority :: int

definition card_state :: "FsrsCard \<Rightarrow> FsrsState" where
  "card_state c = \<lparr> fs_stability = card_stability c, fs_difficulty = card_difficulty c,
     fs_reps = card_reps c, fs_lapses = card_lapses c \<rparr>"

text \<open>The fcard a stored row stands for; a missing due date counts as due now.\<close>

definition state_card :: "FsrsState \<Rightarrow> datetime \<Rightarrow> FsrsCard" where
  "state_card st due = \<lparr> card_stability = fs_stability st, card_difficulty = fs_difficulty st,
     card_reps = fs_reps st, card_lapses = fs_lapses st, card_due_at = due, card_last_review_at = None \<rparr>"

definition row_card :: "env \<Rightarrow> ReviewItem \<Rightarrow> FsrsCard" where
  "row_card E r = state_card (ri_fsrs_state r) (case ri_due_at r of None \<Rightarrow> now E | Some t \<Rightarrow> t)"

definition new_review :: "env \<Rightarrow> RequestContext \<Rightarrow> Course \<Rightarrow> uuid \<Rightarrow> uuid \<Rightarrow> uuid \<Rightarrow> FsrsCard \<Rightarrow> ReviewItem" where
  "new_review E ctx course course_id item_id revision_id fcard =
     \<lparr> ri_id = fresh E 0, ri_account_id = ctx_account_id ctx, ri_space_id = co_space_id course,
       ri_course_id = course_id, ri_user_id = ctx_user_id ctx, ri_assessment_item_id = item_id,
       ri_assessment_revision_id = revision_id, ri_fsrs_state = card_state fcard,
       ri_due_at = Some (card_due_at fcard), ri_priority = 0, ri_updated_at = now E \<rparr>"

definition rated_row :: "env \<Rightarrow> FsrsCard \<Rightarrow> uuid \<Rightarrow> int \<Rightarrow> ReviewItem \<Rightarrow> ReviewItem" where
  "rated_row E fcard revision_id priority r =
     r\<lparr> ri_fsrs_state := card_state fcard, ri_due_at := Some (card_due_at fcard),
        ri_assessment_revision_id := revision_id, ri_priority := priority, ri_updated_at := now E \<rparr>"

definition update_review :: "uuid \<Rightarrow> (ReviewItem \<Rightarrow> ReviewItem) \<Rightarrow> learning_db \<Rightarrow> learning_db res" where
  "update_review row_id f d = Inr (d\<lparr> t_review := update_rows (\<lambda>r. ri_id r = row_id) f (t_review d) \<rparr>)"

definition review_body ::
    "env \<Rightarrow> RequestContext \<Rightarrow> uuid \<Rightarrow> uuid \<Rightarrow> uuid \<Rightarrow> FsrsRating \<Rightarrow> (learning_db, ReviewReply) op" where
  "review_body E ctx course_id item_id revision_id rating s =
     bindr (find_course (ctx_account_id ctx) course_id (tables s)) (\<lambda>course.
     bindr (scalar_one_or_none (filter (\<lambda>r. review_key r = (ctx_account_id ctx, ctx_user_id ctx, item_id))
         (t_review (tables s)))) (\<lambda>found.
     bindr (case found of
         None \<Rightarrow>
           let fcard = initial_card (now E);
               row = new_review E ctx course course_id item_id revision_id fcard
           in bindr (flush (add (insert_review row) s)) (\<lambda>s1. Inr (ri_id row, fcard, s1))
       | Some row \<Rightarrow> Inr (ri_id row, row_card E row, s)) (\<lambda>(row_id, fcard, s1).
     bindr (schedule fcard rating (now E)) (\<lambda>updated.
     let priority = scheduling_priority (if rating = AGAIN then ''lapsed'' else ''due'')
           (Some (card_due_at updated)) False False (now E)
     in Inr (\<lparr> rr_rating = rating, rr_due_at = card_due_at updated, rr_stability = card_stability updated,
               rr_difficulty = card_difficulty updated, rr_priority = priority \<rparr>,
             add (update_review row_id (rated_row E updated revision_id priority)) s1)))))"

definition apply_review_rating ::
    "env \<Rightarrow> RequestContext \<Rightarrow> uuid \<Rightarrow> uuid \<Rightarrow> uuid \<Rightarrow> bool \<Rightarrow> bool \<Rightarrow> bool \<Rightarrow> (learning_db, ReviewReply) op" where
  "apply_review_rating E ctx course_id item_id revision_id correct revealed substantive_hint s =
     (let rating = map_outcome_to_rating correct revealed substantive_hint False False in
      tenant_scope E (tenant_of ctx) (review_body E ctx course_id item_id revision_id rating) s)"

section \<open>Grading\<close>

definition grade_mcq :: "dict \<Rightarrow> dict \<Rightarrow> bool \<times> string" where
  "grade_mcq sealed_answer response =
     (let expected = jget sealed_answer ''correctOption''; actual = jget response ''selectedOption'' in
      if expected = JNull \<or> actual = JNull then (False, ''ungradable'')
      else (py_str expected = py_str actual, ''deterministic_rule''))"

text \<open>What the scope of a submission hands on: the replayed attempt, or the grade it recorded.\<close>

datatype submission =
    Replayed uuid string
  | Graded uuid uuid bool EvidenceEligibility bool bool

definition own_attempts :: "RequestContext \<Rightarrow> string \<Rightarrow> learning_db \<Rightarrow> AssessmentAttempt list" where
  "own_attempts ctx c d =
     filter (\<lambda>a. at_account_id a = ctx_account_id ctx \<and> at_user_id a = ctx_user_id ctx \<and>
       at_client_attempt_id a = Some c) (t_assess d)"

definition attempt_targets :: "uuid \<Rightarrow> uuid \<Rightarrow> uuid \<Rightarrow> AssessmentAttempt \<Rightarrow> bool" where
  "attempt_targets course_id item_id revision_id a \<longleftrightarrow>
     at_course_id a = course_id \<and> at_assessment_item_id a = item_id \<and> at_assessment_revision_id a = revision_id"

definition graded_row :: "env \<Rightarrow> dict \<Rightarrow> string \<Rightarrow> AssessmentAttempt \<Rightarrow> AssessmentAttempt" where
  "graded_row E response confidence a =
     a\<lparr> at_response_json := response, at_confidence := Some confidence, at_feedback_at := Some (now E),
        at_status := ''graded'' \<rparr>"

definition grade_event ::
    "env \<Rightarrow> RequestContext \<Rightarrow> uuid \<Rightarrow> uuid \<Rightarrow> uuid \<Rightarrow> uuid \<Rightarrow> uuid \<Rightarrow> bool \<Rightarrow> string \<Rightarrow> string \<Rightarrow>
     EvidenceEligibility \<Rightarrow> string option \<Rightarrow> LearnerEvent" where
  "grade_event E ctx space_id course_id item_id revision_id attempt_id correct grade_reason confidence
     eligibility reason =
     learner_event E (fresh E 1) ctx space_id course_id None (Some item_id) (Some revision_id)
       (Some attempt_id) (Some (''attempt:'' @ str_uuid attempt_id)) (event_type_value GRADE_RECORDED) (now E)
       [(''correct'', JBool correct), (''gradeReason'', JStr grade_reason), (''confidence'', JStr confidence)]
       (eligibility_value eligibility) reason"

definition grade_body ::
    "env \<Rightarrow> RequestContext \<Rightarrow> uuid \<Rightarrow> uuid \<Rightarrow> uuid \<Rightarrow> dict \<Rightarrow> string \<Rightarrow> string \<Rightarrow> (learning_db, submission) op" where
  "grade_body E ctx course_id item_id revision_id response confidence client_attempt_id s =
     bindr (find_course (ctx_account_id ctx) course_id (tables s)) (\<lambda>course.
     bindr (scalar_one (filter (\<lambda>r. ar_account_id r = ctx_account_id ctx \<and>
         ar_assessment_item_id r = item_id \<and> ar_id r = revision_id) (t_revision (tables s)))) (\<lambda>rv.
     let (correct, grade_reason) = grade_mcq (ar_sealed_answer rv) response in
     bindr (scalar_one_or_none (filter (\<lambda>a. at_status a = ''in_progress'')
         (own_attempts ctx client_attempt_id (tables s)))) (\<lambda>prior.
     case prior of
       None \<Rightarrow> Inl (ValueError ''attempt_not_started'')
     | Some a \<Rightarrow>
         if \<not> attempt_targets course_id item_id revision_id a then Inl (ValueError ''attempt_target_mismatch'')
         else bindr (classify_event_eligibility (event_type_value GRADE_RECORDED) (at_answer_revealed a)
             (at_hint_revealed a) True) (\<lambda>(eligibility, reason).
           let s1 = add (update_assess (at_id a) (graded_row E response confidence)) s;
               s2 = add (insert_event (grade_event E ctx (co_space_id course) course_id item_id revision_id
                      (at_id a) correct grade_reason confidence eligibility reason)) s1
           in Inr (Graded (at_id a) (fresh E 1) correct eligibility (at_answer_revealed a) (at_hint_revealed a),
                s2)))))"

definition submit_body ::
    "env \<Rightarrow> RequestContext \<Rightarrow> uuid \<Rightarrow> uuid \<Rightarrow> uuid \<Rightarrow> dict \<Rightarrow> string \<Rightarrow> string \<Rightarrow> (learning_db, submission) op" where
  "submit_body E ctx course_id item_id revision_id response confidence client_attempt_id s =
     bindr (scalar_one_or_none (own_attempts ctx client_attempt_id (tables s))) (\<lambda>existing.
     case existing of
       Some a \<Rightarrow>
         if at_status a = ''graded'' then
           if \<not> attempt_targets course_id item_id revision_id a then Inl (ValueError ''idempotency_conflict'')
           else Inr (Replayed (at_id a) (at_status a), s)
         else grade_body E ctx course_id item_id revision_id response confidence client_attempt_id s
     | None \<Rightarrow> grade_body E ctx course_id item_id revision_id response confidence client_attempt_id s)"

text \<open>Only an eligible grade reaches the scheduler.\<close>

definition review_if_eligible ::
    "env \<Rightarrow> RequestContext \<Rightarrow> uuid \<Rightarrow> uuid \<Rightarrow> uuid \<Rightarrow> bool \<Rightarrow> EvidenceEligibility \<Rightarrow> bool \<Rightarrow> bool \<Rightarrow> learning_db session \<Rightarrow>
     learning_db session res" where
  "review_if_eligible E ctx course_id item_id revision_id correct eligibility revealed hint s =
     (if eligibility = ELIGIBLE
      then bindr (apply_review_rating E ctx course_id item_id revision_id correct revealed hint s)
             (\<lambda>(_, s'). Inr s')
      else Inr s)"

definition grade_reply :: "uuid \<Rightarrow> uuid \<Rightarrow> bool \<Rightarrow> EvidenceEligibility \<Rightarrow> dict" where
  "grade_reply attempt_id event_id correct eligibility =
     [(''attemptId'', JStr (str_uuid attempt_id)), (''eventId'', JStr (str_uuid event_id)),
      (''correct'', JBool correct), (''status'', JStr ''graded''),
      (''eligibility'', JStr (eligibility_value eligibility)), (''idempotent'', JBool False)]"

text \<open>The two reveal flags a client sends are arguments the source discards; they are left out.\<close>

definition submit_assessment_attempt ::
    "env \<Rightarrow> RequestContext \<Rightarrow> uuid \<Rightarrow> uuid \<Rightarrow> uuid \<Rightarrow> dict \<Rightarrow> string option \<Rightarrow> string option \<Rightarrow> (learning_db, dict) op" where
  "submit_assessment_attempt E ctx course_id item_id revision_id response confidence client_attempt_id s =
     (if confidence = None \<or> py_strip (the confidence) = [] then
        Inl (ValueError ''confidence_required_before_feedback'')
      else if \<not> truthy_str client_attempt_id then Inl (ValueError ''attempt_start_required'')
      else
        bindr (tenant_scope E (tenant_of ctx) (submit_body E ctx course_id item_id revision_id response
          (the confidence) (the client_attempt_id)) s) (\<lambda>(r, s1).
        case r of
          Replayed attempt_id status \<Rightarrow> Inr (attempt_reply attempt_id status True, s1)
        | Graded attempt_id event_id correct eligibility revealed hint \<Rightarrow>
            bindr (review_if_eligible (E\<lparr> fresh := \<lambda>k. fresh E (k + 2) \<rparr>) ctx course_id item_id revision_id
              correct eligibility revealed hint s1) (\<lambda>s2.
            Inr (grade_reply attempt_id event_id correct eligibility, s2))))"

section \<open>The Evidence Twin projection\<close>

definition event_record :: "LearnerEvent \<Rightarrow> LearnerEventRecord" where
  "event_record e =
     \<lparr> ler_event_id = le_id e, ler_event_type = le_event_type e, ler_concept_node_id = le_concept_node_id e,
       ler_assessment_item_id = le_assessment_item_id e, ler_occurred_at = le_occurred_at e,
       ler_eligibility = le_eligibility e, ler_payload = le_payload e \<rparr>"

definition learner_log :: "uuid \<Rightarrow> uuid \<Rightarrow> uuid \<Rightarrow> learning_db \<Rightarrow> LearnerEventRecord list" where
  "learner_log account_id course_id user_id d =
     map event_record (filter (\<lambda>e. le_account_id e = account_id \<and> le_course_id e = course_id \<and>
       le_user_id e = user_id) (t_event d))"

definition projection_payload :: "ConceptEvidence \<Rightarrow> dict" where
  "projection_payload ev =
     [(''eligible_grades'', JInt (ce_eligible_grades ev)), (''ineligible_hits'', JInt (ce_ineligible_hits ev))]"

definition projected_row :: "env \<Rightarrow> ConceptEvidence \<Rightarrow> LearnerProjection \<Rightarrow> LearnerProjection" where
  "projected_row E ev r =
     r\<lparr> lp_evidence_state := evidence_state_value (ce_evidence_state ev),
        lp_recall_state := recall_state_value (ce_recall_state ev), lp_coverage := ce_eligible_grades ev,
        lp_projection_json := projection_payload ev, lp_updated_at := now E \<rparr>"

definition new_projection :: "env \<Rightarrow> RequestContext \<Rightarrow> Course \<Rightarrow> uuid \<Rightarrow> nat \<Rightarrow> uuid \<Rightarrow> ConceptEvidence \<Rightarrow> LearnerProjection" where
  "new_projection E ctx course course_id k concept_id ev =
     \<lparr> lp_id = fresh E k, lp_account_id = ctx_account_id ctx, lp_space_id = co_space_id course,
       lp_course_id = course_id, lp_user_id = ctx_user_id ctx, lp_concept_node_id = concept_id,
       lp_evidence_state = evidence_state_value (ce_evidence_state ev),
       lp_recall_state = recall_state_value (ce_recall_state ev), lp_confidence = None,
       lp_coverage = ce_eligible_grades ev, lp_projection_json = projection_payload ev, lp_updated_at = now E \<rparr>"

definition update_projection :: "uuid \<Rightarrow> (LearnerProjection \<Rightarrow> LearnerProjection) \<Rightarrow> learning_db \<Rightarrow> learning_db res" where
  "update_projection row_id f d = Inr (d\<lparr> t_projection := update_rows (\<lambda>r. lp_id r = row_id) f (t_projection d) \<rparr>)"

definition project_concept ::
    "env \<Rightarrow> RequestContext \<Rightarrow> Course \<Rightarrow> uuid \<Rightarrow> uuid \<times> ConceptEvidence \<Rightarrow> nat \<times> learning_db session \<Rightarrow>
     (nat \<times> learning_db session) res" where
  "project_concept E ctx course course_id p st =
     (let (concept_id, ev) = p; (k, s) = st in
      bindr (scalar_one_or_none (filter (\<lambda>r. projection_key r = (ctx_account_id ctx, ctx_user_id ctx, concept_id))
          (t_projection (tables s)))) (\<lambda>row.
      case row of
        None \<Rightarrow> Inr (k + 1, add (insert_projection (new_projection E ctx course course_id k concept_id ev)) s)
      | Some r \<Rightarrow> Inr (k, add (update_projection (lp_id r) (projected_row E ev)) s)))"

definition rebuild_body ::
    "env \<Rightarrow> RequestContext \<Rightarrow> uuid \<Rightarrow> (learning_db, (uuid \<times> ConceptEvidence) list) op" where
  "rebuild_body E ctx course_id s =
     bindr (find_course (ctx_account_id ctx) course_id (tables s)) (\<lambda>course.
     let projected = replay_evidence (learner_log (ctx_account_id ctx) course_id (ctx_user_id ctx) (tables s)) in
     bindr (fold_res (project_concept E ctx course course_id) projected (0, s)) (\<lambda>(_, s1).
     Inr (projected, s1)))"

definition concept_reply :: "ConceptEvidence \<Rightarrow> json" where
  "concept_reply ev = JObj
     [(''evidenceState'', JStr (evidence_state_value (ce_evidence_state ev))),
      (''recallState'', JStr (recall_state_value (ce_recall_state ev))),
      (''eligibleGrades'', JInt (ce_eligible_grades ev)), (''ineligibleHits'', JInt (ce_ineligible_hits ev))]"

definition rebuild_evidence_projections :: "env \<Rightarrow> RequestContext \<Rightarrow> uuid \<Rightarrow> (learning_db, dict) op" where
  "rebuild_evidence_projections E ctx course_id s =
     bindr (tenant_scope E (tenant_of ctx) (rebuild_body E ctx course_id) s) (\<lambda>(projected, s1).
     Inr (map (\<lambda>(c, ev). (str_uuid c, concept_reply ev)) projected, s1))"

section \<open>Effects of the operations\<close>

lemma learning_insert_eq:
  "insert_course c d = Inr d' \<Longrightarrow> d' = d\<lparr> t_course := t_course d @ [c] \<rparr>"
  "insert_node n d = Inr d' \<Longrightarrow> d' = d\<lparr> t_node := t_node d @ [n] \<rparr>"
  "insert_edge e d = Inr d' \<Longrightarrow> d' = d\<lparr> t_edge := t_edge d @ [e] \<rparr>"
  "insert_item i d = Inr d' \<Longrightarrow> d' = d\<lparr> t_item := t_item d @ [i] \<rparr>"
  "insert_revision v d = Inr d' \<Longrightarrow> d' = d\<lparr> t_revision := t_revision d @ [v] \<rparr>"
  "insert_assess a d = Inr d' \<Longrightarrow> d' = d\<lparr> t_assess := t_assess d @ [a] \<rparr>"
  "insert_event l d = Inr d' \<Longrightarrow> d' = d\<lparr> t_event := t_event d @ [l] \<rparr>"
  "insert_review w d = Inr d' \<Longrightarrow> d' = d\<lparr> t_review := t_review d @ [w] \<rparr>"
  "insert_projection p d = Inr d' \<Longrightarrow> d' = d\<lparr> t_projection := t_projection d @ [p] \<rparr>"
  by (auto simp: learning_insert_defs bindr_Inr_iff)

lemma create_course_effect:
  assumes "create_course E ctx space_id title (d, []) = Inr (r, d', ps')"
  shows "t_edge d' = t_edge d \<and> t_event d' = t_event d \<and> t_review d' = t_review d \<and> t_assess d' = t_assess d"
proof -
  obtain g s3 where "s3 = add (insert_course \<lparr> co_id = fresh E 0, co_account_id = ctx_account_id ctx,
      co_space_id = space_id, co_title = title, co_created_at = now E \<rparr>) (d\<lparr> settings := g \<rparr>, [])"
    "flush s3 = Inr (d', ps')"
    using tenant_scope_body [OF assms [unfolded create_course_def]] by (metis Inr_inject Pair_inject)
  then show ?thesis by (auto simp: bindr_Inr_iff dest!: learning_insert_eq)
qed

lemma add_curriculum_node_effect:
  assumes "add_curriculum_node E ctx course_id kind title confirmation (d, []) = Inr (r, d', ps')"
  shows "t_edge d' = t_edge d \<and> t_event d' = t_event d \<and> t_review d' = t_review d \<and> t_assess d' = t_assess d"
  by (rule tenant_scope_body [OF assms [unfolded add_curriculum_node_def]])
    (auto simp: bindr_Inr_iff dest!: learning_insert_eq)

lemma create_assessment_effect:
  assumes "create_assessment E ctx course_id title item_type prompt answer concept rubric locators (d, []) =
    Inr (r, d', ps')"
  shows "t_edge d' = t_edge d \<and> t_event d' = t_event d \<and> t_review d' = t_review d \<and> t_assess d' = t_assess d"
  by (rule tenant_scope_body [OF assms [unfolded create_assessment_def Let_def]])
    (auto simp: bindr_Inr_iff Let_def dest!: learning_insert_eq)

lemma add_prerequisite_edge_effect:
  assumes "add_prerequisite_edge E ctx course_id f t confirmation (d, []) = Inr (r, d', ps')"
  shows "\<exists>course c. parse_confirmation confirmation = Inr c \<and>
    t_edge d' = t_edge d @ [new_edge E ctx course course_id f t c] \<and>
    \<not> (confirmation = confirmation_value CONFIRMED \<and>
       would_create_cycle (map (\<lambda>e. (str_uuid (ed_from_node_id e), str_uuid (ed_to_node_id e)))
         (confirmed_edges (ctx_account_id ctx) course_id d)) (str_uuid f) (str_uuid t)) \<and>
    t_event d' = t_event d \<and> t_review d' = t_review d \<and> t_assess d' = t_assess d"
  by (rule tenant_scope_body [OF assms [unfolded add_prerequisite_edge_def]])
    (auto simp: bindr_Inr_iff prerequisite_body_def Let_def confirmed_edges_def
      split: if_splits dest!: learning_insert_eq; blast)

end
