(* ===== verification/Learning_Invariants.thy ===== *)
theory Learning_Invariants
  imports Learning_Service
begin

text \<open>
  What the learning service guarantees over every sequence of its operations. The operations of
  \<open>Learning_Service\<close> are the steps of a transition system on the committed database
  (\<open>learning_step\<close>); an operation that raises commits nothing and is no step. The effect of each
  operation on the tables is one lemma, and the invariants follow by rule induction: the confirmed
  prerequisites of a course stay acyclic, stored cards stay in range, and which events can count as
  evidence of mastery.
\<close>

section \<open>Effects\<close>

lemma flush_inv:
  assumes "flush (d, ps) = Inr (d', ps')" and "P d"
    and "\<And>act e e'. act \<in> set ps \<Longrightarrow> P e \<Longrightarrow> act e = Inr e' \<Longrightarrow> P e'"
  shows "P d'"
  using assms(1) fold_res_inv [of "\<lambda>ins. ins" ps d d' P] assms(2,3)
  by (auto simp: flush_def bindr_Inr_iff)

lemma insert_assessD:
  "insert_assess a d = Inr d' \<Longrightarrow>
     d' = d\<lparr> t_assess := t_assess d @ [a] \<rparr> \<and> at_id a \<notin> at_id ` set (t_assess d)"
  using learning_insert_eq(6) assess_table.ins_fresh by blast

lemma start_attempt_effect:
  assumes "start_assessment_attempt E ctx course_id item_id revision_id client (d, []) = Inr (r, d', ps')"
  shows "t_edge d' = t_edge d \<and> t_review d' = t_review d \<and>
    (\<exists>evs. t_event d' = t_event d @ evs \<and> (\<forall>e \<in> set evs. le_concept_node_id e = None)) \<and>
    (\<exists>as. t_assess d' = t_assess d @ as \<and> (\<forall>a \<in> set as. at_id a \<notin> at_id ` set (t_assess d)))"
  by (rule tenant_scope_body [OF assms [unfolded start_assessment_attempt_def]])
    (auto simp: Inr_iffs start_attempt_body_def learner_event_def Let_def
      dest!: learning_insert_eq(7) insert_assessD)

lemma reveal_effect:
  assumes "record_attempt_reveal E ctx attempt_id hint answer (d, []) = Inr (r, d', ps')"
  shows "t_edge d' = t_edge d \<and> t_review d' = t_review d \<and>
    (\<exists>evs. t_event d' = t_event d @ evs \<and> (\<forall>e \<in> set evs. le_concept_node_id e = None)) \<and>
    (t_assess d' = t_assess d \<and> r = None \<or>
     t_assess d' = update_rows (\<lambda>a. at_id a = attempt_id) (\<lambda>a. a\<lparr> at_hint_revealed := at_hint_revealed a \<or> hint,
       at_answer_revealed := at_answer_revealed a \<or> answer \<rparr>) (t_assess d) \<and>
     attempt_id \<in> at_id ` set (t_assess d))"
  by (rule tenant_scope_body [OF assms [unfolded record_attempt_reveal_def]], cases "hint \<or> answer")
    (auto simp: Inr_iffs reveal_body_def learner_event_def Let_def update_assess_def scalar_iffs
      dest!: learning_insert_eq filter_singletonD)

text \<open>What a client can put into the log carries no verdict.\<close>

definition no_verdict :: "LearnerEvent \<Rightarrow> bool" where
  "no_verdict e \<longleftrightarrow> jget_or (le_payload e) ''correct'' (JBool False) = JBool False"

lemma append_event_effect:
  assumes "append_learner_event E ctx course_id event_type occurred_at client concept item revision attempt
     payload ar sh rbf (d, []) = Inr (r, d', ps')"
  shows "t_edge d' = t_edge d \<and> t_review d' = t_review d \<and>
    (\<exists>evs. t_event d' = t_event d @ evs \<and> (\<forall>e \<in> set evs. no_verdict e \<and> le_user_id e = ctx_user_id ctx)) \<and>
    t_assess d' = t_assess d"
proof -
  obtain el reason where c: "classify_event_eligibility event_type ar sh rbf = Inr (el, reason)"
    and sc: "tenant_scope E (tenant_of ctx) (append_event_body E ctx course_id event_type occurred_at client
       concept item revision attempt (dict_without ADVERSARIAL_KEYS (case payload of None \<Rightarrow> [] | Some p \<Rightarrow> p))
       el reason) (d, []) = Inr (r, d', ps')"
    using assms by (auto simp: append_learner_event_def Let_def bindr_Inr_iff)
  show ?thesis
    by (rule tenant_scope_body [OF sc])
      (auto simp: Inr_iffs append_event_body_def learner_event_def Let_def no_verdict_def
        ADVERSARIAL_KEYS_def dest!: learning_insert_eq)
qed

definition wf_state :: "FsrsState \<Rightarrow> bool" where
  "wf_state st \<longleftrightarrow> wf_card (state_card st 0)"

lemma wf_state_card [simp]: "wf_state (card_state c) = wf_card c"
  by (simp add: wf_state_def wf_card_def card_state_def state_card_def)

lemma wf_row_card: "wf_card (row_card E r) = wf_state (ri_fsrs_state r)"
  by (simp add: wf_state_def wf_card_def row_card_def state_card_def)

definition wf_reviews :: "learning_db \<Rightarrow> bool" where
  "wf_reviews d \<longleftrightarrow> (\<forall>r \<in> set (t_review d). wf_state (ri_fsrs_state r))"

text \<open>
  A rating schedules the learner's card for the item, the stored one or a new one, and writes the
  outcome back to its row.
\<close>

lemma review_body_cases:
  assumes "review_body E ctx course_id item_id revision_id rating (d, []) = Inr (r, s3)"
    and "flush s3 = Inr (d', ps')"
  obtains (new) course c where
      "filter (\<lambda>w. review_key w = (ctx_account_id ctx, ctx_user_id ctx, item_id)) (t_review d) = []"
      "schedule (initial_card (now E)) rating (now E) = Inr c"
      "d' = d\<lparr> t_review := update_rows (\<lambda>w. ri_id w = fresh E 0) (rated_row E c revision_id (rr_priority r))
         (t_review d @ [new_review E ctx course course_id item_id revision_id (initial_card (now E))]) \<rparr>"
      "rr_due_at r = card_due_at c"
      "rr_priority r = scheduling_priority (if rating = AGAIN then ''lapsed'' else ''due'') (Some (card_due_at c))
         False False (now E)"
  | (old) row c where
      "filter (\<lambda>w. review_key w = (ctx_account_id ctx, ctx_user_id ctx, item_id)) (t_review d) = [row]"
      "schedule (row_card E row) rating (now E) = Inr c"
      "d' = d\<lparr> t_review := update_rows (\<lambda>w. ri_id w = ri_id row) (rated_row E c revision_id (rr_priority r))
         (t_review d) \<rparr>"
      "rr_due_at r = card_due_at c"
      "rr_priority r = scheduling_priority (if rating = AGAIN then ''lapsed'' else ''due'') (Some (card_due_at c))
         False False (now E)"
proof -
  obtain found where f: "scalar_one_or_none (filter (\<lambda>w. review_key w =
      (ctx_account_id ctx, ctx_user_id ctx, item_id)) (t_review d)) = Inr found"
    using assms(1) by (auto simp: review_body_def bindr_Inr_iff)
  show ?thesis
  proof (cases found)
    case None
    then show ?thesis
      using assms f new
      by (auto simp: review_body_def bindr_Inr_iff update_review_def Let_def scalar_iffs new_review_def
          dest!: learning_insert_eq)
  next
    case (Some row)
    then show ?thesis
      using assms f old
      by (auto simp: review_body_def bindr_Inr_iff update_review_def Let_def scalar_iffs)
  qed
qed

lemma wf_reviews_rated:
  "wf_card c \<Longrightarrow> \<forall>w \<in> set rows. wf_state (ri_fsrs_state w) \<Longrightarrow>
     \<forall>w \<in> set (update_rows sel (rated_row E c rv p) rows). wf_state (ri_fsrs_state w)"
  by (auto simp: update_rows_def rated_row_def)

lemma review_body_wf:
  assumes "review_body E ctx course_id item_id revision_id rating (d, []) = Inr (r, s3)"
    and "flush s3 = Inr (d', ps')" and "wf_reviews d"
  shows "wf_reviews d'"
  using assms(1,2)
proof (cases rule: review_body_cases)
  case (new course c)
  have "wf_card c" by (rule wf_card_schedule [OF wf_initial_card new(2)])
  with new(3) assms(3) show ?thesis
    using wf_reviews_rated [of c "t_review d @ [new_review E ctx course course_id item_id revision_id
      (initial_card (now E))]"] by (simp add: wf_reviews_def new_review_def)
next
  case (old row c)
  have "wf_card (row_card E row)"
    using filter_singletonD [OF old(1)] assms(3) by (auto simp: wf_row_card wf_reviews_def)
  then have "wf_card c" by (rule wf_card_schedule [OF _ old(2)])
  with old(3) assms(3) show ?thesis
    by (simp add: wf_reviews_def wf_reviews_rated)
qed

lemma apply_review_effect:
  assumes "apply_review_rating E ctx course_id item_id revision_id correct revealed hint (d, []) = Inr (r, d', ps')"
  shows "t_edge d' = t_edge d \<and> t_event d' = t_event d \<and> t_assess d' = t_assess d \<and>
     (wf_reviews d \<longrightarrow> wf_reviews d')"
proof -
  obtain g s3 where b: "review_body E ctx course_id item_id revision_id
      (map_outcome_to_rating correct revealed hint False False) (d\<lparr> settings := g \<rparr>, []) = Inr (r, s3)"
    and f: "flush s3 = Inr (d', ps')"
    using tenant_scope_body [OF assms [unfolded apply_review_rating_def Let_def]] .
  have "t_edge d' = t_edge d \<and> t_event d' = t_event d \<and> t_assess d' = t_assess d"
    using b f by (cases rule: review_body_cases) simp_all
  moreover have "wf_reviews d \<longrightarrow> wf_reviews d'"
    using review_body_wf [OF b f] by (simp add: wf_reviews_def)
  ultimately show ?thesis by simp
qed

definition rebuild_frame :: "learning_db \<Rightarrow> learning_db \<Rightarrow> bool" where
  "rebuild_frame d d' \<longleftrightarrow>
     t_edge d' = t_edge d \<and> t_event d' = t_event d \<and> t_review d' = t_review d \<and> t_assess d' = t_assess d"

lemma project_concept_pending:
  assumes "project_concept E ctx course course_id p (k, s) = Inr (k', s')"
    and "\<forall>act \<in> set (snd s). \<forall>e e'. act e = Inr e' \<longrightarrow> rebuild_frame e e'"
  shows "fst s' = fst s \<and> (\<forall>act \<in> set (snd s'). \<forall>e e'. act e = Inr e' \<longrightarrow> rebuild_frame e e')"
  using assms
  by (cases s) (auto simp: project_concept_def Inr_iffs rebuild_frame_def update_projection_def
      split: prod.splits dest!: learning_insert_eq)

lemma rebuild_body_frame:
  assumes "rebuild_body E ctx course_id (d, []) = Inr (projected, s3)" and "flush s3 = Inr (d', ps')"
  shows "rebuild_frame d d' \<and>
    projected = replay_evidence (learner_log (ctx_account_id ctx) course_id (ctx_user_id ctx) d)"
proof -
  obtain course k where p: "projected = replay_evidence (learner_log (ctx_account_id ctx) course_id (ctx_user_id ctx) d)"
    and f: "fold_res (project_concept E ctx course course_id) projected (0, (d, [])) = Inr (k, s3)"
    using assms(1) by (auto simp: rebuild_body_def Inr_iffs Let_def)
  let ?P = "\<lambda>ks. fst (snd ks) = d \<and>
    (\<forall>act \<in> set (snd (snd ks)). \<forall>e e'. act e = Inr e' \<longrightarrow> rebuild_frame e e')"
  have "?P (k, s3)"
  proof (rule fold_res_inv [where P = ?P, OF f])
    fix x s s'
    assume "?P s" and "project_concept E ctx course course_id x s = Inr s'"
    then show "?P s'"
      using project_concept_pending [of E ctx course course_id x "fst s" "snd s" "fst s'" "snd s'"] by auto
  qed simp
  then have "rebuild_frame d d'"
    using flush_inv [of d "snd s3" d' ps' "rebuild_frame d"] assms(2)
    by (cases s3) (auto simp: rebuild_frame_def)
  with p show ?thesis by simp
qed

lemma rebuild_effect:
  assumes "rebuild_evidence_projections E ctx course_id (d, []) = Inr (r, d', ps')"
  shows "t_edge d' = t_edge d \<and> t_event d' = t_event d \<and> t_review d' = t_review d \<and> t_assess d' = t_assess d \<and>
    r = map (\<lambda>(c, ev). (str_uuid c, concept_reply ev))
      (replay_evidence (learner_log (ctx_account_id ctx) course_id (ctx_user_id ctx) d))"
proof -
  obtain projected where r: "r = map (\<lambda>(c, ev). (str_uuid c, concept_reply ev)) projected"
    and sc: "tenant_scope E (tenant_of ctx) (rebuild_body E ctx course_id) (d, []) = Inr (projected, d', ps')"
    using assms by (auto simp: rebuild_evidence_projections_def bindr_Inr_iff)
  obtain g s3 where "rebuild_body E ctx course_id (d\<lparr> settings := g \<rparr>, []) = Inr (projected, s3)"
    "flush s3 = Inr (d', ps')"
    using tenant_scope_body [OF sc] .
  from rebuild_body_frame [OF this] r show ?thesis
    by (simp add: rebuild_frame_def learner_log_def)
qed

lemma classify_grade:
  "classify_event_eligibility (event_type_value GRADE_RECORDED) revealed hint True =
     Inr (if revealed then (INELIGIBLE, Some ''answer_revealed'')
          else if hint then (INELIGIBLE, Some ''substantive_hint'') else (ELIGIBLE, None))"
  by (simp add: classify_event_eligibility_def INELIGIBLE_MASTERY_EVENTS_def)

lemma own_attempts_settings [simp]: "own_attempts ctx c (d\<lparr> settings := g \<rparr>) = own_attempts ctx c d"
  by (simp add: own_attempts_def)

lemma grade_body_cases:
  assumes "grade_body E ctx course_id item_id revision_id response confidence c (d, []) = Inr (r, s3)"
    and "flush s3 = Inr (d', ps')"
  obtains a and course :: Course and rv and el and reason where
    "filter (\<lambda>a. at_status a = ''in_progress'') (own_attempts ctx c d) = [a]"
    "attempt_targets course_id item_id revision_id a"
    "rv \<in> set (t_revision d)" "ar_account_id rv = ctx_account_id ctx" "ar_assessment_item_id rv = item_id"
    "ar_id rv = revision_id"
    "el = (if at_answer_revealed a \<or> at_hint_revealed a then INELIGIBLE else ELIGIBLE)"
    "r = Graded (at_id a) (fresh E 1) (fst (grade_mcq (ar_sealed_answer rv) response)) el
       (at_answer_revealed a) (at_hint_revealed a)"
    "d' = d\<lparr> t_assess := update_rows (\<lambda>b. at_id b = at_id a) (graded_row E response confidence) (t_assess d),
       t_event := t_event d @ [grade_event E ctx (co_space_id course) course_id item_id revision_id (at_id a)
         (fst (grade_mcq (ar_sealed_answer rv) response)) (snd (grade_mcq (ar_sealed_answer rv) response))
         confidence el reason] \<rparr>"
proof -
  obtain rv where rv: "filter (\<lambda>r. ar_account_id r = ctx_account_id ctx \<and>
      ar_assessment_item_id r = item_id \<and> ar_id r = revision_id) (t_revision d) = [rv]"
    using assms(1) by (auto simp: grade_body_def Inr_iffs scalar_iffs)
  obtain a where a: "filter (\<lambda>a. at_status a = ''in_progress'') (own_attempts ctx c d) = [a]"
    "attempt_targets course_id item_id revision_id a"
    using assms(1) by (auto simp: grade_body_def Inr_iffs scalar_iffs Let_def case_prod_beta)
  define el where "el = (if at_answer_revealed a \<or> at_hint_revealed a then INELIGIBLE else ELIGIBLE)"
  define verdict where "verdict = grade_mcq (ar_sealed_answer rv) response"
  define reason where "reason = (if at_answer_revealed a then Some ''answer_revealed''
    else if at_hint_revealed a then Some ''substantive_hint'' else None)"
  obtain course where course: "find_course (ctx_account_id ctx) course_id d = Inr course"
    using assms(1) by (auto simp: grade_body_def bindr_Inr_iff)
  have "classify_event_eligibility (event_type_value GRADE_RECORDED) (at_answer_revealed a)
      (at_hint_revealed a) True = Inr (el, reason)"
    by (simp add: classify_grade el_def reason_def)
  then have s3: "r = Graded (at_id a) (fresh E 1) (fst verdict) el (at_answer_revealed a) (at_hint_revealed a)"
    "s3 = (d, [update_assess (at_id a) (graded_row E response confidence),
       insert_event (grade_event E ctx (co_space_id course) course_id item_id revision_id (at_id a)
         (fst verdict) (snd verdict) confidence el reason)])"
    using assms(1) rv a course by (simp_all add: grade_body_def Let_def case_prod_beta verdict_def)
  have d': "d' = d\<lparr> t_assess := update_rows (\<lambda>b. at_id b = at_id a) (graded_row E response confidence) (t_assess d),
       t_event := t_event d @ [grade_event E ctx (co_space_id course) course_id item_id revision_id (at_id a)
         (fst verdict) (snd verdict) confidence el reason] \<rparr>"
    using assms(2) by (auto simp: s3(2) update_assess_def bindr_Inr_iff dest!: learning_insert_eq(7))
  have "rv \<in> set (t_revision d)" "ar_account_id rv = ctx_account_id ctx" "ar_assessment_item_id rv = item_id"
    "ar_id rv = revision_id"
    using filter_singletonD [OF rv] by simp_all
  from that [OF a this el_def s3(1) [unfolded verdict_def] d' [unfolded verdict_def]]
  show ?thesis .
qed

lemma submit_body_cases:
  assumes "submit_body E ctx course_id item_id revision_id response confidence c (d, []) = Inr (r, s3)"
    and "flush s3 = Inr (d', ps')"
  obtains (replayed) a where "own_attempts ctx c d = [a]" "at_status a = ''graded''"
      "attempt_targets course_id item_id revision_id a" "r = Replayed (at_id a) ''graded''" "d' = d"
  | (graded) a where "own_attempts ctx c d = [a]" "at_status a = ''in_progress''"
      "grade_body E ctx course_id item_id revision_id response confidence c (d, []) = Inr (r, s3)"
proof -
  obtain existing where x: "scalar_one_or_none (own_attempts ctx c d) = Inr existing"
    using assms(1) by (auto simp: submit_body_def bindr_Inr_iff)
  show ?thesis
  proof (cases "\<exists>a. existing = Some a \<and> at_status a = ''graded''")
    case True
    then show ?thesis using assms x replayed by (auto simp: submit_body_def if_Inr_iff scalar_iffs)
  next
    case False
    then have g: "grade_body E ctx course_id item_id revision_id response confidence c (d, []) = Inr (r, s3)"
      using assms x by (cases existing) (auto simp: submit_body_def)
    obtain a where "filter (\<lambda>a. at_status a = ''in_progress'') (own_attempts ctx c d) = [a]"
      using grade_body_cases [OF g assms(2)] by metis
    then show ?thesis
      using filter_singletonD x graded g by (cases existing) (auto simp: scalar_iffs split: if_splits)
  qed
qed

lemma wf_reviews_settings [simp]: "wf_reviews (d\<lparr> settings := g \<rparr>) = wf_reviews d"
  by (simp add: wf_reviews_def)

lemma review_if_eligible_effect:
  assumes "review_if_eligible E ctx course_id item_id revision_id correct el revealed hint (d, []) = Inr (d', ps')"
  shows "t_edge d' = t_edge d \<and> t_event d' = t_event d \<and> t_assess d' = t_assess d \<and>
    (wf_reviews d \<longrightarrow> wf_reviews d') \<and> (el = INELIGIBLE \<longrightarrow> t_review d' = t_review d) \<and> ps' = []"
proof (cases el)
  case ELIGIBLE
  then obtain r where a: "apply_review_rating E ctx course_id item_id revision_id correct revealed hint (d, []) =
      Inr (r, d', ps')"
    using assms by (auto simp: review_if_eligible_def bindr_Inr_iff)
  moreover have "ps' = []"
    using tenant_scope_body [OF a [unfolded apply_review_rating_def Let_def]] .
  ultimately show ?thesis using ELIGIBLE apply_review_effect by fastforce
qed (use assms in \<open>simp add: review_if_eligible_def\<close>)

lemma submit_cases:
  assumes "submit_assessment_attempt E ctx course_id item_id revision_id response confidence client (d, []) =
    Inr (r, d', ps')"
  obtains (replayed) a and g where "own_attempts ctx (the client) d = [a]" "at_status a = ''graded''"
      "attempt_targets course_id item_id revision_id a" "r = attempt_reply (at_id a) ''graded'' True"
      "d' = d\<lparr> settings := g \<rparr>" "ps' = []"
  | (graded) a and course :: Course and rv and el and reason
    where "own_attempts ctx (the client) d = [a]" "at_status a = ''in_progress''"
      "attempt_targets course_id item_id revision_id a"
      "rv \<in> set (t_revision d)" "ar_account_id rv = ctx_account_id ctx" "ar_assessment_item_id rv = item_id"
      "ar_id rv = revision_id"
      "el = (if at_answer_revealed a \<or> at_hint_revealed a then INELIGIBLE else ELIGIBLE)"
      "r = grade_reply (at_id a) (fresh E 1) (fst (grade_mcq (ar_sealed_answer rv) response)) el"
      "t_assess d' = update_rows (\<lambda>b. at_id b = at_id a) (graded_row E response (the confidence)) (t_assess d)"
      "t_event d' = t_event d @ [grade_event E ctx (co_space_id course) course_id item_id revision_id (at_id a)
         (fst (grade_mcq (ar_sealed_answer rv) response)) (snd (grade_mcq (ar_sealed_answer rv) response))
         (the confidence) el reason]"
      "t_edge d' = t_edge d" "wf_reviews d \<longrightarrow> wf_reviews d'" "el = INELIGIBLE \<longrightarrow> t_review d' = t_review d"
      "ps' = []"
proof -
  obtain sub d1 ps1 where sc: "tenant_scope E (tenant_of ctx) (submit_body E ctx course_id item_id revision_id
      response (the confidence) (the client)) (d, []) = Inr (sub, d1, ps1)"
    and rest: "(case sub of Replayed i st \<Rightarrow> Inr (attempt_reply i st True, d1, ps1)
      | Graded attempt_id event_id correct el revealed hint \<Rightarrow>
            bindr (review_if_eligible (E\<lparr> fresh := \<lambda>k. fresh E (k + 2) \<rparr>) ctx course_id item_id revision_id
              correct el revealed hint (d1, ps1)) (\<lambda>s2.
            Inr (grade_reply attempt_id event_id correct el, s2))) = Inr (r, d', ps')"
    using assms by (auto simp: submit_assessment_attempt_def if_Inr_iff bindr_Inr_iff)
  obtain g s3 where b: "submit_body E ctx course_id item_id revision_id response (the confidence) (the client)
      (d\<lparr> settings := g \<rparr>, []) = Inr (sub, s3)" and f: "flush s3 = Inr (d1, ps1)" and ps1: "ps1 = []"
    using tenant_scope_body [OF sc] .
  from b f show ?thesis
  proof (cases rule: submit_body_cases)
    case (replayed a)
    show ?thesis by (rule that(1) [of a g]) (use replayed rest ps1 in auto)
  next
    case (graded a)
    from graded(3) f show ?thesis
    proof (cases rule: grade_body_cases)
      case (1 a' course rv el reason)
      have "a' = a" using 1(1) graded(1,2) by simp
      moreover have rev: "review_if_eligible (E\<lparr> fresh := \<lambda>k. fresh E (k + 2) \<rparr>) ctx course_id item_id revision_id
          (fst (grade_mcq (ar_sealed_answer rv) response)) el (at_answer_revealed a') (at_hint_revealed a')
          (d1, []) = Inr (d', ps')"
        and "r = grade_reply (at_id a') (fresh E 1) (fst (grade_mcq (ar_sealed_answer rv) response)) el"
        using rest ps1 by (auto simp: 1(8) bindr_Inr_iff)
      moreover note review_if_eligible_effect [OF rev]
      ultimately show ?thesis
        using that(2) [of a rv el course reason] 1 graded(1,2) by (simp add: wf_reviews_def)
    qed
  qed
qed

section \<open>The transition system\<close>

inductive learning_step :: "learning_db \<Rightarrow> learning_db \<Rightarrow> bool" where
  step_course: "create_course E ctx space_id title (d, []) = Inr (r, d', ps') \<Longrightarrow> learning_step d d'"
| step_node: "add_curriculum_node E ctx course_id kind title confirmation (d, []) = Inr (i, d', ps') \<Longrightarrow>
    learning_step d d'"
| step_edge: "add_prerequisite_edge E ctx course_id f t confirmation (d, []) = Inr (i, d', ps') \<Longrightarrow>
    learning_step d d'"
| step_assessment: "create_assessment E ctx course_id title item_type prompt answer concept rubric locators
    (d, []) = Inr (r, d', ps') \<Longrightarrow> learning_step d d'"
| step_start: "start_assessment_attempt E ctx course_id item_id revision_id client (d, []) = Inr (q, d', ps') \<Longrightarrow>
    learning_step d d'"
| step_reveal: "record_attempt_reveal E ctx attempt_id hint ans (d, []) = Inr (v, d', ps') \<Longrightarrow>
    learning_step d d'"
| step_append: "append_learner_event E ctx course_id event_type occurred_at client_event_id concept item revision
    attempt payload ar sh rbf (d, []) = Inr (i, d', ps') \<Longrightarrow> learning_step d d'"
| step_submit: "submit_assessment_attempt E ctx course_id item_id revision_id response confidence client (d, []) =
    Inr (q, d', ps') \<Longrightarrow> learning_step d d'"
| step_rebuild: "rebuild_evidence_projections E ctx course_id (d, []) = Inr (q, d', ps') \<Longrightarrow> learning_step d d'"
| step_review: "apply_review_rating E ctx course_id item_id revision_id correct revealed h (d, []) =
    Inr (w, d', ps') \<Longrightarrow> learning_step d d'"

definition learning_reachable :: "learning_db \<Rightarrow> learning_db \<Rightarrow> bool" where
  "learning_reachable d d' \<longleftrightarrow> learning_step\<^sup>*\<^sup>* d d'"

lemmas step_effects = create_course_effect add_curriculum_node_effect create_assessment_effect
  start_attempt_effect reveal_effect append_event_effect apply_review_effect rebuild_effect

text \<open>Every step leaves the edges alone or adds one that closes no confirmed cycle.\<close>

lemma step_edges:
  assumes "learning_step d d'"
  shows "t_edge d' = t_edge d \<or>
    (\<exists>E ctx course_id f t confirmation r ps'. add_prerequisite_edge E ctx course_id f t confirmation (d, []) =
      Inr (r, d', ps'))"
  using assms
proof cases
  case (step_submit E ctx course_id item_id revision_id response confidence client q ps')
  then have "t_edge d' = t_edge d" by (cases rule: submit_cases) simp_all
  then show ?thesis by simp
qed (auto dest: step_effects)

text \<open>Every event a step appends is about no concept, or carries no verdict.\<close>

definition no_concept_verdict :: "LearnerEvent \<Rightarrow> bool" where
  "no_concept_verdict e \<longleftrightarrow> le_concept_node_id e = None \<or> no_verdict e"

lemma step_events:
  assumes "learning_step d d'"
  shows "\<exists>evs. t_event d' = t_event d @ evs \<and> (\<forall>e \<in> set evs. no_concept_verdict e)"
  using assms
proof cases
  case (step_submit E ctx course_id item_id revision_id response confidence client q ps')
  then show ?thesis
    by (cases rule: submit_cases) (simp_all add: no_concept_verdict_def grade_event_def learner_event_def)
next
  case (step_edge E ctx course_id f t confirmation r ps')
  then show ?thesis by (auto dest: add_prerequisite_edge_effect)
next
  case (step_append E ctx course_id event_type occurred_at client_event_id concept item revision
    attempt payload ar sh rbf i ps')
  from append_event_effect [OF step_append] show ?thesis by (auto simp: no_concept_verdict_def)
qed (auto simp: no_concept_verdict_def dest: step_effects)

lemma step_reviews:
  assumes "learning_step d d'" and "wf_reviews d"
  shows "wf_reviews d'"
  using assms(1)
proof cases
  case (step_submit E ctx course_id item_id revision_id response confidence client q ps')
  then show ?thesis using assms(2) by (cases rule: submit_cases) simp_all
next
  case (step_edge E ctx course_id f t confirmation r ps')
  then show ?thesis using assms(2) by (auto simp: wf_reviews_def dest: add_prerequisite_edge_effect)
next
  case (step_review E ctx course_id item_id revision_id correct revealed h w ps')
  from apply_review_effect [OF step_review] assms(2) show ?thesis by simp
qed (use assms(2) in \<open>auto simp: wf_reviews_def dest: step_effects\<close>)

lemma reachable_inv:
  assumes "learning_reachable d d'" and "P d" and "\<And>e e'. P e \<Longrightarrow> learning_step e e' \<Longrightarrow> P e'"
  shows "P d'"
  using assms(1) unfolding learning_reachable_def
  by (induction rule: rtranclp_induct) (auto intro: assms(2,3))

section \<open>The prerequisite graph\<close>

definition prerequisite_graph :: "uuid \<Rightarrow> uuid \<Rightarrow> learning_db \<Rightarrow> (uuid \<times> uuid) set" where
  "prerequisite_graph account_id course_id d =
     (\<lambda>e. (ed_from_node_id e, ed_to_node_id e)) ` set (confirmed_edges account_id course_id d)"

definition acyclic_curricula :: "learning_db \<Rightarrow> bool" where
  "acyclic_curricula d \<longleftrightarrow> (\<forall>a c. acyclic (prerequisite_graph a c d))"

lemma acyclic_image_inj:
  assumes "inj f" and "acyclic (map_prod f f ` r)"
  shows "acyclic r"
proof -
  have "(f x, f y) \<in> (map_prod f f ` r)\<^sup>+" if "(x, y) \<in> r\<^sup>+" for x y
    using that by induction (auto intro: trancl_into_trancl)
  then show ?thesis using assms(2) by (meson acyclic_def)
qed

lemma acyclic_image_iff:
  assumes "inj f"
  shows "acyclic (map_prod f f ` r) \<longleftrightarrow> acyclic r"
proof
  assume r: "acyclic r"
  let ?g = "the_inv f"
  have "(?g x, ?g y) \<in> r\<^sup>+" if "(x, y) \<in> (map_prod f f ` r)\<^sup>+" for x y
    using that assms by induction (auto simp: the_inv_f_f intro: trancl_into_trancl)
  then show "acyclic (map_prod f f ` r)" using r by (meson acyclic_def)
qed (rule acyclic_image_inj [OF assms])

lemma graph_new_edge:
  assumes "t_edge d' = t_edge d @ [new_edge E ctx course course_id f t c]"
  shows "prerequisite_graph a k d' =
    (if a = ctx_account_id ctx \<and> k = course_id \<and> c = CONFIRMED then insert (f, t) (prerequisite_graph a k d)
     else prerequisite_graph a k d)"
  using assms inj_confirmation_value
  by (auto simp: prerequisite_graph_def confirmed_edges_def new_edge_def inj_eq)

lemma step_acyclic:
  assumes "learning_step d d'" and "acyclic_curricula d"
  shows "acyclic_curricula d'"
  using step_edges [OF assms(1)]
proof
  assume "t_edge d' = t_edge d"
  then show ?thesis using assms(2) by (simp add: acyclic_curricula_def prerequisite_graph_def confirmed_edges_def)
next
  assume "\<exists>E ctx course_id f t confirmation r ps'. add_prerequisite_edge E ctx course_id f t confirmation (d, []) =
      Inr (r, d', ps')"
  then obtain E ctx course_id f t confirmation r ps' where
    op: "add_prerequisite_edge E ctx course_id f t confirmation (d, []) = Inr (r, d', ps')"
    by blast
  then obtain course c where c: "parse_confirmation confirmation = Inr c"
    and e: "t_edge d' = t_edge d @ [new_edge E ctx course course_id f t c]"
    and w: "\<not> (confirmation = confirmation_value CONFIRMED \<and>
       would_create_cycle (map (\<lambda>e. (str_uuid (ed_from_node_id e), str_uuid (ed_to_node_id e)))
         (confirmed_edges (ctx_account_id ctx) course_id d)) (str_uuid f) (str_uuid t))"
    using add_prerequisite_edge_effect [OF op] by blast
  let ?g = "prerequisite_graph (ctx_account_id ctx) course_id d"
  have im: "set (map (\<lambda>e. (str_uuid (ed_from_node_id e), str_uuid (ed_to_node_id e)))
      (confirmed_edges (ctx_account_id ctx) course_id d)) = map_prod str_uuid str_uuid ` ?g"
    by (auto simp: prerequisite_graph_def image_iff)
  have inj: "inj str_uuid" by (simp add: inj_def)
  have g: "acyclic ?g" using assms(2) by (simp add: acyclic_curricula_def)
  have "acyclic (insert (f, t) ?g)" if "c = CONFIRMED"
  proof -
    have "\<not> would_create_cycle (map (\<lambda>e. (str_uuid (ed_from_node_id e), str_uuid (ed_to_node_id e)))
         (confirmed_edges (ctx_account_id ctx) course_id d)) (str_uuid f) (str_uuid t)"
      using w parse_confirmation_InrD [OF c] that by simp
    moreover have "acyclic (map_prod str_uuid str_uuid ` ?g)"
      using g by (simp add: acyclic_image_iff [OF inj])
    ultimately have "acyclic (insert (str_uuid f, str_uuid t) (map_prod str_uuid str_uuid ` ?g))"
      using would_create_cycle_iff [of "map (\<lambda>e. (str_uuid (ed_from_node_id e), str_uuid (ed_to_node_id e)))
         (confirmed_edges (ctx_account_id ctx) course_id d)" "str_uuid f" "str_uuid t"] by (simp only: im) simp
    then have "acyclic (map_prod str_uuid str_uuid ` insert (f, t) ?g)" by simp
    then show ?thesis by (simp only: acyclic_image_iff [OF inj])
  qed
  then show ?thesis using assms(2) by (auto simp: acyclic_curricula_def graph_new_edge [OF e])
qed

section \<open>Reveals are remembered\<close>

definition reveal_kept :: "uuid \<Rightarrow> learning_db \<Rightarrow> bool" where
  "reveal_kept i d \<longleftrightarrow> i \<in> at_id ` set (t_assess d) \<and>
     (\<forall>a \<in> set (t_assess d). at_id a = i \<longrightarrow> at_hint_revealed a \<or> at_answer_revealed a)"

lemma revealed_same: "t_assess d' = t_assess d \<Longrightarrow> reveal_kept i d \<Longrightarrow> reveal_kept i d'"
  by (simp add: reveal_kept_def)

lemma revealed_update:
  assumes "reveal_kept i d" and "t_assess d' = update_rows sel f (t_assess d)"
    and "\<And>a. at_id (f a) = at_id a"
    and "\<And>a. at_hint_revealed a \<or> at_answer_revealed a \<Longrightarrow> at_hint_revealed (f a) \<or> at_answer_revealed (f a)"
  shows "reveal_kept i d'"
proof -
  have "map at_id (t_assess d') = map at_id (t_assess d)"
    using assms(2,3) by (simp add: map_update_rows)
  then have "at_id ` set (t_assess d') = at_id ` set (t_assess d)"
    by (metis set_map)
  moreover have "at_hint_revealed b \<or> at_answer_revealed b" if b: "b \<in> set (t_assess d')" "at_id b = i" for b
  proof -
    obtain a where "a \<in> set (t_assess d)" "b = (if sel a then f a else a)"
      using b(1) by (auto simp: assms(2) update_rows_def)
    then show ?thesis using assms(1,3,4) b(2) by (auto simp: reveal_kept_def split: if_splits)
  qed
  ultimately show ?thesis using assms(1) by (auto simp: reveal_kept_def)
qed

lemma revealed_recorded:
  assumes "t_assess d' = update_rows (\<lambda>a. at_id a = i) (\<lambda>a. a\<lparr> at_hint_revealed := at_hint_revealed a \<or> hint,
       at_answer_revealed := at_answer_revealed a \<or> answer \<rparr>) (t_assess d)"
    and "i \<in> at_id ` set (t_assess d)" and "hint \<or> answer"
  shows "reveal_kept i d'"
proof -
  have "map at_id (t_assess d') = map at_id (t_assess d)"
    using assms(1) by (simp add: map_update_rows)
  from arg_cong [OF this, of set] have "i \<in> at_id ` set (t_assess d')" using assms(2) by simp
  moreover have "at_hint_revealed b \<or> at_answer_revealed b" if b: "b \<in> set (t_assess d')" "at_id b = i" for b
  proof -
    obtain a where "b = (if at_id a = i then a\<lparr> at_hint_revealed := at_hint_revealed a \<or> hint,
        at_answer_revealed := at_answer_revealed a \<or> answer \<rparr> else a)"
      using b(1) unfolding assms(1) update_rows_def set_map by (rule imageE)
    then show ?thesis using b(2) assms(3) by (cases "at_id a = i") auto
  qed
  ultimately show ?thesis by (auto simp: reveal_kept_def)
qed

lemma step_revealed:
  assumes "learning_step d d'" and "reveal_kept i d"
  shows "reveal_kept i d'"
  using assms(1)
proof cases
  case (step_start E ctx course_id item_id revision_id client q ps')
  then obtain as where "t_assess d' = t_assess d @ as" "\<forall>a \<in> set as. at_id a \<notin> at_id ` set (t_assess d)"
    using start_attempt_effect by blast
  then show ?thesis using assms(2) by (auto simp: reveal_kept_def)
next
  case (step_reveal E ctx attempt_id hint ans v ps')
  from reveal_effect [OF this] consider "t_assess d' = t_assess d"
    | "t_assess d' = update_rows (\<lambda>a. at_id a = attempt_id) (\<lambda>a. a\<lparr> at_hint_revealed := at_hint_revealed a \<or> hint,
       at_answer_revealed := at_answer_revealed a \<or> ans \<rparr>) (t_assess d)"
    by blast
  then show ?thesis
  proof cases
    case 1
    then show ?thesis by (rule revealed_same [OF _ assms(2)])
  next
    case 2
    then show ?thesis by (rule revealed_update [OF assms(2)]) auto
  qed
next
  case (step_submit E ctx course_id item_id revision_id response confidence client q ps')
  then show ?thesis
    by (cases rule: submit_cases)
      (auto intro: revealed_same [OF _ assms(2)] revealed_update [OF assms(2)] simp: graded_row_def)
next
  case (step_edge E ctx course_id f t confirmation r ps')
  then show ?thesis using add_prerequisite_edge_effect revealed_same [OF _ assms(2)] by blast
qed (auto intro: revealed_same [OF _ assms(2)] dest: step_effects)

section \<open>No verdict reaches a concept\<close>

definition no_mastery_evidence :: "learning_db \<Rightarrow> bool" where
  "no_mastery_evidence d \<longleftrightarrow> (\<forall>e \<in> set (t_event d). no_concept_verdict e)"

lemma step_no_mastery: "learning_step d d' \<Longrightarrow> no_mastery_evidence d \<Longrightarrow> no_mastery_evidence d'"
  using step_events by (fastforce simp: no_mastery_evidence_def)

lemma not_eligible_correct:
  "no_concept_verdict e \<Longrightarrow> concerns c (event_record e) \<Longrightarrow> \<not> eligible_correct (event_record e)"
  by (auto simp: no_concept_verdict_def no_verdict_def concerns_def eligible_correct_def event_record_def)

lemma concept_state_no_mastery:
  assumes "\<forall>e \<in> set es. concerns c e \<longrightarrow> \<not> eligible_correct e"
  shows "ce_eligible_grades (concept_state c es) = 0" and
    "ce_evidence_state (concept_state c es) \<in> {UNASSESSED, PRACTICING}"
proof -
  have "filter eligible_correct (filter (concerns c) es) = []"
    using assms by (auto simp: filter_empty_conv)
  then show g: "ce_eligible_grades (concept_state c es) = 0"
    by (simp add: concept_state_def fold_apply_grades new_evidence_def)
  have "mastery_ok (concept_state c es)"
    unfolding concept_state_def by (rule mastery_ok_fold) simp
  then show "ce_evidence_state (concept_state c es) \<in> {UNASSESSED, PRACTICING}"
    using g by (cases "ce_evidence_state (concept_state c es)") (simp_all add: mastery_ok_def)
qed

lemma distinct_replay: "distinct (map fst (replay_evidence es))"
proof -
  have "distinct (map fst p) \<Longrightarrow> distinct (map fst (replay_step e p))" for e p
    by (auto simp: replay_step_def Let_def intro: distinct_update split: option.splits)
  then have "distinct (map fst p) \<Longrightarrow> distinct (map fst (fold replay_step es p))" for es p
    by (induction es arbitrary: p) auto
  then show ?thesis by (simp add: replay_evidence_fold)
qed

lemma set_canonical_log_subset: "set (canonical_log es) \<subseteq> set es"
  using first_by_subset [of ler_event_id "[]" "sort_key event_key es"] by (auto simp: canonical_log_def)

lemma own_attempts_update:
  assumes "t_assess d' = update_rows sel f (t_assess d)"
    and "\<And>a. at_account_id (f a) = at_account_id a" "\<And>a. at_user_id (f a) = at_user_id a"
      "\<And>a. at_client_attempt_id (f a) = at_client_attempt_id a"
  shows "own_attempts ctx c d' = update_rows sel f (own_attempts ctx c d)"
  unfolding own_attempts_def assms(1) by (rule filter_update_rows) (simp add: assms(2-4))

section \<open>A concrete course\<close>

text \<open>One course with two nodes, a multiple-choice item and an attempt whose hint was revealed.\<close>

definition demo_attempt :: AssessmentAttempt where
  "demo_attempt =
     \<lparr> at_id = 70, at_account_id = 1, at_space_id = 5, at_user_id = 10, at_course_id = 40,
       at_assessment_item_id = 50, at_assessment_revision_id = 60, at_response_json = [], at_confidence = None,
       at_hint_revealed = False, at_answer_revealed = False, at_feedback_at = None,
       at_status = ''in_progress'', at_client_attempt_id = Some ''c1'', at_created_at = 0 \<rparr>"

definition demo_revision :: AssessmentRevision where
  "demo_revision =
     \<lparr> ar_id = 60, ar_account_id = 1, ar_space_id = 5, ar_assessment_item_id = 50, ar_item_type = ''mcq'',
       ar_prompt = ''2+2?'', ar_sealed_answer = [(''correctOption'', JStr ''b'')], ar_sealed_rubric = [],
       ar_source_locators = [], ar_difficulty = None, ar_guessing_chance = None, ar_state = ''provisional'',
       ar_content_sha256 = replicate 64 (CHR ''0''), ar_created_at = 0 \<rparr>"

definition demo_node :: "uuid \<Rightarrow> CurriculumNode" where
  "demo_node i = \<lparr> cn_id = i, cn_account_id = 1, cn_space_id = 5, cn_course_id = 40, cn_kind = ''concept'',
     cn_title = ''t'', cn_confirmation = ''confirmed'', cn_created_at = 0 \<rparr>"

definition demo_learning :: "AssessmentAttempt list \<Rightarrow> learning_db" where
  "demo_learning as =
     \<lparr> t_account = t_account demo_core, t_account_member = t_account_member demo_core, t_space = t_space demo_core,
       t_actor = t_actor demo_core, t_grant = [], t_source = [], t_audit = [], t_outbox = [], t_idempotency = [],
       t_job = [], t_attempt = [], t_tombstone = [], t_workflow = [], settings = empty_settings,
       t_course = [\<lparr> co_id = 40, co_account_id = 1, co_space_id = 5, co_title = ''c'', co_created_at = 0 \<rparr>],
       t_node = [demo_node 30, demo_node 31], t_edge = [],
       t_item = [\<lparr> ai_id = 50, ai_account_id = 1, ai_space_id = 5, ai_course_id = 40, ai_concept_node_id = Some 30,
         ai_title = ''i'', ai_created_at = 0 \<rparr>],
       t_revision = [demo_revision], t_assess = as, t_event = [], t_review = [], t_projection = [] \<rparr>"

lemma demo_learning_core [simp]:
  "t_actor (demo_learning as) = t_actor demo_core" "t_account_member (demo_learning as) = t_account_member demo_core"
  "t_assess (demo_learning as) = as" "t_event (demo_learning as) = []" "t_edge (demo_learning as) = []"
  "t_review (demo_learning as) = []" "t_projection (demo_learning as) = []"
  by (simp_all add: demo_learning_def)

lemma demo_ctx_user [simp]: "ctx_user_id demo_ctx = 10"
  by (simp add: demo_ctx_def)

lemmas demo_learning_defs = demo_learning_def demo_core_def demo_attempt_def demo_revision_def demo_node_def

lemma demo_edge:
  "\<exists>d' ps'. add_prerequisite_edge demo_env demo_ctx 40 30 31 ''confirmed'' (demo_learning [], []) = Inr (1000, d', ps')"
proof -
  obtain g where sc: "tenant_scope demo_env demo_tenant (prerequisite_body demo_env demo_ctx 40 30 31 ''confirmed'')
      (demo_learning [], []) =
    bindr (prerequisite_body demo_env demo_ctx 40 30 31 ''confirmed'' ((demo_learning [])\<lparr> settings := g \<rparr>, []))
      (\<lambda>(r, s3). bindr (flush s3) (\<lambda>s4. Inr (r, s4)))"
    by (rule demo_scope [OF demo_learning_core(1,2)])
  have "\<not> would_create_cycle [] (str_uuid 30) (str_uuid 31)"
    using would_create_cycle_iff [of "[]" "str_uuid 30" "str_uuid 31"] by (simp add: acyclic_insert) (simp add: acyclic_def)
  then show ?thesis
    unfolding add_prerequisite_edge_def demo_ctx_tenant sc
    by (simp add: prerequisite_body_def Let_def find_course_def confirmed_edges_def demo_learning_defs
        insert_edge_def course_fk_def new_edge_def parse_confirmation_def enum_parse_def confirmation_value_def
        pending_gate_def unique_key_def foreign_key_def)
qed

lemma demo_reveal:
  "\<exists>q d'. record_attempt_reveal demo_env demo_ctx 70 True False (demo_learning [demo_attempt], []) =
     Inr (Some q, d', []) \<and> t_assess d' = [demo_attempt\<lparr> at_hint_revealed := True \<rparr>] \<and>
     t_course d' = t_course (demo_learning []) \<and> t_revision d' = [demo_revision] \<and>
     t_account d' = t_account demo_core \<and> t_actor d' = t_actor demo_core \<and>
     t_account_member d' = t_account_member demo_core \<and> map le_client_event_id (t_event d') = [Some (''hint_revealed:'' @ str_uuid 70)]
     \<and> map le_id (t_event d') = [1000] \<and> t_review d' = []"
proof -
  obtain g where sc: "tenant_scope demo_env demo_tenant (reveal_body demo_env demo_ctx 70 True False)
      (demo_learning [demo_attempt], []) =
    bindr (reveal_body demo_env demo_ctx 70 True False ((demo_learning [demo_attempt])\<lparr> settings := g \<rparr>, []))
      (\<lambda>(r, s3). bindr (flush s3) (\<lambda>s4. Inr (r, s4)))"
    by (rule demo_scope [OF demo_learning_core(1,2)])
  show ?thesis
    unfolding record_attempt_reveal_def demo_ctx_tenant sc
    by (simp add: reveal_body_def Let_def demo_learning_defs update_assess_def update_rows_def
        insert_event_def course_fk_def learner_event_def event_type_value_def event_client_key_def
        pending_gate_def unique_key_def foreign_key_def)
qed

text \<open>A submission of the concrete attempt after its hint was revealed.\<close>

lemma demo_submit:
  assumes "t_assess d = [demo_attempt\<lparr> at_hint_revealed := True \<rparr>]" "t_course d = t_course (demo_learning [])"
    "t_revision d = [demo_revision]" "t_account d = t_account demo_core" "t_actor d = t_actor demo_core"
    "t_account_member d = t_account_member demo_core"
    "set (map le_client_event_id (t_event d)) \<subseteq> {Some (''hint_revealed:'' @ str_uuid 70)}"
    "set (map le_id (t_event d)) \<subseteq> {1000}"
  shows "\<exists>r d' ps'. submit_assessment_attempt demo_env demo_ctx 40 50 60 [(''selectedOption'', JStr ''b'')]
      (Some ''sure'') (Some ''c1'') (d, []) = Inr (r, d', ps') \<and>
     jget r ''idempotent'' = JBool False \<and> jget r ''correct'' = JBool True \<and> jget r ''eligibility'' = JStr ''ineligible'' \<and>
     jget r ''attemptId'' = JStr (str_uuid 70) \<and>
     t_assess d' = [graded_row demo_env [(''selectedOption'', JStr ''b'')] ''sure'' (demo_attempt\<lparr> at_hint_revealed := True \<rparr>)] \<and>
     t_actor d' = t_actor demo_core \<and> t_account_member d' = t_account_member demo_core"
proof -
  let ?b = "submit_body demo_env demo_ctx 40 50 60 [(''selectedOption'', JStr ''b'')] ''sure'' ''c1''"
  obtain g where sc: "tenant_scope demo_env demo_tenant ?b (d, []) =
    bindr (?b (d\<lparr> settings := g \<rparr>, [])) (\<lambda>(r, s3). bindr (flush s3) (\<lambda>s4. Inr (r, s4)))"
    by (rule demo_scope [OF assms(5,6)])
  have ev: "1001 \<notin> le_id ` set (t_event d)" "Some (''attempt:'' @ str_uuid 70) \<notin> le_client_event_id ` set (t_event d)"
    using assms(7,8) by auto
  have k: "Some (1 :: uuid, ''attempt:'' @ str_uuid 70) \<notin> event_client_key ` set (t_event d)"
  proof
    assume "Some (1 :: uuid, ''attempt:'' @ str_uuid 70) \<in> event_client_key ` set (t_event d)"
    then obtain e where e: "e \<in> set (t_event d)" "event_client_key e = Some (1, ''attempt:'' @ str_uuid 70)"
      by (metis imageE)
    then have "le_client_event_id e = Some (''attempt:'' @ str_uuid 70)"
      by (auto simp only: event_client_key_def map_option_eq_Some prod.inject)
    with e(1) show False using ev(2) by (metis imageI)
  qed
  have "\<exists>d'. tenant_scope demo_env demo_tenant ?b (d, []) = Inr (Graded 70 1001 True INELIGIBLE False True, d', []) \<and>
     t_assess d' = [graded_row demo_env [(''selectedOption'', JStr ''b'')] ''sure'' (demo_attempt\<lparr> at_hint_revealed := True \<rparr>)] \<and>
     t_actor d' = t_actor demo_core \<and> t_account_member d' = t_account_member demo_core"
    using assms(1-6) ev(1) k
    by (simp add: sc update_rows_def submit_body_def grade_body_def own_attempts_def find_course_def demo_learning_def demo_attempt_def
        demo_revision_def attempt_targets_def grade_mcq_def classify_grade Let_def update_assess_def insert_event_def
        course_fk_def grade_event_def learner_event_def pending_gate_def unique_key_def foreign_key_def
        demo_core_def event_client_key_def image_iff)
  then obtain d' where "tenant_scope demo_env demo_tenant ?b (d, []) =
      Inr (Graded 70 1001 True INELIGIBLE False True, d', [])"
    "t_assess d' = [graded_row demo_env [(''selectedOption'', JStr ''b'')] ''sure'' (demo_attempt\<lparr> at_hint_revealed := True \<rparr>)]"
    "t_actor d' = t_actor demo_core" "t_account_member d' = t_account_member demo_core" by blast
  then show ?thesis
    by (simp add: submit_assessment_attempt_def truthy_str_def py_strip_def py_lstrip_def is_space_def
        review_if_eligible_def grade_reply_def eligibility_value_def)
qed

lemma demo_resubmit:
  assumes "t_assess d = [graded_row demo_env response ''sure'' (demo_attempt\<lparr> at_hint_revealed := True \<rparr>)]"
    "t_actor d = t_actor demo_core" "t_account_member d = t_account_member demo_core"
  shows "\<exists>d' ps'. submit_assessment_attempt demo_env demo_ctx 40 50 60 response2
      (Some ''sure'') (Some ''c1'') (d, []) = Inr (attempt_reply 70 ''graded'' True, d', ps')"
proof -
  let ?b = "submit_body demo_env demo_ctx 40 50 60 response2 ''sure'' ''c1''"
  obtain g where "tenant_scope demo_env demo_tenant ?b (d, []) =
    bindr (?b (d\<lparr> settings := g \<rparr>, [])) (\<lambda>(r, s3). bindr (flush s3) (\<lambda>s4. Inr (r, s4)))"
    by (rule demo_scope [OF assms(2,3)])
  then have "tenant_scope demo_env demo_tenant ?b (d, []) = Inr (Replayed 70 ''graded'', d\<lparr> settings := g \<rparr>, [])"
    using assms(1) by (simp add: submit_body_def own_attempts_def demo_attempt_def attempt_targets_def graded_row_def)
  then show ?thesis
    by (simp add: submit_assessment_attempt_def truthy_str_def py_strip_def py_lstrip_def is_space_def)
qed

lemma demo_hinted:
  "\<exists>r d' ps'. submit_assessment_attempt demo_env demo_ctx 40 50 60 [(''selectedOption'', JStr ''b'')]
      (Some ''sure'') (Some ''c1'') (demo_learning [demo_attempt\<lparr> at_hint_revealed := True \<rparr>], []) = Inr (r, d', ps') \<and>
     jget r ''idempotent'' = JBool False \<and> jget r ''correct'' = JBool True \<and> jget r ''eligibility'' = JStr ''ineligible'' \<and>
     t_assess d' = [graded_row demo_env [(''selectedOption'', JStr ''b'')] ''sure'' (demo_attempt\<lparr> at_hint_revealed := True \<rparr>)] \<and>
     t_actor d' = t_actor demo_core \<and> t_account_member d' = t_account_member demo_core"
  using demo_submit [of "demo_learning [demo_attempt\<lparr> at_hint_revealed := True \<rparr>]"]
  by (auto simp: demo_learning_def)

section \<open>Properties\<close>

text \<open>
  (C26) The confirmed prerequisites of every course stay acyclic over every sequence of operations of the
  learning service, whoever runs them and in whatever order.
\<close>

theorem prerequisites_stay_acyclic:
  assumes "learning_reachable d d'" and "acyclic_curricula d"
  shows "acyclic (prerequisite_graph account_id course_id d')"
  using reachable_inv [of d d' acyclic_curricula] assms step_acyclic by (auto simp: acyclic_curricula_def)

theorem prerequisites_stay_acyclic_witness:
  "\<exists>d'. learning_reachable (demo_learning []) d' \<and> acyclic_curricula (demo_learning []) \<and>
     prerequisite_graph 1 40 d' = {(30, 31)} \<and> acyclic (prerequisite_graph 1 40 d')"
proof -
  obtain d' ps' where op: "add_prerequisite_edge demo_env demo_ctx 40 30 31 ''confirmed'' (demo_learning [], []) =
      Inr (1000, d', ps')"
    using demo_edge by blast
  have r: "learning_reachable (demo_learning []) d'"
    unfolding learning_reachable_def using step_edge [OF op] by blast
  have a: "acyclic_curricula (demo_learning [])"
    by (simp add: acyclic_curricula_def prerequisite_graph_def confirmed_edges_def acyclic_def)
  obtain course c where "parse_confirmation ''confirmed'' = Inr c"
    and e: "t_edge d' = t_edge (demo_learning []) @ [new_edge demo_env demo_ctx course 40 30 31 c]"
    using add_prerequisite_edge_effect [OF op] by blast
  then have "c = CONFIRMED"
    using parse_confirmation_InrD inj_confirmation_value by (fastforce simp: confirmation_value_def split: ConfirmationState.splits)
  then have "prerequisite_graph 1 40 d' = {(30, 31)}"
    using graph_new_edge [OF e, of 1 40] by (simp add: prerequisite_graph_def confirmed_edges_def)
  then show ?thesis using r a prerequisites_stay_acyclic [OF r a, of 1 40] by blast
qed

text \<open>
  (C27) What a graded submission is worth is decided by the server: the grade is the comparison of the
  response with the sealed answer of the revision, the recorded event belongs to the authenticated user,
  and it is eligible exactly when the server recorded no reveal on the attempt; an ineligible grade leaves
  the review schedule as it was.
\<close>

theorem submission_graded_by_server:
  assumes "submit_assessment_attempt E ctx course_id item_id revision_id response confidence client (d, []) =
    Inr (r, d', ps')"
    and "jget r ''idempotent'' = JBool False"
  shows "\<exists>a rv e. own_attempts ctx (the client) d = [a] \<and> rv \<in> set (t_revision d) \<and> ar_id rv = revision_id \<and>
    ar_assessment_item_id rv = item_id \<and> ar_account_id rv = ctx_account_id ctx \<and>
    t_event d' = t_event d @ [e] \<and> le_user_id e = ctx_user_id ctx \<and> le_attempt_id e = Some (at_id a) \<and>
    jget r ''correct'' = JBool (fst (grade_mcq (ar_sealed_answer rv) response)) \<and>
    jget (le_payload e) ''correct'' = jget r ''correct'' \<and>
    (le_eligibility e = ''eligible'' \<longleftrightarrow> \<not> at_hint_revealed a \<and> \<not> at_answer_revealed a) \<and>
    (le_eligibility e \<noteq> ''eligible'' \<longrightarrow> t_review d' = t_review d)"
  using assms(1)
proof (cases rule: submit_cases)
  case (replayed a g)
  then show ?thesis using assms(2) by (simp add: attempt_reply_def)
next
  case (graded a course rv el reason)
  let ?v = "grade_mcq (ar_sealed_answer rv) response"
  show ?thesis
    by (rule exI [of _ a], rule exI [of _ rv], rule exI [of _ "grade_event E ctx (co_space_id course) course_id
        item_id revision_id (at_id a) (fst ?v) (snd ?v) (the confidence) el reason"])
      (use graded in \<open>auto simp: grade_event_def learner_event_def grade_reply_def eligibility_value_def\<close>)
qed

theorem submission_graded_by_server_witness:
  "\<exists>d r d' ps' e. submit_assessment_attempt demo_env demo_ctx 40 50 60 [(''selectedOption'', JStr ''b'')]
      (Some ''sure'') (Some ''c1'') (d, []) = Inr (r, d', ps') \<and> jget r ''idempotent'' = JBool False \<and>
     t_event d' = t_event d @ [e] \<and> jget (le_payload e) ''correct'' = jget r ''correct''"
proof -
  obtain r d' ps' where "submit_assessment_attempt demo_env demo_ctx 40 50 60 [(''selectedOption'', JStr ''b'')]
      (Some ''sure'') (Some ''c1'') (demo_learning [demo_attempt\<lparr> at_hint_revealed := True \<rparr>], []) = Inr (r, d', ps')"
    "jget r ''idempotent'' = JBool False"
    using demo_hinted by blast
  with submission_graded_by_server [OF this] show ?thesis by metis
qed

text \<open>
  An attempt is graded at most once: after a successful submission every further successful submission
  under the same client attempt id, with any response, is a replay that repeats the attempt and records
  neither an event nor a review.
\<close>

theorem attempt_graded_once:
  assumes "submit_assessment_attempt E ctx course_id item_id revision_id response confidence client (d, []) =
    Inr (r, d', ps')"
    and "submit_assessment_attempt E2 ctx course_id2 item_id2 revision_id2 response2 confidence2 client (d', []) =
    Inr (r2, d'', ps'')"
  shows "\<exists>a. own_attempts ctx (the client) d = [a] \<and> r2 = attempt_reply (at_id a) ''graded'' True \<and>
    t_event d'' = t_event d' \<and> t_review d'' = t_review d' \<and> t_assess d'' = t_assess d'"
proof -
  obtain a where a: "own_attempts ctx (the client) d = [a]"
    and b: "\<exists>b. own_attempts ctx (the client) d' = [b] \<and> at_id b = at_id a \<and> at_status b = ''graded''"
    using assms(1)
  proof (cases rule: submit_cases)
    case (replayed a g)
    show thesis by (rule that [of a]) (use replayed in simp_all)
  next
    case (graded a course rv el reason)
    have "own_attempts ctx (the client) d' = [graded_row E response (the confidence) a]"
      using graded(1) own_attempts_update [OF graded(10), of ctx "the client"]
      by (simp add: graded_row_def update_rows_def)
    then show thesis by (intro that [of a]) (use graded in \<open>simp_all add: graded_row_def\<close>)
  qed
  then obtain b where b: "own_attempts ctx (the client) d' = [b]" "at_id b = at_id a" "at_status b = ''graded''"
    by blast
  show ?thesis
    using assms(2) by (cases rule: submit_cases) (use a b in auto)
qed

theorem attempt_graded_once_witness:
  "\<exists>r d' ps' r2 d'' ps''.
     submit_assessment_attempt demo_env demo_ctx 40 50 60 [(''selectedOption'', JStr ''b'')]
      (Some ''sure'') (Some ''c1'') (demo_learning [demo_attempt\<lparr> at_hint_revealed := True \<rparr>], []) = Inr (r, d', ps') \<and>
     jget r ''idempotent'' = JBool False \<and>
     submit_assessment_attempt demo_env demo_ctx 40 50 60 [(''selectedOption'', JStr ''a'')]
      (Some ''sure'') (Some ''c1'') (d', []) = Inr (r2, d'', ps'') \<and>
     t_event d'' = t_event d' \<and> t_review d'' = t_review d'"
proof -
  obtain r d' ps' where one: "submit_assessment_attempt demo_env demo_ctx 40 50 60 [(''selectedOption'', JStr ''b'')]
      (Some ''sure'') (Some ''c1'') (demo_learning [demo_attempt\<lparr> at_hint_revealed := True \<rparr>], []) = Inr (r, d', ps')"
    "jget r ''idempotent'' = JBool False"
    and d': "t_assess d' = [graded_row demo_env [(''selectedOption'', JStr ''b'')] ''sure'' (demo_attempt\<lparr> at_hint_revealed := True \<rparr>)]"
      "t_actor d' = t_actor demo_core" "t_account_member d' = t_account_member demo_core"
    using demo_hinted by blast
  obtain d'' ps'' where two: "submit_assessment_attempt demo_env demo_ctx 40 50 60 [(''selectedOption'', JStr ''a'')]
      (Some ''sure'') (Some ''c1'') (d', []) = Inr (attempt_reply 70 ''graded'' True, d'', ps'')"
    using demo_resubmit [OF d'] by blast
  show ?thesis using attempt_graded_once [OF one(1) two] one two by blast
qed

text \<open>
  (C28) A reveal disqualifies the attempt for good: once the server has recorded a hint or answer reveal on an
  attempt, then after any sequence of operations of any users, a submission of that attempt is graded as
  ineligible and moves no review date.
\<close>

theorem reveal_disqualifies:
  assumes "record_attempt_reveal E ctx attempt_id hint answer (d, []) = Inr (Some q, d1, ps1)" and "hint \<or> answer"
    and "learning_reachable d1 d2"
    and "submit_assessment_attempt E2 ctx2 course_id item_id revision_id response confidence client (d2, []) =
      Inr (r, d3, ps3)"
    and "jget r ''idempotent'' = JBool False" and "jget r ''attemptId'' = JStr (str_uuid attempt_id)"
  shows "jget r ''eligibility'' = JStr ''ineligible'' \<and> t_review d3 = t_review d2"
proof -
  have "reveal_kept attempt_id d1"
    using reveal_effect [OF assms(1)] assms(2) revealed_recorded by blast
  then have rev: "reveal_kept attempt_id d2"
    using reachable_inv [of d1 d2 "reveal_kept attempt_id"] assms(3) step_revealed by blast
  show ?thesis using assms(4)
  proof (cases rule: submit_cases)
    case (replayed a g)
    then show ?thesis using assms(5) by (simp add: attempt_reply_def)
  next
    case (graded a course rv el reason)
    have "a \<in> set (own_attempts ctx2 (the client) d2)" using graded(1) by simp
    moreover have "at_id a = attempt_id" using assms(6) graded(9) by (simp add: grade_reply_def)
    ultimately have "at_hint_revealed a \<or> at_answer_revealed a"
      using rev by (auto simp: reveal_kept_def own_attempts_def)
    then show ?thesis using graded by (auto simp: grade_reply_def eligibility_value_def)
  qed
qed

theorem reveal_disqualifies_witness:
  "\<exists>q d1 r d3 ps3. record_attempt_reveal demo_env demo_ctx 70 True False (demo_learning [demo_attempt], []) =
      Inr (Some q, d1, []) \<and>
     submit_assessment_attempt demo_env demo_ctx 40 50 60 [(''selectedOption'', JStr ''b'')]
      (Some ''sure'') (Some ''c1'') (d1, []) = Inr (r, d3, ps3) \<and>
     jget r ''eligibility'' = JStr ''ineligible'' \<and> t_review d3 = t_review d1"
proof -
  obtain q d1 where a: "record_attempt_reveal demo_env demo_ctx 70 True False (demo_learning [demo_attempt], []) =
      Inr (Some q, d1, [])"
    and d1: "t_assess d1 = [demo_attempt\<lparr> at_hint_revealed := True \<rparr>]" "t_course d1 = t_course (demo_learning [])"
      "t_revision d1 = [demo_revision]" "t_account d1 = t_account demo_core" "t_actor d1 = t_actor demo_core"
      "t_account_member d1 = t_account_member demo_core"
      "map le_client_event_id (t_event d1) = [Some (''hint_revealed:'' @ str_uuid 70)]" "map le_id (t_event d1) = [1000]"
    using demo_reveal by (elim exE conjE)
  have "set (map le_client_event_id (t_event d1)) \<subseteq> {Some (''hint_revealed:'' @ str_uuid 70)}"
    "set (map le_id (t_event d1)) \<subseteq> {1000}"
    unfolding d1(7,8) by simp_all
  from demo_submit [OF d1(1-6) this] obtain r d3 ps3 where
    b: "submit_assessment_attempt demo_env demo_ctx 40 50 60 [(''selectedOption'', JStr ''b'')]
      (Some ''sure'') (Some ''c1'') (d1, []) = Inr (r, d3, ps3)"
    "jget r ''idempotent'' = JBool False" "jget r ''attemptId'' = JStr (str_uuid 70)"
    by blast
  have "learning_reachable d1 d1" by (simp add: learning_reachable_def)
  with reveal_disqualifies [OF a _ this b] a b show ?thesis by blast
qed

text \<open>
  The Evidence Twin never shows mastery: a log that starts without verdicts on concepts keeps that
  property under every operation, because a grade the server records names no concept and the verdict a
  client declares is stripped, so a rebuild reports no eligible grade and no demonstrated state for any
  concept.
\<close>

theorem evidence_twin_never_demonstrated:
  assumes "learning_reachable d d'" and "no_mastery_evidence d"
    and "rebuild_evidence_projections E ctx course_id (d', []) = Inr (r, d'', ps'')"
    and "(k, v) \<in> set r"
  shows "\<exists>ev. v = concept_reply ev \<and> ce_eligible_grades ev = 0 \<and>
    ce_evidence_state ev \<in> {UNASSESSED, PRACTICING}"
proof -
  let ?log = "learner_log (ctx_account_id ctx) course_id (ctx_user_id ctx) d'"
  have nm: "no_mastery_evidence d'"
    using reachable_inv [of d d' no_mastery_evidence] assms(1,2) step_no_mastery by blast
  obtain c ev where ev: "(c, ev) \<in> set (replay_evidence ?log)" "v = concept_reply ev"
    using rebuild_effect [OF assms(3)] assms(4) by auto
  then have "map_of (replay_evidence ?log) c = Some ev"
    using distinct_replay by (simp add: map_of_eq_Some_iff)
  then have st: "ev = concept_state c (canonical_log ?log)"
    by (auto simp: map_of_replay_evidence split: if_splits)
  have "\<forall>e \<in> set (canonical_log ?log). concerns c e \<longrightarrow> \<not> eligible_correct e"
    using set_canonical_log_subset [of ?log] nm not_eligible_correct
    by (fastforce simp: learner_log_def no_mastery_evidence_def)
  from concept_state_no_mastery [OF this] st ev(2) show ?thesis by blast
qed

definition demo_claim :: LearnerEvent where
  "demo_claim = learner_event demo_env 900 demo_ctx 5 40 (Some 30) None None None None
     (event_type_value GRADE_RECORDED) 0 [] ''eligible'' None"

lemma demo_rebuild:
  "\<exists>v d'' ps''. rebuild_evidence_projections demo_env demo_ctx 40 ((demo_learning [])\<lparr> t_event := [demo_claim] \<rparr>, []) =
     Inr ([(str_uuid 30, v)], d'', ps'')"
proof -
  let ?d = "(demo_learning [])\<lparr> t_event := [demo_claim] \<rparr>"
  have c: "t_actor ?d = t_actor demo_core" "t_account_member ?d = t_account_member demo_core" by simp_all
  obtain g where sc: "tenant_scope demo_env demo_tenant (rebuild_body demo_env demo_ctx 40) (?d, []) =
    bindr (rebuild_body demo_env demo_ctx 40 (?d\<lparr> settings := g \<rparr>, []))
      (\<lambda>(r, s3). bindr (flush s3) (\<lambda>s4. Inr (r, s4)))"
    by (rule demo_scope [OF c])
  let ?e = "?d\<lparr> settings := g \<rparr>"
  have log: "learner_log 1 40 10 ?e = [event_record demo_claim]"
    by (simp add: learner_log_def demo_claim_def learner_event_def)
  have "\<exists>ev. replay_evidence [event_record demo_claim] = [(30, ev)]"
    by (simp add: replay_evidence_def event_record_def demo_claim_def learner_event_def replay_step_def)
  then obtain ev where ev: "replay_evidence [event_record demo_claim] = [(30, ev)]" by blast
  have "\<exists>course. find_course 1 40 ?e = Inr course"
    by (simp add: find_course_def demo_learning_def)
  then obtain course where "find_course 1 40 ?e = Inr course" by blast
  then have "rebuild_body demo_env demo_ctx 40 (?e, []) =
      Inr ([(30, ev)], ?e, [insert_projection (new_projection demo_env demo_ctx course 40 0 30 ev)])"
    by (simp add: rebuild_body_def log ev Let_def project_concept_def)
  moreover have "\<exists>d''. insert_projection (new_projection demo_env demo_ctx course 40 0 30 ev) ?e = Inr d''"
    by (simp add: insert_projection_def new_projection_def course_fk_def pending_gate_def unique_key_def
        foreign_key_def demo_learning_def demo_core_def)
  ultimately have "\<exists>d''. tenant_scope demo_env demo_tenant (rebuild_body demo_env demo_ctx 40) (?d, []) =
      Inr ([(30, ev)], d'', [])"
    unfolding sc by auto
  then show ?thesis by (auto simp: rebuild_evidence_projections_def)
qed

theorem evidence_twin_never_demonstrated_witness:
  "\<exists>d r d'' ps'' k v ev. learning_reachable d d \<and> no_mastery_evidence d \<and>
     rebuild_evidence_projections demo_env demo_ctx 40 (d, []) = Inr (r, d'', ps'') \<and> (k, v) \<in> set r \<and>
     v = concept_reply ev \<and> ce_eligible_grades ev = 0"
proof -
  let ?d = "(demo_learning [])\<lparr> t_event := [demo_claim] \<rparr>"
  obtain v d'' ps'' where op: "rebuild_evidence_projections demo_env demo_ctx 40 (?d, []) =
      Inr ([(str_uuid 30, v)], d'', ps'')"
    using demo_rebuild by blast
  have r: "learning_reachable ?d ?d" by (simp add: learning_reachable_def)
  have n: "no_mastery_evidence ?d"
    by (simp add: no_mastery_evidence_def no_concept_verdict_def no_verdict_def demo_claim_def learner_event_def
        jget_or_def)
  obtain ev where "v = concept_reply ev" "ce_eligible_grades ev = 0"
    using evidence_twin_never_demonstrated [OF r n op, of "str_uuid 30" v] by auto
  with r n op show ?thesis
    by (intro exI [of _ ?d] exI [of _ "[(str_uuid 30, v)]"] exI [of _ d''] exI [of _ ps''] exI [of _ "str_uuid 30"]
        exI [of _ v] exI [of _ ev]) simp
qed

text \<open>
  Stored review cards stay in range over every sequence of operations: stability at least one half,
  difficulty between 1 and 10, counters not negative.
\<close>

theorem review_cards_stay_in_range:
  assumes "learning_reachable d d'" and "wf_reviews d" and "w \<in> set (t_review d')"
  shows "1 / 2 \<le> fs_stability (ri_fsrs_state w) \<and> 1 \<le> fs_difficulty (ri_fsrs_state w) \<and>
    fs_difficulty (ri_fsrs_state w) \<le> 10 \<and> 0 \<le> fs_reps (ri_fsrs_state w) \<and> 0 \<le> fs_lapses (ri_fsrs_state w)"
proof -
  have "wf_reviews d'" using reachable_inv [of d d' wf_reviews] assms(1,2) step_reviews by blast
  then show ?thesis using assms(3) by (simp add: wf_reviews_def wf_state_def wf_card_def state_card_def)
qed

text \<open>
  The priority a review receives is always 3: the scheduler is asked about a due date it has just set
  to the future and is told the item is neither a prerequisite nor pinned.
\<close>

theorem review_priority_constant:
  assumes "apply_review_rating E ctx course_id item_id revision_id correct revealed hint (d, []) = Inr (r, d', ps')"
  shows "rr_priority r = 3 \<and> now E < rr_due_at r"
proof -
  obtain g s3 where b: "review_body E ctx course_id item_id revision_id
      (map_outcome_to_rating correct revealed hint False False) (d\<lparr> settings := g \<rparr>, []) = Inr (r, s3)"
    and f: "flush s3 = Inr (d', ps')"
    using tenant_scope_body [OF assms [unfolded apply_review_rating_def Let_def]] .
  have *: "schedule k q (now E) = Inr c \<Longrightarrow> now E < card_due_at c" for k q c
    using next_delay_pos by (auto simp: schedule_def Let_def split: if_splits)
  from b f show ?thesis
  proof (cases rule: review_body_cases)
    case (new course c)
    show ?thesis using *[OF new(2)] new(4,5) by (simp add: scheduling_priority_def)
  next
    case (old row c)
    show ?thesis using *[OF old(2)] old(4,5) by (simp add: scheduling_priority_def)
  qed
qed

lemma demo_review:
  "\<exists>r d' ps'. apply_review_rating demo_env demo_ctx 40 50 60 True False False (demo_learning [], []) = Inr (r, d', ps') \<and>
     map ri_id (t_review d') = [1000]"
proof -
  obtain g where sc: "tenant_scope demo_env demo_tenant (review_body demo_env demo_ctx 40 50 60 GOOD) (demo_learning [], []) =
    bindr (review_body demo_env demo_ctx 40 50 60 GOOD ((demo_learning [])\<lparr> settings := g \<rparr>, []))
      (\<lambda>(r, s3). bindr (flush s3) (\<lambda>s4. Inr (r, s4)))"
    by (rule demo_scope [OF demo_learning_core(1,2)])
  have "\<exists>c. schedule (initial_card 1000000) GOOD 1000000 = Inr c"
    by (rule exI, code_simp)
  then obtain c where "schedule (initial_card 1000000) GOOD 1000000 = Inr c" by blast
  then show ?thesis
    unfolding apply_review_rating_def Let_def demo_ctx_tenant
      map_outcome_to_rating_def not_True_eq_False simp_thms if_False sc
    by (simp add: review_body_def find_course_def demo_learning_def
        insert_review_def new_review_def review_key_def course_fk_def pending_gate_def unique_key_def foreign_key_def
        demo_core_def update_review_def update_rows_def rated_row_def Let_def)
qed

theorem review_cards_stay_in_range_witness:
  "\<exists>d' w. learning_reachable (demo_learning []) d' \<and> wf_reviews (demo_learning []) \<and> w \<in> set (t_review d') \<and>
     1 / 2 \<le> fs_stability (ri_fsrs_state w)"
proof -
  obtain r d' ps' where op: "apply_review_rating demo_env demo_ctx 40 50 60 True False False (demo_learning [], []) =
      Inr (r, d', ps')" and ids: "map ri_id (t_review d') = [1000]"
    using demo_review by (elim exE conjE)
  from ids obtain w where w: "w \<in> set (t_review d')" by (cases "t_review d'") auto
  have r: "learning_reachable (demo_learning []) d'"
    unfolding learning_reachable_def using step_review [OF op] by blast
  have "wf_reviews (demo_learning [])" by (simp add: wf_reviews_def)
  with review_cards_stay_in_range [OF r this w] r w show ?thesis by blast
qed

theorem review_priority_constant_witness:
  "\<exists>r d' ps'. apply_review_rating demo_env demo_ctx 40 50 60 True False False (demo_learning [], []) = Inr (r, d', ps') \<and>
     rr_priority r = 3"
  using demo_review review_priority_constant by blast

end
