(* ===== verification/Ingestion_Domain.thy ===== *)
theory Ingestion_Domain
  imports Prelude
begin

text \<open>
  The vocabulary of ingestion, \<open>packages/domain-python/src/memdot_domain/ingestion.py\<close>: processing states of sources,
  parse runs and jobs, element and blob kinds with the text each is stored as, and the deployment's limits.
\<close>

datatype SourceProcessingStatus =
    SPS_DRAFT | SPS_UPLOAD_PENDING | SPS_UPLOADED | SPS_QUEUED | SPS_RUNNING | SPS_PARTIAL | SPS_SUCCEEDED
  | SPS_FAILED | SPS_CANCELLED

definition source_status :: "SourceProcessingStatus \<Rightarrow> string" where
  "source_status s =
     (case s of SPS_DRAFT \<Rightarrow> ''draft'' | SPS_UPLOAD_PENDING \<Rightarrow> ''upload_pending'' | SPS_UPLOADED \<Rightarrow> ''uploaded''
      | SPS_QUEUED \<Rightarrow> ''queued'' | SPS_RUNNING \<Rightarrow> ''running'' | SPS_PARTIAL \<Rightarrow> ''partial''
      | SPS_SUCCEEDED \<Rightarrow> ''succeeded'' | SPS_FAILED \<Rightarrow> ''failed'' | SPS_CANCELLED \<Rightarrow> ''cancelled'')"

datatype ParseRunStatus = PRS_PENDING | PRS_RUNNING | PRS_SUCCEEDED | PRS_FAILED | PRS_CANCELLED

definition parse_status :: "ParseRunStatus \<Rightarrow> string" where
  "parse_status s =
     (case s of PRS_PENDING \<Rightarrow> ''pending'' | PRS_RUNNING \<Rightarrow> ''running'' | PRS_SUCCEEDED \<Rightarrow> ''succeeded''
      | PRS_FAILED \<Rightarrow> ''failed'' | PRS_CANCELLED \<Rightarrow> ''cancelled'')"

datatype JobStatus =
    JS_PENDING | JS_QUEUED | JS_RUNNING | JS_SUCCEEDED | JS_FAILED | JS_CANCELLED | JS_DEAD_LETTER

definition job_status :: "JobStatus \<Rightarrow> string" where
  "job_status s =
     (case s of JS_PENDING \<Rightarrow> ''pending'' | JS_QUEUED \<Rightarrow> ''queued'' | JS_RUNNING \<Rightarrow> ''running''
      | JS_SUCCEEDED \<Rightarrow> ''succeeded'' | JS_FAILED \<Rightarrow> ''failed'' | JS_CANCELLED \<Rightarrow> ''cancelled''
      | JS_DEAD_LETTER \<Rightarrow> ''dead_letter'')"

datatype ElementKind =
    EK_HEADING | EK_PARAGRAPH | EK_LIST | EK_LIST_ITEM | EK_TABLE | EK_TABLE_ROW | EK_TABLE_CELL | EK_FORMULA
  | EK_FIGURE | EK_ASSET | EK_PAGE | EK_CODE_BLOCK

definition element_kind :: "ElementKind \<Rightarrow> string" where
  "element_kind k =
     (case k of EK_HEADING \<Rightarrow> ''heading'' | EK_PARAGRAPH \<Rightarrow> ''paragraph'' | EK_LIST \<Rightarrow> ''list''
      | EK_LIST_ITEM \<Rightarrow> ''list_item'' | EK_TABLE \<Rightarrow> ''table'' | EK_TABLE_ROW \<Rightarrow> ''table_row''
      | EK_TABLE_CELL \<Rightarrow> ''table_cell'' | EK_FORMULA \<Rightarrow> ''formula'' | EK_FIGURE \<Rightarrow> ''figure''
      | EK_ASSET \<Rightarrow> ''asset'' | EK_PAGE \<Rightarrow> ''page'' | EK_CODE_BLOCK \<Rightarrow> ''code_block'')"

datatype BlobKind =
    BK_ORIGINAL | BK_CONNECTOR_SNAPSHOT | BK_PARSER_ARTIFACT | BK_RENDERED_PAGE | BK_ASSET | BK_EXPORT | BK_QUARANTINE

definition blob_kind :: "BlobKind \<Rightarrow> string" where
  "blob_kind k =
     (case k of BK_ORIGINAL \<Rightarrow> ''original'' | BK_CONNECTOR_SNAPSHOT \<Rightarrow> ''connector_snapshot''
      | BK_PARSER_ARTIFACT \<Rightarrow> ''parser_artifact'' | BK_RENDERED_PAGE \<Rightarrow> ''rendered_page'' | BK_ASSET \<Rightarrow> ''asset''
      | BK_EXPORT \<Rightarrow> ''export'' | BK_QUARANTINE \<Rightarrow> ''quarantine'')"

record IngestionLimits =
  max_object_bytes :: int
  lim_max_pages :: int
  max_active_parse_workflows :: int
  max_account_queue_depth :: int
  max_archive_depth :: int
  max_decompressed_bytes :: int
  parse_timeout_seconds :: int

definition INGESTION_LIMITS :: IngestionLimits where
  "INGESTION_LIMITS =
     \<lparr> max_object_bytes = 100 * 1024 * 1024, lim_max_pages = 1000, max_active_parse_workflows = 2,
       max_account_queue_depth = 100, max_archive_depth = 8, max_decompressed_bytes = 200 * 1024 * 1024,
       parse_timeout_seconds = 3600 \<rparr>"

lemma source_status_inject [simp]: "source_status a = source_status b \<longleftrightarrow> a = b"
  by (cases a; cases b) (simp_all add: source_status_def)

lemma parse_status_inject [simp]: "parse_status a = parse_status b \<longleftrightarrow> a = b"
  by (cases a; cases b) (simp_all add: parse_status_def)

end
