(* ===== verification/Storage.thy ===== *)
theory Storage
  imports Object_Keys
begin

text \<open>
  Core's object storage, \<open>services/core/src/memdot_core/storage/s3.py\<close>: the two adapters of the port
  \<open>ObjectStoragePort\<close>, one over an S3 bucket and one in memory, and the dispatch on them.

  The S3 client is boto3's: the record \<open>s3_client\<close> holds the calls the adapter makes of it, over a bucket state
  of any type \<open>'b\<close>. The time now is an argument; SHA-256 of bytes is the argument \<open>sha\<close>.
\<close>

section \<open>Results\<close>

record PresignedUpload =
  pu_url :: string
  pu_object_key :: string
  pu_expires_at :: datetime
  pu_headers :: "(string \<times> string) list"

record PresignedDownload =
  pd_url :: string
  pd_expires_at :: datetime

section \<open>The S3 adapter\<close>

record s3_head_response =
  s3h_metadata :: "(string \<times> string) list option"
  s3h_content_length :: int
  s3h_content_type :: "string option"

record 'b s3_client =
  s3_put_url :: "string \<Rightarrow> string \<Rightarrow> int \<Rightarrow> (string \<times> string) list \<Rightarrow> int \<Rightarrow> string res"
  s3_get_url :: "string \<Rightarrow> int \<Rightarrow> string res"
  s3_head :: "'b \<Rightarrow> string \<Rightarrow> s3_head_response res"
  s3_copy :: "string \<Rightarrow> string \<Rightarrow> 'b \<Rightarrow> 'b res"
  s3_get :: "'b \<Rightarrow> string \<Rightarrow> string res"

definition s3_create_presigned_upload ::
    "'b s3_client \<Rightarrow> datetime \<Rightarrow> ObjectKeyParts \<Rightarrow> int \<Rightarrow> string \<Rightarrow> string \<Rightarrow> int \<Rightarrow> PresignedUpload res" where
  "s3_create_presigned_upload C t parts byte_count content_type sha256 expires_seconds =
     bindr (build_object_key parts) (\<lambda>key.
     bindr (assert_key_account_binding key (okp_account_id parts)) (\<lambda>_.
     bindr (s3_put_url C key content_type byte_count
       [(''sha256'', sha256), (''account_id'', str_uuid (okp_account_id parts))] expires_seconds) (\<lambda>url.
     Inr \<lparr> pu_url = url, pu_object_key = key, pu_expires_at = t + expires_seconds * 1000000,
           pu_headers = [(''Content-Type'', content_type)] \<rparr>)))"

definition s3_create_presigned_download ::
    "'b s3_client \<Rightarrow> datetime \<Rightarrow> string \<Rightarrow> uuid \<Rightarrow> int \<Rightarrow> PresignedDownload res" where
  "s3_create_presigned_download C t object_key account_id expires_seconds =
     bindr (assert_key_account_binding object_key account_id) (\<lambda>_.
     bindr (s3_get_url C object_key expires_seconds) (\<lambda>url.
     Inr \<lparr> pd_url = url, pd_expires_at = t + expires_seconds * 1000000 \<rparr>))"

text \<open>\<open>meta.get("sha256") or hashlib.sha256(b"").hexdigest()\<close>.\<close>

definition s3_head_object ::
    "(string \<Rightarrow> string) \<Rightarrow> 'b s3_client \<Rightarrow> 'b \<Rightarrow> string \<Rightarrow> uuid \<Rightarrow> StoredObjectMeta res" where
  "s3_head_object sha C b object_key account_id =
     bindr (assert_key_account_binding object_key account_id) (\<lambda>_.
     bindr (s3_head C b object_key) (\<lambda>resp.
     let meta = (case s3h_metadata resp of None \<Rightarrow> [] | Some m \<Rightarrow> m);
         digest = (case map_of meta ''sha256'' of None \<Rightarrow> sha [] | Some x \<Rightarrow> if x = [] then sha [] else x)
     in Inr \<lparr> som_object_key = object_key, som_byte_count = s3h_content_length resp, som_sha256 = digest,
              som_content_type = s3h_content_type resp \<rparr>))"

definition s3_verify_upload_completion ::
    "(string \<Rightarrow> string) \<Rightarrow> 'b s3_client \<Rightarrow> 'b \<Rightarrow> string \<Rightarrow> uuid \<Rightarrow> string \<Rightarrow> int \<Rightarrow> StoredObjectMeta res" where
  "s3_verify_upload_completion sha C b object_key account_id expected_sha256 expected_byte_count =
     bindr (s3_head_object sha C b object_key account_id) (\<lambda>meta.
     if som_byte_count meta \<noteq> expected_byte_count then Inl (ValueError ''upload_byte_count_mismatch'')
     else if py_lower (som_sha256 meta) \<noteq> py_lower expected_sha256
     then Inl (ValueError ''upload_checksum_mismatch'') else Inr meta)"

definition s3_promote_from_quarantine ::
    "(string \<Rightarrow> string) \<Rightarrow> 'b s3_client \<Rightarrow> 'b \<Rightarrow> string \<Rightarrow> ObjectKeyParts \<Rightarrow> uuid \<Rightarrow> (StoredObjectMeta \<times> 'b) res" where
  "s3_promote_from_quarantine sha C b qkey target_parts account_id =
     bindr (assert_key_account_binding qkey account_id) (\<lambda>_.
     bindr (build_object_key target_parts) (\<lambda>target_key.
     bindr (s3_copy C qkey target_key b) (\<lambda>b1.
     bindr (s3_head_object sha C b1 target_key account_id) (\<lambda>meta. Inr (meta, b1)))))"

definition s3_read_object_bytes :: "'b s3_client \<Rightarrow> 'b \<Rightarrow> string \<Rightarrow> uuid \<Rightarrow> string res" where
  "s3_read_object_bytes C b object_key account_id =
     bindr (assert_key_account_binding object_key account_id) (\<lambda>_. s3_get C b object_key)"

section \<open>The memory adapter\<close>

type_synonym memory_objects = "string \<rightharpoonup> string \<times> string \<times> (string \<times> string) list"

definition lookup_object :: "memory_objects \<Rightarrow> string \<Rightarrow> (string \<times> string \<times> (string \<times> string) list) res" where
  "lookup_object objs object_key = (case objs object_key of None \<Rightarrow> Inl (KeyError object_key) | Some x \<Rightarrow> Inr x)"

definition mem_put_bytes ::
    "memory_objects \<Rightarrow> string \<Rightarrow> string \<Rightarrow> string \<Rightarrow> uuid \<Rightarrow> string \<Rightarrow> memory_objects res" where
  "mem_put_bytes objs object_key data content_type account_id sha256 =
     bindr (assert_key_account_binding object_key account_id) (\<lambda>_.
     Inr (objs(object_key \<mapsto> (data, content_type, [(''sha256'', sha256)]))))"

definition mem_read_object_bytes :: "memory_objects \<Rightarrow> string \<Rightarrow> uuid \<Rightarrow> string res" where
  "mem_read_object_bytes objs object_key account_id =
     bindr (assert_key_account_binding object_key account_id) (\<lambda>_.
     bindr (lookup_object objs object_key) (\<lambda>(data, _, _). Inr data))"

definition mem_create_presigned_upload ::
    "datetime \<Rightarrow> ObjectKeyParts \<Rightarrow> int \<Rightarrow> string \<Rightarrow> string \<Rightarrow> int \<Rightarrow> PresignedUpload res" where
  "mem_create_presigned_upload t parts byte_count content_type sha256 expires_seconds =
     bindr (build_object_key parts) (\<lambda>key.
     Inr \<lparr> pu_url = ''memory://upload/'' @ key, pu_object_key = key, pu_expires_at = t + expires_seconds * 1000000,
           pu_headers = [(''Content-Type'', content_type)] \<rparr>)"

definition mem_create_presigned_download :: "datetime \<Rightarrow> string \<Rightarrow> uuid \<Rightarrow> int \<Rightarrow> PresignedDownload res" where
  "mem_create_presigned_download t object_key account_id expires_seconds =
     bindr (assert_key_account_binding object_key account_id) (\<lambda>_.
     Inr \<lparr> pd_url = ''memory://download/'' @ object_key, pd_expires_at = t + expires_seconds * 1000000 \<rparr>)"

definition mem_head_object :: "(string \<Rightarrow> string) \<Rightarrow> memory_objects \<Rightarrow> string \<Rightarrow> uuid \<Rightarrow> StoredObjectMeta res" where
  "mem_head_object sha objs object_key account_id =
     bindr (assert_key_account_binding object_key account_id) (\<lambda>_.
     bindr (lookup_object objs object_key) (\<lambda>(data, content_type, meta).
     Inr \<lparr> som_object_key = object_key, som_byte_count = int (length data),
           som_sha256 = (case map_of meta ''sha256'' of None \<Rightarrow> sha data | Some x \<Rightarrow> x),
           som_content_type = Some content_type \<rparr>))"

definition mem_verify_upload_completion ::
    "(string \<Rightarrow> string) \<Rightarrow> memory_objects \<Rightarrow> string \<Rightarrow> uuid \<Rightarrow> string \<Rightarrow> int \<Rightarrow> StoredObjectMeta res" where
  "mem_verify_upload_completion sha objs object_key account_id expected_sha256 expected_byte_count =
     bindr (mem_head_object sha objs object_key account_id) (\<lambda>meta.
     if som_byte_count meta \<noteq> expected_byte_count \<or> py_lower (som_sha256 meta) \<noteq> py_lower expected_sha256
     then Inl (ValueError ''upload_verification_failed'') else Inr meta)"

definition mem_promote_from_quarantine ::
    "(string \<Rightarrow> string) \<Rightarrow> memory_objects \<Rightarrow> string \<Rightarrow> ObjectKeyParts \<Rightarrow> uuid \<Rightarrow> (StoredObjectMeta \<times> memory_objects) res" where
  "mem_promote_from_quarantine sha objs qkey target_parts account_id =
     bindr (lookup_object objs qkey) (\<lambda>obj.
     bindr (build_object_key target_parts) (\<lambda>target_key.
     bindr (mem_head_object sha (objs(target_key \<mapsto> obj)) target_key account_id) (\<lambda>meta.
     Inr (meta, objs(target_key \<mapsto> obj)))))"

section \<open>The port\<close>

text \<open>A storage object is one of the two adapters; the services call it through the port.\<close>

datatype 'b storage = MemoryObjectStorage memory_objects | S3ObjectStorage 'b

record 'b storage_env =
  se_client :: "'b s3_client"
  se_sha :: "string \<Rightarrow> string"
  se_now :: datetime

definition create_presigned_upload ::
    "'b storage_env \<Rightarrow> 'b storage \<Rightarrow> ObjectKeyParts \<Rightarrow> int \<Rightarrow> string \<Rightarrow> string \<Rightarrow> PresignedUpload res" where
  "create_presigned_upload S st parts byte_count content_type sha256 =
     (case st of
        MemoryObjectStorage objs \<Rightarrow> mem_create_presigned_upload (se_now S) parts byte_count content_type sha256 900
      | S3ObjectStorage b \<Rightarrow> s3_create_presigned_upload (se_client S) (se_now S) parts byte_count content_type sha256 900)"

definition create_presigned_download ::
    "'b storage_env \<Rightarrow> 'b storage \<Rightarrow> string \<Rightarrow> uuid \<Rightarrow> PresignedDownload res" where
  "create_presigned_download S st object_key account_id =
     (case st of
        MemoryObjectStorage objs \<Rightarrow> mem_create_presigned_download (se_now S) object_key account_id 900
      | S3ObjectStorage b \<Rightarrow> s3_create_presigned_download (se_client S) (se_now S) object_key account_id 900)"

definition storage_head :: "'b storage_env \<Rightarrow> 'b storage \<Rightarrow> string \<Rightarrow> uuid \<Rightarrow> StoredObjectMeta res" where
  "storage_head S st object_key account_id =
     (case st of
        MemoryObjectStorage objs \<Rightarrow> mem_head_object (se_sha S) objs object_key account_id
      | S3ObjectStorage b \<Rightarrow> s3_head_object (se_sha S) (se_client S) b object_key account_id)"

definition storage_verify ::
    "'b storage_env \<Rightarrow> 'b storage \<Rightarrow> string \<Rightarrow> uuid \<Rightarrow> string \<Rightarrow> int \<Rightarrow> StoredObjectMeta res" where
  "storage_verify S st object_key account_id expected_sha256 expected_byte_count =
     (case st of
        MemoryObjectStorage objs \<Rightarrow>
          mem_verify_upload_completion (se_sha S) objs object_key account_id expected_sha256 expected_byte_count
      | S3ObjectStorage b \<Rightarrow>
          s3_verify_upload_completion (se_sha S) (se_client S) b object_key account_id expected_sha256 expected_byte_count)"

definition storage_promote ::
    "'b storage_env \<Rightarrow> 'b storage \<Rightarrow> string \<Rightarrow> ObjectKeyParts \<Rightarrow> uuid \<Rightarrow> (StoredObjectMeta \<times> 'b storage) res" where
  "storage_promote S st qkey target_parts account_id =
     (case st of
        MemoryObjectStorage objs \<Rightarrow>
          bindr (mem_promote_from_quarantine (se_sha S) objs qkey target_parts account_id) (\<lambda>(meta, objs').
          Inr (meta, MemoryObjectStorage objs'))
      | S3ObjectStorage b \<Rightarrow>
          bindr (s3_promote_from_quarantine (se_sha S) (se_client S) b qkey target_parts account_id) (\<lambda>(meta, b').
          Inr (meta, S3ObjectStorage b')))"

definition storage_read :: "'b storage_env \<Rightarrow> 'b storage \<Rightarrow> string \<Rightarrow> uuid \<Rightarrow> string res" where
  "storage_read S st object_key account_id =
     (case st of
        MemoryObjectStorage objs \<Rightarrow> mem_read_object_bytes objs object_key account_id
      | S3ObjectStorage b \<Rightarrow> s3_read_object_bytes (se_client S) b object_key account_id)"

text \<open>\<open>storage/factory.py\<close>: the memory adapter in tests and where no endpoint is configured.\<close>

definition storage_from_settings :: "string \<Rightarrow> string \<Rightarrow> 'b \<Rightarrow> 'b storage" where
  "storage_from_settings env_name object_store_endpoint bucket =
     (if env_name = ''test'' \<or> py_strip object_store_endpoint = [] then MemoryObjectStorage Map.empty
      else S3ObjectStorage bucket)"

section \<open>What the port promises\<close>

text \<open>
  The laws a client of the port relies on. Every access is bound to the account in the key; a verified object has
  the promised length and, up to letter case, the promised digest; the promoted object reads as the quarantined
  one and other objects keep their contents.
\<close>

locale object_storage =
  fixes read_bytes :: "'s \<Rightarrow> string \<Rightarrow> uuid \<Rightarrow> string res"
    and verify :: "'s \<Rightarrow> string \<Rightarrow> uuid \<Rightarrow> string \<Rightarrow> int \<Rightarrow> StoredObjectMeta res"
    and promote :: "'s \<Rightarrow> string \<Rightarrow> ObjectKeyParts \<Rightarrow> uuid \<Rightarrow> (StoredObjectMeta \<times> 's) res"
  assumes read_bound: "read_bytes st key acct = Inr data \<Longrightarrow> assert_key_account_binding key acct = Inr ()"
    and verify_exact:
      "verify st key acct sha n = Inr meta \<Longrightarrow>
         \<exists>data. read_bytes st key acct = Inr data \<and> int (length data) = n \<and> som_byte_count meta = n \<and>
           py_lower (som_sha256 meta) = py_lower sha"
    and promote_copies:
      "promote st qkey parts acct = Inr (meta, st') \<Longrightarrow> read_bytes st qkey acct = Inr data \<Longrightarrow>
         build_object_key parts = Inr (som_object_key meta) \<and>
         read_bytes st' (som_object_key meta) acct = Inr data"
    and promote_others:
      "promote st qkey parts acct = Inr (meta, st') \<Longrightarrow> key \<noteq> som_object_key meta \<Longrightarrow>
         read_bytes st' key acct' = read_bytes st key acct'"
begin

lemma promoted_account:
  assumes "promote st qkey parts acct = Inr (meta, st')" and "read_bytes st qkey acct = Inr data"
  shows "okp_account_id parts = acct"
proof -
  note c = promote_copies [OF assms]
  then have "assert_key_account_binding (som_object_key meta) acct = Inr ()" by (blast intro: read_bound)
  then show ?thesis
    using c key_prefix [of parts "som_object_key meta" acct]
    by (auto simp: assert_key_account_binding_def split: if_splits)
qed

lemma verified_promotion:
  assumes "verify st qkey acct sha n = Inr meta" and "promote st qkey parts acct = Inr (meta', st')"
  shows "\<exists>data. read_bytes st' (som_object_key meta') acct = Inr data \<and> int (length data) = n \<and>
    okp_account_id parts = acct"
  using verify_exact [OF assms(1)] promote_copies [OF assms(2)] promoted_account [OF assms(2)] by blast

end

lemma mem_head_Inr:
  "mem_head_object sha objs key acct = Inr meta \<longleftrightarrow>
     (\<exists>data ct m. assert_key_account_binding key acct = Inr () \<and> objs key = Some (data, ct, m) \<and>
        meta = \<lparr> som_object_key = key, som_byte_count = int (length data),
          som_sha256 = (case map_of m ''sha256'' of None \<Rightarrow> sha data | Some x \<Rightarrow> x), som_content_type = Some ct \<rparr>)"
  by (auto simp: mem_head_object_def lookup_object_def bindr_Inr_iff split: option.splits)

lemma mem_read_Inr:
  "mem_read_object_bytes objs key acct = Inr data \<longleftrightarrow>
     assert_key_account_binding key acct = Inr () \<and> (\<exists>ct m. objs key = Some (data, ct, m))"
  by (auto simp: mem_read_object_bytes_def lookup_object_def bindr_Inr_iff split: option.splits)

interpretation memory_storage:
  object_storage mem_read_object_bytes "mem_verify_upload_completion sha" "mem_promote_from_quarantine sha"
proof unfold_locales
  fix st key acct data
  assume "mem_read_object_bytes st key acct = Inr data"
  then show "assert_key_account_binding key acct = Inr ()" by (simp add: mem_read_Inr)
next
  fix st key acct sha0 n meta
  assume "mem_verify_upload_completion sha st key acct sha0 n = Inr meta"
  then show "\<exists>data. mem_read_object_bytes st key acct = Inr data \<and> int (length data) = n \<and> som_byte_count meta = n \<and>
      py_lower (som_sha256 meta) = py_lower sha0"
    by (auto simp: mem_verify_upload_completion_def bindr_Inr_iff mem_head_Inr mem_read_Inr split: if_splits)
next
  fix st qkey parts acct meta st' data
  assume p: "mem_promote_from_quarantine sha st qkey parts acct = Inr (meta, st')"
    and r: "mem_read_object_bytes st qkey acct = Inr data"
  then show "build_object_key parts = Inr (som_object_key meta) \<and>
      mem_read_object_bytes st' (som_object_key meta) acct = Inr data"
    by (auto simp: mem_promote_from_quarantine_def bindr_Inr_iff mem_head_Inr mem_read_Inr lookup_object_def
        split: option.splits)
next
  fix st qkey parts acct meta st' key acct'
  assume "mem_promote_from_quarantine sha st qkey parts acct = Inr (meta, st')" and "key \<noteq> som_object_key meta"
  then show "mem_read_object_bytes st' key acct' = mem_read_object_bytes st key acct'"
    by (auto simp: mem_promote_from_quarantine_def bindr_Inr_iff mem_head_Inr mem_read_object_bytes_def
        lookup_object_def split: option.splits)
qed

section \<open>The S3 adapter on a faithful client\<close>

text \<open>
  What S3 documents of the calls: a head request answers for an object that can be read, with its size; a copy
  reads as its source, and leaves every other object alone.
\<close>

definition s3_faithful :: "'b s3_client \<Rightarrow> bool" where
  "s3_faithful C \<longleftrightarrow>
     (\<forall>b k h. s3_head C b k = Inr h \<longrightarrow> (\<exists>data. s3_get C b k = Inr data \<and> int (length data) = s3h_content_length h)) \<and>
     (\<forall>a k b b'. s3_copy C a k b = Inr b' \<longrightarrow> s3_get C b' k = s3_get C b a \<and>
        (\<forall>j. j \<noteq> k \<longrightarrow> s3_get C b' j = s3_get C b j))"

lemma s3_head_Inr:
  assumes "s3_head_object sha C b key acct = Inr meta"
  obtains h where "s3_head C b key = Inr h" "assert_key_account_binding key acct = Inr ()"
    "som_object_key meta = key" "som_byte_count meta = s3h_content_length h"
  using assms by (auto simp: s3_head_object_def bindr_Inr_iff Let_def)

lemma s3_object_storage:
  assumes "s3_faithful C"
  shows "object_storage (s3_read_object_bytes C) (s3_verify_upload_completion sha C) (s3_promote_from_quarantine sha C)"
proof unfold_locales
  fix st key acct data
  assume "s3_read_object_bytes C st key acct = Inr data"
  then show "assert_key_account_binding key acct = Inr ()" by (auto simp: s3_read_object_bytes_def bindr_Inr_iff)
next
  fix st key acct h n meta
  assume v: "s3_verify_upload_completion sha C st key acct h n = Inr meta"
  then have m: "som_byte_count meta = n" "py_lower (som_sha256 meta) = py_lower h"
    by (auto simp: s3_verify_upload_completion_def bindr_Inr_iff split: if_splits)
  have "s3_head_object sha C st key acct = Inr meta"
    using v by (auto simp: s3_verify_upload_completion_def bindr_Inr_iff split: if_splits)
  then obtain r where "s3_head C st key = Inr r" "assert_key_account_binding key acct = Inr ()"
    "som_byte_count meta = s3h_content_length r"
    by (rule s3_head_Inr)
  then show "\<exists>data. s3_read_object_bytes C st key acct = Inr data \<and> int (length data) = n \<and>
      som_byte_count meta = n \<and> py_lower (som_sha256 meta) = py_lower h"
    using assms m by (fastforce simp: s3_faithful_def s3_read_object_bytes_def)
next
  fix st qkey parts acct meta st' data
  assume "s3_promote_from_quarantine sha C st qkey parts acct = Inr (meta, st')"
    and r: "s3_read_object_bytes C st qkey acct = Inr data"
  then obtain key where key: "build_object_key parts = Inr key" and cp: "s3_copy C qkey key st = Inr st'"
    and hd: "s3_head_object sha C st' key acct = Inr meta"
    by (auto simp: s3_promote_from_quarantine_def bindr_Inr_iff)
  from hd have "som_object_key meta = key" "assert_key_account_binding key acct = Inr ()"
    by (rule s3_head_Inr, simp)+
  moreover have "s3_get C st' key = s3_get C st qkey"
    using cp assms by (simp add: s3_faithful_def)
  ultimately show "build_object_key parts = Inr (som_object_key meta) \<and>
      s3_read_object_bytes C st' (som_object_key meta) acct = Inr data"
    using key r by (auto simp: s3_read_object_bytes_def bindr_Inr_iff)
next
  fix st qkey parts acct meta st' key acct'
  assume "s3_promote_from_quarantine sha C st qkey parts acct = Inr (meta, st')" and n: "key \<noteq> som_object_key meta"
  then obtain k where cp: "s3_copy C qkey k st = Inr st'" and hd: "s3_head_object sha C st' k acct = Inr meta"
    by (auto simp: s3_promote_from_quarantine_def bindr_Inr_iff)
  from hd have "som_object_key meta = k" by (rule s3_head_Inr)
  then have "s3_get C st' key = s3_get C st key"
    using cp n assms unfolding s3_faithful_def by blast
  then show "s3_read_object_bytes C st' key acct' = s3_read_object_bytes C st key acct'"
    by (simp add: s3_read_object_bytes_def)
qed

lemma mem_put_read:
  "mem_put_bytes objs key data ct acct h = Inr objs' \<Longrightarrow> mem_read_object_bytes objs' key acct = Inr data"
  by (auto simp: mem_put_bytes_def mem_read_Inr bindr_Inr_iff)

end
