(* ===== verification/Sources.thy ===== *)
theory Sources
  imports Jobs Storage Ingestion_Domain
begin

text \<open>
  Sources and uploads, \<open>services/core/src/memdot_core/sources/service.py\<close>, over the tables \<open>source\<close>,
  \<open>source_revision\<close>, \<open>source_blob\<close> and \<open>upload_intent\<close> of \<open>ledger.py\<close>, Core's object storage (\<open>Storage\<close>) and the
  job queue (\<open>Jobs\<close>).

  An upload is announced (\<open>begin_upload\<close>) with its size and digest, the client puts the bytes at a quarantine key,
  and \<open>complete_upload\<close> verifies them, copies them to their final key, records an immutable revision whose
  identifier is the UUIDv5 of source and digest, and enqueues the ingestion job.

  Storage is not transactional: an operation returns the storage as it leaves it, and when it raises the database
  is rolled back while a copy already made stays. \<open>uuid5\<close> is Python's \<open>uuid.uuid5\<close> and the database's
  \<open>uuid_generate_v5\<close>, one RFC 4122 function; \<open>isoformat\<close> prints a point in time.
\<close>

section \<open>Tables\<close>

record SourceRevision =
  sr_id :: uuid
  sr_account_id :: uuid
  sr_space_id :: uuid
  sr_source_id :: uuid
  sr_snapshot_sha256 :: string
  sr_captured_at :: datetime
  sr_source_native_version :: "string option"
  sr_mime_type :: "string option"
  sr_language_hints :: "string option"
  sr_byte_count :: "int option"
  sr_page_count :: "int option"
  sr_object_key :: "string option"
  sr_created_at :: datetime

record SourceBlob =
  sb_id :: uuid
  sb_account_id :: uuid
  sb_space_id :: uuid
  sb_source_revision_id :: uuid
  sb_blob_kind :: string
  sb_object_key :: string
  sb_sha256 :: string
  sb_byte_count :: int
  sb_created_at :: datetime

record UploadIntent =
  ui_id :: uuid
  ui_account_id :: uuid
  ui_space_id :: uuid
  ui_source_id :: uuid
  ui_object_key :: string
  ui_expected_sha256 :: string
  ui_expected_byte_count :: int
  ui_content_type :: string
  ui_expires_at :: datetime
  ui_completed_at :: "datetime option"
  ui_created_at :: datetime

record source_db = core_db +
  t_source_revision :: "SourceRevision list"
  t_source_blob :: "SourceBlob list"
  t_upload_intent :: "UploadIntent list"

definition SOURCE_STATUSES :: "string list" where
  "SOURCE_STATUSES = map source_status [SPS_DRAFT, SPS_UPLOAD_PENDING, SPS_UPLOADED, SPS_QUEUED, SPS_RUNNING,
     SPS_PARTIAL, SPS_SUCCEEDED, SPS_FAILED, SPS_CANCELLED]"

definition insert_source :: "Source \<Rightarrow> 'a core_db_scheme \<Rightarrow> 'a core_db_scheme res" where
  "insert_source r d =
     bindr (pending_gate (src_account_id r) d) (\<lambda>_.
     bindr (unique_key ''pk_source'' (\<lambda>r. Some (src_id r)) r (t_source d)) (\<lambda>_.
     bindr (check_in ''ck_source_processing_status'' (src_processing_status r) SOURCE_STATUSES) (\<lambda>_.
     bindr (foreign_key ''fk_source_space'' (Some (src_account_id r, src_space_id r))
       (\<lambda>p. (sp_account_id p, sp_id p)) (t_space d)) (\<lambda>_.
     Inr (d\<lparr> t_source := t_source d @ [r] \<rparr>)))))"

text \<open>The trigger \<open>memdot_enforce_source_revision_id\<close> (migration 0001) makes the identifier a function of the content.\<close>

definition insert_source_revision ::
    "(uuid \<Rightarrow> string \<Rightarrow> uuid) \<Rightarrow> SourceRevision \<Rightarrow> 'a source_db_scheme \<Rightarrow> 'a source_db_scheme res" where
  "insert_source_revision uuid5 r d =
     bindr (guard_res (sr_id r = uuid5 (sr_source_id r) (sr_snapshot_sha256 r))
       (DBAPIError ''source_revision_id_must_be_uuidv5'')) (\<lambda>_.
     bindr (pending_gate (sr_account_id r) d) (\<lambda>_.
     bindr (unique_key ''pk_source_revision'' (\<lambda>r. Some (sr_id r)) r (t_source_revision d)) (\<lambda>_.
     bindr (unique_key ''uq_source_revision_2'' (\<lambda>r. Some (sr_account_id r, sr_source_id r, sr_snapshot_sha256 r))
       r (t_source_revision d)) (\<lambda>_.
     bindr (guard_res (length (sr_snapshot_sha256 r) = 64) (IntegrityError ''ck_source_revision_sha_len'')) (\<lambda>_.
     bindr (foreign_key ''fk_source_revision_source'' (Some (sr_account_id r, sr_source_id r))
       (\<lambda>x. (src_account_id x, src_id x)) (t_source d)) (\<lambda>_.
     bindr (foreign_key ''fk_source_revision_source_space'' (Some (sr_account_id r, sr_space_id r, sr_source_id r))
       (\<lambda>x. (src_account_id x, src_space_id x, src_id x)) (t_source d)) (\<lambda>_.
     Inr (d\<lparr> t_source_revision := t_source_revision d @ [r] \<rparr>))))))))"

definition insert_source_blob :: "SourceBlob \<Rightarrow> 'a source_db_scheme \<Rightarrow> 'a source_db_scheme res" where
  "insert_source_blob r d =
     bindr (pending_gate (sb_account_id r) d) (\<lambda>_.
     bindr (unique_key ''pk_source_blob'' (\<lambda>r. Some (sb_id r)) r (t_source_blob d)) (\<lambda>_.
     bindr (foreign_key ''fk_source_blob_revision'' (Some (sb_account_id r, sb_source_revision_id r))
       (\<lambda>x. (sr_account_id x, sr_id x)) (t_source_revision d)) (\<lambda>_.
     bindr (foreign_key ''fk_source_blob_revision_space'' (Some (sb_account_id r, sb_space_id r, sb_source_revision_id r))
       (\<lambda>x. (sr_account_id x, sr_space_id x, sr_id x)) (t_source_revision d)) (\<lambda>_.
     Inr (d\<lparr> t_source_blob := t_source_blob d @ [r] \<rparr>)))))"

definition insert_upload_intent :: "UploadIntent \<Rightarrow> 'a source_db_scheme \<Rightarrow> 'a source_db_scheme res" where
  "insert_upload_intent r d =
     bindr (pending_gate (ui_account_id r) d) (\<lambda>_.
     bindr (unique_key ''pk_upload_intent'' (\<lambda>r. Some (ui_id r)) r (t_upload_intent d)) (\<lambda>_.
     bindr (guard_res (length (ui_expected_sha256 r) = 64) (IntegrityError ''ck_upload_intent_sha_len'')) (\<lambda>_.
     bindr (foreign_key ''fk_upload_intent_source'' (Some (ui_account_id r, ui_source_id r))
       (\<lambda>x. (src_account_id x, src_id x)) (t_source d)) (\<lambda>_.
     bindr (foreign_key ''fk_upload_intent_source_space'' (Some (ui_account_id r, ui_space_id r, ui_source_id r))
       (\<lambda>x. (src_account_id x, src_space_id x, src_id x)) (t_source d)) (\<lambda>_.
     Inr (d\<lparr> t_upload_intent := t_upload_intent d @ [r] \<rparr>))))))"

text \<open>Changed attributes of loaded rows, written by the next flush.\<close>

definition set_source_status ::
    "env \<Rightarrow> Source \<Rightarrow> SourceProcessingStatus \<Rightarrow> 'a core_db_scheme \<Rightarrow> 'a core_db_scheme res" where
  "set_source_status E source status d =
     bindr (pending_gate (src_account_id source) d) (\<lambda>_.
     Inr (d\<lparr> t_source := update_rows (\<lambda>r. src_id r = src_id source)
       (\<lambda>r. r\<lparr> src_processing_status := source_status status, src_updated_at := now E \<rparr>) (t_source d) \<rparr>))"

definition set_intent_completed :: "env \<Rightarrow> UploadIntent \<Rightarrow> 'a source_db_scheme \<Rightarrow> 'a source_db_scheme res" where
  "set_intent_completed E intent d =
     bindr (pending_gate (ui_account_id intent) d) (\<lambda>_.
     Inr (d\<lparr> t_upload_intent := update_rows (\<lambda>r. ui_id r = ui_id intent)
       (\<lambda>r. r\<lparr> ui_completed_at := Some (now E) \<rparr>) (t_upload_intent d) \<rparr>))"

section \<open>Queries\<close>

definition find_source :: "uuid \<Rightarrow> uuid \<Rightarrow> 'a core_db_scheme \<Rightarrow> Source res" where
  "find_source account_id source_id d =
     scalar_one (filter (\<lambda>r. src_account_id r = account_id \<and> src_id r = source_id) (t_source d))"

definition revision_of_source :: "uuid \<Rightarrow> uuid \<Rightarrow> uuid \<Rightarrow> 'a source_db_scheme \<Rightarrow> SourceRevision res" where
  "revision_of_source account_id source_id revision_id d =
     scalar_one (filter (\<lambda>r. sr_account_id r = account_id \<and> sr_id r = revision_id \<and> sr_source_id r = source_id)
       (t_source_revision d))"

text \<open>\<open>order_by(created_at.desc())\<close> and \<open>first()\<close>; among equal times the database picks, here the last inserted.\<close>

definition latest_job :: "DurableJob list \<Rightarrow> DurableJob option" where
  "latest_job js = (case rev (sort_key dj_created_at js) of [] \<Rightarrow> None | j # _ \<Rightarrow> Some j)"

definition jobs_of :: "uuid \<Rightarrow> 'a core_db_scheme \<Rightarrow> DurableJob list" where
  "jobs_of account_id d = filter (\<lambda>j. dj_account_id j = account_id) (t_job d)"

section \<open>Operations\<close>

record SourceCreateResult =
  scr_source_id :: uuid
  scr_space_id :: uuid

record UploadIntentResult =
  uir_upload_id :: uuid
  uir_upload_url :: string
  uir_object_key :: string
  uir_expires_at :: datetime

record RevisionResult =
  rr_revision_id :: uuid
  rr_snapshot_sha256 :: string
  rr_job :: EnqueuedJob

text \<open>\<open>content_type.split(";")[0].strip().lower()\<close>.\<close>

definition bare_mime :: "string \<Rightarrow> string" where
  "bare_mime content_type = py_lower (py_strip (hd (py_split (CHR '';'') content_type)))"

definition sniff_mime :: "string \<Rightarrow> string \<Rightarrow> string" where
  "sniff_mime content_type filename =
     (let lowered = bare_mime content_type in
      if lowered \<noteq> [] \<and> lowered \<noteq> ''application/octet-stream'' then lowered
      else if ends_with (py_lower filename) ''.pdf'' then ''application/pdf''
      else if ends_with (py_lower filename) ''.txt'' then ''text/plain''
      else if ends_with (py_lower filename) ''.md'' then ''text/markdown''
      else ''application/octet-stream'')"

definition create_source ::
    "env \<Rightarrow> RequestContext \<Rightarrow> uuid \<Rightarrow> string \<Rightarrow> ('a core_db_scheme, SourceCreateResult) op" where
  "create_source E ctx space_id title s =
     (let source_id = fresh E 0 in
      tenant_scope E (tenant_of ctx) (\<lambda>s.
        Inr (\<lparr> scr_source_id = source_id, scr_space_id = space_id \<rparr>,
          add (insert_source \<lparr> src_id = source_id, src_account_id = ctx_account_id ctx, src_space_id = space_id,
            src_title = title, src_processing_status = source_status SPS_DRAFT, src_created_at = now E,
            src_updated_at = now E \<rparr>) s)) s)"

definition new_intent ::
    "env \<Rightarrow> RequestContext \<Rightarrow> Source \<Rightarrow> uuid \<Rightarrow> PresignedUpload \<Rightarrow> string \<Rightarrow> int \<Rightarrow> string \<Rightarrow> UploadIntent" where
  "new_intent E ctx source upload_id presigned sha_hex byte_count mime =
     \<lparr> ui_id = upload_id, ui_account_id = ctx_account_id ctx, ui_space_id = src_space_id source,
       ui_source_id = src_id source, ui_object_key = pu_object_key presigned, ui_expected_sha256 = sha_hex,
       ui_expected_byte_count = byte_count, ui_content_type = mime, ui_expires_at = pu_expires_at presigned,
       ui_completed_at = None, ui_created_at = now E \<rparr>"

definition begin_upload ::
    "env \<Rightarrow> 'b storage_env \<Rightarrow> RequestContext \<Rightarrow> 'b storage \<Rightarrow> uuid \<Rightarrow> string \<Rightarrow> string \<Rightarrow> int \<Rightarrow> string \<Rightarrow>
     ('a source_db_scheme, UploadIntentResult) op" where
  "begin_upload E S ctx st source_id filename content_type byte_count sha_hex s =
     (if max_object_bytes INGESTION_LIMITS < byte_count then Inl (ValueError ''file_too_large'')
      else bindr (find_source (ctx_account_id ctx) source_id (tables s)) (\<lambda>source.
        let upload_id = fresh E 0; mime = sniff_mime content_type filename;
            parts = \<lparr> okp_account_id = ctx_account_id ctx, okp_space_id = src_space_id source,
              okp_lifecycle = QUARANTINE, okp_artifact_id = upload_id, okp_filename = sanitize_filename filename \<rparr>
        in bindr (create_presigned_upload S st parts byte_count mime sha_hex) (\<lambda>presigned.
           tenant_scope E (tenant_of ctx) (\<lambda>s.
             Inr (\<lparr> uir_upload_id = upload_id, uir_upload_url = pu_url presigned,
                    uir_object_key = pu_object_key presigned, uir_expires_at = pu_expires_at presigned \<rparr>,
               add (set_source_status E source SPS_UPLOAD_PENDING)
                 (add (insert_upload_intent (new_intent E ctx source upload_id presigned sha_hex byte_count mime)) s))) s)))"

text \<open>The branch for an upload that was completed before: the revision of its digest, and a job reference.\<close>

definition replay_upload ::
    "env \<Rightarrow> RequestContext \<Rightarrow> uuid \<Rightarrow> UploadIntent \<Rightarrow> 'a source_db_scheme \<Rightarrow> RevisionResult res" where
  "replay_upload E ctx source_id intent d =
     bindr (scalar_one_or_none (filter (\<lambda>r. sr_account_id r = ctx_account_id ctx \<and> sr_source_id r = source_id \<and>
         sr_snapshot_sha256 r = ui_expected_sha256 intent) (t_source_revision d))) (\<lambda>existing.
     case existing of
       None \<Rightarrow> Inl (ValueError ''upload_already_completed_without_revision'')
     | Some r \<Rightarrow>
         Inr \<lparr> rr_revision_id = sr_id r, rr_snapshot_sha256 = sr_snapshot_sha256 r,
           rr_job = (case latest_job (jobs_of (ctx_account_id ctx) d) of
               Some j \<Rightarrow> if jget (dj_payload j) ''revision_id'' = JStr (str_uuid (sr_id r))
                         then \<lparr> ej_job_id = dj_id j, ej_outbox_event_id = fresh E 0 \<rparr>
                         else \<lparr> ej_job_id = fresh E 0, ej_outbox_event_id = fresh E 1 \<rparr>
             | None \<Rightarrow> \<lparr> ej_job_id = fresh E 0, ej_outbox_event_id = fresh E 1 \<rparr>) \<rparr>)"

text \<open>
  From quarantine to the final key: the memory adapter by reading and putting the bytes, S3 by a copy. The file name
  of the final key is the last segment of the quarantine key.
\<close>

definition last_segment :: "string \<Rightarrow> string" where
  "last_segment key = last (py_split (CHR ''/'') key)"

definition original_parts :: "RequestContext \<Rightarrow> Source \<Rightarrow> UploadIntent \<Rightarrow> ObjectKeyParts" where
  "original_parts ctx source intent =
     \<lparr> okp_account_id = ctx_account_id ctx, okp_space_id = src_space_id source, okp_lifecycle = ORIGINAL,
       okp_artifact_id = ui_id intent, okp_filename = last_segment (ui_object_key intent) \<rparr>"

definition store_original ::
    "'b storage_env \<Rightarrow> RequestContext \<Rightarrow> Source \<Rightarrow> UploadIntent \<Rightarrow> 'b storage \<Rightarrow> (string \<times> 'b storage) res" where
  "store_original S ctx source intent st =
     (case st of
        MemoryObjectStorage objs \<Rightarrow>
          bindr (mem_head_object (se_sha S) objs (ui_object_key intent) (ctx_account_id ctx)) (\<lambda>_.
          bindr (build_object_key (original_parts ctx source intent)) (\<lambda>original_key.
          bindr (mem_read_object_bytes objs (ui_object_key intent) (ctx_account_id ctx)) (\<lambda>data.
          bindr (mem_put_bytes objs original_key data (ui_content_type intent) (ctx_account_id ctx)
            (ui_expected_sha256 intent)) (\<lambda>objs'.
          Inr (original_key, MemoryObjectStorage objs')))))
      | S3ObjectStorage b \<Rightarrow>
          bindr (storage_promote S st (ui_object_key intent) (original_parts ctx source intent) (ctx_account_id ctx))
            (\<lambda>(promoted, st'). Inr (som_object_key promoted, st')))"

definition new_source_revision ::
    "env \<Rightarrow> RequestContext \<Rightarrow> Source \<Rightarrow> UploadIntent \<Rightarrow> uuid \<Rightarrow> string \<Rightarrow> SourceRevision" where
  "new_source_revision E ctx source intent revision_uuid original_key =
     \<lparr> sr_id = revision_uuid, sr_account_id = ctx_account_id ctx, sr_space_id = src_space_id source,
       sr_source_id = src_id source, sr_snapshot_sha256 = ui_expected_sha256 intent, sr_captured_at = now E,
       sr_source_native_version = None, sr_mime_type = Some (ui_content_type intent), sr_language_hints = None,
       sr_byte_count = Some (ui_expected_byte_count intent), sr_page_count = None,
       sr_object_key = Some original_key, sr_created_at = now E \<rparr>"

definition original_blob ::
    "env \<Rightarrow> RequestContext \<Rightarrow> Source \<Rightarrow> UploadIntent \<Rightarrow> uuid \<Rightarrow> string \<Rightarrow> SourceBlob" where
  "original_blob E ctx source intent revision_uuid original_key =
     \<lparr> sb_id = fresh E 0, sb_account_id = ctx_account_id ctx, sb_space_id = src_space_id source,
       sb_source_revision_id = revision_uuid, sb_blob_kind = blob_kind BK_ORIGINAL, sb_object_key = original_key,
       sb_sha256 = ui_expected_sha256 intent, sb_byte_count = ui_expected_byte_count intent, sb_created_at = now E \<rparr>"

definition record_revision ::
    "env \<Rightarrow> (uuid \<Rightarrow> string \<Rightarrow> uuid) \<Rightarrow> RequestContext \<Rightarrow> Source \<Rightarrow> UploadIntent \<Rightarrow> uuid \<Rightarrow> string \<Rightarrow>
     ('a source_db_scheme, unit) op" where
  "record_revision E uuid5 ctx source intent revision_uuid original_key s =
     bindr (scalar_one_or_none (filter (\<lambda>r. sr_account_id r = ctx_account_id ctx \<and> sr_id r = revision_uuid)
       (t_source_revision (tables s)))) (\<lambda>existing.
     bindr (case existing of
         None \<Rightarrow>
           bindr (flush (add (insert_source_revision uuid5
             (new_source_revision E ctx source intent revision_uuid original_key)) s)) (\<lambda>s1.
           Inr (add (insert_source_blob (original_blob E ctx source intent revision_uuid original_key)) s1))
       | Some r \<Rightarrow> Inr s) (\<lambda>s2.
     Inr ((), add (set_source_status E source SPS_QUEUED) (add (set_intent_completed E intent) s2))))"

definition revision_payload :: "uuid \<Rightarrow> uuid \<Rightarrow> uuid \<Rightarrow> dict" where
  "revision_payload source_id revision_id space_id =
     [(''source_id'', JStr (str_uuid source_id)), (''revision_id'', JStr (str_uuid revision_id)),
      (''space_id'', JStr (str_uuid space_id))]"

definition complete_upload ::
    "env \<Rightarrow> (uuid \<Rightarrow> string \<Rightarrow> uuid) \<Rightarrow> 'b storage_env \<Rightarrow> (uuid \<Rightarrow> (string \<times> string) list \<Rightarrow> dict) \<Rightarrow> RequestContext \<Rightarrow>
     uuid \<Rightarrow> uuid \<Rightarrow> 'b storage \<Rightarrow> 'a source_db_scheme session \<Rightarrow>
     (RevisionResult \<times> 'b storage \<times> 'a source_db_scheme session) res" where
  "complete_upload E uuid5 S snapshot ctx source_id upload_id st s =
     bindr (find_source (ctx_account_id ctx) source_id (tables s)) (\<lambda>source.
     bindr (scalar_one (filter (\<lambda>r. ui_account_id r = ctx_account_id ctx \<and> ui_id r = upload_id \<and>
       ui_source_id r = source_id) (t_upload_intent (tables s)))) (\<lambda>intent.
     if ui_completed_at intent \<noteq> None
     then bindr (replay_upload E ctx source_id intent (tables s)) (\<lambda>r. Inr (r, st, s))
     else
       bindr (storage_verify S st (ui_object_key intent) (ctx_account_id ctx) (ui_expected_sha256 intent)
         (ui_expected_byte_count intent)) (\<lambda>_.
       bindr (store_original S ctx source intent st) (\<lambda>(original_key, st').
       let revision_uuid = source_revision_id uuid5 source_id (ui_expected_sha256 intent) in
       bindr (tenant_scope E (tenant_of ctx) (record_revision E uuid5 ctx source intent revision_uuid original_key) s)
         (\<lambda>(_, s1).
       bindr (enqueue_job_with_outbox (E\<lparr> fresh := \<lambda>k. fresh E (k + 1) \<rparr>) ctx snapshot ''ingestion.parse''
         (src_space_id source) (revision_payload source_id revision_uuid (src_space_id source))
         ''source.upload_completed'' (Some (''upload-complete:'' @ str_uuid upload_id)) s1) (\<lambda>(job, s2).
       Inr (\<lparr> rr_revision_id = revision_uuid, rr_snapshot_sha256 = ui_expected_sha256 intent, rr_job = job \<rparr>, st', s2)))))))"

definition source_revisions :: "env \<Rightarrow> RequestContext \<Rightarrow> uuid \<Rightarrow> ('a source_db_scheme, SourceRevision list) op" where
  "source_revisions E ctx source_id s =
     tenant_scope E (tenant_of ctx) (\<lambda>s.
       Inr (sort_key (\<lambda>r. - sr_captured_at r) (filter (\<lambda>r. sr_account_id r = ctx_account_id ctx \<and>
         sr_source_id r = source_id) (t_source_revision (tables s))), s)) s"

definition citation_for_revision :: "(datetime \<Rightarrow> string) \<Rightarrow> SourceRevision \<Rightarrow> (string \<times> string) list" where
  "citation_for_revision isoformat r =
     [(''sourceId'', str_uuid (sr_source_id r)), (''revisionId'', str_uuid (sr_id r)),
      (''snapshotSha256'', sr_snapshot_sha256 r), (''capturedAt'', isoformat (sr_captured_at r)),
      (''mimeType'', (case sr_mime_type r of None \<Rightarrow> ''application/octet-stream''
        | Some m \<Rightarrow> if m = [] then ''application/octet-stream'' else m))]"

definition opt_json :: "string option \<Rightarrow> json" where
  "opt_json x = (case x of None \<Rightarrow> JNull | Some v \<Rightarrow> JStr v)"

definition processing_status :: "RequestContext \<Rightarrow> uuid \<Rightarrow> 'a core_db_scheme \<Rightarrow> dict res" where
  "processing_status ctx source_id d =
     bindr (find_source (ctx_account_id ctx) source_id d) (\<lambda>source.
     let matched_job = (case latest_job (jobs_of (ctx_account_id ctx) d) of
           None \<Rightarrow> None
         | Some j \<Rightarrow> if jget (dj_payload j) ''source_id'' = JStr (str_uuid source_id) then Some j else None)
     in Inr [(''sourceId'', JStr (str_uuid source_id)), (''processingStatus'', JStr (src_processing_status source)),
             (''jobId'', opt_json (map_option (\<lambda>j. str_uuid (dj_id j)) matched_job)),
             (''jobStatus'', opt_json (map_option dj_status matched_job)),
             (''errorCode'', opt_json (Option.bind matched_job dj_error_code))])"

definition cancel_body ::
    "env \<Rightarrow> RequestContext \<Rightarrow> Source \<Rightarrow> DurableJob option \<Rightarrow> ('a core_db_scheme, unit) op" where
  "cancel_body E ctx source job s =
     bindr (case job of None \<Rightarrow> Inr ((), s) | Some j \<Rightarrow> cancel_job E (ctx_account_id ctx) (dj_id j) s) (\<lambda>(_, s1).
     Inr ((), add (set_source_status E source SPS_CANCELLED) s1))"

definition cancel_processing :: "env \<Rightarrow> RequestContext \<Rightarrow> uuid \<Rightarrow> ('a core_db_scheme, unit) op" where
  "cancel_processing E ctx source_id s =
     bindr (find_source (ctx_account_id ctx) source_id (tables s)) (\<lambda>source.
     let newest = latest_job (filter (\<lambda>j. dj_status j \<in> set [''queued'', ''running'', ''pending''])
           (jobs_of (ctx_account_id ctx) (tables s)));
         job = (case newest of None \<Rightarrow> None
           | Some j \<Rightarrow> if jget (dj_payload j) ''source_id'' \<noteq> JStr (str_uuid source_id) then None else Some j)
     in tenant_scope E (tenant_of ctx) (cancel_body E ctx source job) s)"

text \<open>What \<open>retry_processing\<close> and \<open>reprocess_revision\<close> share: the source becomes queued, then the job is enqueued.\<close>

definition requeue ::
    "env \<Rightarrow> (uuid \<Rightarrow> (string \<times> string) list \<Rightarrow> dict) \<Rightarrow> RequestContext \<Rightarrow> Source \<Rightarrow> string \<Rightarrow> dict \<Rightarrow> string \<Rightarrow>
     ('a core_db_scheme, EnqueuedJob) op" where
  "requeue E snapshot ctx source job_type payload event_type s =
     bindr (tenant_scope E (tenant_of ctx) (\<lambda>s. Inr ((), add (set_source_status E source SPS_QUEUED) s)) s) (\<lambda>(_, s1).
     enqueue_job_with_outbox E ctx snapshot job_type (src_space_id source) payload event_type None s1)"

definition retry_processing ::
    "env \<Rightarrow> (uuid \<Rightarrow> (string \<times> string) list \<Rightarrow> dict) \<Rightarrow> RequestContext \<Rightarrow> uuid \<Rightarrow> uuid \<Rightarrow> ('a source_db_scheme, EnqueuedJob) op" where
  "retry_processing E snapshot ctx source_id revision_id s =
     bindr (find_source (ctx_account_id ctx) source_id (tables s)) (\<lambda>source.
     bindr (revision_of_source (ctx_account_id ctx) source_id revision_id (tables s)) (\<lambda>_.
     requeue E snapshot ctx source ''ingestion.parse'' (revision_payload source_id revision_id (src_space_id source))
       ''source.retry_requested'' s))"

definition reprocess_revision ::
    "env \<Rightarrow> (uuid \<Rightarrow> (string \<times> string) list \<Rightarrow> dict) \<Rightarrow> RequestContext \<Rightarrow> uuid \<Rightarrow> uuid \<Rightarrow> bool \<Rightarrow>
     ('a source_db_scheme, EnqueuedJob) op" where
  "reprocess_revision E snapshot ctx source_id revision_id shadow s =
     bindr (find_source (ctx_account_id ctx) source_id (tables s)) (\<lambda>source.
     bindr (revision_of_source (ctx_account_id ctx) source_id revision_id (tables s)) (\<lambda>_.
     requeue E snapshot ctx source ''ingestion.reprocess''
       (revision_payload source_id revision_id (src_space_id source) @ [(''shadow'', JBool shadow)])
       ''source.reprocess_requested'' s))"

section \<open>What the shared operations leave alone\<close>

text \<open>The identifiers a later part of an operation draws do not matter to the tenant context.\<close>

lemma begin_context_fresh: "memdot_begin_tenant_context (E\<lparr> fresh := f \<rparr>) = memdot_begin_tenant_context E"
  by (intro ext) (simp add: memdot_begin_tenant_context_def)

lemma apply_context_fresh: "apply_tenant_context (E\<lparr> fresh := f \<rparr>) = apply_tenant_context E"
  by (intro ext) (simp add: apply_tenant_context_def sign_tenant_context_def tenant_signing_key_def begin_context_fresh)

lemma tenant_scope_fresh: "tenant_scope (E\<lparr> fresh := f \<rparr>) = tenant_scope E"
  by (intro ext) (simp add: tenant_scope_def apply_context_fresh)

text \<open>An operation of the core tables touches no table of an extension.\<close>

lemma source_tables_more:
  fixes d d' :: "'a source_db_scheme"
  assumes "core_db.more d' = core_db.more d"
  shows "t_source_revision d' = t_source_revision d" "t_upload_intent d' = t_upload_intent d"
    "t_source_blob d' = t_source_blob d"
  using assms by (cases d; cases d'; simp)+

lemma enqueue_more:
  assumes "enqueue_job_with_outbox E ctx snap ty sp payload et k (d, []) = Inr (ej, d', ps')"
  shows "core_db.more d' = core_db.more d" "t_source d' = t_source d" "ps' = []"
proof -
  have "core_db.more d' = core_db.more d \<and> t_source d' = t_source d \<and> ps' = []"
  proof (cases "\<exists>ej. find_enqueued E (ctx_account_id ctx) ty sp payload et k d = Inr (Some ej)")
    case True
    then show ?thesis using assms by (auto simp: enqueue_job_with_outbox_def)
  next
    case False
    then have "tenant_scope E (tenant_of ctx) (enqueue_rows E ctx snap ty sp payload et k) (d, []) = Inr (ej, d', ps')"
      using assms by (auto simp: enqueue_job_with_outbox_def bindr_Inr_iff split: option.splits)
    then show ?thesis
      by (rule tenant_scope_body) (auto simp: enqueue_rows_def Let_def insert_job_def insert_outbox_def bindr_Inr_iff)
  qed
  then show "core_db.more d' = core_db.more d" "t_source d' = t_source d" "ps' = []" by simp_all
qed

lemma requeue_more:
  assumes "requeue E snap ctx source ty payload et (d, []) = Inr (ej, d', ps')"
  shows "core_db.more d' = core_db.more d" "ps' = []"
proof -
  obtain u d1 ps1 where scope: "tenant_scope E (tenant_of ctx)
      (\<lambda>s. Inr ((), add (set_source_status E source SPS_QUEUED) s)) (d, []) = Inr (u, d1, ps1)"
    and enq: "enqueue_job_with_outbox E ctx snap ty (src_space_id source) payload et None (d1, ps1) = Inr (ej, d', ps')"
    using assms by (auto simp: requeue_def bindr_Inr_iff)
  have "core_db.more d1 = core_db.more d \<and> ps1 = []"
    using scope by (rule tenant_scope_body) (auto simp: set_source_status_def bindr_Inr_iff)
  then show "core_db.more d' = core_db.more d" "ps' = []" using enqueue_more [of E ctx snap ty "src_space_id source" payload et None d1 ej d' ps'] enq
    by auto
qed

lemma create_source_more:
  assumes "create_source E ctx sp title (d, []) = Inr (r, d', ps')"
  shows "core_db.more d' = core_db.more d"
  using assms unfolding create_source_def Let_def
  by (rule tenant_scope_body) (auto simp: insert_source_def bindr_Inr_iff)

lemma cancel_processing_more:
  assumes "cancel_processing E ctx source_id (d, []) = Inr (r, d', ps')"
  shows "core_db.more d' = core_db.more d"
proof -
  obtain source job where "tenant_scope E (tenant_of ctx) (cancel_body E ctx source job) (d, []) = Inr (r, d', ps')"
    using assms unfolding cancel_processing_def Let_def bindr_Inr_iff by (elim exE conjE)
  then show ?thesis
    by (rule tenant_scope_body)
      (auto simp: cancel_body_def cancel_job_def update_job_def set_source_status_def bindr_Inr_iff split: option.splits)
qed

section \<open>What an upload writes\<close>

lemma begin_upload_Inr:
  assumes "begin_upload E S ctx st source_id filename ct n h (d, []) = Inr (r, d', ps')"
  obtains source presigned where
    "find_source (ctx_account_id ctx) source_id d = Inr source"
    "t_upload_intent d' = t_upload_intent d @ [new_intent E ctx source (fresh E 0) presigned h n (sniff_mime ct filename)]"
    "fresh E 0 \<notin> ui_id ` set (t_upload_intent d)"
    "t_source_revision d' = t_source_revision d" "t_source_blob d' = t_source_blob d"
    "n \<le> max_object_bytes INGESTION_LIMITS" "length h = 64"
proof -
  obtain source presigned where src: "find_source (ctx_account_id ctx) source_id d = Inr source"
    and le: "n \<le> max_object_bytes INGESTION_LIMITS"
    and scope: "tenant_scope E (tenant_of ctx) (\<lambda>s. Inr (\<lparr> uir_upload_id = fresh E 0, uir_upload_url = pu_url presigned,
        uir_object_key = pu_object_key presigned, uir_expires_at = pu_expires_at presigned \<rparr>,
        add (set_source_status E source SPS_UPLOAD_PENDING) (add (insert_upload_intent
          (new_intent E ctx source (fresh E 0) presigned h n (sniff_mime ct filename))) s))) (d, []) = Inr (r, d', ps')"
    using assms by (auto simp: begin_upload_def bindr_Inr_iff Let_def split: if_splits)
  show ?thesis
    using scope
    by (rule tenant_scope_body)
      (auto intro!: that [OF src _ _ _ _ le] simp: insert_upload_intent_def set_source_status_def bindr_Inr_iff new_intent_def)
qed

text \<open>\<open>record_revision\<close> in its scope: the revision is there before or is appended, and the intent is completed.\<close>

definition completed_intents :: "env \<Rightarrow> UploadIntent \<Rightarrow> UploadIntent list \<Rightarrow> UploadIntent list" where
  "completed_intents E intent = update_rows (\<lambda>r. ui_id r = ui_id intent) (\<lambda>r. r\<lparr> ui_completed_at := Some (now E) \<rparr>)"

definition revision_recorded ::
    "env \<Rightarrow> (uuid \<Rightarrow> string \<Rightarrow> uuid) \<Rightarrow> RequestContext \<Rightarrow> Source \<Rightarrow> UploadIntent \<Rightarrow> uuid \<Rightarrow> string \<Rightarrow>
     'a source_db_scheme \<Rightarrow> 'a source_db_scheme \<Rightarrow> bool" where
  "revision_recorded E uuid5 ctx source intent rid key d d' \<longleftrightarrow>
     t_upload_intent d' = completed_intents E intent (t_upload_intent d) \<and>
     t_source d' = update_rows (\<lambda>r. src_id r = src_id source)
       (\<lambda>r. r\<lparr> src_processing_status := source_status SPS_QUEUED, src_updated_at := now E \<rparr>) (t_source d) \<and>
     ((\<exists>r \<in> set (t_source_revision d). sr_account_id r = ctx_account_id ctx \<and> sr_id r = rid) \<and>
        t_source_revision d' = t_source_revision d \<and> t_source_blob d' = t_source_blob d \<or>
      t_source_revision d' = t_source_revision d @ [new_source_revision E ctx source intent rid key] \<and>
        t_source_blob d' = t_source_blob d @ [original_blob E ctx source intent rid key] \<and>
        rid = uuid5 (src_id source) (ui_expected_sha256 intent) \<and> rid \<notin> sr_id ` set (t_source_revision d))"

lemma record_revision_Inr:
  fixes d :: "'a source_db_scheme"
  assumes "tenant_scope E (tenant_of ctx) (record_revision E uuid5 ctx source intent rid key) (d, []) = Inr (u, d', ps')"
  shows "ps' = [] \<and> revision_recorded E uuid5 ctx source intent rid key d d'"
proof -
  obtain g s3 where body: "record_revision E uuid5 ctx source intent rid key (d\<lparr> settings := g \<rparr>, []) = Inr (u, s3)"
    and fl: "flush s3 = Inr (d', ps')" and ps: "ps' = []"
    using assms by (rule tenant_scope_body)
  show ?thesis
  proof (cases "filter (\<lambda>r. sr_account_id r = ctx_account_id ctx \<and> sr_id r = rid) (t_source_revision d) = []")
    case True
    then show ?thesis
      using body fl ps
      by (auto simp: record_revision_def bindr_Inr_iff insert_source_revision_def insert_source_blob_def
          set_intent_completed_def set_source_status_def completed_intents_def new_source_revision_def
          revision_recorded_def)
  next
    case False
    then obtain r where r: "scalar_one_or_none (filter (\<lambda>r. sr_account_id r = ctx_account_id ctx \<and> sr_id r = rid)
        (t_source_revision d)) = Inr (Some r)"
      using body by (auto simp: record_revision_def bindr_Inr_iff case_option_Inr_iff scalar_iffs)
    then have "r \<in> set (t_source_revision d) \<and> sr_account_id r = ctx_account_id ctx \<and> sr_id r = rid"
      using filter_singletonD [of _ "t_source_revision d" r] by (auto simp: scalar_iffs)
    then show ?thesis
      using body fl ps r
      by (auto simp: record_revision_def bindr_Inr_iff set_intent_completed_def set_source_status_def
          completed_intents_def revision_recorded_def)
  qed
qed

text \<open>How a call of \<open>complete_upload\<close> that completes an upload got there.\<close>

lemma complete_upload_first:
  fixes d :: "'a source_db_scheme"
  assumes "complete_upload E uuid5 S snap ctx source_id upload_id st (d, []) = Inr (r, st', d', ps')"
    and "scalar_one (filter (\<lambda>r. ui_account_id r = ctx_account_id ctx \<and> ui_id r = upload_id \<and>
       ui_source_id r = source_id) (t_upload_intent d)) = Inr intent"
    and "ui_completed_at intent = None"
  obtains source key meta d1 where
    "find_source (ctx_account_id ctx) source_id d = Inr source"
    "storage_verify S st (ui_object_key intent) (ctx_account_id ctx) (ui_expected_sha256 intent)
       (ui_expected_byte_count intent) = Inr meta"
    "store_original S ctx source intent st = Inr (key, st')"
    "revision_recorded E uuid5 ctx source intent (uuid5 source_id (ui_expected_sha256 intent)) key d d1"
    "enqueue_job_with_outbox (E\<lparr> fresh := \<lambda>k. fresh E (k + 1) \<rparr>) ctx snap ''ingestion.parse''
       (src_space_id source) (revision_payload source_id (uuid5 source_id (ui_expected_sha256 intent)) (src_space_id source))
       ''source.upload_completed'' (Some (''upload-complete:'' @ str_uuid upload_id)) (d1, []) = Inr (rr_job r, d', ps')"
    "rr_revision_id r = uuid5 source_id (ui_expected_sha256 intent)"
    "rr_snapshot_sha256 r = ui_expected_sha256 intent"
proof -
  obtain source key meta u d1 ps1 job where a: "find_source (ctx_account_id ctx) source_id d = Inr source"
    "storage_verify S st (ui_object_key intent) (ctx_account_id ctx) (ui_expected_sha256 intent)
       (ui_expected_byte_count intent) = Inr meta"
    "store_original S ctx source intent st = Inr (key, st')"
    and scope: "tenant_scope E (tenant_of ctx) (record_revision E uuid5 ctx source intent
       (uuid5 source_id (ui_expected_sha256 intent)) key) (d, []) = Inr (u, d1, ps1)"
    and enq: "enqueue_job_with_outbox (E\<lparr> fresh := \<lambda>k. fresh E (k + 1) \<rparr>) ctx snap ''ingestion.parse''
       (src_space_id source) (revision_payload source_id (uuid5 source_id (ui_expected_sha256 intent)) (src_space_id source))
       ''source.upload_completed'' (Some (''upload-complete:'' @ str_uuid upload_id)) (d1, ps1) = Inr (job, d', ps')"
    and r: "r = \<lparr> rr_revision_id = uuid5 source_id (ui_expected_sha256 intent),
      rr_snapshot_sha256 = ui_expected_sha256 intent, rr_job = job \<rparr>"
    using assms by (auto simp: complete_upload_def source_revision_id_def bindr_Inr_iff Let_def)
  note rec = record_revision_Inr [OF scope]
  show ?thesis by (rule that [OF a, of d1]) (use rec enq r in auto)
qed

section \<open>Histories of the service\<close>

text \<open>
  A state is the database and the object storage. Any caller with any clock and any fresh identifiers may call any
  operation, and clients put objects into storage at any time. \<open>K\<close> holds the pairs of source and announced digest
  that occur; the identifiers of revisions are told apart by \<open>uuid5\<close> as long as it does not collide on \<open>K\<close>.
\<close>

inductive source_step ::
    "(uuid \<Rightarrow> string \<Rightarrow> uuid) \<Rightarrow> (uuid \<times> string) set \<Rightarrow> 'a source_db_scheme \<times> 'b storage \<Rightarrow>
     'a source_db_scheme \<times> 'b storage \<Rightarrow> bool"
  for uuid5 :: "uuid \<Rightarrow> string \<Rightarrow> uuid" and K :: "(uuid \<times> string) set" where
  create: "create_source E ctx sp title (d, []) = Inr (r, d', ps) \<Longrightarrow> source_step uuid5 K (d, st) (d', st)"
| announce: "begin_upload E S ctx st sid filename ct n h (d, []) = Inr (r, d', ps) \<Longrightarrow> (sid, h) \<in> K \<Longrightarrow>
    source_step uuid5 K (d, st) (d', st)"
| put: "source_step uuid5 K (d, st) (d, st')"
| complete: "complete_upload E uuid5 S snap ctx sid uid st (d, []) = Inr (r, st', d', ps) \<Longrightarrow>
    source_step uuid5 K (d, st) (d', st')"
| cancel: "cancel_processing E ctx sid (d, []) = Inr (u, d', ps) \<Longrightarrow> source_step uuid5 K (d, st) (d', st)"
| retry: "retry_processing E snap ctx sid rid (d, []) = Inr (j, d', ps) \<Longrightarrow> source_step uuid5 K (d, st) (d', st)"
| reprocess: "reprocess_revision E snap ctx sid rid sh (d, []) = Inr (j, d', ps) \<Longrightarrow> source_step uuid5 K (d, st) (d', st)"

definition intent_honoured :: "SourceRevision list \<Rightarrow> UploadIntent \<Rightarrow> bool" where
  "intent_honoured rs i \<longleftrightarrow> ui_completed_at i = None \<or>
     (\<exists>r \<in> set rs. sr_account_id r = ui_account_id i \<and> sr_source_id r = ui_source_id i \<and>
        sr_snapshot_sha256 r = ui_expected_sha256 i)"

definition uploads_ok :: "(uuid \<Rightarrow> string \<Rightarrow> uuid) \<Rightarrow> (uuid \<times> string) set \<Rightarrow> 'a source_db_scheme \<Rightarrow> bool" where
  "uploads_ok uuid5 K d \<longleftrightarrow>
     distinct (map sr_id (t_source_revision d)) \<and> distinct (map ui_id (t_upload_intent d)) \<and>
     (\<forall>r \<in> set (t_source_revision d). sr_id r = uuid5 (sr_source_id r) (sr_snapshot_sha256 r) \<and>
        (sr_source_id r, sr_snapshot_sha256 r) \<in> K) \<and>
     (\<forall>i \<in> set (t_upload_intent d). (ui_source_id i, ui_expected_sha256 i) \<in> K \<and>
        intent_honoured (t_source_revision d) i)"

lemma uploads_ok_cong:
  fixes d d' :: "'a source_db_scheme"
  assumes "core_db.more d' = core_db.more d"
  shows "uploads_ok uuid5 K d' = uploads_ok uuid5 K d"
  using source_tables_more [OF assms] by (simp add: uploads_ok_def)

lemma find_source_id: "find_source a i d = Inr source \<Longrightarrow> src_id source = i \<and> src_account_id source = a"
  by (auto simp: find_source_def scalar_iffs dest: filter_singletonD)

lemma intent_honoured_append: "intent_honoured rs i \<Longrightarrow> intent_honoured (rs @ qs) i"
  by (auto simp: intent_honoured_def)

lemma begin_upload_ok:
  assumes "begin_upload E S ctx st sid filename ct n h (d, []) = Inr (r, d', ps)" and "(sid, h) \<in> K"
    and "uploads_ok uuid5 K d"
  shows "uploads_ok uuid5 K d'"
  using assms(1)
proof (rule begin_upload_Inr)
  fix source presigned
  assume "find_source (ctx_account_id ctx) sid d = Inr source"
    and "t_upload_intent d' = t_upload_intent d @ [new_intent E ctx source (fresh E 0) presigned h n (sniff_mime ct filename)]"
    and "fresh E 0 \<notin> ui_id ` set (t_upload_intent d)" and "t_source_revision d' = t_source_revision d"
  then show ?thesis
    using assms(2,3) by (auto simp: uploads_ok_def new_intent_def intent_honoured_def dest: find_source_id)
qed

lemma recorded_honours:
  assumes "revision_recorded E uuid5 ctx source intent (uuid5 (src_id source) (ui_expected_sha256 intent)) key d d1"
    and "uploads_ok uuid5 K d" and "inj_on (\<lambda>(s, h). uuid5 s h) K" and "intent \<in> set (t_upload_intent d)"
    and "ui_source_id intent = src_id source" and "ui_account_id intent = ctx_account_id ctx"
  shows "\<exists>r \<in> set (t_source_revision d1). sr_account_id r = ui_account_id intent \<and>
    sr_source_id r = ui_source_id intent \<and> sr_snapshot_sha256 r = ui_expected_sha256 intent"
proof -
  let ?rid = "uuid5 (src_id source) (ui_expected_sha256 intent)"
  have inK: "(src_id source, ui_expected_sha256 intent) \<in> K"
    using assms(2,4,5) by (auto simp: uploads_ok_def)
  consider (old) r where "r \<in> set (t_source_revision d)" "sr_account_id r = ctx_account_id ctx" "sr_id r = ?rid"
      "t_source_revision d1 = t_source_revision d"
    | (new) "t_source_revision d1 = t_source_revision d @ [new_source_revision E ctx source intent ?rid key]"
    using assms(1) by (auto simp: revision_recorded_def)
  then show ?thesis
  proof cases
    case old
    then have "(sr_source_id r, sr_snapshot_sha256 r) \<in> K" "uuid5 (sr_source_id r) (sr_snapshot_sha256 r) = ?rid"
      using assms(2) by (auto simp: uploads_ok_def)
    then have "(sr_source_id r, sr_snapshot_sha256 r) = (src_id source, ui_expected_sha256 intent)"
      using inj_onD [OF assms(3)] inK by fastforce
    then show ?thesis using old assms(5,6) by auto
  next
    case new
    then show ?thesis using assms(5,6) by (simp add: new_source_revision_def)
  qed
qed

lemma recorded_ok:
  assumes "revision_recorded E uuid5 ctx source intent (uuid5 (src_id source) (ui_expected_sha256 intent)) key d d1"
    and "uploads_ok uuid5 K d" and "inj_on (\<lambda>(s, h). uuid5 s h) K" and "intent \<in> set (t_upload_intent d)"
    and "ui_source_id intent = src_id source" and "ui_account_id intent = ctx_account_id ctx"
  shows "uploads_ok uuid5 K d1"
proof -
  note honour = recorded_honours [OF assms]
  have inK: "(src_id source, ui_expected_sha256 intent) \<in> K"
    using assms(2,4,5) by (auto simp: uploads_ok_def)
  have revs: "distinct (map sr_id (t_source_revision d1)) \<and>
      (\<forall>r \<in> set (t_source_revision d1). sr_id r = uuid5 (sr_source_id r) (sr_snapshot_sha256 r) \<and>
        (sr_source_id r, sr_snapshot_sha256 r) \<in> K) \<and> (\<exists>qs. t_source_revision d1 = t_source_revision d @ qs)"
    using assms(1,2) inK by (auto simp: revision_recorded_def uploads_ok_def new_source_revision_def)
  have ints: "t_upload_intent d1 = completed_intents E intent (t_upload_intent d)"
    using assms(1) by (simp add: revision_recorded_def)
  have one: "j = intent" if "j \<in> set (t_upload_intent d)" "ui_id j = ui_id intent" for j
    using that assms(2,4) by (auto simp: uploads_ok_def distinct_map dest: inj_onD)
  have "(ui_source_id i, ui_expected_sha256 i) \<in> K \<and> intent_honoured (t_source_revision d1) i"
    if i: "i \<in> set (t_upload_intent d1)" for i
  proof -
    obtain j where j: "j \<in> set (t_upload_intent d)"
      "i = (if ui_id j = ui_id intent then j\<lparr> ui_completed_at := Some (now E) \<rparr> else j)"
      using i by (auto simp: ints completed_intents_def set_update_rows)
    show ?thesis
    proof (cases "ui_id j = ui_id intent")
      case True
      then have "i = intent\<lparr> ui_completed_at := Some (now E) \<rparr>" using j one by auto
      then show ?thesis using honour inK assms(5) by (simp add: intent_honoured_def)
    next
      case False
      then show ?thesis
        using j revs assms(2) intent_honoured_append by (fastforce simp: uploads_ok_def)
    qed
  qed
  moreover have "map ui_id (t_upload_intent d1) = map ui_id (t_upload_intent d)"
    by (simp add: ints completed_intents_def map_update_rows)
  ultimately show ?thesis
    using revs assms(2) by (simp add: uploads_ok_def)
qed

lemma intent_found:
  assumes "scalar_one (filter (\<lambda>r. ui_account_id r = a \<and> ui_id r = i \<and> ui_source_id r = s) is) = Inr intent"
  shows "intent \<in> set is" "ui_account_id intent = a" "ui_id intent = i" "ui_source_id intent = s"
  using assms by (auto simp: scalar_iffs dest: filter_singletonD)

lemma complete_upload_Inr:
  assumes "complete_upload E uuid5 S snap ctx sid uid st (d, []) = Inr (r, st', d', ps)"
  obtains intent where
    "scalar_one (filter (\<lambda>r. ui_account_id r = ctx_account_id ctx \<and> ui_id r = uid \<and> ui_source_id r = sid)
       (t_upload_intent d)) = Inr intent"
    "ui_completed_at intent \<noteq> None \<Longrightarrow> d' = d \<and> st' = st \<and> replay_upload E ctx sid intent d = Inr r"
proof -
  obtain source intent where i: "scalar_one (filter (\<lambda>r. ui_account_id r = ctx_account_id ctx \<and> ui_id r = uid \<and>
      ui_source_id r = sid) (t_upload_intent d)) = Inr intent"
    and src: "find_source (ctx_account_id ctx) sid d = Inr source"
    using assms by (auto simp: complete_upload_def bindr_Inr_iff)
  show ?thesis
    by (rule that [OF i]) (use assms i src in \<open>auto simp: complete_upload_def bindr_Inr_iff\<close>)
qed

lemma complete_upload_ok:
  assumes "complete_upload E uuid5 S snap ctx sid uid st (d, []) = Inr (r, st', d', ps)"
    and "uploads_ok uuid5 K d" and "inj_on (\<lambda>(s, h). uuid5 s h) K"
  shows "uploads_ok uuid5 K d'"
  using assms(1)
proof (rule complete_upload_Inr)
  fix intent
  assume i: "scalar_one (filter (\<lambda>r. ui_account_id r = ctx_account_id ctx \<and> ui_id r = uid \<and> ui_source_id r = sid)
       (t_upload_intent d)) = Inr intent"
    and again: "ui_completed_at intent \<noteq> None \<Longrightarrow> d' = d \<and> st' = st \<and> replay_upload E ctx sid intent d = Inr r"
  note f = intent_found [OF i]
  show ?thesis
  proof (cases "ui_completed_at intent = None")
    case True
    show ?thesis
      using assms(1) i True
    proof (rule complete_upload_first)
      fix source key d1
      assume src: "find_source (ctx_account_id ctx) sid d = Inr source"
        and rec: "revision_recorded E uuid5 ctx source intent (uuid5 sid (ui_expected_sha256 intent)) key d d1"
        and enq: "enqueue_job_with_outbox (E\<lparr> fresh := \<lambda>k. fresh E (k + 1) \<rparr>) ctx snap ''ingestion.parse''
          (src_space_id source) (revision_payload sid (uuid5 sid (ui_expected_sha256 intent)) (src_space_id source))
          ''source.upload_completed'' (Some (''upload-complete:'' @ str_uuid uid)) (d1, []) = Inr (rr_job r, d', ps)"
      have "uploads_ok uuid5 K d1"
        using find_source_id [OF src] rec f assms(2,3) by (intro recorded_ok [of E uuid5 ctx source intent key d d1 K]) auto
      then show ?thesis using uploads_ok_cong [OF enqueue_more(1) [OF enq]] by simp
    qed
  next
    case False
    then show ?thesis using again assms(2) by simp
  qed
qed

lemma source_step_ok:
  assumes "source_step uuid5 K w w'" and "uploads_ok uuid5 K (fst w)" and "inj_on (\<lambda>(s, h). uuid5 s h) K"
  shows "uploads_ok uuid5 K (fst w')"
  using assms(1)
proof cases
  case (create E ctx sp title d r d' ps st)
  then show ?thesis using assms(2) uploads_ok_cong [OF create_source_more] by fastforce
next
  case (announce E S ctx st sid filename ct n h d r d' ps)
  then show ?thesis using assms(2) begin_upload_ok by fastforce
next
  case (put d st st')
  then show ?thesis using assms(2) by simp
next
  case (complete E S snap ctx sid uid st d r st' d' ps)
  then show ?thesis using assms(2,3) complete_upload_ok by fastforce
next
  case (cancel E ctx sid d u d' ps st)
  then show ?thesis using assms(2) uploads_ok_cong [OF cancel_processing_more] by fastforce
next
  case (retry E snap ctx sid rid d j d' ps st)
  then obtain source where "requeue E snap ctx source ''ingestion.parse''
      (revision_payload sid rid (src_space_id source)) ''source.retry_requested'' (d, []) = Inr (j, d', ps)"
    by (auto simp: retry_processing_def bindr_Inr_iff)
  then show ?thesis using assms(2) retry uploads_ok_cong [OF requeue_more(1)] by fastforce
next
  case (reprocess E snap ctx sid rid sh d j d' ps st)
  then obtain source where "requeue E snap ctx source ''ingestion.reprocess''
      (revision_payload sid rid (src_space_id source) @ [(''shadow'', JBool sh)]) ''source.reprocess_requested'' (d, []) =
      Inr (j, d', ps)"
    by (auto simp: reprocess_revision_def bindr_Inr_iff)
  then show ?thesis using assms(2) reprocess uploads_ok_cong [OF requeue_more(1)] by fastforce
qed

lemma source_steps_ok:
  assumes "(source_step uuid5 K)\<^sup>*\<^sup>* w w'" and "uploads_ok uuid5 K (fst w)" and "inj_on (\<lambda>(s, h). uuid5 s h) K"
  shows "uploads_ok uuid5 K (fst w')"
  using assms(1,2) by (induction rule: rtranclp_induct) (auto intro: source_step_ok [OF _ _ assms(3)])

section \<open>Verified content\<close>

lemma filter_is_row:
  assumes "distinct (map key rows)" and "x \<in> set rows" and "P x" and "\<And>r. r \<in> set rows \<Longrightarrow> P r \<Longrightarrow> key r = key x"
  shows "filter P rows = [x]"
proof -
  have "P r \<longleftrightarrow> key r = key x" if "r \<in> set rows" for r
    using that assms(2-4) inj_onD [of key "set rows" r x] assms(1) unfolding distinct_map by metis
  then have "filter P rows = filter (\<lambda>r. key r = key x) rows" by (rule filter_cong [OF refl])
  also have "\<dots> = [x]" using assms(1,2) by (intro filter_unique) auto
  finally show ?thesis .
qed

lemma verified_readable:
  assumes "storage_verify S st key acct h n = Inr meta" and "s3_faithful (se_client S)"
  shows "\<exists>data. storage_read S st key acct = Inr data \<and> int (length data) = n \<and>
    py_lower (som_sha256 meta) = py_lower h"
proof (cases st)
  case (MemoryObjectStorage objs)
  then show ?thesis
    using assms(1) memory_storage.verify_exact [of "se_sha S" objs key acct h n meta]
    by (auto simp: storage_verify_def storage_read_def)
next
  case (S3ObjectStorage b)
  then show ?thesis
    using assms(1) object_storage.verify_exact [OF s3_object_storage [OF assms(2)], of "se_sha S" b key acct h n meta]
    by (auto simp: storage_verify_def storage_read_def)
qed

lemma store_original_copies:
  assumes "store_original S ctx source intent st = Inr (key, st')" and "s3_faithful (se_client S)"
    and "storage_read S st (ui_object_key intent) (ctx_account_id ctx) = Inr data"
  shows "build_object_key (original_parts ctx source intent) = Inr key \<and>
    storage_read S st' key (ctx_account_id ctx) = Inr data"
proof (cases st)
  case (MemoryObjectStorage objs)
  then show ?thesis
    using assms(1,3) by (auto simp: store_original_def storage_read_def bindr_Inr_iff intro: mem_put_read)
next
  case (S3ObjectStorage b)
  then obtain meta b' where p: "s3_promote_from_quarantine (se_sha S) (se_client S) b (ui_object_key intent)
      (original_parts ctx source intent) (ctx_account_id ctx) = Inr (meta, b')" "key = som_object_key meta"
      "st' = S3ObjectStorage b'"
    using assms(1) by (auto simp: store_original_def storage_promote_def bindr_Inr_iff)
  then show ?thesis
    using object_storage.promote_copies [OF s3_object_storage [OF assms(2)] p(1), of data] assms(3) S3ObjectStorage
    by (auto simp: storage_read_def)
qed

text \<open>The job and the event that an enqueueing returns are in the tables.\<close>

lemma enqueue_present:
  assumes "enqueue_job_with_outbox E ctx snap ty sp payload et key (d, []) = Inr (ej, d', ps')"
  shows "\<exists>j \<in> set (t_job d'). dj_id j = ej_job_id ej \<and> dj_account_id j = ctx_account_id ctx \<and> dj_job_type j = ty \<and>
    (\<exists>e \<in> set (t_outbox d'). oe_id e = ej_outbox_event_id ej \<and> oe_event_type e = et \<and>
       oe_durable_job_id e = Some (dj_id j))"
proof (cases "find_enqueued E (ctx_account_id ctx) ty sp payload et key d = Inr None")
  case True
  show ?thesis using enqueue_new [OF assms True] by (auto simp: job_row_def outbox_event_def)
next
  case False
  then have found: "find_enqueued E (ctx_account_id ctx) ty sp payload et key d = Inr (Some ej)" and d: "d' = d"
    using assms by (auto simp: enqueue_job_with_outbox_def bindr_Inr_iff split: option.splits)
  then obtain j e where "jobs_with_key (ctx_account_id ctx) (the key) d = [j]" "dj_job_type j = ty"
    "events_of_job (ctx_account_id ctx) (dj_id j) et d = [e]"
    and ej: "ej = \<lparr> ej_job_id = dj_id j, ej_outbox_event_id = oe_id e \<rparr>"
    by (auto simp: find_enqueued_def bindr_Inr_iff scalar_iffs split: if_splits option.splits)
  then show ?thesis
    using filter_singletonD [of _ "t_job d" j] filter_singletonD [of _ "t_outbox d" e]
    by (auto simp: d jobs_with_key_def events_of_job_def)
qed


section \<open>A concrete upload\<close>

definition demo_client :: "(string \<rightharpoonup> string) s3_client" where
  "demo_client =
     \<lparr> s3_put_url = (\<lambda>k ct n m t. Inr k), s3_get_url = (\<lambda>k t. Inr k),
       s3_head = (\<lambda>b k. case b k of None \<Rightarrow> Inl (KeyError k)
         | Some x \<Rightarrow> Inr \<lparr> s3h_metadata = None, s3h_content_length = int (length x), s3h_content_type = None \<rparr>),
       s3_copy = (\<lambda>a k b. case b a of None \<Rightarrow> Inl (KeyError a) | Some x \<Rightarrow> Inr (b(k \<mapsto> x))),
       s3_get = (\<lambda>b k. case b k of None \<Rightarrow> Inl (KeyError k) | Some x \<Rightarrow> Inr x) \<rparr>"

lemma demo_client_faithful: "s3_faithful demo_client"
  by (auto simp: s3_faithful_def demo_client_def split: option.splits)

definition demo_storage_env :: "(string \<rightharpoonup> string) storage_env" where
  "demo_storage_env = \<lparr> se_client = demo_client, se_sha = (\<lambda>s. s), se_now = 1000000 \<rparr>"

definition demo_digest :: string where
  "demo_digest = replicate 64 (CHR ''a'')"

definition demo_source :: Source where
  "demo_source =
     \<lparr> src_id = 30, src_account_id = 1, src_space_id = 5, src_title = ''notes'',
       src_processing_status = ''upload_pending'', src_created_at = 0, src_updated_at = 0 \<rparr>"

definition demo_key :: string where
  "demo_key = ''accounts'' @ CHR ''/'' # str_uuid 1 @ CHR ''/'' # ''notes''"

definition demo_intent :: UploadIntent where
  "demo_intent =
     \<lparr> ui_id = 31, ui_account_id = 1, ui_space_id = 5, ui_source_id = 30, ui_object_key = demo_key,
       ui_expected_sha256 = demo_digest, ui_expected_byte_count = 4, ui_content_type = ''text/plain'',
       ui_expires_at = 900, ui_completed_at = None, ui_created_at = 0 \<rparr>"

lemma demo_intent_sel [simp]:
  "ui_object_key demo_intent = demo_key" "ui_expected_sha256 demo_intent = demo_digest"
  "ui_content_type demo_intent = ''text/plain''" "ui_expected_byte_count demo_intent = 4"
  "ui_completed_at demo_intent = None" "ui_id demo_intent = 31" "ui_account_id demo_intent = 1" "ui_source_id demo_intent = 30"
  by (simp_all add: demo_intent_def)

definition demo_uploads :: source_db where
  "demo_uploads = core_db.extend (demo_core\<lparr> t_source := [demo_source] \<rparr>)
     \<lparr> t_source_revision = [], t_source_blob = [], t_upload_intent = [demo_intent] \<rparr>"

lemma demo_uploads_actors: "t_actor demo_uploads = t_actor demo_core" "t_account_member demo_uploads = t_account_member demo_core"
  by (simp_all add: demo_uploads_def core_db.defs)

definition demo_objects :: memory_objects where
  "demo_objects = [demo_key \<mapsto> (''data'', ''text/plain'', [(''sha256'', demo_digest)])]"

lemma demo_key_bound: "assert_key_account_binding demo_key 1 = Inr ()"
proof -
  have "\<not> py_in ''..'' demo_key" by (rule no_dot) (simp add: demo_key_def str_uuid_no_dot)
  then show ?thesis
    by (simp add: assert_key_account_binding_def starts_with_iff prefix_def demo_key_def del: py_in.simps)
qed

lemma demo_last_segment: "last_segment demo_key = ''notes''"
proof -
  have "CHR ''/'' \<notin> set (str_uuid 1)" using set_str_uuid [of 1] hex32_chars [of "CHR ''/''" 1] by auto
  then have "py_split (CHR ''/'') (str_uuid 1 @ CHR ''/'' # ''notes'') = str_uuid 1 # py_split (CHR ''/'') ''notes''"
    by (rule py_split_append)
  then show ?thesis by (simp add: last_segment_def demo_key_def)
qed

lemma demo_original_key:
  "\<exists>key. build_object_key (original_parts demo_ctx demo_source demo_intent) = Inr key \<and>
     assert_key_account_binding key 1 = Inr ()"
proof -
  let ?p = "original_parts demo_ctx demo_source demo_intent"
  have n: "okp_filename ?p = ''notes''" by (simp add: original_parts_def demo_intent_def demo_last_segment)
  have "\<not> py_in ''..'' ''notes''" by (rule no_dot) simp
  then obtain key where key: "build_object_key ?p = Inr key"
    by (simp add: build_object_key_def n starts_with_def del: py_in.simps)
  moreover have "assert_key_account_binding key 1 = Inr ()"
    using key_prefix [OF key, of 1] key_no_dots [OF key]
    by (simp add: assert_key_account_binding_def original_parts_def del: py_in.simps)
  ultimately show ?thesis by blast
qed

lemma demo_complete:
  "\<exists>r st' d'. complete_upload demo_env (\<lambda>_ _. 77) demo_storage_env (\<lambda>_ _. []) demo_ctx 30 31
     (MemoryObjectStorage demo_objects) (demo_uploads, []) = Inr (r, st', d', []) \<and>
     t_upload_intent d' = [demo_intent\<lparr> ui_completed_at := Some 1000000 \<rparr>] \<and> map sr_id (t_source_revision d') = [77] \<and>
     length (t_source d') = 1 \<and> find_source 1 30 d' = Inr (hd (t_source d'))"
proof -
  obtain key where key: "build_object_key (original_parts demo_ctx demo_source demo_intent) = Inr key"
    "assert_key_account_binding key 1 = Inr ()"
    using demo_original_key by blast
  define st' :: "(string \<rightharpoonup> string) storage" where "st' = MemoryObjectStorage (demo_objects(key \<mapsto> (''data'', ''text/plain'', [(''sha256'', demo_digest)])))"
  have src: "find_source 1 30 demo_uploads = Inr demo_source"
    by (simp add: find_source_def demo_uploads_def core_db.defs demo_source_def demo_core_def)
  have intent: "filter (\<lambda>r. ui_account_id r = 1 \<and> ui_id r = 31 \<and> ui_source_id r = 30) (t_upload_intent demo_uploads) = [demo_intent]"
    by (simp add: demo_uploads_def core_db.defs)
  have verify: "storage_verify demo_storage_env (MemoryObjectStorage demo_objects) demo_key 1 demo_digest 4 =
      Inr \<lparr> som_object_key = demo_key, som_byte_count = 4, som_sha256 = demo_digest, som_content_type = Some ''text/plain'' \<rparr>"
    by (simp add: storage_verify_def mem_verify_upload_completion_def mem_head_object_def demo_key_bound lookup_object_def
        demo_objects_def)
  have store: "store_original demo_storage_env demo_ctx demo_source demo_intent (MemoryObjectStorage demo_objects) = Inr (key, st')"
    by (simp add: store_original_def key mem_head_object_def mem_read_object_bytes_def demo_key_bound lookup_object_def
        demo_objects_def mem_put_bytes_def st'_def)
  define body :: "(source_db, unit) op" where
    "body = record_revision demo_env (\<lambda>_ _. 77) demo_ctx demo_source demo_intent 77 key"
  obtain g where sc: "tenant_scope demo_env demo_tenant body (demo_uploads, []) =
      bindr (body (demo_uploads\<lparr> settings := g \<rparr>, [])) (\<lambda>(r, s3). bindr (flush s3) (\<lambda>s4. Inr (r, s4)))"
    by (rule demo_scope) (rule demo_uploads_actors)+
  obtain d1 where d1: "tenant_scope demo_env demo_tenant body (demo_uploads, []) = Inr ((), d1, [])"
    and t1: "t_upload_intent d1 = [demo_intent\<lparr> ui_completed_at := Some 1000000 \<rparr>]" "map sr_id (t_source_revision d1) = [77]"
      "t_source d1 = [demo_source\<lparr> src_processing_status := source_status SPS_QUEUED, src_updated_at := 1000000 \<rparr>]"
      "t_actor d1 = t_actor demo_core" "t_account_member d1 = t_account_member demo_core" "t_job d1 = []" "t_outbox d1 = []"
    unfolding sc
    by (simp add: body_def record_revision_def demo_uploads_def core_db.defs demo_core_def insert_source_revision_def
        insert_source_blob_def new_source_revision_def original_blob_def unique_key_def foreign_key_def demo_source_def
        demo_intent_def demo_digest_def set_intent_completed_def set_source_status_def update_rows_def pending_gate_def)
  define E1 where "E1 = demo_env\<lparr> fresh := \<lambda>k. fresh demo_env (k + 1) \<rparr>"
  define payload where "payload = revision_payload 30 77 5"
  define rows :: "(source_db, EnqueuedJob) op" where
    "rows = enqueue_rows E1 demo_ctx (\<lambda>_ _. []) ''ingestion.parse'' 5 payload ''source.upload_completed''
      (Some (''upload-complete:'' @ str_uuid 31))"
  have same: "tenant_scope E1 demo_tenant rows = tenant_scope demo_env demo_tenant rows"
    by (simp add: E1_def tenant_scope_fresh)
  obtain g2 where sc2: "tenant_scope demo_env demo_tenant rows (d1, []) =
      bindr (rows (d1\<lparr> settings := g2 \<rparr>, [])) (\<lambda>(r, s3). bindr (flush s3) (\<lambda>s4. Inr (r, s4)))"
    by (rule demo_scope [OF t1(4,5)])
  obtain ej d2 where d2: "tenant_scope E1 demo_tenant rows (d1, []) = Inr (ej, d2, [])"
    unfolding same sc2
    by (simp add: rows_def enqueue_rows_def Let_def insert_job_def insert_outbox_def unique_key_def foreign_key_def
        check_in_def JOB_STATUSES_def job_row_def outbox_event_def t1 E1_def)
  have none: "find_enqueued E1 1 ''ingestion.parse'' 5 payload ''source.upload_completed''
      (Some (''upload-complete:'' @ str_uuid 31)) d1 = Inr None"
    by (simp add: find_enqueued_def jobs_with_key_def t1)
  have enq: "enqueue_job_with_outbox E1 demo_ctx (\<lambda>_ _. []) ''ingestion.parse'' 5 payload ''source.upload_completed''
      (Some (''upload-complete:'' @ str_uuid 31)) (d1, []) = Inr (ej, d2, [])"
    using none d2 by (simp add: enqueue_job_with_outbox_def rows_def)
  have "complete_upload demo_env (\<lambda>_ _. 77) demo_storage_env (\<lambda>_ _. []) demo_ctx 30 31
      (MemoryObjectStorage demo_objects) (demo_uploads, []) =
      Inr (\<lparr> rr_revision_id = 77, rr_snapshot_sha256 = demo_digest, rr_job = ej \<rparr>, st', d2, [])"
    using src intent verify store d1 enq
    by (simp add: complete_upload_def source_revision_id_def Let_def body_def E1_def payload_def)
      (simp add: demo_source_def Let_def)
  moreover have "t_upload_intent d2 = [demo_intent\<lparr> ui_completed_at := Some 1000000 \<rparr>]" "map sr_id (t_source_revision d2) = [77]"
    "t_source d2 = t_source d1"
    using source_tables_more [OF enqueue_more(1) [OF enq]] enqueue_more(2) [OF enq] t1 by simp_all
  ultimately show ?thesis by (auto simp: find_source_def t1 demo_source_def)
qed

section \<open>Properties\<close>

text \<open>
  (C24) A completed upload is what was announced, in either storage: the call that completes an upload has found, at the
  upload's own key of the caller's account, an object of the announced length; the same bytes are readable afterwards
  at the final key; the revision for source and digest is in the database under its deterministic identifier, with
  that key and length when this call wrote it; no earlier revision has changed; the source is queued; and the
  returned job and its event are recorded.
\<close>

theorem completed_upload_verified:
  fixes d :: "'a source_db_scheme"
  assumes "complete_upload E uuid5 S snap ctx sid uid st (d, []) = Inr (r, st', d', ps')"
    and "t_upload_intent d = is @ intent # is'" and "ui_id intent = uid" and "ui_completed_at intent = None"
    and "uploads_ok uuid5 K d" and "inj_on (\<lambda>(s, h). uuid5 s h) K" and "s3_faithful (se_client S)"
  shows "\<exists>key data rev. storage_read S st (ui_object_key intent) (ctx_account_id ctx) = Inr data \<and>
    int (length data) = ui_expected_byte_count intent \<and> storage_read S st' key (ctx_account_id ctx) = Inr data \<and>
    rev \<in> set (t_source_revision d') \<and> sr_id rev = rr_revision_id r \<and> sr_id rev = uuid5 sid (ui_expected_sha256 intent) \<and>
    sr_account_id rev = ctx_account_id ctx \<and> sr_source_id rev = sid \<and> sr_snapshot_sha256 rev = ui_expected_sha256 intent \<and>
    (rev \<in> set (t_source_revision d) \<or> sr_object_key rev = Some key \<and> sr_byte_count rev = Some (int (length data))) \<and>
    prefix (t_source_revision d) (t_source_revision d') \<and>
    (\<forall>x \<in> set (t_source d'). src_id x = sid \<longrightarrow> src_processing_status x = ''queued'') \<and>
    (\<exists>j \<in> set (t_job d'). dj_id j = ej_job_id (rr_job r) \<and> dj_job_type j = ''ingestion.parse'' \<and>
      (\<exists>e \<in> set (t_outbox d'). oe_id e = ej_outbox_event_id (rr_job r) \<and> oe_durable_job_id e = Some (dj_id j)))"
proof -
  obtain i0 where i0: "scalar_one (filter (\<lambda>r. ui_account_id r = ctx_account_id ctx \<and> ui_id r = uid \<and> ui_source_id r = sid)
      (t_upload_intent d)) = Inr i0"
    using assms(1) by (rule complete_upload_Inr)
  note f = intent_found [OF i0]
  have "i0 = intent"
    using f assms(2,3,5) by (auto simp: uploads_ok_def distinct_map dest: inj_onD)
  then have i: "scalar_one (filter (\<lambda>r. ui_account_id r = ctx_account_id ctx \<and> ui_id r = uid \<and> ui_source_id r = sid)
      (t_upload_intent d)) = Inr intent" using i0 by simp
  note f = intent_found [OF i]
  obtain source key meta d1 where src: "find_source (ctx_account_id ctx) sid d = Inr source"
    and ver: "storage_verify S st (ui_object_key intent) (ctx_account_id ctx) (ui_expected_sha256 intent)
       (ui_expected_byte_count intent) = Inr meta"
    and store: "store_original S ctx source intent st = Inr (key, st')"
    and rec: "revision_recorded E uuid5 ctx source intent (uuid5 sid (ui_expected_sha256 intent)) key d d1"
    and enq: "enqueue_job_with_outbox (E\<lparr> fresh := \<lambda>k. fresh E (k + 1) \<rparr>) ctx snap ''ingestion.parse''
       (src_space_id source) (revision_payload sid (uuid5 sid (ui_expected_sha256 intent)) (src_space_id source))
       ''source.upload_completed'' (Some (''upload-complete:'' @ str_uuid uid)) (d1, []) = Inr (rr_job r, d', ps')"
    and r: "rr_revision_id r = uuid5 sid (ui_expected_sha256 intent)"
    using assms(1) i assms(4) by (rule complete_upload_first)
  obtain data where data: "storage_read S st (ui_object_key intent) (ctx_account_id ctx) = Inr data"
    "int (length data) = ui_expected_byte_count intent"
    using verified_readable [OF ver assms(7)] by blast
  have copied: "storage_read S st' key (ctx_account_id ctx) = Inr data"
    using store_original_copies [OF store assms(7) data(1)] by simp
  have sid: "src_id source = sid" using find_source_id [OF src] by simp
  have ok: "uploads_ok uuid5 K d1"
    using rec f sid assms(5,6) by (intro recorded_ok [of E uuid5 ctx source intent key d d1 K]) auto
  obtain rev where rev: "rev \<in> set (t_source_revision d1)" "sr_account_id rev = ctx_account_id ctx"
    "sr_source_id rev = sid" "sr_snapshot_sha256 rev = ui_expected_sha256 intent"
    using recorded_honours [of E uuid5 ctx source intent key d d1 K] rec f sid assms(5,6) by auto
  have id: "sr_id rev = uuid5 sid (ui_expected_sha256 intent)" using ok rev by (auto simp: uploads_ok_def)
  have new: "rev \<in> set (t_source_revision d) \<or> sr_object_key rev = Some key \<and> sr_byte_count rev = Some (int (length data))"
    using rec rev(1) data(2) by (auto simp: revision_recorded_def new_source_revision_def)
  have pre: "prefix (t_source_revision d) (t_source_revision d1)"
    using rec by (auto simp: revision_recorded_def)
  have queued: "\<forall>x \<in> set (t_source d1). src_id x = sid \<longrightarrow> src_processing_status x = ''queued''"
    using rec sid by (auto simp: revision_recorded_def set_update_rows source_status_def)
  have same: "t_source_revision d' = t_source_revision d1" "t_source d' = t_source d1"
    using source_tables_more [OF enqueue_more(1) [OF enq]] enqueue_more(2) [OF enq] by simp_all
  obtain j e where "j \<in> set (t_job d')" "dj_id j = ej_job_id (rr_job r)" "dj_job_type j = ''ingestion.parse''"
    "e \<in> set (t_outbox d')" "oe_id e = ej_outbox_event_id (rr_job r)" "oe_durable_job_id e = Some (dj_id j)"
    using enqueue_present [OF enq] by blast
  then have jobs: "\<exists>j \<in> set (t_job d'). dj_id j = ej_job_id (rr_job r) \<and> dj_job_type j = ''ingestion.parse'' \<and>
      (\<exists>e \<in> set (t_outbox d'). oe_id e = ej_outbox_event_id (rr_job r) \<and> oe_durable_job_id e = Some (dj_id j))"
    by blast
  show ?thesis
    unfolding same using data copied rev id new pre queued jobs r
    by (intro exI [of _ key] exI [of _ data] exI [of _ rev]) simp
qed

lemma demo_uploads_ok: "uploads_ok (\<lambda>_ _. 77) {(30, demo_digest)} demo_uploads"
  by (simp add: uploads_ok_def demo_uploads_def core_db.defs intent_honoured_def)

theorem completed_upload_verified_witness:
  "\<exists>r st' d' data. complete_upload demo_env (\<lambda>_ _. 77) demo_storage_env (\<lambda>_ _. []) demo_ctx 30 31
     (MemoryObjectStorage demo_objects) (demo_uploads, []) = Inr (r, st', d', []) \<and>
     storage_read demo_storage_env (MemoryObjectStorage demo_objects) demo_key 1 = Inr data \<and> int (length data) = 4"
proof -
  obtain r st' d' where run: "complete_upload demo_env (\<lambda>_ _. 77) demo_storage_env (\<lambda>_ _. []) demo_ctx 30 31
     (MemoryObjectStorage demo_objects) (demo_uploads, []) = Inr (r, st', d', [])"
    using demo_complete by blast
  have "t_upload_intent demo_uploads = [] @ demo_intent # []" by (simp add: demo_uploads_def core_db.defs)
  from completed_upload_verified [OF run this _ _ demo_uploads_ok] run show ?thesis
    using demo_client_faithful by (auto simp: demo_storage_env_def)
qed

text \<open>
  Completion is final: in every state that a history of calls leads to, from a database whose completed uploads have
  their revisions, a repeated \<open>complete_upload\<close> of a completed upload returns the revision of its source and digest,
  whatever is in storage by then, and changes neither database nor storage; so
  \<open>upload_already_completed_without_revision\<close> is never raised.
\<close>

theorem completed_upload_replays:
  fixes d :: "'a source_db_scheme" and d0 :: "'a source_db_scheme"
  assumes "(source_step uuid5 K)\<^sup>*\<^sup>* (d0, st0) (d, st)" and "uploads_ok uuid5 K d0" and "inj_on (\<lambda>(s, h). uuid5 s h) K"
    and "i \<in> set (t_upload_intent d)" and "ui_completed_at i \<noteq> None" and "ui_account_id i = ctx_account_id ctx"
    and "find_source (ctx_account_id ctx) (ui_source_id i) d = Inr source"
  shows "\<exists>r. complete_upload E uuid5 S snap ctx (ui_source_id i) (ui_id i) st (d, []) = Inr (r, st, d, []) \<and>
    rr_revision_id r = uuid5 (ui_source_id i) (ui_expected_sha256 i) \<and> rr_snapshot_sha256 r = ui_expected_sha256 i"
proof -
  have ok: "uploads_ok uuid5 K d" using source_steps_ok [OF assms(1)] assms(2,3) by simp
  then obtain rev where rev: "rev \<in> set (t_source_revision d)" "sr_account_id rev = ui_account_id i"
    "sr_source_id rev = ui_source_id i" "sr_snapshot_sha256 rev = ui_expected_sha256 i"
    using assms(4,5) by (auto simp: uploads_ok_def intent_honoured_def)
  have id: "sr_id r = uuid5 (sr_source_id r) (sr_snapshot_sha256 r)" if "r \<in> set (t_source_revision d)" for r
    using ok that by (simp add: uploads_ok_def)
  have found: "filter (\<lambda>r. sr_account_id r = ctx_account_id ctx \<and> sr_source_id r = ui_source_id i \<and>
      sr_snapshot_sha256 r = ui_expected_sha256 i) (t_source_revision d) = [rev]"
    by (rule filter_is_row [of sr_id]) (use ok rev id assms(6) in \<open>auto simp: uploads_ok_def\<close>)
  have "filter (\<lambda>r. ui_account_id r = ctx_account_id ctx \<and> ui_id r = ui_id i \<and> ui_source_id r = ui_source_id i)
      (t_upload_intent d) = [i]"
    by (rule filter_is_row [of ui_id]) (use ok assms(4,6) in \<open>auto simp: uploads_ok_def\<close>)
  then show ?thesis
    using assms(5,7) found rev id [OF rev(1)]
    by (simp add: complete_upload_def replay_upload_def)
qed

theorem completed_upload_replays_witness:
  "\<exists>r st (d :: source_db). complete_upload demo_env (\<lambda>_ _. 77) demo_storage_env (\<lambda>_ _. []) demo_ctx 30 31 st (d, []) =
     Inr (r, st, d, []) \<and> rr_revision_id r = 77 \<and> length (t_source_revision d) = 1"
proof -
  obtain r st' d' where run: "complete_upload demo_env (\<lambda>_ _. 77) demo_storage_env (\<lambda>_ _. []) demo_ctx 30 31
       (MemoryObjectStorage demo_objects) (demo_uploads, []) = Inr (r, st', d', [])"
    and d': "t_upload_intent d' = [demo_intent\<lparr> ui_completed_at := Some 1000000 \<rparr>]" "map sr_id (t_source_revision d') = [77]"
      "find_source 1 30 d' = Inr (hd (t_source d'))"
    using demo_complete by (elim exE conjE)
  have step: "(source_step (\<lambda>_ _. 77) {(30, demo_digest)})\<^sup>*\<^sup>* (demo_uploads, MemoryObjectStorage demo_objects) (d', st')"
    using source_step.complete [OF run] by (rule r_into_rtranclp)
  have "length (t_source_revision d') = 1" using d'(2) by (metis length_map length_Cons list.size(3) One_nat_def)
  moreover have "\<exists>r. complete_upload demo_env (\<lambda>_ _. 77) demo_storage_env (\<lambda>_ _. []) demo_ctx 30 31 st' (d', []) = Inr (r, st', d', []) \<and>
      rr_revision_id r = 77"
    using completed_upload_replays [OF step demo_uploads_ok, of "demo_intent\<lparr> ui_completed_at := Some 1000000 \<rparr>" demo_ctx
        "hd (t_source d')" demo_env demo_storage_env "\<lambda>_ _. []"] d'
    by auto
  ultimately show ?thesis by blast
qed

end
