(* ===== verification/Parsers.thy ===== *)
theory Parsers
  imports Ids Numbers Ingestion_Domain
begin

text \<open>
  Extraction of text from uploaded bytes, \<open>services/core/src/memdot_core/parsers/\<close> over the port
  \<open>memdot_domain/ports/parser.py\<close>: the native text and PDF parsers, the Docling adapter and the OCR fallback (both
  fail closed), their selection by MIME type, the resource limits, and \<open>validate_parse_result\<close> of
  \<open>ingestion/normalize.py\<close>.

  Bytes are strings; \<open>pe_decode\<close> is \<open>bytes.decode("utf-8", errors="replace")\<close>, the identity on ASCII.
  A \<open>char\<close> is one byte, so Latin-1 text is the bytes themselves. Scores are exact rationals. Docling is a
  third-party package: \<open>pe_docling\<close> says how importing and looking it up went.
\<close>

section \<open>The port\<close>

datatype ParserProfile = NATIVE_TEXT | NATIVE_PDF | NATIVE_OFFICE | DOCLING | OCR_PADDLE

definition profile_value :: "ParserProfile \<Rightarrow> string" where
  "profile_value p =
     (case p of NATIVE_TEXT \<Rightarrow> ''native_text_v1'' | NATIVE_PDF \<Rightarrow> ''native_pdf_v1''
      | NATIVE_OFFICE \<Rightarrow> ''native_office_v1'' | DOCLING \<Rightarrow> ''docling_v1'' | OCR_PADDLE \<Rightarrow> ''ocr_paddle_v1'')"

record ElementLocator =
  el_kind :: string
  el_value :: string

record NormalizedElement =
  ne_element_id :: uuid
  ne_kind :: ElementKind
  ne_order_index :: int
  ne_parent_element_id :: "uuid option"
  ne_exact_text :: string
  ne_normalized_text :: string
  ne_content_hash :: string
  ne_locator :: ElementLocator
  ne_language :: "string option"
  ne_confidence :: "rat option"
  ne_warnings :: "string list"
  ne_metadata :: "(string \<times> string) list"

record ParseResult =
  pr_profile :: ParserProfile
  pr_profile_hash :: string
  pr_elements :: "NormalizedElement list"
  pr_page_count :: int
  pr_quality_score :: rat
  pr_raw_artifact_bytes :: string
  pr_diagnostics :: "string list"

datatype docling_state =
    Docling_Missing | Docling_Raises string | Converter_Missing | Convert_Missing | Convert_Present

record parse_env =
  pe_sha :: "string \<Rightarrow> string"
  pe_uuid5 :: "uuid \<Rightarrow> string \<Rightarrow> uuid"
  pe_decode :: "string \<Rightarrow> string"
  pe_docling :: docling_state

section \<open>Native text\<close>

text \<open>\<open>str.splitlines()\<close>: no empty line after a final break, and a carriage return with line feed is one break.\<close>

definition line_break :: "char \<Rightarrow> bool" where
  "line_break c \<longleftrightarrow> of_char c \<in> {10, 11, 12, 13, 28, 29, 30 :: nat}"

lemma dropWhile_shorter: "dropWhile P s = c # t \<Longrightarrow> length t < length s"
  using length_dropWhile_le [of P s] by simp

function py_splitlines :: "string \<Rightarrow> string list" where
  "py_splitlines s =
     (if s = [] then []
      else let l = takeWhile (\<lambda>c. \<not> line_break c) s in
        case dropWhile (\<lambda>c. \<not> line_break c) s of
          [] \<Rightarrow> [l]
        | c # t \<Rightarrow> l # py_splitlines (if of_char c = (13 :: nat) \<and> starts_with t [char_of (10 :: nat)] then tl t else t))"
  by pat_completeness auto
termination
  by (relation "measure length") (auto dest!: dropWhile_shorter simp: less_imp_diff_less)

declare py_splitlines.simps [simp del]

definition text_element :: "parse_env \<Rightarrow> string list \<Rightarrow> uuid \<Rightarrow> nat \<Rightarrow> string \<Rightarrow> NormalizedElement" where
  "text_element P language_hints run index line =
     (let content_hash = pe_sha P line; canonical_locator = ''line:'' @ dec_nat (index + 1)
      in \<lparr> ne_element_id = element_id (pe_uuid5 P) run canonical_locator content_hash, ne_kind = EK_PARAGRAPH,
           ne_order_index = int index, ne_parent_element_id = None, ne_exact_text = line,
           ne_normalized_text = py_strip line, ne_content_hash = content_hash,
           ne_locator = \<lparr> el_kind = ''line'', el_value = dec_nat (index + 1) \<rparr>,
           ne_language = (case language_hints of [] \<Rightarrow> None | l # _ \<Rightarrow> Some l), ne_confidence = Some 1,
           ne_warnings = [], ne_metadata = [] \<rparr>)"

definition text_lines :: "parse_env \<Rightarrow> string \<Rightarrow> string list" where
  "text_lines P content = filter (\<lambda>l. py_strip l \<noteq> []) (py_splitlines (pe_decode P content))"

definition parse_native_text :: "parse_env \<Rightarrow> string \<Rightarrow> string list \<Rightarrow> uuid \<Rightarrow> ParseResult" where
  "parse_native_text P content language_hints run =
     (let lines = text_lines P content; n = length lines
      in \<lparr> pr_profile = NATIVE_TEXT, pr_profile_hash = pe_sha P ''native_text_v1'',
           pr_elements = map (\<lambda>(i, l). text_element P language_hints run i l) (zip [0..<n] lines),
           pr_page_count = max 1 (int n div 40 + 1), pr_quality_score = (if lines \<noteq> [] then 1 else 0),
           pr_raw_artifact_bytes = ''{\"lines\": '' @ dec_nat n @ ''}'', pr_diagnostics = [] \<rparr>)"

section \<open>Native PDF\<close>

text \<open>
  \<open>re.finditer\<close> of an opening parenthesis, a run of bytes that are neither backslash nor closing parenthesis, and a
  closing parenthesis: the groups of the matches, left to right and without overlap.
\<close>

definition pdf_text_byte :: "char \<Rightarrow> bool" where
  "pdf_text_byte c \<longleftrightarrow> of_char c \<noteq> (92 :: nat) \<and> c \<noteq> CHR '')''"

function stream_texts :: "string \<Rightarrow> string list" where
  "stream_texts [] = []"
| "stream_texts (c # s) =
     (if c = CHR ''('' then
        case dropWhile pdf_text_byte s of
          [] \<Rightarrow> stream_texts s
        | b # t \<Rightarrow> if b = CHR '')'' then takeWhile pdf_text_byte s # stream_texts t else stream_texts s
      else stream_texts s)"
  by pat_completeness auto
termination
  by (relation "measure length") (auto dest: dropWhile_shorter)

text \<open>White space of a decoded Latin-1 text: the ASCII ones, next line and no-break space.\<close>

definition is_space_latin1 :: "char \<Rightarrow> bool" where
  "is_space_latin1 c \<longleftrightarrow> is_space c \<or> of_char c \<in> {133, 160 :: nat}"

definition strip_latin1 :: "string \<Rightarrow> string" where
  "strip_latin1 s = rev (dropWhile is_space_latin1 (rev (dropWhile is_space_latin1 s)))"

definition pdf_fragments :: "string \<Rightarrow> string list" where
  "pdf_fragments content =
     filter (\<lambda>piece. piece \<noteq> [] \<and> 2 < length piece) (map strip_latin1 (stream_texts (take 500000 content)))"

definition pdf_element :: "parse_env \<Rightarrow> uuid \<Rightarrow> nat \<Rightarrow> string \<Rightarrow> NormalizedElement" where
  "pdf_element P run index fragment =
     (let content_hash = pe_sha P fragment; canonical_locator = ''pdf-fragment:'' @ dec_nat (index + 1)
      in \<lparr> ne_element_id = element_id (pe_uuid5 P) run canonical_locator content_hash, ne_kind = EK_PARAGRAPH,
           ne_order_index = int index, ne_parent_element_id = None, ne_exact_text = fragment,
           ne_normalized_text = fragment, ne_content_hash = content_hash,
           ne_locator = \<lparr> el_kind = ''pdf-fragment'', el_value = dec_nat (index + 1) \<rparr>,
           ne_language = None, ne_confidence = Some (if 20 < length fragment then 6 / 10 else 3 / 10),
           ne_warnings = [], ne_metadata = [] \<rparr>)"

definition parse_native_pdf :: "parse_env \<Rightarrow> string \<Rightarrow> uuid \<Rightarrow> ParseResult res" where
  "parse_native_pdf P content run =
     (if \<not> starts_with content ''%PDF'' then Inl (ValueError ''invalid_pdf_header'')
      else let fragments = pdf_fragments content; n = length fragments; used = take 500 fragments
        in Inr \<lparr> pr_profile = NATIVE_PDF, pr_profile_hash = pe_sha P ''native_pdf_v1'',
             pr_elements = map (\<lambda>(i, f). pdf_element P run i f) (zip [0..<length used] used),
             pr_page_count = max 1 (int n div 20 + 1),
             pr_quality_score = (if fragments \<noteq> [] then min 1 (of_nat n / 10) else 1 / 10),
             pr_raw_artifact_bytes = ''{\"fragments\": '' @ dec_nat n @ ''}'',
             pr_diagnostics = [''native_pdf_best_effort''] \<rparr>)"

section \<open>Docling and OCR\<close>

definition SUPPORTED_MIME :: "string list" where
  "SUPPORTED_MIME =
     [''application/pdf'', ''application/vnd.openxmlformats-officedocument.wordprocessingml.document'',
      ''application/vnd.openxmlformats-officedocument.presentationml.presentation'']"

definition parse_docling :: "parse_env \<Rightarrow> string \<Rightarrow> ParseResult res" where
  "parse_docling P mime_type =
     (if mime_type \<notin> set SUPPORTED_MIME then Inl (ValueError (''docling_unsupported_mime:'' @ mime_type))
      else Inl (ValueError (case pe_docling P of
          Docling_Missing \<Rightarrow> ''docling_not_configured:dependency_unavailable''
        | Docling_Raises name \<Rightarrow> ''docling_parse_failed:'' @ name
        | Converter_Missing \<Rightarrow> ''docling_not_configured:converter_missing''
        | Convert_Missing \<Rightarrow> ''docling_not_configured:convert_missing''
        | Convert_Present \<Rightarrow> ''docling_not_configured:in_memory_bytes_path_unavailable'')))"

definition OCR_QUALITY_THRESHOLD :: rat where
  "OCR_QUALITY_THRESHOLD = 45 / 100"

definition parse_ocr_fallback :: "parse_env \<Rightarrow> ParseResult" where
  "parse_ocr_fallback P =
     \<lparr> pr_profile = OCR_PADDLE, pr_profile_hash = pe_sha P ''ocr_paddle_stub_v2_fail_closed'', pr_elements = [],
       pr_page_count = 0, pr_quality_score = 0,
       pr_raw_artifact_bytes = ''{\"code\": \"ocr_stub_unavailable\", \"ocr\": \"stub\", \"status\": \"failed\"}'',
       pr_diagnostics = [''ocr_stub_unavailable'', ''ocr_fail_closed'', ''not_promotable''] \<rparr>"

section \<open>The registry\<close>

datatype parser = NativeTextParser | NativePdfParser | DoclingParserAdapter | OcrFallbackParser

definition TEXT_MIMES :: "string list" where
  "TEXT_MIMES = [''text/plain'', ''text/markdown'', ''text/x-markdown'']"

definition OFFICE_MIMES :: "string list" where
  "OFFICE_MIMES =
     [''application/vnd.openxmlformats-officedocument.wordprocessingml.document'',
      ''application/vnd.openxmlformats-officedocument.presentationml.presentation'',
      ''application/msword'', ''application/vnd.ms-powerpoint'']"

definition select_parser :: "string \<Rightarrow> bool \<Rightarrow> parser" where
  "select_parser mime_type ocr_fallback =
     (let lowered = py_lower (py_strip (hd (py_split (CHR '';'') mime_type))) in
      if ocr_fallback then OcrFallbackParser
      else if lowered \<in> set TEXT_MIMES then NativeTextParser
      else if lowered = ''application/pdf'' then NativePdfParser
      else if lowered \<in> set OFFICE_MIMES then DoclingParserAdapter
      else NativeTextParser)"

definition parser_profile :: "parser \<Rightarrow> ParserProfile" where
  "parser_profile p =
     (case p of NativeTextParser \<Rightarrow> NATIVE_TEXT | NativePdfParser \<Rightarrow> NATIVE_PDF
      | DoclingParserAdapter \<Rightarrow> DOCLING | OcrFallbackParser \<Rightarrow> OCR_PADDLE)"

definition profile_hash :: "parse_env \<Rightarrow> parser \<Rightarrow> string" where
  "profile_hash P p =
     (case p of NativeTextParser \<Rightarrow> pe_sha P ''native_text_v1'' | NativePdfParser \<Rightarrow> pe_sha P ''native_pdf_v1''
      | DoclingParserAdapter \<Rightarrow> ''docling_adapter_v1''
      | OcrFallbackParser \<Rightarrow> pe_sha P ''ocr_paddle_stub_v2_fail_closed'')"

definition parse :: "parse_env \<Rightarrow> parser \<Rightarrow> string \<Rightarrow> string \<Rightarrow> string list \<Rightarrow> uuid \<Rightarrow> ParseResult res" where
  "parse P p content mime_type language_hints run =
     (case p of
        NativeTextParser \<Rightarrow> Inr (parse_native_text P content language_hints run)
      | NativePdfParser \<Rightarrow> parse_native_pdf P content run
      | DoclingParserAdapter \<Rightarrow> parse_docling P mime_type
      | OcrFallbackParser \<Rightarrow> Inr (parse_ocr_fallback P))"

section \<open>Resource limits\<close>

record IngestionResourceLimits =
  max_file_bytes :: int
  max_pages :: int
  max_archive_entries :: int
  max_archive_uncompressed_bytes :: int
  max_recursion_depth :: int
  max_decompression_ratio :: rat

definition RESOURCE_LIMITS :: IngestionResourceLimits where
  "RESOURCE_LIMITS =
     \<lparr> max_file_bytes = 50 * 1024 * 1024, max_pages = 500, max_archive_entries = 200,
       max_archive_uncompressed_bytes = 200 * 1024 * 1024, max_recursion_depth = 3, max_decompression_ratio = 50 \<rparr>"

definition check_file_size :: "IngestionResourceLimits \<Rightarrow> int \<Rightarrow> unit res" where
  "check_file_size limits size_bytes =
     (if size_bytes < 0 then Inl (ResourceLimitExceeded ''negative_size'')
      else if max_file_bytes limits < size_bytes then Inl (ResourceLimitExceeded ''file_too_large'') else Inr ())"

definition check_page_count :: "IngestionResourceLimits \<Rightarrow> int \<Rightarrow> unit res" where
  "check_page_count limits page_count =
     (if max_pages limits < page_count then Inl (ResourceLimitExceeded ''too_many_pages'') else Inr ())"

definition check_archive_entry_count :: "IngestionResourceLimits \<Rightarrow> int \<Rightarrow> unit res" where
  "check_archive_entry_count limits entries =
     (if max_archive_entries limits < entries then Inl (ResourceLimitExceeded ''too_many_archive_entries'') else Inr ())"

definition check_decompression_ratio :: "IngestionResourceLimits \<Rightarrow> int \<Rightarrow> int \<Rightarrow> unit res" where
  "check_decompression_ratio limits compressed uncompressed =
     (if compressed \<le> 0 then Inl (ResourceLimitExceeded ''invalid_compressed_size'')
      else if max_decompression_ratio limits < of_int uncompressed / of_int compressed
      then Inl (ResourceLimitExceeded ''decompression_ratio_exceeded'')
      else if max_archive_uncompressed_bytes limits < uncompressed
      then Inl (ResourceLimitExceeded ''archive_uncompressed_too_large'') else Inr ())"

definition check_recursion_depth :: "IngestionResourceLimits \<Rightarrow> int \<Rightarrow> unit res" where
  "check_recursion_depth limits depth =
     (if max_recursion_depth limits < depth then Inl (ResourceLimitExceeded ''archive_recursion_too_deep'') else Inr ())"

section \<open>Validation\<close>

text \<open>The loop of \<open>validate_parse_result\<close>, with the identifiers seen so far.\<close>

fun element_errors :: "uuid list \<Rightarrow> NormalizedElement list \<Rightarrow> string list" where
  "element_errors seen [] = []"
| "element_errors seen (e # es) =
     (if ne_element_id e \<in> set seen then [''duplicate_element_id''] else []) @
     (if ne_content_hash e = [] \<or> length (ne_content_hash e) \<noteq> 64 then [''invalid_content_hash''] else []) @
     element_errors (ne_element_id e # seen) es"

definition validate_parse_result :: "ParseResult \<Rightarrow> string list" where
  "validate_parse_result r =
     (if pr_elements r = [] \<and> 0 < pr_quality_score r then [''empty_elements_with_positive_quality''] else []) @
     element_errors [] (pr_elements r)"

section \<open>What the parsers return\<close>

lemma parse_quality:
  assumes "parse P p content mime hints run = Inr result"
  shows "0 \<le> pr_quality_score result" "pr_quality_score result \<le> 1"
  using assms
  by (auto simp: parse_def parse_native_text_def parse_native_pdf_def parse_docling_def parse_ocr_fallback_def Let_def
      split: parser.splits if_splits)

lemma parse_errors: "parse P p content mime hints run = Inl e \<Longrightarrow> \<exists>m. e = ValueError m"
  by (auto simp: parse_def parse_native_pdf_def parse_docling_def Let_def split: parser.splits if_splits)

lemma element_errors_Nil_iff:
  "element_errors seen es = [] \<longleftrightarrow> distinct (map ne_element_id es) \<and> ne_element_id ` set es \<inter> set seen = {} \<and>
     (\<forall>e \<in> set es. length (ne_content_hash e) = 64)"
  by (induction seen es rule: element_errors.induct) auto

lemma validate_Nil_iff:
  "validate_parse_result r = [] \<longleftrightarrow> (pr_elements r = [] \<longrightarrow> pr_quality_score r \<le> 0) \<and>
     distinct (map ne_element_id (pr_elements r)) \<and> (\<forall>e \<in> set (pr_elements r). length (ne_content_hash e) = 64)"
  by (auto simp: validate_parse_result_def element_errors_Nil_iff not_less)

section \<open>Lines\<close>

lemma py_splitlines_Nil [simp]: "py_splitlines [] = []"
  by (simp add: py_splitlines.simps)

lemma takeWhile_stop: "\<forall>c \<in> set l. P c \<Longrightarrow> \<not> P b \<Longrightarrow> takeWhile P (l @ b # t) = l \<and> dropWhile P (l @ b # t) = b # t"
  by (induction l) auto

lemma py_splitlines_line:
  assumes "\<forall>c \<in> set l. \<not> line_break c"
  shows "py_splitlines (l @ char_of (10 :: nat) # t) = l # py_splitlines t"
proof -
  have "line_break (char_of (10 :: nat))" by (simp add: line_break_def)
  then show ?thesis
    using takeWhile_stop [of l "\<lambda>c. \<not> line_break c" "char_of (10 :: nat)" t] assms
    by (subst py_splitlines.simps) (simp add: Let_def)
qed

lemma py_splitlines_join:
  "\<forall>l \<in> set ls. \<forall>c \<in> set l. \<not> line_break c \<Longrightarrow>
     py_splitlines (concat (map (\<lambda>l. l @ [char_of (10 :: nat)]) ls)) = ls"
  by (induction ls) (simp_all add: py_splitlines_line)

lemma stream_texts_sub:
  "w \<in> set (stream_texts s) \<Longrightarrow> sublist (CHR ''('' # w @ [CHR '')'']) s \<and> (\<forall>c \<in> set w. pdf_text_byte c)"
proof (induction s rule: stream_texts.induct)
  case (2 c s)
  show ?case
  proof (cases "c = CHR ''('' \<and> (\<exists>t. dropWhile pdf_text_byte s = CHR '')'' # t)")
    case True
    then obtain t where c: "c = CHR ''(''" and t: "dropWhile pdf_text_byte s = CHR '')'' # t" by blast
    have s: "s = takeWhile pdf_text_byte s @ CHR '')'' # t" by (metis takeWhile_dropWhile_id t)
    have "w = takeWhile pdf_text_byte s \<or> w \<in> set (stream_texts t)" using 2(5) c t by simp
    then show ?thesis
    proof
      assume w: "w = takeWhile pdf_text_byte s"
      then have "c # s = (CHR ''('' # w @ [CHR '')'']) @ t" using s c by simp
      then have "prefix (CHR ''('' # w @ [CHR '')'']) (c # s)" by (metis prefix_def)
      then show ?thesis using w by (auto dest: set_takeWhileD intro: prefix_imp_sublist)
    next
      assume "w \<in> set (stream_texts t)"
      then have "sublist (CHR ''('' # w @ [CHR '')'']) t \<and> (\<forall>c \<in> set w. pdf_text_byte c)"
        using 2(2) c t by blast
      moreover have "c # s = (c # takeWhile pdf_text_byte s @ [CHR '')'']) @ t" using s by simp
      then have "sublist t (c # s)" by (metis sublist_append_leftI)
      ultimately show ?thesis using sublist_order.order_trans by blast
    qed
  next
    case False
    then have "w \<in> set (stream_texts s)" using 2(5) by (auto split: list.splits if_splits)
    then have "sublist (CHR ''('' # w @ [CHR '')'']) s \<and> (\<forall>c \<in> set w. pdf_text_byte c)"
      using 2 False by (cases "c = CHR ''(''"; cases "dropWhile pdf_text_byte s") auto
    then show ?thesis by (simp add: sublist_Cons_right)
  qed
qed simp

section \<open>Native text, as a whole\<close>

definition text_names :: "parse_env \<Rightarrow> string list \<Rightarrow> string list" where
  "text_names P lines = map (\<lambda>(i, l). ''line:'' @ dec_nat (i + 1) @ CHR '':'' # pe_sha P l) (zip [0..<length lines] lines)"

lemma text_result:
  "pr_elements (parse_native_text P content hints run) =
     map (\<lambda>(i, l). text_element P hints run i l) (zip [0..<length (text_lines P content)] (text_lines P content))"
  "pr_quality_score (parse_native_text P content hints run) = (if text_lines P content \<noteq> [] then 1 else 0)"
  by (simp_all add: parse_native_text_def Let_def del: dec_nat.simps)

lemma text_element_sel:
  "ne_exact_text (text_element P hints run i l) = l" "ne_order_index (text_element P hints run i l) = int i"
  "ne_content_hash (text_element P hints run i l) = pe_sha P l"
  "ne_element_id (text_element P hints run i l) = pe_uuid5 P run (''line:'' @ dec_nat (i + 1) @ CHR '':'' # pe_sha P l)"
  by (simp_all add: text_element_def element_id_def Let_def del: dec_nat.simps)

lemma text_elements:
  "map ne_exact_text (pr_elements (parse_native_text P content hints run)) = text_lines P content"
  "map ne_order_index (pr_elements (parse_native_text P content hints run)) = map int [0..<length (text_lines P content)]"
  "map ne_element_id (pr_elements (parse_native_text P content hints run)) =
     map (pe_uuid5 P run) (text_names P (text_lines P content))"
  by (rule nth_equalityI; simp add: text_result text_element_sel text_names_def del: dec_nat.simps)+

lemma text_hashes:
  "e \<in> set (pr_elements (parse_native_text P content hints run)) \<Longrightarrow> ne_content_hash e = pe_sha P (ne_exact_text e)"
  by (auto simp: text_result text_element_sel simp del: dec_nat.simps)

lemma dec_nat_no_colon: "CHR '':'' \<notin> set (dec_nat n)"
  using dec_nat_read [of n] by (auto simp: all_digits_def)

lemma dec_nat_inject: "dec_nat m = dec_nat n \<Longrightarrow> m = n"
  using dec_nat_read [of m] dec_nat_read [of n] by (metis of_nat_eq_iff)

lemma distinct_text_names: "distinct (text_names P lines)"
proof -
  have "text_names P lines ! i \<noteq> text_names P lines ! j" if "i < length lines" "j < length lines" "i \<noteq> j" for i j
  proof
    assume "text_names P lines ! i = text_names P lines ! j"
    then have "dec_nat (i + 1) @ CHR '':'' # pe_sha P (lines ! i) = dec_nat (j + 1) @ CHR '':'' # pe_sha P (lines ! j)"
      using that by (simp add: text_names_def del: dec_nat.simps)
    then have "dec_nat (i + 1) = dec_nat (j + 1)" using dec_nat_no_colon sep_inject by metis
    then show False using that(3) dec_nat_inject by fastforce
  qed
  then show ?thesis by (simp add: distinct_conv_nth text_names_def del: dec_nat.simps)
qed

section \<open>Properties\<close>

text \<open>
  (C25) Text extraction loses nothing and invents nothing: a file of non-blank lines is parsed, whatever the
  lines are, into one element per line in their order, each with the line as its exact text and the line's digest; and
  as long as UUIDv5 does not collide on the locators of this run and digests have 64 characters, the result passes
  validation with full quality.
\<close>

theorem text_extraction_round_trip:
  assumes "\<forall>l \<in> set ls. py_strip l \<noteq> [] \<and> (\<forall>c \<in> set l. \<not> line_break c)"
    and "content = concat (map (\<lambda>l. l @ [char_of (10 :: nat)]) ls)" and "pe_decode P content = content"
    and "\<forall>l \<in> set ls. length (pe_sha P l) = 64" and "inj_on (pe_uuid5 P run) (set (text_names P ls))"
  shows "\<exists>result. parse P NativeTextParser content mime hints run = Inr result \<and>
    map ne_exact_text (pr_elements result) = ls \<and>
    map ne_order_index (pr_elements result) = map int [0..<length ls] \<and>
    (\<forall>e \<in> set (pr_elements result). ne_content_hash e = pe_sha P (ne_exact_text e)) \<and>
    validate_parse_result result = [] \<and> pr_quality_score result = (if ls = [] then 0 else 1)"
proof -
  let ?r = "parse_native_text P content hints run"
  have "py_splitlines (pe_decode P content) = ls"
    using assms(1,3) py_splitlines_join [of ls] by (simp add: assms(2))
  then have lines: "text_lines P content = ls" using assms(1) by (simp add: text_lines_def)
  have texts: "map ne_exact_text (pr_elements ?r) = ls" using text_elements(1) lines by metis
  have "distinct (map ne_element_id (pr_elements ?r))"
    using text_elements(3) [of P content hints run] lines distinct_text_names [of P ls] assms(5)
    by (simp add: distinct_map)
  moreover have "length (ne_content_hash e) = 64" if "e \<in> set (pr_elements ?r)" for e
  proof -
    have "ne_exact_text e \<in> set ls" unfolding texts [symmetric] using that by simp
    then show ?thesis using text_hashes [OF that] assms(4) by simp
  qed
  moreover have "pr_quality_score ?r = (if ls = [] then 0 else 1)" by (simp add: text_result lines)
  moreover have "pr_elements ?r = [] \<longleftrightarrow> ls = []" using texts by (metis map_is_Nil_conv)
  ultimately have valid: "validate_parse_result ?r = []" by (simp add: validate_Nil_iff)
  have "parse P NativeTextParser content mime hints run = Inr ?r" by (simp add: parse_def)
  moreover have "map ne_order_index (pr_elements ?r) = map int [0..<length ls]"
    using text_elements(2) [of P content hints run] unfolding lines .
  moreover have "pr_quality_score ?r = (if ls = [] then 0 else 1)" by (simp add: text_result lines)
  ultimately show ?thesis using valid texts text_hashes by blast
qed

definition demo_parse_env :: parse_env where
  "demo_parse_env =
     \<lparr> pe_sha = (\<lambda>s. take 64 (s @ replicate 64 (CHR ''0''))), pe_uuid5 = (\<lambda>u s. u + of_nat (length s)),
       pe_decode = (\<lambda>s. s), pe_docling = Docling_Missing \<rparr>"

theorem text_extraction_round_trip_witness:
  "\<exists>result. parse demo_parse_env NativeTextParser (concat (map (\<lambda>l. l @ [char_of (10 :: nat)]) [''one''])) ''text/plain'' [] 7 =
     Inr result \<and> map ne_exact_text (pr_elements result) = [''one''] \<and> validate_parse_result result = []"
  using text_extraction_round_trip [of "[''one'']" _ demo_parse_env 7 "''text/plain''" "[]", OF _ refl]
  by (auto simp: demo_parse_env_def line_break_def text_names_def py_strip_def py_lstrip_def is_space_def)

end
