(* ===== verification/Ingestion.thy ===== *)
theory Ingestion
  imports Sources Parsers Pointers
begin

text \<open>
  Ingestion of a source revision, \<open>services/core/src/memdot_core/ingestion/orchestrator.py\<close> and
  \<open>ingestion/normalize.py\<close>, over the tables \<open>parse_run\<close>, \<open>document_element\<close> and \<open>current_active_parse_run\<close> of
  \<open>ledger.py\<close> and the database function \<open>memdot_set_current_active_parse_run\<close> of migration 0002.

  One run loads the bytes of a revision, parses them, stores the parser's artifact, records a parse run with its
  elements, and makes the run the active one of the revision when it is good enough. The identifier of the parse run
  is the UUIDv5 of revision and parser profile. Attributes of the loaded source are tracked as the local value
  \<open>status\<close> next to the pending updates that the next flush writes.
\<close>

section \<open>Tables\<close>

record ParseRun =
  run_id :: uuid
  run_account_id :: uuid
  run_space_id :: uuid
  run_source_revision_id :: uuid
  run_parser_profile :: string
  run_status :: string
  run_profile_hash :: "string option"
  run_is_shadow :: bool
  run_quality_score :: "rat option"
  run_stage_checkpoint :: dict
  run_artifact_object_key :: "string option"
  run_error_code :: "string option"
  run_error_detail_safe :: "string option"
  run_created_at :: datetime
  run_updated_at :: datetime

record DocumentElement =
  de_id :: uuid
  de_account_id :: uuid
  de_space_id :: uuid
  de_parse_run_id :: uuid
  de_element_kind :: string
  de_locator :: "string option"
  de_element_index :: "int option"
  de_parent_element_id :: "uuid option"
  de_content_hash :: "string option"
  de_exact_text :: "string option"
  de_normalized_text :: "string option"
  de_metadata :: "(string \<times> string) list"
  de_created_at :: datetime

record CurrentActiveParseRun =
  ap_id :: uuid
  ap_account_id :: uuid
  ap_space_id :: uuid
  ap_source_id :: uuid
  ap_source_revision_id :: uuid
  ap_parse_run_id :: uuid
  ap_updated_at :: datetime

record ingest_db = source_db +
  t_parse_run :: "ParseRun list"
  t_element :: "DocumentElement list"
  t_active_parse :: "CurrentActiveParseRun list"

definition PARSE_STATUSES :: "string list" where
  "PARSE_STATUSES = map parse_status [PRS_PENDING, PRS_RUNNING, PRS_SUCCEEDED, PRS_FAILED, PRS_CANCELLED]"

definition insert_parse_run :: "ParseRun \<Rightarrow> 'a ingest_db_scheme \<Rightarrow> 'a ingest_db_scheme res" where
  "insert_parse_run r d =
     bindr (pending_gate (run_account_id r) d) (\<lambda>_.
     bindr (unique_key ''pk_parse_run'' (\<lambda>r. Some (run_id r)) r (t_parse_run d)) (\<lambda>_.
     bindr (check_in ''ck_parse_run_status'' (run_status r) PARSE_STATUSES) (\<lambda>_.
     bindr (foreign_key ''fk_parse_run_revision'' (Some (run_account_id r, run_source_revision_id r))
       (\<lambda>x. (sr_account_id x, sr_id x)) (t_source_revision d)) (\<lambda>_.
     bindr (foreign_key ''fk_parse_run_revision_space'' (Some (run_account_id r, run_space_id r, run_source_revision_id r))
       (\<lambda>x. (sr_account_id x, sr_space_id x, sr_id x)) (t_source_revision d)) (\<lambda>_.
     Inr (d\<lparr> t_parse_run := t_parse_run d @ [r] \<rparr>))))))"

definition insert_element :: "DocumentElement \<Rightarrow> 'a ingest_db_scheme \<Rightarrow> 'a ingest_db_scheme res" where
  "insert_element r d =
     bindr (pending_gate (de_account_id r) d) (\<lambda>_.
     bindr (unique_key ''pk_document_element'' (\<lambda>r. Some (de_id r)) r (t_element d)) (\<lambda>_.
     bindr (foreign_key ''fk_document_element_parse_run'' (Some (de_account_id r, de_parse_run_id r))
       (\<lambda>x. (run_account_id x, run_id x)) (t_parse_run d)) (\<lambda>_.
     bindr (foreign_key ''fk_document_element_parse_run_space'' (Some (de_account_id r, de_space_id r, de_parse_run_id r))
       (\<lambda>x. (run_account_id x, run_space_id x, run_id x)) (t_parse_run d)) (\<lambda>_.
     Inr (d\<lparr> t_element := t_element d @ [r] \<rparr>)))))"

definition update_parse_run ::
    "uuid \<Rightarrow> uuid \<Rightarrow> (ParseRun \<Rightarrow> ParseRun) \<Rightarrow> 'a ingest_db_scheme \<Rightarrow> 'a ingest_db_scheme res" where
  "update_parse_run account_id run f d =
     bindr (pending_gate account_id d) (\<lambda>_.
     Inr (d\<lparr> t_parse_run := update_rows (\<lambda>r. run_id r = run) f (t_parse_run d) \<rparr>))"

section \<open>The active parse run\<close>

definition same_active :: "CurrentActiveParseRun \<Rightarrow> CurrentActiveParseRun \<Rightarrow> bool" where
  "same_active a b \<longleftrightarrow> ap_account_id a = ap_account_id b \<and> ap_source_id a = ap_source_id b \<and>
     ap_source_revision_id a = ap_source_revision_id b"

definition active_parse_keys :: "CurrentActiveParseRun \<Rightarrow> 'a ingest_db_scheme \<Rightarrow> unit res" where
  "active_parse_keys c d =
     bindr (foreign_key ''fk_current_active_parse_source'' (Some (ap_account_id c, ap_source_id c))
       (\<lambda>x. (src_account_id x, src_id x)) (t_source d)) (\<lambda>_.
     bindr (foreign_key ''fk_current_active_parse_revision'' (Some (ap_account_id c, ap_source_revision_id c))
       (\<lambda>x. (sr_account_id x, sr_id x)) (t_source_revision d)) (\<lambda>_.
     foreign_key ''fk_current_active_parse_run'' (Some (ap_account_id c, ap_parse_run_id c))
       (\<lambda>x. (run_account_id x, run_id x)) (t_parse_run d)))"

definition upsert_active_parse :: "CurrentActiveParseRun \<Rightarrow> 'a ingest_db_scheme \<Rightarrow> 'a ingest_db_scheme res" where
  "upsert_active_parse c d =
     bindr (pending_gate (ap_account_id c) d) (\<lambda>_.
     case find (same_active c) (t_active_parse d) of
       None \<Rightarrow>
         bindr (unique_key ''pk_current_active_parse_run'' (\<lambda>c. Some (ap_id c)) c (t_active_parse d)) (\<lambda>_.
         bindr (active_parse_keys c d) (\<lambda>_.
         Inr (d\<lparr> t_active_parse := t_active_parse d @ [c] \<rparr>)))
     | Some old \<Rightarrow>
         bindr (active_parse_keys c d) (\<lambda>_.
         Inr (d\<lparr> t_active_parse := update_rows (same_active c)
           (\<lambda>x. x\<lparr> ap_parse_run_id := ap_parse_run_id c, ap_updated_at := ap_updated_at c \<rparr>) (t_active_parse d) \<rparr>)))"

definition memdot_set_current_active_parse_run ::
    "env \<Rightarrow> uuid \<Rightarrow> uuid \<Rightarrow> uuid \<Rightarrow> uuid \<Rightarrow> uuid \<Rightarrow> uuid \<Rightarrow> uuid \<Rightarrow> string \<Rightarrow> dict \<Rightarrow> 'a ingest_db_scheme \<Rightarrow>
     'a ingest_db_scheme res" where
  "memdot_set_current_active_parse_run E pointer_id account_id space_id source_id revision_id run event_id payload_hash payload d =
     bindr (case find_event account_id event_id d of
         Some e \<Rightarrow> if oe_payload_sha256 e \<noteq> payload_hash then Inl (DBAPIError ''outbox_payload_hash_mismatch'') else Inr d
       | None \<Rightarrow> insert_outbox (pointer_event E event_id account_id ''source.active_parse_changed'' payload_hash payload) d) (\<lambda>d1.
     bindr (upsert_active_parse
       \<lparr> ap_id = pointer_id, ap_account_id = account_id, ap_space_id = space_id, ap_source_id = source_id,
         ap_source_revision_id = revision_id, ap_parse_run_id = run, ap_updated_at = now E \<rparr> d1) (\<lambda>d2.
     Inr (d2\<lparr> settings := (settings d2)\<lparr> set_pointer_outbox_ok := [] \<rparr> \<rparr>)))"

definition promote_active_parse_run ::
    "env \<Rightarrow> uuid \<Rightarrow> uuid \<Rightarrow> uuid \<Rightarrow> uuid \<Rightarrow> uuid \<Rightarrow> dict \<Rightarrow> 'a ingest_db_scheme session \<Rightarrow> 'a ingest_db_scheme session res" where
  "promote_active_parse_run E account_id space_id source_id revision_id run payload s =
     (let event_id = fresh E 3; pointer_id = fresh E 4
      in execute (memdot_set_current_active_parse_run E pointer_id account_id space_id source_id revision_id run event_id
           (payload_sha256 E payload) payload) s)"

section \<open>Steps of a run\<close>

record IngestionOutcome =
  io_parse_run_id :: uuid
  io_status :: ParseRunStatus
  io_quality_score :: rat
  io_element_count :: int

definition sniff_content_mime :: "string \<Rightarrow> string \<Rightarrow> string \<Rightarrow> string" where
  "sniff_content_mime content_type filename content_head =
     (let lowered = bare_mime content_type in
      if starts_with content_head ''%PDF'' then ''application/pdf''
      else if lowered \<noteq> [] \<and> lowered \<noteq> ''application/octet-stream'' then lowered
      else if ends_with (py_lower filename) ''.pdf'' then ''application/pdf''
      else if ends_with (py_lower filename) ''.txt'' \<or> ends_with (py_lower filename) ''.md'' then ''text/plain''
      else if lowered \<noteq> [] then lowered else ''application/octet-stream'')"

definition language_hints_from_revision :: "SourceRevision \<Rightarrow> string list" where
  "language_hints_from_revision r =
     (if \<not> truthy_str (sr_language_hints r) then [''en'']
      else filter (\<lambda>p. p \<noteq> []) (map py_strip (py_split (CHR '','') (the (sr_language_hints r)))))"

definition load_revision_bytes :: "'b storage_env \<Rightarrow> 'b storage \<Rightarrow> SourceRevision \<Rightarrow> uuid \<Rightarrow> string res" where
  "load_revision_bytes S st r account_id =
     (case sr_object_key r of
        None \<Rightarrow> Inl (ValueError ''revision_missing_object_key'')
      | Some key \<Rightarrow> storage_read S st key account_id)"

definition new_parse_run ::
    "env \<Rightarrow> uuid \<Rightarrow> SourceRevision \<Rightarrow> string \<Rightarrow> string \<Rightarrow> uuid \<Rightarrow> ParseRunStatus \<Rightarrow> rat \<Rightarrow> dict \<Rightarrow> string option \<Rightarrow>
     string option \<Rightarrow> string option \<Rightarrow> bool \<Rightarrow> ParseRun" where
  "new_parse_run E account_id revision profile phash run status quality checkpoint artifact_key code detail shadow =
     \<lparr> run_id = run, run_account_id = account_id, run_space_id = sr_space_id revision,
       run_source_revision_id = sr_id revision, run_parser_profile = profile, run_status = parse_status status,
       run_profile_hash = Some phash, run_is_shadow = shadow, run_quality_score = Some quality,
       run_stage_checkpoint = checkpoint, run_artifact_object_key = artifact_key, run_error_code = code,
       run_error_detail_safe = detail, run_created_at = now E, run_updated_at = now E \<rparr>"

definition persist_parse_run :: "ParseRun \<Rightarrow> 'a ingest_db_scheme session \<Rightarrow> 'a ingest_db_scheme session res" where
  "persist_parse_run r s = flush (add (insert_parse_run r) s)"

definition artifact_parts :: "uuid \<Rightarrow> uuid \<Rightarrow> uuid \<Rightarrow> ObjectKeyParts" where
  "artifact_parts account_id space_id run =
     \<lparr> okp_account_id = account_id, okp_space_id = space_id, okp_lifecycle = ARTIFACT, okp_artifact_id = run,
       okp_filename = ''parser-artifact.json'' \<rparr>"

definition store_parser_artifact ::
    "'b storage_env \<Rightarrow> uuid \<Rightarrow> uuid \<Rightarrow> uuid \<Rightarrow> string \<Rightarrow> 'b storage \<Rightarrow> (string \<times> 'b storage) res" where
  "store_parser_artifact S account_id space_id run artifact st =
     bindr (build_object_key (artifact_parts account_id space_id run)) (\<lambda>key.
     case st of
       MemoryObjectStorage objs \<Rightarrow>
         bindr (mem_put_bytes objs key artifact ''application/json'' account_id (se_sha S artifact)) (\<lambda>objs'.
         Inr (key, MemoryObjectStorage objs'))
     | S3ObjectStorage b \<Rightarrow> Inr (key, st))"

definition element_row :: "env \<Rightarrow> uuid \<Rightarrow> uuid \<Rightarrow> uuid \<Rightarrow> NormalizedElement \<Rightarrow> DocumentElement" where
  "element_row E account_id space_id run e =
     \<lparr> de_id = ne_element_id e, de_account_id = account_id, de_space_id = space_id, de_parse_run_id = run,
       de_element_kind = element_kind (ne_kind e), de_locator = Some (el_value (ne_locator e)),
       de_element_index = Some (ne_order_index e), de_parent_element_id = ne_parent_element_id e,
       de_content_hash = Some (ne_content_hash e), de_exact_text = Some (ne_exact_text e),
       de_normalized_text = Some (ne_normalized_text e), de_metadata = ne_metadata e, de_created_at = now E \<rparr>"

definition persist_elements ::
    "env \<Rightarrow> uuid \<Rightarrow> uuid \<Rightarrow> uuid \<Rightarrow> ParseResult \<Rightarrow> ('a ingest_db_scheme, int) op" where
  "persist_elements E account_id space_id run result s =
     bindr (flush (fold (\<lambda>e. add (insert_element (element_row E account_id space_id run e))) (pr_elements result) s)) (\<lambda>s1.
     Inr (int (length (pr_elements result)), s1))"

text \<open>\<open>complete_job\<close> when the run belongs to a job.\<close>

definition finish_job ::
    "env \<Rightarrow> uuid \<Rightarrow> (uuid \<times> uuid) option \<Rightarrow> bool \<Rightarrow> string option \<Rightarrow> string option \<Rightarrow> 'a ingest_db_scheme session \<Rightarrow>
     'a ingest_db_scheme session res" where
  "finish_job E account_id job succeeded code detail s =
     (case job of
        None \<Rightarrow> Inr s
      | Some (job_id, attempt_id) \<Rightarrow>
          bindr (complete_job E account_id job_id attempt_id succeeded code detail s) (\<lambda>(_, s1). Inr s1))"

text \<open>The branches that record a failed parse run and end the run.\<close>

definition fail_run ::
    "env \<Rightarrow> uuid \<Rightarrow> Source \<Rightarrow> (uuid \<times> uuid) option \<Rightarrow> ParseRun \<Rightarrow> string option \<Rightarrow> string option \<Rightarrow> 'b storage \<Rightarrow>
     ('a ingest_db_scheme, IngestionOutcome \<times> 'b storage) op" where
  "fail_run E account_id source job failed code detail st s =
     bindr (persist_parse_run failed s) (\<lambda>s1.
     bindr (finish_job E account_id job False code detail (add (set_source_status E source SPS_FAILED) s1)) (\<lambda>s2.
     Inr ((\<lparr> io_parse_run_id = run_id failed, io_status = PRS_FAILED, io_quality_score = 0, io_element_count = 0 \<rparr>, st), s2)))"

text \<open>The parse step: parsing, the page limit, and the OCR fallback for a result of low quality.\<close>

definition parse_and_check ::
    "parse_env \<Rightarrow> parser \<Rightarrow> string \<Rightarrow> string \<Rightarrow> string list \<Rightarrow> uuid \<Rightarrow> ParseResult res" where
  "parse_and_check P primary content mime hints run =
     bindr (parse P primary content mime hints run) (\<lambda>result.
     bindr (check_page_count RESOURCE_LIMITS (pr_page_count result)) (\<lambda>_. Inr result))"

definition with_ocr ::
    "parse_env \<Rightarrow> SourceRevision \<Rightarrow> string \<Rightarrow> string \<Rightarrow> string list \<Rightarrow> parser \<Rightarrow> uuid \<Rightarrow> ParseResult \<Rightarrow>
     (ParseResult \<times> uuid \<times> parser) res" where
  "with_ocr P revision content mime hints primary run result =
     (if pr_quality_score result < OCR_QUALITY_THRESHOLD then
        let ocr = select_parser mime True; ocr_run = parse_run_id (pe_uuid5 P) (sr_id revision) (profile_hash P ocr)
        in bindr (parse P ocr content mime hints ocr_run) (\<lambda>ocr_result.
           if pr_quality_score result < pr_quality_score ocr_result then Inr (ocr_result, ocr_run, ocr)
           else Inr (result, run, primary))
      else Inr (result, run, primary))"

text \<open>The last part of a run: promotion, shadow or partial, and the completion of the job.\<close>

definition active_payload :: "uuid \<Rightarrow> uuid \<Rightarrow> uuid \<Rightarrow> dict" where
  "active_payload source_id revision_id run =
     [(''source_id'', JStr (str_uuid source_id)), (''revision_id'', JStr (str_uuid revision_id)),
      (''parse_run_id'', JStr (str_uuid run))]"

definition conclude_run ::
    "env \<Rightarrow> uuid \<Rightarrow> Source \<Rightarrow> SourceRevision \<Rightarrow> (uuid \<times> uuid) option \<Rightarrow> bool \<Rightarrow> uuid \<Rightarrow> rat \<Rightarrow> 'a ingest_db_scheme session \<Rightarrow>
     (ParseRunStatus \<times> 'a ingest_db_scheme session) res" where
  "conclude_run E account_id source revision job shadow run quality s =
     bindr (if \<not> shadow \<and> OCR_QUALITY_THRESHOLD \<le> quality then
         bindr (promote_active_parse_run E account_id (sr_space_id revision) (src_id source) (sr_id revision) run
           (active_payload (src_id source) (sr_id revision) run) s) (\<lambda>s1.
         Inr (PRS_SUCCEEDED, SPS_SUCCEEDED, add (set_source_status E source SPS_SUCCEEDED)
           (add (update_parse_run account_id run (\<lambda>r. r\<lparr> run_status := parse_status PRS_SUCCEEDED \<rparr>)) s1)))
       else if shadow then
         Inr (PRS_SUCCEEDED, SPS_RUNNING,
           add (update_parse_run account_id run (\<lambda>r. r\<lparr> run_status := parse_status PRS_SUCCEEDED, run_is_shadow := True \<rparr>)) s)
       else
         Inr (PRS_FAILED, SPS_PARTIAL, add (set_source_status E source SPS_PARTIAL)
           (add (update_parse_run account_id run (\<lambda>r. r\<lparr> run_status := parse_status PRS_FAILED,
             run_error_code := Some ''quality_below_threshold'' \<rparr>)) s)))
     (\<lambda>(parse_row_status, status, s1).
     bindr (finish_job E account_id job (status \<in> {SPS_SUCCEEDED, SPS_PARTIAL}) None None s1) (\<lambda>s2.
     Inr (parse_row_status, s2)))"

definition record_result ::
    "env \<Rightarrow> parse_env \<Rightarrow> 'b storage_env \<Rightarrow> uuid \<Rightarrow> Source \<Rightarrow> SourceRevision \<Rightarrow> (uuid \<times> uuid) option \<Rightarrow> bool \<Rightarrow>
     ParseResult \<Rightarrow> uuid \<Rightarrow> parser \<Rightarrow> 'b storage \<Rightarrow> ('a ingest_db_scheme, IngestionOutcome \<times> 'b storage) op" where
  "record_result E P S account_id source revision job shadow result run primary st s =
     bindr (store_parser_artifact S account_id (sr_space_id revision) run (pr_raw_artifact_bytes result) st) (\<lambda>(artifact_key, st').
     bindr (persist_parse_run (new_parse_run E account_id revision (profile_value (parser_profile primary))
       (profile_hash P primary) run PRS_RUNNING (pr_quality_score result)
       [(''stage'', JStr ''parsed''), (''pages'', JInt (pr_page_count result))] (Some artifact_key) None None shadow) s) (\<lambda>s1.
     bindr (persist_elements E account_id (sr_space_id revision) run result s1) (\<lambda>(element_count, s2).
     if validate_parse_result result \<noteq> [] then
       bindr (scalar_one (filter (\<lambda>r. run_account_id r = account_id \<and> run_id r = run) (t_parse_run (tables s2)))) (\<lambda>_.
       bindr (finish_job E account_id job False (Some ''validation_failed'') None
         (add (set_source_status E source SPS_FAILED)
           (add (update_parse_run account_id run (\<lambda>r. r\<lparr> run_status := parse_status PRS_FAILED,
             run_error_code := Some ''validation_failed'',
             run_error_detail_safe := Some ''Normalized output failed validation.'' \<rparr>)) s2))) (\<lambda>s3.
       Inr ((\<lparr> io_parse_run_id = run, io_status = PRS_FAILED, io_quality_score = pr_quality_score result,
              io_element_count = element_count \<rparr>, st'), s3)))
     else
       bindr (conclude_run E account_id source revision job shadow run (pr_quality_score result) s2) (\<lambda>(parse_row_status, s3).
       Inr ((\<lparr> io_parse_run_id = run, io_status = parse_row_status, io_quality_score = pr_quality_score result,
              io_element_count = element_count \<rparr>, st'), s3)))))"

section \<open>A run\<close>

text \<open>The parser and the parse run that a revision's content leads to.\<close>

definition chosen_mime :: "SourceRevision \<Rightarrow> string \<Rightarrow> string" where
  "chosen_mime revision content =
     sniff_content_mime (case sr_mime_type revision of None \<Rightarrow> [] | Some m \<Rightarrow> m)
       (case sr_object_key revision of None \<Rightarrow> [] | Some k \<Rightarrow> k) (take 16 content)"

definition chosen_parser :: "SourceRevision \<Rightarrow> string \<Rightarrow> parser" where
  "chosen_parser revision content = select_parser (chosen_mime revision content) False"

definition chosen_run :: "parse_env \<Rightarrow> SourceRevision \<Rightarrow> string \<Rightarrow> uuid" where
  "chosen_run P revision content =
     parse_run_id (pe_uuid5 P) (sr_id revision) (profile_hash P (chosen_parser revision content))"

definition parse_run_rows :: "uuid \<Rightarrow> uuid \<Rightarrow> 'a ingest_db_scheme \<Rightarrow> ParseRun list" where
  "parse_run_rows account_id run d = filter (\<lambda>r. run_account_id r = account_id \<and> run_id r = run) (t_parse_run d)"

definition already_parsed :: "ParseRun option \<Rightarrow> bool" where
  "already_parsed existing = (case existing of None \<Rightarrow> False | Some r \<Rightarrow> run_status r = parse_status PRS_SUCCEEDED)"

lemma already_parsed_simps [simp]:
  "\<not> already_parsed None" "already_parsed (Some r) \<longleftrightarrow> run_status r = parse_status PRS_SUCCEEDED"
  by (simp_all add: already_parsed_def)

definition parse_revision ::
    "env \<Rightarrow> parse_env \<Rightarrow> 'b storage_env \<Rightarrow> uuid \<Rightarrow> Source \<Rightarrow> SourceRevision \<Rightarrow> (uuid \<times> uuid) option \<Rightarrow> bool \<Rightarrow>
     string \<Rightarrow> 'b storage \<Rightarrow> ('a ingest_db_scheme, IngestionOutcome \<times> 'b storage) op" where
  "parse_revision E P S account_id source revision job shadow content st s =
     (let mime = chosen_mime revision content;
          hints = language_hints_from_revision revision;
          primary = chosen_parser revision content;
          run = chosen_run P revision content;
          failed_run = (\<lambda>stage msg code detail. new_parse_run E account_id revision (profile_value (parser_profile primary))
            (profile_hash P primary) run PRS_FAILED 0 [(''stage'', JStr stage), (''error'', JStr msg)] None
            (Some code) (Some detail) shadow)
      in bindr (scalar_one_or_none (parse_run_rows account_id run (tables s))) (\<lambda>existing.
         if already_parsed existing \<and> \<not> shadow then
           bindr (finish_job E account_id job True None None (add (set_source_status E source SPS_SUCCEEDED) s)) (\<lambda>s1.
           Inr ((\<lparr> io_parse_run_id = run, io_status = PRS_SUCCEEDED,
                  io_quality_score = (case Option.bind existing run_quality_score of None \<Rightarrow> 0 | Some q \<Rightarrow> q),
                  io_element_count = 0 \<rparr>, st), s1))
         else case parse_and_check P primary content mime hints run of
             Inl (ResourceLimitExceeded code) \<Rightarrow>
               fail_run E account_id source job (failed_run ''resource_limits'' code code code) (Some code) (Some code) st s
           | Inl (ValueError msg) \<Rightarrow>
               fail_run E account_id source job (failed_run ''parse'' msg ''parse_failed'' ''Parsing failed.'')
                 (Some ''parse_failed'') (Some ''Parsing failed.'') st s
           | Inl e \<Rightarrow> Inl e
           | Inr result \<Rightarrow>
               bindr (with_ocr P revision content mime hints primary run result) (\<lambda>(result', run', primary').
               record_result E P S account_id source revision job shadow result' run' primary' st s)))"

definition ingest_body ::
    "env \<Rightarrow> parse_env \<Rightarrow> 'b storage_env \<Rightarrow> uuid \<Rightarrow> Source \<Rightarrow> SourceRevision \<Rightarrow> (uuid \<times> uuid) option \<Rightarrow> bool \<Rightarrow>
     'b storage \<Rightarrow> ('a ingest_db_scheme, IngestionOutcome \<times> 'b storage) op" where
  "ingest_body E P S account_id source revision job shadow st s0 =
     (let s = add (set_source_status E source SPS_RUNNING) s0 in
      bindr (load_revision_bytes S st revision account_id) (\<lambda>content.
      case check_file_size RESOURCE_LIMITS (int (length content)) of
        Inl (ResourceLimitExceeded code) \<Rightarrow>
          fail_run E account_id source job (new_parse_run E account_id revision ''resource_limits'' ''resource_limits_v1''
            (fresh E 2) PRS_FAILED 0 [(''stage'', JStr ''resource_limits''), (''error'', JStr code)] None
            (Some code) (Some code) shadow) None None st s
      | Inl e \<Rightarrow> Inl e
      | Inr _ \<Rightarrow> parse_revision E P S account_id source revision job shadow content st s))"

definition worker_ctx :: "env \<Rightarrow> uuid \<Rightarrow> uuid \<Rightarrow> RequestContext" where
  "worker_ctx E account_id actor_id =
     \<lparr> ctx_account_id = account_id, ctx_actor_id = actor_id, ctx_user_id = actor_id, ctx_purpose = FIRST_PARTY,
       ctx_correlation_id = fresh E 0, ctx_session_id = None, ctx_scopes = [], ctx_eligible_space_ids = [],
       ctx_last_auth_at = None \<rparr>"

definition run_ingestion_for_revision ::
    "env \<Rightarrow> parse_env \<Rightarrow> 'b storage_env \<Rightarrow> uuid \<Rightarrow> uuid \<Rightarrow> uuid \<Rightarrow> uuid \<Rightarrow> uuid option \<Rightarrow> bool \<Rightarrow> 'b storage \<Rightarrow>
     ('a ingest_db_scheme, IngestionOutcome \<times> 'b storage) op" where
  "run_ingestion_for_revision E P S account_id actor_id source_id revision_id job_id shadow st s =
     bindr (revision_of_source account_id source_id revision_id (tables s)) (\<lambda>revision.
     bindr (find_source account_id source_id (tables s)) (\<lambda>source.
     bindr (case job_id of
         None \<Rightarrow> Inr (None, s)
       | Some j \<Rightarrow> bindr (start_job_attempt (E\<lparr> fresh := \<lambda>k. fresh E (k + 1) \<rparr>) account_id j s) (\<lambda>(attempt_id, s1).
           Inr (Some (j, attempt_id), s1))) (\<lambda>(job, s1).
     tenant_scope E (tenant_of (worker_ctx E account_id actor_id))
       (ingest_body E P S account_id source revision job shadow st) s1)))"

section \<open>The OCR fallback\<close>

text \<open>The fallback reports quality zero, so it never replaces a parse.\<close>

lemma with_ocr_keeps:
  assumes "parse P primary content mime hints run = Inr result"
  shows "with_ocr P revision content mime hints primary run result = Inr (result, run, primary)"
  using parse_quality(1) [OF assms]
  by (auto simp: with_ocr_def select_parser_def parse_def parse_ocr_fallback_def Let_def)

lemma parse_and_check_errors:
  assumes "parse_and_check P primary content mime hints run = Inl e"
  shows "(\<exists>c. e = ResourceLimitExceeded c) \<or> (\<exists>m. e = ValueError m)"
  using assms
  by (auto simp: parse_and_check_def bindr_Inl_iff check_page_count_def dest: parse_errors split: if_splits)

lemma parse_and_check_Inr:
  "parse_and_check P primary content mime hints run = Inr result \<Longrightarrow>
     parse P primary content mime hints run = Inr result \<and> pr_page_count result \<le> max_pages RESOURCE_LIMITS"
  by (auto simp: parse_and_check_def bindr_Inr_iff check_page_count_def split: if_splits)

section \<open>How a run that parses ends\<close>

text \<open>Every way through \<open>parse_revision\<close>: the reuse of a run, a failed run, or a recorded result.\<close>

lemma parse_revision_cases:
  fixes s :: "'a ingest_db_scheme session"
  assumes "parse_revision E P S acct source revision job shadow content st s = Inr (x, s')"
  obtains
    (reused) r where "parse_run_rows acct (chosen_run P revision content) (tables s) = [r]"
      "run_status r = parse_status PRS_SUCCEEDED" "\<not> shadow"
      "finish_job E acct job True None None (add (set_source_status E source SPS_SUCCEEDED) s) = Inr s'"
      "io_status (fst x) = PRS_SUCCEEDED"
  | (failed) row code detail where
      "run_id row = chosen_run P revision content" "run_status row = parse_status PRS_FAILED"
      "run_account_id row = acct" "run_source_revision_id row = sr_id revision" "run_is_shadow row = shadow"
      "fail_run E acct source job row code detail st s = Inr (x, s')"
  | (recorded) result where
      "parse P (chosen_parser revision content) content (chosen_mime revision content)
         (language_hints_from_revision revision) (chosen_run P revision content) = Inr result"
      "pr_page_count result \<le> max_pages RESOURCE_LIMITS"
      "record_result E P S acct source revision job shadow result (chosen_run P revision content)
         (chosen_parser revision content) st s = Inr (x, s')"
proof -
  let ?mime = "chosen_mime revision content" and ?hints = "language_hints_from_revision revision"
  let ?p = "chosen_parser revision content" and ?run = "chosen_run P revision content"
  obtain existing where ex: "scalar_one_or_none (parse_run_rows acct ?run (tables s)) = Inr existing"
    using assms by (auto simp: parse_revision_def Let_def bindr_Inr_iff)
  show ?thesis
  proof (cases "already_parsed existing \<and> \<not> shadow")
    case True
    then obtain r where r: "existing = Some r" "run_status r = parse_status PRS_SUCCEEDED" "\<not> shadow"
      by (cases existing) auto
    then show ?thesis
      using assms ex by (intro reused [of r]) (auto simp: parse_revision_def Let_def bindr_Inr_iff scalar_iffs)
  next
    case False
    note run = assms [unfolded parse_revision_def Let_def ex bindr_simps if_not_P [OF False]]
    show ?thesis
    proof (cases "parse_and_check P ?p content ?mime ?hints ?run")
      case (Inl e)
      then consider c where "e = ResourceLimitExceeded c" | m where "e = ValueError m"
        using parse_and_check_errors by blast
      then show ?thesis
        using run Inl by cases (auto intro: failed [rotated 5] simp: new_parse_run_def)
    next
      case (Inr result)
      note ok = parse_and_check_Inr [OF Inr]
      have "with_ocr P revision content ?mime ?hints ?p ?run result = Inr (result, ?run, ?p)"
        using ok by (intro with_ocr_keeps) simp
      then show ?thesis
        using run Inr ok by (intro recorded [of result]) auto
    qed
  qed
qed

section \<open>Tables a run leaves alone\<close>

lemma ingest_tables_more:
  fixes d d' :: "'a ingest_db_scheme"
  assumes "core_db.more d' = core_db.more d"
  shows "t_parse_run d' = t_parse_run d" "t_element d' = t_element d" "t_active_parse d' = t_active_parse d"
    "t_source_revision d' = t_source_revision d"
  using assms by (cases d; cases d'; simp)+

lemma start_attempt_more:
  assumes "start_job_attempt E acct j (d, []) = Inr (i, d1, ps1)"
  shows "core_db.more d1 = core_db.more d" "ps1 = []" "t_source d1 = t_source d"
  using assms by (auto simp: start_job_attempt_def bindr_Inr_iff Let_def insert_attempt_def update_job_def)

lemma complete_job_more:
  assumes "complete_job E acct j a ok c de (d, []) = Inr (u, d1, ps1)"
  shows "core_db.more d1 = core_db.more d" "ps1 = []" "t_source d1 = t_source d"
  using assms by (auto simp: complete_job_def bindr_Inr_iff Let_def update_job_def update_attempt_def)

text \<open>How a run as a whole got to its body.\<close>

lemma run_ingestion_Inr:
  fixes d :: "'a ingest_db_scheme"
  assumes "run_ingestion_for_revision E P S acct actor sid rid job_id shadow st (d, []) = Inr (x, d', ps')"
  obtains revision source job g d1 s3 where
    "revision_of_source acct sid rid d = Inr revision" "find_source acct sid d = Inr source"
    "core_db.more d1 = core_db.more d" "t_source d1 = t_source d"
    "ingest_body E P S acct source revision job shadow st (d1\<lparr> settings := g \<rparr>, []) = Inr (x, s3)"
    "flush s3 = Inr (d', ps')" "map_option fst job = job_id"
proof -
  obtain revision source job s1 where a: "revision_of_source acct sid rid d = Inr revision" "find_source acct sid d = Inr source"
    and j: "(case job_id of None \<Rightarrow> Inr (None, (d, []))
       | Some j \<Rightarrow> bindr (start_job_attempt (E\<lparr> fresh := \<lambda>k. fresh E (k + 1) \<rparr>) acct j (d, [])) (\<lambda>(attempt_id, s1).
           Inr (Some (j, attempt_id), s1))) = Inr (job, s1)"
    and scope: "tenant_scope E (tenant_of (worker_ctx E acct actor)) (ingest_body E P S acct source revision job shadow st) s1 =
      Inr (x, d', ps')"
    using assms by (auto simp: run_ingestion_for_revision_def bindr_Inr_iff)
  obtain d1 where s1: "s1 = (d1, [])" "core_db.more d1 = core_db.more d" "t_source d1 = t_source d"
    "map_option fst job = job_id"
    using j start_attempt_more by (cases job_id) (fastforce simp: bindr_Inr_iff)+
  obtain g s3 where "ingest_body E P S acct source revision job shadow st (d1\<lparr> settings := g \<rparr>, []) = Inr (x, s3)"
    "flush s3 = Inr (d', ps')"
    using scope unfolding s1(1) by (rule tenant_scope_body)
  then show ?thesis using that a s1 by blast
qed

lemma ingest_body_Inr:
  assumes "ingest_body E P S acct source revision job shadow st (d, []) = Inr (x, s')"
  obtains content where "load_revision_bytes S st revision acct = Inr content"
    and "int (length content) \<le> max_file_bytes RESOURCE_LIMITS \<Longrightarrow>
      parse_revision E P S acct source revision job shadow content st (d, [set_source_status E source SPS_RUNNING]) = Inr (x, s')"
    and "max_file_bytes RESOURCE_LIMITS < int (length content) \<Longrightarrow>
      fail_run E acct source job (new_parse_run E acct revision ''resource_limits'' ''resource_limits_v1''
        (fresh E 2) PRS_FAILED 0 [(''stage'', JStr ''resource_limits''), (''error'', JStr ''file_too_large'')] None
        (Some ''file_too_large'') (Some ''file_too_large'') shadow) None None st (d, [set_source_status E source SPS_RUNNING]) =
        Inr (x, s')"
proof -
  obtain content where c: "load_revision_bytes S st revision acct = Inr content"
    using assms by (auto simp: ingest_body_def Let_def bindr_Inr_iff)
  show ?thesis
    by (rule that [OF c]) (use assms c in \<open>auto simp: ingest_body_def Let_def check_file_size_def\<close>)
qed

section \<open>Rows a run writes\<close>

lemma persist_parse_run_Inr:
  "persist_parse_run r (d, [set_source_status E source status]) = Inr s1 \<longleftrightarrow>
     (\<exists>d0 d1. set_source_status E source status d = Inr d0 \<and> insert_parse_run r d0 = Inr d1 \<and> s1 = (d1, []))"
  by (auto simp: persist_parse_run_def bindr_Inr_iff)

lemma insert_parse_run_Inr:
  "insert_parse_run r d = Inr d1 \<Longrightarrow> d1 = d\<lparr> t_parse_run := t_parse_run d @ [r] \<rparr> \<and> run_id r \<notin> run_id ` set (t_parse_run d)"
  by (auto simp: insert_parse_run_def bindr_Inr_iff)

lemma persist_conflict:
  assumes "run_id r \<in> run_id ` set (t_parse_run d)"
  shows "persist_parse_run r (d, [set_source_status E source status]) \<noteq> Inr s1"
  using assms by (auto simp: persist_parse_run_Inr set_source_status_def bindr_Inr_iff dest!: insert_parse_run_Inr)

lemma parse_revision_conflict:
  assumes "parse_revision E P S acct source revision job shadow content st (d, [set_source_status E source SPS_RUNNING]) = Inr (x, s')"
    and "chosen_run P revision content \<in> run_id ` set (t_parse_run d)"
  shows "\<not> shadow \<and> (\<exists>r \<in> set (t_parse_run d). run_id r = chosen_run P revision content \<and>
    run_status r = parse_status PRS_SUCCEEDED)"
  using assms(1)
proof (cases rule: parse_revision_cases)
  case (reused r)
  then show ?thesis
    using filter_singletonD [of _ "t_parse_run d" r] by (auto simp: parse_run_rows_def)
next
  case (failed row code detail)
  then show ?thesis
    using persist_conflict [of row d E source SPS_RUNNING] assms(2) by (auto simp: fail_run_def bindr_Inr_iff)
next
  case (recorded result)
  then obtain row s1 where "persist_parse_run row (d, [set_source_status E source SPS_RUNNING]) = Inr s1"
    "run_id row = chosen_run P revision content"
    by (auto simp: record_result_def bindr_Inr_iff new_parse_run_def)
  then show ?thesis using persist_conflict [of row d E source SPS_RUNNING] assms(2) by auto
qed

section \<open>What a run leaves in the database\<close>

lemma flush_append:
  "flush (d, ps @ qs) = bindr (flush (d, ps)) (\<lambda>(d1, _). flush (d1, qs))"
proof (cases "fold_res (\<lambda>ins. ins) ps d")
  case (Inl e)
  then show ?thesis by (simp add: flush_def fold_res_append)
next
  case (Inr d1)
  then show ?thesis by (simp add: flush_def fold_res_append)
qed

text \<open>Completing the job flushes what is pending before, and touches nothing but the job and its attempt.\<close>

lemma finish_job_flush:
  assumes "finish_job E acct job ok code detail (d, ps) = Inr s1" and "flush s1 = Inr (d', ps')"
  obtains d1 where "flush (d, ps) = Inr (d1, [])" "core_db.more d' = core_db.more d1" "t_source d' = t_source d1"
    "\<forall>j a. job = Some (j, a) \<longrightarrow> (\<forall>r \<in> set (t_job d'). dj_id r = j \<longrightarrow>
       dj_status r = (if ok then ''succeeded'' else ''failed'') \<and> dj_error_code r = code)"
proof (cases job)
  case None
  then show ?thesis using assms flush_pending [of "(d, ps)" "(d', ps')"] by (intro that [of d']) (auto simp: finish_job_def)
next
  case (Some ja)
  obtain j a where ja: "ja = (j, a)" by (cases ja)
  obtain d2 ps2 where fl: "flush (d, ps @ [update_attempt a (\<lambda>x. x\<lparr> ja_finished_at := Some (now E),
        ja_status := (if ok then ''succeeded'' else ''failed''), ja_error_code := code, ja_error_detail_safe := detail \<rparr>),
      update_job j (\<lambda>x. x\<lparr> dj_status := (if ok then ''succeeded'' else ''failed''), dj_error_code := code,
        dj_error_detail_safe := detail, dj_updated_at := now E \<rparr>)]) = Inr (d2, ps2)" and s1: "s1 = (d2, ps2)"
    using assms(1) by (auto simp: finish_job_def Some ja complete_job_def bindr_Inr_iff Let_def add_def)
  have ps2: "ps2 = []" using flush_pending [OF fl] by simp
  obtain d1 ps1 where d1: "flush (d, ps) = Inr (d1, ps1)"
    and d2: "d2 = d1\<lparr> t_attempt := update_rows (\<lambda>x. ja_id x = a) (\<lambda>x. x\<lparr> ja_finished_at := Some (now E),
        ja_status := (if ok then ''succeeded'' else ''failed''), ja_error_code := code, ja_error_detail_safe := detail \<rparr>) (t_attempt d1),
      t_job := update_rows (\<lambda>x. dj_id x = j) (\<lambda>x. x\<lparr> dj_status := (if ok then ''succeeded'' else ''failed''), dj_error_code := code,
        dj_error_detail_safe := detail, dj_updated_at := now E \<rparr>) (t_job d1) \<rparr>"
    using fl by (auto simp: flush_append bindr_Inr_iff update_attempt_def update_job_def)
  have d': "d' = d2" using assms(2) s1 ps2 by simp
  have ps1: "ps1 = []" using flush_pending [OF d1] by simp
  show ?thesis
  proof (rule that [of d1])
    show "flush (d, ps) = Inr (d1, [])" using d1 ps1 by simp
    show "core_db.more d' = core_db.more d1" "t_source d' = t_source d1" by (simp_all add: d' d2)
    have "dj_status r = (if ok then ''succeeded'' else ''failed'') \<and> dj_error_code r = code"
      if r: "r \<in> set (t_job d')" "dj_id r = j" for r
    proof -
    obtain r0 where "r = (if dj_id r0 = j then r0\<lparr> dj_status := (if ok then ''succeeded'' else ''failed''), dj_error_code := code,
        dj_error_detail_safe := detail, dj_updated_at := now E \<rparr> else r0)"
      using r(1) by (auto simp: d' d2 set_update_rows simp del: if_split)
    then show ?thesis using r(2) by (cases "dj_id r0 = j") simp_all
    qed
    then show "\<forall>j a. job = Some (j, a) \<longrightarrow> (\<forall>r \<in> set (t_job d'). dj_id r = j \<longrightarrow>
       dj_status r = (if ok then ''succeeded'' else ''failed'') \<and> dj_error_code r = code)"
      by (simp add: Some ja)
  qed
qed

definition promotable :: "ParseRun \<Rightarrow> bool" where
  "promotable r \<longleftrightarrow> run_status r = parse_status PRS_SUCCEEDED \<and> \<not> run_is_shadow r \<and>
     (\<exists>q. run_quality_score r = Some q \<and> OCR_QUALITY_THRESHOLD \<le> q)"

definition points_at :: "CurrentActiveParseRun \<Rightarrow> ParseRun \<Rightarrow> bool" where
  "points_at c r \<longleftrightarrow> run_id r = ap_parse_run_id c \<and> run_account_id r = ap_account_id c \<and>
     run_source_revision_id r = ap_source_revision_id c"

definition active_ok :: "'a ingest_db_scheme \<Rightarrow> bool" where
  "active_ok d \<longleftrightarrow> distinct (map run_id (t_parse_run d)) \<and>
     (\<forall>c \<in> set (t_active_parse d). \<exists>r \<in> set (t_parse_run d). points_at c r \<and> promotable r)"

definition active_moved :: "CurrentActiveParseRun \<Rightarrow> CurrentActiveParseRun list \<Rightarrow> CurrentActiveParseRun list \<Rightarrow> bool" where
  "active_moved c as as' \<longleftrightarrow> as' = as @ [c] \<or>
     as' = update_rows (same_active c) (\<lambda>x. x\<lparr> ap_parse_run_id := ap_parse_run_id c, ap_updated_at := ap_updated_at c \<rparr>) as"

lemma active_moved_set:
  assumes "active_moved c as as'" and "x \<in> set as'" and "points_at c row"
  shows "x \<in> set as \<or> points_at x row"
proof (cases "x \<in> set as \<or> x = c")
  case True
  then show ?thesis using assms(3) by blast
next
  case False
  then have "x \<in> set (update_rows (same_active c) (\<lambda>x. x\<lparr> ap_parse_run_id := ap_parse_run_id c, ap_updated_at := ap_updated_at c \<rparr>) as)"
    using assms(1,2) by (auto simp: active_moved_def)
  then obtain y where y: "y \<in> set as"
    "x = (if same_active c y then y\<lparr> ap_parse_run_id := ap_parse_run_id c, ap_updated_at := ap_updated_at c \<rparr> else y)"
    unfolding set_update_rows by blast
  then show ?thesis using assms(3) by (cases "same_active c y") (simp_all add: points_at_def same_active_def)
qed

text \<open>The tables after a run, relative to those before: one row of parse run is appended, and the pointer moves to it only if
  it is promotable.\<close>

definition run_written :: "uuid \<Rightarrow> SourceRevision \<Rightarrow> 'a ingest_db_scheme \<Rightarrow> 'a ingest_db_scheme \<Rightarrow> ParseRun \<Rightarrow> bool" where
  "run_written acct revision d d' row \<longleftrightarrow>
     t_parse_run d' = t_parse_run d @ [row] \<and> run_id row \<notin> run_id ` set (t_parse_run d) \<and>
     run_account_id row = acct \<and> run_source_revision_id row = sr_id revision \<and>
     (t_active_parse d' = t_active_parse d \<or>
      promotable row \<and> (\<exists>c. points_at c row \<and> active_moved c (t_active_parse d) (t_active_parse d')))"

lemma run_written_ok:
  assumes "run_written acct revision d d' row" and "active_ok d"
  shows "active_ok d'"
proof -
  have "\<exists>r \<in> set (t_parse_run d'). points_at c r \<and> promotable r" if c: "c \<in> set (t_active_parse d')" for c
  proof (cases "c \<in> set (t_active_parse d)")
    case True
    then show ?thesis using assms by (auto simp: active_ok_def run_written_def)
  next
    case False
    then have "promotable row \<and> points_at c row"
      using assms(1) c active_moved_set unfolding run_written_def by metis
    then show ?thesis using assms(1) by (auto simp: run_written_def)
  qed
  then show ?thesis using assms by (auto simp: active_ok_def run_written_def)
qed

section \<open>What a recorded result leaves\<close>

lemma fold_add: "fold (\<lambda>e. add (g e)) es (d, ps) = (d, ps @ map g es)"
  by (induction es arbitrary: ps) auto

lemma insert_element_Inr: "insert_element r d = Inr d1 \<Longrightarrow> d1 = d\<lparr> t_element := t_element d @ [r] \<rparr>"
  by (auto simp: insert_element_def bindr_Inr_iff)

lemma flush_elements:
  "flush (d, map (\<lambda>e. insert_element (f e)) es) = Inr (d', ps') \<Longrightarrow>
     d' = d\<lparr> t_element := t_element d @ map f es \<rparr> \<and> ps' = []"
proof (induction es arbitrary: d)
  case (Cons e es)
  then obtain d1 where d1: "insert_element (f e) d = Inr d1"
    "flush (d1, map (\<lambda>e. insert_element (f e)) es) = Inr (d', ps')"
    by (auto simp: bindr_Inr_iff)
  show ?case using Cons.IH [OF d1(2)] insert_element_Inr [OF d1(1)] by simp
qed simp

lemma persist_elements_Inr:
  assumes "persist_elements E acct sp run result (d, []) = Inr (n, s2)"
  shows "n = int (length (pr_elements result)) \<and>
    s2 = (d\<lparr> t_element := t_element d @ map (element_row E acct sp run) (pr_elements result) \<rparr>, [])"
proof -
  obtain d2 ps2 where "flush (d, map (\<lambda>e. insert_element (element_row E acct sp run e)) (pr_elements result)) = Inr (d2, ps2)"
    "s2 = (d2, ps2)" "n = int (length (pr_elements result))"
    using assms by (auto simp: persist_elements_def fold_add bindr_Inr_iff)
  then show ?thesis using flush_elements by blast
qed

text \<open>The decision a parse result leads to: the status of the run, that of the source, and whether the job succeeded.\<close>

definition decision :: "bool \<Rightarrow> ParseResult \<Rightarrow> ParseRunStatus \<times> SourceProcessingStatus \<times> bool" where
  "decision shadow result =
     (if validate_parse_result result \<noteq> [] then (PRS_FAILED, SPS_FAILED, False)
      else if shadow then (PRS_SUCCEEDED, SPS_RUNNING, False)
      else if OCR_QUALITY_THRESHOLD \<le> pr_quality_score result then (PRS_SUCCEEDED, SPS_SUCCEEDED, True)
      else (PRS_FAILED, SPS_PARTIAL, True))"

definition new_active :: "env \<Rightarrow> uuid \<Rightarrow> Source \<Rightarrow> SourceRevision \<Rightarrow> uuid \<Rightarrow> CurrentActiveParseRun" where
  "new_active E acct source revision run =
     \<lparr> ap_id = fresh E 4, ap_account_id = acct, ap_space_id = sr_space_id revision, ap_source_id = src_id source,
       ap_source_revision_id = sr_id revision, ap_parse_run_id = run, ap_updated_at = now E \<rparr>"

lemma insert_outbox_tables:
  fixes d d1 :: "'a ingest_db_scheme"
  assumes "insert_outbox e d = Inr d1"
  shows "t_parse_run d1 = t_parse_run d" "t_element d1 = t_element d" "t_active_parse d1 = t_active_parse d" "t_source d1 = t_source d"
  using assms by (auto simp: insert_outbox_def bindr_Inr_iff)

lemma promote_Inr:
  fixes d :: "'a ingest_db_scheme"
  assumes "promote_active_parse_run E acct (sr_space_id revision) (src_id source) (sr_id revision) run payload (d, []) = Inr s1"
  obtains d1 where "s1 = (d1, [])" "t_parse_run d1 = t_parse_run d" "t_element d1 = t_element d" "t_source d1 = t_source d"
    "active_moved (new_active E acct source revision run) (t_active_parse d) (t_active_parse d1)"
proof -
  obtain d0 d2 where ev: "(case find_event acct (fresh E 3) d of
         Some e \<Rightarrow> if oe_payload_sha256 e \<noteq> payload_sha256 E payload then Inl (DBAPIError ''outbox_payload_hash_mismatch'') else Inr d
       | None \<Rightarrow> insert_outbox (pointer_event E (fresh E 3) acct ''source.active_parse_changed''
           (payload_sha256 E payload) payload) d) = Inr d0"
    and up: "upsert_active_parse (new_active E acct source revision run) d0 = Inr d2"
    and s1: "s1 = (d2\<lparr> settings := (settings d2)\<lparr> set_pointer_outbox_ok := [] \<rparr> \<rparr>, [])"
    using assms by (auto simp: promote_active_parse_run_def memdot_set_current_active_parse_run_def Let_def bindr_Inr_iff new_active_def)
  have d0: "t_parse_run d0 = t_parse_run d" "t_element d0 = t_element d" "t_active_parse d0 = t_active_parse d"
      "t_source d0 = t_source d"
    using ev insert_outbox_tables by (auto split: option.splits if_splits)
  have "t_parse_run d2 = t_parse_run d0 \<and> t_element d2 = t_element d0 \<and> t_source d2 = t_source d0 \<and>
    active_moved (new_active E acct source revision run) (t_active_parse d0) (t_active_parse d2)"
    using up by (auto simp: upsert_active_parse_def bindr_Inr_iff new_active_def active_moved_def split: option.splits)
  then show ?thesis using that [of "d2\<lparr> settings := (settings d2)\<lparr> set_pointer_outbox_ok := [] \<rparr> \<rparr>"] s1 d0 by simp
qed

lemma update_last:
  "run \<notin> run_id ` set xs \<Longrightarrow> run_id row = run \<Longrightarrow> update_rows (\<lambda>r. run_id r = run) f (xs @ [row]) = xs @ [f row]"
  by (induction xs) (auto simp: update_rows_def)

text \<open>What holds at the end of a run with a result, given its decision.\<close>

definition result_written ::
    "env \<Rightarrow> uuid \<Rightarrow> Source \<Rightarrow> SourceRevision \<Rightarrow> (uuid \<times> uuid) option \<Rightarrow> uuid \<Rightarrow> ParseResult \<Rightarrow>
     ParseRunStatus \<times> SourceProcessingStatus \<times> bool \<Rightarrow> 'a ingest_db_scheme \<Rightarrow> 'a ingest_db_scheme \<Rightarrow> bool" where
  "result_written E acct source revision job run result dec d d' \<longleftrightarrow>
     (\<exists>row. run_written acct revision d d' row \<and> run_id row = run \<and> run_status row = parse_status (fst dec)) \<and>
     t_element d' = t_element d @ map (element_row E acct (sr_space_id revision) run) (pr_elements result) \<and>
     (\<forall>y \<in> set (t_source d'). src_id y = src_id source \<longrightarrow> src_processing_status y = source_status (fst (snd dec))) \<and>
     (\<forall>j a. job = Some (j, a) \<longrightarrow> (\<forall>r \<in> set (t_job d'). dj_id r = j \<longrightarrow>
        dj_status r = (if snd (snd dec) then ''succeeded'' else ''failed'')))"

text \<open>
  The pending updates of the end of a run: the run's row, and possibly the source's status.
\<close>

lemma flush_run_status:
  fixes d :: "'a ingest_db_scheme"
  assumes "flush (d, update_parse_run acct run f # ps) = Inr (d', ps')" and "ps = [] \<or> ps = [set_source_status E source status]"
    and "t_parse_run d = xs @ [row]" and "run \<notin> run_id ` set xs" and "run_id row = run"
  shows "t_parse_run d' = xs @ [f row] \<and> t_element d' = t_element d \<and> t_active_parse d' = t_active_parse d \<and>
    t_source d' = (if ps = [] then t_source d else update_rows (\<lambda>r. src_id r = src_id source)
      (\<lambda>r. r\<lparr> src_processing_status := source_status status, src_updated_at := now E \<rparr>) (t_source d))"
  using assms by (auto simp: update_parse_run_def set_source_status_def bindr_Inr_iff update_last)

lemma set_source_status_set:
  "y \<in> set (update_rows (\<lambda>r. src_id r = i) (\<lambda>r. r\<lparr> src_processing_status := s, src_updated_at := t \<rparr>) rows) \<Longrightarrow>
     src_id y = i \<Longrightarrow> src_processing_status y = s"
proof -
  assume "y \<in> set (update_rows (\<lambda>r. src_id r = i) (\<lambda>r. r\<lparr> src_processing_status := s, src_updated_at := t \<rparr>) rows)"
    and i: "src_id y = i"
  then obtain r where "y = (if src_id r = i then r\<lparr> src_processing_status := s, src_updated_at := t \<rparr> else r)"
    unfolding set_update_rows by blast
  then show ?thesis using i by (cases "src_id r = i") simp_all
qed

text \<open>The last flush of a run, job included.\<close>

lemma finish_run:
  fixes d :: "'a ingest_db_scheme"
  assumes "finish_job E acct job ok code detail (d, update_parse_run acct run f # ps) = Inr s3" and "flush s3 = Inr (d', ps')"
    and "ps = [] \<and> status = SPS_RUNNING \<or> ps = [set_source_status E source status]"
    and "t_parse_run d = xs @ [row]" and "run \<notin> run_id ` set xs" and "run_id row = run"
    and "\<forall>y \<in> set (t_source d). src_id y = src_id source \<longrightarrow> src_processing_status y = source_status SPS_RUNNING"
  shows "t_parse_run d' = xs @ [f row]" "t_element d' = t_element d" "t_active_parse d' = t_active_parse d"
    "\<forall>y \<in> set (t_source d'). src_id y = src_id source \<longrightarrow> src_processing_status y = source_status status"
    "\<forall>j a. job = Some (j, a) \<longrightarrow> (\<forall>r \<in> set (t_job d'). dj_id r = j \<longrightarrow>
       dj_status r = (if ok then ''succeeded'' else ''failed''))"
proof -
  obtain d2 where fl: "flush (d, update_parse_run acct run f # ps) = Inr (d2, [])"
    and more: "core_db.more d' = core_db.more d2" "t_source d' = t_source d2"
    and jobs: "\<forall>j a. job = Some (j, a) \<longrightarrow> (\<forall>r \<in> set (t_job d'). dj_id r = j \<longrightarrow>
       dj_status r = (if ok then ''succeeded'' else ''failed'') \<and> dj_error_code r = code)"
    using assms(1,2) by (rule finish_job_flush)
  have w: "t_parse_run d2 = xs @ [f row] \<and> t_element d2 = t_element d \<and> t_active_parse d2 = t_active_parse d \<and>
    t_source d2 = (if ps = [] then t_source d else update_rows (\<lambda>r. src_id r = src_id source)
      (\<lambda>r. r\<lparr> src_processing_status := source_status status, src_updated_at := now E \<rparr>) (t_source d))"
    using flush_run_status [OF fl _ assms(4-6)] assms(3) by blast
  note m = ingest_tables_more [OF more(1)]
  show "t_parse_run d' = xs @ [f row]" "t_element d' = t_element d" "t_active_parse d' = t_active_parse d"
    using w m by simp_all
  show "\<forall>y \<in> set (t_source d'). src_id y = src_id source \<longrightarrow> src_processing_status y = source_status status"
  proof (cases "ps = []")
    case True
    then show ?thesis using w more(2) assms(3,7) by simp
  next
    case False
    then show ?thesis using w more(2) by (auto dest: set_source_status_set)
  qed
  show "\<forall>j a. job = Some (j, a) \<longrightarrow> (\<forall>r \<in> set (t_job d'). dj_id r = j \<longrightarrow>
       dj_status r = (if ok then ''succeeded'' else ''failed''))"
    using jobs by blast
qed

lemma conclude_run_Inr:
  fixes d :: "'a ingest_db_scheme"
  assumes con: "conclude_run E acct source revision job shadow run (pr_quality_score result) (d, []) = Inr (stat, s3)"
    and fl: "flush s3 = Inr (d', ps')" and valid: "validate_parse_result result = []"
    and rows: "t_parse_run d = t_parse_run d0 @ [row]" "run \<notin> run_id ` set (t_parse_run d0)" "run_id row = run"
    and row: "run_is_shadow row = shadow" "run_quality_score row = Some (pr_quality_score result)"
      "run_account_id row = acct" "run_source_revision_id row = sr_id revision"
    and running: "\<forall>y \<in> set (t_source d). src_id y = src_id source \<longrightarrow> src_processing_status y = source_status SPS_RUNNING"
    and rest: "t_active_parse d = t_active_parse d0"
      "t_element d = t_element d0 @ map (element_row E acct (sr_space_id revision) run) (pr_elements result)"
  shows "stat = fst (decision shadow result) \<and>
    result_written E acct source revision job run result (decision shadow result) d0 d'"
proof -
  consider (promoted) "\<not> shadow" "OCR_QUALITY_THRESHOLD \<le> pr_quality_score result" | (shadow) shadow
    | (partial) "\<not> shadow" "\<not> OCR_QUALITY_THRESHOLD \<le> pr_quality_score result" by blast
  then show ?thesis
  proof cases
    case promoted
    let ?f = "\<lambda>r. r\<lparr> run_status := parse_status PRS_SUCCEEDED \<rparr>"
    obtain s1 where p: "promote_active_parse_run E acct (sr_space_id revision) (src_id source) (sr_id revision) run
        (active_payload (src_id source) (sr_id revision) run) (d, []) = Inr s1"
      and fin: "finish_job E acct job True None None (add (set_source_status E source SPS_SUCCEEDED)
        (add (update_parse_run acct run ?f) s1)) = Inr s3" and st: "stat = PRS_SUCCEEDED"
      using con promoted by (auto simp: conclude_run_def bindr_Inr_iff)
    from p obtain d1 where d1: "s1 = (d1, [])" "t_parse_run d1 = t_parse_run d" "t_element d1 = t_element d" "t_source d1 = t_source d"
      "active_moved (new_active E acct source revision run) (t_active_parse d) (t_active_parse d1)"
      by (rule promote_Inr)
    have fin': "finish_job E acct job True None None (d1, [update_parse_run acct run ?f, set_source_status E source SPS_SUCCEEDED]) = Inr s3"
      using fin d1(1) by simp
    note w = finish_run [OF fin' fl, of SPS_SUCCEEDED source "t_parse_run d0" row, OF disjI2 [OF refl], unfolded d1, OF rows running]
    have "run_written acct revision d0 d' (?f row)"
      using w d1(5) rows row rest promoted by (auto simp: run_written_def promotable_def points_at_def new_active_def)
    moreover have "decision shadow result = (PRS_SUCCEEDED, SPS_SUCCEEDED, True)"
      using promoted valid by (simp add: decision_def)
    ultimately show ?thesis using st w rest rows by (auto simp: result_written_def)
  next
    case shadow
    let ?f = "\<lambda>r. r\<lparr> run_status := parse_status PRS_SUCCEEDED, run_is_shadow := True \<rparr>"
    have fin: "finish_job E acct job False None None (d, update_parse_run acct run ?f # []) = Inr s3" and st: "stat = PRS_SUCCEEDED"
      using con shadow by (auto simp: conclude_run_def bindr_Inr_iff)
    note w = finish_run [OF fin fl, of SPS_RUNNING source "t_parse_run d0" row, OF disjI1 [OF conjI [OF refl refl]], OF rows running]
    have "run_written acct revision d0 d' (?f row)"
      using w rows row rest by (auto simp: run_written_def)
    moreover have "decision shadow result = (PRS_SUCCEEDED, SPS_RUNNING, False)"
      using shadow valid by (simp add: decision_def)
    ultimately show ?thesis using st w rest rows by (auto simp: result_written_def)
  next
    case partial
    let ?f = "\<lambda>r. r\<lparr> run_status := parse_status PRS_FAILED, run_error_code := Some ''quality_below_threshold'' \<rparr>"
    have fin: "finish_job E acct job True None None (d, [update_parse_run acct run ?f, set_source_status E source SPS_PARTIAL]) = Inr s3"
      and st: "stat = PRS_FAILED"
      using con partial by (auto simp: conclude_run_def bindr_Inr_iff)
    note w = finish_run [OF fin fl, of SPS_PARTIAL source "t_parse_run d0" row, OF disjI2 [OF refl], OF rows running]
    have "run_written acct revision d0 d' (?f row)"
      using w rows row rest by (auto simp: run_written_def)
    moreover have "decision shadow result = (PRS_FAILED, SPS_PARTIAL, True)"
      using partial valid by (simp add: decision_def)
    ultimately show ?thesis using st w rest rows by (auto simp: result_written_def)
  qed
qed

lemma persisted:
  fixes d :: "'a ingest_db_scheme"
  assumes "persist_parse_run r (d, [set_source_status E source SPS_RUNNING]) = Inr s1"
  obtains d1 where "s1 = (d1, [])" "t_parse_run d1 = t_parse_run d @ [r]" "run_id r \<notin> run_id ` set (t_parse_run d)"
    "t_element d1 = t_element d" "t_active_parse d1 = t_active_parse d"
    "\<forall>y \<in> set (t_source d1). src_id y = src_id source \<longrightarrow> src_processing_status y = source_status SPS_RUNNING"
proof -
  obtain d0 d1 where d0: "set_source_status E source SPS_RUNNING d = Inr d0" and d1: "insert_parse_run r d0 = Inr d1" "s1 = (d1, [])"
    using assms unfolding persist_parse_run_Inr by blast
  show ?thesis
    using d0 insert_parse_run_Inr [OF d1(1)] d1(2)
    by (intro that [of d1]) (auto simp: set_source_status_def bindr_Inr_iff dest: set_source_status_set)
qed

lemma record_result_Inr:
  fixes d :: "'a ingest_db_scheme"
  assumes rec: "record_result E P S acct source revision job shadow result run primary st (d, [set_source_status E source SPS_RUNNING]) =
      Inr (x, s3)" and fl: "flush s3 = Inr (d', ps')"
  shows "io_status (fst x) = fst (decision shadow result) \<and> io_parse_run_id (fst x) = run \<and>
    io_element_count (fst x) = int (length (pr_elements result)) \<and>
    result_written E acct source revision job run result (decision shadow result) d d'"
proof -
  obtain key st' s1 n s2 where pers: "persist_parse_run (new_parse_run E acct revision (profile_value (parser_profile primary))
       (profile_hash P primary) run PRS_RUNNING (pr_quality_score result)
       [(''stage'', JStr ''parsed''), (''pages'', JInt (pr_page_count result))] (Some key) None None shadow)
       (d, [set_source_status E source SPS_RUNNING]) = Inr s1"
    and elems: "persist_elements E acct (sr_space_id revision) run result s1 = Inr (n, s2)"
    and rest: "(if validate_parse_result result \<noteq> [] then
       bindr (scalar_one (filter (\<lambda>r. run_account_id r = acct \<and> run_id r = run) (t_parse_run (tables s2)))) (\<lambda>_.
       bindr (finish_job E acct job False (Some ''validation_failed'') None
         (add (set_source_status E source SPS_FAILED)
           (add (update_parse_run acct run (\<lambda>r. r\<lparr> run_status := parse_status PRS_FAILED,
             run_error_code := Some ''validation_failed'',
             run_error_detail_safe := Some ''Normalized output failed validation.'' \<rparr>)) s2))) (\<lambda>s3.
       Inr ((\<lparr> io_parse_run_id = run, io_status = PRS_FAILED, io_quality_score = pr_quality_score result,
              io_element_count = n \<rparr>, st'), s3)))
     else
       bindr (conclude_run E acct source revision job shadow run (pr_quality_score result) s2) (\<lambda>(parse_row_status, s3).
       Inr ((\<lparr> io_parse_run_id = run, io_status = parse_row_status, io_quality_score = pr_quality_score result,
              io_element_count = n \<rparr>, st'), s3))) = Inr (x, s3)"
    using rec by (auto simp: record_result_def bindr_Inr_iff)
  define row where "row = new_parse_run E acct revision (profile_value (parser_profile primary))
       (profile_hash P primary) run PRS_RUNNING (pr_quality_score result)
       [(''stage'', JStr ''parsed''), (''pages'', JInt (pr_page_count result))] (Some key) None None shadow"
  have row: "run_is_shadow row = shadow" "run_quality_score row = Some (pr_quality_score result)"
    "run_account_id row = acct" "run_source_revision_id row = sr_id revision" "run_id row = run"
    by (simp_all add: row_def new_parse_run_def)
  obtain d1 where d1: "s1 = (d1, [])" "t_parse_run d1 = t_parse_run d @ [row]" "run \<notin> run_id ` set (t_parse_run d)"
    "t_element d1 = t_element d" "t_active_parse d1 = t_active_parse d"
    "\<forall>y \<in> set (t_source d1). src_id y = src_id source \<longrightarrow> src_processing_status y = source_status SPS_RUNNING"
    using persisted [OF pers [folded row_def]] row(5) by metis
  define d2 where "d2 = d1\<lparr> t_element := t_element d1 @ map (element_row E acct (sr_space_id revision) run) (pr_elements result) \<rparr>"
  have s2: "s2 = (d2, [])" and n: "n = int (length (pr_elements result))"
    using persist_elements_Inr [OF elems [unfolded d1(1)]] by (simp_all add: d2_def)
  have t2: "t_parse_run d2 = t_parse_run d @ [row]" "t_active_parse d2 = t_active_parse d"
    "t_element d2 = t_element d @ map (element_row E acct (sr_space_id revision) run) (pr_elements result)"
    "\<forall>y \<in> set (t_source d2). src_id y = src_id source \<longrightarrow> src_processing_status y = source_status SPS_RUNNING"
    using d1 by (simp_all add: d2_def)
  show ?thesis
  proof (cases "validate_parse_result result = []")
    case True
    then obtain stat where con: "conclude_run E acct source revision job shadow run (pr_quality_score result) (d2, []) = Inr (stat, s3)"
      and x: "io_status (fst x) = stat" "io_parse_run_id (fst x) = run" "io_element_count (fst x) = n"
      using rest s2 by (auto simp: bindr_Inr_iff)
    show ?thesis
      using conclude_run_Inr [OF con fl True t2(1) d1(3) row(5) row(1-4) t2(4) t2(2,3)] x n by simp
  next
    case False
    let ?f = "\<lambda>r. r\<lparr> run_status := parse_status PRS_FAILED, run_error_code := Some ''validation_failed'',
             run_error_detail_safe := Some ''Normalized output failed validation.'' \<rparr>"
    have fin: "finish_job E acct job False (Some ''validation_failed'') None
        (d2, [update_parse_run acct run ?f, set_source_status E source SPS_FAILED]) = Inr s3"
      and x: "io_status (fst x) = PRS_FAILED" "io_parse_run_id (fst x) = run" "io_element_count (fst x) = n"
      using rest False s2 by (auto simp: bindr_Inr_iff)
    note w = finish_run [OF fin fl, of SPS_FAILED source "t_parse_run d" row, OF disjI2 [OF refl] t2(1) d1(3) row(5) t2(4)]
    have "run_written acct revision d d' (?f row)" using w row t2 d1(3) by (auto simp: run_written_def)
    moreover have "decision shadow result = (PRS_FAILED, SPS_FAILED, False)" using False by (simp add: decision_def)
    ultimately show ?thesis using w x n t2 row by (auto simp: result_written_def)
  qed
qed

lemma fail_run_Inr:
  fixes d :: "'a ingest_db_scheme"
  assumes "fail_run E acct source job failed code detail st (d, [set_source_status E source SPS_RUNNING]) = Inr (x, s3)"
    and "flush s3 = Inr (d', ps')" and "run_account_id failed = acct" and "run_source_revision_id failed = sr_id revision"
  shows "run_written acct revision d d' failed \<and> io_status (fst x) = PRS_FAILED \<and> io_parse_run_id (fst x) = run_id failed"
proof -
  obtain s1 where pers: "persist_parse_run failed (d, [set_source_status E source SPS_RUNNING]) = Inr s1"
    and fin: "finish_job E acct job False code detail (add (set_source_status E source SPS_FAILED) s1) = Inr s3"
    and x: "io_status (fst x) = PRS_FAILED" "io_parse_run_id (fst x) = run_id failed"
    using assms(1) by (auto simp: fail_run_def bindr_Inr_iff)
  obtain d1 where d1: "s1 = (d1, [])" "t_parse_run d1 = t_parse_run d @ [failed]" "run_id failed \<notin> run_id ` set (t_parse_run d)"
    "t_active_parse d1 = t_active_parse d"
    using persisted [OF pers] by metis
  obtain d2 where d2: "flush (d1, [set_source_status E source SPS_FAILED]) = Inr (d2, [])" "core_db.more d' = core_db.more d2"
    using fin [unfolded d1(1) session_simps append_Nil] assms(2) by (rule finish_job_flush)
  have "t_parse_run d2 = t_parse_run d1 \<and> t_active_parse d2 = t_active_parse d1"
    using d2(1) by (auto simp: set_source_status_def bindr_Inr_iff)
  then show ?thesis using ingest_tables_more [OF d2(2)] d1 assms(3,4) x by (auto simp: run_written_def)
qed

text \<open>A run that reuses an earlier one writes neither runs nor pointers.\<close>

lemma reuse_Inr:
  fixes d :: "'a ingest_db_scheme"
  assumes "finish_job E acct job True None None (add (set_source_status E source SPS_SUCCEEDED)
      (d, [set_source_status E source SPS_RUNNING])) = Inr s3" and "flush s3 = Inr (d', ps')"
  shows "t_parse_run d' = t_parse_run d \<and> t_active_parse d' = t_active_parse d \<and> t_element d' = t_element d"
proof -
  obtain d2 where d2: "flush (d, [set_source_status E source SPS_RUNNING, set_source_status E source SPS_SUCCEEDED]) = Inr (d2, [])"
    "core_db.more d' = core_db.more d2"
    using assms(1) [unfolded session_simps append_Cons append_Nil] assms(2) by (rule finish_job_flush)
  have "t_parse_run d2 = t_parse_run d \<and> t_active_parse d2 = t_active_parse d \<and> t_element d2 = t_element d"
    using d2(1) by (auto simp: set_source_status_def bindr_Inr_iff)
  then show ?thesis using ingest_tables_more [OF d2(2)] by simp
qed

lemma active_ok_cong:
  "t_parse_run d' = t_parse_run d \<Longrightarrow> t_active_parse d' = t_active_parse d \<Longrightarrow> active_ok d' = active_ok d"
  by (simp add: active_ok_def)

lemma ingest_body_ok:
  fixes d :: "'a ingest_db_scheme"
  assumes body: "ingest_body E P S acct source revision job shadow st (d, []) = Inr (x, s3)" and fl: "flush s3 = Inr (d', ps')"
    and ok: "active_ok d"
  shows "active_ok d'"
  using body
proof (rule ingest_body_Inr)
  fix content
  assume small: "int (length content) \<le> max_file_bytes RESOURCE_LIMITS \<Longrightarrow>
      parse_revision E P S acct source revision job shadow content st (d, [set_source_status E source SPS_RUNNING]) = Inr (x, s3)"
    and big: "max_file_bytes RESOURCE_LIMITS < int (length content) \<Longrightarrow>
      fail_run E acct source job (new_parse_run E acct revision ''resource_limits'' ''resource_limits_v1''
        (fresh E 2) PRS_FAILED 0 [(''stage'', JStr ''resource_limits''), (''error'', JStr ''file_too_large'')] None
        (Some ''file_too_large'') (Some ''file_too_large'') shadow) None None st (d, [set_source_status E source SPS_RUNNING]) =
        Inr (x, s3)"
  show ?thesis
  proof (cases "int (length content) \<le> max_file_bytes RESOURCE_LIMITS")
    case False
    then show ?thesis
      using fail_run_Inr [OF big fl, of revision] ok run_written_ok by (auto simp: new_parse_run_def)
  next
    case True
    from small [OF this] show ?thesis
    proof (cases rule: parse_revision_cases)
      case (reused r)
      then show ?thesis using reuse_Inr [OF _ fl] ok active_ok_cong by blast
    next
      case (failed row code detail)
      then show ?thesis using fail_run_Inr [OF failed(6) fl failed(3,4)] ok run_written_ok by blast
    next
      case (recorded result)
      then show ?thesis using record_result_Inr [OF recorded(3) fl] ok run_written_ok by (auto simp: result_written_def)
    qed
  qed
qed

section \<open>A concrete run\<close>

definition demo_revision :: SourceRevision where
  "demo_revision =
     \<lparr> sr_id = 77, sr_account_id = 1, sr_space_id = 5, sr_source_id = 30, sr_snapshot_sha256 = demo_digest,
       sr_captured_at = 0, sr_source_native_version = None, sr_mime_type = Some ''text/plain'', sr_language_hints = None,
       sr_byte_count = Some 4, sr_page_count = None, sr_object_key = Some demo_key, sr_created_at = 0 \<rparr>"

definition demo_ingest :: "ParseRun list \<Rightarrow> ingest_db" where
  "demo_ingest runs = source_db.extend (demo_uploads\<lparr> t_source_revision := [demo_revision] \<rparr>)
     \<lparr> t_parse_run = runs, t_element = [], t_active_parse = [] \<rparr>"

definition demo_bucket :: "(string \<rightharpoonup> string) storage" where
  "demo_bucket = S3ObjectStorage [demo_key \<mapsto> ''data'']"

lemma demo_ingest_tables [simp]:
  "t_actor (demo_ingest runs) = t_actor demo_core" "t_account_member (demo_ingest runs) = t_account_member demo_core"
  "t_parse_run (demo_ingest runs) = runs" "t_active_parse (demo_ingest runs) = []" "t_element (demo_ingest runs) = []"
  "t_source_revision (demo_ingest runs) = [demo_revision]" "t_source (demo_ingest runs) = [demo_source]"
  "t_account (demo_ingest runs) = t_account demo_core" "t_outbox (demo_ingest runs) = []"
  by (simp_all add: demo_ingest_def demo_uploads_def core_db.defs source_db.defs demo_core_def)

lemma demo_revision_sel [simp]:
  "sr_id demo_revision = 77" "sr_account_id demo_revision = 1" "sr_space_id demo_revision = 5" "sr_source_id demo_revision = 30"
  "sr_mime_type demo_revision = Some ''text/plain''" "sr_object_key demo_revision = Some demo_key"
  "sr_language_hints demo_revision = None"
  by (simp_all add: demo_revision_def)

lemma demo_source_sel [simp]:
  "src_id demo_source = 30" "src_account_id demo_source = 1" "src_space_id demo_source = 5"
  by (simp_all add: demo_source_def)

lemma demo_lookup:
  "revision_of_source 1 30 77 (demo_ingest runs) = Inr demo_revision" "find_source 1 30 (demo_ingest runs) = Inr demo_source"
  by (simp_all add: revision_of_source_def find_source_def)

lemma demo_load: "load_revision_bytes demo_storage_env demo_bucket demo_revision 1 = Inr ''data''"
  by (simp add: load_revision_bytes_def storage_read_def demo_bucket_def s3_read_object_bytes_def demo_key_bound
      demo_storage_env_def demo_client_def)

lemma demo_bare_mime: "bare_mime ''text/plain'' = ''text/plain''"
  by code_simp

lemma demo_chosen:
  "chosen_mime demo_revision ''data'' = ''text/plain''" "chosen_parser demo_revision ''data'' = NativeTextParser"
  "chosen_run demo_parse_env demo_revision ''data'' = 141"
proof -
  show m: "chosen_mime demo_revision ''data'' = ''text/plain''"
    by (simp add: chosen_mime_def sniff_content_mime_def demo_bare_mime starts_with_def)
  have "py_lower (py_strip (hd (py_split (CHR '';'') ''text/plain''))) = ''text/plain''"
    using demo_bare_mime by (simp add: bare_mime_def)
  then show p: "chosen_parser demo_revision ''data'' = NativeTextParser"
    by (simp add: chosen_parser_def m select_parser_def TEXT_MIMES_def)
  show "chosen_run demo_parse_env demo_revision ''data'' = 141"
    by (simp add: chosen_run_def p profile_hash_def parse_run_id_def demo_parse_env_def)
qed

definition demo_result :: ParseResult where
  "demo_result = parse_native_text demo_parse_env ''data'' [''en''] 141"

lemma demo_lines: "text_lines demo_parse_env ''data'' = [''data'']"
  by (simp add: text_lines_def demo_parse_env_def py_splitlines.simps line_break_def py_strip_def py_lstrip_def is_space_def)

lemma demo_result_elements: "map ne_element_id (pr_elements demo_result) = [212]" "length (pr_elements demo_result) = 1"
proof -
  have "dec_nat 1 = ''1''" by code_simp
  then have "text_names demo_parse_env [''data''] = [''line:1:data'' @ replicate 60 (CHR ''0'')]"
    by (simp add: text_names_def demo_parse_env_def del: dec_nat.simps)
  then show "map ne_element_id (pr_elements demo_result) = [212]"
    using text_elements(3) [of demo_parse_env "''data''" "[''en'']" 141]
    by (simp add: demo_result_def demo_lines) (simp add: demo_parse_env_def)
  show "length (pr_elements demo_result) = 1" by (simp add: demo_result_def text_result demo_lines)
qed

lemma demo_parse:
  "parse_and_check demo_parse_env NativeTextParser ''data'' ''text/plain'' [''en''] 141 = Inr demo_result"
  by (simp add: parse_and_check_def parse_def check_page_count_def RESOURCE_LIMITS_def demo_result_def)
    (simp add: parse_native_text_def demo_lines Let_def del: dec_nat.simps)

lemma demo_decision: "validate_parse_result demo_result = []" "pr_quality_score demo_result = 1"
proof -
  show q: "pr_quality_score demo_result = 1" by (simp add: demo_result_def text_result demo_lines)
  have "length (ne_content_hash e) = 64" if "e \<in> set (pr_elements demo_result)" for e
    using text_hashes [OF that [unfolded demo_result_def]] by (simp add: demo_parse_env_def)
  then show "validate_parse_result demo_result = []"
    using demo_result_elements by (auto simp: validate_Nil_iff)
qed

lemma demo_artifact:
  "\<exists>key. store_parser_artifact demo_storage_env 1 5 141 art demo_bucket = Inr (key, demo_bucket)"
proof -
  have "\<not> py_in ''..'' ''parser-artifact.json''" by code_simp
  then show ?thesis
    by (simp add: store_parser_artifact_def build_object_key_def artifact_parts_def demo_bucket_def starts_with_def
        del: py_in.simps)
qed

lemma demo_tenant_worker: "tenant_of (worker_ctx demo_env 1 20) = demo_tenant"
  by (simp add: tenant_of_def worker_ctx_def demo_tenant_def)

lemma demo_run:
  "\<exists>x d'. run_ingestion_for_revision demo_env demo_parse_env demo_storage_env 1 20 30 77 None False demo_bucket
     (demo_ingest [], []) = Inr (x, d', []) \<and> length (t_active_parse d') = 1"
proof -
  define body :: "(ingest_db, IngestionOutcome \<times> (string \<rightharpoonup> string) storage) op" where
    "body = ingest_body demo_env demo_parse_env demo_storage_env 1 demo_source demo_revision None False demo_bucket"
  obtain g where sc: "tenant_scope demo_env demo_tenant body (demo_ingest [], []) =
      bindr (body ((demo_ingest [])\<lparr> settings := g \<rparr>, [])) (\<lambda>(r, s3). bindr (flush s3) (\<lambda>s4. Inr (r, s4)))"
    by (rule demo_scope) (rule demo_ingest_tables)+
  obtain key where art: "store_parser_artifact demo_storage_env 1 5 141 (pr_raw_artifact_bytes demo_result) demo_bucket = Inr (key, demo_bucket)"
    using demo_artifact by blast
  obtain e where e: "pr_elements demo_result = [e]" "ne_element_id e = 212"
    using demo_result_elements by (cases "pr_elements demo_result") auto
  have ocr: "with_ocr demo_parse_env demo_revision ''data'' ''text/plain'' [''en''] NativeTextParser 141 demo_result =
      Inr (demo_result, 141, NativeTextParser)"
    by (simp add: with_ocr_def demo_decision OCR_QUALITY_THRESHOLD_def)
  have acc: "t_account demo_core = [\<lparr> acc_id = 1, acc_account_id = 1, acc_status = ''active'', acc_display_name = None,
         acc_timezone = None, acc_created_at = 0, acc_updated_at = 0 \<rparr>]" by (simp add: demo_core_def)
  have pr: "body ((demo_ingest [])\<lparr> settings := g \<rparr>, []) =
      record_result demo_env demo_parse_env demo_storage_env 1 demo_source demo_revision None False demo_result 141
        NativeTextParser demo_bucket ((demo_ingest [])\<lparr> settings := g \<rparr>, [set_source_status demo_env demo_source SPS_RUNNING])"
    by (simp add: body_def ingest_body_def demo_load check_file_size_def RESOURCE_LIMITS_def parse_revision_def demo_chosen
        language_hints_from_revision_def demo_parse parse_run_rows_def ocr)
  have "\<exists>x d'. tenant_scope demo_env demo_tenant body (demo_ingest [], []) = Inr (x, d', []) \<and> length (t_active_parse d') = 1"
    unfolding sc pr
    by (simp add: record_result_def art persist_parse_run_def set_source_status_def pending_gate_def acc insert_parse_run_def
        unique_key_def foreign_key_def check_in_def PARSE_STATUSES_def new_parse_run_def persist_elements_def e insert_element_def
        element_row_def demo_decision conclude_run_def OCR_QUALITY_THRESHOLD_def promote_active_parse_run_def
        memdot_set_current_active_parse_run_def find_event_def insert_outbox_def pointer_event_def upsert_active_parse_def
        active_parse_keys_def finish_job_def update_parse_run_def update_rows_def)
  then show ?thesis
    by (simp add: run_ingestion_for_revision_def demo_lookup demo_tenant_worker body_def)
qed

section \<open>Properties\<close>

text \<open>
  (C21) Only good parses become visible: along every call of the ingestion that returns, from a database where it holds, each active
  parse run stays a run of that very revision and account that succeeded, is not a shadow run and reached the quality
  threshold. A failed, shadow or low-quality run is never made active, whatever the parser, the content or the storage do.
\<close>

theorem active_parse_promotable:
  fixes d :: "'a ingest_db_scheme"
  assumes "run_ingestion_for_revision E P S acct actor sid rid job_id shadow st (d, []) = Inr (x, d', ps')"
    and "active_ok d"
  shows "active_ok d'"
  using assms(1)
proof (rule run_ingestion_Inr)
  fix revision source job g d1 s3
  assume more: "core_db.more d1 = core_db.more d"
    and body: "ingest_body E P S acct source revision job shadow st (d1\<lparr> settings := g \<rparr>, []) = Inr (x, s3)"
    and fl: "flush s3 = Inr (d', ps')"
  have "active_ok (d1\<lparr> settings := g \<rparr>)"
    using ingest_tables_more [OF more] assms(2) by (simp add: active_ok_def)
  then show ?thesis using ingest_body_ok [OF body fl] by blast
qed

theorem active_parse_promotable_witness:
  "\<exists>x d'. run_ingestion_for_revision demo_env demo_parse_env demo_storage_env 1 20 30 77 None False demo_bucket
     (demo_ingest [], []) = Inr (x, d', []) \<and> length (t_active_parse d') = 1 \<and> active_ok d'"
proof -
  obtain x d' where run: "run_ingestion_for_revision demo_env demo_parse_env demo_storage_env 1 20 30 77 None False demo_bucket
     (demo_ingest [], []) = Inr (x, d', [])" "length (t_active_parse d') = 1"
    using demo_run by blast
  have "active_ok (demo_ingest [])" by (simp add: active_ok_def)
  then show ?thesis using active_parse_promotable [OF run(1)] run by blast
qed

text \<open>
  (C22) The outcome of a run is decided by the parse alone: for content within the size limit that parses within the page limit, and
  no run of that parser recorded yet, a call that returns has recorded exactly one parse run with all elements of the
  result in order, and the statuses of run, source and job are those of the decision table: validation errors
  fail all three, a good parse succeeds in all three, a poor one leaves a failed run, a partial source and a
  succeeded job, and a shadow run leaves a succeeded run, a source still marked running and a failed job.
\<close>

theorem ingestion_decision:
  fixes d :: "'a ingest_db_scheme"
  assumes "run_ingestion_for_revision E P S acct actor sid rid job_id shadow st (d, []) = Inr (x, d', ps')"
    and "revision_of_source acct sid rid d = Inr revision" and "load_revision_bytes S st revision acct = Inr content"
    and "int (length content) \<le> max_file_bytes RESOURCE_LIMITS"
    and "parse_and_check P (chosen_parser revision content) content (chosen_mime revision content)
      (language_hints_from_revision revision) (chosen_run P revision content) = Inr result"
    and "chosen_run P revision content \<notin> run_id ` set (t_parse_run d)"
  shows "io_status (fst x) = fst (decision shadow result) \<and> io_parse_run_id (fst x) = chosen_run P revision content \<and>
    (\<exists>row. t_parse_run d' = t_parse_run d @ [row] \<and> run_id row = chosen_run P revision content \<and>
       run_status row = parse_status (fst (decision shadow result))) \<and>
    t_element d' = t_element d @ map (element_row E acct (sr_space_id revision) (chosen_run P revision content)) (pr_elements result) \<and>
    (\<forall>y \<in> set (t_source d'). src_id y = sid \<longrightarrow> src_processing_status y = source_status (fst (snd (decision shadow result)))) \<and>
    (\<forall>j. job_id = Some j \<longrightarrow> (\<forall>r \<in> set (t_job d'). dj_id r = j \<longrightarrow>
       dj_status r = (if snd (snd (decision shadow result)) then ''succeeded'' else ''failed'')))"
  using assms(1)
proof (rule run_ingestion_Inr)
  fix revision' source job g d1 s3
  assume "revision_of_source acct sid rid d = Inr revision'" and src: "find_source acct sid d = Inr source"
    and more: "core_db.more d1 = core_db.more d"
    and b: "ingest_body E P S acct source revision' job shadow st (d1\<lparr> settings := g \<rparr>, []) = Inr (x, s3)"
    and fl: "flush s3 = Inr (d', ps')" and j: "map_option fst job = job_id"
  then have body: "ingest_body E P S acct source revision job shadow st (d1\<lparr> settings := g \<rparr>, []) = Inr (x, s3)"
    using assms(2) by simp
  let ?d = "d1\<lparr> settings := g \<rparr>"
  note t = ingest_tables_more [OF more]
  have none: "chosen_run P revision content \<notin> run_id ` set (t_parse_run ?d)" using assms(6) t by simp
  have pr: "parse_revision E P S acct source revision job shadow content st (?d, [set_source_status E source SPS_RUNNING]) = Inr (x, s3)"
    using body assms(3,4) by (auto elim: ingest_body_Inr)
  have rows: "parse_run_rows acct (chosen_run P revision content) ?d = []"
    using none by (auto simp: parse_run_rows_def filter_empty_conv image_iff)
  have ocr: "with_ocr P revision content (chosen_mime revision content) (language_hints_from_revision revision)
      (chosen_parser revision content) (chosen_run P revision content) result =
      Inr (result, chosen_run P revision content, chosen_parser revision content)"
    using parse_and_check_Inr [OF assms(5)] by (intro with_ocr_keeps) simp
  have rec: "record_result E P S acct source revision job shadow result (chosen_run P revision content)
      (chosen_parser revision content) st (?d, [set_source_status E source SPS_RUNNING]) = Inr (x, s3)"
    using pr rows assms(5) ocr by (simp add: parse_revision_def Let_def)
  have "src_id source = sid" using find_source_id [OF src] by simp
  then show ?thesis
    using record_result_Inr [OF rec fl] t j by (auto simp: result_written_def run_written_def)
qed

theorem ingestion_decision_witness:
  "\<exists>x d'. run_ingestion_for_revision demo_env demo_parse_env demo_storage_env 1 20 30 77 None False demo_bucket
     (demo_ingest [], []) = Inr (x, d', []) \<and> io_status (fst x) = PRS_SUCCEEDED \<and>
     t_element d' = map (element_row demo_env 1 5 141) (pr_elements demo_result)"
proof -
  obtain x d' where run: "run_ingestion_for_revision demo_env demo_parse_env demo_storage_env 1 20 30 77 None False demo_bucket
     (demo_ingest [], []) = Inr (x, d', [])"
    using demo_run by blast
  have "decision False demo_result = (PRS_SUCCEEDED, SPS_SUCCEEDED, True)"
    by (simp add: decision_def demo_decision OCR_QUALITY_THRESHOLD_def)
  then show ?thesis
    using ingestion_decision [OF run demo_lookup(1) demo_load] run
    by (simp add: RESOURCE_LIMITS_def demo_chosen language_hints_from_revision_def demo_parse)
qed

text \<open>
  (C23) A revision within the size limit is parsed once: while a parse run of the parser that its content selects is recorded and is
  not reused, that is after a failed run, or for a shadow run, every further ingestion of the revision raises, so retrying
  never succeeds. (The identifier of the run is a function of revision and parser, and every branch past the size check inserts it
  again. Content over the limit is not covered: it is recorded as failed under a fresh identifier each time.)
\<close>

theorem reingestion_never_returns:
  fixes d :: "'a ingest_db_scheme"
  assumes "revision_of_source acct sid rid d = Inr revision" and "load_revision_bytes S st revision acct = Inr content"
    and "int (length content) \<le> max_file_bytes RESOURCE_LIMITS"
    and "chosen_run P revision content \<in> run_id ` set (t_parse_run d)"
    and "shadow \<or> (\<forall>r \<in> set (t_parse_run d). run_id r = chosen_run P revision content \<longrightarrow> run_status r \<noteq> ''succeeded'')"
  shows "\<exists>e. run_ingestion_for_revision E P S acct actor sid rid job_id shadow st (d, []) = Inl e"
proof (cases "run_ingestion_for_revision E P S acct actor sid rid job_id shadow st (d, [])")
  case (Inr y)
  obtain x d' ps' where y: "y = (x, d', ps')" by (cases y) auto
  have False
    using Inr [unfolded y]
  proof (rule run_ingestion_Inr)
    fix revision' source job g d1 s3
    assume "revision_of_source acct sid rid d = Inr revision'"
      and more: "core_db.more d1 = core_db.more d"
      and "ingest_body E P S acct source revision' job shadow st (d1\<lparr> settings := g \<rparr>, []) = Inr (x, s3)"
    then have "ingest_body E P S acct source revision job shadow st (d1\<lparr> settings := g \<rparr>, []) = Inr (x, s3)"
      using assms(1) by simp
    then have pr: "parse_revision E P S acct source revision job shadow content st
        (d1\<lparr> settings := g \<rparr>, [set_source_status E source SPS_RUNNING]) = Inr (x, s3)"
      using assms(2,3) by (auto elim: ingest_body_Inr)
    have "t_parse_run (d1\<lparr> settings := g \<rparr>) = t_parse_run d" using ingest_tables_more(1) [OF more] by simp
    then show False
      using parse_revision_conflict [OF pr] assms(4,5) by (auto simp: parse_status_def)
  qed
  then show ?thesis by blast
qed blast


theorem reingestion_never_returns_witness:
  "\<exists>row e. run_id row = 141 \<and> run_status row = ''failed'' \<and>
     run_ingestion_for_revision demo_env demo_parse_env demo_storage_env 1 20 30 77 None False demo_bucket
       (demo_ingest [row], []) = Inl e"
proof -
  let ?row = "new_parse_run demo_env 1 demo_revision ''native_text_v1'' [] 141 PRS_FAILED 0 [] None None None False"
  have "\<exists>e. run_ingestion_for_revision demo_env demo_parse_env demo_storage_env 1 20 30 77 None False demo_bucket
       (demo_ingest [?row], []) = Inl e"
    using reingestion_never_returns [OF demo_lookup(1) demo_load, of demo_parse_env "[?row]" False demo_env 20 None]
    by (simp add: RESOURCE_LIMITS_def demo_chosen new_parse_run_def parse_status_def)
  moreover have "run_id ?row = 141" "run_status ?row = ''failed''" by (simp_all add: new_parse_run_def parse_status_def)
  ultimately show ?thesis by blast
qed

end
