(* ===== verification/Processor.thy ===== *)
theory Processor
  imports Ingestion Auth_Snapshot
begin

text \<open>
  Dispatch of outbox events to workers, \<open>services/core/src/memdot_core/jobs/processor.py\<close>: a claimed batch is processed event
  by event. Ingestion events run only under a job whose signed authorization snapshot is still valid; deletion events
  advance their workflow; an event is acknowledged with the token it was claimed with.

  The claim returns the columns of \<open>ClaimedEvent\<close>, without \<open>durable_job_id\<close>, so \<open>event.get("durable_job_id")\<close> is \<open>None\<close>
  and the job is the one the payload names. The payload column holds objects. An exception leaves the batch; whoever owns the
  transaction rolls it back.
\<close>

section \<open>Operations\<close>

record DispatchResult =
  dis_event_id :: uuid
  dis_acknowledged :: bool
  dis_job_id :: "uuid option"

definition INGESTION_EVENT_TYPES :: "string list" where
  "INGESTION_EVENT_TYPES = [''source.upload_completed'', ''source.retry_requested'', ''source.reprocess_requested'']"

definition DELETION_EVENT_TYPES :: "string list" where
  "DELETION_EVENT_TYPES = [''deletion.tombstoned'', ''deletion.workflow_advanced'']"

definition not_acknowledged :: "ClaimedEvent \<Rightarrow> uuid option \<Rightarrow> DispatchResult" where
  "not_acknowledged event job_id =
     \<lparr> dis_event_id = ce_id event, dis_acknowledged = False, dis_job_id = job_id \<rparr>"

definition ack :: "env \<Rightarrow> ClaimedEvent \<Rightarrow> uuid option \<Rightarrow> ('a core_db_scheme, DispatchResult) op" where
  "ack E event job_id s =
     (case ce_claim_token event of
        None \<Rightarrow> Inr (not_acknowledged event job_id, s)
      | Some token \<Rightarrow>
          bindr (ack_outbox_event E (ce_account_id event) (ce_id event) token s) (\<lambda>(acked, s1).
          Inr (\<lparr> dis_event_id = ce_id event, dis_acknowledged = acked, dis_job_id = job_id \<rparr>, s1)))"

definition progression :: "string \<Rightarrow> string option" where
  "progression = map_of [(''tombstoned'', ''revoking_grants''), (''revoking_grants'', ''purging_projections''),
     (''purging_projections'', ''completed'')]"

text \<open>\<open>uuid.UUID(str(actor_raw)) if actor_raw else account_id\<close>, and the account again when it does not parse.\<close>

definition deletion_actor :: "uuid \<Rightarrow> dict \<Rightarrow> uuid" where
  "deletion_actor account_id payload =
     (if truthy (jget payload ''actor_id'') then
        case parse_uuid (py_str (jget payload ''actor_id'')) of Inl _ \<Rightarrow> account_id | Inr u \<Rightarrow> u
      else account_id)"

definition advance_event_workflow :: "env \<Rightarrow> ClaimedEvent \<Rightarrow> uuid \<Rightarrow> ('a core_db_scheme, DispatchResult) op" where
  "advance_event_workflow E event workflow_id s =
     bindr (scalar_one_or_none (filter (\<lambda>w. dw_account_id w = ce_account_id event \<and> dw_id w = workflow_id)
       (t_workflow (tables s)))) (\<lambda>row.
     case row of
       None \<Rightarrow> ack E event None s
     | Some w \<Rightarrow>
         bindr (case progression (dw_state w) of
             None \<Rightarrow> Inr ((), s)
           | Some next_state \<Rightarrow>
               tenant_scope E \<lparr> tc_account_id = ce_account_id event,
                 tc_actor_id = deletion_actor (ce_account_id event) (ce_payload event), tc_purpose = WORKER \<rparr>
                 (\<lambda>s. Inr ((), add (set_workflow_state E workflow_id next_state) s)) s) (\<lambda>(_, s1).
         ack E event None s1))"

definition process_deletion_event :: "env \<Rightarrow> ClaimedEvent \<Rightarrow> ('a core_db_scheme, DispatchResult) op" where
  "process_deletion_event E event s =
     (let workflow_raw = jget (ce_payload event) ''workflow_id'' in
      if workflow_raw = JNull then ack E event None s
      else case parse_uuid (py_str workflow_raw) of
          Inl _ \<Rightarrow> Inr (not_acknowledged event None, s)
        | Inr workflow_id \<Rightarrow> advance_event_workflow E event workflow_id s)"

text \<open>A job whose snapshot is no longer valid: it is marked for re-authorization and ends in the dead letter state.\<close>

definition reject_job :: "env \<Rightarrow> uuid \<Rightarrow> uuid \<Rightarrow> 'a core_db_scheme session \<Rightarrow> 'a core_db_scheme session res" where
  "reject_job E account_id job_id s =
     bindr (mark_dead_letter E account_id job_id (add (update_job job_id (\<lambda>j. j\<lparr> dj_error_code := Some ''auth_snapshot_invalid'',
       dj_error_detail_safe := Some ''Authorization snapshot expired or revoked; re-authorization required.'',
       dj_updated_at := now E, dj_status := job_status JS_DEAD_LETTER \<rparr>)) s)) (\<lambda>(_, s1). Inr s1)"

text \<open>The job an ingestion event names, when there is one with a snapshot.\<close>

definition payload_uuid :: "dict \<Rightarrow> string \<Rightarrow> uuid res" where
  "payload_uuid payload key =
     (case map_of payload key of None \<Rightarrow> Inl (KeyError key) | Some v \<Rightarrow> parse_uuid (py_str v))"

definition process_ingestion_event ::
    "env \<Rightarrow> parse_env \<Rightarrow> 'b storage_env \<Rightarrow> 'b storage \<Rightarrow> ClaimedEvent \<Rightarrow> uuid \<Rightarrow> uuid \<Rightarrow> uuid \<Rightarrow>
     ('a ingest_db_scheme, DispatchResult \<times> 'b storage) op" where
  "process_ingestion_event E P S st event source_id revision_id job_id s =
     (let account_id = ce_account_id event; shadow = truthy (jget_or (ce_payload event) ''shadow'' (JBool False)) in
      bindr (scalar_one_or_none (filter (\<lambda>j. dj_account_id j = account_id \<and> dj_id j = job_id) (t_job (tables s)))) (\<lambda>job.
      case job of
        None \<Rightarrow> Inr ((not_acknowledged event (Some job_id), st), s)
      | Some j \<Rightarrow>
          (case dj_auth_snapshot j of
             None \<Rightarrow> Inr ((not_acknowledged event (Some job_id), st), s)
           | Some snap \<Rightarrow>
               if snap = [] then Inr ((not_acknowledged event (Some job_id), st), s)
               else bindr (validate_auth_snapshot E account_id (Some snap) (dj_space_id j) (tables s)) (\<lambda>valid.
                 if \<not> valid then
                   bindr (reject_job E account_id job_id s) (\<lambda>s1.
                   bindr (ack E event (Some job_id) s1) (\<lambda>(r, s2). Inr ((r, st), s2)))
                 else
                   bindr (payload_uuid snap ''actor_id'') (\<lambda>actor_id.
                   bindr (run_ingestion_for_revision E P S account_id actor_id source_id revision_id (Some job_id) shadow st s)
                     (\<lambda>((outcome, st'), s1).
                   bindr (ack E event (Some job_id) s1) (\<lambda>(r, s2). Inr ((r, st'), s2))))))))"

definition process_claimed_event ::
    "env \<Rightarrow> parse_env \<Rightarrow> 'b storage_env \<Rightarrow> 'b storage \<Rightarrow> ClaimedEvent \<Rightarrow>
     ('a ingest_db_scheme, DispatchResult \<times> 'b storage) op" where
  "process_claimed_event E P S st event s =
     (if ce_event_type event \<in> set DELETION_EVENT_TYPES then
        bindr (process_deletion_event E event s) (\<lambda>(r, s1). Inr ((r, st), s1))
      else if ce_event_type event \<notin> set INGESTION_EVENT_TYPES then Inr ((not_acknowledged event None, st), s)
      else
        bindr (payload_uuid (ce_payload event) ''source_id'') (\<lambda>source_id.
        bindr (payload_uuid (ce_payload event) ''revision_id'') (\<lambda>revision_id.
        let job_raw = jget (ce_payload event) ''durable_job_id'' in
        if \<not> truthy job_raw then Inr ((not_acknowledged event None, st), s)
        else case parse_uuid (py_str job_raw) of
            Inl _ \<Rightarrow> Inr ((not_acknowledged event None, st), s)
          | Inr job_id \<Rightarrow> process_ingestion_event E P S st event source_id revision_id job_id s)))"

text \<open>
  The loop over the batch. An event whose payload no longer has the recorded digest is skipped. \<open>Es\<close> gives each
  event its clock and identifiers.
\<close>

fun dispatch_events ::
    "(nat \<Rightarrow> env) \<Rightarrow> parse_env \<Rightarrow> 'b storage_env \<Rightarrow> nat \<Rightarrow> ClaimedEvent list \<Rightarrow> 'b storage \<Rightarrow>
     ('a ingest_db_scheme, DispatchResult list \<times> 'b storage) op" where
  "dispatch_events Es P S k [] st s = Inr (([], st), s)"
| "dispatch_events Es P S k (event # events) st s =
     (let digest = payload_sha256 (Es k) (ce_payload event) in
      if digest \<noteq> [] \<and> ce_payload_sha256 event \<noteq> digest then dispatch_events Es P S (k + 1) events st s
      else bindr (process_claimed_event (Es k) P S st event s) (\<lambda>((r, st1), s1).
        bindr (dispatch_events Es P S (k + 1) events st1 s1) (\<lambda>((rs, st2), s2). Inr ((r # rs, st2), s2))))"

definition dispatch_outbox_batch ::
    "(nat \<Rightarrow> env) \<Rightarrow> parse_env \<Rightarrow> 'b storage_env \<Rightarrow> uuid \<Rightarrow> uuid list \<Rightarrow> 'b storage option \<Rightarrow> string \<Rightarrow> int \<Rightarrow>
     ('a ingest_db_scheme, DispatchResult list \<times> 'b storage) op" where
  "dispatch_outbox_batch Es P S token locked st worker_id batch_size s =
     (let store = (case st of None \<Rightarrow> MemoryObjectStorage Map.empty | Some x \<Rightarrow> x) in
      bindr (claim_outbox_batch (Es 0) token locked worker_id batch_size 30 s) (\<lambda>(claimed, s1).
      dispatch_events Es P S 1 claimed store s1))"

section \<open>What acknowledging and rejecting touch\<close>

lemma ack_event_Inr:
  assumes "ack E event job_id (d, ps) = Inr (r, d', ps')"
  shows "core_db.more d' = core_db.more d \<and> t_source d' = t_source d \<and> t_job d' = t_job d \<and> t_workflow d' = t_workflow d \<and>
    ps' = ps \<and> dis_event_id r = ce_id event \<and> dis_job_id r = job_id"
  using assms
  by (auto simp: ack_def not_acknowledged_def ack_outbox_event_def memdot_ack_outbox_event_def bindr_Inr_iff split: option.splits)

lemma reject_job_Inr:
  assumes "reject_job E acct job_id (d, []) = Inr (d', ps')"
  shows "core_db.more d' = core_db.more d \<and> t_source d' = t_source d \<and> ps' = [] \<and>
    (\<forall>j \<in> set (t_job d'). dj_id j = job_id \<longrightarrow> dj_status j = ''dead_letter'' \<and> dj_error_code j = Some ''auth_snapshot_invalid'')"
proof -
  let ?f = "\<lambda>j. j\<lparr> dj_error_code := Some ''auth_snapshot_invalid'',
       dj_error_detail_safe := Some ''Authorization snapshot expired or revoked; re-authorization required.'',
       dj_updated_at := now E, dj_status := job_status JS_DEAD_LETTER \<rparr>"
  let ?g = "\<lambda>j. j\<lparr> dj_status := ''dead_letter'', dj_dead_letter_at := Some (now E), dj_updated_at := now E \<rparr>"
  have d': "d' = d\<lparr> t_job := update_rows (\<lambda>j. dj_id j = job_id) ?g (update_rows (\<lambda>j. dj_id j = job_id) ?f (t_job d)) \<rparr>" "ps' = []"
    using assms by (auto simp: reject_job_def mark_dead_letter_def update_job_def bindr_Inr_iff)
  have "dj_status j = ''dead_letter'' \<and> dj_error_code j = Some ''auth_snapshot_invalid''"
    if "j \<in> set (t_job d')" "dj_id j = job_id" for j
  proof -
    have "j \<in> set (update_rows (\<lambda>j. dj_id j = job_id) ?g (update_rows (\<lambda>j. dj_id j = job_id) ?f (t_job d)))"
      using that(1) d' by simp
    from set_update_rows [THEN iffD1, OF this]
    obtain j1 where j1: "j1 \<in> set (update_rows (\<lambda>j. dj_id j = job_id) ?f (t_job d))"
      "j = (if dj_id j1 = job_id then ?g j1 else j1)" ..
    from set_update_rows [THEN iffD1, OF j1(1)]
    obtain j0 where j0: "j1 = (if dj_id j0 = job_id then ?f j0 else j0)" ..
    show ?thesis
    proof (cases "dj_id j0 = job_id")
      case True
      then have "j = ?g (?f j0)" using j0 j1(2) by simp
      then show ?thesis by simp
    next
      case False
      then have "j = j0" using j0 j1(2) by simp
      then show ?thesis using False that(2) by simp
    qed
  qed
  then show ?thesis using d' by simp
qed

lemma not_acknowledged_sel [simp]:
  "\<not> dis_acknowledged (not_acknowledged event j)" "dis_event_id (not_acknowledged event j) = ce_id event"
  by (simp_all add: not_acknowledged_def)

text \<open>How a processed ingestion event ended: nothing done, the job rejected, or the ingestion run.\<close>

lemma process_ingestion_cases:
  fixes s :: "'a ingest_db_scheme session"
  assumes "process_ingestion_event E P S st event sid rid job_id s = Inr ((r, st'), s')"
  obtains (idle) "st' = st" "s' = s" "\<not> dis_acknowledged r" "dis_event_id r = ce_id event"
  | (rejected) j snap s1 where "j \<in> set (t_job (tables s))" "dj_account_id j = ce_account_id event" "dj_id j = job_id"
      "dj_auth_snapshot j = Some snap"
      "validate_auth_snapshot E (ce_account_id event) (Some snap) (dj_space_id j) (tables s) = Inr False"
      "reject_job E (ce_account_id event) job_id s = Inr s1" "ack E event (Some job_id) s1 = Inr (r, s')" "st' = st"
  | (ran) j snap actor_id outcome s1 where "j \<in> set (t_job (tables s))" "dj_account_id j = ce_account_id event" "dj_id j = job_id"
      "dj_auth_snapshot j = Some snap"
      "validate_auth_snapshot E (ce_account_id event) (Some snap) (dj_space_id j) (tables s) = Inr True"
      "payload_uuid snap ''actor_id'' = Inr actor_id"
      "run_ingestion_for_revision E P S (ce_account_id event) actor_id sid rid (Some job_id)
         (truthy (jget_or (ce_payload event) ''shadow'' (JBool False))) st s = Inr ((outcome, st'), s1)"
      "ack E event (Some job_id) s1 = Inr (r, s')"
proof -
  obtain job where job: "scalar_one_or_none (filter (\<lambda>j. dj_account_id j = ce_account_id event \<and> dj_id j = job_id)
      (t_job (tables s))) = Inr job"
    using assms by (auto simp: process_ingestion_event_def Let_def bindr_Inr_iff)
  note run = assms [unfolded process_ingestion_event_def Let_def job bindr_simps]
  show ?thesis
  proof (cases "job = None \<or> dj_auth_snapshot (the job) = None \<or> dj_auth_snapshot (the job) = Some []")
    case True
    then show ?thesis using run by (intro idle) (auto split: option.splits)
  next
    case False
    then obtain j snap where j: "job = Some j" "dj_auth_snapshot j = Some snap" "snap \<noteq> []" by auto
    have jin: "j \<in> set (t_job (tables s))" "dj_account_id j = ce_account_id event" "dj_id j = job_id"
      using job j(1) filter_singletonD [of _ "t_job (tables s)" j] by (auto simp: scalar_iffs)
    obtain valid where v: "validate_auth_snapshot E (ce_account_id event) (Some snap) (dj_space_id j) (tables s) = Inr valid"
      using run j by (auto simp: bindr_Inr_iff)
    show ?thesis
    proof (cases valid)
      case False
      then show ?thesis using run j v jin by (auto simp: bindr_Inr_iff intro: rejected)
    next
      case True
      then show ?thesis using run j v jin by (auto simp: bindr_Inr_iff intro: ran)
    qed
  qed
qed

lemma process_ingestion_Inr:
  fixes s :: "'a ingest_db_scheme session"
  assumes "process_claimed_event E P S st event s = Inr ((r, st'), s')" and "ce_event_type event \<in> set INGESTION_EVENT_TYPES"
  obtains (idle) "st' = st" "s' = s" "\<not> dis_acknowledged r" "dis_event_id r = ce_id event"
  | (job) sid rid job_id where "payload_uuid (ce_payload event) ''source_id'' = Inr sid"
      "payload_uuid (ce_payload event) ''revision_id'' = Inr rid"
      "process_ingestion_event E P S st event sid rid job_id s = Inr ((r, st'), s')"
proof -
  have ty: "ce_event_type event \<notin> set DELETION_EVENT_TYPES"
    using assms(2) by (auto simp: INGESTION_EVENT_TYPES_def DELETION_EVENT_TYPES_def)
  show ?thesis
    using assms ty
    by (auto simp: process_claimed_event_def Let_def bindr_Inr_iff intro: idle job split: if_splits sum.splits)
qed

section \<open>Batches\<close>

lemma ack_event_id: "ack E event job_id s = Inr (r, s') \<Longrightarrow> dis_event_id r = ce_id event"
  for s :: "'a core_db_scheme session"
  by (cases s; cases s') (simp add: ack_event_Inr)

lemma advance_event_result:
  fixes s :: "'a core_db_scheme session"
  assumes "advance_event_workflow E event w s = Inr (r, s')"
  shows "dis_event_id r = ce_id event"
proof -
  obtain row where row: "scalar_one_or_none (filter (\<lambda>x. dw_account_id x = ce_account_id event \<and> dw_id x = w)
      (t_workflow (tables s))) = Inr row"
    using assms by (auto simp: advance_event_workflow_def bindr_Inr_iff)
  note run = assms [unfolded advance_event_workflow_def row bindr_simps]
  have "\<exists>s1. ack E event None s1 = Inr (r, s')"
  proof (cases row)
    case (Some x)
    then show ?thesis using run by (auto simp: bindr_Inr_iff)
  next
    case None
    then have "ack E event None s = Inr (r, s')" using run by simp
    then show ?thesis by (rule exI)
  qed
  then show ?thesis using ack_event_id by blast
qed

lemma process_deletion_result:
  fixes s :: "'a core_db_scheme session"
  assumes "process_deletion_event E event s = Inr (r, s')"
  shows "dis_event_id r = ce_id event"
  using assms advance_event_result [of E event _ s r s'] ack_event_id [of E event None s r s']
  by (auto simp: process_deletion_event_def Let_def split: if_splits sum.splits)

lemma process_claimed_result:
  fixes s :: "'a ingest_db_scheme session"
  assumes "process_claimed_event E P S st event s = Inr ((r, st'), s')"
  shows "dis_event_id r = ce_id event \<and>
    (dis_acknowledged r \<longrightarrow> ce_event_type event \<in> set (DELETION_EVENT_TYPES @ INGESTION_EVENT_TYPES))"
proof (cases "ce_event_type event \<in> set INGESTION_EVENT_TYPES")
  case True
  have "dis_event_id r = ce_id event"
    using assms True
  proof (cases rule: process_ingestion_Inr)
    case (job sid rid job_id)
    from job(3) show ?thesis
    proof (cases rule: process_ingestion_cases)
      case (rejected j snap s1)
      then show ?thesis by (simp add: ack_event_id)
    next
      case (ran j snap actor_id outcome s1)
      then show ?thesis by (simp add: ack_event_id)
    qed
  qed
  then show ?thesis using True by simp
next
  case False
  then show ?thesis
    using assms process_deletion_result [of E event s r]
    by (auto simp: process_claimed_event_def bindr_Inr_iff split: if_splits)
qed

lemma find_actor_id: "find_actor d acct u = Some a \<Longrightarrow> a \<in> set (t_actor d) \<and> act_id a = u"
  unfolding find_actor_def by (auto dest: find_SomeD)

lemma scope_needs_actor:
  assumes "tenant_scope E c body (d, []) = Inr y" and "\<forall>a \<in> set (t_actor d). act_id a \<noteq> tc_actor_id c"
  shows False
proof -
  obtain r d' ps' where y: "y = (r, d', ps')" by (cases y) auto
  obtain d1 s3 where "apply_tenant_context E c (memdot_clear_tenant_context d, []) = Inr (d1, [])"
    using assms(1) [unfolded y] by (rule tenant_scope_Inr)
  then obtain sig where "memdot_begin_tenant_context E (tc_account_id c) (tc_actor_id c) (purpose_value (tc_purpose c))
      (clock E) (nonce_hex E) sig (memdot_clear_tenant_context d) = Inr d1"
    by (rule apply_Inr)
  then obtain a where "find_actor (memdot_clear_tenant_context d) (tc_account_id c) (tc_actor_id c) = Some a"
    by (rule begin_Inr)
  then show False
    using find_actor_id [of "memdot_clear_tenant_context d"] assms(2) by (auto simp: memdot_clear_tenant_context_def)
qed

section \<open>Properties\<close>

text \<open>
  (C20) No work without authorization: when no job of the event's account has a snapshot that revalidates, processing an
  ingestion event leaves storage, sources, revisions, parse runs, elements and active pointers as they were, and the
  event is acknowledged only after its job was moved to the dead letter state.
\<close>

theorem no_effect_without_authorization:
  fixes d :: "'a ingest_db_scheme"
  assumes "process_claimed_event E P S st event (d, []) = Inr ((r, st'), d', ps')"
    and "ce_event_type event \<in> set INGESTION_EVENT_TYPES"
    and "\<forall>j \<in> set (t_job d). dj_account_id j = ce_account_id event \<longrightarrow>
      validate_auth_snapshot E (ce_account_id event) (dj_auth_snapshot j) (dj_space_id j) d \<noteq> Inr True"
  shows "st' = st \<and> t_source d' = t_source d \<and> t_source_revision d' = t_source_revision d \<and> t_parse_run d' = t_parse_run d \<and>
    t_element d' = t_element d \<and> t_active_parse d' = t_active_parse d \<and>
    (dis_acknowledged r \<longrightarrow> dis_job_id r \<noteq> None \<and>
      (\<forall>j \<in> set (t_job d'). Some (dj_id j) = dis_job_id r \<longrightarrow> dj_status j = ''dead_letter''))"
  using assms(1,2)
proof (cases rule: process_ingestion_Inr)
  case (job sid rid job_id)
  from job(3) show ?thesis
  proof (cases rule: process_ingestion_cases)
    case (rejected j snap s1)
    obtain d1 ps1 where s1: "s1 = (d1, ps1)" by (cases s1)
    note rj = reject_job_Inr [OF rejected(6) [unfolded s1]]
    note ak = ack_event_Inr [OF rejected(7) [unfolded s1]]
    have "core_db.more d' = core_db.more d" using rj ak by simp
    note t = ingest_tables_more [OF this]
    have "dis_job_id r = Some job_id" "t_job d' = t_job d1" "t_source d' = t_source d" using rj ak by auto
    then show ?thesis using rj rejected(8) t by auto
  next
    case (ran j snap actor_id outcome s1)
    then show ?thesis using assms(3) by fastforce
  qed auto
qed auto

definition demo_stale_job :: DurableJob where
  "demo_stale_job = job_row demo_env demo_ctx (Some [(''v'', JInt 2)]) 60 ''ingestion.parse'' 5 [] None"

definition demo_stale_event :: ClaimedEvent where
  "demo_stale_event =
     \<lparr> ce_id = 61, ce_account_id = 1, ce_event_type = ''source.retry_requested'', ce_payload_sha256 = [],
       ce_payload = bound_payload (revision_payload 30 77 5) 60, ce_claim_token = Some 9 \<rparr>"

lemma demo_stale_invalid: "validate_auth_snapshot E a (dj_auth_snapshot demo_stale_job) sp d = Inr False"
proof -
  have "py_int (dec_int 2) = Some 2" by (rule py_int_dec_int)
  then show ?thesis
    by (simp add: validate_auth_snapshot_def verify_snapshot_signature_def demo_stale_job_def job_row_def jget_def SNAPSHOT_VERSION_def)
qed


definition demo_stale :: ingest_db where
  "demo_stale = (demo_ingest [])\<lparr> t_job := [demo_stale_job],
     t_outbox := [(outbox_event demo_env 61 1 ''source.retry_requested'' (ce_payload demo_stale_event) (Some 60))
       \<lparr> oe_claim_token := Some 9, oe_claim_expires_at := Some 1000000000 \<rparr>] \<rparr>"

lemma demo_stale_run:
  "\<exists>r d' ps'. process_claimed_event demo_env demo_parse_env demo_storage_env demo_bucket demo_stale_event (demo_stale, []) =
     Inr ((r, demo_bucket), d', ps')"
proof -
  obtain s1 where "reject_job demo_env 1 60 (demo_stale, []) = Inr s1"
    by (simp add: reject_job_def mark_dead_letter_def find_job_def update_job_def demo_stale_def update_rows_def
        demo_stale_job_def job_row_def)
  moreover obtain r s2 where "ack demo_env demo_stale_event (Some 60) s1 = Inr (r, s2)"
    by (simp add: ack_def demo_stale_event_def ack_outbox_event_def memdot_ack_outbox_event_def)
  moreover have "scalar_one_or_none (filter (\<lambda>j. dj_account_id j = ce_account_id demo_stale_event \<and> dj_id j = 60) (t_job demo_stale)) =
      Inr (Some demo_stale_job)"
    by (simp add: demo_stale_def demo_stale_event_def demo_stale_job_def job_row_def)
  moreover obtain snap where "dj_auth_snapshot demo_stale_job = Some snap" "snap \<noteq> []"
    by (simp add: demo_stale_job_def job_row_def)
  moreover have "validate_auth_snapshot demo_env (ce_account_id demo_stale_event) (dj_auth_snapshot demo_stale_job)
      (dj_space_id demo_stale_job) demo_stale = Inr False"
    by (rule demo_stale_invalid)
  moreover have "ce_account_id demo_stale_event = 1" by (simp add: demo_stale_event_def)
  ultimately have "process_ingestion_event demo_env demo_parse_env demo_storage_env demo_bucket demo_stale_event 30 77 60
      (demo_stale, []) = Inr ((r, demo_bucket), s2)"
    by (simp add: process_ingestion_event_def)
  moreover have "process_claimed_event demo_env demo_parse_env demo_storage_env demo_bucket demo_stale_event (demo_stale, []) =
      process_ingestion_event demo_env demo_parse_env demo_storage_env demo_bucket demo_stale_event 30 77 60 (demo_stale, [])"
    by (simp add: process_claimed_event_def demo_stale_event_def INGESTION_EVENT_TYPES_def DELETION_EVENT_TYPES_def
        payload_uuid_def bound_payload_def revision_payload_def jget_def)
  ultimately show ?thesis by (cases s2) simp
qed

theorem no_effect_without_authorization_witness:
  "\<exists>r d' ps'. process_claimed_event demo_env demo_parse_env demo_storage_env demo_bucket demo_stale_event (demo_stale, []) =
     Inr ((r, demo_bucket), d', ps') \<and> t_parse_run d' = t_parse_run demo_stale \<and> t_active_parse d' = []"
proof -
  obtain r d' ps' where run: "process_claimed_event demo_env demo_parse_env demo_storage_env demo_bucket demo_stale_event
      (demo_stale, []) = Inr ((r, demo_bucket), d', ps')"
    using demo_stale_run by blast
  have "ce_event_type demo_stale_event \<in> set INGESTION_EVENT_TYPES"
    by (simp add: demo_stale_event_def INGESTION_EVENT_TYPES_def)
  moreover have "\<forall>j \<in> set (t_job demo_stale). dj_account_id j = ce_account_id demo_stale_event \<longrightarrow>
      validate_auth_snapshot demo_env (ce_account_id demo_stale_event) (dj_auth_snapshot j) (dj_space_id j) demo_stale \<noteq> Inr True"
    by (simp add: demo_stale_def demo_stale_invalid)
  ultimately show ?thesis
    using no_effect_without_authorization [OF run] run by (auto simp: demo_stale_def)
qed


text \<open>Dispatch acknowledges only events of a type the worker owns, and only when the payload still has its recorded digest.\<close>

lemma dispatch_owned:
  fixes s :: "'a ingest_db_scheme session"
  assumes "dispatch_events Es P S k events st s = Inr ((rs, st'), s')"
  shows "\<forall>r \<in> set rs. dis_acknowledged r \<longrightarrow> (\<exists>event \<in> set events. dis_event_id r = ce_id event \<and>
    ce_event_type event \<in> set (DELETION_EVENT_TYPES @ INGESTION_EVENT_TYPES))"
  using assms
proof (induction Es P S k events st s arbitrary: rs rule: dispatch_events.induct)
  case (2 Es P S k event events st s)
  show ?case
  proof (cases "payload_sha256 (Es k) (ce_payload event) \<noteq> [] \<and> ce_payload_sha256 event \<noteq> payload_sha256 (Es k) (ce_payload event)")
    case True
    then show ?thesis using 2(1) [OF refl True] 2(3) by (simp add: Let_def)
  next
    case False
    then obtain r st1 s1 rs1 where p: "process_claimed_event (Es k) P S st event s = Inr ((r, st1), s1)"
      and q: "dispatch_events Es P S (k + 1) events st1 s1 = Inr ((rs1, st'), s')" "rs = r # rs1"
      using 2(3) by (auto simp: Let_def bindr_Inr_iff)
    show ?thesis
      using process_claimed_result [OF p] 2(2) [OF refl False p refl refl q(1)] q(2) by auto
  qed
qed simp

section \<open>Deletion events\<close>

text \<open>
  The event of a deletion names its workflow but no actor, so the worker enters the tenant scope as the account
  itself; where no actor has the account's identifier, the scope refuses.
\<close>

lemma deletion_event_raises:
  fixes d :: "'a ingest_db_scheme"
  assumes "filter (\<lambda>w. dw_account_id w = ce_account_id event \<and> dw_id w = workflow_id) (t_workflow d) = [w]"
    and "progression (dw_state w) = Some next_state" and "ce_event_type event \<in> set DELETION_EVENT_TYPES"
    and "jget (ce_payload event) ''workflow_id'' = JStr (str_uuid workflow_id)" and "jget (ce_payload event) ''actor_id'' = JNull"
    and "\<forall>a \<in> set (t_actor d). act_id a \<noteq> ce_account_id event"
  shows "\<exists>e. process_claimed_event E P S st event (d, []) = Inl e"
proof -
  let ?c = "\<lparr> tc_account_id = ce_account_id event, tc_actor_id = ce_account_id event, tc_purpose = WORKER \<rparr>"
  let ?f = "\<lambda>s. Inr ((), add (set_workflow_state E workflow_id next_state) s)"
  obtain e where "tenant_scope E ?c ?f (d, []) = Inl e"
    using scope_needs_actor [of E ?c ?f d] assms(6) by (cases "tenant_scope E ?c ?f (d, [])") auto
  then show ?thesis
    using assms by (simp add: process_claimed_event_def process_deletion_event_def advance_event_workflow_def deletion_actor_def)
qed

text \<open>
  A deletion does not progress past its tombstone: the event that \<open>create_tombstone\<close> writes cannot be processed, because
  the worker has no actor to act as unless some actor happens to have the account's own identifier.
\<close>

theorem deletion_event_stalls:
  fixes d :: "'a ingest_db_scheme"
  assumes "create_tombstone E ctx ty e sp rk (d, []) = Inr (tid, d', ps')"
    and "tombstones_of (ctx_account_id ctx) ty e d = []" and "\<forall>a \<in> set (t_actor d). act_id a \<noteq> ctx_account_id ctx"
  shows "\<exists>event \<in> set (t_outbox d'). oe_event_type event = ''deletion.tombstoned'' \<and>
    jget (oe_payload event) ''entity_id'' = JStr (str_uuid e) \<and>
    isl (process_claimed_event E' P S st (claimed_event event) (d', []))"
  using assms(1)
proof (cases rule: create_tombstone_cases)
  case (new g d1 d2)
  let ?w = "new_workflow E (fresh E 1) (ctx_account_id ctx) ty e sp tid"
  let ?e = "outbox_event E (fresh E 2) (ctx_account_id ctx) ''deletion.tombstoned'' (tombstoned_payload (fresh E 1) tid ty e) None"
  have frames: "t_workflow d' = t_workflow d2" "t_outbox d' = t_outbox d2 @ [?e]" "t_actor d' = t_actor d"
    using new(3-5) by (auto simp: insert_defs bindr_Inr_iff)
  have "t_workflow d2 = t_workflow d1 @ [?w]" "fresh E 1 \<notin> dw_id ` set (t_workflow d1)"
    using workflow_table.ins_appends [OF new(4)] workflow_table.ins_fresh [OF new(4)] by (simp_all add: new_workflow_def)
  then have "filter (\<lambda>w. dw_account_id w = ctx_account_id ctx \<and> dw_id w = fresh E 1) (t_workflow d') = [?w]"
    unfolding frames by (force simp: filter_empty_conv new_workflow_def)
  moreover have "progression (dw_state ?w) = Some ''revoking_grants''" by (simp add: progression_def new_workflow_def)
  ultimately have "\<exists>err. process_claimed_event E' P S st (claimed_event ?e) (d', []) = Inl err"
    using assms(3) frames(3)
    by (intro deletion_event_raises [of _ "fresh E 1" _ ?w "''revoking_grants''"])
      (simp_all add: claimed_event_def DELETION_EVENT_TYPES_def tombstoned_payload_def jget_def new_workflow_def)
  then have "isl (process_claimed_event E' P S st (claimed_event ?e) (d', []))" by auto
  then show ?thesis using frames(2) by (intro bexI [of _ ?e]) (simp_all add: tombstoned_payload_def jget_def)
qed (use assms(2) in simp)


theorem deletion_event_stalls_witness:
  "\<exists>d' ps'. create_tombstone demo_env demo_ctx ''document'' 9 None None (demo_ingest [], []) = Inr (1000, d', ps') \<and>
     (\<exists>event. event \<in> set (t_outbox d') \<and> oe_event_type event = ''deletion.tombstoned'' \<and>
       isl (process_claimed_event demo_env demo_parse_env demo_storage_env demo_bucket (claimed_event event) (d', [])))"
proof -
  obtain g where "create_tombstone demo_env demo_ctx ''document'' 9 None None (demo_ingest [], []) =
      bindr (bury demo_env 1 ''document'' 9 None None ((demo_ingest [])\<lparr> settings := g \<rparr>, []))
        (\<lambda>(r, s3). bindr (flush s3) (\<lambda>s4. Inr (r, s4)))"
    by (rule demo_bury) (rule demo_ingest_tables)+
  moreover have none: "t_tombstone (demo_ingest []) = []" "t_workflow (demo_ingest []) = []"
    by (simp_all add: demo_ingest_def demo_uploads_def core_db.defs source_db.defs demo_core_def)
  ultimately obtain d' ps' where run: "create_tombstone demo_env demo_ctx ''document'' 9 None None (demo_ingest [], []) =
      Inr (1000, d', ps')"
    by (auto simp: bury_def Let_def tombstones_of_def insert_defs unique_key_def foreign_key_def check_in_def
        pending_gate_def new_tombstone_def new_workflow_def WORKFLOW_STATES_def outbox_event_def demo_core_def)
  have "\<forall>a \<in> set (t_actor (demo_ingest [])). act_id a \<noteq> ctx_account_id demo_ctx" by (simp add: demo_core_def)
  moreover have "tombstones_of (ctx_account_id demo_ctx) ''document'' 9 (demo_ingest []) = []"
    by (simp add: tombstones_of_def none)
  ultimately show ?thesis using deletion_event_stalls [OF run] run by blast
qed

end
