(* ===== verification/Lanes.thy ===== *)
theory Lanes
  imports Retrieval Deletion Documents Memory Ingestion Learning_Service
begin

text \<open>
  The retrieval lanes and the filters of the core, \<open>services/core/src/memdot_core/retrieval/\<close>, and the exact lane
  \<open>_local_candidates\<close> of \<open>context/service.py\<close>. The tables that the lanes only read are the fields of \<open>library\<close>; spaces and
  tombstones are read from the core tables. A set of spaces is a list; \<open>max_results\<close> is the size of a slice and not negative.
  The library a lane or filter is given holds the rows its session sees: the services pass \<open>visible_library\<close>, the tables
  after the row policies; \<open>space_visibility_map\<close> applies the policy of \<open>space\<close> itself.

  The embedding of the semantic lane uses \<open>math.sqrt\<close>, a float operation whose results are not rational; it is the field
  \<open>le_sqrt\<close> of \<open>lane_env\<close>, next to the SHA-256 digest as bytes, and nothing is assumed of either.
\<close>

section \<open>What the lanes read\<close>

record library =
  lib_document :: "AuthoredDocument list"
  lib_document_revision :: "DocumentRevision list"
  lib_document_pointer :: "CurrentDocumentRevision list"
  lib_memory_item :: "MemoryItem list"
  lib_memory_revision :: "MemoryRevision list"
  lib_element :: "DocumentElement list"
  lib_node :: "CurriculumNode list"
  lib_edge :: "CurriculumEdge list"
  lib_proposal :: "Proposal list"

definition parse_visibility :: "string \<Rightarrow> SpaceVisibility res" where
  "parse_visibility v =
     (if v = ''general'' then Inr GENERAL else if v = ''learning'' then Inr LEARNING
      else if v = ''private'' then Inr PRIVATE else Inl (ValueError (v @ '' is not a valid SpaceVisibility'')))"

definition space_visibility_map :: "uuid \<Rightarrow> 'a core_db_scheme \<Rightarrow> (uuid \<times> SpaceVisibility) list res" where
  "space_visibility_map account_id d =
     fold_res (\<lambda>row m. bindr (parse_visibility (sp_visibility row)) (\<lambda>v. Inr (AList.update (sp_id row) v m)))
       (filter (\<lambda>row. sp_account_id row = account_id \<and> space_row_visible d row) (t_space d)) []"

definition visibility_in :: "(uuid \<times> SpaceVisibility) list \<Rightarrow> uuid \<Rightarrow> SpaceVisibility" where
  "visibility_in vs space_id = (case map_of vs space_id of None \<Rightarrow> GENERAL | Some v \<Rightarrow> v)"

text \<open>The rows that the policies let through; memory, nodes and edges have no policy beyond the account.\<close>

definition visible_library :: "'a core_db_scheme \<Rightarrow> library \<Rightarrow> library" where
  "visible_library d L =
     L\<lparr> lib_document := filter (\<lambda>r. product_row_visible d (ad_account_id r) (ad_space_id r)) (lib_document L),
        lib_document_revision := filter (\<lambda>r. product_row_visible d (dr_account_id r) (dr_space_id r)) (lib_document_revision L),
        lib_document_pointer := filter (\<lambda>r. product_row_visible d (cd_account_id r) (cd_space_id r)) (lib_document_pointer L),
        lib_element := filter (\<lambda>r. product_row_visible d (de_account_id r) (de_space_id r)) (lib_element L),
        lib_proposal := filter (\<lambda>r. product_row_visible d (pr_account_id r) (pr_space_id r)) (lib_proposal L) \<rparr>"

text \<open>The two queries every lane starts with.\<close>

definition document_revisions_in :: "uuid \<Rightarrow> uuid list \<Rightarrow> library \<Rightarrow> DocumentRevision list" where
  "document_revisions_in account_id spaces L =
     filter (\<lambda>r. dr_account_id r = account_id \<and> dr_space_id r \<in> set spaces) (lib_document_revision L)"

definition memory_revisions_in :: "uuid \<Rightarrow> uuid list \<Rightarrow> string list \<Rightarrow> library \<Rightarrow> MemoryRevision list" where
  "memory_revisions_in account_id spaces statuses L =
     filter (\<lambda>r. mr_account_id r = account_id \<and> mr_space_id r \<in> set spaces \<and> mr_status r \<in> set statuses)
       (lib_memory_revision L)"

definition document_hit :: "string \<Rightarrow> CandidateLane \<Rightarrow> int \<Rightarrow> rat option \<Rightarrow> DocumentRevision \<Rightarrow> RetrievalCandidate" where
  "document_hit pre lane rank hint r =
     \<lparr> rc_candidate_id = pre @ ''document:'' @ str_uuid (dr_document_id r) @ '':'' @ str_uuid (dr_id r),
       rc_canonical_type = ''document'', rc_canonical_id = dr_document_id r, rc_revision_id = dr_id r,
       rc_space_id = dr_space_id r, rc_lane = lane, rc_rank = rank, rc_locator = None,
       rc_snippet = Some (take 512 (dr_plain_text r)), rc_score_hint = hint \<rparr>"

definition memory_hit :: "string \<Rightarrow> CandidateLane \<Rightarrow> int \<Rightarrow> rat option \<Rightarrow> MemoryRevision \<Rightarrow> RetrievalCandidate" where
  "memory_hit pre lane rank hint r =
     \<lparr> rc_candidate_id = pre @ ''memory:'' @ str_uuid (mr_memory_item_id r) @ '':'' @ str_uuid (mr_id r),
       rc_canonical_type = ''memory'', rc_canonical_id = mr_memory_item_id r, rc_revision_id = mr_id r,
       rc_space_id = mr_space_id r, rc_lane = lane, rc_rank = rank, rc_locator = None,
       rc_snippet = Some (take 512 (mr_assertion_text r)), rc_score_hint = hint \<rparr>"

definition element_hit :: "int \<Rightarrow> string \<Rightarrow> DocumentElement \<Rightarrow> RetrievalCandidate" where
  "element_hit rank txt e =
     \<lparr> rc_candidate_id = ''element:'' @ str_uuid (de_id e), rc_canonical_type = ''document_element'',
       rc_canonical_id = de_id e, rc_revision_id = de_id e, rc_space_id = de_space_id e, rc_lane = EXACT,
       rc_rank = rank, rc_locator = de_locator e, rc_snippet = Some (take 512 txt), rc_score_hint = None \<rparr>"

section \<open>The exact lane\<close>

type_synonym exact_state = "int \<times> RetrievalCandidate list \<times> (string \<times> string) list"

definition add_hit :: "(int \<Rightarrow> RetrievalCandidate) \<Rightarrow> string \<Rightarrow> exact_state \<Rightarrow> exact_state" where
  "add_hit hit txt s =
     (case s of (rank, candidates, corpus) \<Rightarrow>
        let c = hit rank in (rank + 1, candidates @ [c], AList.update (rc_candidate_id c) txt corpus))"

definition add_document :: "DocumentRevision \<Rightarrow> exact_state \<Rightarrow> exact_state" where
  "add_document r s =
     (if dr_plain_text r = [] then s else add_hit (\<lambda>rank. document_hit [] EXACT rank None r) (dr_plain_text r) s)"

definition add_memory :: "MemoryRevision \<Rightarrow> exact_state \<Rightarrow> exact_state" where
  "add_memory r s = add_hit (\<lambda>rank. memory_hit [] EXACT rank None r) (mr_assertion_text r) s"

definition add_element :: "DocumentElement \<Rightarrow> exact_state \<Rightarrow> exact_state" where
  "add_element e s =
     (case de_exact_text e of
        None \<Rightarrow> s
      | Some txt \<Rightarrow> if txt = [] then s else add_hit (\<lambda>rank. element_hit rank txt e) txt s)"

definition renumber :: "RetrievalCandidate list \<Rightarrow> RetrievalCandidate list" where
  "renumber cs = map (\<lambda>(i, c). c\<lparr> rc_rank := i \<rparr>) (zip (map int [1..<length cs + 1]) cs)"

definition local_candidates ::
    "library \<Rightarrow> uuid \<Rightarrow> string \<Rightarrow> uuid list \<Rightarrow> RetrievalCandidate list \<times> (string \<times> string) list" where
  "local_candidates L account_id query spaces =
     (case fold add_element (filter (\<lambda>e. de_account_id e = account_id \<and> de_space_id e \<in> set spaces) (lib_element L))
         (fold add_memory (memory_revisions_in account_id spaces [''active''] L)
           (fold add_document (document_revisions_in account_id spaces L) (1, [], []))) of
        (rank, candidates, corpus) \<Rightarrow>
          let query_lower = py_lower query;
              matched = filter (\<lambda>c. py_in query_lower
                (py_lower (case map_of corpus (rc_candidate_id c) of None \<Rightarrow> [] | Some t \<Rightarrow> t))) candidates
          in (if query_lower \<noteq> [] \<and> matched \<noteq> [] then renumber matched else candidates, corpus))"

section \<open>The graph lane\<close>

definition edge_hit :: "CurriculumNode list \<Rightarrow> uuid list \<Rightarrow> int \<Rightarrow> CurriculumEdge \<Rightarrow> RetrievalCandidate" where
  "edge_hit nodes node_ids rank e =
     (let related_id = (if ed_from_node_id e \<in> set node_ids then ed_to_node_id e else ed_from_node_id e);
          snippet = (case List.find (\<lambda>n. cn_id n = related_id) nodes of None \<Rightarrow> ed_edge_kind e | Some n \<Rightarrow> cn_title n);
          confirmed = ed_confirmation e = ''confirmed''
      in \<lparr> rc_candidate_id = ''graph:edge:'' @ str_uuid (ed_id e), rc_canonical_type = ''curriculum_edge'',
           rc_canonical_id = ed_id e, rc_revision_id = ed_id e, rc_space_id = ed_space_id e, rc_lane = GRAPH,
           rc_rank = (if confirmed then rank else rank + 100), rc_locator = None,
           rc_snippet = Some (take 512 (ed_confirmation e @ '':'' @ snippet)),
           rc_score_hint = Some (if confirmed then 1 else 2 / 5) \<rparr>)"

fun graph_edge_hits ::
    "CurriculumNode list \<Rightarrow> uuid list \<Rightarrow> nat \<Rightarrow> int \<Rightarrow> RetrievalCandidate list \<Rightarrow> CurriculumEdge list \<Rightarrow>
     int \<times> RetrievalCandidate list" where
  "graph_edge_hits nodes ids max_results rank cs [] = (rank, cs)"
| "graph_edge_hits nodes ids max_results rank cs (e # es) =
     (let cs' = cs @ [edge_hit nodes ids rank e] in
      if max_results \<le> length cs' then (rank + 1, cs') else graph_edge_hits nodes ids max_results (rank + 1) cs' es)"

fun graph_memory_hits ::
    "string \<Rightarrow> nat \<Rightarrow> int \<Rightarrow> RetrievalCandidate list \<Rightarrow> MemoryRevision list \<Rightarrow> RetrievalCandidate list" where
  "graph_memory_hits q max_results rank cs [] = cs"
| "graph_memory_hits q max_results rank cs (m # ms) =
     (if \<not> py_in q (py_lower (mr_assertion_text m)) then graph_memory_hits q max_results rank cs ms
      else if mr_status m = ''pending'' \<or> mr_status m = ''retracted'' then graph_memory_hits q max_results rank cs ms
      else let cs' = cs @ [memory_hit ''graph:'' GRAPH rank None m] in
        if max_results \<le> length cs' then cs' else graph_memory_hits q max_results (rank + 1) cs' ms)"

definition graph_candidates :: "library \<Rightarrow> uuid \<Rightarrow> nat \<Rightarrow> string \<Rightarrow> uuid list \<Rightarrow> RetrievalCandidate list" where
  "graph_candidates L account_id max_results query spaces =
     (let q = py_lower (py_strip query) in
      if q = [] \<or> spaces = [] then []
      else
        let nodes = filter (\<lambda>n. cn_account_id n = account_id \<and> cn_space_id n \<in> set spaces) (lib_node L);
            matching = filter (\<lambda>n. py_in q (py_lower (cn_title n))) nodes
        in if matching = [] then []
           else
             let ids = map cn_id matching;
                 edges = filter (\<lambda>e. ed_account_id e = account_id \<and> ed_space_id e \<in> set spaces \<and>
                   (ed_from_node_id e \<in> set ids \<or> ed_to_node_id e \<in> set ids)) (lib_edge L)
             in case graph_edge_hits nodes ids max_results 1 [] edges of
                  (rank, cs) \<Rightarrow>
                    if length cs < max_results
                    then graph_memory_hits q max_results rank cs (memory_revisions_in account_id spaces [''active''] L)
                    else cs)"

section \<open>The temporal lane\<close>

definition before :: "datetime option \<Rightarrow> datetime \<Rightarrow> bool" where
  "before as_of t = (case as_of of None \<Rightarrow> True | Some a \<Rightarrow> t \<le> a)"

definition temporal_candidates ::
    "library \<Rightarrow> uuid \<Rightarrow> datetime option \<Rightarrow> nat \<Rightarrow> string \<Rightarrow> uuid list \<Rightarrow> RetrievalCandidate list" where
  "temporal_candidates L account_id as_of max_results query spaces =
     (let q = py_lower (py_strip query) in
      if q = [] \<or> spaces = [] then []
      else
        let docs = map (document_hit ''temporal:'' TEMPORAL_EXACT 1 (Some 1))
              (filter (\<lambda>r. before as_of (dr_created_at r) \<and> py_in q (py_lower (dr_plain_text r)))
                (document_revisions_in account_id spaces L));
            mems = map (memory_hit ''temporal:'' TEMPORAL_EXACT 1 (Some 1))
              (filter (\<lambda>r. before as_of (mr_created_at r) \<and> py_in q (py_lower (mr_assertion_text r)) \<and>
                  \<not> (as_of = None \<and> mr_status r \<noteq> ''active''))
                (memory_revisions_in account_id spaces [''active'', ''superseded''] L))
        in renumber (take max_results (docs @ mems)))"

section \<open>The semantic lane\<close>

record lane_env =
  le_digest :: "string \<Rightarrow> string"
  le_sqrt :: "rat \<Rightarrow> rat"

definition word_char :: "char \<Rightarrow> bool" where
  "word_char c \<longleftrightarrow> (let n = of_char c :: nat in
     48 \<le> n \<and> n \<le> 57 \<or> 65 \<le> n \<and> n \<le> 90 \<or> n = 95 \<or> 97 \<le> n \<and> n \<le> 122)"

text \<open>\<open>_TOKEN_RE.findall\<close>: the maximal runs of word characters.\<close>

fun word_runs :: "string \<Rightarrow> string \<Rightarrow> string list" where
  "word_runs run [] = (if run = [] then [] else [run])"
| "word_runs run (c # s) =
     (if word_char c then word_runs (run @ [c]) s
      else if run = [] then word_runs [] s else run # word_runs [] s)"

definition tokenize :: "string \<Rightarrow> string list" where
  "tokenize s = map py_lower (filter (\<lambda>t. py_strip t \<noteq> []) (word_runs [] s))"

definition byte_at :: "string \<Rightarrow> nat \<Rightarrow> nat" where
  "byte_at s i = (if i < length s then of_char (s ! i) else 0)"

definition token_index :: "lane_env \<Rightarrow> nat \<Rightarrow> string \<Rightarrow> nat" where
  "token_index V dims token = (byte_at (le_digest V token) 0 * 256 + byte_at (le_digest V token) 1) mod dims"

definition token_sign :: "lane_env \<Rightarrow> string \<Rightarrow> rat" where
  "token_sign V token = (if byte_at (le_digest V token) 2 mod 2 = 0 then 1 else - 1)"

definition add_token :: "lane_env \<Rightarrow> nat \<Rightarrow> string list \<Rightarrow> string \<Rightarrow> rat list \<Rightarrow> rat list" where
  "add_token V dims tokens token vec =
     (let i = token_index V dims token
      in vec[i := vec ! i + token_sign V token * of_nat (count_list tokens token)])"

definition embedding_hash :: "lane_env \<Rightarrow> nat \<Rightarrow> string \<Rightarrow> rat list" where
  "embedding_hash V dims s =
     (let tokens = tokenize s in
      if tokens = [] then replicate dims 0
      else
        let vec = fold (add_token V dims tokens) (remdups tokens) (replicate dims 0);
            root = le_sqrt V (sum_list (map (\<lambda>x. x * x) vec));
            norm = (if root = 0 then 1 else root)
        in map (\<lambda>x. x / norm) vec)"

definition cosine :: "rat list \<Rightarrow> rat list \<Rightarrow> rat" where
  "cosine a b = sum_list (map (\<lambda>(x, y). x * y) (zip a b))"

definition MIN_SCORE :: rat where
  "MIN_SCORE = 15 / 100"

definition scored_hits :: "(rat \<Rightarrow> 'r \<Rightarrow> RetrievalCandidate) \<Rightarrow> ('r \<Rightarrow> rat) \<Rightarrow> 'r list \<Rightarrow> (rat \<times> RetrievalCandidate) list" where
  "scored_hits hit score rows = map (\<lambda>r. (score r, hit (score r) r)) (filter (\<lambda>r. \<not> score r < MIN_SCORE) rows)"

definition semantic_candidates ::
    "lane_env \<Rightarrow> library \<Rightarrow> uuid \<Rightarrow> datetime option \<Rightarrow> nat \<Rightarrow> string \<Rightarrow> uuid list \<Rightarrow> RetrievalCandidate list" where
  "semantic_candidates V L account_id as_of max_results query spaces =
     (let q = py_strip query in
      if q = [] \<or> spaces = [] then []
      else
        let query_vec = embedding_hash V 64 q;
            docs = scored_hits (\<lambda>s. document_hit ''semantic:'' OSS_SEMANTIC 1 (Some s))
              (\<lambda>r. cosine query_vec (embedding_hash V 64 (dr_plain_text r)))
              (filter (\<lambda>r. before as_of (dr_created_at r) \<and> dr_plain_text r \<noteq> []) (document_revisions_in account_id spaces L));
            mems = scored_hits (\<lambda>s. memory_hit ''semantic:'' OSS_SEMANTIC 1 (Some s))
              (\<lambda>r. cosine query_vec (embedding_hash V 64 (mr_assertion_text r)))
              (filter (\<lambda>r. before as_of (mr_created_at r)) (memory_revisions_in account_id spaces [''active''] L))
        in renumber (map snd (take max_results (sort_key (\<lambda>x. - fst x) (docs @ mems)))))"

section \<open>Filters\<close>

text \<open>The filters are generic over lane and fused candidates: \<open>ty\<close>, \<open>i\<close> and \<open>sp\<close> read type, identifier and space.\<close>

fun filter_tombstoned ::
    "('c \<Rightarrow> string) \<Rightarrow> ('c \<Rightarrow> uuid) \<Rightarrow> uuid \<Rightarrow> 'c list \<Rightarrow> 'a core_db_scheme \<Rightarrow> 'c list res" where
  "filter_tombstoned ty i account_id [] d = Inr []"
| "filter_tombstoned ty i account_id (c # cs) d =
     bindr (is_tombstoned account_id (ty c) (i c) d) (\<lambda>gone.
     bindr (filter_tombstoned ty i account_id cs d) (\<lambda>kept. Inr (if gone then kept else c # kept)))"

definition filter_private_spaces ::
    "('c \<Rightarrow> uuid) \<Rightarrow> uuid \<Rightarrow> bool \<Rightarrow> 'c list \<Rightarrow> 'a core_db_scheme \<Rightarrow> 'c list res" where
  "filter_private_spaces sp account_id allow_private candidates d =
     (if allow_private then Inr candidates
      else bindr (space_visibility_map account_id d) (\<lambda>spaces.
        Inr (filter (\<lambda>c. visibility_in spaces (sp c) \<noteq> PRIVATE) candidates)))"

definition pending_targets :: "uuid \<Rightarrow> library \<Rightarrow> uuid list" where
  "pending_targets account_id L =
     map pr_target_id (filter (\<lambda>p. pr_account_id p = account_id \<and> pr_status p = ''pending'') (lib_proposal L))"

definition retracted_memory :: "uuid \<Rightarrow> library \<Rightarrow> uuid list" where
  "retracted_memory account_id L =
     map mr_memory_item_id (filter (\<lambda>r. mr_account_id r = account_id \<and> mr_status r = ''retracted'') (lib_memory_revision L))"

definition filter_pending_and_retracted ::
    "('c \<Rightarrow> string) \<Rightarrow> ('c \<Rightarrow> uuid) \<Rightarrow> uuid \<Rightarrow> 'c list \<Rightarrow> library \<Rightarrow> 'c list" where
  "filter_pending_and_retracted ty i account_id candidates L =
     filter (\<lambda>c. i c \<notin> set (pending_targets account_id L) \<and>
       \<not> (ty c = ''memory'' \<and> i c \<in> set (retracted_memory account_id L))) candidates"

definition filter_as_of ::
    "RetrievalCandidate list \<Rightarrow> (uuid \<times> datetime) list \<Rightarrow> datetime option \<Rightarrow> RetrievalCandidate list" where
  "filter_as_of candidates revision_created_at as_of =
     (case as_of of
        None \<Rightarrow> candidates
      | Some a \<Rightarrow> filter (\<lambda>c. case map_of revision_created_at (rc_revision_id c) of None \<Rightarrow> True | Some t \<Rightarrow> t \<le> a) candidates)"

section \<open>What a lane promises\<close>

text \<open>
  A candidate is backed when a row of the account stands behind it: a document revision, a memory revision that was not
  retracted, an element or a curriculum edge, with the candidate's identifiers and space.
\<close>

definition backed :: "library \<Rightarrow> uuid \<Rightarrow> string \<Rightarrow> uuid \<Rightarrow> uuid \<Rightarrow> uuid \<Rightarrow> bool" where
  "backed L a ty i rv sp \<longleftrightarrow>
     (\<exists>r \<in> set (lib_document_revision L). dr_account_id r = a \<and> ty = ''document'' \<and> i = dr_document_id r \<and> rv = dr_id r \<and>
        sp = dr_space_id r) \<or>
     (\<exists>r \<in> set (lib_memory_revision L). mr_account_id r = a \<and> ty = ''memory'' \<and> i = mr_memory_item_id r \<and> rv = mr_id r \<and>
        sp = mr_space_id r \<and> mr_status r \<in> {''active'', ''superseded''}) \<or>
     (\<exists>e \<in> set (lib_element L). de_account_id e = a \<and> ty = ''document_element'' \<and> i = de_id e \<and> rv = de_id e \<and>
        sp = de_space_id e) \<or>
     (\<exists>e \<in> set (lib_edge L). ed_account_id e = a \<and> ty = ''curriculum_edge'' \<and> i = ed_id e \<and> rv = ed_id e \<and>
        sp = ed_space_id e)"

text \<open>The lane a candidate identifier belongs to by its first segment.\<close>

definition lane_by_id :: "string \<Rightarrow> CandidateLane" where
  "lane_by_id s =
     (if starts_with s ''graph:'' then GRAPH else if starts_with s ''semantic:'' then OSS_SEMANTIC
      else if starts_with s ''temporal:'' then TEMPORAL_EXACT else EXACT)"

definition lane_hit :: "library \<Rightarrow> uuid \<Rightarrow> uuid list \<Rightarrow> CandidateLane \<Rightarrow> RetrievalCandidate \<Rightarrow> bool" where
  "lane_hit L a spaces lane c \<longleftrightarrow>
     rc_space_id c \<in> set spaces \<and> 0 < rc_rank c \<and> rc_lane c = lane \<and> lane_by_id (rc_candidate_id c) = lane \<and>
     backed L a (rc_canonical_type c) (rc_canonical_id c) (rc_revision_id c) (rc_space_id c)"

section \<open>What the policies leave\<close>

lemma product_rows_internal [simp]: "internal_purpose d \<Longrightarrow> product_row_visible d a sp"
  by (simp add: product_row_visible_def)

lemma visible_library_internal [simp]: "internal_purpose d \<Longrightarrow> visible_library d L = L"
  by (simp add: visible_library_def)

lemma visible_library_sels [simp]:
  "lib_memory_item (visible_library d L) = lib_memory_item L" "lib_memory_revision (visible_library d L) = lib_memory_revision L"
  "lib_node (visible_library d L) = lib_node L" "lib_edge (visible_library d L) = lib_edge L"
  by (simp_all add: visible_library_def)

lemma visible_rows:
  "r \<in> set (lib_document_revision (visible_library d L)) \<longleftrightarrow>
     r \<in> set (lib_document_revision L) \<and> product_row_visible d (dr_account_id r) (dr_space_id r)"
  "e \<in> set (lib_element (visible_library d L)) \<longleftrightarrow>
     e \<in> set (lib_element L) \<and> product_row_visible d (de_account_id e) (de_space_id e)"
  "x \<in> set (lib_document (visible_library d L)) \<longleftrightarrow>
     x \<in> set (lib_document L) \<and> product_row_visible d (ad_account_id x) (ad_space_id x)"
  by (simp_all add: visible_library_def conj_commute)

lemma visible_library_cong:
  "t_space d' = t_space d \<Longrightarrow> set_purpose (settings d') = set_purpose (settings d) \<Longrightarrow> visible_library d' L = visible_library d L"
  by (simp add: visible_library_def policies_cong(3) [of d' d])

lemma space_visibility_map_cong:
  "t_space d' = t_space d \<Longrightarrow> set_purpose (settings d') = set_purpose (settings d) \<Longrightarrow>
     space_visibility_map a d' = space_visibility_map a d"
  by (simp add: space_visibility_map_def policies_cong(2) [of d' d])

text \<open>A row behind a candidate of a document or an element is one the policy shows.\<close>

lemma backed_visible:
  assumes "backed (visible_library d L) a ty i rv sp"
  shows "backed L a ty i rv sp \<and> (ty \<in> {''document'', ''document_element''} \<longrightarrow> product_row_visible d a sp)"
  using assms unfolding backed_def visible_library_sels
  by (elim disjE bexE conjE) (simp_all add: visible_rows, blast+)

lemma product_row_not_private:
  "product_row_visible d a sp \<Longrightarrow> \<not> internal_purpose d \<Longrightarrow> space_key d \<Longrightarrow> \<not> private_space d a sp"
  using external_space_not_private by (auto simp: product_row_visible_def)

lemma set_update_subset: "set (AList.update k v al) \<subseteq> insert (k, v) (set al)"
  by (induction al) auto

text \<open>The map of visibilities lists exactly the visible rows.\<close>

lemma visibility_fold:
  assumes "fold_res (\<lambda>row m. bindr (parse_visibility (sp_visibility row)) (\<lambda>v. Inr (AList.update (sp_id row) v m))) rows m = Inr vs"
    and "distinct (map sp_id rows)"
  shows "map_of vs i = Some v \<longleftrightarrow> (\<exists>row \<in> set rows. sp_id row = i \<and> parse_visibility (sp_visibility row) = Inr v) \<or>
    map_of m i = Some v \<and> i \<notin> sp_id ` set rows"
  using assms
proof (induction rows arbitrary: m)
  case (Cons r rows)
  then obtain w where w: "parse_visibility (sp_visibility r) = Inr w"
    "fold_res (\<lambda>row m. bindr (parse_visibility (sp_visibility row)) (\<lambda>v. Inr (AList.update (sp_id row) v m))) rows
       (AList.update (sp_id r) w m) = Inr vs"
    by (auto simp: bindr_Inr_iff)
  show ?case using Cons.IH [OF w(2)] Cons.prems(2) w(1) by (auto simp: update_conv')
qed auto

lemma map_of_visibilities:
  assumes "space_visibility_map a d = Inr vs" and "space_key d"
  shows "map_of vs i = Some v \<longleftrightarrow> (\<exists>row \<in> set (t_space d). sp_account_id row = a \<and> sp_id row = i \<and> space_row_visible d row \<and>
    parse_visibility (sp_visibility row) = Inr v)"
  using visibility_fold [OF assms(1) [unfolded space_visibility_map_def], of i v] assms(2)
  by (auto simp: space_key_def distinct_map_filter)

lemma visibility_not_private:
  assumes "space_visibility_map a d = Inr vs" and "space_key d" and "internal_purpose d" and "visibility_in vs i \<noteq> PRIVATE"
  shows "\<not> private_space d a i"
proof
  assume "private_space d a i"
  then have "map_of vs i = Some PRIVATE"
    unfolding map_of_visibilities [OF assms(1,2)] private_space_def
    using assms(3) by (auto simp: space_row_visible_def parse_visibility_def)
  then show False using assms(4) by (simp add: visibility_in_def)
qed

lemma listed_not_private:
  assumes "space_visibility_map a d = Inr vs" and "space_key d" and "\<not> internal_purpose d" and "i \<in> fst ` set vs"
  shows "\<not> private_space d a i"
proof -
  obtain v where "map_of vs i = Some v" using assms(4) by (metis domD dom_map_of_conv_image_fst)
  then obtain row where "row \<in> set (t_space d)" "sp_account_id row = a" "sp_id row = i" "space_row_visible d row"
    using map_of_visibilities [OF assms(1,2)] by blast
  then have "memdot_external_space_ok d a i"
    using assms(3) by (auto simp: memdot_external_space_ok_def space_row_visible_def)
  then show ?thesis by (rule external_space_not_private [OF assms(2)])
qed

lemma external_visibilities:
  assumes "\<not> internal_purpose d"
  obtains vs where "space_visibility_map a d = Inr vs" "\<forall>i. visibility_in vs i \<noteq> PRIVATE"
proof -
  let ?f = "\<lambda>row m. bindr (parse_visibility (sp_visibility row)) (\<lambda>v. Inr (AList.update (sp_id row) v m))"
  let ?g = "\<lambda>row m. AList.update (sp_id row) (if sp_visibility row = ''general'' then GENERAL else LEARNING) m"
  let ?rows = "filter (\<lambda>row. sp_account_id row = a \<and> space_row_visible d row) (t_space d)"
  have run: "fold_res ?f ?rows [] = Inr (fold ?g ?rows [])"
    by (rule fold_res_total) (use assms in \<open>auto simp: space_row_visible_def parse_visibility_def\<close>)
  have "\<forall>x \<in> set (fold ?g ?rows []). snd x \<noteq> PRIVATE"
    by (rule fold_invariant [where Q = "\<lambda>_. True"]) (auto dest!: set_update_subset [THEN subsetD])
  then have "\<forall>i. visibility_in (fold ?g ?rows []) i \<noteq> PRIVATE"
    by (auto simp: visibility_in_def split: option.split dest!: map_of_SomeD)
  then show thesis using that run by (simp add: space_visibility_map_def)
qed

text \<open>
  A request is served under its own context: the settings carry its purpose, and the eligible spaces of an external one
  are not private, as \<open>load_mcp_context\<close> leaves them.
\<close>

definition external_request :: "RequestContext \<Rightarrow> bool" where
  "external_request ctx \<longleftrightarrow> ctx_purpose ctx \<in> {EXTERNAL_READ, EXTERNAL_PROPOSE, EXTERNAL_INTERACTION}"

definition served_context :: "'a core_db_scheme \<Rightarrow> RequestContext \<Rightarrow> bool" where
  "served_context d ctx \<longleftrightarrow>
     space_key d \<and> set_purpose (settings d) = purpose_value (ctx_purpose ctx) \<and>
     (external_request ctx \<longrightarrow> (\<forall>i \<in> set (ctx_eligible_space_ids ctx). \<not> private_space d (ctx_account_id ctx) i))"

lemma served_internal: "served_context d ctx \<Longrightarrow> internal_purpose d \<longleftrightarrow> \<not> external_request ctx"
  by (cases "ctx_purpose ctx") (simp_all add: served_context_def internal_purpose_def external_request_def purpose_value_def)

section \<open>Shapes of candidates\<close>

lemma starts_with_append [simp]: "starts_with (p @ s) p"
  by (simp add: starts_with_def)

lemma starts_with_Cons [simp]:
  "starts_with (x # s) (y # p) \<longleftrightarrow> x = y \<and> starts_with s p" "starts_with s []"
  by (auto simp: starts_with_def)

lemma lane_hit_rank: "lane_hit L a spaces lane c \<Longrightarrow> 0 < n \<Longrightarrow> lane_hit L a spaces lane (c\<lparr> rc_rank := n \<rparr>)"
  by (simp add: lane_hit_def)

lemma document_lane_hit:
  assumes "r \<in> set (document_revisions_in a spaces L)" and "0 < rank"
    and "lane_by_id (pre @ ''document:'' @ str_uuid (dr_document_id r) @ '':'' @ str_uuid (dr_id r)) = lane"
  shows "lane_hit L a spaces lane (document_hit pre lane rank hint r)"
  using assms by (auto simp: lane_hit_def document_hit_def backed_def document_revisions_in_def)

lemma memory_lane_hit:
  assumes "r \<in> set (memory_revisions_in a spaces statuses L)" and "0 < rank" and "set statuses \<subseteq> {''active'', ''superseded''}"
    and "lane_by_id (pre @ ''memory:'' @ str_uuid (mr_memory_item_id r) @ '':'' @ str_uuid (mr_id r)) = lane"
  shows "lane_hit L a spaces lane (memory_hit pre lane rank hint r)"
  using assms by (auto simp: lane_hit_def memory_hit_def backed_def memory_revisions_in_def)

lemma renumber_lane_hit:
  assumes "\<forall>c \<in> set cs. lane_hit L a spaces lane c" and "c \<in> set (renumber cs)"
  shows "lane_hit L a spaces lane c"
proof -
  obtain i c0 where c: "c = c0\<lparr> rc_rank := i \<rparr>" "(i, c0) \<in> set (zip (map int [1..<length cs + 1]) cs)"
    using assms(2) by (auto simp: renumber_def)
  then have "i \<in> set (map int [1..<length cs + 1])" "c0 \<in> set cs" by (blast dest: set_zip_leftD set_zip_rightD)+
  then have "0 < i" "c0 \<in> set cs" by (auto simp del: upt_Suc)
  then show ?thesis using assms(1) c(1) by (simp add: lane_hit_rank)
qed

lemma length_renumber [simp]: "length (renumber cs) = length cs"
  by (simp add: renumber_def del: upt_Suc)

locale retrieval_lane =
  fixes lane :: CandidateLane and candidates :: "library \<Rightarrow> uuid \<Rightarrow> string \<Rightarrow> uuid list \<Rightarrow> RetrievalCandidate list"
  assumes lane_hits: "c \<in> set (candidates L a q spaces) \<Longrightarrow> lane_hit L a spaces lane c"
begin

text \<open>Without spaces a lane is silent, and what it returns is confined to them.\<close>

lemma no_spaces: "candidates L a q [] = []"
proof -
  have "c \<notin> set (candidates L a q [])" for c using lane_hits [of c L a q "[]"] by (auto simp: lane_hit_def)
  then show ?thesis by (cases "candidates L a q []") auto
qed

lemma hit_ranks: "h \<in> set (hits [(l, candidates L a q spaces)]) \<Longrightarrow> 0 < rc_rank (snd h)"
  using lane_hits by (auto simp: hits_def lane_hit_def)

end

section \<open>The lanes keep the promise\<close>

lemma temporal_hits: "c \<in> set (temporal_candidates L a as_of n query spaces) \<Longrightarrow> lane_hit L a spaces TEMPORAL_EXACT c"
  unfolding temporal_candidates_def Let_def
  by (erule renumber_lane_hit [rotated, where lane = TEMPORAL_EXACT] | simp split: if_splits)+
    (auto dest!: in_set_takeD intro!: document_lane_hit memory_lane_hit simp: lane_by_id_def)

interpretation temporal: retrieval_lane TEMPORAL_EXACT "\<lambda>L a q spaces. temporal_candidates L a as_of n q spaces"
  by unfold_locales (rule temporal_hits)

lemma semantic_hits: "c \<in> set (semantic_candidates V L a as_of n query spaces) \<Longrightarrow> lane_hit L a spaces OSS_SEMANTIC c"
  unfolding semantic_candidates_def Let_def
  by (erule renumber_lane_hit [rotated, where lane = OSS_SEMANTIC] | simp split: if_splits)+
    (auto dest!: in_set_takeD intro!: document_lane_hit memory_lane_hit simp: lane_by_id_def scored_hits_def)

interpretation semantic: retrieval_lane OSS_SEMANTIC "\<lambda>L a q spaces. semantic_candidates V L a as_of n q spaces"
  by unfold_locales (rule semantic_hits)

lemma graph_edge_hits_ok:
  assumes "\<forall>e \<in> set es. ed_account_id e = a \<and> ed_space_id e \<in> set spaces \<and> e \<in> set (lib_edge L)" and "0 < rank"
    and "\<forall>c \<in> set cs. lane_hit L a spaces GRAPH c" and "graph_edge_hits nodes ids n rank cs es = (rank', cs')"
  shows "0 < rank' \<and> (\<forall>c \<in> set cs'. lane_hit L a spaces GRAPH c)"
  using assms
proof (induction nodes ids n rank cs es rule: graph_edge_hits.induct)
  case (2 nodes ids n rank cs e es)
  have "lane_hit L a spaces GRAPH (edge_hit nodes ids rank e)"
    using 2(2,3) by (auto simp: lane_hit_def edge_hit_def Let_def lane_by_id_def backed_def)
  then have "\<forall>c \<in> set (cs @ [edge_hit nodes ids rank e]). lane_hit L a spaces GRAPH c" using 2(4) by simp
  then show ?case using 2(1) [OF refl] 2(2,3,5) by (auto simp: Let_def split: if_splits)
qed simp

lemma graph_memory_hits_ok:
  assumes "\<forall>m \<in> set ms. m \<in> set (memory_revisions_in a spaces [''active''] L)" and "0 < rank"
    and "\<forall>c \<in> set cs. lane_hit L a spaces GRAPH c" and "c \<in> set (graph_memory_hits q n rank cs ms)"
  shows "lane_hit L a spaces GRAPH c"
  using assms
proof (induction q n rank cs ms rule: graph_memory_hits.induct)
  case (2 q n rank cs m ms)
  have "lane_hit L a spaces GRAPH (memory_hit ''graph:'' GRAPH rank None m)"
    using 2(4,5) by (intro memory_lane_hit [of _ _ _ "[''active'']"]) (auto simp: lane_by_id_def)
  then show ?case using 2 by (auto simp: Let_def split: if_splits)
qed simp

lemma graph_hits:
  assumes "c \<in> set (graph_candidates L a n query spaces)"
  shows "lane_hit L a spaces GRAPH c"
proof -
  let ?q = "py_lower (py_strip query)"
  let ?nodes = "filter (\<lambda>n. cn_account_id n = a \<and> cn_space_id n \<in> set spaces) (lib_node L)"
  let ?ids = "map cn_id (filter (\<lambda>n. py_in ?q (py_lower (cn_title n))) ?nodes)"
  let ?edges = "filter (\<lambda>e. ed_account_id e = a \<and> ed_space_id e \<in> set spaces \<and>
    (ed_from_node_id e \<in> set ?ids \<or> ed_to_node_id e \<in> set ?ids)) (lib_edge L)"
  obtain rank cs where g: "graph_edge_hits ?nodes ?ids n 1 [] ?edges = (rank, cs)" by fastforce
  have ok: "0 < rank \<and> (\<forall>c \<in> set cs. lane_hit L a spaces GRAPH c)"
    by (rule graph_edge_hits_ok [OF _ _ _ g]) auto
  have "c \<in> set (graph_memory_hits ?q n rank cs (memory_revisions_in a spaces [''active''] L)) \<or> c \<in> set cs"
    using assms unfolding graph_candidates_def Let_def g by (auto split: if_splits)
  then show ?thesis using ok graph_memory_hits_ok by blast
qed

interpretation graph: retrieval_lane GRAPH "\<lambda>L a q spaces. graph_candidates L a n q spaces"
  by unfold_locales (rule graph_hits)

section \<open>The exact lane and its corpus\<close>

text \<open>\<open>row_text\<close>: the text of the row behind an exact candidate of the given spaces.\<close>

definition row_text :: "library \<Rightarrow> uuid \<Rightarrow> uuid list \<Rightarrow> string \<Rightarrow> uuid \<Rightarrow> uuid \<Rightarrow> string \<Rightarrow> bool" where
  "row_text L a spaces ty i rv t \<longleftrightarrow>
     (\<exists>r \<in> set (lib_document_revision L). dr_account_id r = a \<and> dr_space_id r \<in> set spaces \<and> ty = ''document'' \<and>
        i = dr_document_id r \<and> rv = dr_id r \<and> t = dr_plain_text r) \<or>
     (\<exists>r \<in> set (lib_memory_revision L). mr_account_id r = a \<and> mr_space_id r \<in> set spaces \<and> ty = ''memory'' \<and>
        mr_status r = ''active'' \<and> i = mr_memory_item_id r \<and> rv = mr_id r \<and> t = mr_assertion_text r) \<or>
     (\<exists>e \<in> set (lib_element L). de_account_id e = a \<and> de_space_id e \<in> set spaces \<and> ty = ''document_element'' \<and>
        i = de_id e \<and> rv = de_id e \<and> de_exact_text e = Some t)"

definition exact_id :: "string \<Rightarrow> uuid \<Rightarrow> uuid \<Rightarrow> string" where
  "exact_id ty i rv =
     (if ty = ''document_element'' then ''element:'' @ str_uuid i else ty @ '':'' @ str_uuid i @ '':'' @ str_uuid rv)"

lemma row_text_type: "row_text L a spaces ty i rv t \<Longrightarrow> ty \<in> {''document'', ''memory'', ''document_element''}"
  by (auto simp: row_text_def)

lemma uuid_pair_inject: "str_uuid i @ '':'' @ str_uuid r = str_uuid i' @ '':'' @ str_uuid r' \<longleftrightarrow> i = i' \<and> r = r'"
  by (auto simp: append_eq_append_conv length_str_uuid)

lemma exact_id_inject:
  assumes "row_text L a spaces ty i rv t" and "row_text L a spaces ty' i' rv' t'" and "exact_id ty i rv = exact_id ty' i' rv'"
  shows "ty = ty' \<and> i = i' \<and> rv = rv'"
proof -
  have "ty = ty'"
    using row_text_type [OF assms(1)] row_text_type [OF assms(2)] assms(3) by (auto simp: exact_id_def)
  moreover have "rv = i" if "ty = ''document_element''" using assms(1) that by (auto simp: row_text_def)
  moreover have "rv' = i'" if "ty' = ''document_element''" using assms(2) that by (auto simp: row_text_def)
  ultimately show ?thesis
    using assms(3) uuid_pair_inject [of i rv i' rv'] by (auto simp: exact_id_def split: if_splits)
qed

definition exact_hit :: "library \<Rightarrow> uuid \<Rightarrow> uuid list \<Rightarrow> RetrievalCandidate \<Rightarrow> bool" where
  "exact_hit L a spaces c \<longleftrightarrow>
     lane_hit L a spaces EXACT c \<and> (\<exists>t. row_text L a spaces (rc_canonical_type c) (rc_canonical_id c) (rc_revision_id c) t) \<and>
     rc_candidate_id c = exact_id (rc_canonical_type c) (rc_canonical_id c) (rc_revision_id c)"

definition corpus_ok :: "library \<Rightarrow> uuid \<Rightarrow> uuid list \<Rightarrow> (string \<times> string) list \<Rightarrow> bool" where
  "corpus_ok L a spaces corpus \<longleftrightarrow>
     (\<forall>cid t. map_of corpus cid = Some t \<longrightarrow> (\<exists>ty i rv. cid = exact_id ty i rv \<and> row_text L a spaces ty i rv t))"

definition exact_ok :: "library \<Rightarrow> uuid \<Rightarrow> uuid list \<Rightarrow> exact_state \<Rightarrow> bool" where
  "exact_ok L a spaces s \<longleftrightarrow>
     (case s of (rank, cs, corpus) \<Rightarrow> 0 < rank \<and> corpus_ok L a spaces corpus \<and>
        (\<forall>c \<in> set cs. exact_hit L a spaces c \<and> map_of corpus (rc_candidate_id c) \<noteq> None))"

lemma add_hit_ok:
  assumes "exact_ok L a spaces s"
    and "\<And>rank. 0 < rank \<Longrightarrow> exact_hit L a spaces (hit rank) \<and>
      row_text L a spaces (rc_canonical_type (hit rank)) (rc_canonical_id (hit rank)) (rc_revision_id (hit rank)) t"
  shows "exact_ok L a spaces (add_hit hit t s)"
proof -
  obtain rank cs corpus where s: "s = (rank, cs, corpus)" by (cases s) auto
  then have "0 < rank" using assms(1) by (simp add: exact_ok_def)
  note h = assms(2) [OF this]
  show ?thesis
    using assms(1) h unfolding s
    by (auto simp: exact_ok_def add_hit_def Let_def corpus_ok_def update_conv' exact_hit_def)
qed

lemma document_exact_hit:
  assumes "r \<in> set (document_revisions_in a spaces L)" and "0 < rank"
  shows "exact_hit L a spaces (document_hit [] EXACT rank None r) \<and>
    row_text L a spaces ''document'' (dr_document_id r) (dr_id r) (dr_plain_text r)"
proof -
  have "row_text L a spaces ''document'' (dr_document_id r) (dr_id r) (dr_plain_text r)"
    using assms(1) by (auto simp: row_text_def document_revisions_in_def)
  moreover have "lane_hit L a spaces EXACT (document_hit [] EXACT rank None r)"
    using assms by (intro document_lane_hit) (auto simp: lane_by_id_def)
  ultimately show ?thesis by (auto simp: exact_hit_def document_hit_def exact_id_def)
qed

lemma memory_exact_hit:
  assumes "r \<in> set (memory_revisions_in a spaces [''active''] L)" and "0 < rank"
  shows "exact_hit L a spaces (memory_hit [] EXACT rank None r) \<and>
    row_text L a spaces ''memory'' (mr_memory_item_id r) (mr_id r) (mr_assertion_text r)"
proof -
  have "row_text L a spaces ''memory'' (mr_memory_item_id r) (mr_id r) (mr_assertion_text r)"
    using assms(1) by (auto simp: row_text_def memory_revisions_in_def)
  moreover have "lane_hit L a spaces EXACT (memory_hit [] EXACT rank None r)"
    using assms by (intro memory_lane_hit [of _ _ _ "[''active'']"]) (auto simp: lane_by_id_def)
  ultimately show ?thesis by (auto simp: exact_hit_def memory_hit_def exact_id_def)
qed

lemma element_exact_hit:
  assumes "e \<in> set (lib_element L)" and "de_account_id e = a" and "de_space_id e \<in> set spaces" and "de_exact_text e = Some t"
    and "0 < rank"
  shows "exact_hit L a spaces (element_hit rank t e) \<and> row_text L a spaces ''document_element'' (de_id e) (de_id e) t"
proof -
  have "row_text L a spaces ''document_element'' (de_id e) (de_id e) t"
    using assms by (auto simp: row_text_def)
  moreover have "lane_hit L a spaces EXACT (element_hit rank t e)"
    using assms by (auto simp: lane_hit_def element_hit_def lane_by_id_def backed_def)
  ultimately show ?thesis by (auto simp: exact_hit_def element_hit_def exact_id_def)
qed

lemma exact_fold_ok:
  "exact_ok L a spaces
     (fold add_element (filter (\<lambda>e. de_account_id e = a \<and> de_space_id e \<in> set spaces) (lib_element L))
       (fold add_memory (memory_revisions_in a spaces [''active''] L)
         (fold add_document (document_revisions_in a spaces L) (1, [], []))))"
proof -
  let ?docs = "fold add_document (document_revisions_in a spaces L) (1, [], [])"
  let ?mems = "fold add_memory (memory_revisions_in a spaces [''active''] L) ?docs"
  have "exact_ok L a spaces ?docs"
    by (rule fold_invariant [where Q = "\<lambda>r. r \<in> set (document_revisions_in a spaces L)"])
      (auto simp: exact_ok_def [of _ _ _ "(1, [], [])"] corpus_ok_def add_document_def intro!: add_hit_ok
        simp: document_exact_hit document_hit_def [THEN arg_cong [where f = rc_canonical_type]]
          document_hit_def [THEN arg_cong [where f = rc_canonical_id]] document_hit_def [THEN arg_cong [where f = rc_revision_id]])
  then have "exact_ok L a spaces ?mems"
    by (rule fold_invariant [where Q = "\<lambda>r. r \<in> set (memory_revisions_in a spaces [''active''] L)", rotated])
      (auto simp: add_memory_def intro!: add_hit_ok
        simp: memory_exact_hit memory_hit_def [THEN arg_cong [where f = rc_canonical_type]]
          memory_hit_def [THEN arg_cong [where f = rc_canonical_id]] memory_hit_def [THEN arg_cong [where f = rc_revision_id]])
  then show ?thesis
    by (rule fold_invariant [where Q = "\<lambda>e. e \<in> set (lib_element L) \<and> de_account_id e = a \<and> de_space_id e \<in> set spaces", rotated])
      (auto simp: add_element_def intro!: add_hit_ok split: option.splits
        simp: element_exact_hit element_hit_def [THEN arg_cong [where f = rc_canonical_type]]
          element_hit_def [THEN arg_cong [where f = rc_canonical_id]] element_hit_def [THEN arg_cong [where f = rc_revision_id]])
qed

lemma renumber_exact_hit:
  assumes "\<forall>c \<in> set cs. exact_hit L a spaces c \<and> map_of corpus (rc_candidate_id c) \<noteq> None" and "c \<in> set (renumber cs)"
  shows "exact_hit L a spaces c \<and> map_of corpus (rc_candidate_id c) \<noteq> None"
proof -
  obtain i c0 where c: "c = c0\<lparr> rc_rank := i \<rparr>" "c0 \<in> set cs"
    using assms(2) by (auto simp: renumber_def dest: set_zip_rightD simp del: upt_Suc)
  moreover have "lane_hit L a spaces EXACT c"
    using assms by (intro renumber_lane_hit [of cs]) (auto simp: exact_hit_def)
  ultimately show ?thesis using assms(1) by (auto simp: exact_hit_def)
qed

lemma local_candidates_ok:
  assumes "local_candidates L a query spaces = (cs, corpus)"
  shows "corpus_ok L a spaces corpus \<and> (\<forall>c \<in> set cs. exact_hit L a spaces c \<and> map_of corpus (rc_candidate_id c) \<noteq> None)"
proof -
  obtain rank cs0 corpus0 where f: "fold add_element (filter (\<lambda>e. de_account_id e = a \<and> de_space_id e \<in> set spaces) (lib_element L))
       (fold add_memory (memory_revisions_in a spaces [''active''] L)
         (fold add_document (document_revisions_in a spaces L) (1, [], []))) = (rank, cs0, corpus0)"
    by (rule prod_cases3)
  note ok = exact_fold_ok [of L a spaces, unfolded f exact_ok_def prod.case]
  let ?m = "filter (\<lambda>c. py_in (py_lower query)
    (py_lower (case map_of corpus0 (rc_candidate_id c) of None \<Rightarrow> [] | Some t \<Rightarrow> t))) cs0"
  have c: "corpus = corpus0" "cs = (if py_lower query \<noteq> [] \<and> ?m \<noteq> [] then renumber ?m else cs0)"
    using assms unfolding local_candidates_def f prod.case Let_def by (auto simp del: if_split)
  have cs0: "\<forall>c \<in> set cs0. exact_hit L a spaces c \<and> map_of corpus0 (rc_candidate_id c) \<noteq> None"
    and corpus0: "corpus_ok L a spaces corpus0" using ok by blast+
  have "\<forall>c \<in> set (renumber (filter P cs0)). exact_hit L a spaces c \<and> map_of corpus0 (rc_candidate_id c) \<noteq> None" for P
  proof (intro ballI, rule renumber_exact_hit)
    show "\<forall>c \<in> set (filter P cs0). exact_hit L a spaces c \<and> map_of corpus0 (rc_candidate_id c) \<noteq> None"
      using cs0 by simp
  qed
  then show ?thesis using cs0 corpus0 unfolding c by (simp split: if_splits)
qed

interpretation exact: retrieval_lane EXACT "\<lambda>L a q spaces. fst (local_candidates L a q spaces)"
proof
  fix c L a q spaces
  assume c: "c \<in> set (fst (local_candidates L a q spaces))"
  obtain cs corpus where l: "local_candidates L a q spaces = (cs, corpus)" by (cases "local_candidates L a q spaces")
  show "lane_hit L a spaces EXACT c" using local_candidates_ok [OF l] c l by (auto simp: exact_hit_def)
qed

section \<open>Fusion of lanes\<close>

text \<open>A fused candidate has the identifiers of one of its hits, and exactly the lanes of its hits.\<close>

definition fused_from :: "(CandidateLane \<times> RetrievalCandidate) list \<Rightarrow> FusedCandidate \<Rightarrow> bool" where
  "fused_from hs f \<longleftrightarrow>
     (\<exists>h \<in> set hs. fc_candidate_id f = rc_candidate_id (snd h) \<and> fc_canonical_type f = rc_canonical_type (snd h) \<and>
        fc_canonical_id f = rc_canonical_id (snd h) \<and> fc_revision_id f = rc_revision_id (snd h) \<and>
        fc_space_id f = rc_space_id (snd h)) \<and>
     (\<forall>l \<in> set (fc_lanes f). \<exists>h \<in> set hs. fst h = l \<and> rc_candidate_id (snd h) = fc_candidate_id f) \<and> fc_lanes f \<noteq> []"

lemma fuse_candidates_from:
  assumes "fuse_candidates lrs k ws = Inr fs" and "f \<in> set fs"
  shows "fused_from (hits lrs) f"
proof -
  let ?P = "\<lambda>s. \<forall>(i, f) \<in> set s. fc_candidate_id f = i \<and> fused_from (hits lrs) f"
  obtain s where s: "fold_res (fuse_hit (active_weights ws) k) (hits lrs) [] = Inr s" "fs = sort_key fused_key (map snd s)"
    using assms(1) by (auto simp: fuse_candidates_def fold_fuse_lane bindr_Inr_iff)
  have "?P s"
  proof (rule fold_res_inv [OF s(1)])
    fix h s1 s2
    assume h: "h \<in> set (hits lrs)" and P: "?P s1" and st: "fuse_hit (active_weights ws) k h s1 = Inr s2"
    let ?i = "rc_candidate_id (snd h)"
    obtain contrib where s2: "s2 = AList.update ?i (case map_of s1 ?i of None \<Rightarrow> new_fused (fst h) contrib (snd h)
        | Some g \<Rightarrow> merge_fused (fst h) contrib (snd h) g) s1" (is "_ = AList.update _ ?g _")
      using st by (auto simp: fuse_hit_def fuse_one_def bindr_Inr_iff)
    have new: "fc_candidate_id ?g = ?i \<and> fused_from (hits lrs) ?g"
    proof (cases "map_of s1 ?i")
      case None
      then show ?thesis using h by (auto simp: new_fused_def fused_from_def)
    next
      case (Some g)
      then have g: "fc_candidate_id g = ?i" "fused_from (hits lrs) g" using P map_of_SomeD by fastforce+
      have "\<exists>h' \<in> set (hits lrs). fst h' = fst h \<and> rc_candidate_id (snd h') = ?i" using h by blast
      then show ?thesis
        using g(2) unfolding Some option.case merge_fused_def fused_from_def by (simp add: g(1))
    qed
    show "?P s2" unfolding s2 using new P by (auto dest!: set_update_subset [THEN subsetD])
  qed simp
  then show ?thesis using assms(2) s(2) by fastforce
qed

end
