(* ===== verification/Context_Service.thy ===== *)
theory Context_Service
  imports Lanes Context_Compiler
begin

text \<open>
  Context compilation for a request, \<open>services/core/src/memdot_core/context/service.py\<close>: the exact lane over the rows and spaces the request
  may see (\<open>visible_library\<close>), fusion, packing into a receipt, and the receipt's rows. The reply is a record with the fields of the returned
  dict; \<open>uuid4\<close> is the identifier the compiler draws for its own receipt object, which the service does not use.
\<close>

section \<open>Receipts\<close>

record ContextReceiptRow =
  crr_id :: uuid
  crr_account_id :: uuid
  crr_query_hash :: string
  crr_purpose :: string
  crr_policy_version :: string
  crr_eligible_spaces :: "string list"
  crr_provider_versions :: "(string \<times> string) list"
  crr_budget :: dict
  crr_context_hash :: string
  crr_partial :: bool
  crr_created_at :: datetime

record ContextReceiptItem =
  cri_id :: uuid
  cri_account_id :: uuid
  cri_receipt_id :: uuid
  cri_rank :: int
  cri_canonical_type :: string
  cri_canonical_id :: uuid
  cri_revision_id :: uuid
  cri_locator :: "string option"
  cri_selected :: bool
  cri_omit_reason :: "string option"

record context_db = core_db +
  t_receipt :: "ContextReceiptRow list"
  t_receipt_item :: "ContextReceiptItem list"

definition insert_receipt :: "ContextReceiptRow \<Rightarrow> 'a context_db_scheme \<Rightarrow> 'a context_db_scheme res" where
  "insert_receipt r d =
     bindr (write_gate (crr_account_id r) d) (\<lambda>_.
     bindr (unique_key ''pk_context_receipt'' (\<lambda>r. Some (crr_id r)) r (t_receipt d)) (\<lambda>_.
     bindr (guard_res (length (crr_query_hash r) = 64) (IntegrityError ''ck_context_receipt_query_hash_len'')) (\<lambda>_.
     bindr (guard_res (length (crr_context_hash r) = 64) (IntegrityError ''ck_context_receipt_context_hash_len'')) (\<lambda>_.
     Inr (d\<lparr> t_receipt := t_receipt d @ [r] \<rparr>)))))"

definition insert_receipt_item :: "ContextReceiptItem \<Rightarrow> 'a context_db_scheme \<Rightarrow> 'a context_db_scheme res" where
  "insert_receipt_item r d =
     bindr (write_gate (cri_account_id r) d) (\<lambda>_.
     bindr (unique_key ''pk_context_receipt_item'' (\<lambda>r. Some (cri_id r)) r (t_receipt_item d)) (\<lambda>_.
     bindr (unique_key ''uq_context_receipt_item_rank'' (\<lambda>r. Some (cri_account_id r, cri_receipt_id r, cri_rank r)) r
       (t_receipt_item d)) (\<lambda>_.
     bindr (foreign_key ''fk_context_receipt_item_receipt'' (Some (cri_account_id r, cri_receipt_id r))
       (\<lambda>x. (crr_account_id x, crr_id x)) (t_receipt d)) (\<lambda>_.
     Inr (d\<lparr> t_receipt_item := t_receipt_item d @ [r] \<rparr>)))))"

section \<open>Compilation\<close>

definition POLICY_VERSION :: string where
  "POLICY_VERSION = ''context-compiler-v1''"

definition active_purpose :: "RequestContext \<Rightarrow> string option \<Rightarrow> string" where
  "active_purpose ctx purpose =
     (case purpose of None \<Rightarrow> purpose_value (ctx_purpose ctx)
      | Some p \<Rightarrow> if p = [] then purpose_value (ctx_purpose ctx) else p)"

definition context_spaces :: "RequestContext \<Rightarrow> string \<Rightarrow> (uuid \<times> SpaceVisibility) list \<Rightarrow> uuid list" where
  "context_spaces ctx purpose visibilities =
     (let eligible = (if ctx_eligible_space_ids ctx \<noteq> [] then ctx_eligible_space_ids ctx else map fst visibilities)
      in if purpose = purpose_value EXTERNAL_READ
         then filter (\<lambda>s. visibility_in visibilities s \<noteq> PRIVATE) eligible else eligible)"

definition receipt_row :: "env \<Rightarrow> RequestContext \<Rightarrow> ContextReceipt \<Rightarrow> ContextReceiptRow" where
  "receipt_row E ctx receipt =
     \<lparr> crr_id = fresh E 0, crr_account_id = ctx_account_id ctx, crr_query_hash = cr_query_hash receipt,
       crr_purpose = cr_purpose receipt, crr_policy_version = cr_policy_version receipt,
       crr_eligible_spaces = map str_uuid (cr_eligible_spaces receipt),
       crr_provider_versions = cr_provider_versions receipt,
       crr_budget = [(''max_tokens'', JInt (max_tokens (cr_budget receipt))),
         (''max_items'', JInt (max_items (cr_budget receipt)))],
       crr_context_hash = cr_context_hash receipt, crr_partial = cr_partial receipt, crr_created_at = now E \<rparr>"

definition receipt_item_row :: "env \<Rightarrow> RequestContext \<Rightarrow> nat \<times> EvidenceItem \<Rightarrow> ContextReceiptItem" where
  "receipt_item_row E ctx ki =
     (case ki of (k, item) \<Rightarrow>
        \<lparr> cri_id = fresh E (k + 1), cri_account_id = ctx_account_id ctx, cri_receipt_id = fresh E 0,
          cri_rank = ei_rank item, cri_canonical_type = ei_canonical_type item,
          cri_canonical_id = ei_canonical_id item, cri_revision_id = ei_revision_id item,
          cri_locator = ei_locator item, cri_selected = ei_selected item,
          cri_omit_reason = map_option omit_value (ei_omit_reason item) \<rparr>)"

definition store_receipt :: "env \<Rightarrow> RequestContext \<Rightarrow> ContextReceipt \<Rightarrow> ('a context_db_scheme, unit) op" where
  "store_receipt E ctx receipt s =
     Inr ((), fold (\<lambda>ki. add (insert_receipt_item (receipt_item_row E ctx ki))) (List.enumerate 0 (cr_items receipt))
       (add (insert_receipt (receipt_row E ctx receipt)) s))"

record context_reply =
  crp_receipt_id :: uuid
  crp_query_hash :: string
  crp_context_hash :: string
  crp_partial :: bool
  crp_policy_version :: string
  crp_evidence :: "EvidenceItem list"

definition compile_context_for_request ::
    "env \<Rightarrow> library \<Rightarrow> uuid \<Rightarrow> RequestContext \<Rightarrow> string \<Rightarrow> string option \<Rightarrow> int \<Rightarrow> int \<Rightarrow> ('a context_db_scheme, context_reply) op" where
  "compile_context_for_request E L uuid4 ctx query purpose max_toks max_its s =
     (let active = active_purpose ctx purpose in
      bindr (space_visibility_map (ctx_account_id ctx) (tables s)) (\<lambda>visibilities.
      let eligible = context_spaces ctx active visibilities;
          (raw_candidates, corpus) = local_candidates (visible_library (tables s) L) (ctx_account_id ctx) query eligible
      in bindr (fuse_candidates [(EXACT, raw_candidates)] RRF_K None) (\<lambda>fused.
         let receipt = compile_context (sha256 E) uuid4 query active POLICY_VERSION eligible [(''local_lexical'', ''v1'')]
               (exclude_private_spaces fc_space_id fused visibilities active) corpus
               (Some \<lparr> max_tokens = max_toks, max_items = max_its \<rparr>)
         in bindr (tenant_scope E (tenant_of ctx) (store_receipt E ctx receipt) s) (\<lambda>(_, s1).
            Inr (\<lparr> crp_receipt_id = fresh E 0, crp_query_hash = cr_query_hash receipt,
                   crp_context_hash = cr_context_hash receipt, crp_partial = cr_partial receipt,
                   crp_policy_version = cr_policy_version receipt, crp_evidence = cr_items receipt \<rparr>, s1)))))"

section \<open>What the receipt records\<close>

lemma insert_receipt_Inr: "insert_receipt r d = Inr d1 \<Longrightarrow> d1 = d\<lparr> t_receipt := t_receipt d @ [r] \<rparr>"
  by (auto simp: insert_receipt_def bindr_Inr_iff)

lemma insert_receipt_item_Inr: "insert_receipt_item r d = Inr d1 \<Longrightarrow> d1 = d\<lparr> t_receipt_item := t_receipt_item d @ [r] \<rparr>"
  by (auto simp: insert_receipt_item_def bindr_Inr_iff)

lemma flush_items:
  "flush (d, map (\<lambda>x. insert_receipt_item (f x)) xs) = Inr (d', ps') \<Longrightarrow>
     d' = d\<lparr> t_receipt_item := t_receipt_item d @ map f xs \<rparr> \<and> ps' = []"
proof (induction xs arbitrary: d)
  case (Cons x xs)
  then obtain d1 where d1: "insert_receipt_item (f x) d = Inr d1"
    "flush (d1, map (\<lambda>x. insert_receipt_item (f x)) xs) = Inr (d', ps')"
    by (auto simp: bindr_Inr_iff)
  show ?case using Cons.IH [OF d1(2)] insert_receipt_item_Inr [OF d1(1)] by simp
qed simp

lemma store_receipt_Inr:
  fixes d :: "'a context_db_scheme"
  assumes "tenant_scope E c (store_receipt E ctx receipt) (d, []) = Inr (u, d', ps')"
  shows "t_receipt d' = t_receipt d @ [receipt_row E ctx receipt] \<and>
    t_receipt_item d' = t_receipt_item d @ map (receipt_item_row E ctx) (List.enumerate 0 (cr_items receipt))"
  using assms
proof (rule tenant_scope_body)
  fix g s3
  assume b: "store_receipt E ctx receipt (d\<lparr> settings := g \<rparr>, []) = Inr (u, s3)" and f: "flush s3 = Inr (d', ps')"
  have "s3 = (d\<lparr> settings := g \<rparr>, insert_receipt (receipt_row E ctx receipt) #
      map (\<lambda>ki. insert_receipt_item (receipt_item_row E ctx ki)) (List.enumerate 0 (cr_items receipt)))"
    using b by (simp add: store_receipt_def fold_add)
  then obtain d1 where d1: "insert_receipt (receipt_row E ctx receipt) (d\<lparr> settings := g \<rparr>) = Inr d1"
    "flush (d1, map (\<lambda>ki. insert_receipt_item (receipt_item_row E ctx ki)) (List.enumerate 0 (cr_items receipt))) = Inr (d', ps')"
    using f by (auto simp: bindr_Inr_iff)
  then show ?thesis using flush_items [OF d1(2)] insert_receipt_Inr [OF d1(1)] by simp
qed

lemma describes_all_in:
  assumes "describes_all corpus rank cs is" and "i \<in> set is"
  obtains c r where "c \<in> set cs" "describes corpus r c i"
proof -
  obtain j where "j < length is" "is ! j = i" using assms(2) by (auto simp: in_set_conv_nth)
  then show ?thesis
    using describes_all_nth [OF assms(1), of j] describes_all_length [OF assms(1)] that [of "cs ! j"] by auto
qed

text \<open>A fused candidate of the exact lane is backed by a row of the account in the given spaces, and its text is that row's.\<close>

lemma fused_exact:
  assumes "local_candidates L a query spaces = (cs, corpus)" and "fuse_candidates [(EXACT, cs)] k None = Inr fs" and "f \<in> set fs"
  shows "fc_space_id f \<in> set spaces \<and> backed L a (fc_canonical_type f) (fc_canonical_id f) (fc_revision_id f) (fc_space_id f) \<and>
    row_text L a spaces (fc_canonical_type f) (fc_canonical_id f) (fc_revision_id f) (candidate_text corpus f)"
proof -
  obtain c where c: "c \<in> set cs" "fc_candidate_id f = rc_candidate_id c" "fc_canonical_type f = rc_canonical_type c"
    "fc_canonical_id f = rc_canonical_id c" "fc_revision_id f = rc_revision_id c" "fc_space_id f = rc_space_id c"
    using fuse_candidates_from [OF assms(2,3)] by (auto simp: fused_from_def hits_def)
  note ok = local_candidates_ok [OF assms(1)]
  have h: "exact_hit L a spaces c" "map_of corpus (rc_candidate_id c) \<noteq> None" using ok c(1) by auto
  then obtain t t0 where t: "map_of corpus (rc_candidate_id c) = Some t"
    and t0: "row_text L a spaces (rc_canonical_type c) (rc_canonical_id c) (rc_revision_id c) t0"
    "rc_candidate_id c = exact_id (rc_canonical_type c) (rc_canonical_id c) (rc_revision_id c)"
    by (auto simp: exact_hit_def)
  obtain ty i rv where r: "rc_candidate_id c = exact_id ty i rv" "row_text L a spaces ty i rv t"
    using ok t unfolding corpus_ok_def by blast
  then have "row_text L a spaces (rc_canonical_type c) (rc_canonical_id c) (rc_revision_id c) t"
    using exact_id_inject [OF t0(1) r(2)] t0(2) by simp
  then show ?thesis
    using c h(1) t by (simp add: exact_hit_def lane_hit_def candidate_text_def)
qed

text \<open>The spaces of a context: none is private for an external request, whatever purpose it names, nor for an external read.\<close>

lemma context_space_not_private:
  assumes "served_context d ctx" and "space_visibility_map (ctx_account_id ctx) d = Inr vs"
    and "active = ''external_read'' \<or> external_request ctx" and "sp \<in> set (context_spaces ctx active vs)"
  shows "\<not> private_space d (ctx_account_id ctx) sp"
proof -
  have key: "space_key d" using assms(1) by (simp add: served_context_def)
  show ?thesis
  proof (cases "external_request ctx")
    case True
    then have "\<not> internal_purpose d" using served_internal [OF assms(1)] by simp
    moreover have "sp \<in> set (ctx_eligible_space_ids ctx) \<or> sp \<in> fst ` set vs"
      using assms(4) by (auto simp: context_spaces_def Let_def split: if_splits)
    ultimately show ?thesis
      using listed_not_private [OF assms(2) key] assms(1) True by (auto simp: served_context_def)
  next
    case False
    then have "active = ''external_read''" "internal_purpose d" using assms(3) served_internal [OF assms(1)] by simp_all
    then show ?thesis
      using visibility_not_private [OF assms(2) key] assms(4) by (simp add: context_spaces_def purpose_value_def)
  qed
qed

section \<open>A concrete run\<close>

lemma begin_context_sha: "memdot_begin_tenant_context (E\<lparr> sha256 := f \<rparr>) = memdot_begin_tenant_context E"
  by (intro ext) (simp add: memdot_begin_tenant_context_def)

lemma apply_context_sha: "apply_tenant_context (E\<lparr> sha256 := f \<rparr>) = apply_tenant_context E"
  by (intro ext) (simp add: apply_tenant_context_def sign_tenant_context_def tenant_signing_key_def begin_context_sha)

lemma tenant_scope_sha: "tenant_scope (E\<lparr> sha256 := f \<rparr>) = tenant_scope E"
  by (intro ext) (simp add: tenant_scope_def apply_context_sha)

definition demo_digest_env :: env where
  "demo_digest_env = demo_env\<lparr> sha256 := (\<lambda>s. replicate 64 (CHR ''0'')) \<rparr>"

definition demo_library :: library where
  "demo_library =
     \<lparr> lib_document = [], lib_document_revision = [\<lparr> dr_id = 41, dr_account_id = 1, dr_space_id = 5, dr_document_id = 40,
         dr_base_revision_id = None, dr_content_sha256 = [], dr_schema_version = 1, dr_content_json = [],
         dr_plain_text = ''Hello'', dr_author_actor_id = None, dr_proposal_id = None, dr_created_at = 0 \<rparr>],
       lib_document_pointer = [], lib_memory_item = [], lib_memory_revision = [], lib_element = [], lib_node = [], lib_edge = [],
       lib_proposal = [] \<rparr>"

definition demo_context :: context_db where
  "demo_context = core_db.extend (demo_core\<lparr> settings := empty_settings\<lparr> set_purpose := ''first_party'' \<rparr> \<rparr>)
     \<lparr> t_receipt = [], t_receipt_item = [] \<rparr>"

lemma demo_context_tables [simp]:
  "t_actor demo_context = t_actor demo_core" "t_account_member demo_context = t_account_member demo_core"
  "t_space demo_context = t_space demo_core" "t_account demo_context = t_account demo_core"
  "t_receipt demo_context = []" "t_receipt_item demo_context = []" "internal_purpose demo_context"
  by (simp_all add: demo_context_def core_db.defs internal_purpose_def)

lemma demo_visibilities: "space_visibility_map 1 demo_context = Inr [(5, GENERAL), (6, PRIVATE)]"
  by (simp add: space_visibility_map_def demo_core_def parse_visibility_def space_row_visible_def)

definition demo_candidate :: RetrievalCandidate where
  "demo_candidate = document_hit [] EXACT 1 None (hd (lib_document_revision demo_library))"

lemma demo_local:
  "local_candidates demo_library 1 [] [5, 6] = ([demo_candidate], [(rc_candidate_id demo_candidate, ''Hello'')])"
  by (simp add: local_candidates_def demo_library_def document_revisions_in_def memory_revisions_in_def add_document_def
      add_hit_def demo_candidate_def py_lower_def Let_def)

lemma demo_fused: "\<exists>f. fuse_candidates [(EXACT, [demo_candidate])] RRF_K None = Inr [f]"
  by (simp add: fuse_candidates_def fuse_lane_def fuse_one_def rrf_contribution_def demo_candidate_def document_hit_def RRF_K_def)

lemma demo_compile:
  "\<exists>reply d' ps'. compile_context_for_request demo_digest_env demo_library 0 demo_ctx [] None 100 10 (demo_context, []) =
     Inr (reply, d', ps') \<and> length (crp_evidence reply) = 1"
proof -
  obtain f where f: "fuse_candidates [(EXACT, [demo_candidate])] RRF_K None = Inr [f]" using demo_fused by blast
  have p: "active_purpose demo_ctx None = ''first_party''" by (simp add: active_purpose_def demo_ctx_def purpose_value_def)
  have sp: "context_spaces demo_ctx ''first_party'' [(5, GENERAL), (6, PRIVATE)] = [5, 6]"
    by (simp add: context_spaces_def demo_ctx_def purpose_value_def)
  define rc where "rc = compile_context (sha256 demo_digest_env) 0 [] ''first_party'' POLICY_VERSION [5, 6] [(''local_lexical'', ''v1'')]
    (exclude_private_spaces fc_space_id [f] [(5, GENERAL), (6, PRIVATE)] ''first_party'') [(rc_candidate_id demo_candidate, ''Hello'')]
    (Some \<lparr> max_tokens = 100, max_items = 10 \<rparr>)"
  have items: "length (cr_items rc) = 1"
    unfolding rc_def compile_context_def Let_def by (simp add: exclude_private_spaces_def pack_items_length del: pack.simps)
  then obtain it where it: "cr_items rc = [it]" by (auto simp: length_Suc_conv)
  have len: "length (cr_query_hash rc) = 64" "length (cr_context_hash rc) = 64"
    by (simp_all add: rc_def compile_context_def Let_def query_hash_def context_hash_def demo_digest_env_def)
  obtain g where "tenant_scope demo_env demo_tenant (store_receipt demo_digest_env demo_ctx rc) (demo_context, []) =
      bindr (store_receipt demo_digest_env demo_ctx rc (demo_context\<lparr> settings := g \<rparr>, []))
        (\<lambda>(r, s3). bindr (flush s3) (\<lambda>s4. Inr (r, s4)))"
    by (rule demo_scope) (rule demo_context_tables)+
  then obtain s1 where "tenant_scope demo_digest_env demo_tenant (store_receipt demo_digest_env demo_ctx rc) (demo_context, []) =
      Inr ((), s1)"
    by (simp add: demo_digest_env_def tenant_scope_sha)
      (simp add: store_receipt_def it insert_receipt_def insert_receipt_item_def write_gate_def pending_gate_def demo_core_def unique_key_def
        foreign_key_def receipt_row_def receipt_item_row_def len)
  then show ?thesis
    using items demo_visibilities p sp demo_local f
    by (cases s1) (simp add: compile_context_for_request_def rc_def Let_def)
qed

section \<open>Properties\<close>

text \<open>
  (C15) A compiled context is confined: every item of the reply stands for a row of the caller's account that the row policies show, in
  a space the request may see (never a private one for the purpose of an external read, nor, under a served context, for an
  external request whatever purpose it names), a selected item carries exactly that row's text and an omitted one no text, the
  selection stays within the budget, and the stored receipt lists precisely the items of the reply.
\<close>

theorem context_confined:
  fixes d :: "'a context_db_scheme"
  assumes "compile_context_for_request E L uuid4 ctx query purpose mt mi (d, []) = Inr (reply, d', ps')"
  shows "\<exists>visibilities spaces. space_visibility_map (ctx_account_id ctx) d = Inr visibilities \<and>
    spaces = context_spaces ctx (active_purpose ctx purpose) visibilities \<and>
    (\<forall>i \<in> set (crp_evidence reply). \<exists>sp \<in> set spaces.
       backed (visible_library d L) (ctx_account_id ctx) (ei_canonical_type i) (ei_canonical_id i) (ei_revision_id i) sp \<and>
       (active_purpose ctx purpose = ''external_read'' \<longrightarrow> visibility_in visibilities sp \<noteq> PRIVATE) \<and>
       (served_context d ctx \<and> (active_purpose ctx purpose = ''external_read'' \<or> external_request ctx) \<longrightarrow>
          \<not> private_space d (ctx_account_id ctx) sp) \<and>
       (if ei_selected i
        then row_text (visible_library d L) (ctx_account_id ctx) spaces (ei_canonical_type i) (ei_canonical_id i) (ei_revision_id i) (ei_text i)
        else ei_text i = [])) \<and>
    within_budget \<lparr> max_tokens = mt, max_items = mi \<rparr> (crp_evidence reply) \<and>
    (\<exists>row. t_receipt d' = t_receipt d @ [row] \<and> crr_id row = crp_receipt_id reply \<and> crr_account_id row = ctx_account_id ctx) \<and>
    (\<exists>rows. t_receipt_item d' = t_receipt_item d @ rows \<and>
       map (\<lambda>r. (cri_receipt_id r, cri_canonical_id r, cri_revision_id r, cri_selected r)) rows =
       map (\<lambda>i. (crp_receipt_id reply, ei_canonical_id i, ei_revision_id i, ei_selected i)) (crp_evidence reply))"
proof -
  let ?a = "ctx_account_id ctx" and ?p = "active_purpose ctx purpose" and ?L = "visible_library d L"
  obtain vs where vs: "space_visibility_map ?a d = Inr vs"
    using assms by (auto simp: compile_context_for_request_def Let_def bindr_Inr_iff)
  let ?sp = "context_spaces ctx ?p vs"
  obtain cs corpus where l: "local_candidates ?L ?a query ?sp = (cs, corpus)" by fastforce
  obtain fs where fs: "fuse_candidates [(EXACT, cs)] RRF_K None = Inr fs"
    using assms vs l by (auto simp: compile_context_for_request_def Let_def bindr_Inr_iff)
  let ?keep = "exclude_private_spaces fc_space_id fs vs ?p"
  define rc where "rc = compile_context (sha256 E) uuid4 query ?p POLICY_VERSION ?sp [(''local_lexical'', ''v1'')] ?keep corpus
    (Some \<lparr> max_tokens = mt, max_items = mi \<rparr>)"
  obtain u where sc: "tenant_scope E (tenant_of ctx) (store_receipt E ctx rc) (d, []) = Inr (u, d', ps')"
    and reply: "crp_evidence reply = cr_items rc" "crp_receipt_id reply = fresh E 0"
    using assms vs l fs by (auto simp: compile_context_for_request_def Let_def bindr_Inr_iff rc_def)
  note st = store_receipt_Inr [OF sc]
  have desc: "describes_all corpus 1 ?keep (cr_items rc)"
    using compile_context_accounts unfolding rc_def Let_def by blast
  have items: "\<exists>sp \<in> set ?sp. backed ?L ?a (ei_canonical_type i) (ei_canonical_id i) (ei_revision_id i) sp \<and>
       (?p = ''external_read'' \<longrightarrow> visibility_in vs sp \<noteq> PRIVATE) \<and>
       (served_context d ctx \<and> (?p = ''external_read'' \<or> external_request ctx) \<longrightarrow> \<not> private_space d ?a sp) \<and>
       (if ei_selected i then row_text ?L ?a ?sp (ei_canonical_type i) (ei_canonical_id i) (ei_revision_id i) (ei_text i)
        else ei_text i = [])" if i: "i \<in> set (cr_items rc)" for i
  proof -
    obtain f r where f: "f \<in> set ?keep" "describes corpus r f i" using describes_all_in [OF desc i] .
    then have "f \<in> set fs" and vis: "?p = ''external_read'' \<longrightarrow> visibility_in vs (fc_space_id f) \<noteq> PRIVATE"
      by (auto simp: exclude_private_spaces_def visibility_in_def split: if_splits)
    from fused_exact [OF l fs this(1)] f(2) vis show ?thesis
      using context_space_not_private [OF _ vs, of ?p "fc_space_id f"]
      by (intro bexI [of _ "fc_space_id f"]) (auto simp: describes_def)
  qed
  have "within_budget \<lparr> max_tokens = mt, max_items = mi \<rparr> (cr_items rc)"
    unfolding rc_def compile_context_def Let_def
    by simp (rule pack_within_budget; simp add: within_budget_def selected_count_def selected_chars_def)
  moreover have "map (\<lambda>r. (cri_receipt_id r, cri_canonical_id r, cri_revision_id r, cri_selected r))
      (map (receipt_item_row E ctx) (List.enumerate n xs)) =
      map (\<lambda>i. (fresh E 0, ei_canonical_id i, ei_revision_id i, ei_selected i)) xs" for n xs
    by (induction xs arbitrary: n) (simp_all add: receipt_item_row_def)
  ultimately show ?thesis
    using vs items st unfolding reply by (auto simp: receipt_row_def)
qed

theorem context_confined_witness:
  "\<exists>reply d' ps'. compile_context_for_request demo_digest_env demo_library 0 demo_ctx [] None 100 10 (demo_context, []) =
     Inr (reply, d', ps') \<and> length (crp_evidence reply) = 1 \<and>
     within_budget \<lparr> max_tokens = 100, max_items = 10 \<rparr> (crp_evidence reply)"
proof -
  obtain reply d' ps' where run: "compile_context_for_request demo_digest_env demo_library 0 demo_ctx [] None 100 10 (demo_context, []) =
     Inr (reply, d', ps')" "length (crp_evidence reply) = 1"
    using demo_compile by blast
  then show ?thesis using context_confined [OF run(1)] by blast
qed

end
