(* ===== verification/Mcp_Service.thy ===== *)
theory Mcp_Service
  imports Context_Service Mcp_Ids Conversations
begin

text \<open>
  The MCP surface for external assistants, \<open>services/core/src/memdot_core/mcp/service.py\<close>: search over the four lanes, fetch by public
  identifier, context preparation, proposals and recorded interactions. Replies are records with the fields of the
  returned dicts; the constant \<open>"learnerEvidenceChanged": False\<close> has no field. Strings \<open>occurred_at\<close> are parsed before the service is called.
\<close>

section \<open>Eligible spaces\<close>

definition eligible_non_private_spaces :: "RequestContext \<Rightarrow> (uuid \<times> SpaceVisibility) list \<Rightarrow> uuid list" where
  "eligible_non_private_spaces ctx visibilities =
     (let eligible =
        (if ctx_purpose ctx \<in> {EXTERNAL_READ, EXTERNAL_PROPOSE, EXTERNAL_INTERACTION} then ctx_eligible_space_ids ctx
         else if ctx_eligible_space_ids ctx \<noteq> [] then ctx_eligible_space_ids ctx else map fst visibilities)
      in filter (\<lambda>s. visibility_in visibilities s \<noteq> PRIVATE) eligible)"

definition is_entity_available :: "uuid \<Rightarrow> string \<Rightarrow> uuid \<Rightarrow> 'a core_db_scheme \<Rightarrow> bool res" where
  "is_entity_available account_id entity_type entity_id d =
     bindr (is_tombstoned account_id entity_type entity_id d) (\<lambda>gone. Inr (\<not> gone))"

section \<open>Search\<close>

record search_result =
  sres_id :: string
  sres_title :: string
  sres_url :: string

definition search_result_of :: "string \<Rightarrow> FusedCandidate \<Rightarrow> search_result" where
  "search_result_of public_base_url item =
     \<lparr> sres_id = encode_mcp_public_id (fc_canonical_type item) (fc_canonical_id item) (Some (fc_revision_id item)),
       sres_title = (case fc_snippet item of None \<Rightarrow> fc_canonical_type item
         | Some t \<Rightarrow> if t = [] then fc_canonical_type item else take 120 t),
       sres_url = citation_url public_base_url (fc_canonical_type item) (fc_canonical_id item) \<rparr>"

fun available_results :: "uuid \<Rightarrow> string \<Rightarrow> FusedCandidate list \<Rightarrow> 'a core_db_scheme \<Rightarrow> search_result list res" where
  "available_results account_id url [] d = Inr []"
| "available_results account_id url (item # items) d =
     bindr (is_entity_available account_id (fc_canonical_type item) (fc_canonical_id item) d) (\<lambda>ok.
     bindr (available_results account_id url items d) (\<lambda>rs. Inr (if ok then search_result_of url item # rs else rs)))"

definition search_lanes ::
    "lane_env \<Rightarrow> library \<Rightarrow> uuid \<Rightarrow> datetime option \<Rightarrow> string \<Rightarrow> uuid list \<Rightarrow> (CandidateLane \<times> RetrievalCandidate list) list" where
  "search_lanes V L account_id as_of query eligible =
     [(TEMPORAL_EXACT, temporal_candidates L account_id as_of 20 query eligible),
      (EXACT, fst (local_candidates L account_id query eligible)),
      (GRAPH, graph_candidates L account_id 20 query eligible),
      (OSS_SEMANTIC, semantic_candidates V L account_id as_of 20 query eligible)]"

definition search_filters ::
    "library \<Rightarrow> uuid \<Rightarrow> (uuid \<times> SpaceVisibility) list \<Rightarrow> FusedCandidate list \<Rightarrow> 'a core_db_scheme \<Rightarrow> FusedCandidate list res" where
  "search_filters L account_id visibilities fused d =
     bindr (filter_private_spaces fc_space_id account_id False
       (exclude_private_spaces fc_space_id fused visibilities (purpose_value EXTERNAL_READ)) d) (\<lambda>fused1.
     bindr (filter_tombstoned fc_canonical_type fc_canonical_id account_id fused1 d) (\<lambda>fused2.
     Inr (filter_pending_and_retracted fc_canonical_type fc_canonical_id account_id fused2 L)))"

definition search ::
    "lane_env \<Rightarrow> library \<Rightarrow> RequestContext \<Rightarrow> string \<Rightarrow> string \<Rightarrow> nat \<Rightarrow> datetime option \<Rightarrow> 'a core_db_scheme \<Rightarrow> search_result list res" where
  "search V L ctx query public_base_url max_results as_of d =
     (let q = py_strip query in
      if q = [] \<or> 2048 < length q then Inr []
      else
        let rows = visible_library d L in
        bindr (space_visibility_map (ctx_account_id ctx) d) (\<lambda>visibilities.
        bindr (fuse_candidates (search_lanes V rows (ctx_account_id ctx) as_of q (eligible_non_private_spaces ctx visibilities))
          RRF_K None) (\<lambda>fused.
        bindr (search_filters rows (ctx_account_id ctx) visibilities fused d) (\<lambda>kept.
        available_results (ctx_account_id ctx) public_base_url (take max_results kept) d))))"

section \<open>Fetch\<close>

record fetch_reply =
  ftr_id :: string
  ftr_title :: string
  ftr_text :: string
  ftr_url :: string
  ftr_metadata :: dict

definition space_is_private :: "(uuid \<times> SpaceVisibility) list \<Rightarrow> uuid \<Rightarrow> bool" where
  "space_is_private visibilities space_id \<longleftrightarrow> visibility_in visibilities space_id = PRIVATE"

definition first_row :: "'r list \<Rightarrow> 'r option" where
  "first_row rows = (case rows of [] \<Rightarrow> None | r # _ \<Rightarrow> Some r)"

definition document_reply :: "string \<Rightarrow> AuthoredDocument \<Rightarrow> DocumentRevision \<Rightarrow> fetch_reply" where
  "document_reply url doc r =
     \<lparr> ftr_id = encode_mcp_public_id ''document'' (ad_id doc) (Some (dr_id r)), ftr_title = ad_title doc,
       ftr_text = dr_plain_text r, ftr_url = citation_url url ''document'' (ad_id doc),
       ftr_metadata = [(''canonicalType'', JStr ''document''), (''revisionId'', JStr (str_uuid (dr_id r))),
         (''truthClass'', JStr (truth_class_value USER_ASSERTION))] \<rparr>"

definition fetch_document ::
    "library \<Rightarrow> uuid \<Rightarrow> uuid \<Rightarrow> uuid option \<Rightarrow> string \<Rightarrow> (uuid \<times> SpaceVisibility) list \<Rightarrow> fetch_reply option res" where
  "fetch_document L account_id document_id revision_id url visibilities =
     bindr (scalar_one_or_none (filter (\<lambda>x. ad_account_id x = account_id \<and> ad_id x = document_id) (lib_document L))) (\<lambda>doc.
     case doc of
       None \<Rightarrow> Inr None
     | Some doc \<Rightarrow>
         if space_is_private visibilities (ad_space_id doc) then Inr None
         else
           let revs = filter (\<lambda>r. dr_account_id r = account_id \<and> dr_document_id r = document_id) (lib_document_revision L)
           in bindr (case revision_id of
                  Some i \<Rightarrow> Inr (filter (\<lambda>r. dr_id r = i) revs)
                | None \<Rightarrow>
                    bindr (scalar_one_or_none (filter (\<lambda>c. cd_account_id c = account_id \<and> cd_document_id c = document_id)
                      (lib_document_pointer L))) (\<lambda>current.
                    Inr (case current of None \<Rightarrow> revs | Some c \<Rightarrow> filter (\<lambda>r. dr_id r = cd_revision_id c) revs))) (\<lambda>rows.
              Inr (map_option (document_reply url doc) (first_row rows))))"

definition memory_reply :: "string \<Rightarrow> MemoryItem \<Rightarrow> MemoryRevision \<Rightarrow> fetch_reply" where
  "memory_reply url item r =
     \<lparr> ftr_id = encode_mcp_public_id ''memory'' (mi_id item) (Some (mr_id r)), ftr_title = mi_title item,
       ftr_text = mr_assertion_text r, ftr_url = citation_url url ''memory'' (mi_id item),
       ftr_metadata = [(''canonicalType'', JStr ''memory''), (''revisionId'', JStr (str_uuid (mr_id r))),
         (''truthClass'', JStr (mr_truth_class r))] \<rparr>"

definition fetch_memory ::
    "library \<Rightarrow> uuid \<Rightarrow> uuid \<Rightarrow> uuid option \<Rightarrow> string \<Rightarrow> (uuid \<times> SpaceVisibility) list \<Rightarrow> fetch_reply option res" where
  "fetch_memory L account_id memory_item_id revision_id url visibilities =
     bindr (scalar_one_or_none (filter (\<lambda>x. mi_account_id x = account_id \<and> mi_id x = memory_item_id) (lib_memory_item L))) (\<lambda>item.
     case item of
       None \<Rightarrow> Inr None
     | Some item \<Rightarrow>
         if space_is_private visibilities (mi_space_id item) then Inr None
         else
           let revs = filter (\<lambda>r. mr_account_id r = account_id \<and> mr_memory_item_id r = memory_item_id \<and> mr_status r = ''active'')
                 (lib_memory_revision L);
               rows = (case revision_id of None \<Rightarrow> revs | Some i \<Rightarrow> filter (\<lambda>r. mr_id r = i) revs)
           in Inr (map_option (memory_reply url item) (first_row rows)))"

definition fetch_element ::
    "library \<Rightarrow> uuid \<Rightarrow> uuid \<Rightarrow> string \<Rightarrow> string \<Rightarrow> (uuid \<times> SpaceVisibility) list \<Rightarrow> fetch_reply option res" where
  "fetch_element L account_id eid url mcp_id visibilities =
     bindr (scalar_one_or_none (filter (\<lambda>x. de_account_id x = account_id \<and> de_id x = eid) (lib_element L))) (\<lambda>element.
     case element of
       None \<Rightarrow> Inr None
     | Some e \<Rightarrow>
         if space_is_private visibilities (de_space_id e) then Inr None
         else Inr (Some \<lparr> ftr_id = mcp_id, ftr_title = de_element_kind e,
           ftr_text = (case de_exact_text e of None \<Rightarrow> [] | Some t \<Rightarrow> t),
           ftr_url = citation_url url ''document_element'' eid,
           ftr_metadata = [(''canonicalType'', JStr ''document_element''), (''revisionId'', JStr (str_uuid eid)),
             (''locator'', (case de_locator e of None \<Rightarrow> JNull | Some l \<Rightarrow> JStr l))] \<rparr>))"

definition fetch_curriculum_edge ::
    "library \<Rightarrow> uuid \<Rightarrow> uuid \<Rightarrow> string \<Rightarrow> string \<Rightarrow> (uuid \<times> SpaceVisibility) list \<Rightarrow> fetch_reply option res" where
  "fetch_curriculum_edge L account_id edge_id url mcp_id visibilities =
     bindr (scalar_one_or_none (filter (\<lambda>x. ed_account_id x = account_id \<and> ed_id x = edge_id) (lib_edge L))) (\<lambda>edge.
     case edge of
       None \<Rightarrow> Inr None
     | Some e \<Rightarrow>
         if space_is_private visibilities (ed_space_id e) then Inr None
         else Inr (Some \<lparr> ftr_id = mcp_id, ftr_title = ed_edge_kind e @ '' relationship'',
           ftr_text = str_uuid (ed_from_node_id e) @ '' '' @ ed_edge_kind e @ '' '' @ str_uuid (ed_to_node_id e),
           ftr_url = citation_url url ''curriculum_edge'' edge_id,
           ftr_metadata = [(''canonicalType'', JStr ''curriculum_edge''), (''revisionId'', JStr (str_uuid (ed_id e))),
             (''confirmation'', JStr (ed_confirmation e))] \<rparr>))"

definition fetch_entity ::
    "library \<Rightarrow> uuid \<Rightarrow> string \<Rightarrow> string \<Rightarrow> (uuid \<times> SpaceVisibility) list \<Rightarrow> string \<times> uuid \<times> uuid option \<Rightarrow> fetch_reply option res" where
  "fetch_entity L account_id mcp_id url visibilities key =
     (case key of (ty, i, rv) \<Rightarrow>
        if ty = ''document'' then fetch_document L account_id i rv url visibilities
        else if ty = ''memory'' then fetch_memory L account_id i rv url visibilities
        else if ty = ''document_element'' then fetch_element L account_id i url mcp_id visibilities
        else if ty = ''curriculum_edge'' then fetch_curriculum_edge L account_id i url mcp_id visibilities
        else Inr None)"

definition fetch :: "library \<Rightarrow> RequestContext \<Rightarrow> string \<Rightarrow> string \<Rightarrow> 'a core_db_scheme \<Rightarrow> fetch_reply option res" where
  "fetch L ctx mcp_id public_base_url d =
     (case decode_mcp_public_id mcp_id of
        Inl _ \<Rightarrow> Inr None
      | Inr (ty, i, rv) \<Rightarrow>
          bindr (is_entity_available (ctx_account_id ctx) ty i d) (\<lambda>ok.
          if \<not> ok then Inr None
          else bindr (space_visibility_map (ctx_account_id ctx) d) (\<lambda>visibilities.
            fetch_entity (visible_library d L) (ctx_account_id ctx) mcp_id public_base_url visibilities (ty, i, rv))))"

section \<open>Context, proposals\<close>

definition external_ctx :: "RequestContext \<Rightarrow> RequestPurpose \<Rightarrow> RequestContext" where
  "external_ctx ctx purpose = ctx\<lparr> ctx_purpose := purpose, ctx_session_id := None,
     ctx_last_auth_at := (if purpose = EXTERNAL_READ then ctx_last_auth_at ctx else None) \<rparr>"

definition prepare_context ::
    "env \<Rightarrow> library \<Rightarrow> uuid \<Rightarrow> RequestContext \<Rightarrow> string \<Rightarrow> string option \<Rightarrow> int \<Rightarrow> int \<Rightarrow> ('a context_db_scheme, context_reply) op" where
  "prepare_context E L uuid4 ctx query purpose max_toks max_its s =
     compile_context_for_request E L uuid4 (external_ctx ctx EXTERNAL_READ) query
       (Some (case purpose of None \<Rightarrow> ''general'' | Some p \<Rightarrow> if p = [] then ''general'' else p)) max_toks max_its s"

definition propose_memory ::
    "env \<Rightarrow> RequestContext \<Rightarrow> uuid \<Rightarrow> string \<Rightarrow> string \<Rightarrow> string \<Rightarrow> uuid option \<Rightarrow> ('a mem_db_scheme, ProposalResult) op" where
  "propose_memory E ctx space_id assertion_text title target_type target_id s =
     (let (target, E') = (case target_id of Some t \<Rightarrow> (t, E) | None \<Rightarrow> (fresh E 0, E\<lparr> fresh := \<lambda>k. fresh E (k + 1) \<rparr>)) in
      bindr (space_visibility_map (ctx_account_id ctx) (tables s)) (\<lambda>visibilities.
      if map_of visibilities space_id = Some PRIVATE then Inl (ValueError ''private space excluded'')
      else create_proposal E' (external_ctx ctx EXTERNAL_PROPOSE) space_id target_type target
        [(''assertion_text'', JStr assertion_text), (''title'', JStr title)] None s))"

section \<open>Interactions\<close>

record interaction =
  in_space_id :: uuid
  in_client_conversation_id :: string
  in_role :: string
  in_content :: string
  in_completeness :: string
  in_context_receipt_id :: "uuid option"
  in_idempotency_key :: "string option"
  in_client_turn_id :: "string option"
  in_parent_turn_id :: "uuid option"
  in_occurred_at :: "datetime option"

record interaction_reply =
  inr_conversation_id :: uuid
  inr_turn_id :: uuid
  inr_turn_index :: int
  inr_completeness :: string
  inr_idempotent :: bool

definition turn_key :: "interaction \<Rightarrow> string option" where
  "turn_key i = (if truthy_str (in_client_turn_id i) then in_client_turn_id i else in_idempotency_key i)"

definition conversation_label :: "interaction \<Rightarrow> string" where
  "conversation_label i = completeness_value (map_mcp_completeness_to_conversation (in_completeness i))"

definition check_interaction :: "(uuid \<times> SpaceVisibility) list \<Rightarrow> interaction \<Rightarrow> unit res" where
  "check_interaction visibilities i =
     (if map_of visibilities (in_space_id i) = Some PRIVATE then Inl (ValueError ''private space excluded'')
      else if in_role i \<notin> set [''user'', ''assistant'', ''system'', ''tool''] then Inl (ValueError ''invalid_role'')
      else if 65536 < length (in_content i) then Inl (ValueError ''content_too_large'') else Inr ())"

definition stored_content :: "crypto \<Rightarrow> ConversationTurn \<Rightarrow> string option res" where
  "stored_content C t =
     (case (ct_payload_ciphertext t, ct_payload_nonce t) of
        (Some c, Some n) \<Rightarrow>
          if c \<noteq> [] \<and> n \<noteq> [] then bindr (decrypt_payload C c n None) (\<lambda>p. Inr (payload_content (Some p)))
          else Inr (payload_content (ct_payload_json t))
      | _ \<Rightarrow> Inr (payload_content (ct_payload_json t)))"

text \<open>The conversations and turns that the row policies show.\<close>

definition visible_chat :: "'a conv_db_scheme \<Rightarrow> 'a conv_db_scheme" where
  "visible_chat d =
     d\<lparr> t_conversation := filter (\<lambda>c. chat_row_visible d (cv_account_id c) (cv_space_id c)) (t_conversation d),
        t_turn := filter (\<lambda>t. chat_row_visible d (ct_account_id t) (ct_space_id t)) (t_turn d) \<rparr>"

text \<open>The conversation of the client, the index of its next turn, and the insertion of a new conversation.\<close>

definition client_conversation ::
    "env \<Rightarrow> RequestContext \<Rightarrow> interaction \<Rightarrow> 'a conv_db_scheme session \<Rightarrow> (uuid \<times> int \<times> 'a conv_db_scheme session) res" where
  "client_conversation E ctx i s =
     bindr (scalar_one_or_none (filter (\<lambda>c. cv_account_id c = ctx_account_id ctx \<and> cv_space_id c = in_space_id i \<and>
       cv_source_client c = in_client_conversation_id i) (t_conversation (visible_chat (tables s))))) (\<lambda>conversation.
     case conversation of
       None \<Rightarrow> Inr (fresh E 0, 0, add (insert_conversation
         (new_conversation E (ctx_account_id ctx) (in_space_id i) (in_client_conversation_id i) (conversation_label i))) s)
     | Some c \<Rightarrow>
         bindr (is_tombstoned (ctx_account_id ctx) ''conversation'' (cv_id c) (tables s)) (\<lambda>gone.
         if gone then Inl (ValueError ''conversation tombstoned'')
         else bindr (next_turn_index (ctx_account_id ctx) (cv_id c) (visible_chat (tables s))) (\<lambda>n. Inr (cv_id c, n, s))))"

definition interaction_turn ::
    "env \<Rightarrow> RequestContext \<Rightarrow> interaction \<Rightarrow> datetime \<Rightarrow> uuid \<Rightarrow> int \<Rightarrow> string \<times> string \<Rightarrow> ConversationTurn" where
  "interaction_turn E ctx i occurred conversation_id turn_index p =
     \<lparr> ct_id = fresh E 1, ct_account_id = ctx_account_id ctx, ct_space_id = in_space_id i,
       ct_conversation_id = conversation_id, ct_role = in_role i, ct_turn_index = turn_index,
       ct_payload_json = Some [(''encrypted'', JBool True)], ct_payload_ciphertext = Some (fst p),
       ct_payload_nonce = Some (snd p), ct_occurred_at = occurred, ct_parent_turn_id = in_parent_turn_id i,
       ct_context_receipt_id = in_context_receipt_id i,
       ct_client_turn_id = (if truthy_str (turn_key i) then turn_key i
         else Some (in_client_conversation_id i @ '':'' @ dec_int turn_index)),
       ct_created_at = now E \<rparr>"

definition replay_interaction ::
    "crypto \<Rightarrow> interaction \<Rightarrow> datetime \<Rightarrow> uuid \<Rightarrow> ConversationTurn \<Rightarrow> interaction_reply res" where
  "replay_interaction C i occurred conversation_id t =
     bindr (stored_content C t) (\<lambda>existing_content.
     if ct_role t \<noteq> in_role i \<or> existing_content \<noteq> Some (in_content i) \<or> ct_parent_turn_id t \<noteq> in_parent_turn_id i \<or>
        ct_context_receipt_id t \<noteq> in_context_receipt_id i \<or> ct_occurred_at t \<noteq> occurred
     then Inl (ValueError ''idempotency_conflict'')
     else Inr \<lparr> inr_conversation_id = conversation_id, inr_turn_id = ct_id t, inr_turn_index = ct_turn_index t,
       inr_completeness = conversation_label i, inr_idempotent = True \<rparr>)"

definition interaction_body ::
    "env \<Rightarrow> crypto \<Rightarrow> RequestContext \<Rightarrow> interaction \<Rightarrow> datetime \<Rightarrow> string \<times> string \<Rightarrow> ('a conv_db_scheme, interaction_reply) op" where
  "interaction_body E C ctx i occurred p s =
     bindr (client_conversation E ctx i s) (\<lambda>(conversation_id, turn_index, s1).
     bindr (if truthy_str (turn_key i)
       then scalar_one_or_none (filter (\<lambda>t. ct_client_turn_id t = turn_key i)
         (turn_rows (ctx_account_id ctx) conversation_id (visible_chat (tables s1))))
       else Inr None) (\<lambda>existing.
     case existing of
       Some t \<Rightarrow> bindr (replay_interaction C i occurred conversation_id t) (\<lambda>r. Inr (r, s1))
     | None \<Rightarrow>
         Inr (\<lparr> inr_conversation_id = conversation_id, inr_turn_id = fresh E 1, inr_turn_index = turn_index,
                inr_completeness = conversation_label i, inr_idempotent = False \<rparr>,
           add (insert_turn (interaction_turn E ctx i occurred conversation_id turn_index p)) s1)))"

definition record_interaction ::
    "env \<Rightarrow> crypto \<Rightarrow> RequestContext \<Rightarrow> interaction \<Rightarrow> ('a conv_db_scheme, interaction_reply) op" where
  "record_interaction E C ctx i s =
     bindr (space_visibility_map (ctx_account_id ctx) (tables s)) (\<lambda>visibilities.
     bindr (check_interaction visibilities i) (\<lambda>_.
     bindr (encrypt_payload C [(''content'', JStr (in_content i))] None) (\<lambda>p.
     tenant_scope E (tenant_of (external_ctx ctx EXTERNAL_INTERACTION))
       (interaction_body E C ctx i (case in_occurred_at i of None \<Rightarrow> now E | Some t \<Rightarrow> t) p) s)))"

section \<open>The results of a search\<close>

lemma search_lane_hits:
  assumes "h \<in> set (hits (search_lanes V L a as_of q spaces))"
  shows "lane_hit L a spaces (fst h) (snd h)"
  using assms temporal.lane_hits exact.lane_hits graph.lane_hits semantic.lane_hits
  by (auto simp: search_lanes_def hits_def)

lemma search_fused:
  assumes "fuse_candidates (search_lanes V L a as_of q spaces) k None = Inr fs" and "f \<in> set fs"
  shows "fc_space_id f \<in> set spaces \<and> backed L a (fc_canonical_type f) (fc_canonical_id f) (fc_revision_id f) (fc_space_id f) \<and>
    set (fc_lanes f) = {lane_by_id (fc_candidate_id f)}"
proof -
  note fr = fuse_candidates_from [OF assms]
  obtain h where h: "h \<in> set (hits (search_lanes V L a as_of q spaces))" "fc_canonical_type f = rc_canonical_type (snd h)"
    "fc_canonical_id f = rc_canonical_id (snd h)" "fc_revision_id f = rc_revision_id (snd h)" "fc_space_id f = rc_space_id (snd h)"
    using fr unfolding fused_from_def by blast
  have "l = lane_by_id (fc_candidate_id f)" if l: "l \<in> set (fc_lanes f)" for l
  proof -
    obtain h' where "h' \<in> set (hits (search_lanes V L a as_of q spaces))" "fst h' = l" "rc_candidate_id (snd h') = fc_candidate_id f"
      using fr l unfolding fused_from_def by blast
    then show ?thesis using search_lane_hits [of h'] by (auto simp: lane_hit_def)
  qed
  moreover have "fc_lanes f \<noteq> []" using fr by (simp add: fused_from_def)
  ultimately show ?thesis
    using search_lane_hits [OF h(1)] h by (cases "fc_lanes f") (auto simp: lane_hit_def)
qed

lemma filter_tombstoned_Inr:
  assumes "filter_tombstoned ty i a cs d = Inr kept" and "c \<in> set kept"
  shows "c \<in> set cs \<and> is_tombstoned a (ty c) (i c) d = Inr False"
  using assms by (induction cs arbitrary: kept) (auto simp: bindr_Inr_iff split: if_splits)

lemma search_filters_Inr:
  assumes "search_filters L a vs fused d = Inr kept" and "c \<in> set kept"
  shows "c \<in> set fused \<and> is_tombstoned a (fc_canonical_type c) (fc_canonical_id c) d = Inr False \<and>
    fc_canonical_id c \<notin> set (pending_targets a L) \<and>
    \<not> (fc_canonical_type c = ''memory'' \<and> fc_canonical_id c \<in> set (retracted_memory a L))"
  using assms filter_tombstoned_Inr [of fc_canonical_type fc_canonical_id a _ d]
  by (fastforce simp: search_filters_def bindr_Inr_iff filter_pending_and_retracted_def filter_private_spaces_def
      exclude_private_spaces_def split: if_splits)

lemma available_results_Inr:
  assumes "available_results a url items d = Inr rs"
  shows "length rs \<le> length items \<and> (\<forall>r \<in> set rs. \<exists>c \<in> set items. r = search_result_of url c)"
  using assms
proof (induction items arbitrary: rs)
  case (Cons item items)
  then show ?case by (fastforce simp: bindr_Inr_iff split: if_splits)
qed simp

lemma search_Inr:
  assumes "search V L ctx query url n as_of d = Inr rs"
  obtains (blank) "rs = []"
  | (ran) vs fused kept where "space_visibility_map (ctx_account_id ctx) d = Inr vs"
      "fuse_candidates (search_lanes V (visible_library d L) (ctx_account_id ctx) as_of (py_strip query)
         (eligible_non_private_spaces ctx vs)) RRF_K None = Inr fused"
      "search_filters (visible_library d L) (ctx_account_id ctx) vs fused d = Inr kept"
      "available_results (ctx_account_id ctx) url (take n kept) d = Inr rs"
  using assms by (auto simp: search_def Let_def bindr_Inr_iff split: if_splits)

section \<open>What search and fetch depend on\<close>

lemma filter_tombstoned_cong:
  assumes "\<forall>c \<in> set cs. is_tombstoned a (ty c) (i c) d' = is_tombstoned a (ty c) (i c) d"
  shows "filter_tombstoned ty i a cs d' = filter_tombstoned ty i a cs d"
  using assms by (induction cs) auto

lemma available_results_cong:
  assumes "\<forall>c \<in> set cs. is_tombstoned a (fc_canonical_type c) (fc_canonical_id c) d' =
    is_tombstoned a (fc_canonical_type c) (fc_canonical_id c) d"
  shows "available_results a url cs d' = available_results a url cs d"
  using assms by (induction cs) (auto simp: is_entity_available_def)

text \<open>No lane yields sources, so only tombstones of other types matter.\<close>

lemma search_cong:
  assumes "t_space d' = t_space d" and "set_purpose (settings d') = set_purpose (settings d)" and "\<forall>ty i. ty \<noteq> ''source'' \<longrightarrow> is_tombstoned (ctx_account_id ctx) ty i d' =
    is_tombstoned (ctx_account_id ctx) ty i d"
  shows "search V L ctx query url n as_of d' = search V L ctx query url n as_of d"
proof -
  let ?a = "ctx_account_id ctx" and ?L = "visible_library d L" and ?lanes = "\<lambda>vs. search_lanes V (visible_library d L) (ctx_account_id ctx) as_of (py_strip query)
    (eligible_non_private_spaces ctx vs)"
  have vis: "space_visibility_map b d' = space_visibility_map b d" for b
    by (rule space_visibility_map_cong [OF assms(1,2)])
  have rows: "visible_library d' L = ?L" by (rule visible_library_cong [OF assms(1,2)])
  have same: "is_tombstoned ?a (fc_canonical_type f) (fc_canonical_id f) d' =
      is_tombstoned ?a (fc_canonical_type f) (fc_canonical_id f) d"
    if "fuse_candidates (?lanes vs) RRF_K None = Inr fs" "f \<in> set fs" for vs fs f
    using search_fused [OF that] assms(3) by (auto simp: backed_def)
  have filters: "search_filters ?L ?a vs fs d' = search_filters ?L ?a vs fs d"
    if fs: "fuse_candidates (?lanes vs) RRF_K None = Inr fs" for vs fs
  proof -
    have "filter_private_spaces fc_space_id ?a False cs d' = filter_private_spaces fc_space_id ?a False cs d" for cs
      by (simp add: filter_private_spaces_def vis)
    moreover have "filter_tombstoned fc_canonical_type fc_canonical_id ?a cs d' =
        filter_tombstoned fc_canonical_type fc_canonical_id ?a cs d"
      if "filter_private_spaces fc_space_id ?a False (exclude_private_spaces fc_space_id fs vs (purpose_value EXTERNAL_READ)) d =
        Inr cs" for cs
      using that same [OF fs]
      by (intro filter_tombstoned_cong) (auto simp: filter_private_spaces_def exclude_private_spaces_def bindr_Inr_iff split: if_splits)
    ultimately show ?thesis by (auto simp: search_filters_def intro: bindr_cong)
  qed
  have results: "available_results ?a url (take n kept) d' = available_results ?a url (take n kept) d"
    if "fuse_candidates (?lanes vs) RRF_K None = Inr fs" "search_filters ?L ?a vs fs d = Inr kept" for vs fs kept
    using search_filters_Inr [OF that(2)] same [OF that(1)] by (intro available_results_cong) (auto dest: in_set_takeD)
  show ?thesis
    by (auto simp: search_def Let_def vis rows filters results intro!: bindr_cong)
qed

lemma create_tombstone_other:
  assumes "create_tombstone E ctx ty0 e sp rk (d, []) = Inr (tid, d', ps')"
  shows "t_space d' = t_space d" and "ty \<noteq> ty0 \<Longrightarrow> is_tombstoned a ty i d' = is_tombstoned a ty i d"
proof -
  have "t_space d' = t_space d \<and> (ty \<noteq> ty0 \<longrightarrow> tombstones_of a ty i d' = tombstones_of a ty i d)"
    using assms unfolding create_tombstone_def
    by (rule tenant_scope_body)
      (auto simp: bury_def Let_def insert_defs bindr_Inr_iff tombstones_of_def new_tombstone_def tombstone_entity_def split: option.splits)
  then show "t_space d' = t_space d" "ty \<noteq> ty0 \<Longrightarrow> is_tombstoned a ty i d' = is_tombstoned a ty i d"
    by (simp_all add: is_tombstoned_def)
qed

definition edge_text :: "CurriculumEdge \<Rightarrow> string" where
  "edge_text e = str_uuid (ed_from_node_id e) @ '' '' @ ed_edge_kind e @ '' '' @ str_uuid (ed_to_node_id e)"

text \<open>The row a fetched text comes from, with the revision asked for.\<close>

definition fetched :: "library \<Rightarrow> uuid \<Rightarrow> string \<Rightarrow> uuid \<Rightarrow> uuid option \<Rightarrow> uuid \<Rightarrow> string \<Rightarrow> bool" where
  "fetched L a ty i rv sp t \<longleftrightarrow>
     (\<exists>x \<in> set (lib_document L). \<exists>r \<in> set (lib_document_revision L). ty = ''document'' \<and> ad_account_id x = a \<and> ad_id x = i \<and>
        ad_space_id x = sp \<and> dr_account_id r = a \<and> dr_document_id r = i \<and> rv \<in> {None, Some (dr_id r)} \<and> t = dr_plain_text r) \<or>
     (\<exists>x \<in> set (lib_memory_item L). \<exists>r \<in> set (lib_memory_revision L). ty = ''memory'' \<and> mi_account_id x = a \<and> mi_id x = i \<and>
        mi_space_id x = sp \<and> mr_account_id r = a \<and> mr_memory_item_id r = i \<and> mr_status r = ''active'' \<and>
        rv \<in> {None, Some (mr_id r)} \<and> t = mr_assertion_text r) \<or>
     (\<exists>x \<in> set (lib_element L). ty = ''document_element'' \<and> de_account_id x = a \<and> de_id x = i \<and> de_space_id x = sp \<and>
        t = (case de_exact_text x of None \<Rightarrow> [] | Some u \<Rightarrow> u)) \<or>
     (\<exists>x \<in> set (lib_edge L). ty = ''curriculum_edge'' \<and> ed_account_id x = a \<and> ed_id x = i \<and> ed_space_id x = sp \<and>
        t = edge_text x)"

lemma first_row_Some: "first_row rows = Some r \<Longrightarrow> r \<in> set rows"
  by (cases rows) (auto simp: first_row_def)

lemma fetch_document_Inr:
  assumes "fetch_document L a i rv url vs = Inr (Some reply)"
  shows "\<exists>sp. fetched L a ''document'' i rv sp (ftr_text reply) \<and> visibility_in vs sp \<noteq> PRIVATE"
proof -
  obtain doc where doc: "doc \<in> set (lib_document L)" "ad_account_id doc = a" "ad_id doc = i"
    "\<not> space_is_private vs (ad_space_id doc)"
    and found: "scalar_one_or_none (filter (\<lambda>x. ad_account_id x = a \<and> ad_id x = i) (lib_document L)) = Inr (Some doc)"
    using assms by (auto simp: fetch_document_def bindr_Inr_iff scalar_iffs dest!: filter_singletonD split: option.splits if_splits)
  let ?revs = "filter (\<lambda>r. dr_account_id r = a \<and> dr_document_id r = i) (lib_document_revision L)"
  let ?rows = "case rv of
      Some x \<Rightarrow> Inr (filter (\<lambda>r. dr_id r = x) ?revs)
    | None \<Rightarrow>
        bindr (scalar_one_or_none (filter (\<lambda>c. cd_account_id c = a \<and> cd_document_id c = i) (lib_document_pointer L)))
          (\<lambda>current. Inr (case current of None \<Rightarrow> ?revs | Some c \<Rightarrow> filter (\<lambda>r. dr_id r = cd_revision_id c) ?revs))"
  have "bindr ?rows (\<lambda>rows. Inr (map_option (document_reply url doc) (first_row rows))) = Inr (Some reply)"
    using assms unfolding fetch_document_def found Let_def bindr_simps option.case if_not_P [OF doc(4)] .
  then obtain rows where r: "?rows = Inr rows" "map_option (document_reply url doc) (first_row rows) = Some reply"
    by (auto simp: bindr_Inr_iff)
  then obtain r where rows: "first_row rows = Some r" "ftr_text reply = dr_plain_text r"
    by (auto simp: document_reply_def)
  have "set rows \<subseteq> set ?revs" "\<forall>x. rv = Some x \<longrightarrow> (\<forall>r \<in> set rows. dr_id r = x)"
    using r(1) by (auto simp: bindr_Inr_iff split: option.splits)
  note rows = rows this
  have in_rows: "r \<in> set rows" using rows(1) by (rule first_row_Some)
  have "rv \<in> {None, Some (dr_id r)}" using rows(4) in_rows by (cases rv) simp_all
  moreover have "r \<in> set (lib_document_revision L)" "dr_account_id r = a" "dr_document_id r = i"
    using in_rows rows(3) by auto
  ultimately have "fetched L a ''document'' i rv (ad_space_id doc) (ftr_text reply)"
    unfolding fetched_def rows(2) using doc(1-3) by (intro disjI1 bexI [of _ doc] bexI [of _ r]) simp_all
  then show ?thesis using doc(4) by (auto simp: space_is_private_def)
qed

lemma fetch_memory_Inr:
  assumes "fetch_memory L a i rv url vs = Inr (Some reply)"
  shows "\<exists>sp. fetched L a ''memory'' i rv sp (ftr_text reply) \<and> visibility_in vs sp \<noteq> PRIVATE"
proof -
  obtain item where item: "item \<in> set (lib_memory_item L)" "mi_account_id item = a" "mi_id item = i"
    "\<not> space_is_private vs (mi_space_id item)"
    and found: "scalar_one_or_none (filter (\<lambda>x. mi_account_id x = a \<and> mi_id x = i) (lib_memory_item L)) = Inr (Some item)"
    using assms by (auto simp: fetch_memory_def bindr_Inr_iff scalar_iffs dest!: filter_singletonD split: option.splits if_splits)
  let ?revs = "filter (\<lambda>r. mr_account_id r = a \<and> mr_memory_item_id r = i \<and> mr_status r = ''active'') (lib_memory_revision L)"
  obtain r where r: "first_row (case rv of None \<Rightarrow> ?revs | Some x \<Rightarrow> filter (\<lambda>r. mr_id r = x) ?revs) = Some r"
    "ftr_text reply = mr_assertion_text r"
    using assms unfolding fetch_memory_def found Let_def bindr_simps option.case if_not_P [OF item(4)]
    by (auto simp: memory_reply_def)
  have "fetched L a ''memory'' i rv (mi_space_id item) (ftr_text reply)"
    using first_row_Some [OF r(1)] r(2) item by (cases rv) (auto simp: fetched_def)
  then show ?thesis using item(4) by (auto simp: space_is_private_def)
qed

lemma fetch_element_Inr:
  assumes "fetch_element L a i url mcp_id vs = Inr (Some reply)"
  shows "\<exists>sp. fetched L a ''document_element'' i rv sp (ftr_text reply) \<and> visibility_in vs sp \<noteq> PRIVATE"
proof -
  obtain e where e: "e \<in> set (lib_element L)" "de_account_id e = a" "de_id e = i" "\<not> space_is_private vs (de_space_id e)"
    and found: "scalar_one_or_none (filter (\<lambda>x. de_account_id x = a \<and> de_id x = i) (lib_element L)) = Inr (Some e)"
    using assms by (auto simp: fetch_element_def bindr_Inr_iff scalar_iffs case_option_Inr_iff dest!: filter_singletonD split: if_splits)
  have "ftr_text reply = (case de_exact_text e of None \<Rightarrow> [] | Some u \<Rightarrow> u)"
    using assms unfolding fetch_element_def found bindr_simps option.case if_not_P [OF e(4)] by auto
  then show ?thesis using e unfolding fetched_def space_is_private_def by blast
qed

lemma fetch_curriculum_edge_Inr:
  assumes "fetch_curriculum_edge L a i url mcp_id vs = Inr (Some reply)"
  shows "\<exists>sp. fetched L a ''curriculum_edge'' i rv sp (ftr_text reply) \<and> visibility_in vs sp \<noteq> PRIVATE"
proof -
  obtain e where e: "e \<in> set (lib_edge L)" "ed_account_id e = a" "ed_id e = i" "\<not> space_is_private vs (ed_space_id e)"
    and found: "scalar_one_or_none (filter (\<lambda>x. ed_account_id x = a \<and> ed_id x = i) (lib_edge L)) = Inr (Some e)"
    using assms by (auto simp: fetch_curriculum_edge_def bindr_Inr_iff scalar_iffs case_option_Inr_iff dest!: filter_singletonD split: if_splits)
  have "ftr_text reply = edge_text e"
    using assms unfolding fetch_curriculum_edge_def found bindr_simps option.case if_not_P [OF e(4)] by (auto simp: edge_text_def)
  then show ?thesis using e unfolding fetched_def space_is_private_def by blast
qed

lemma fetch_entity_Inr:
  assumes "fetch_entity L a mcp_id url vs (ty, i, rv) = Inr (Some reply)"
  shows "\<exists>sp. fetched L a ty i rv sp (ftr_text reply) \<and> visibility_in vs sp \<noteq> PRIVATE"
  using assms fetch_document_Inr fetch_memory_Inr fetch_element_Inr fetch_curriculum_edge_Inr
  unfolding fetch_entity_def prod.case by (metis sum.inject(2) option.distinct(1))

section \<open>What is found can be fetched\<close>

text \<open>
  The tables as their constraints keep them: primary keys, and the composite foreign keys that tie a revision to the item
  and the space it belongs to.
\<close>

definition library_ok :: "library \<Rightarrow> bool" where
  "library_ok L \<longleftrightarrow>
     distinct (map ad_id (lib_document L)) \<and> distinct (map mi_id (lib_memory_item L)) \<and>
     distinct (map de_id (lib_element L)) \<and> distinct (map ed_id (lib_edge L)) \<and>
     (\<forall>r \<in> set (lib_document_revision L). \<exists>x \<in> set (lib_document L). ad_account_id x = dr_account_id r \<and>
        ad_id x = dr_document_id r \<and> ad_space_id x = dr_space_id r) \<and>
     (\<forall>r \<in> set (lib_memory_revision L). \<exists>x \<in> set (lib_memory_item L). mi_account_id x = mr_account_id r \<and>
        mi_id x = mr_memory_item_id r \<and> mi_space_id x = mr_space_id r)"

lemma scalar_by_key:
  assumes "distinct (map key rs)" and "r \<in> set rs" and "acc r = a" and "key r = k"
  shows "scalar_one_or_none (filter (\<lambda>x. acc x = a \<and> key x = k) rs) = Inr (Some r)"
proof -
  have "filter (\<lambda>x. acc x = a \<and> key x = k) rs = filter (\<lambda>x. acc x = a) (filter (\<lambda>x. key x = k) rs)"
    by (simp add: conj_commute)
  then show ?thesis using filter_unique [OF assms(1,2,4)] assms(3) by simp
qed

lemma first_row_ex: "r \<in> set rows \<Longrightarrow> \<exists>x. first_row rows = Some x"
  by (cases rows) (simp_all add: first_row_def)

lemma fetch_document_found:
  assumes "library_ok L" and "r \<in> set (lib_document_revision L)" and "\<not> space_is_private vs (dr_space_id r)"
  shows "\<exists>reply. fetch_document L (dr_account_id r) (dr_document_id r) (Some (dr_id r)) url vs = Inr (Some reply) \<and>
    ftr_id reply = encode_mcp_public_id ''document'' (dr_document_id r) (Some (dr_id r))"
proof -
  let ?a = "dr_account_id r" and ?i = "dr_document_id r"
  obtain x where x: "x \<in> set (lib_document L)" "ad_account_id x = ?a" "ad_id x = ?i" "ad_space_id x = dr_space_id r"
    using assms(1,2) by (auto simp: library_ok_def)
  have found: "scalar_one_or_none (filter (\<lambda>x. ad_account_id x = ?a \<and> ad_id x = ?i) (lib_document L)) = Inr (Some x)"
    using assms(1) x by (intro scalar_by_key) (auto simp: library_ok_def)
  have vis: "\<not> space_is_private vs (ad_space_id x)" using assms(3) x(4) by simp
  let ?rows = "filter (\<lambda>q. dr_id q = dr_id r) (filter (\<lambda>q. dr_account_id q = ?a \<and> dr_document_id q = ?i) (lib_document_revision L))"
  obtain q where q: "first_row ?rows = Some q" using first_row_ex [of r ?rows] assms(2) by auto
  then have "dr_id q = dr_id r" using first_row_Some [OF q] by simp
  then show ?thesis
    unfolding fetch_document_def found Let_def bindr_simps option.case if_not_P [OF vis] q
    by (simp add: document_reply_def x(3))
qed

lemma fetch_memory_found:
  assumes "library_ok L" and "r \<in> set (lib_memory_revision L)" and "\<not> space_is_private vs (mr_space_id r)"
  shows "\<exists>reply. fetch_memory L (mr_account_id r) (mr_memory_item_id r) (Some (mr_id r)) url vs = Inr reply \<and>
    (mr_status r = ''active'' \<longrightarrow> reply \<noteq> None) \<and>
    (\<forall>x. reply = Some x \<longrightarrow> ftr_id x = encode_mcp_public_id ''memory'' (mr_memory_item_id r) (Some (mr_id r)))"
proof -
  let ?a = "mr_account_id r" and ?i = "mr_memory_item_id r"
  obtain x where x: "x \<in> set (lib_memory_item L)" "mi_account_id x = ?a" "mi_id x = ?i" "mi_space_id x = mr_space_id r"
    using assms(1,2) by (auto simp: library_ok_def)
  have found: "scalar_one_or_none (filter (\<lambda>x. mi_account_id x = ?a \<and> mi_id x = ?i) (lib_memory_item L)) = Inr (Some x)"
    using assms(1) x by (intro scalar_by_key) (auto simp: library_ok_def)
  have vis: "\<not> space_is_private vs (mi_space_id x)" using assms(3) x(4) by simp
  let ?rows = "filter (\<lambda>q. mr_id q = mr_id r)
    (filter (\<lambda>q. mr_account_id q = ?a \<and> mr_memory_item_id q = ?i \<and> mr_status q = ''active'') (lib_memory_revision L))"
  have active: "mr_status r = ''active'' \<Longrightarrow> first_row ?rows \<noteq> None" using first_row_ex [of r ?rows] assms(2) by auto
  have run: "fetch_memory L ?a ?i (Some (mr_id r)) url vs = Inr (map_option (memory_reply url x) (first_row ?rows))"
    unfolding fetch_memory_def found Let_def bindr_simps option.case if_not_P [OF vis] ..
  show ?thesis
  proof (cases "first_row ?rows")
    case None
    then show ?thesis using active unfolding run by auto
  next
    case (Some q)
    then have "mr_id q = mr_id r" using first_row_Some [OF Some] by simp
    then show ?thesis unfolding run Some by (simp add: memory_reply_def x(3))
  qed
qed

lemma fetch_element_found:
  assumes "library_ok L" and "e \<in> set (lib_element L)" and "\<not> space_is_private vs (de_space_id e)"
  shows "\<exists>reply. fetch_element L (de_account_id e) (de_id e) url mcp_id vs = Inr (Some reply) \<and> ftr_id reply = mcp_id"
proof -
  have found: "scalar_one_or_none (filter (\<lambda>x. de_account_id x = de_account_id e \<and> de_id x = de_id e) (lib_element L)) =
      Inr (Some e)"
    using assms(1,2) by (intro scalar_by_key) (auto simp: library_ok_def)
  show ?thesis unfolding fetch_element_def found bindr_simps option.case if_not_P [OF assms(3)] by simp
qed

lemma fetch_curriculum_edge_found:
  assumes "library_ok L" and "e \<in> set (lib_edge L)" and "\<not> space_is_private vs (ed_space_id e)"
  shows "\<exists>reply. fetch_curriculum_edge L (ed_account_id e) (ed_id e) url mcp_id vs = Inr (Some reply) \<and> ftr_id reply = mcp_id"
proof -
  have found: "scalar_one_or_none (filter (\<lambda>x. ed_account_id x = ed_account_id e \<and> ed_id x = ed_id e) (lib_edge L)) =
      Inr (Some e)"
    using assms(1,2) by (intro scalar_by_key) (auto simp: library_ok_def)
  show ?thesis unfolding fetch_curriculum_edge_def found bindr_simps option.case if_not_P [OF assms(3)] by simp
qed

lemma backed_fetch:
  assumes "backed L a ty i rv sp" and "library_ok L" and "visibility_in vs sp \<noteq> PRIVATE"
    and "mcp_id = encode_mcp_public_id ty i (Some rv)"
  shows "\<exists>reply. fetch_entity L a mcp_id url vs (ty, i, Some rv) = Inr reply \<and>
    (reply = None \<longrightarrow> ty = ''memory'' \<and> (\<exists>m \<in> set (lib_memory_revision L). mr_id m = rv \<and> mr_status m = ''superseded'')) \<and>
    (\<forall>x. reply = Some x \<longrightarrow> ftr_id x = mcp_id)"
  using assms(1) unfolding backed_def
proof (elim disjE bexE conjE)
  fix r assume "r \<in> set (lib_document_revision L)" "dr_account_id r = a" "ty = ''document''" "i = dr_document_id r"
    "rv = dr_id r" "sp = dr_space_id r"
  then show ?thesis
    using fetch_document_found [OF assms(2), of r vs url] assms(3,4) by (auto simp: fetch_entity_def space_is_private_def)
next
  fix r assume "r \<in> set (lib_memory_revision L)" "mr_account_id r = a" "ty = ''memory''" "i = mr_memory_item_id r"
    "rv = mr_id r" "sp = mr_space_id r" "mr_status r \<in> {''active'', ''superseded''}"
  then show ?thesis
    using fetch_memory_found [OF assms(2), of r vs url] assms(3,4) by (auto simp: fetch_entity_def space_is_private_def)
next
  fix e assume "e \<in> set (lib_element L)" "de_account_id e = a" "ty = ''document_element''" "i = de_id e" "rv = de_id e"
    "sp = de_space_id e"
  then show ?thesis
    using fetch_element_found [OF assms(2), of e vs url mcp_id] assms(3) by (auto simp: fetch_entity_def space_is_private_def)
next
  fix e assume "e \<in> set (lib_edge L)" "ed_account_id e = a" "ty = ''curriculum_edge''" "i = ed_id e" "rv = ed_id e"
    "sp = ed_space_id e"
  then show ?thesis
    using fetch_curriculum_edge_found [OF assms(2), of e vs url mcp_id] assms(3) by (auto simp: fetch_entity_def space_is_private_def)
qed

lemma backed_type: "backed L a ty i rv sp \<Longrightarrow> CHR '':'' \<notin> set ty"
  by (auto simp: backed_def)

section \<open>Recorded interactions\<close>

definition client_rows :: "RequestContext \<Rightarrow> interaction \<Rightarrow> 'a conv_db_scheme \<Rightarrow> Conversation list" where
  "client_rows ctx i d = filter (\<lambda>c. cv_account_id c = ctx_account_id ctx \<and> cv_space_id c = in_space_id i \<and>
     cv_source_client c = in_client_conversation_id i) (t_conversation (visible_chat d))"

lemma client_conversation_Inr:
  assumes "client_conversation E ctx i (d, []) = Inr (cid, n, s1)"
  obtains (new) "client_rows ctx i d = []" "cid = fresh E 0" "n = 0"
      "s1 = (d, [insert_conversation (new_conversation E (ctx_account_id ctx) (in_space_id i) (in_client_conversation_id i)
        (conversation_label i))])"
  | (old) c where "client_rows ctx i d = [c]" "cid = cv_id c" "s1 = (d, [])"
proof -
  from assms obtain conv where "scalar_one_or_none (client_rows ctx i d) = Inr conv"
    by (auto simp: client_conversation_def client_rows_def bindr_Inr_iff)
  then show thesis
  proof (cases conv)
    case None
    then show thesis
      using \<open>scalar_one_or_none (client_rows ctx i d) = Inr conv\<close> assms new
      by (auto simp: client_conversation_def client_rows_def [symmetric] scalar_iffs)
  next
    case (Some c)
    then show thesis
      using \<open>scalar_one_or_none (client_rows ctx i d) = Inr conv\<close> assms old
      by (auto simp: client_conversation_def client_rows_def [symmetric] scalar_iffs bindr_Inr_iff split: if_splits)
  qed
qed

lemma interaction_body_replays:
  assumes "interaction_body E C ctx i occurred p (d, []) = Inr (r, s3)" and "client_rows ctx i d = [c]"
    and "truthy_str (turn_key i)"
    and "filter (\<lambda>t. ct_client_turn_id t = turn_key i) (turn_rows (ctx_account_id ctx) (cv_id c) (visible_chat d)) = [t]"
  shows "replay_interaction C i occurred (cv_id c) t = Inr r \<and> s3 = (d, [])"
proof -
  obtain cid n s1 where cc: "client_conversation E ctx i (d, []) = Inr (cid, n, s1)"
    using assms(1) by (auto simp: interaction_body_def bindr_Inr_iff)
  then have "cid = cv_id c" "s1 = (d, [])" by (cases rule: client_conversation_Inr; use assms(2) in simp)+
  then show ?thesis using assms(1,3,4) cc by (auto simp: interaction_body_def bindr_Inr_iff)
qed

definition occurred_at :: "env \<Rightarrow> interaction \<Rightarrow> datetime" where
  "occurred_at E i = (case in_occurred_at i of None \<Rightarrow> now E | Some t \<Rightarrow> t)"

lemma visible_chat_sels:
  "t_conversation (visible_chat d) = filter (\<lambda>c. chat_row_visible d (cv_account_id c) (cv_space_id c)) (t_conversation d)"
  "t_turn (visible_chat d) = filter (\<lambda>t. chat_row_visible d (ct_account_id t) (ct_space_id t)) (t_turn d)"
  by (simp_all add: visible_chat_def)

lemma visible_chat_cong:
  assumes "t_space d' = t_space d" and "set_purpose (settings d') = set_purpose (settings d)"
    and "t_conversation d' = t_conversation d" and "t_turn d' = t_turn d"
  shows "client_rows ctx i d' = client_rows ctx i d" "turn_rows a c (visible_chat d') = turn_rows a c (visible_chat d)"
  using assms(3,4) policies_cong(5) [OF assms(1,2)]
  by (simp_all add: client_rows_def turn_rows_def visible_chat_sels)

lemma insert_conversation_row:
  "insert_conversation r d = Inr d' \<Longrightarrow>
     d' = d\<lparr> t_conversation := t_conversation d @ [r] \<rparr> \<and> chat_row_visible d (cv_account_id r) (cv_space_id r)"
  by (auto simp: insert_conversation_def bindr_Inr_iff chat_row_visible_def)

lemma insert_turn_row:
  "insert_turn r d = Inr d' \<Longrightarrow>
     d' = d\<lparr> t_turn := t_turn d @ [r] \<rparr> \<and> chat_row_visible d (ct_account_id r) (ct_space_id r)"
  by (auto simp: insert_turn_def bindr_Inr_iff chat_row_visible_def)

text \<open>The body of a recorded interaction runs under the purpose of the client.\<close>

lemma record_interaction_body:
  assumes "record_interaction E C ctx i (d, []) = Inr (r, d', ps')"
  obtains p g s3 where "interaction_body E C ctx i (occurred_at E i) p (d\<lparr> settings := g \<rparr>, []) = Inr (r, s3)"
    "flush s3 = Inr (d', ps')" "set_purpose g = ''external_interaction''"
proof -
  from assms obtain p where "tenant_scope E (tenant_of (external_ctx ctx EXTERNAL_INTERACTION))
      (interaction_body E C ctx i (occurred_at E i) p) (d, []) = Inr (r, d', ps')"
    by (auto simp: record_interaction_def occurred_at_def bindr_Inr_iff)
  then show thesis
    by (rule tenant_scope_purpose) (auto simp: tenant_of_def external_ctx_def purpose_value_def intro!: that)
qed

text \<open>A call that was not a replay left the tables with its turn, and nothing else under its key.\<close>

lemma recorded_turn:
  assumes "record_interaction E C ctx i (d, []) = Inr (r, d', ps')" and "\<not> inr_idempotent r" and "truthy_str (turn_key i)"
  shows "\<exists>c t. set_purpose (settings d') = ''external_interaction'' \<and> client_rows ctx i d' = [c] \<and>
    filter (\<lambda>t. ct_client_turn_id t = turn_key i) (turn_rows (ctx_account_id ctx) (cv_id c) (visible_chat d')) = [t] \<and>
    ct_role t = in_role i \<and> ct_parent_turn_id t = in_parent_turn_id i \<and> ct_context_receipt_id t = in_context_receipt_id i \<and>
    ct_occurred_at t = occurred_at E i \<and> ct_id t = inr_turn_id r \<and> ct_turn_index t = inr_turn_index r \<and>
    cv_id c = inr_conversation_id r"
  using assms(1)
proof (rule record_interaction_body)
  fix p g s3
  let ?d = "d\<lparr> settings := g \<rparr>"
  assume run: "interaction_body E C ctx i (occurred_at E i) p (?d, []) = Inr (r, s3)" and fl: "flush s3 = Inr (d', ps')"
    and g: "set_purpose g = ''external_interaction''"
  obtain cid n s1 where cc: "client_conversation E ctx i (?d, []) = Inr (cid, n, s1)"
    using run by (auto simp: interaction_body_def bindr_Inr_iff)
  have s1: "tables s1 = ?d" using cc by (cases rule: client_conversation_Inr) simp_all
  let ?t = "interaction_turn E ctx i (occurred_at E i) cid n p"
  have no: "filter (\<lambda>t. ct_client_turn_id t = turn_key i) (turn_rows (ctx_account_id ctx) cid (visible_chat ?d)) = []"
    and s3: "s3 = add (insert_turn ?t) s1" and r: "inr_turn_id r = fresh E 1" "inr_turn_index r = n" "inr_conversation_id r = cid"
    using run cc assms(2,3) s1
    by (auto simp: interaction_body_def bindr_Inr_iff scalar_iffs replay_interaction_def split: option.splits if_splits)
  from cc show ?thesis
  proof (cases rule: client_conversation_Inr)
    case new
    let ?c = "new_conversation E (ctx_account_id ctx) (in_space_id i) (in_client_conversation_id i) (conversation_label i)"
    obtain d1 where "insert_conversation ?c ?d = Inr d1" "insert_turn ?t d1 = Inr d'"
      using fl s3 new by (auto simp: bindr_Inr_iff)
    then have d': "d' = ?d\<lparr> t_conversation := t_conversation d @ [?c], t_turn := t_turn d @ [?t] \<rparr>"
      and vis: "chat_row_visible ?d (ctx_account_id ctx) (in_space_id i)"
      using insert_conversation_row [of ?c ?d d1] insert_turn_row [of ?t d1 d'] by (auto simp: new_conversation_def)
    have "chat_row_visible d' = chat_row_visible ?d" by (rule policies_cong) (simp_all add: d')
    then show ?thesis
      using new no r vis assms(3) g unfolding client_rows_def turn_rows_def visible_chat_sels
      by (auto simp: d' new_conversation_def interaction_turn_def)
  next
    case (old c)
    then have "insert_turn ?t ?d = Inr d'" using fl s3 by (auto simp: bindr_Inr_iff)
    then have d': "d' = ?d\<lparr> t_turn := t_turn d @ [?t] \<rparr>" and vis: "chat_row_visible ?d (ctx_account_id ctx) (in_space_id i)"
      using insert_turn_row [of ?t ?d d'] by (auto simp: interaction_turn_def)
    have "chat_row_visible d' = chat_row_visible ?d" by (rule policies_cong) (simp_all add: d')
    then show ?thesis
      using old no r vis assms(3) g unfolding client_rows_def turn_rows_def visible_chat_sels
      by (auto simp: d' interaction_turn_def)
  qed
qed

text \<open>
  A private space takes no interaction: the application's own test does not see the space, since the policy hides it, but the
  policy of conversations lets the row neither be found nor be written.
\<close>

lemma interaction_not_private:
  assumes "record_interaction E C ctx i (d, []) = Inr (r, d', ps')" and "space_key d"
  shows "\<not> private_space d (ctx_account_id ctx) (in_space_id i)"
  using assms(1)
proof (rule record_interaction_body)
  fix p g s3
  let ?d = "d\<lparr> settings := g \<rparr>"
  assume run: "interaction_body E C ctx i (occurred_at E i) p (?d, []) = Inr (r, s3)" and fl: "flush s3 = Inr (d', ps')"
    and g: "set_purpose g = ''external_interaction''"
  obtain cid n s1 where cc: "client_conversation E ctx i (?d, []) = Inr (cid, n, s1)"
    using run by (auto simp: interaction_body_def bindr_Inr_iff)
  then have "chat_row_visible ?d (ctx_account_id ctx) (in_space_id i)"
  proof (cases rule: client_conversation_Inr)
    case new
    then obtain q where "s3 = (?d, insert_conversation (new_conversation E (ctx_account_id ctx) (in_space_id i)
        (in_client_conversation_id i) (conversation_label i)) # q)"
      using run cc by (auto simp: interaction_body_def bindr_Inr_iff case_option_Inr_iff)
    then show ?thesis
      using fl by (auto simp: bindr_Inr_iff new_conversation_def dest!: insert_conversation_row)
  next
    case (old c)
    then have "c \<in> set (client_rows ctx i ?d)" by simp
    then show ?thesis by (auto simp: client_rows_def visible_chat_sels)
  qed
  then have "memdot_external_space_ok ?d (ctx_account_id ctx) (in_space_id i)"
    using g by (auto simp: chat_row_visible_def chat_row_writable_def product_row_visible_def internal_purpose_def)
  moreover have "space_key ?d" using assms(2) by (simp add: space_key_def)
  ultimately have "\<not> private_space ?d (ctx_account_id ctx) (in_space_id i)" by (intro external_space_not_private)
  then show ?thesis by (simp add: private_space_def)
qed

text \<open>An external proposal is always refused: no policy lets \<open>external_propose\<close> write the table.\<close>

lemma external_proposal_refused:
  "propose_memory E ctx space_id assertion_text title target_type target_id (d, []) \<noteq> Inr y"
proof
  assume run: "propose_memory E ctx space_id assertion_text title target_type target_id (d, []) = Inr y"
  obtain r d' ps' where y: "y = (r, d', ps')" by (rule prod_cases3)
  obtain E' target where "create_proposal E' (external_ctx ctx EXTERNAL_PROPOSE) space_id target_type target
      [(''assertion_text'', JStr assertion_text), (''title'', JStr title)] None (d, []) = Inr (r, d', ps')"
    using run y by (auto simp: propose_memory_def bindr_Inr_iff split: if_splits prod.splits)
  then show False
    unfolding create_proposal_def Let_def
    by (rule tenant_scope_purpose)
      (auto simp: insert_proposal_def bindr_Inr_iff internal_purpose_def tenant_of_def external_ctx_def purpose_value_def)
qed

section \<open>Properties\<close>

lemma eligible_not_private:
  assumes "served_context d ctx" and "space_visibility_map (ctx_account_id ctx) d = Inr vs"
    and "sp \<in> set (eligible_non_private_spaces ctx vs)"
  shows "\<not> private_space d (ctx_account_id ctx) sp"
proof (cases "external_request ctx")
  case True
  then show ?thesis
    using assms(1,3) by (auto simp: served_context_def external_request_def eligible_non_private_spaces_def Let_def)
next
  case False
  then have "internal_purpose d" "space_key d" using assms(1) served_internal [OF assms(1)] by (simp_all add: served_context_def)
  then show ?thesis
    using visibility_not_private [OF assms(2)] assms(3) by (simp add: eligible_non_private_spaces_def Let_def)
qed

lemma search_result_row:
  assumes "search V L ctx query url n as_of d = Inr rs" and "r \<in> set rs"
  shows "\<exists>ty i rv sp vs. sres_id r = encode_mcp_public_id ty i (Some rv) \<and>
    backed (visible_library d L) (ctx_account_id ctx) ty i rv sp \<and>
    space_visibility_map (ctx_account_id ctx) d = Inr vs \<and> visibility_in vs sp \<noteq> PRIVATE \<and>
    (served_context d ctx \<longrightarrow> \<not> private_space d (ctx_account_id ctx) sp) \<and>
    (external_request ctx \<longrightarrow> sp \<in> set (ctx_eligible_space_ids ctx)) \<and>
    is_tombstoned (ctx_account_id ctx) ty i d = Inr False \<and>
    i \<notin> set (pending_targets (ctx_account_id ctx) (visible_library d L)) \<and>
    \<not> (ty = ''memory'' \<and> i \<in> set (retracted_memory (ctx_account_id ctx) L))"
  using assms(1)
proof (cases rule: search_Inr)
  case (ran vs fused kept)
  let ?a = "ctx_account_id ctx"
  obtain c where c: "c \<in> set (take n kept)" "r = search_result_of url c"
    using available_results_Inr [OF ran(4)] assms(2) by blast
  have f: "c \<in> set fused" "is_tombstoned ?a (fc_canonical_type c) (fc_canonical_id c) d = Inr False"
    "fc_canonical_id c \<notin> set (pending_targets ?a (visible_library d L))"
    "\<not> (fc_canonical_type c = ''memory'' \<and> fc_canonical_id c \<in> set (retracted_memory ?a L))"
    using search_filters_Inr [OF ran(3) in_set_takeD [OF c(1)]] by (auto simp: retracted_memory_def)
  have b: "fc_space_id c \<in> set (eligible_non_private_spaces ctx vs)"
    "backed (visible_library d L) ?a (fc_canonical_type c) (fc_canonical_id c) (fc_revision_id c) (fc_space_id c)"
    using search_fused [OF ran(2) f(1)] by blast+
  then have "visibility_in vs (fc_space_id c) \<noteq> PRIVATE"
    "external_request ctx \<longrightarrow> fc_space_id c \<in> set (ctx_eligible_space_ids ctx)"
    by (auto simp: eligible_non_private_spaces_def external_request_def Let_def)
  moreover have "served_context d ctx \<longrightarrow> \<not> private_space d ?a (fc_space_id c)"
    using eligible_not_private [OF _ ran(1) b(1)] by blast
  moreover have "sres_id r = encode_mcp_public_id (fc_canonical_type c) (fc_canonical_id c) (Some (fc_revision_id c))"
    by (simp add: c(2) search_result_of_def)
  ultimately show ?thesis using b(2) f(2-4) ran(1) by metis
qed (use assms(2) in simp)

text \<open>
  (C13) Search is confined to what the caller may see: every result is the public identifier of a row of the caller's account that the
  row policies show, in a space that is not private, judged by the visible spaces and, under a served context, by the table, and, for
  an external context, among the spaces granted to it; the entity is not deleted, no pending proposal the policies show targets
  it and it is not a retracted memory; and there are at most as many results as asked for.
\<close>

theorem search_confined:
  assumes "search V L ctx query url n as_of d = Inr rs"
  shows "length rs \<le> n \<and> (\<forall>r \<in> set rs. \<exists>ty i rv sp vs. sres_id r = encode_mcp_public_id ty i (Some rv) \<and>
    backed (visible_library d L) (ctx_account_id ctx) ty i rv sp \<and>
    space_visibility_map (ctx_account_id ctx) d = Inr vs \<and> visibility_in vs sp \<noteq> PRIVATE \<and>
    (served_context d ctx \<longrightarrow> \<not> private_space d (ctx_account_id ctx) sp) \<and>
    (external_request ctx \<longrightarrow> sp \<in> set (ctx_eligible_space_ids ctx)) \<and>
    is_tombstoned (ctx_account_id ctx) ty i d = Inr False \<and>
    i \<notin> set (pending_targets (ctx_account_id ctx) (visible_library d L)) \<and>
    \<not> (ty = ''memory'' \<and> i \<in> set (retracted_memory (ctx_account_id ctx) L)))"
proof -
  have "length rs \<le> n"
    using assms by (cases rule: search_Inr) (auto dest!: available_results_Inr)
  then show ?thesis using search_result_row [OF assms] by blast
qed

definition demo_search_ctx :: RequestContext where
  "demo_search_ctx = demo_ctx\<lparr> ctx_purpose := EXTERNAL_READ, ctx_eligible_space_ids := [5] \<rparr>"

text \<open>The tables as \<open>load_mcp_context\<close> leaves them for a client that reads; the curriculum edge lies in the private space.\<close>

definition demo_served :: core_db where
  "demo_served = demo_core\<lparr> settings := empty_settings\<lparr> set_purpose := ''external_read'' \<rparr> \<rparr>"

definition demo_element_library :: library where
  "demo_element_library = demo_library\<lparr> lib_document_revision := [], lib_element := [\<lparr> de_id = 50, de_account_id = 1, de_space_id = 5,
     de_parse_run_id = 7, de_element_kind = ''paragraph'', de_locator = None, de_element_index = None, de_parent_element_id = None,
     de_content_hash = None, de_exact_text = Some ''why?'', de_normalized_text = None, de_metadata = [], de_created_at = 0 \<rparr>],
     lib_edge := [\<lparr> ed_id = 60, ed_account_id = 1, ed_space_id = 6, ed_course_id = 3, ed_from_node_id = 61, ed_to_node_id = 62,
       ed_edge_kind = ''related'', ed_confirmation = ''confirmed'', ed_created_at = 0 \<rparr>] \<rparr>"

definition demo_lane_env :: lane_env where
  "demo_lane_env = \<lparr> le_digest = id, le_sqrt = id \<rparr>"

lemma demo_served_facts [simp]:
  "t_space demo_served = t_space demo_core" "set_purpose (settings demo_served) = ''external_read''"
  "\<not> internal_purpose demo_served" "is_tombstoned a ty i demo_served = Inr False" "space_key demo_served"
  "ctx_account_id demo_search_ctx = 1"
  by (simp_all add: demo_served_def demo_core_def internal_purpose_def is_tombstoned_def tombstones_of_def space_key_def demo_search_ctx_def)

lemma demo_served_map: "space_visibility_map 1 demo_served = Inr [(5, GENERAL)]"
  by (simp add: space_visibility_map_def space_row_visible_def) (simp add: demo_core_def parse_visibility_def)

lemma demo_visible: "visible_library demo_served demo_element_library = demo_element_library"
  by (simp add: visible_library_def product_row_visible_def memdot_external_space_ok_def demo_element_library_def demo_library_def)
    (simp add: demo_core_def)

lemma demo_served_context: "served_context demo_served demo_search_ctx"
  by (simp add: served_context_def private_space_def) (simp add: demo_search_ctx_def purpose_value_def demo_core_def)

lemma demo_library_ok: "library_ok demo_element_library"
  by (simp add: library_ok_def demo_element_library_def demo_library_def)

lemma demo_search_lanes:
  "search_lanes V demo_element_library 1 None ''?'' [5] =
     [(TEMPORAL_EXACT, []), (EXACT, [element_hit 1 ''why?'' (hd (lib_element demo_element_library))]), (GRAPH, []), (OSS_SEMANTIC, [])]"
  by (simp add: search_lanes_def temporal_candidates_def graph_candidates_def semantic_candidates_def local_candidates_def
      demo_element_library_def demo_library_def document_revisions_in_def memory_revisions_in_def add_element_def add_hit_def
      py_lower_def py_strip_def renumber_def element_hit_def scored_hits_def Let_def)

lemma demo_search_fused:
  "\<exists>f. fuse_candidates (search_lanes demo_lane_env demo_element_library 1 None ''?'' [5]) RRF_K None = Inr [f] \<and>
     fc_space_id f = 5 \<and> fc_canonical_id f = 50"
  unfolding demo_search_lanes by (simp add: fuse_candidates_def fuse_lane_def fuse_one_def rrf_contribution_def element_hit_def RRF_K_def
      new_fused_def demo_element_library_def)

lemma demo_search:
  "\<exists>r. search demo_lane_env demo_element_library demo_search_ctx ''?'' [] 20 None demo_served = Inr [r]"
proof -
  have "eligible_non_private_spaces demo_search_ctx [(5, GENERAL)] = [5]"
    by (simp add: eligible_non_private_spaces_def demo_search_ctx_def visibility_in_def)
  moreover have "py_strip ''?'' = ''?''" by (simp add: py_strip_def py_lstrip_def is_space_def)
  moreover have "pending_targets 1 demo_element_library = []" "retracted_memory 1 demo_element_library = []"
    by (simp_all add: pending_targets_def retracted_memory_def demo_element_library_def demo_library_def)
  ultimately show ?thesis
    using demo_search_fused
    by (auto simp: search_def Let_def demo_visible demo_served_map search_filters_def filter_private_spaces_def exclude_private_spaces_def
        visibility_in_def filter_pending_and_retracted_def is_entity_available_def purpose_value_def)
qed

theorem search_confined_witness:
  "\<exists>rs. search demo_lane_env demo_element_library demo_search_ctx ''?'' [] 20 None demo_served = Inr rs \<and> length rs = 1 \<and>
     (\<exists>ty i rv sp. sres_id (hd rs) = encode_mcp_public_id ty i (Some rv) \<and> backed demo_element_library 1 ty i rv sp \<and>
        \<not> private_space demo_served 1 sp \<and> sp = 5)"
proof -
  obtain r where r: "search demo_lane_env demo_element_library demo_search_ctx ''?'' [] 20 None demo_served = Inr [r]"
    using demo_search by blast
  have e: "external_request demo_search_ctx" "ctx_eligible_space_ids demo_search_ctx = [5]"
    by (simp_all add: external_request_def demo_search_ctx_def)
  obtain ty i rv sp where "sres_id r = encode_mcp_public_id ty i (Some rv)" "backed demo_element_library 1 ty i rv sp"
    "\<not> private_space demo_served 1 sp" "sp \<in> set [5]"
    using search_confined [OF r] demo_served_context e by (auto simp: demo_visible)
  then show ?thesis using r by (intro exI [of _ "[r]"]) auto
qed

lemma fetched_visible:
  assumes "fetched (visible_library d L) a ty i rv sp t" and "ty \<in> {''document'', ''document_element''}"
  shows "product_row_visible d a sp"
  using assms unfolding fetched_def visible_library_sels
  by (elim disjE bexE conjE) (auto simp: visible_rows)

lemma library_ok_visible:
  assumes "library_ok L"
  shows "library_ok (visible_library d L)"
proof -
  have "\<exists>x \<in> set (lib_document (visible_library d L)). ad_account_id x = dr_account_id r \<and> ad_id x = dr_document_id r \<and>
      ad_space_id x = dr_space_id r" if r: "r \<in> set (lib_document_revision (visible_library d L))" for r
  proof -
    obtain x where x: "x \<in> set (lib_document L)" "ad_account_id x = dr_account_id r" "ad_id x = dr_document_id r"
      "ad_space_id x = dr_space_id r"
      using r assms by (auto simp: library_ok_def visible_rows)
    then show ?thesis using r by (intro bexI [of _ x]) (simp_all add: visible_rows)
  qed
  moreover have "distinct (map ad_id (lib_document (visible_library d L)))" "distinct (map de_id (lib_element (visible_library d L)))"
    using assms by (simp_all add: library_ok_def visible_library_def distinct_map_filter)
  ultimately show ?thesis using assms by (simp add: library_ok_def)
qed

lemma fetch_Inr:
  assumes "fetch L ctx mcp_id url d = Inr (Some reply)"
  obtains ty i rv sp vs where "decode_mcp_public_id mcp_id = Inr (ty, i, rv)" "is_tombstoned (ctx_account_id ctx) ty i d = Inr False"
    "space_visibility_map (ctx_account_id ctx) d = Inr vs" "visibility_in vs sp \<noteq> PRIVATE"
    "fetched (visible_library d L) (ctx_account_id ctx) ty i rv sp (ftr_text reply)"
proof (cases "decode_mcp_public_id mcp_id")
  case (Inr key)
  obtain ty i rv where key: "key = (ty, i, rv)" by (rule prod_cases3)
  obtain vs where gone: "is_tombstoned (ctx_account_id ctx) ty i d = Inr False"
    and vs: "space_visibility_map (ctx_account_id ctx) d = Inr vs"
    and run: "fetch_entity (visible_library d L) (ctx_account_id ctx) mcp_id url vs (ty, i, rv) = Inr (Some reply)"
    using assms unfolding fetch_def Inr key
    by (auto simp: is_entity_available_def bindr_Inr_iff simp del: if_split split: if_split_asm)
  from fetch_entity_Inr [OF run] show thesis using Inr key gone vs that by blast
qed (use assms in \<open>simp add: fetch_def\<close>)

text \<open>
  (C14) What fetching serves: an answer means that the identifier decodes, that the entity is not deleted, and that the text is the one
  of a row of the caller's account that the row policies show, of the revision the identifier names if it names one; a
  memory is only served from a revision that is active. A document or an element is never one of a private space, and under
  an internal purpose nothing is. For memory and curriculum edges an external read has no such protection: every one of the account
  that is not deleted or superseded is served, those of private spaces included. (The policy hides private spaces from such a
  context, \<open>_space_is_private\<close> takes a space it does not find for a general one, and no policy restricts these two tables.)
\<close>

theorem fetch_confined:
  assumes "space_key d"
  shows "(\<forall>reply. fetch L ctx mcp_id url d = Inr (Some reply) \<longrightarrow>
      (\<exists>ty i rv sp. decode_mcp_public_id mcp_id = Inr (ty, i, rv) \<and> is_tombstoned (ctx_account_id ctx) ty i d = Inr False \<and>
         fetched (visible_library d L) (ctx_account_id ctx) ty i rv sp (ftr_text reply) \<and>
         (internal_purpose d \<or> ty \<in> {''document'', ''document_element''} \<longrightarrow> \<not> private_space d (ctx_account_id ctx) sp))) \<and>
    (\<forall>ty i rv sp. mcp_id = encode_mcp_public_id ty i (Some rv) \<and> ty \<in> {''memory'', ''curriculum_edge''} \<and>
       backed L (ctx_account_id ctx) ty i rv sp \<and> (\<forall>m \<in> set (lib_memory_revision L). mr_id m = rv \<longrightarrow> mr_status m \<noteq> ''superseded'') \<and>
       is_tombstoned (ctx_account_id ctx) ty i d = Inr False \<and> set_purpose (settings d) = ''external_read'' \<and> library_ok L \<longrightarrow>
       (\<exists>reply. fetch L ctx mcp_id url d = Inr (Some reply)))"
proof (intro conjI allI impI)
  fix reply
  assume "fetch L ctx mcp_id url d = Inr (Some reply)"
  then show "\<exists>ty i rv sp. decode_mcp_public_id mcp_id = Inr (ty, i, rv) \<and> is_tombstoned (ctx_account_id ctx) ty i d = Inr False \<and>
         fetched (visible_library d L) (ctx_account_id ctx) ty i rv sp (ftr_text reply) \<and>
         (internal_purpose d \<or> ty \<in> {''document'', ''document_element''} \<longrightarrow> \<not> private_space d (ctx_account_id ctx) sp)"
  proof (rule fetch_Inr)
    fix ty i rv sp vs
    assume f: "decode_mcp_public_id mcp_id = Inr (ty, i, rv)" "is_tombstoned (ctx_account_id ctx) ty i d = Inr False"
      "fetched (visible_library d L) (ctx_account_id ctx) ty i rv sp (ftr_text reply)"
      and vs: "space_visibility_map (ctx_account_id ctx) d = Inr vs" "visibility_in vs sp \<noteq> PRIVATE"
    have "\<not> private_space d (ctx_account_id ctx) sp" if "internal_purpose d \<or> ty \<in> {''document'', ''document_element''}"
      using that visibility_not_private [OF vs(1) assms _ vs(2)] product_row_not_private [OF fetched_visible [OF f(3)] _ assms]
      by blast
    then show ?thesis using f by blast
  qed
next
  fix ty i rv sp
  assume a: "mcp_id = encode_mcp_public_id ty i (Some rv) \<and> ty \<in> {''memory'', ''curriculum_edge''} \<and>
       backed L (ctx_account_id ctx) ty i rv sp \<and> (\<forall>m \<in> set (lib_memory_revision L). mr_id m = rv \<longrightarrow> mr_status m \<noteq> ''superseded'') \<and>
       is_tombstoned (ctx_account_id ctx) ty i d = Inr False \<and> set_purpose (settings d) = ''external_read'' \<and> library_ok L"
  then have "\<not> internal_purpose d" by (simp add: internal_purpose_def)
  then obtain vs where vs: "space_visibility_map (ctx_account_id ctx) d = Inr vs" "\<forall>i. visibility_in vs i \<noteq> PRIVATE"
    by (rule external_visibilities)
  have b: "backed (visible_library d L) (ctx_account_id ctx) ty i rv sp" using a by (auto simp: backed_def)
  obtain reply where r: "fetch_entity (visible_library d L) (ctx_account_id ctx) mcp_id url vs (ty, i, Some rv) = Inr (Some reply)"
    using backed_fetch [OF b library_ok_visible _ , of vs mcp_id url] a vs(2) by (auto simp: not_None_eq)
  then have "fetch L ctx mcp_id url d = Inr (Some reply)"
    using a vs(1) by (simp add: fetch_def decode_encode [OF backed_type [OF b]] is_entity_available_def)
  then show "\<exists>reply. fetch L ctx mcp_id url d = Inr (Some reply)" by blast
qed

theorem fetch_confined_witness:
  "(\<exists>reply ty i rv. fetch demo_element_library demo_search_ctx (encode_mcp_public_id ''document_element'' 50 None) [] demo_served =
       Inr (Some reply) \<and> decode_mcp_public_id (encode_mcp_public_id ''document_element'' 50 None) = Inr (ty, i, rv) \<and>
     is_tombstoned 1 ty i demo_served = Inr False \<and> ftr_text reply = ''why?'') \<and>
   (\<exists>reply. private_space demo_served 1 6 \<and>
     fetch demo_element_library demo_search_ctx (encode_mcp_public_id ''curriculum_edge'' 60 (Some 60)) [] demo_served = Inr (Some reply))"
proof -
  let ?id = "encode_mcp_public_id ''document_element'' 50 None"
  obtain reply where
    "fetch demo_element_library demo_search_ctx ?id [] demo_served = Inr (Some reply)" "ftr_text reply = ''why?''"
    by (simp add: fetch_def decode_encode is_entity_available_def fetch_entity_def fetch_element_def demo_visible demo_served_map)
      (simp add: demo_element_library_def space_is_private_def visibility_in_def)
  then have 1: "\<exists>reply ty i rv. fetch demo_element_library demo_search_ctx ?id [] demo_served = Inr (Some reply) \<and>
     decode_mcp_public_id ?id = Inr (ty, i, rv) \<and> is_tombstoned 1 ty i demo_served = Inr False \<and> ftr_text reply = ''why?''"
    using fetch_confined [of demo_served demo_element_library demo_search_ctx ?id "[]"] by fastforce
  have "backed demo_element_library 1 ''curriculum_edge'' 60 60 6" "lib_memory_revision demo_element_library = []"
    by (simp_all add: backed_def demo_element_library_def demo_library_def)
  then have 2: "\<exists>reply. fetch demo_element_library demo_search_ctx (encode_mcp_public_id ''curriculum_edge'' 60 (Some 60)) [] demo_served =
      Inr (Some reply)"
    using fetch_confined [of demo_served demo_element_library demo_search_ctx "encode_mcp_public_id ''curriculum_edge'' 60 (Some 60)" "[]"]
      demo_library_ok by fastforce
  have "private_space demo_served 1 6" by (simp add: private_space_def) (simp add: demo_core_def)
  then show ?thesis using 1 2 by blast
qed

text \<open>
  (C16) What a search returns can be fetched: while the tables satisfy their constraints, fetching the identifier of a result
  under the same context answers with that very identifier; the one exception are superseded memory revisions, which
  a search at an earlier time finds and fetch does not serve.
\<close>

theorem search_results_fetch:
  assumes "search V L ctx query url n as_of d = Inr rs" and "r \<in> set rs" and "library_ok L"
  shows "\<exists>ty i rv reply. sres_id r = encode_mcp_public_id ty i (Some rv) \<and> fetch L ctx (sres_id r) url d = Inr reply \<and>
    (reply = None \<longrightarrow> ty = ''memory'' \<and> (\<exists>m \<in> set (lib_memory_revision L). mr_id m = rv \<and> mr_status m = ''superseded'')) \<and>
    (\<forall>x. reply = Some x \<longrightarrow> ftr_id x = sres_id r)"
proof -
  from assms(2) obtain ty i rv sp vs where r: "sres_id r = encode_mcp_public_id ty i (Some rv)"
    and b: "backed (visible_library d L) (ctx_account_id ctx) ty i rv sp" and vs: "space_visibility_map (ctx_account_id ctx) d = Inr vs"
      "visibility_in vs sp \<noteq> PRIVATE" and gone: "is_tombstoned (ctx_account_id ctx) ty i d = Inr False"
    using search_result_row [OF assms(1)] by blast
  have "fetch L ctx (sres_id r) url d = fetch_entity (visible_library d L) (ctx_account_id ctx) (sres_id r) url vs (ty, i, Some rv)"
    using gone vs(1) by (simp add: fetch_def r decode_encode [OF backed_type [OF b]] is_entity_available_def)
  then show ?thesis using backed_fetch [OF b library_ok_visible [OF assms(3)] vs(2) r, of url] r unfolding visible_library_sels by metis
qed

theorem search_results_fetch_witness:
  "\<exists>r reply. search demo_lane_env demo_element_library demo_search_ctx ''?'' [] 20 None demo_served = Inr [r] \<and>
     fetch demo_element_library demo_search_ctx (sres_id r) [] demo_served = Inr (Some reply) \<and> ftr_id reply = sres_id r"
proof -
  obtain r where r: "search demo_lane_env demo_element_library demo_search_ctx ''?'' [] 20 None demo_served = Inr [r]"
    using demo_search by blast
  have m: "lib_memory_revision demo_element_library = []" by (simp add: demo_element_library_def demo_library_def)
  from search_results_fetch [OF r _ demo_library_ok, of r] r m show ?thesis by (auto split: option.splits)
qed

text \<open>
  Deleting a source does not touch search: after a tombstone for a source was created, every search under the same purpose
  answers as before, so the elements parsed from it stay among the results.
\<close>

theorem deleted_source_still_found:
  assumes "create_tombstone E ctx' ''source'' source_id sp rk (d, []) = Inr (tid, d', ps')"
  shows "search V L ctx query url n as_of (d'\<lparr> settings := settings d \<rparr>) = search V L ctx query url n as_of d"
  using create_tombstone_other [OF assms] by (intro search_cong) (auto simp: is_tombstoned_def)

text \<open>
  The lanes are never fused: every lane puts its own prefix on candidate identifiers, so each fused candidate of a search
  comes from a single lane, and its score is the contribution of that lane alone.
\<close>

theorem search_lanes_never_merge:
  assumes "fuse_candidates (search_lanes V L account_id as_of query spaces) RRF_K None = Inr fused" and "f \<in> set fused"
  shows "set (fc_lanes f) = {lane_by_id (fc_candidate_id f)}"
  using search_fused [OF assms] by blast

theorem search_lanes_never_merge_witness:
  "\<exists>f. fuse_candidates (search_lanes demo_lane_env demo_element_library 1 None ''?'' [5]) RRF_K None = Inr [f] \<and>
     set (fc_lanes f) = {EXACT}"
proof -
  obtain f where f: "fuse_candidates (search_lanes demo_lane_env demo_element_library 1 None ''?'' [5]) RRF_K None = Inr [f]"
    using demo_search_fused by blast
  then have "EXACT \<in> set (fc_lanes f)"
    by (auto simp: demo_search_lanes fuse_candidates_def fuse_lane_def fuse_one_def rrf_contribution_def element_hit_def RRF_K_def
        new_fused_def)
  then show ?thesis using search_lanes_never_merge [OF f, of f] f by auto
qed

text \<open>
  No grant, no results: for an external context without granted spaces every search answers with nothing, and it never
  fails unless a visibility in the table is unknown. Context preparation does not have this default: without
  granted spaces and without a purpose it reads every space that the policies show.
\<close>

theorem no_grant_no_results:
  assumes "ctx_purpose ctx \<in> {EXTERNAL_READ, EXTERNAL_PROPOSE, EXTERNAL_INTERACTION}" and "ctx_eligible_space_ids ctx = []"
    and "space_visibility_map (ctx_account_id ctx) d = Inr vs"
  shows "search V L ctx query url n as_of d = Inr [] \<and>
    prepare_context E L u ctx query None mt mi s =
      compile_context_for_request E L u (external_ctx ctx EXTERNAL_READ) query (Some ''general'') mt mi s \<and>
    context_spaces (external_ctx ctx EXTERNAL_READ) (active_purpose (external_ctx ctx EXTERNAL_READ) (Some ''general'')) vs = map fst vs"
proof -
  have "eligible_non_private_spaces ctx vs = []" using assms by (auto simp: eligible_non_private_spaces_def)
  moreover have "fuse_candidates (search_lanes V M a as_of q []) RRF_K None = Inr []" for M a q
    using temporal.no_spaces [of M a as_of 20 q] exact.no_spaces [of M a q] graph.no_spaces [of M a 20 q]
      semantic.no_spaces [of V M a as_of 20 q]
    by (simp add: search_lanes_def fuse_candidates_def fuse_lane_def)
  ultimately have "search V L ctx query url n as_of d = Inr []"
    using assms(3) by (simp add: search_def Let_def search_filters_def exclude_private_spaces_def filter_private_spaces_def
        filter_pending_and_retracted_def)
  then show ?thesis
    using assms(2) by (simp add: prepare_context_def context_spaces_def active_purpose_def external_ctx_def purpose_value_def)
qed

theorem no_grant_no_results_witness:
  "search demo_lane_env demo_element_library (demo_search_ctx\<lparr> ctx_eligible_space_ids := [] \<rparr>) ''?'' [] 20 None demo_served = Inr []"
proof -
  let ?ctx = "demo_search_ctx\<lparr> ctx_eligible_space_ids := [] \<rparr>"
  have "space_visibility_map (ctx_account_id ?ctx) demo_served = Inr [(5, GENERAL)]"
    by (simp add: demo_served_map)
  moreover have "ctx_purpose ?ctx \<in> {EXTERNAL_READ, EXTERNAL_PROPOSE, EXTERNAL_INTERACTION}" "ctx_eligible_space_ids ?ctx = []"
    by (simp_all add: demo_search_ctx_def)
  ultimately show ?thesis by (intro conjunct1 [OF no_grant_no_results])
qed

text \<open>
  (C17) A turn key records one turn: after an interaction was recorded under a key, another call under the same key in the same
  conversation and space writes nothing, and it succeeds only with the role, the parent, the receipt and the time of the
  first; it then answers with the first turn. A call that leaves the time to the server is compared by the server's own
  clock: repeated at a later time it never succeeds.
\<close>

theorem interaction_retry:
  assumes "record_interaction E C ctx i (d, []) = Inr (r, d', ps')" and "\<not> inr_idempotent r" and "truthy_str (turn_key i)"
    and "turn_key j = turn_key i" and "in_space_id j = in_space_id i"
    and "in_client_conversation_id j = in_client_conversation_id i"
    and "record_interaction E' C' ctx j (d', []) = Inr (r', d'', ps'')"
  shows "r' = \<lparr> inr_conversation_id = inr_conversation_id r, inr_turn_id = inr_turn_id r, inr_turn_index = inr_turn_index r,
      inr_completeness = conversation_label j, inr_idempotent = True \<rparr> \<and>
    t_turn d'' = t_turn d' \<and> t_conversation d'' = t_conversation d' \<and>
    in_role j = in_role i \<and> in_parent_turn_id j = in_parent_turn_id i \<and> in_context_receipt_id j = in_context_receipt_id i \<and>
    occurred_at E' j = occurred_at E i"
proof -
  from recorded_turn [OF assms(1-3)] obtain t cid
    where purpose: "set_purpose (settings d') = ''external_interaction''" and conv: "client_rows ctx i d' = [cid]"
      and t: "filter (\<lambda>t. ct_client_turn_id t = turn_key i) (turn_rows (ctx_account_id ctx) (cv_id cid) (visible_chat d')) = [t]"
        "ct_role t = in_role i" "ct_parent_turn_id t = in_parent_turn_id i" "ct_context_receipt_id t = in_context_receipt_id i"
        "ct_occurred_at t = occurred_at E i" "ct_id t = inr_turn_id r" "ct_turn_index t = inr_turn_index r"
        "cv_id cid = inr_conversation_id r"
    by metis
  have conv': "client_rows ctx j d' = [cid]" using conv assms(5,6) by (simp add: client_rows_def)
  from assms(7) show ?thesis
  proof (rule record_interaction_body)
    fix p g s3
    let ?d = "d'\<lparr> settings := g \<rparr>"
    assume run: "interaction_body E' C' ctx j (occurred_at E' j) p (?d, []) = Inr (r', s3)"
      and fl: "flush s3 = Inr (d'', ps'')" and g: "set_purpose g = ''external_interaction''"
    have same: "client_rows ctx j ?d = [cid]"
      "filter (\<lambda>t. ct_client_turn_id t = turn_key j) (turn_rows (ctx_account_id ctx) (cv_id cid) (visible_chat ?d)) = [t]"
      using visible_chat_cong [of ?d d'] purpose g conv' t(1) assms(4) by simp_all
    have "replay_interaction C' j (occurred_at E' j) (cv_id cid) t = Inr r' \<and> s3 = (?d, [])"
      by (rule interaction_body_replays [OF run same(1) _ same(2)]) (use assms(3,4) in simp)
    then show ?thesis
      using t(2-) fl by (auto simp: replay_interaction_def bindr_Inr_iff split: if_splits)
  qed
qed

definition demo_client_ctx :: RequestContext where
  "demo_client_ctx = demo_ctx\<lparr> ctx_actor_id := 22, ctx_purpose := EXTERNAL_INTERACTION \<rparr>"

definition demo_client :: conv_db where
  "demo_client = demo_conv\<lparr> t_actor := [\<lparr> act_id = 22, act_account_id = 1, act_kind = ''external_client'', act_reference_id = None,
     act_revoked_at = None, act_created_at = 0 \<rparr>],
     t_grant := [\<lparr> gr_id = 23, gr_account_id = 1, gr_actor_id = 22, gr_client_id = ''chat'', gr_scopes = [],
       gr_revoked_at = None, gr_created_at = 0 \<rparr>], t_conversation := [],
     settings := empty_settings\<lparr> set_purpose := ''external_interaction'' \<rparr> \<rparr>"

definition demo_interaction :: interaction where
  "demo_interaction = \<lparr> in_space_id = 5, in_client_conversation_id = ''chat-1'', in_role = ''user'', in_content = ''hi'',
     in_completeness = ''complete'', in_context_receipt_id = None, in_idempotency_key = None, in_client_turn_id = Some ''t1'',
     in_parent_turn_id = None, in_occurred_at = Some 7 \<rparr>"

abbreviation "demo_external \<equiv> tenant_of (external_ctx demo_client_ctx EXTERNAL_INTERACTION)"

lemma demo_client_scope:
  assumes "t_actor d = t_actor demo_client" and "t_grant d = t_grant demo_client"
  obtains g where "tenant_scope demo_env demo_external body (d, ps) =
      bindr (body (d\<lparr> settings := g \<rparr>, ps)) (\<lambda>(r, s3). bindr (flush s3) (\<lambda>s4. Inr (r, s4)))"
    "set_purpose g = ''external_interaction''"
proof -
  let ?d = "memdot_clear_tenant_context d"
  have "\<exists>g. apply_tenant_context demo_env demo_external (?d, ps) = Inr (?d\<lparr> settings := g \<rparr>, ps)"
    using assms
    by (simp add: apply_tenant_context_def external_ctx_def demo_client_ctx_def demo_ctx_def tenant_of_def RUNTIME_PURPOSES_def
        PURPOSES_def sign_tenant_context_def tenant_signing_key_def demo_env_def purpose_value_def demo_client_def
        memdot_begin_tenant_context_def check_purpose_actor_def find_actor_def latest_grant_def memdot_clear_tenant_context_def)
      blast
  then obtain g where g: "apply_tenant_context demo_env demo_external (?d, ps) = Inr (?d\<lparr> settings := g \<rparr>, ps)" by blast
  have "set_purpose g = ''external_interaction''"
    using apply_purpose [OF g] by (simp add: tenant_of_def external_ctx_def purpose_value_def)
  then show thesis
    using that g by (simp add: tenant_scope_def reset_tenant_context_def memdot_clear_tenant_context_def)
qed

lemma demo_encrypted:
  "encrypt_payload demo_crypto [(''content'', JStr ''hi'')] None =
     Inr (CHR ''t'' # json_dumps (JObj [(''content'', JStr ''hi'')]), replicate 12 (CHR ''n''))"
  by (simp add: encrypt_payload_def payload_key_def pepper_from_env_def demo_crypto_def py_strip_def py_lstrip_def is_space_def
      numeral_eq_Suc)

lemma demo_record:
  assumes "t_space d = t_space demo_core" and "t_actor d = t_actor demo_client" and "t_grant d = t_grant demo_client"
    and "set_purpose (settings d) = ''external_interaction''"
  obtains g where "record_interaction demo_env demo_crypto demo_client_ctx demo_interaction (d, []) =
    bindr (interaction_body demo_env demo_crypto demo_client_ctx demo_interaction 7
        (CHR ''t'' # json_dumps (JObj [(''content'', JStr ''hi'')]), replicate 12 (CHR ''n'')) (d\<lparr> settings := g \<rparr>, []))
      (\<lambda>(r, s3). bindr (flush s3) (\<lambda>s4. Inr (r, s4)))"
    "set_purpose g = ''external_interaction''" "chat_row_visible (d\<lparr> settings := g \<rparr>) 1 5" "chat_row_writable (d\<lparr> settings := g \<rparr>) 1 5"
proof -
  have "space_visibility_map 1 d = Inr [(5, GENERAL)]"
    using assms(1,4)
    by (simp add: space_visibility_map_def space_row_visible_def internal_purpose_def demo_core_def parse_visibility_def)
  then have r: "record_interaction demo_env demo_crypto demo_client_ctx demo_interaction (d, []) =
      tenant_scope demo_env demo_external (interaction_body demo_env demo_crypto demo_client_ctx demo_interaction 7
        (CHR ''t'' # json_dumps (JObj [(''content'', JStr ''hi'')]), replicate 12 (CHR ''n''))) (d, [])"
    using demo_encrypted
    by (simp add: record_interaction_def demo_client_ctx_def check_interaction_def demo_interaction_def)
  obtain g where g: "tenant_scope demo_env demo_external (interaction_body demo_env demo_crypto demo_client_ctx demo_interaction 7
        (CHR ''t'' # json_dumps (JObj [(''content'', JStr ''hi'')]), replicate 12 (CHR ''n''))) (d, []) =
      bindr (interaction_body demo_env demo_crypto demo_client_ctx demo_interaction 7
        (CHR ''t'' # json_dumps (JObj [(''content'', JStr ''hi'')]), replicate 12 (CHR ''n'')) (d\<lparr> settings := g \<rparr>, []))
      (\<lambda>(r, s3). bindr (flush s3) (\<lambda>s4. Inr (r, s4)))" "set_purpose g = ''external_interaction''"
    by (rule demo_client_scope [OF assms(2,3)])
  have "memdot_external_space_ok (d\<lparr> settings := g \<rparr>) 1 5"
    using assms(1) by (simp add: memdot_external_space_ok_def) (simp add: demo_core_def)
  then have "chat_row_writable (d\<lparr> settings := g \<rparr>) 1 5" using g(2) by (simp add: chat_row_writable_def)
  then show thesis using that [of g] r g by (simp add: chat_row_visible_def)
qed

lemma demo_client_tables [simp]:
  "t_space demo_client = t_space demo_core" "t_account demo_client = t_account demo_core" "t_conversation demo_client = []"
  "t_turn demo_client = []" "t_tombstone demo_client = []"
  by (simp_all add: demo_client_def demo_conv_def core_db.defs demo_core_def)

lemma demo_client_purpose [simp]: "set_purpose (settings demo_client) = ''external_interaction''"
  by (simp add: demo_client_def)

text \<open>What an insert of an allowed row keeps: the space table and the settings decide the policy.\<close>

lemma chat_writable_rows [simp]:
  "chat_row_writable (d\<lparr> t_conversation := cs \<rparr>) = chat_row_writable d"
  "chat_row_writable (d\<lparr> t_turn := ts \<rparr>) = chat_row_writable d"
  by (rule policies_cong; simp)+

lemma demo_first_interaction:
  "\<exists>r d' c t. record_interaction demo_env demo_crypto demo_client_ctx demo_interaction (demo_client, []) = Inr (r, d', []) \<and>
     \<not> inr_idempotent r \<and> t_space d' = t_space demo_core \<and> t_actor d' = t_actor demo_client \<and> t_grant d' = t_grant demo_client \<and>
     set_purpose (settings d') = ''external_interaction'' \<and> t_conversation d' = [c] \<and> t_turn d' = [t] \<and> t_tombstone d' = [] \<and>
     c = new_conversation demo_env 1 5 ''chat-1'' (conversation_label demo_interaction) \<and>
     t = interaction_turn demo_env demo_client_ctx demo_interaction 7 1000 0
       (CHR ''t'' # json_dumps (JObj [(''content'', JStr ''hi'')]), replicate 12 (CHR ''n''))"
proof -
  obtain g where g: "record_interaction demo_env demo_crypto demo_client_ctx demo_interaction (demo_client, []) =
    bindr (interaction_body demo_env demo_crypto demo_client_ctx demo_interaction 7
        (CHR ''t'' # json_dumps (JObj [(''content'', JStr ''hi'')]), replicate 12 (CHR ''n'')) (demo_client\<lparr> settings := g \<rparr>, []))
      (\<lambda>(r, s3). bindr (flush s3) (\<lambda>s4. Inr (r, s4)))"
    and w: "set_purpose g = ''external_interaction''" "chat_row_writable (demo_client\<lparr> settings := g \<rparr>) 1 5"
    using demo_record [of demo_client] by auto
  show ?thesis
    unfolding g
    by (simp add: interaction_body_def client_conversation_def demo_client_ctx_def demo_interaction_def turn_key_def turn_rows_def
        new_conversation_def interaction_turn_def insert_conversation_def insert_turn_def validate_turn_links_def visible_chat_sels
        unique_key_def foreign_key_def write_gate_def internal_purpose_def w del: json_dumps.simps)
      (simp add: demo_core_def w)
qed

theorem interaction_retry_witness:
  "\<exists>r d' r' d''. record_interaction demo_env demo_crypto demo_client_ctx demo_interaction (demo_client, []) = Inr (r, d', []) \<and>
     record_interaction demo_env demo_crypto demo_client_ctx demo_interaction (d', []) = Inr (r', d'', []) \<and>
     inr_turn_id r' = inr_turn_id r \<and> inr_idempotent r' \<and> t_turn d'' = t_turn d'"
proof -
  obtain r d' c t where r: "record_interaction demo_env demo_crypto demo_client_ctx demo_interaction (demo_client, []) = Inr (r, d', [])"
      "\<not> inr_idempotent r"
    and d': "t_space d' = t_space demo_core" "t_actor d' = t_actor demo_client" "t_grant d' = t_grant demo_client"
      "t_conversation d' = [c]" "t_turn d' = [t]" "t_tombstone d' = []" "set_purpose (settings d') = ''external_interaction''"
    and c: "c = new_conversation demo_env 1 5 ''chat-1'' (conversation_label demo_interaction)"
    and t: "t = interaction_turn demo_env demo_client_ctx demo_interaction 7 1000 0
       (CHR ''t'' # json_dumps (JObj [(''content'', JStr ''hi'')]), replicate 12 (CHR ''n''))"
    using demo_first_interaction by blast
  obtain g where g: "record_interaction demo_env demo_crypto demo_client_ctx demo_interaction (d', []) =
    bindr (interaction_body demo_env demo_crypto demo_client_ctx demo_interaction 7
        (CHR ''t'' # json_dumps (JObj [(''content'', JStr ''hi'')]), replicate 12 (CHR ''n'')) (d'\<lparr> settings := g \<rparr>, []))
      (\<lambda>(r, s3). bindr (flush s3) (\<lambda>s4. Inr (r, s4)))"
    and vis: "chat_row_visible (d'\<lparr> settings := g \<rparr>) 1 5"
    using demo_record [OF d'(1-3,7)] by auto
  have key: "truthy_str (turn_key demo_interaction)" by (simp add: turn_key_def demo_interaction_def)
  have "decrypt_payload demo_crypto (CHR ''t'' # json_dumps (JObj [(''content'', JStr ''hi'')])) (replicate 12 (CHR ''n'')) None =
      Inr [(''content'', JStr ''hi'')]"
    using decrypt_encrypt [OF demo_encrypted demo_aead, of "token_bytes demo_crypto"] by simp
  then have "stored_content demo_crypto t = Inr (Some ''hi'')"
    by (simp add: stored_content_def t interaction_turn_def payload_content_def)
  then obtain r' where r': "replay_interaction demo_crypto demo_interaction 7 1000 t = Inr r'"
    by (auto simp: replay_interaction_def t interaction_turn_def demo_interaction_def)
  let ?d = "d'\<lparr> settings := g \<rparr>"
  have a: "ctx_account_id demo_client_ctx = 1" by (simp add: demo_client_ctx_def)
  have k: "turn_key demo_interaction = Some ''t1''" by (simp add: turn_key_def demo_interaction_def)
  have rows: "turn_rows 1 1000 (visible_chat ?d) = [t]" "filter (\<lambda>t. ct_client_turn_id t = Some ''t1'') [t] = [t]"
    using k vis by (simp_all add: turn_rows_def visible_chat_sels d' t interaction_turn_def a) (simp add: demo_interaction_def)
  have n: "next_turn_index 1 1000 (visible_chat ?d) = Inr 0"
    unfolding next_turn_index_def rows by (simp add: t interaction_turn_def)
  have "client_conversation demo_env demo_client_ctx demo_interaction (?d, []) = Inr (1000, 0, ?d, [])"
    using n vis
    by (simp add: client_conversation_def visible_chat_sels d' c new_conversation_def demo_interaction_def a is_tombstoned_def tombstones_of_def)
  then have "record_interaction demo_env demo_crypto demo_client_ctx demo_interaction (d', []) = Inr (r', ?d, [])"
    unfolding g using rows k r' by (simp add: interaction_body_def a)
  then show ?thesis
    using interaction_retry [OF r key refl refl refl, of demo_env demo_crypto r' "d'\<lparr> settings := g \<rparr>" "[]"] r(1) by auto
qed

end
