(* ===== verification/Base64.thy ===== *)
theory Base64
  imports Prelude
begin

text \<open>
  Python's \<open>base64.urlsafe_b64encode\<close> and \<open>urlsafe_b64decode\<close>, which cursors, service envelopes and encrypted login secrets use.
  Bytes are characters. Decoding is the lenient one of \<open>binascii\<close>: characters outside the alphabet are skipped, a
  complete padding ends the text, a text that breaks off in a group is an error (\<open>None\<close>).
\<close>

section \<open>The alphabet\<close>

definition b64_char :: "nat \<Rightarrow> char" where
  "b64_char n = char_of (if n < 26 then n + 65 else if n < 52 then n + 71 else if n < 62 then n - 4 else if n = 62 then 45 else 95)"

text \<open>\<open>urlsafe_b64decode\<close> maps \<open>-\<close> and \<open>_\<close> to \<open>+\<close> and \<open>/\<close> first, so both alphabets are read.\<close>

definition b64_value :: "char \<Rightarrow> nat option" where
  "b64_value c =
     (let n = of_char c :: nat in
      if 65 \<le> n \<and> n \<le> 90 then Some (n - 65)
      else if 97 \<le> n \<and> n \<le> 122 then Some (n - 71)
      else if 48 \<le> n \<and> n \<le> 57 then Some (n + 4)
      else if n = 45 \<or> n = 43 then Some 62
      else if n = 95 \<or> n = 47 then Some 63 else None)"

section \<open>Encoding and decoding\<close>

fun b64encode :: "string \<Rightarrow> string" where
  "b64encode [] = []"
| "b64encode [a] =
     (let x = of_char a :: nat in [b64_char (x div 4), b64_char (x mod 4 * 16), CHR ''='', CHR ''=''])"
| "b64encode [a, b] =
     (let x = of_char a :: nat; y = of_char b in
      [b64_char (x div 4), b64_char (x mod 4 * 16 + y div 16), b64_char (y mod 16 * 4), CHR ''=''])"
| "b64encode (a # b # c # s) =
     (let x = of_char a :: nat; y = of_char b; z = of_char c in
      b64_char (x div 4) # b64_char (x mod 4 * 16 + y div 16) # b64_char (y mod 16 * 4 + z div 64) # b64_char (z mod 64) #
      b64encode s)"

definition byte :: "nat \<Rightarrow> char" where
  "byte n = char_of (n mod 256)"

text \<open>The loop of \<open>binascii.a2b_base64\<close>: position in the group of four, the bits left over, the padding characters seen.\<close>

fun a2b :: "nat \<Rightarrow> nat \<Rightarrow> nat \<Rightarrow> string \<Rightarrow> string option" where
  "a2b quad left pads [] = (if quad = 0 then Some [] else None)"
| "a2b quad left pads (c # s) =
     (if c = CHR ''='' then
        (if 2 \<le> quad then (if 4 \<le> quad + (pads + 1) then Some [] else a2b quad left (pads + 1) s)
         else a2b quad left pads s)
      else case b64_value c of
        None \<Rightarrow> a2b quad left pads s
      | Some v \<Rightarrow>
          if quad = 0 then a2b 1 v 0 s
          else if quad = 1 then map_option (\<lambda>r. byte (left * 4 + v div 16) # r) (a2b 2 (v mod 16) 0 s)
          else if quad = 2 then map_option (\<lambda>r. byte (left * 16 + v div 4) # r) (a2b 3 (v mod 4) 0 s)
          else map_option (\<lambda>r. byte (left * 64 + v) # r) (a2b 0 0 0 s))"

definition b64decode :: "string \<Rightarrow> string option" where
  "b64decode s = a2b 0 0 0 s"

text \<open>Without padding, and padded again before decoding: \<open>_b64encode\<close> and \<open>_b64decode\<close> of the service envelope.\<close>

definition rstrip_pad :: "string \<Rightarrow> string" where
  "rstrip_pad s = rev (dropWhile (\<lambda>c. c = CHR ''='') (rev s))"

definition repad :: "string \<Rightarrow> string" where
  "repad s = s @ replicate ((4 - length s mod 4) mod 4) (CHR ''='')"

section \<open>Round trip\<close>

lemma of_char_b64_char:
  "n < 64 \<Longrightarrow> (of_char (b64_char n) :: nat) =
     (if n < 26 then n + 65 else if n < 52 then n + 71 else if n < 62 then n - 4 else if n = 62 then 45 else 95)"
  by (auto simp: b64_char_def of_char_of)

lemma b64_char_pad: "n < 64 \<Longrightarrow> b64_char n \<noteq> CHR ''=''"
  by (drule of_char_b64_char) (auto dest!: arg_cong [of _ _ "of_char :: char \<Rightarrow> nat"] split: if_splits)

lemma b64_value_char: "n < 64 \<Longrightarrow> b64_value (b64_char n) = Some n"
  by (auto simp: b64_value_def of_char_b64_char Let_def)

lemma byte_of_char: "n = of_char c \<Longrightarrow> byte n = c"
  by (simp add: byte_def)

lemma a2b_digit:
  assumes "v < 64"
  shows "a2b 0 left pads (b64_char v # s) = a2b 1 v 0 s"
    "a2b 1 left pads (b64_char v # s) = map_option (\<lambda>r. byte (left * 4 + v div 16) # r) (a2b 2 (v mod 16) 0 s)"
    "a2b 2 left pads (b64_char v # s) = map_option (\<lambda>r. byte (left * 16 + v div 4) # r) (a2b 3 (v mod 4) 0 s)"
    "a2b 3 left pads (b64_char v # s) = map_option (\<lambda>r. byte (left * 64 + v) # r) (a2b 0 0 0 s)"
  using b64_value_char [OF assms] b64_char_pad [OF assms] by simp_all

lemma a2b_pad: "a2b 2 left 0 ''=='' = Some []" "a2b 3 left 0 ''='' = Some []"
  by simp_all

lemma digit_split: "r < k \<Longrightarrow> (q * k + r) div k = q \<and> (q * k + r) mod k = (r :: nat)"
  by simp

lemma b64_group:
  fixes a b c :: nat
  assumes "a < 256" "b < 256" "c < 256"
  shows "a div 4 < 64" "a mod 4 * 16 < 64" "a mod 4 * 16 + b div 16 < 64" "b mod 16 * 4 < 64" "b mod 16 * 4 + c div 64 < 64"
    "c mod 64 < 64"
proof -
  have m: "a mod 4 < 4" "b mod 16 < 16" "b div 16 < 16" "c div 64 < 4" using assms by auto
  show "a div 4 < 64" "c mod 64 < 64" using assms by auto
  show "a mod 4 * 16 < 64" "a mod 4 * 16 + b div 16 < 64" "b mod 16 * 4 < 64" "b mod 16 * 4 + c div 64 < 64"
    using m by linarith+
qed

lemma b64_bytes:
  fixes a b c :: nat
  assumes "a < 256" "b < 256" "c < 256"
  shows "a div 4 * 4 + (a mod 4 * 16 + b div 16) div 16 = a" "a div 4 * 4 + (a mod 4 * 16) div 16 = a"
    "(a mod 4 * 16 + b div 16) mod 16 * 16 + (b mod 16 * 4 + c div 64) div 4 = b"
    "(a mod 4 * 16 + b div 16) mod 16 * 16 + (b mod 16 * 4) div 4 = b"
    "(b mod 16 * 4 + c div 64) mod 4 * 64 + c mod 64 = c"
proof -
  have b: "b div 16 < 16" and c: "c div 64 < 4" using assms by auto
  note d = digit_split [OF b, of "a mod 4"] digit_split [OF c, of "b mod 16"]
  show "a div 4 * 4 + (a mod 4 * 16 + b div 16) div 16 = a" "a div 4 * 4 + (a mod 4 * 16) div 16 = a"
    "(a mod 4 * 16 + b div 16) mod 16 * 16 + (b mod 16 * 4 + c div 64) div 4 = b"
    "(a mod 4 * 16 + b div 16) mod 16 * 16 + (b mod 16 * 4) div 4 = b"
    "(b mod 16 * 4 + c div 64) mod 4 * 64 + c mod 64 = c"
    using d by (simp_all add: div_mult_mod_eq)
qed

lemmas b64_chars = nat_of_char_less_256

lemma byte_halves:
  "(of_char b :: nat) div 16 div 16 = 0" "(of_char b :: nat) div 16 mod 16 = of_char b div 16"
  "(of_char b :: nat) div 64 div 4 = 0" "(of_char b :: nat) div 64 mod 4 = of_char b div 64"
proof -
  have "(of_char b :: nat) div 16 < 16" "(of_char b :: nat) div 64 < 4"
    by (rule less_mult_imp_div_less, use b64_chars [of b] in simp)+
  then show "(of_char b :: nat) div 16 div 16 = 0" "(of_char b :: nat) div 16 mod 16 = of_char b div 16"
    "(of_char b :: nat) div 64 div 4 = 0" "(of_char b :: nat) div 64 mod 4 = of_char b div 64"
    by (simp_all only: div_less mod_less)
qed

text \<open>The decoder reads back what the encoder wrote, with the padding or with as much of it as \<open>repad\<close> restores.\<close>

lemma b64_roundtrip: "b64decode (b64encode s) = Some s"
proof (induction s rule: b64encode.induct)
  case (2 a)
  note g = b64_group [OF b64_chars [of a] b64_chars [of a] b64_chars [of a]]
    b64_bytes [OF b64_chars [of a] b64_chars [of a] b64_chars [of a]]
  show ?case
    by (simp add: b64decode_def Let_def a2b_digit g a2b_pad byte_of_char byte_halves del: a2b.simps One_nat_def)
next
  case (3 a b)
  note g = b64_group [OF b64_chars [of a] b64_chars [of b] b64_chars [of b]]
    b64_bytes [OF b64_chars [of a] b64_chars [of b] b64_chars [of b]]
  show ?case
    by (simp add: b64decode_def Let_def a2b_digit g a2b_pad byte_of_char byte_halves del: a2b.simps One_nat_def)
next
  case (4 a b c s)
  note g = b64_group [OF b64_chars [of a] b64_chars [of b] b64_chars [of c]]
    b64_bytes [OF b64_chars [of a] b64_chars [of b] b64_chars [of c]]
  from 4 show ?case
    by (simp add: b64decode_def Let_def a2b_digit g a2b_pad byte_of_char byte_halves del: a2b.simps One_nat_def)
qed (simp add: b64decode_def)

lemma length_b64encode: "length (b64encode s) mod 4 = 0"
  by (induction s rule: b64encode.induct) (simp_all add: Let_def)

lemma b64encode_nil [simp]: "b64encode s = [] \<longleftrightarrow> s = []"
  by (cases s rule: b64encode.cases) (simp_all add: Let_def)

lemma rstrip_pad_append: "s \<noteq> [] \<Longrightarrow> rstrip_pad s \<noteq> [] \<Longrightarrow> rstrip_pad (t @ s) = t @ rstrip_pad s"
  by (auto simp: rstrip_pad_def dropWhile_append)

lemma repad_append: "length t mod 4 = 0 \<Longrightarrow> repad (t @ s) = t @ repad s"
  by (simp add: repad_def mod_add_left_eq [symmetric, of "length t"])

lemma repad_rstrip: "repad (rstrip_pad (b64encode s)) = b64encode s"
proof (induction s rule: b64encode.induct)
  case (2 a)
  show ?case
    using b64_char_pad [OF b64_group(2) [OF b64_chars b64_chars b64_chars]] by (simp add: Let_def repad_def rstrip_pad_def numeral_2_eq_2)
next
  case (3 a b)
  show ?case
    using b64_char_pad [OF b64_group(4) [OF b64_chars b64_chars b64_chars]] by (simp add: Let_def repad_def rstrip_pad_def)
next
  case (4 a b c s)
  let ?g = "take 4 (b64encode [a, b, c])"
  have g: "b64encode (a # b # c # s) = ?g @ b64encode s" "length ?g = 4" by (simp_all add: Let_def)
  show ?case
  proof (cases "s = []")
    case True
    then show ?thesis using b64_char_pad [OF b64_group(6) [OF b64_chars b64_chars b64_chars]] by (simp add: Let_def repad_def rstrip_pad_def)
  next
    case False
    have "rstrip_pad (b64encode s) \<noteq> []"
    proof
      assume "rstrip_pad (b64encode s) = []"
      then have "b64encode s = []" using 4 [OF refl refl refl] unfolding repad_def by simp
      then show False using False by simp
    qed
    then have "rstrip_pad (b64encode (a # b # c # s)) = ?g @ rstrip_pad (b64encode s)"
      using False by (simp only: g(1)) (rule rstrip_pad_append, simp_all)
    then show ?thesis using 4 [OF refl refl refl] g by (simp add: repad_append)
  qed
qed (simp add: repad_def rstrip_pad_def)

lemma b64_unpadded_roundtrip: "b64decode (repad (rstrip_pad (b64encode s))) = Some s"
  by (simp only: repad_rstrip b64_roundtrip)

lemma b64encode_inject: "b64encode s = b64encode t \<longleftrightarrow> s = t"
  using b64_roundtrip by (metis option.inject)

end
