(* ===== verification/Cursors.thy ===== *)
theory Cursors
  imports Base64 Json_Parse Ledger
begin

text \<open>
  Signed pagination cursors, \<open>services/core/src/memdot_core/pagination.py\<close>. The process environment is a function from
  names to values, UTF-8 decoding of bytes that are not ASCII is the parameter \<open>utf8\<close>; the HMAC and SHA-256 are those of
  \<open>env\<close>. \<open>ValueError\<close> with its subclasses and \<open>KeyError\<close> make \<open>decode_cursor\<close> answer none, other exceptions escape.
\<close>

type_synonym environ = "string \<Rightarrow> string option"

definition environ_or :: "environ \<Rightarrow> string \<Rightarrow> string \<Rightarrow> string" where
  "environ_or os a b =
     (case os a of Some v \<Rightarrow> if v \<noteq> [] then v else (case os b of None \<Rightarrow> [] | Some w \<Rightarrow> w)
      | None \<Rightarrow> (case os b of None \<Rightarrow> [] | Some w \<Rightarrow> w))"

section \<open>Cursors\<close>

record CursorPayload =
  cp_account_id :: uuid
  cp_query_hash :: string
  cp_sort_value :: json
  cp_item_id :: uuid
  cp_issued_at :: int
  cp_expires_at :: int

definition cursor_key :: "environ \<Rightarrow> string res" where
  "cursor_key os =
     (let value = environ_or os ''CORE_CURSOR_SIGNING_KEY'' ''CORE_TENANT_CONTEXT_SIGNING_KEY''
      in if length value < 32
         then Inl (RuntimeError ''CORE_CURSOR_SIGNING_KEY or CORE_TENANT_CONTEXT_SIGNING_KEY required'') else Inr value)"

definition cursor_query_hash :: "env \<Rightarrow> dict \<Rightarrow> string" where
  "cursor_query_hash E query = sha256 E (json_dumps (JObj query))"

definition cursor_body :: "CursorPayload \<Rightarrow> dict" where
  "cursor_body p =
     [(''a'', JStr (str_uuid (cp_account_id p))), (''q'', JStr (cp_query_hash p)), (''s'', cp_sort_value p),
      (''i'', JStr (str_uuid (cp_item_id p))), (''iat'', JInt (cp_issued_at p)), (''exp'', JInt (cp_expires_at p))]"

definition encode_cursor :: "env \<Rightarrow> environ \<Rightarrow> CursorPayload \<Rightarrow> string res" where
  "encode_cursor E os payload =
     (let raw = json_dumps (JObj (cursor_body payload))
      in bindr (cursor_key os) (\<lambda>key. Inr (b64encode (raw @ CHR ''.'' # hmac_sha256 E key raw))))"

definition rsplit_dot :: "string \<Rightarrow> (string \<times> string) option" where
  "rsplit_dot s =
     (if CHR ''.'' \<in> set s
      then let sig = rev (takeWhile (\<lambda>c. c \<noteq> CHR ''.'') (rev s)) in Some (take (length s - length sig - 1) s, sig)
      else None)"

text \<open>\<open>body[key]\<close>, and a value used in an integer comparison.\<close>

definition json_item :: "json \<Rightarrow> string \<Rightarrow> json res" where
  "json_item j key =
     (case j of
        JObj d \<Rightarrow> (case map_of d key of None \<Rightarrow> Inl (KeyError key) | Some v \<Rightarrow> Inr v)
      | _ \<Rightarrow> Inl TypeError)"

definition json_int :: "json \<Rightarrow> int res" where
  "json_int j = (case j of JInt n \<Rightarrow> Inr n | JBool b \<Rightarrow> Inr (of_bool b) | _ \<Rightarrow> Inl TypeError)"

definition json_uuid :: "json \<Rightarrow> uuid res" where
  "json_uuid j = (case j of JStr s \<Rightarrow> parse_uuid s | JNull \<Rightarrow> Inl TypeError | _ \<Rightarrow> Inl AttributeError)"

definition cursor_claims :: "env \<Rightarrow> uuid \<Rightarrow> dict \<Rightarrow> int \<Rightarrow> json \<Rightarrow> CursorPayload option res" where
  "cursor_claims E account_id query max_age body =
     bindr (json_item body ''a'') (\<lambda>a.
     if a \<noteq> JStr (str_uuid account_id) then Inr None
     else bindr (json_item body ''q'') (\<lambda>q.
     if q \<noteq> JStr (cursor_query_hash E query) then Inr None
     else bindr (json_item body ''exp'') (\<lambda>je. bindr (json_int je) (\<lambda>e.
     if e < clock E then Inr None
     else bindr (json_item body ''iat'') (\<lambda>ji. bindr (json_int ji) (\<lambda>i.
     if clock E + 60 < i then Inr None
     else if max_age < clock E - i then Inr None
     else bindr (json_item body ''s'') (\<lambda>v. bindr (json_item body ''i'') (\<lambda>jid. bindr (json_uuid jid) (\<lambda>item_id.
     Inr (Some \<lparr> cp_account_id = account_id, cp_query_hash = cursor_query_hash E query, cp_sort_value = v,
       cp_item_id = item_id, cp_issued_at = i, cp_expires_at = e \<rparr>))))))))))"

definition none_on_value_error :: "'a option res \<Rightarrow> 'a option res" where
  "none_on_value_error r =
     (case r of Inl (ValueError _) \<Rightarrow> Inr None | Inl (KeyError _) \<Rightarrow> Inr None | Inl JSONDecodeError \<Rightarrow> Inr None | _ \<Rightarrow> r)"

definition decode_cursor ::
    "env \<Rightarrow> environ \<Rightarrow> (string \<Rightarrow> string option) \<Rightarrow> string \<Rightarrow> uuid \<Rightarrow> dict \<Rightarrow> int \<Rightarrow> CursorPayload option res" where
  "decode_cursor E os utf8 token account_id query max_age =
     none_on_value_error
       (case b64decode (repad token) of
          None \<Rightarrow> Inl (ValueError ''Incorrect padding'')
        | Some decoded \<Rightarrow>
            case rsplit_dot decoded of
              None \<Rightarrow> Inl (ValueError ''not enough values to unpack'')
            | Some (raw, sig) \<Rightarrow>
                bindr (cursor_key os) (\<lambda>key.
                if hmac_sha256 E key raw \<noteq> sig then Inr None
                else case utf8 raw of
                    None \<Rightarrow> Inl (ValueError ''invalid start byte'')
                  | Some txt \<Rightarrow>
                      case json_loads txt of
                        None \<Rightarrow> Inl JSONDecodeError
                      | Some body \<Rightarrow> cursor_claims E account_id query max_age body))"

section \<open>Lemmas\<close>

lemma rsplit_dot_append: "CHR ''.'' \<notin> set sig \<Longrightarrow> rsplit_dot (raw @ CHR ''.'' # sig) = Some (raw, sig)"
proof -
  assume "CHR ''.'' \<notin> set sig"
  then have "takeWhile (\<lambda>c. c \<noteq> CHR ''.'') (rev sig @ CHR ''.'' # rev raw) = rev sig"
    by (subst takeWhile_append2) auto
  then show ?thesis by (simp add: rsplit_dot_def)
qed

lemma repad_encoded: "repad (b64encode s) = b64encode s"
  by (simp add: repad_def length_b64encode)

text \<open>What the parameters are documented to do: a hex digest has no dot, and ASCII text is its own UTF-8.\<close>

definition ascii :: "string \<Rightarrow> bool" where
  "ascii s \<longleftrightarrow> (\<forall>c \<in> set s. (of_char c :: nat) < 128)"

definition cursor_laws :: "env \<Rightarrow> (string \<Rightarrow> string option) \<Rightarrow> bool" where
  "cursor_laws E utf8 \<longleftrightarrow> (\<forall>k m. CHR ''.'' \<notin> set (hmac_sha256 E k m)) \<and> (\<forall>s. ascii s \<longrightarrow> utf8 s = Some s)"

lemma ascii_simps [simp]:
  "ascii []" "ascii (c # s) \<longleftrightarrow> (of_char c :: nat) < 128 \<and> ascii s" "ascii (s @ t) \<longleftrightarrow> ascii s \<and> ascii t"
  by (auto simp: ascii_def)

lemma ascii_concat: "\<forall>s \<in> set ss. ascii s \<Longrightarrow> ascii (concat ss)"
  by (auto simp: ascii_def)

lemma ascii_join: "(of_char d :: nat) < 128 \<Longrightarrow> \<forall>s \<in> set ss. ascii s \<Longrightarrow> ascii (py_join d ss)"
  by (induction d ss rule: py_join.induct) auto

lemma ascii_dec_nat: "ascii (dec_nat n)"
  using dec_nat_digits [of n] by (auto simp: ascii_def is_digit_def)

lemma ascii_json_str: "ascii (json_str s)"
proof -
  have "(of_char (hexdigit (n div 16)) :: nat) < 128" "(of_char (hexdigit (n mod 16)) :: nat) < 128" if "n < 256" for n
    using that by (auto simp: hexdigit_def of_char_of)
  then have "ascii (json_escape_char c)" for c
    using nat_of_char_less_256 [of c] by (auto simp: json_escape_char_def Let_def)
  then show ?thesis unfolding json_str_def by (simp add: ascii_concat)
qed

lemma ascii_json_dumps: "ascii (json_dumps j)"
proof (induction j)
  case (JObj kvs)
  have "ascii (json_dumps v)" if "(k, v) \<in> set kvs" for k v
    using that JObj by (auto simp: snds.simps)
  then show ?case by (auto simp: ascii_json_str intro!: ascii_join)
qed (auto simp: dec_int_def ascii_dec_nat ascii_json_str intro!: ascii_join)

lemma cursor_body_read:
  "cp_sort_value p = JStr v \<Longrightarrow> json_loads (json_dumps (JObj (cursor_body p))) = Some (JObj (sort_key fst (cursor_body p)))"
  using json_round_trip_aux [of "JObj (cursor_body p)"] by (simp add: cursor_body_def)

lemma cursor_items:
  "json_item (JObj (sort_key fst (cursor_body p))) k =
     (case map_of (cursor_body p) k of None \<Rightarrow> Inl (KeyError k) | Some v \<Rightarrow> Inr v)"
  by (simp add: json_item_def cursor_body_def)

text \<open>
  (C8) A cursor is good for its account and its query only: decoding what \<open>encode_cursor\<close> signed gives the payload back exactly
  when it is presented for the account and the query it was made for, not after it expires, not before it was issued (with a minute
  of tolerance) and not older than the caller allows; in every other case the answer is none, never an exception.
\<close>

theorem cursor_round_trip:
  assumes "encode_cursor E os p = Inr token" and "cursor_laws E utf8" and "cp_sort_value p = JStr v"
  shows "decode_cursor (E\<lparr> clock := t \<rparr>) os utf8 token a query max_age =
    Inr (if a = cp_account_id p \<and> cp_query_hash p = cursor_query_hash E query \<and> t \<le> cp_expires_at p \<and>
            cp_issued_at p \<le> t + 60 \<and> t - cp_issued_at p \<le> max_age then Some p else None)"
proof -
  let ?raw = "json_dumps (JObj (cursor_body p))"
  obtain key where key: "cursor_key os = Inr key" and token: "token = b64encode (?raw @ CHR ''.'' # hmac_sha256 E key ?raw)"
    using assms(1) by (auto simp: encode_cursor_def bindr_Inr_iff)
  have "rsplit_dot (?raw @ CHR ''.'' # hmac_sha256 E key ?raw) = Some (?raw, hmac_sha256 E key ?raw)"
    using assms(2) by (intro rsplit_dot_append) (simp add: cursor_laws_def)
  moreover have "utf8 ?raw = Some ?raw" using assms(2) ascii_json_dumps unfolding cursor_laws_def by blast
  ultimately have "decode_cursor (E\<lparr> clock := t \<rparr>) os utf8 token a query max_age =
      none_on_value_error (cursor_claims (E\<lparr> clock := t \<rparr>) a query max_age (JObj (sort_key fst (cursor_body p))))"
    using key cursor_body_read [OF assms(3)] unfolding decode_cursor_def token repad_encoded b64_roundtrip
    by (simp del: json_dumps.simps)
  also have "\<dots> = Inr (if a = cp_account_id p \<and> cp_query_hash p = cursor_query_hash E query \<and> t \<le> cp_expires_at p \<and>
            cp_issued_at p \<le> t + 60 \<and> t - cp_issued_at p \<le> max_age then Some p else None)"
    unfolding cursor_claims_def cursor_items
    by (auto simp: cursor_body_def json_int_def json_uuid_def cursor_query_hash_def none_on_value_error_def parse_str_uuid)
  finally show ?thesis .
qed

definition demo_environ :: environ where
  "demo_environ name = (if name = ''CORE_CURSOR_SIGNING_KEY'' then Some (replicate 32 (CHR ''c'')) else None)"

definition demo_hex_env :: env where
  "demo_hex_env = \<lparr> now = 0, clock = 100, fresh = of_nat, nonce_hex = [], sha256 = (\<lambda>s. ''0a''), hmac_sha256 = (\<lambda>k m. ''0b''),
     signing_key = [], context_secret = [], snapshot_key = [], role_is_core = True \<rparr>"

definition demo_cursor :: CursorPayload where
  "demo_cursor = \<lparr> cp_account_id = 1, cp_query_hash = ''0a'', cp_sort_value = JStr ''title'', cp_item_id = 2, cp_issued_at = 100,
     cp_expires_at = 3700 \<rparr>"

lemma demo_cursor_laws: "cursor_laws demo_hex_env Some"
  by (simp add: cursor_laws_def demo_hex_env_def)

theorem cursor_round_trip_witness:
  "\<exists>token. encode_cursor demo_hex_env demo_environ demo_cursor = Inr token \<and>
     decode_cursor (demo_hex_env\<lparr> clock := 200 \<rparr>) demo_environ Some token 1 [] 3600 = Inr (Some demo_cursor) \<and>
     decode_cursor (demo_hex_env\<lparr> clock := 200 \<rparr>) demo_environ Some token 9 [] 3600 = Inr None"
proof -
  obtain token where token: "encode_cursor demo_hex_env demo_environ demo_cursor = Inr token"
    by (simp add: encode_cursor_def cursor_key_def environ_or_def demo_environ_def Let_def)
  have "cp_sort_value demo_cursor = JStr ''title''" by (simp add: demo_cursor_def)
  note dec = cursor_round_trip [OF token demo_cursor_laws this]
  show ?thesis
    using token dec [of 200 1 "[]" 3600] dec [of 200 9 "[]" 3600]
    by (simp add: demo_cursor_def demo_hex_env_def cursor_query_hash_def)
qed

end
