(* ===== verification/Service_Auth.thy ===== *)
theory Service_Auth
  imports Cursors Tenant
begin

text \<open>
  The signed envelope of calls from the MCP edge to Core, \<open>services/core/src/memdot_core/auth/service_auth.py\<close>, with the
  database function \<open>memdot_consume_service_auth_nonce\<close> of migration 0007 and its table. A request is the function from
  header names to values that \<open>request.headers.get\<close> is; a set of scopes is a list.
\<close>

section \<open>The nonce table\<close>

record access_db = core_db +
  t_service_nonce :: "(string \<times> datetime) list"

definition memdot_consume_service_auth_nonce ::
    "env \<Rightarrow> string \<Rightarrow> datetime \<Rightarrow> 'a access_db_scheme \<Rightarrow> bool \<times> 'a access_db_scheme" where
  "memdot_consume_service_auth_nonce E digest expires_at d =
     (let live = filter (\<lambda>r. \<not> snd r < now E) (t_service_nonce d)
      in if digest \<in> fst ` set live then (False, d\<lparr> t_service_nonce := live \<rparr>)
         else (True, d\<lparr> t_service_nonce := live @ [(digest, expires_at)] \<rparr>))"

section \<open>The envelope\<close>

definition SERVICE_AUTH_VERSION :: int where
  "SERVICE_AUTH_VERSION = 1"

definition MAX_SKEW_SECONDS :: int where
  "MAX_SKEW_SECONDS = 300"

definition MIN_SECRET_BYTES :: nat where
  "MIN_SECRET_BYTES = 32"

record ServiceAuthGrant =
  sag_account_id :: uuid
  sag_actor_id :: uuid
  sag_purpose :: RequestPurpose
  sag_scopes :: "string list"
  sag_client_id :: string
  sag_subject :: string
  sag_exp :: int

type_synonym headers = "string \<Rightarrow> string option"

definition resolve_mcp_service_secret :: "environ \<Rightarrow> string" where
  "resolve_mcp_service_secret os = py_strip (environ_or os ''CORE_MCP_SERVICE_SECRET'' ''MCP_CORE_SERVICE_SECRET'')"

definition require_secret :: "string \<Rightarrow> string res" where
  "require_secret secret =
     (if length secret < MIN_SECRET_BYTES then Inl (ValueError ''MCP service secret must contain at least 32 bytes'') else Inr secret)"

definition service_b64encode :: "string \<Rightarrow> string" where
  "service_b64encode raw = rstrip_pad (b64encode raw)"

definition service_b64decode :: "string \<Rightarrow> string option" where
  "service_b64decode v = b64decode (repad v)"

definition service_sign :: "env \<Rightarrow> string \<Rightarrow> string \<Rightarrow> string \<Rightarrow> string \<Rightarrow> string" where
  "service_sign E secret ts nonce body_b64 = hmac_sha256 E secret (ts @ CHR ''.'' # nonce @ CHR ''.'' # body_b64)"

definition service_payload :: "env \<Rightarrow> ServiceAuthGrant \<Rightarrow> string option \<Rightarrow> dict" where
  "service_payload E g authorization =
     [(''v'', JInt SERVICE_AUTH_VERSION), (''account_id'', JStr (str_uuid (sag_account_id g))),
      (''actor_id'', JStr (str_uuid (sag_actor_id g))), (''purpose'', JStr (purpose_value (sag_purpose g))),
      (''scopes'', JList (map JStr (sort (sag_scopes g)))), (''client_id'', JStr (sag_client_id g)),
      (''sub'', JStr (sag_subject g)), (''exp'', JInt (sag_exp g))] @
     (if truthy_str authorization then [(''authorization_sha256'', JStr (sha256 E (the authorization)))] else [])"

text \<open>The expiry defaults to five minutes after \<open>ts\<close>; \<open>now\<close> defaults to the clock.\<close>

definition build_service_auth_headers ::
    "env \<Rightarrow> string \<Rightarrow> ServiceAuthGrant \<Rightarrow> int option \<Rightarrow> string option \<Rightarrow> int option \<Rightarrow> (string \<times> string) list res" where
  "build_service_auth_headers E secret g expires authorization issued_at =
     bindr (require_secret secret) (\<lambda>resolved.
       let t = (case issued_at of None \<Rightarrow> clock E | Some n \<Rightarrow> n); ts = dec_int t;
           payload = service_payload E (g\<lparr> sag_exp := (case expires of None \<Rightarrow> t + 300 | Some e \<Rightarrow> e) \<rparr>) authorization;
           body_b64 = service_b64encode (json_dumps (JObj payload))
       in Inr [(''X-Memdot-Service-Auth'', ''v'' @ dec_int SERVICE_AUTH_VERSION), (''X-Memdot-Service-Ts'', ts),
         (''X-Memdot-Service-Nonce'', nonce_hex E), (''X-Memdot-Service-Body'', body_b64),
         (''X-Memdot-Service-Sig'', service_sign E resolved ts (nonce_hex E) body_b64)])"

section \<open>Reading the envelope\<close>

definition strip_header :: "headers \<Rightarrow> string \<Rightarrow> string" where
  "strip_header hdr name = py_strip (case hdr name of None \<Rightarrow> [] | Some v \<Rightarrow> v)"

text \<open>\<open>hmac.compare_digest\<close> refuses texts that are not ASCII.\<close>

definition compare_digest :: "string \<Rightarrow> string \<Rightarrow> bool res" where
  "compare_digest a b = (if ascii a \<and> ascii b then Inr (a = b) else Inl TypeError)"

definition signed_body :: "env \<Rightarrow> string \<Rightarrow> headers \<Rightarrow> string option res" where
  "signed_body E secret hdr =
     (let version = strip_header hdr ''X-Memdot-Service-Auth''; ts_raw = strip_header hdr ''X-Memdot-Service-Ts'';
          nonce = strip_header hdr ''X-Memdot-Service-Nonce''; body_b64 = strip_header hdr ''X-Memdot-Service-Body'';
          signature = strip_header hdr ''X-Memdot-Service-Sig''
      in if version = [] \<or> ts_raw = [] \<or> nonce = [] \<or> body_b64 = [] \<or> signature = [] then Inr None
         else if version \<notin> set [''v'' @ dec_int SERVICE_AUTH_VERSION, dec_int SERVICE_AUTH_VERSION] then Inr None
         else case py_int ts_raw of
             None \<Rightarrow> Inr None
           | Some ts \<Rightarrow>
               if MAX_SKEW_SECONDS < \<bar>clock E - ts\<bar> then Inr None
               else bindr (compare_digest (service_sign E secret ts_raw nonce body_b64) signature) (\<lambda>ok.
                 Inr (if ok then Some body_b64 else None)))"

definition decode_payload :: "(string \<Rightarrow> string option) \<Rightarrow> string \<Rightarrow> dict option" where
  "decode_payload utf8 body_b64 =
     (case Option.bind (Option.bind (service_b64decode body_b64) utf8) json_loads of Some (JObj d) \<Rightarrow> Some d | _ \<Rightarrow> None)"

definition authorization_matches :: "env \<Rightarrow> headers \<Rightarrow> dict \<Rightarrow> bool res" where
  "authorization_matches E hdr payload =
     (case jget payload ''authorization_sha256'' of
        JStr expected_hash \<Rightarrow>
          if expected_hash = [] then Inr True
          else if \<not> truthy_str (hdr ''Authorization'') then Inr False
          else compare_digest (sha256 E (the (hdr ''Authorization''))) expected_hash
      | _ \<Rightarrow> Inr True)"

definition parse_purpose :: "string \<Rightarrow> RequestPurpose option" where
  "parse_purpose v = List.find (\<lambda>p. purpose_value p = v) PURPOSES"

definition EXTERNAL_PURPOSES :: "RequestPurpose list" where
  "EXTERNAL_PURPOSES = [EXTERNAL_READ, EXTERNAL_PROPOSE, EXTERNAL_INTERACTION]"

text \<open>\<open>int(value)\<close> of a JSON value.\<close>

definition json_as_int :: "json \<Rightarrow> int option" where
  "json_as_int j = (case j of JInt n \<Rightarrow> Some n | JBool b \<Rightarrow> Some (of_bool b) | JStr s \<Rightarrow> py_int s | _ \<Rightarrow> None)"

definition read_uuid :: "json \<Rightarrow> uuid option" where
  "read_uuid j = (case parse_uuid (py_str j) of Inr u \<Rightarrow> Some u | Inl _ \<Rightarrow> None)"

definition payload_grant :: "env \<Rightarrow> dict \<Rightarrow> ServiceAuthGrant option" where
  "payload_grant E payload =
     Option.bind (map_of payload ''account_id'') (\<lambda>ja. Option.bind (read_uuid ja) (\<lambda>account_id.
     Option.bind (map_of payload ''actor_id'') (\<lambda>jb. Option.bind (read_uuid jb) (\<lambda>actor_id.
     Option.bind (map_of payload ''purpose'') (\<lambda>jp. Option.bind (parse_purpose (py_str jp)) (\<lambda>purpose.
     Option.bind (map_of payload ''exp'') (\<lambda>je. Option.bind (json_as_int je) (\<lambda>e.
       let client_id = py_str (jor (jget payload ''client_id'') (JStr [])) in
       if purpose \<notin> set EXTERNAL_PURPOSES then None
       else if e < clock E then None
       else case jget_or payload ''scopes'' (JList []) of
           JList items \<Rightarrow>
             if client_id = [] then None
             else Some \<lparr> sag_account_id = account_id, sag_actor_id = actor_id, sag_purpose = purpose,
               sag_scopes = map py_str items, sag_client_id = client_id,
               sag_subject = py_str (jor (jget payload ''sub'') (JStr [])), sag_exp = e \<rparr>
         | _ \<Rightarrow> None))))))))"

definition consume_service_auth_nonce :: "env \<Rightarrow> string \<Rightarrow> int \<Rightarrow> ('a access_db_scheme, bool) op" where
  "consume_service_auth_nonce E nonce received s =
     (let (consumed, d) = memdot_consume_service_auth_nonce E (sha256 E nonce) ((received + MAX_SKEW_SECONDS) * 1000000) (tables s)
      in Inr (consumed, d, snd s))"

definition parse_service_auth ::
    "env \<Rightarrow> environ \<Rightarrow> (string \<Rightarrow> string option) \<Rightarrow> headers \<Rightarrow> string option \<Rightarrow> ('a access_db_scheme, ServiceAuthGrant option) op" where
  "parse_service_auth E os utf8 hdr secret s =
     (case require_secret (py_strip (case secret of None \<Rightarrow> resolve_mcp_service_secret os | Some v \<Rightarrow> v)) of
        Inl _ \<Rightarrow> Inr (None, s)
      | Inr resolved \<Rightarrow>
          bindr (signed_body E resolved hdr) (\<lambda>body.
          case Option.bind body (decode_payload utf8) of
            None \<Rightarrow> Inr (None, s)
          | Some payload \<Rightarrow>
              bindr (authorization_matches E hdr payload) (\<lambda>ok.
              if \<not> ok then Inr (None, s)
              else case payload_grant E payload of
                  None \<Rightarrow> Inr (None, s)
                | Some grant \<Rightarrow>
                    bindr (consume_service_auth_nonce E (strip_header hdr ''X-Memdot-Service-Nonce'') (clock E) s)
                      (\<lambda>(consumed, s'). Inr (if consumed then Some grant else None, s')))))"

section \<open>What an accepted envelope shows\<close>

definition service_ts :: "headers \<Rightarrow> int option" where
  "service_ts hdr = py_int (strip_header hdr ''X-Memdot-Service-Ts'')"

definition envelope_signed :: "env \<Rightarrow> string \<Rightarrow> headers \<Rightarrow> bool" where
  "envelope_signed E secret hdr \<longleftrightarrow>
     strip_header hdr ''X-Memdot-Service-Sig'' = service_sign E secret (strip_header hdr ''X-Memdot-Service-Ts'')
       (strip_header hdr ''X-Memdot-Service-Nonce'') (strip_header hdr ''X-Memdot-Service-Body'')"

lemma signed_body_Some:
  assumes "signed_body E secret hdr = Inr (Some body)"
  obtains ts where "service_ts hdr = Some ts" "\<bar>clock E - ts\<bar> \<le> 300" "envelope_signed E secret hdr"
    "signed_body (E\<lparr> now := t, clock := c \<rparr>) secret hdr = Inr (if \<bar>c - ts\<bar> \<le> 300 then Some body else None)"
  using assms
  by (auto simp: signed_body_def Let_def service_ts_def envelope_signed_def compare_digest_def service_sign_def MAX_SKEW_SECONDS_def
      bindr_Inr_iff split: if_splits option.splits)

lemma payload_grant_Some:
  assumes "payload_grant E payload = Some g"
  shows "sag_purpose g \<in> set EXTERNAL_PURPOSES" "clock E \<le> sag_exp g" "sag_client_id g \<noteq> []"
    "payload_grant (E\<lparr> now := t, clock := c \<rparr>) payload = (if c \<le> sag_exp g then Some g else None)"
  using assms by (auto simp: payload_grant_def Let_def bind_eq_Some_conv split: if_splits json.splits)

lemma authorization_matches_time [simp]:
  "authorization_matches (E\<lparr> now := t, clock := c \<rparr>) hdr payload = authorization_matches E hdr payload"
  by (simp add: authorization_matches_def split: json.split)

lemma parse_service_auth_Some:
  assumes "parse_service_auth E os utf8 hdr secret (d, ps) = Inr (Some g, d', ps')"
  obtains resolved body payload where
    "require_secret (py_strip (case secret of None \<Rightarrow> resolve_mcp_service_secret os | Some v \<Rightarrow> v)) = Inr resolved"
    "signed_body E resolved hdr = Inr (Some body)" "decode_payload utf8 body = Some payload"
    "authorization_matches E hdr payload = Inr True" "payload_grant E payload = Some g"
    "memdot_consume_service_auth_nonce E (sha256 E (strip_header hdr ''X-Memdot-Service-Nonce''))
       ((clock E + 300) * 1000000) d = (True, d')" "ps' = ps"
proof -
  obtain resolved where r: "require_secret (py_strip (case secret of None \<Rightarrow> resolve_mcp_service_secret os | Some v \<Rightarrow> v)) = Inr resolved"
    using assms by (auto simp: parse_service_auth_def split: sum.splits)
  obtain body where b: "signed_body E resolved hdr = Inr body"
    using assms unfolding parse_service_auth_def r sum.case bindr_Inr_iff by blast
  obtain b0 payload where p: "body = Some b0" "decode_payload utf8 b0 = Some payload"
    using assms unfolding parse_service_auth_def r sum.case b bindr_simps by (cases body; cases "decode_payload utf8 (the body)") auto
  have a: "authorization_matches E hdr payload = Inr True" and g: "payload_grant E payload = Some g"
    and c: "memdot_consume_service_auth_nonce E (sha256 E (strip_header hdr ''X-Memdot-Service-Nonce''))
       ((clock E + 300) * 1000000) d = (True, d')" "ps' = ps"
    using assms unfolding parse_service_auth_def r sum.case b bindr_simps p bind.simps option.case
    by (auto simp: bindr_Inr_iff consume_service_auth_nonce_def MAX_SKEW_SECONDS_def split: if_splits option.splits prod.splits)
  show thesis by (rule that [OF r b [unfolded p(1)] p(2) a g c])
qed

lemma consume_nonce:
  "memdot_consume_service_auth_nonce E digest x d = (True, d') \<Longrightarrow> (digest, x) \<in> set (t_service_nonce d') \<and>
     (\<forall>r \<in> set (t_service_nonce d'). fst r = digest \<longrightarrow> r = (digest, x))"
  by (auto simp: memdot_consume_service_auth_nonce_def Let_def split: if_splits)

section \<open>Properties\<close>

text \<open>
  (C4) An envelope is accepted only if the caller knew the HMAC of exactly its time, nonce and body under the configured secret, the
  stripped argument or else the one resolved from the environment, of at least 32 bytes; its time is within five minutes of the clock; it has not expired; it is for one of the external purposes
  and names a client; and its nonce was not recorded, and is recorded now, until five minutes after the call.
\<close>

theorem service_auth_accepted:
  assumes "parse_service_auth E os utf8 hdr secret (d, ps) = Inr (Some g, d', ps')"
  shows "\<exists>key ts. key = py_strip (case secret of None \<Rightarrow> resolve_mcp_service_secret os | Some v \<Rightarrow> v) \<and> 32 \<le> length key \<and>
    envelope_signed E key hdr \<and> service_ts hdr = Some ts \<and> \<bar>clock E - ts\<bar> \<le> 300 \<and> clock E \<le> sag_exp g \<and> sag_purpose g \<in> set EXTERNAL_PURPOSES \<and>
    sag_client_id g \<noteq> [] \<and>
    (\<forall>x. (sha256 E (strip_header hdr ''X-Memdot-Service-Nonce''), x) \<in> set (t_service_nonce d) \<longrightarrow> x < now E) \<and>
    (sha256 E (strip_header hdr ''X-Memdot-Service-Nonce''), (clock E + 300) * 1000000) \<in> set (t_service_nonce d')"
  using assms
proof (rule parse_service_auth_Some)
  fix resolved body payload
  assume r: "require_secret (py_strip (case secret of None \<Rightarrow> resolve_mcp_service_secret os | Some v \<Rightarrow> v)) = Inr resolved"
    and b: "signed_body E resolved hdr = Inr (Some body)" and g: "payload_grant E payload = Some g"
    and c: "memdot_consume_service_auth_nonce E (sha256 E (strip_header hdr ''X-Memdot-Service-Nonce''))
       ((clock E + 300) * 1000000) d = (True, d')"
  have "resolved = py_strip (case secret of None \<Rightarrow> resolve_mcp_service_secret os | Some v \<Rightarrow> v) \<and> 32 \<le> length resolved"
    using r by (auto simp: require_secret_def MIN_SECRET_BYTES_def split: if_splits)
  moreover obtain ts where "service_ts hdr = Some ts" "\<bar>clock E - ts\<bar> \<le> 300" "envelope_signed E resolved hdr"
    using b by (rule signed_body_Some)
  moreover have "\<forall>x. (sha256 E (strip_header hdr ''X-Memdot-Service-Nonce''), x) \<in> set (t_service_nonce d) \<longrightarrow> x < now E"
    using c by (force simp: memdot_consume_service_auth_nonce_def Let_def split: if_splits)
  ultimately show ?thesis using payload_grant_Some [OF g] consume_nonce [OF c] by blast
qed

text \<open>
  (C6) Replaying an accepted envelope: presented again at clock \<open>c\<close> and database time \<open>t\<close> it is refused as long as its nonce is
  recorded, which is until five minutes after the first call. It is accepted a second time, with the same grant, exactly
  when the nonce has been purged while the envelope's own time is still within five minutes of the clock and it has not expired. While
  the database time is not past the clock, this happens only to an envelope that was stamped ahead of the clock of the first call.
\<close>

theorem service_auth_replay:
  assumes "parse_service_auth E os utf8 hdr secret (d, []) = Inr (Some g, d', [])" and "service_ts hdr = Some ts"
  shows "\<exists>again d''. parse_service_auth (E\<lparr> now := t, clock := c \<rparr>) os utf8 hdr secret (d', []) = Inr (again, d'', []) \<and>
    again = (if (clock E + 300) * 1000000 < t \<and> \<bar>c - ts\<bar> \<le> 300 \<and> c \<le> sag_exp g then Some g else None) \<and>
    (again \<noteq> None \<and> t \<le> c * 1000000 \<longrightarrow> clock E < ts)"
  using assms(1)
proof (rule parse_service_auth_Some)
  fix resolved body payload
  let ?E = "E\<lparr> now := t, clock := c \<rparr>" and ?n = "sha256 E (strip_header hdr ''X-Memdot-Service-Nonce'')"
  assume r: "require_secret (py_strip (case secret of None \<Rightarrow> resolve_mcp_service_secret os | Some v \<Rightarrow> v)) = Inr resolved"
    and b: "signed_body E resolved hdr = Inr (Some body)" and p: "decode_payload utf8 body = Some payload"
    and a: "authorization_matches E hdr payload = Inr True" and g: "payload_grant E payload = Some g"
    and c: "memdot_consume_service_auth_nonce E ?n ((clock E + 300) * 1000000) d = (True, d')"
  have b': "signed_body ?E resolved hdr = Inr (if \<bar>c - ts\<bar> \<le> 300 then Some body else None)"
    using b by (rule signed_body_Some [where t = t and c = c]) (use assms(2) in simp)
  have "?n \<in> fst ` set (filter (\<lambda>r. \<not> snd r < t) (t_service_nonce d')) \<longleftrightarrow> \<not> (clock E + 300) * 1000000 < t"
    using consume_nonce [OF c] by force
  then obtain d'' where "memdot_consume_service_auth_nonce ?E ?n ((c + 300) * 1000000) d' = ((clock E + 300) * 1000000 < t, d'')"
    by (auto simp: memdot_consume_service_auth_nonce_def Let_def)
  then have "\<exists>d''. parse_service_auth ?E os utf8 hdr secret (d', []) =
      Inr (if (clock E + 300) * 1000000 < t \<and> \<bar>c - ts\<bar> \<le> 300 \<and> c \<le> sag_exp g then Some g else None, d'', [])"
    using r b' p a payload_grant_Some(4) [OF g, where t = t and c = c]
    by (auto simp: parse_service_auth_def consume_service_auth_nonce_def MAX_SKEW_SECONDS_def)
  moreover have "clock E < ts" if "(clock E + 300) * 1000000 < t" "\<bar>c - ts\<bar> \<le> 300" "t \<le> c * 1000000"
  proof -
    have "(clock E + 300) * 1000000 < c * 1000000" using that(1,3) by (rule less_le_trans)
    then show ?thesis using that(2) by simp
  qed
  ultimately show ?thesis by (auto split: if_splits)
qed

section \<open>Round trip\<close>

text \<open>What hashing, random hex texts and UTF-8 are documented to give.\<close>

definition hex_text :: "string \<Rightarrow> bool" where
  "hex_text s \<longleftrightarrow> s \<noteq> [] \<and> set s \<subseteq> set ''0123456789abcdef''"

definition service_laws :: "env \<Rightarrow> (string \<Rightarrow> string option) \<Rightarrow> bool" where
  "service_laws E utf8 \<longleftrightarrow> (\<forall>k m. hex_text (hmac_sha256 E k m)) \<and> (\<forall>m. hex_text (sha256 E m)) \<and> hex_text (nonce_hex E) \<and>
     (\<forall>s. ascii s \<longrightarrow> utf8 s = Some s)"

definition sent :: "(string \<times> string) list \<Rightarrow> string option \<Rightarrow> headers" where
  "sent hs authorization name = (if name = ''Authorization'' then authorization else map_of hs name)"

lemma hex_text_ok: "hex_text s \<Longrightarrow> py_strip s = s \<and> ascii s \<and> s \<noteq> []"
  by (rule conjI, rule py_strip_id) (auto simp: hex_text_def is_space_def ascii_def)

lemma set_b64encode: "c \<in> set (b64encode s) \<Longrightarrow> \<not> is_space c"
proof (induction s rule: b64encode.induct)
  have "\<not> is_space (b64_char n)" if "n < 64" for n
    using of_char_b64_char [OF that] by (auto simp: is_space_def split: if_splits)
  note ok = this [OF b64_group(1)] this [OF b64_group(2)] this [OF b64_group(3)] this [OF b64_group(4)] this [OF b64_group(5)]
    this [OF b64_group(6)]
  {
    case (2 a)
    then show ?case using ok(1,2) [OF b64_chars b64_chars b64_chars] by (auto simp: Let_def is_space_def)
  next
    case (3 a b)
    then show ?case using ok(1,3,4) [OF b64_chars b64_chars b64_chars] by (auto simp: Let_def is_space_def)
  next
    case (4 a b c s)
    then show ?case using ok(1,3,5,6) [OF b64_chars b64_chars b64_chars] by (auto simp: Let_def)
  }
qed simp

lemma service_body_ok:
  assumes "s \<noteq> []"
  shows "py_strip (service_b64encode s) = service_b64encode s \<and> service_b64encode s \<noteq> []"
proof -
  have "c \<in> set (service_b64encode s) \<Longrightarrow> \<not> is_space c" for c
    by (auto simp: service_b64encode_def rstrip_pad_def dest!: set_dropWhileD dest: set_b64encode)
  moreover have "service_b64encode s \<noteq> []"
  proof
    assume "service_b64encode s = []"
    then have "b64encode s = []" using repad_rstrip [of s] by (simp add: service_b64encode_def repad_def)
    then show False using assms by simp
  qed
  ultimately show ?thesis by (simp add: py_strip_id)
qed

lemma decode_service_payload:
  assumes "service_laws E utf8"
  shows "decode_payload utf8 (service_b64encode (json_dumps (JObj (service_payload E g authorization)))) =
    Some (sort_key fst (service_payload E g authorization))"
proof -
  let ?j = "JObj (service_payload E g authorization)"
  have "wf_json ?j" "canon ?j = JObj (sort_key fst (service_payload E g authorization))"
    by (auto simp: service_payload_def list_all_iff comp_def)
  then have "json_loads (json_dumps ?j) = Some (JObj (sort_key fst (service_payload E g authorization)))"
    using json_round_trip_aux [of ?j] by simp
  moreover have "utf8 (json_dumps ?j) = Some (json_dumps ?j)" using assms ascii_json_dumps unfolding service_laws_def by blast
  ultimately show ?thesis
    by (simp add: decode_payload_def service_b64decode_def service_b64encode_def b64_unpadded_roundtrip
        del: json_dumps.simps)
qed

lemma dec_int_strip: "py_strip (dec_int n) = dec_int n"
proof (rule py_strip_id, rule ballI)
  have "\<not> is_space c" if "c \<in> set (dec_nat m)" for c m using dec_nat_digits that by (force simp: is_digit_def is_space_def)
  then show "\<not> is_space c" if "c \<in> set (dec_int n)" for c using that by (auto simp: dec_int_def is_space_def split: if_splits)
qed

lemma map_of_sorted: "distinct (map fst kvs) \<Longrightarrow> map_of (sort_key fst kvs) = map_of kvs"
proof -
  assume "distinct (map fst kvs)"
  then have "distinct (map fst (sort_key fst kvs))" by (simp add: distinct_map)
  then show ?thesis using \<open>distinct (map fst kvs)\<close> by (intro map_of_inject_set [THEN iffD2]) simp_all
qed

lemma service_payload_reads:
  "map_of (sort_key fst (service_payload E g authorization)) = map_of (service_payload E g authorization)"
  by (rule map_of_sorted) (simp add: service_payload_def)

lemma authorization_sent:
  assumes "service_laws E utf8"
  shows "authorization_matches E (sent hs authorization) (sort_key fst (service_payload E g authorization)) = Inr True"
proof -
  have "ascii (sha256 E m)" for m using assms hex_text_ok unfolding service_laws_def by blast
  moreover have "sha256 E m \<noteq> []" for m using assms hex_text_ok unfolding service_laws_def by blast
  ultimately show ?thesis
    unfolding authorization_matches_def jget_def service_payload_reads
    by (auto simp: service_payload_def sent_def compare_digest_def)
qed

lemma find_purpose: "parse_purpose (purpose_value p) = Some p"
  by (cases p) (simp_all add: parse_purpose_def PURPOSES_def purpose_value_def)

lemma grant_sent:
  assumes "sag_purpose g \<in> set EXTERNAL_PURPOSES" and "sag_client_id g \<noteq> []"
  shows "payload_grant E (sort_key fst (service_payload E0 g authorization)) =
    (if clock E \<le> sag_exp g then Some (g\<lparr> sag_scopes := sort (sag_scopes g) \<rparr>) else None)"
  using assms unfolding payload_grant_def jget_def jget_or_def service_payload_reads
  by (simp add: service_payload_def read_uuid_def py_str_def find_purpose json_as_int_def jor_def comp_def)

lemma service_auth_round_trip_aux:
  assumes "build_service_auth_headers E secret g expires authorization (Some ts) = Inr hs" and "service_laws E utf8"
    and "py_strip secret = secret" and "sag_purpose g \<in> set EXTERNAL_PURPOSES" and "sag_client_id g \<noteq> []"
    and "\<bar>c - ts\<bar> \<le> 300" and "c \<le> (case expires of None \<Rightarrow> ts + 300 | Some e \<Rightarrow> e)"
    and "\<forall>x. (sha256 E (nonce_hex E), x) \<in> set (t_service_nonce d) \<longrightarrow> x < t"
  shows "\<exists>d'. parse_service_auth (E\<lparr> now := t, clock := c \<rparr>) os utf8 (sent hs authorization) (Some secret) (d, []) =
    Inr (Some (g\<lparr> sag_exp := (case expires of None \<Rightarrow> ts + 300 | Some e \<Rightarrow> e), sag_scopes := sort (sag_scopes g) \<rparr>), d', [])"
proof -
  let ?E = "E\<lparr> now := t, clock := c \<rparr>" and ?hdr = "sent hs authorization"
  let ?g = "g\<lparr> sag_exp := (case expires of None \<Rightarrow> ts + 300 | Some e \<Rightarrow> e) \<rparr>"
  let ?pl = "service_payload E ?g authorization"
  let ?body = "service_b64encode (json_dumps (JObj ?pl))"
  have key: "require_secret secret = Inr secret" and hs: "hs = [(''X-Memdot-Service-Auth'', ''v'' @ dec_int SERVICE_AUTH_VERSION),
      (''X-Memdot-Service-Ts'', dec_int ts), (''X-Memdot-Service-Nonce'', nonce_hex E), (''X-Memdot-Service-Body'', ?body),
      (''X-Memdot-Service-Sig'', service_sign E secret (dec_int ts) (nonce_hex E) ?body)]"
    using assms(1) by (auto simp: build_service_auth_headers_def require_secret_def Let_def simp del: json_dumps.simps split: if_splits)
  have sig: "hex_text (service_sign E secret (dec_int ts) (nonce_hex E) ?body)" "hex_text (nonce_hex E)"
    using assms(2) by (simp_all add: service_laws_def service_sign_def)
  have ver: "dec_int SERVICE_AUTH_VERSION = ''1''"
    by code_simp
  have "json_dumps (JObj ?pl) \<noteq> []" by simp
  note body = service_body_ok [OF this]
  have hdrs: "strip_header ?hdr ''X-Memdot-Service-Auth'' = ''v1''" "strip_header ?hdr ''X-Memdot-Service-Ts'' = dec_int ts"
    "strip_header ?hdr ''X-Memdot-Service-Nonce'' = nonce_hex E" "strip_header ?hdr ''X-Memdot-Service-Body'' = ?body"
    "strip_header ?hdr ''X-Memdot-Service-Sig'' = service_sign E secret (dec_int ts) (nonce_hex E) ?body"
    using hex_text_ok [OF sig(1)] hex_text_ok [OF sig(2)] body
    by (simp_all add: strip_header_def sent_def hs ver dec_int_strip py_strip_id is_space_def del: json_dumps.simps)
  have "signed_body ?E secret ?hdr = Inr (Some ?body)"
    unfolding signed_body_def hdrs ver
    using hex_text_ok [OF sig(1)] hex_text_ok [OF sig(2)] body assms(6)
    by (simp add: compare_digest_def service_sign_def MAX_SKEW_SECONDS_def dec_int_not_Nil del: json_dumps.simps)
  moreover have "payload_grant ?E (sort_key fst ?pl) = Some (?g\<lparr> sag_scopes := sort (sag_scopes g) \<rparr>)"
    using grant_sent [of ?g ?E E authorization] assms(4,5,7) by simp
  moreover obtain d' where "memdot_consume_service_auth_nonce ?E (sha256 E (nonce_hex E)) ((c + 300) * 1000000) d = (True, d')"
    using assms(8) by (force simp: memdot_consume_service_auth_nonce_def Let_def)
  ultimately show ?thesis
    using key assms(3) decode_service_payload [OF assms(2), of ?g authorization] authorization_sent [OF assms(2), of hs authorization ?g]
    by (simp add: parse_service_auth_def consume_service_auth_nonce_def hdrs MAX_SKEW_SECONDS_def del: json_dumps.simps)
qed

text \<open>
  (C7) An envelope built by the edge is read back by Core: within five minutes of its time and before it expires, with the same
  \<open>Authorization\<close> header and a nonce that is not recorded, Core gets exactly the grant the edge signed, its scopes sorted.
\<close>

theorem service_auth_round_trip:
  assumes "build_service_auth_headers E secret g expires authorization (Some ts) = Inr hs" and "service_laws E utf8"
    and "py_strip secret = secret" and "sag_purpose g \<in> set EXTERNAL_PURPOSES" and "sag_client_id g \<noteq> []"
    and "\<bar>c - ts\<bar> \<le> 300" and "c \<le> (case expires of None \<Rightarrow> ts + 300 | Some e \<Rightarrow> e)"
    and "\<forall>x. (sha256 E (nonce_hex E), x) \<in> set (t_service_nonce d) \<longrightarrow> x < t"
  shows "\<exists>d'. parse_service_auth (E\<lparr> now := t, clock := c \<rparr>) os utf8 (sent hs authorization) (Some secret) (d, []) =
    Inr (Some (g\<lparr> sag_exp := (case expires of None \<Rightarrow> ts + 300 | Some e \<Rightarrow> e), sag_scopes := sort (sag_scopes g) \<rparr>), d', [])"
  using assms by (rule service_auth_round_trip_aux)

section \<open>Sequences of calls\<close>

text \<open>Calls of Core replicas on the shared table, up to the database time \<open>T\<close>.\<close>

inductive service_calls :: "datetime \<Rightarrow> 'a access_db_scheme \<Rightarrow> 'a access_db_scheme \<Rightarrow> bool" for T where
  no_call: "service_calls T d d"
| one_call: "service_calls T d d1 \<Longrightarrow> parse_service_auth E os utf8 hdr secret (d1, []) = Inr (r, d2, []) \<Longrightarrow> now E \<le> T \<Longrightarrow>
    service_calls T d d2"

lemma parse_keeps_nonce:
  assumes "parse_service_auth E os utf8 hdr secret (d, []) = Inr (r, d', [])" and "now E \<le> x"
    and "(n, x) \<in> set (t_service_nonce d)"
  shows "(n, x) \<in> set (t_service_nonce d')"
proof -
  have "d' = d \<or> (\<exists>m y b. memdot_consume_service_auth_nonce E m y d = (b, d'))"
    using assms(1) unfolding parse_service_auth_def consume_service_auth_nonce_def
    by (auto simp: bindr_Inr_iff split: sum.splits option.splits if_splits prod.splits)
  then show ?thesis using assms(2,3) by (auto simp: memdot_consume_service_auth_nonce_def Let_def split: if_splits)
qed

lemma service_calls_keep:
  assumes "service_calls T d d'" and "(n, T) \<in> set (t_service_nonce d)"
  shows "(n, T) \<in> set (t_service_nonce d')"
  using assms by (induction rule: service_calls.induct) (auto intro: parse_keeps_nonce)

text \<open>
  (C5) A nonce serves once: after an envelope was accepted, and whatever other calls the replicas serve in between, no call with the same nonce is
  accepted until the database time has passed five minutes after the clock of the first call.
\<close>

theorem service_auth_single_use:
  assumes "parse_service_auth E os utf8 hdr secret (d, []) = Inr (Some g, d1, [])"
    and "service_calls ((clock E + 300) * 1000000) d1 d2"
    and "strip_header hdr' ''X-Memdot-Service-Nonce'' = strip_header hdr ''X-Memdot-Service-Nonce''" and "sha256 E' = sha256 E"
    and "now E' \<le> (clock E + 300) * 1000000"
  shows "parse_service_auth E' os' utf8' hdr' secret' (d2, []) \<noteq> Inr (Some g', d3, ps)"
proof
  let ?n = "sha256 E (strip_header hdr ''X-Memdot-Service-Nonce'')"
  assume "parse_service_auth E' os' utf8' hdr' secret' (d2, []) = Inr (Some g', d3, ps)"
  then have "memdot_consume_service_auth_nonce E' ?n ((clock E' + 300) * 1000000) d2 = (True, d3)"
    by (rule parse_service_auth_Some) (use assms(3,4) in simp)
  moreover have "(?n, (clock E + 300) * 1000000) \<in> set (t_service_nonce d1)"
    using assms(1) by (rule parse_service_auth_Some) (drule consume_nonce, blast)
  then have "(?n, (clock E + 300) * 1000000) \<in> set (t_service_nonce d2)" by (rule service_calls_keep [OF assms(2)])
  ultimately show False using assms(5) by (force simp: memdot_consume_service_auth_nonce_def Let_def split: if_splits)
qed

section \<open>A concrete envelope\<close>

definition demo_service_env :: env where
  "demo_service_env = demo_hex_env\<lparr> nonce_hex := ''ab12'' \<rparr>"

definition demo_grant :: ServiceAuthGrant where
  "demo_grant = \<lparr> sag_account_id = 1, sag_actor_id = 22, sag_purpose = EXTERNAL_READ, sag_scopes = [''memdot.memory.read''],
     sag_client_id = ''chat'', sag_subject = ''edge'', sag_exp = 0 \<rparr>"

definition demo_access :: access_db where
  "demo_access = core_db.extend demo_core \<lparr> t_service_nonce = [] \<rparr>"

abbreviation "demo_secret \<equiv> replicate 32 (CHR ''s'')"

lemma demo_service_laws: "service_laws demo_service_env Some"
  by (simp add: service_laws_def demo_service_env_def demo_hex_env_def hex_text_def)

lemma demo_headers:
  obtains hs where "build_service_auth_headers demo_service_env demo_secret demo_grant None None (Some 400) = Inr hs"
  by (simp add: build_service_auth_headers_def require_secret_def MIN_SECRET_BYTES_def Let_def)

lemma demo_accepted:
  obtains hs d' where "build_service_auth_headers demo_service_env demo_secret demo_grant None None (Some 400) = Inr hs"
    "parse_service_auth (demo_service_env\<lparr> now := 100000000, clock := 100 \<rparr>) (\<lambda>_. None) Some (sent hs None) (Some demo_secret)
       (demo_access, []) = Inr (Some (demo_grant\<lparr> sag_exp := 700 \<rparr>), d', [])"
    "service_ts (sent hs None) = Some 400"
proof -
  obtain hs where hs: "build_service_auth_headers demo_service_env demo_secret demo_grant None None (Some 400) = Inr hs"
    by (rule demo_headers)
  have "\<forall>x. (sha256 demo_service_env (nonce_hex demo_service_env), x) \<in> set (t_service_nonce demo_access) \<longrightarrow> x < 100000000"
    by (simp add: demo_access_def core_db.defs)
  moreover have "sag_purpose demo_grant \<in> set EXTERNAL_PURPOSES" "sag_client_id demo_grant \<noteq> []" "sort (sag_scopes demo_grant) = sag_scopes demo_grant"
    by (simp_all add: demo_grant_def EXTERNAL_PURPOSES_def)
  ultimately obtain d' where "parse_service_auth (demo_service_env\<lparr> now := 100000000, clock := 100 \<rparr>) (\<lambda>_. None) Some (sent hs None)
      (Some demo_secret) (demo_access, []) = Inr (Some (demo_grant\<lparr> sag_exp := 700 \<rparr>), d', [])"
    using service_auth_round_trip_aux [OF hs demo_service_laws, of 100 demo_access 100000000 "\<lambda>_. None"]
    by (auto simp: py_strip_id is_space_def)
  moreover have "service_ts (sent hs None) = Some 400"
    using hs by (auto simp: build_service_auth_headers_def require_secret_def Let_def service_ts_def strip_header_def sent_def
        dec_int_strip split: if_splits)
  ultimately show thesis using that hs by blast
qed

theorem service_auth_round_trip_witness:
  "\<exists>hs d'. build_service_auth_headers demo_service_env demo_secret demo_grant None None (Some 400) = Inr hs \<and>
     parse_service_auth (demo_service_env\<lparr> now := 0, clock := 100 \<rparr>) (\<lambda>_. None) Some (sent hs None) (Some demo_secret) (demo_access, []) =
       Inr (Some (demo_grant\<lparr> sag_exp := 700 \<rparr>), d', [])"
proof -
  obtain hs where hs: "build_service_auth_headers demo_service_env demo_secret demo_grant None None (Some 400) = Inr hs"
    by (rule demo_headers)
  have "\<forall>x. (sha256 demo_service_env (nonce_hex demo_service_env), x) \<in> set (t_service_nonce demo_access) \<longrightarrow> x < 0"
    by (simp add: demo_access_def core_db.defs)
  then show ?thesis
    using hs service_auth_round_trip [OF hs demo_service_laws, of 100 demo_access 0 "\<lambda>_. None"]
    by (auto simp: py_strip_id is_space_def demo_grant_def EXTERNAL_PURPOSES_def)
qed

theorem service_auth_accepted_witness:
  "\<exists>hs d'. parse_service_auth (demo_service_env\<lparr> now := 100000000, clock := 100 \<rparr>) (\<lambda>_. None) Some (sent hs None) (Some demo_secret)
       (demo_access, []) = Inr (Some (demo_grant\<lparr> sag_exp := 700 \<rparr>), d', []) \<and>
     envelope_signed (demo_service_env\<lparr> now := 100000000, clock := 100 \<rparr>) (py_strip demo_secret) (sent hs None) \<and>
     (''0a'', 400000000) \<in> set (t_service_nonce d')"
proof -
  obtain hs d' where a: "parse_service_auth (demo_service_env\<lparr> now := 100000000, clock := 100 \<rparr>) (\<lambda>_. None) Some (sent hs None)
      (Some demo_secret) (demo_access, []) = Inr (Some (demo_grant\<lparr> sag_exp := 700 \<rparr>), d', [])"
    by (rule demo_accepted)
  have "envelope_signed (demo_service_env\<lparr> now := 100000000, clock := 100 \<rparr>) (py_strip demo_secret) (sent hs None)"
    "(''0a'', 400000000) \<in> set (t_service_nonce d')"
    using service_auth_accepted [OF a] by (auto simp: demo_service_env_def demo_hex_env_def)
  then show ?thesis using a by blast
qed

theorem service_auth_replay_witness:
  "\<exists>hs d' d''. parse_service_auth (demo_service_env\<lparr> now := 100000000, clock := 100 \<rparr>) (\<lambda>_. None) Some (sent hs None) (Some demo_secret)
       (demo_access, []) = Inr (Some (demo_grant\<lparr> sag_exp := 700 \<rparr>), d', []) \<and>
     parse_service_auth (demo_service_env\<lparr> now := 401000000, clock := 401 \<rparr>) (\<lambda>_. None) Some (sent hs None) (Some demo_secret)
       (d', []) = Inr (Some (demo_grant\<lparr> sag_exp := 700 \<rparr>), d'', [])"
proof -
  obtain hs d' where a: "parse_service_auth (demo_service_env\<lparr> now := 100000000, clock := 100 \<rparr>) (\<lambda>_. None) Some (sent hs None)
      (Some demo_secret) (demo_access, []) = Inr (Some (demo_grant\<lparr> sag_exp := 700 \<rparr>), d', [])"
    and ts: "service_ts (sent hs None) = Some 400"
    by (rule demo_accepted)
  then show ?thesis using service_auth_replay [OF a ts, where t = 401000000 and c = 401] by auto
qed

theorem service_auth_single_use_witness:
  "\<exists>hs d'. parse_service_auth (demo_service_env\<lparr> now := 100000000, clock := 100 \<rparr>) (\<lambda>_. None) Some (sent hs None) (Some demo_secret)
       (demo_access, []) = Inr (Some (demo_grant\<lparr> sag_exp := 700 \<rparr>), d', []) \<and>
     parse_service_auth (demo_service_env\<lparr> now := 200000000, clock := 200 \<rparr>) (\<lambda>_. None) Some (sent hs None) (Some demo_secret)
       (d', []) \<noteq> Inr (Some (demo_grant\<lparr> sag_exp := 700 \<rparr>), d', [])"
proof -
  obtain hs d' where a: "parse_service_auth (demo_service_env\<lparr> now := 100000000, clock := 100 \<rparr>) (\<lambda>_. None) Some (sent hs None)
      (Some demo_secret) (demo_access, []) = Inr (Some (demo_grant\<lparr> sag_exp := 700 \<rparr>), d', [])"
    by (rule demo_accepted)
  have "parse_service_auth (demo_service_env\<lparr> now := 200000000, clock := 200 \<rparr>) (\<lambda>_. None) Some (sent hs None) (Some demo_secret)
       (d', []) \<noteq> Inr (Some (demo_grant\<lparr> sag_exp := 700 \<rparr>), d', [])"
    by (rule service_auth_single_use [OF a no_call refl]) simp_all
  then show ?thesis using a by blast
qed

end
