(* ===== verification/External_Access.thy ===== *)
theory External_Access
  imports Mcp_Service Service_Auth
begin

text \<open>
  The access of external clients: bearer tokens (\<open>auth/bearer.py\<close>), the grant in the database (\<open>auth/grant_resolve.py\<close>, migration
  0007) and the request context built from both (\<open>external_context.py\<close>), below \<open>services/core/src/memdot_core\<close>. PyJWT and the
  JWKS endpoint are the fields of \<open>jwt_env\<close>; a set of scopes is a list. \<open>None\<close> of \<open>jwt_decode\<close> and of a key lookup stands for a
  \<open>PyJWTError\<close>.
\<close>

section \<open>Scopes and claims\<close>

definition REQUIRED_READ_SCOPE :: string where
  "REQUIRED_READ_SCOPE = ''memdot.memory.read''"

definition REQUIRED_PROPOSE_SCOPE :: string where
  "REQUIRED_PROPOSE_SCOPE = ''memdot.memory.propose''"

definition REQUIRED_INTERACTION_SCOPE :: string where
  "REQUIRED_INTERACTION_SCOPE = ''memdot.interaction.record''"

definition PURPOSE_REQUIRED_SCOPE :: "(RequestPurpose \<times> string) list" where
  "PURPOSE_REQUIRED_SCOPE =
     [(EXTERNAL_READ, REQUIRED_READ_SCOPE), (EXTERNAL_PROPOSE, REQUIRED_PROPOSE_SCOPE),
      (EXTERNAL_INTERACTION, REQUIRED_INTERACTION_SCOPE)]"

text \<open>\<open>text.split()\<close>: the maximal runs of characters that are not space.\<close>

fun space_words :: "string \<Rightarrow> string \<Rightarrow> string list" where
  "space_words run [] = (if run = [] then [] else [run])"
| "space_words run (c # s) =
     (if is_space c then (if run = [] then space_words [] s else run # space_words [] s) else space_words (run @ [c]) s)"

definition parse_scopes :: "json \<Rightarrow> string list" where
  "parse_scopes raw =
     (case raw of
        JStr s \<Rightarrow> space_words [] (map (\<lambda>c. if c = CHR '','' then CHR '' '' else c) s)
      | JList items \<Rightarrow> filter (\<lambda>v. v \<noteq> []) (map py_str items)
      | _ \<Rightarrow> [])"

definition scopes_allow_purpose :: "string list \<Rightarrow> RequestPurpose \<Rightarrow> bool" where
  "scopes_allow_purpose scopes purpose =
     (case map_of PURPOSE_REQUIRED_SCOPE purpose of None \<Rightarrow> False | Some required \<Rightarrow> required \<in> set scopes)"

definition claim_names :: "json \<Rightarrow> string \<Rightarrow> bool" where
  "claim_names v resource =
     (case v of JList items \<Rightarrow> resource \<in> set (map py_str items) | _ \<Rightarrow> py_str v = resource)"

definition resource_matches :: "dict \<Rightarrow> string \<Rightarrow> bool" where
  "resource_matches claims resource =
     (case map_of claims ''resource'' of Some v \<Rightarrow> claim_names v resource | None \<Rightarrow> claim_names (jget claims ''aud'') resource)"

definition resource_refused :: "dict \<Rightarrow> string \<Rightarrow> bool" where
  "resource_refused claims resource \<longleftrightarrow>
     \<not> resource_matches claims resource \<and>
     (if map_of claims ''resource'' = None \<and> py_str (jget claims ''aud'') \<noteq> resource
      then \<not> (case jget claims ''aud'' of JList items \<Rightarrow> resource \<in> set (map py_str items) | _ \<Rightarrow> False)
      else map_of claims ''resource'' \<noteq> None)"

section \<open>Bearer tokens\<close>

record jwt_env =
  jwks_client :: "string \<Rightarrow> (string \<Rightarrow> string option) res"
  jwt_decode :: "string \<Rightarrow> string \<Rightarrow> string list \<Rightarrow> string \<Rightarrow> string \<Rightarrow> int \<Rightarrow> dict option"
  jwks_rotation :: "string \<Rightarrow> string \<Rightarrow> dict res"

record bearer_claims =
  bc_claims :: dict
  bc_scopes :: "string list"
  bc_client_id :: string
  bc_subject :: string
  bc_expires_at :: int

definition rstrip_slash :: "string \<Rightarrow> string" where
  "rstrip_slash s = rev (dropWhile (\<lambda>c. c = CHR ''/'') (rev s))"

definition decode_token ::
    "jwt_env \<Rightarrow> string \<Rightarrow> string \<Rightarrow> string \<Rightarrow> (string \<Rightarrow> string option) option \<Rightarrow> string option \<Rightarrow> string list option \<Rightarrow> int \<Rightarrow> dict res" where
  "decode_token J token issuer audience client pinned_key algorithms leeway =
     (let algs = (case algorithms of Some (a # as) \<Rightarrow> a # as | _ \<Rightarrow> [''RS256'', ''ES256'', ''HS256'']);
          dec = (\<lambda>key. case jwt_decode J token key algs (rstrip_slash issuer) audience leeway of
            None \<Rightarrow> Inl (BearerValidationError ''invalid_token'') | Some claims \<Rightarrow> Inr claims)
      in case pinned_key of
           Some key \<Rightarrow> dec key
         | None \<Rightarrow>
             (case client of
                Some lookup_key \<Rightarrow>
                  (case lookup_key token of None \<Rightarrow> Inl (BearerValidationError ''invalid_token'') | Some key \<Rightarrow> dec key)
              | None \<Rightarrow> jwks_rotation J token issuer))"

definition to_int :: "json \<Rightarrow> int res" where
  "to_int j =
     (case j of
        JInt n \<Rightarrow> Inr n
      | JBool b \<Rightarrow> Inr (of_bool b)
      | JStr s \<Rightarrow> (case py_int s of None \<Rightarrow> Inl (ValueError ''invalid literal for int()'') | Some n \<Rightarrow> Inr n)
      | _ \<Rightarrow> Inl TypeError)"

definition check_validity :: "env \<Rightarrow> dict \<Rightarrow> int \<Rightarrow> int res" where
  "check_validity E claims leeway =
     bindr (case jget claims ''nbf'' of
         JNull \<Rightarrow> Inr ()
       | v \<Rightarrow> bindr (to_int v) (\<lambda>nbf. guard_res (nbf \<le> clock E + leeway) (BearerValidationError ''token_not_yet_valid''))) (\<lambda>_.
     bindr (json_item (JObj claims) ''exp'') (\<lambda>v. bindr (to_int v) (\<lambda>e.
     bindr (guard_res (clock E - leeway \<le> e) (BearerValidationError ''token_expired'')) (\<lambda>_. Inr e))))"

definition validate_bearer_token ::
    "jwt_env \<Rightarrow> env \<Rightarrow> string \<Rightarrow> string \<Rightarrow> string \<Rightarrow> string option \<Rightarrow> bool \<Rightarrow> (string \<Rightarrow> string option) option \<Rightarrow> string option \<Rightarrow>
     string list option \<Rightarrow> int \<Rightarrow> bearer_claims res" where
  "validate_bearer_token J E token issuer audience resource require_resource client pinned_key algorithms leeway =
     (if py_strip token = [] then Inl (BearerValidationError ''missing_token'')
      else if py_strip issuer = [] \<or> py_strip audience = [] then Inl (BearerValidationError ''issuer_or_audience_unconfigured'')
      else if require_resource \<and> py_strip (case resource of None \<Rightarrow> [] | Some r \<Rightarrow> r) = []
      then Inl (BearerValidationError ''resource_unconfigured'')
      else
        bindr (decode_token J token issuer audience client pinned_key algorithms leeway) (\<lambda>claims.
        bindr (check_validity E claims leeway) (\<lambda>e.
        let client_id = py_str (jor (jget claims ''client_id'') (jor (jget claims ''azp'') (jor (jget claims ''clientId'') (JStr [])))) in
        if client_id = [] then Inl (BearerValidationError ''missing_client'')
        else bindr (json_item (JObj claims) ''sub'') (\<lambda>sub.
        if py_str sub = [] then Inl (BearerValidationError ''missing_sub'')
        else if truthy_str resource \<and> resource_refused claims (the resource) then Inl (BearerValidationError ''resource_mismatch'')
        else
          let scopes = parse_scopes (jor (jget claims ''scope'') (jget claims ''scopes'')) in
          if scopes = [] then Inl (BearerValidationError ''missing_scopes'')
          else Inr \<lparr> bc_claims = claims, bc_scopes = scopes, bc_client_id = client_id, bc_subject = py_str sub, bc_expires_at = e \<rparr>))))"

section \<open>Grants\<close>

definition memdot_resolve_external_grant ::
    "string \<Rightarrow> uuid option \<Rightarrow> uuid option \<Rightarrow> 'a core_db_scheme \<Rightarrow> ExternalClientGrant list" where
  "memdot_resolve_external_grant client_id account_id actor_id d =
     take 2 (filter (\<lambda>g. gr_client_id g = client_id \<and> (account_id = None \<or> account_id = Some (gr_account_id g)) \<and>
       (actor_id = None \<or> actor_id = Some (gr_actor_id g)) \<and> gr_revoked_at g = None) (t_grant d))"

record ResolvedExternalGrant =
  reg_grant_id :: uuid
  reg_account_id :: uuid
  reg_actor_id :: uuid
  reg_client_id :: string
  reg_scopes :: "string list"

definition resolve_external_grant ::
    "string \<Rightarrow> uuid option \<Rightarrow> uuid option \<Rightarrow> string list \<Rightarrow> 'a core_db_scheme \<Rightarrow> ResolvedExternalGrant res" where
  "resolve_external_grant client_id account_id actor_id token_scopes d =
     (if py_strip client_id = [] then Inl (BearerValidationError ''missing_client'')
      else case memdot_resolve_external_grant client_id account_id actor_id d of
          [row] \<Rightarrow>
            if gr_revoked_at row \<noteq> None then Inl (BearerValidationError ''grant_revoked'')
            else
              let grant_scopes = parse_scopes (JStr (gr_scopes row));
                  effective = (if grant_scopes \<noteq> [] then filter (\<lambda>s. s \<in> set grant_scopes) token_scopes else [])
              in if effective = [] then Inl (BearerValidationError ''scope_mismatch'')
                 else Inr \<lparr> reg_grant_id = gr_id row, reg_account_id = gr_account_id row, reg_actor_id = gr_actor_id row,
                   reg_client_id = gr_client_id row, reg_scopes = effective \<rparr>
        | _ \<Rightarrow> Inl (BearerValidationError ''grant_not_found''))"

section \<open>The request context of an external client\<close>

definition external_space_ids :: "uuid \<Rightarrow> 'a core_db_scheme \<Rightarrow> uuid list res" where
  "external_space_ids account_id d =
     bindr (map_res (\<lambda>row. bindr (parse_visibility (sp_visibility row)) (\<lambda>v. Inr (sp_id row, v)))
       (filter (\<lambda>row. sp_account_id row = account_id \<and> space_row_visible d row) (t_space d))) (\<lambda>vs.
     Inr (map fst (filter (\<lambda>x. snd x \<noteq> PRIVATE) vs)))"

definition correlation_id_for_request :: "env \<Rightarrow> headers \<Rightarrow> uuid" where
  "correlation_id_for_request E hdr =
     (let raw = (if truthy_str (hdr ''X-Correlation-Id'') then hdr ''X-Correlation-Id'' else hdr ''X-Request-Id'')
      in if truthy_str raw then (case parse_uuid (the raw) of Inr u \<Rightarrow> u | Inl _ \<Rightarrow> fresh E 0) else fresh E 0)"

text \<open>
  When the database refuses the context, its transaction is aborted: the \<open>reset_tenant_context\<close> of the handler is
  itself refused, and that error leaves the function.
\<close>

definition build_external_request_context ::
    "env \<Rightarrow> headers \<Rightarrow> uuid \<Rightarrow> uuid \<Rightarrow> RequestPurpose \<Rightarrow> string list \<Rightarrow> ('a core_db_scheme, RequestContext option) op" where
  "build_external_request_context E hdr account_id actor_id purpose scopes s =
     (if purpose \<notin> set EXTERNAL_PURPOSES then Inr (None, s)
      else if \<not> scopes_allow_purpose scopes purpose then Inr (None, s)
      else case bindr (reset_tenant_context s) (apply_tenant_context E
             \<lparr> tc_account_id = account_id, tc_actor_id = actor_id, tc_purpose = purpose \<rparr>) of
          Inl (DBAPIError _) \<Rightarrow> Inl (DBAPIError ''current transaction is aborted'')
        | Inl e \<Rightarrow> Inl e
        | Inr s1 \<Rightarrow>
            bindr (external_space_ids account_id (tables s1)) (\<lambda>spaces.
            Inr (Some \<lparr> ctx_account_id = account_id, ctx_actor_id = actor_id, ctx_user_id = actor_id, ctx_purpose = purpose,
              ctx_correlation_id = correlation_id_for_request E hdr, ctx_session_id = None, ctx_scopes = scopes,
              ctx_eligible_space_ids = spaces, ctx_last_auth_at = None \<rparr>, s1)))"

definition extract_bearer :: "headers \<Rightarrow> string option" where
  "extract_bearer hdr =
     (let header = (case hdr ''Authorization'' of None \<Rightarrow> [] | Some v \<Rightarrow> v) in
      if \<not> starts_with (py_lower header) ''bearer '' then None
      else let token = py_strip (drop 7 header) in if token = [] then None else Some token)"

definition environ_first :: "environ \<Rightarrow> string \<Rightarrow> string \<Rightarrow> string option" where
  "environ_first os a b = (if truthy_str (os a) then os a else os b)"

definition mcp_audience :: "environ \<Rightarrow> string" where
  "mcp_audience os =
     py_strip (let v = environ_or os ''CORE_OIDC_AUDIENCE'' ''MCP_OIDC_AUDIENCE'' in if v = [] then ''memdot-mcp'' else v)"

definition mcp_resource :: "environ \<Rightarrow> string option" where
  "mcp_resource os =
     (let resource = py_strip (case os ''CORE_MCP_RESOURCE'' of None \<Rightarrow> [] | Some v \<Rightarrow> v) in
      if resource \<noteq> [] then Some resource
      else if py_lower (case os ''CORE_MCP_AUDIENCE_AS_RESOURCE'' of None \<Rightarrow> [] | Some v \<Rightarrow> v) \<in> set [''1'', ''true'', ''yes'']
      then Some (mcp_audience os) else None)"

definition hint_uuid :: "json \<Rightarrow> uuid option res" where
  "hint_uuid hint = (if truthy hint then bindr (parse_uuid (py_str hint)) (\<lambda>u. Inr (Some u)) else Inr None)"

definition token_grant ::
    "jwt_env \<Rightarrow> env \<Rightarrow> environ \<Rightarrow> string \<Rightarrow> string \<Rightarrow> 'a core_db_scheme \<Rightarrow> ResolvedExternalGrant res" where
  "token_grant J E os token resource d =
     (let issuer = py_strip (environ_or os ''CORE_OIDC_ISSUER'' ''MCP_OIDC_ISSUER'');
          hmac_key = environ_first os ''CORE_MCP_JWT_HS256_KEY'' ''MCP_JWT_HS256_KEY'';
          keyed = truthy_str hmac_key
      in bindr (if keyed then Inr None else bindr (jwks_client J issuer) (\<lambda>c. Inr (Some c))) (\<lambda>client.
         bindr (validate_bearer_token J E token issuer (mcp_audience os) (Some resource) True client
           (if keyed then hmac_key else None) (if keyed then Some [''HS256''] else None) 30) (\<lambda>claims.
         bindr (hint_uuid (jor (jget (bc_claims claims) ''account_id'') (jget (bc_claims claims) ''memdot_account_id''))) (\<lambda>account_hint.
         bindr (hint_uuid (jor (jget (bc_claims claims) ''actor_id'') (jget (bc_claims claims) ''memdot_actor_id''))) (\<lambda>actor_hint.
         resolve_external_grant (bc_client_id claims) account_hint actor_hint (bc_scopes claims) d)))))"

definition bearer_context ::
    "jwt_env \<Rightarrow> env \<Rightarrow> environ \<Rightarrow> headers \<Rightarrow> RequestPurpose option \<Rightarrow> ('a core_db_scheme, RequestContext option) op" where
  "bearer_context J E os hdr required_purpose s =
     (case extract_bearer hdr of
        None \<Rightarrow> Inr (None, s)
      | Some token \<Rightarrow>
          (case mcp_resource os of
             None \<Rightarrow> Inr (None, s)
           | Some resource \<Rightarrow>
               (case token_grant J E os token resource (tables s) of
                  Inl (BearerValidationError _) \<Rightarrow> Inr (None, s)
                | Inl (ValueError _) \<Rightarrow> Inr (None, s)
                | Inl (KeyError _) \<Rightarrow> Inr (None, s)
                | Inl e \<Rightarrow> Inl e
                | Inr resolved \<Rightarrow>
                    let purpose = (case required_purpose of None \<Rightarrow> EXTERNAL_READ | Some p \<Rightarrow> p) in
                    if \<not> scopes_allow_purpose (reg_scopes resolved) purpose then Inr (None, s)
                    else build_external_request_context E hdr (reg_account_id resolved) (reg_actor_id resolved) purpose
                      (reg_scopes resolved) s)))"

definition service_context ::
    "env \<Rightarrow> headers \<Rightarrow> RequestPurpose option \<Rightarrow> ServiceAuthGrant \<Rightarrow> ('a core_db_scheme, RequestContext option) op" where
  "service_context E hdr required_purpose g s =
     (case resolve_external_grant (sag_client_id g) (Some (sag_account_id g)) (Some (sag_actor_id g)) (sag_scopes g) (tables s) of
        Inl (BearerValidationError _) \<Rightarrow> Inr (None, s)
      | Inl e \<Rightarrow> Inl e
      | Inr resolved \<Rightarrow>
          if reg_account_id resolved \<noteq> sag_account_id g \<or> reg_actor_id resolved \<noteq> sag_actor_id g then Inr (None, s)
          else if required_purpose \<noteq> None \<and> required_purpose \<noteq> Some (sag_purpose g) then Inr (None, s)
          else build_external_request_context E hdr (reg_account_id resolved) (reg_actor_id resolved)
            (case required_purpose of None \<Rightarrow> sag_purpose g | Some p \<Rightarrow> p) (reg_scopes resolved) s)"

definition load_external_context ::
    "jwt_env \<Rightarrow> env \<Rightarrow> environ \<Rightarrow> (string \<Rightarrow> string option) \<Rightarrow> headers \<Rightarrow> RequestPurpose option \<Rightarrow>
     ('a access_db_scheme, RequestContext option) op" where
  "load_external_context J E os utf8 hdr required_purpose s =
     bindr (parse_service_auth E os utf8 hdr (environ_first os ''CORE_MCP_SERVICE_SECRET'' ''MCP_CORE_SERVICE_SECRET'') s)
       (\<lambda>(service_grant, s1).
        case service_grant of
          Some g \<Rightarrow> service_context E hdr required_purpose g s1
        | None \<Rightarrow> bearer_context J E os hdr required_purpose s1)"

definition load_mcp_context ::
    "jwt_env \<Rightarrow> env \<Rightarrow> environ \<Rightarrow> (string \<Rightarrow> string option) \<Rightarrow> headers \<Rightarrow> RequestPurpose option \<Rightarrow>
     ('a access_db_scheme, RequestContext option) op" where
  "load_mcp_context J E os utf8 hdr required_purpose = load_external_context J E os utf8 hdr required_purpose"

section \<open>What a context rests on\<close>

lemma resolve_external_grant_Inr:
  assumes "resolve_external_grant client account actor scopes d = Inr r"
  obtains g where "filter (\<lambda>g. gr_client_id g = client \<and> (account = None \<or> account = Some (gr_account_id g)) \<and>
      (actor = None \<or> actor = Some (gr_actor_id g)) \<and> gr_revoked_at g = None) (t_grant d) = [g]"
    "reg_account_id r = gr_account_id g" "reg_actor_id r = gr_actor_id g" "reg_client_id r = client"
    "set (reg_scopes r) = set scopes \<inter> set (parse_scopes (JStr (gr_scopes g)))"
proof -
  let ?rows = "filter (\<lambda>g. gr_client_id g = client \<and> (account = None \<or> account = Some (gr_account_id g)) \<and>
      (actor = None \<or> actor = Some (gr_actor_id g)) \<and> gr_revoked_at g = None) (t_grant d)"
  obtain g where g: "take 2 ?rows = [g]"
    using assms by (auto simp: resolve_external_grant_def memdot_resolve_external_grant_def split: if_splits list.splits)
  then have rows: "?rows = [g]" by (cases ?rows rule: scalar_one.cases) (simp_all add: numeral_2_eq_2)
  then have live: "gr_client_id g = client" "gr_revoked_at g = None" by (auto dest!: filter_singletonD)
  show thesis
    using assms g live by (intro that [OF rows])
      (auto simp: resolve_external_grant_def memdot_resolve_external_grant_def Let_def split: if_splits)
qed

lemma visible_spaces:
  assumes "list_all2 (\<lambda>row y. bindr (parse_visibility (sp_visibility row)) (\<lambda>v. Inr (sp_id row, v)) = Inr y) rows vs"
  shows "i \<in> set (map fst (filter (\<lambda>x. snd x \<noteq> PRIVATE) vs)) \<longleftrightarrow>
    (\<exists>row \<in> set rows. sp_id row = i \<and> sp_visibility row \<noteq> ''private'')"
  using assms
  by (induction rows vs rule: list_all2_induct) (auto simp: bindr_Inr_iff parse_visibility_def split: if_splits)

text \<open>Under an external purpose the policy already leaves out the private spaces.\<close>

lemma external_space_ids_Inr:
  assumes "external_space_ids a d = Inr spaces" and "set_purpose (settings d) \<in> set [''external_read'', ''external_interaction'', ''external_propose'']"
  shows "i \<in> set spaces \<longleftrightarrow> memdot_external_space_ok d a i"
proof -
  obtain vs where vs: "list_all2 (\<lambda>row y. bindr (parse_visibility (sp_visibility row)) (\<lambda>v. Inr (sp_id row, v)) = Inr y)
      (filter (\<lambda>row. sp_account_id row = a \<and> space_row_visible d row) (t_space d)) vs" "spaces = map fst (filter (\<lambda>x. snd x \<noteq> PRIVATE) vs)"
    using assms(1) by (auto simp: external_space_ids_def bindr_Inr_iff map_res_Inr_iff)
  have "\<not> internal_purpose d" using assms(2) by (auto simp: internal_purpose_def)
  then show ?thesis
    unfolding vs(2) visible_spaces [OF vs(1)] using assms(2)
    by (auto simp: space_row_visible_def memdot_external_space_ok_def)
qed

text \<open>A context was built for an account, an actor, a purpose and scopes.\<close>

definition context_for :: "RequestContext \<Rightarrow> uuid \<Rightarrow> uuid \<Rightarrow> RequestPurpose \<Rightarrow> string list \<Rightarrow> 'a core_db_scheme \<Rightarrow> bool" where
  "context_for ctx account actor purpose scopes d \<longleftrightarrow>
     ctx_account_id ctx = account \<and> ctx_actor_id ctx = actor \<and> ctx_purpose ctx = purpose \<and> ctx_scopes ctx = scopes \<and>
     purpose \<in> set EXTERNAL_PURPOSES \<and> scopes_allow_purpose scopes purpose \<and>
     (\<forall>i. i \<in> set (ctx_eligible_space_ids ctx) \<longleftrightarrow>
        (\<exists>row \<in> set (t_space d). sp_account_id row = account \<and> sp_id row = i \<and> sp_visibility row \<in> {''general'', ''learning''})) \<and>
     (\<exists>act. find_actor d account actor = Some act \<and> act_revoked_at act = None \<and> act_kind act = ''external_client'')"

lemma build_external_Some:
  assumes "build_external_request_context E hdr account actor purpose scopes (d, ps) = Inr (Some ctx, d', ps')"
  shows "context_for ctx account actor purpose scopes d \<and> (\<exists>g. d' = d\<lparr> settings := g \<rparr> \<and> set_purpose g = purpose_value purpose)"
proof -
  let ?c = "\<lparr> tc_account_id = account, tc_actor_id = actor, tc_purpose = purpose \<rparr>"
  have p: "purpose \<in> set EXTERNAL_PURPOSES" "scopes_allow_purpose scopes purpose"
    using assms by (auto simp: build_external_request_context_def split: if_splits)
  obtain s1 where s1: "bindr (reset_tenant_context (d, ps)) (apply_tenant_context E ?c) = Inr s1"
    using assms p by (auto simp: build_external_request_context_def split: sum.splits err.splits)
  obtain spaces where spaces: "external_space_ids account (tables s1) = Inr spaces"
    and ctx: "ctx = \<lparr> ctx_account_id = account, ctx_actor_id = actor, ctx_user_id = actor, ctx_purpose = purpose,
        ctx_correlation_id = correlation_id_for_request E hdr, ctx_session_id = None, ctx_scopes = scopes,
        ctx_eligible_space_ids = spaces, ctx_last_auth_at = None \<rparr>" "s1 = (d', ps')"
    using assms p s1 by (auto simp: build_external_request_context_def bindr_Inr_iff)
  have app: "apply_tenant_context E ?c (memdot_clear_tenant_context d, ps) = Inr (d', ps')"
    using s1 ctx(2) by (simp add: reset_tenant_context_def)
  have "\<exists>g. d' = d\<lparr> settings := g \<rparr>"
    using apply_only_settings [OF app] by (auto simp: memdot_clear_tenant_context_def)
  then obtain g where d': "d' = d\<lparr> settings := g \<rparr>" "set_purpose g = purpose_value purpose" using apply_purpose [OF app] by auto
  have "set_purpose (settings d') \<in> set [''external_read'', ''external_interaction'', ''external_propose'']"
    using p(1) d' by (auto simp: EXTERNAL_PURPOSES_def purpose_value_def)
  then have elig: "\<forall>i. i \<in> set spaces \<longleftrightarrow> memdot_external_space_ok d' account i"
    using external_space_ids_Inr [of account d' spaces] spaces ctx(2) by simp
  have "\<exists>act. find_actor d account actor = Some act \<and> act_revoked_at act = None \<and> act_kind act = ''external_client''"
    using app
  proof (rule apply_Inr)
    fix sig
    assume "memdot_begin_tenant_context E (tc_account_id ?c) (tc_actor_id ?c) (purpose_value (tc_purpose ?c)) (clock E) (nonce_hex E)
        sig (memdot_clear_tenant_context d) = Inr d'"
    then show ?thesis
      by (rule begin_Inr)
        (use p(1) in \<open>auto simp: check_purpose_actor_def EXTERNAL_PURPOSES_def purpose_value_def memdot_clear_tenant_context_def
           split: if_splits\<close>)
  qed
  then show ?thesis
    using p elig ctx d' by (auto simp: context_for_def memdot_external_space_ok_def)
qed

lemma build_external_served:
  assumes "build_external_request_context E hdr account actor purpose scopes (d, ps) = Inr (Some ctx, d', ps')" and "space_key d"
  shows "served_context d' ctx"
proof -
  obtain g where c: "context_for ctx account actor purpose scopes d"
    and d': "d' = d\<lparr> settings := g \<rparr>" "set_purpose g = purpose_value purpose"
    using build_external_Some [OF assms(1)] by blast
  have "\<not> private_space d account i" if "i \<in> set (ctx_eligible_space_ids ctx)" for i
  proof (rule external_space_not_private [OF assms(2)])
    show "memdot_external_space_ok d account i" using c that by (auto simp: context_for_def memdot_external_space_ok_def)
  qed
  then show ?thesis
    using c d' assms(2) by (auto simp: served_context_def context_for_def space_key_def private_space_def)
qed

lemma parse_service_auth_tables:
  assumes "parse_service_auth E os utf8 hdr secret (d, []) = Inr (sg, s1)"
  shows "\<exists>d1. s1 = (d1, []) \<and> t_grant d1 = t_grant d \<and> t_space d1 = t_space d \<and> t_actor d1 = t_actor d"
  using assms unfolding parse_service_auth_def consume_service_auth_nonce_def
  by (auto simp: bindr_Inr_iff memdot_consume_service_auth_nonce_def Let_def split: sum.splits option.splits if_splits prod.splits)

lemma context_purpose:
  "build_external_request_context E hdr account actor purpose scopes (d, ps) = Inr (Some ctx, s') \<Longrightarrow> ctx_purpose ctx = purpose"
  using build_external_Some [of E hdr account actor purpose scopes d ps ctx "fst s'" "snd s'"] by (simp add: context_for_def)

lemma context_resolved:
  assumes "(case sg of Some g \<Rightarrow> service_context E hdr required g (d, []) | None \<Rightarrow> bearer_context J E os hdr required (d, [])) =
    Inr (Some ctx, s')"
  shows "\<exists>client account actor scopes r. resolve_external_grant client account actor scopes d = Inr r \<and>
    build_external_request_context E hdr (reg_account_id r) (reg_actor_id r) (ctx_purpose ctx) (reg_scopes r) (d, []) = Inr (Some ctx, s') \<and>
    (required = None \<or> required = Some (ctx_purpose ctx))"
proof (cases sg)
  case (Some g)
  obtain r where "resolve_external_grant (sag_client_id g) (Some (sag_account_id g)) (Some (sag_actor_id g)) (sag_scopes g) d = Inr r"
    and b: "build_external_request_context E hdr (reg_account_id r) (reg_actor_id r)
      (case required of None \<Rightarrow> sag_purpose g | Some p \<Rightarrow> p) (reg_scopes r) (d, []) = Inr (Some ctx, s')"
    using assms Some by (auto simp: service_context_def split: sum.splits err.splits if_splits)
  moreover have "required = None \<or> required = Some (ctx_purpose ctx)" using context_purpose [OF b] by (cases required) simp_all
  ultimately show ?thesis using b context_purpose [OF b] by metis
next
  case None
  obtain token resource r where "token_grant J E os token resource d = Inr r"
    and b: "build_external_request_context E hdr (reg_account_id r) (reg_actor_id r)
      (case required of None \<Rightarrow> EXTERNAL_READ | Some p \<Rightarrow> p) (reg_scopes r) (d, []) = Inr (Some ctx, s')"
    using assms None by (auto simp: bearer_context_def Let_def split: option.splits sum.splits err.splits if_splits)
  then obtain client account actor scopes where "resolve_external_grant client account actor scopes d = Inr r"
    by (auto simp: token_grant_def Let_def bindr_Inr_iff)
  moreover have "required = None \<or> required = Some (ctx_purpose ctx)" using context_purpose [OF b] by (cases required) simp_all
  ultimately show ?thesis using b context_purpose [OF b] by metis
qed

section \<open>Properties\<close>

text \<open>
  (C3) Access rests on the grant in the database: whichever way an external caller authenticates, the context it gets is for the
  account and the actor of a grant that is not revoked, the only such grant that matches what the caller named; its scopes are among
  the grant's, they allow the purpose, the purpose is the required one if the route requires one; the actor is an external client
  that is not revoked; the eligible spaces are exactly the account's general and learning spaces, none of them private; and the
  tables are left as the services expect them (\<open>served_context\<close>).
\<close>

theorem external_context_granted:
  assumes "load_mcp_context J E os utf8 hdr required (d, []) = Inr (Some ctx, d', ps')"
  shows "\<exists>g \<in> set (t_grant d). gr_revoked_at g = None \<and> gr_account_id g = ctx_account_id ctx \<and> gr_actor_id g = ctx_actor_id ctx \<and>
    set (ctx_scopes ctx) \<subseteq> set (parse_scopes (JStr (gr_scopes g))) \<and>
    (\<forall>h \<in> set (t_grant d). gr_client_id h = gr_client_id g \<and> gr_account_id h = gr_account_id g \<and> gr_actor_id h = gr_actor_id g \<and>
       gr_revoked_at h = None \<longrightarrow> h = g) \<and>
    (required = None \<or> required = Some (ctx_purpose ctx)) \<and>
    context_for ctx (gr_account_id g) (gr_actor_id g) (ctx_purpose ctx) (ctx_scopes ctx) d \<and>
    (space_key d \<longrightarrow> served_context d' ctx)"
proof -
  obtain sg s1 where p: "parse_service_auth E os utf8 hdr (environ_first os ''CORE_MCP_SERVICE_SECRET'' ''MCP_CORE_SERVICE_SECRET'')
      (d, []) = Inr (sg, s1)"
    and run: "(case sg of Some g \<Rightarrow> service_context E hdr required g s1 | None \<Rightarrow> bearer_context J E os hdr required s1) =
      Inr (Some ctx, d', ps')"
    using assms by (auto simp: load_mcp_context_def load_external_context_def bindr_Inr_iff)
  obtain d1 where s1: "s1 = (d1, [])" and same: "t_grant d1 = t_grant d" "t_space d1 = t_space d" "t_actor d1 = t_actor d"
    using parse_service_auth_tables [OF p] by blast
  obtain client account actor scopes r where r: "resolve_external_grant client account actor scopes d1 = Inr r"
    and b: "build_external_request_context E hdr (reg_account_id r) (reg_actor_id r) (ctx_purpose ctx) (reg_scopes r) (d1, []) =
      Inr (Some ctx, d', ps')" and req: "required = None \<or> required = Some (ctx_purpose ctx)"
    using context_resolved [OF run [unfolded s1]] by blast
  have c: "context_for ctx (reg_account_id r) (reg_actor_id r) (ctx_purpose ctx) (reg_scopes r) d1" using build_external_Some [OF b] ..
  from r show ?thesis
  proof (rule resolve_external_grant_Inr)
    fix g
    let ?P = "\<lambda>g. gr_client_id g = client \<and> (account = None \<or> account = Some (gr_account_id g)) \<and>
        (actor = None \<or> actor = Some (gr_actor_id g)) \<and> gr_revoked_at g = None"
    assume rows: "filter ?P (t_grant d1) = [g]" and reg: "reg_account_id r = gr_account_id g" "reg_actor_id r = gr_actor_id g"
      and sc: "set (reg_scopes r) = set scopes \<inter> set (parse_scopes (JStr (gr_scopes g)))"
    have g: "g \<in> set (t_grant d)" "?P g" using filter_singletonD [OF rows] same(1) by simp_all
    have "h = g" if "h \<in> set (t_grant d)" "gr_client_id h = gr_client_id g" "gr_account_id h = gr_account_id g"
      "gr_actor_id h = gr_actor_id g" "gr_revoked_at h = None" for h
    proof -
      have "h \<in> set (filter ?P (t_grant d1))" using that g(2) same(1) by auto
      then show ?thesis unfolding rows by simp
    qed
    moreover have "context_for ctx (gr_account_id g) (gr_actor_id g) (ctx_purpose ctx) (ctx_scopes ctx) d"
      using c reg same by (auto simp: context_for_def find_actor_def)
    moreover have "set (ctx_scopes ctx) \<subseteq> set (parse_scopes (JStr (gr_scopes g)))" using c sc by (auto simp: context_for_def)
    moreover have "space_key d \<longrightarrow> served_context d' ctx"
      using build_external_served [OF b] same(2) by (simp add: space_key_def)
    ultimately show ?thesis using g req by (auto simp: context_for_def)
  qed
qed

section \<open>A concrete client\<close>

definition demo_jwt :: jwt_env where
  "demo_jwt = \<lparr> jwks_client = (\<lambda>_. Inl (BearerValidationError ''jwks_discovery_failed'')),
     jwt_decode = (\<lambda>token key algs issuer audience leeway.
       if key = ''hs'' then Some [(''exp'', JInt 50), (''sub'', JStr ''u''), (''aud'', JStr ''mcp''), (''client_id'', JStr ''chat''),
         (''scope'', JStr ''memdot.memory.read memdot.memory.propose'')] else None),
     jwks_rotation = (\<lambda>_ _. Inl (BearerValidationError ''jwks_discovery_failed'')) \<rparr>"

definition demo_oauth :: environ where
  "demo_oauth name = map_of [(''CORE_OIDC_ISSUER'', ''idp''), (''CORE_OIDC_AUDIENCE'', ''mcp''), (''CORE_MCP_RESOURCE'', ''mcp''),
     (''CORE_MCP_JWT_HS256_KEY'', ''hs'')] name"

definition demo_bearer :: headers where
  "demo_bearer name = (if name = ''Authorization'' then Some ''Bearer tok'' else None)"

definition demo_external_db :: access_db where
  "demo_external_db = core_db.extend (demo_core\<lparr> t_actor := t_actor demo_client,
     t_grant := [\<lparr> gr_id = 23, gr_account_id = 1, gr_actor_id = 22, gr_client_id = ''chat'', gr_scopes = ''memdot.memory.read'',
       gr_revoked_at = None, gr_created_at = 0 \<rparr>] \<rparr>) \<lparr> t_service_nonce = [] \<rparr>"

lemma demo_validated:
  "validate_bearer_token demo_jwt demo_env ''tok'' ''idp'' ''mcp'' (Some ''mcp'') True None (Some ''hs'') (Some [''HS256'']) 30 =
     Inr \<lparr> bc_claims = [(''exp'', JInt 50), (''sub'', JStr ''u''), (''aud'', JStr ''mcp''), (''client_id'', JStr ''chat''),
         (''scope'', JStr ''memdot.memory.read memdot.memory.propose'')],
       bc_scopes = [''memdot.memory.read'', ''memdot.memory.propose''], bc_client_id = ''chat'', bc_subject = ''u'', bc_expires_at = 50 \<rparr>"
  by code_simp

lemma demo_token_grant:
  "token_grant demo_jwt demo_env demo_oauth ''tok'' ''mcp'' demo_external_db =
     Inr \<lparr> reg_grant_id = 23, reg_account_id = 1, reg_actor_id = 22, reg_client_id = ''chat'', reg_scopes = [''memdot.memory.read''] \<rparr>"
proof -
  have "py_strip (environ_or demo_oauth ''CORE_OIDC_ISSUER'' ''MCP_OIDC_ISSUER'') = ''idp''" "mcp_audience demo_oauth = ''mcp''"
    "environ_first demo_oauth ''CORE_MCP_JWT_HS256_KEY'' ''MCP_JWT_HS256_KEY'' = Some ''hs''"
    by code_simp+
  moreover have "parse_scopes (JStr ''memdot.memory.read'') = [''memdot.memory.read'']" "py_strip ''chat'' = ''chat''"
    by code_simp+
  ultimately show ?thesis
    by (simp add: token_grant_def demo_validated hint_uuid_def jor_def jget_def truthy_str_def resolve_external_grant_def
        memdot_resolve_external_grant_def demo_external_db_def core_db.defs)
qed

lemma demo_context:
  obtains d' where "load_mcp_context demo_jwt demo_env demo_oauth Some demo_bearer (Some EXTERNAL_READ) (demo_external_db, []) =
    Inr (Some \<lparr> ctx_account_id = 1, ctx_actor_id = 22, ctx_user_id = 22, ctx_purpose = EXTERNAL_READ, ctx_correlation_id = 1000,
      ctx_session_id = None, ctx_scopes = [''memdot.memory.read''], ctx_eligible_space_ids = [5], ctx_last_auth_at = None \<rparr>, d', [])"
proof -
  have unsigned: "parse_service_auth demo_env demo_oauth Some demo_bearer None (demo_external_db, []) = Inr (None, demo_external_db, [])"
    "environ_first demo_oauth ''CORE_MCP_SERVICE_SECRET'' ''MCP_CORE_SERVICE_SECRET'' = None"
    "extract_bearer demo_bearer = Some ''tok''" "mcp_resource demo_oauth = Some ''mcp''"
    "correlation_id_for_request demo_env demo_bearer = 1000"
    subgoal by (simp add: parse_service_auth_def resolve_mcp_service_secret_def environ_or_def demo_oauth_def require_secret_def MIN_SECRET_BYTES_def
        py_strip_def py_lstrip_def)
    by code_simp+
  have allowed: "scopes_allow_purpose [''memdot.memory.read''] EXTERNAL_READ" "EXTERNAL_READ \<in> set EXTERNAL_PURPOSES"
    by code_simp+
  let ?c = "\<lparr> tc_account_id = 1, tc_actor_id = 22, tc_purpose = EXTERNAL_READ \<rparr>"
  obtain g where g: "apply_tenant_context demo_env ?c (memdot_clear_tenant_context demo_external_db, []) =
      Inr (demo_external_db\<lparr> settings := g \<rparr>, [])"
    by (simp add: apply_tenant_context_def RUNTIME_PURPOSES_def PURPOSES_def sign_tenant_context_def tenant_signing_key_def
        demo_env_def purpose_value_def demo_external_db_def demo_client_def core_db.defs memdot_begin_tenant_context_def
        check_purpose_actor_def find_actor_def latest_grant_def memdot_clear_tenant_context_def)
  have "set_purpose g = ''external_read''" using apply_purpose [OF g] by (simp add: purpose_value_def)
  then have "external_space_ids 1 (demo_external_db\<lparr> settings := g \<rparr>) = Inr [5]"
    by (simp add: external_space_ids_def demo_external_db_def demo_core_def core_db.defs parse_visibility_def space_row_visible_def
        internal_purpose_def)
  then show thesis
    using that g unsigned allowed demo_token_grant
    by (simp add: load_mcp_context_def load_external_context_def bearer_context_def build_external_request_context_def reset_tenant_context_def)
qed

theorem external_context_granted_witness:
  "\<exists>ctx d'. set (ctx_eligible_space_ids ctx) = {5} \<and> gr_revoked_at (hd (t_grant demo_external_db)) = None \<and>
    ctx_account_id ctx = 1 \<and> ctx_scopes ctx = [''memdot.memory.read''] \<and>
    context_for ctx 1 22 EXTERNAL_READ [''memdot.memory.read''] demo_external_db \<and> served_context (d' :: access_db) ctx"
proof -
  obtain d' where run: "load_mcp_context demo_jwt demo_env demo_oauth Some demo_bearer (Some EXTERNAL_READ) (demo_external_db, []) =
    Inr (Some \<lparr> ctx_account_id = 1, ctx_actor_id = 22, ctx_user_id = 22, ctx_purpose = EXTERNAL_READ, ctx_correlation_id = 1000,
      ctx_session_id = None, ctx_scopes = [''memdot.memory.read''], ctx_eligible_space_ids = [5], ctx_last_auth_at = None \<rparr>, d', [])"
    by (rule demo_context)
  have "space_key demo_external_db" by (simp add: space_key_def demo_external_db_def demo_core_def core_db.defs)
  from external_context_granted [OF run] this show ?thesis
    by (intro exI [of _ "\<lparr> ctx_account_id = 1, ctx_actor_id = 22, ctx_user_id = 22, ctx_purpose = EXTERNAL_READ, ctx_correlation_id = 1000,
      ctx_session_id = None, ctx_scopes = [''memdot.memory.read''], ctx_eligible_space_ids = [5], ctx_last_auth_at = None \<rparr>"]
      exI [of _ d']) (auto simp: demo_external_db_def core_db.defs)
qed

end
