(* ===== verification/Sessions.thy ===== *)
theory Sessions
  imports External_Access Conversations
begin

text \<open>
  Browser sessions: the identity tables (\<open>db/models/tenancy.py\<close>), session secrets and lifetimes (\<open>auth/sessions.py\<close>) and the
  request context of a first-party call (\<open>request_context.py\<close>), below \<open>services/core/src/memdot_core\<close>, with the database
  function \<open>memdot_auth_load_session\<close> of migration 0001. Cookies are the function \<open>request.cookies.get\<close>; AES-GCM and the digest
  bytes are the fields of \<open>crypto\<close>.
\<close>

section \<open>Identity tables\<close>

record User =
  us_id :: uuid
  us_account_id :: uuid
  us_email :: "string option"
  us_display_name :: "string option"
  us_created_at :: datetime

record ExternalIdentity =
  ei_id :: uuid
  ei_account_id :: uuid
  ei_user_id :: uuid
  ei_issuer :: string
  ei_subject :: string
  ei_provider :: "string option"
  ei_created_at :: datetime

record BrowserSession =
  bs_id :: uuid
  bs_account_id :: uuid
  bs_user_id :: uuid
  bs_actor_id :: uuid
  bs_secret_hash :: string
  bs_csrf_token_hash :: string
  bs_expires_at :: datetime
  bs_idle_expires_at :: datetime
  bs_last_auth_at :: datetime
  bs_rotated_at :: "datetime option"
  bs_revoked_at :: "datetime option"
  bs_created_at :: datetime

record SessionRevocation =
  rv_id :: uuid
  rv_account_id :: uuid
  rv_session_id :: uuid
  rv_revoked_at :: datetime

record HostedAdultAttestation =
  ha_id :: uuid
  ha_account_id :: uuid
  ha_user_id :: uuid
  ha_confirmed :: bool
  ha_attested_at :: datetime

record OperatorBootstrap =
  ob_id :: uuid
  ob_account_id :: uuid
  ob_issuer :: string
  ob_subject :: string
  ob_singleton_key :: int
  ob_completed_at :: datetime
  ob_revoked_at :: "datetime option"

record OidcLoginChallenge =
  lc_id :: uuid
  lc_state_hash :: string
  lc_nonce_hash :: string
  lc_pkce_verifier_ciphertext :: string
  lc_expires_at :: datetime
  lc_consumed_at :: "datetime option"
  lc_created_at :: datetime

record OidcTokenReplay =
  tr_id :: uuid
  tr_issuer :: string
  tr_jti :: string
  tr_expires_at :: datetime
  tr_created_at :: datetime

record identity_db = access_db +
  t_user :: "User list"
  t_identity :: "ExternalIdentity list"
  t_browser_session :: "BrowserSession list"
  t_revocation :: "SessionRevocation list"
  t_attestation :: "HostedAdultAttestation list"
  t_bootstrap :: "OperatorBootstrap list"
  t_challenge :: "OidcLoginChallenge list"
  t_token_replay :: "OidcTokenReplay list"

definition insert_account :: "Account \<Rightarrow> 'a identity_db_scheme \<Rightarrow> 'a identity_db_scheme res" where
  "insert_account r d =
     bindr (unique_key ''pk_account'' (\<lambda>r. Some (acc_id r)) r (t_account d)) (\<lambda>_.
     bindr (check_in ''ck_account_status'' (acc_status r) [''pending_attestation'', ''active'', ''disabled'']) (\<lambda>_.
     Inr (d\<lparr> t_account := t_account d @ [r\<lparr> acc_account_id := acc_id r \<rparr>] \<rparr>)))"

definition insert_user :: "User \<Rightarrow> 'a identity_db_scheme \<Rightarrow> 'a identity_db_scheme res" where
  "insert_user r d =
     bindr (unique_key ''pk_user'' (\<lambda>r. Some (us_id r)) r (t_user d)) (\<lambda>_.
     bindr (foreign_key ''fk_user_account'' (Some (us_account_id r)) acc_id (t_account d)) (\<lambda>_.
     Inr (d\<lparr> t_user := t_user d @ [r] \<rparr>)))"

definition user_key :: "User \<Rightarrow> uuid \<times> uuid" where
  "user_key u = (us_account_id u, us_id u)"

definition insert_member :: "AccountMember \<Rightarrow> 'a identity_db_scheme \<Rightarrow> 'a identity_db_scheme res" where
  "insert_member r d =
     bindr (unique_key ''pk_account_member'' (\<lambda>r. Some (am_id r)) r (t_account_member d)) (\<lambda>_.
     bindr (unique_key ''uq_account_member_2'' (\<lambda>r. Some (am_account_id r, am_user_id r)) r (t_account_member d)) (\<lambda>_.
     bindr (foreign_key ''fk_account_member_user'' (Some (am_account_id r, am_user_id r)) user_key (t_user d)) (\<lambda>_.
     Inr (d\<lparr> t_account_member := t_account_member d @ [r] \<rparr>))))"

definition insert_identity :: "ExternalIdentity \<Rightarrow> 'a identity_db_scheme \<Rightarrow> 'a identity_db_scheme res" where
  "insert_identity r d =
     bindr (unique_key ''pk_external_identity'' (\<lambda>r. Some (ei_id r)) r (t_identity d)) (\<lambda>_.
     bindr (unique_key ''uq_external_identity_1'' (\<lambda>r. Some (ei_issuer r, ei_subject r)) r (t_identity d)) (\<lambda>_.
     bindr (foreign_key ''fk_external_identity_user'' (Some (ei_account_id r, ei_user_id r)) user_key (t_user d)) (\<lambda>_.
     Inr (d\<lparr> t_identity := t_identity d @ [r] \<rparr>))))"

definition insert_actor :: "Actor \<Rightarrow> 'a identity_db_scheme \<Rightarrow> 'a identity_db_scheme res" where
  "insert_actor r d =
     bindr (unique_key ''pk_actor'' (\<lambda>r. Some (act_id r)) r (t_actor d)) (\<lambda>_.
     bindr (check_in ''ck_actor_kind'' (act_kind r) [''user'', ''external_client'', ''system'']) (\<lambda>_.
     bindr (foreign_key ''fk_actor_account'' (Some (act_account_id r)) acc_id (t_account d)) (\<lambda>_.
     Inr (d\<lparr> t_actor := t_actor d @ [r] \<rparr>))))"

definition insert_browser_session :: "BrowserSession \<Rightarrow> 'a identity_db_scheme \<Rightarrow> 'a identity_db_scheme res" where
  "insert_browser_session r d =
     bindr (unique_key ''pk_browser_session'' (\<lambda>r. Some (bs_id r)) r (t_browser_session d)) (\<lambda>_.
     bindr (foreign_key ''fk_browser_session_user'' (Some (bs_account_id r, bs_user_id r)) user_key (t_user d)) (\<lambda>_.
     bindr (foreign_key ''fk_browser_session_actor'' (Some (bs_account_id r, bs_actor_id r))
       (\<lambda>a. (act_account_id a, act_id a)) (t_actor d)) (\<lambda>_.
     Inr (d\<lparr> t_browser_session := t_browser_session d @ [r] \<rparr>))))"

definition insert_revocation :: "SessionRevocation \<Rightarrow> 'a identity_db_scheme \<Rightarrow> 'a identity_db_scheme res" where
  "insert_revocation r d =
     bindr (unique_key ''pk_session_revocation'' (\<lambda>r. Some (rv_id r)) r (t_revocation d)) (\<lambda>_.
     bindr (foreign_key ''fk_session_revocation_session'' (Some (rv_account_id r, rv_session_id r))
       (\<lambda>b. (bs_account_id b, bs_id b)) (t_browser_session d)) (\<lambda>_.
     Inr (d\<lparr> t_revocation := t_revocation d @ [r] \<rparr>)))"

definition insert_attestation :: "HostedAdultAttestation \<Rightarrow> 'a identity_db_scheme \<Rightarrow> 'a identity_db_scheme res" where
  "insert_attestation r d =
     bindr (unique_key ''pk_hosted_adult_attestation'' (\<lambda>r. Some (ha_id r)) r (t_attestation d)) (\<lambda>_.
     bindr (unique_key ''uq_hosted_adult_attestation_1'' (\<lambda>r. Some (ha_account_id r, ha_user_id r)) r (t_attestation d)) (\<lambda>_.
     bindr (foreign_key ''fk_attestation_user'' (Some (ha_account_id r, ha_user_id r)) user_key (t_user d)) (\<lambda>_.
     Inr (d\<lparr> t_attestation := t_attestation d @ [r] \<rparr>))))"

definition insert_bootstrap :: "OperatorBootstrap \<Rightarrow> 'a identity_db_scheme \<Rightarrow> 'a identity_db_scheme res" where
  "insert_bootstrap r d =
     bindr (unique_key ''pk_operator_bootstrap'' (\<lambda>r. Some (ob_id r)) r (t_bootstrap d)) (\<lambda>_.
     bindr (unique_key ''uq_operator_bootstrap_singleton'' (\<lambda>r. Some (ob_singleton_key r)) r (t_bootstrap d)) (\<lambda>_.
     bindr (guard_res (ob_singleton_key r = 1) (IntegrityError ''ck_operator_bootstrap_singleton'')) (\<lambda>_.
     bindr (foreign_key ''fk_operator_bootstrap_account'' (Some (ob_account_id r)) acc_id (t_account d)) (\<lambda>_.
     Inr (d\<lparr> t_bootstrap := t_bootstrap d @ [r] \<rparr>)))))"

definition insert_challenge :: "OidcLoginChallenge \<Rightarrow> 'a identity_db_scheme \<Rightarrow> 'a identity_db_scheme res" where
  "insert_challenge r d =
     bindr (unique_key ''pk_oidc_login_challenge'' (\<lambda>r. Some (lc_id r)) r (t_challenge d)) (\<lambda>_.
     bindr (unique_key ''uq_oidc_login_challenge_state'' (\<lambda>r. Some (lc_state_hash r)) r (t_challenge d)) (\<lambda>_.
     Inr (d\<lparr> t_challenge := t_challenge d @ [r] \<rparr>)))"

definition insert_token_replay :: "OidcTokenReplay \<Rightarrow> 'a identity_db_scheme \<Rightarrow> 'a identity_db_scheme res" where
  "insert_token_replay r d =
     bindr (unique_key ''pk_oidc_token_replay'' (\<lambda>r. Some (tr_id r)) r (t_token_replay d)) (\<lambda>_.
     bindr (unique_key ''uq_oidc_token_replay_1'' (\<lambda>r. Some (tr_issuer r, tr_jti r)) r (t_token_replay d)) (\<lambda>_.
     Inr (d\<lparr> t_token_replay := t_token_replay d @ [r] \<rparr>)))"

lemmas identity_inserts = insert_account_def insert_user_def insert_member_def insert_identity_def insert_actor_def
  insert_browser_session_def insert_revocation_def insert_attestation_def insert_bootstrap_def insert_challenge_def
  insert_token_replay_def

interpretation browser_sessions: keyed_table t_browser_session bs_id insert_browser_session
  by unfold_locales (auto simp: insert_browser_session_def bindr_Inr_iff)

interpretation identities: keyed_table t_identity "\<lambda>r. (ei_issuer r, ei_subject r)" insert_identity
  by unfold_locales (auto simp: insert_identity_def bindr_Inr_iff)

interpretation challenges: keyed_table t_challenge lc_state_hash insert_challenge
  by unfold_locales (auto simp: insert_challenge_def bindr_Inr_iff)

interpretation bootstraps: keyed_table t_bootstrap ob_singleton_key insert_bootstrap
  by unfold_locales (auto simp: insert_bootstrap_def bindr_Inr_iff)

section \<open>Secrets and lifetimes\<close>

record SessionMaterial =
  sm_session_id :: uuid
  sm_secret :: string
  sm_csrf_token :: string

definition session_pepper :: "environ \<Rightarrow> string res" where
  "session_pepper os =
     (let pepper = (case os ''CORE_SESSION_SIGNING_PEPPER'' of None \<Rightarrow> [] | Some v \<Rightarrow> v)
      in if length pepper < 16 then Inl (RuntimeError ''CORE_SESSION_SIGNING_PEPPER must contain at least 16 characters'')
         else Inr pepper)"

definition hash_secret :: "env \<Rightarrow> environ \<Rightarrow> string \<Rightarrow> string res" where
  "hash_secret E os v = bindr (session_pepper os) (\<lambda>pepper. Inr (hmac_sha256 E pepper v))"

text \<open>\<open>token k\<close> is the \<open>k\<close>-th result of \<open>secrets.token_urlsafe\<close> in a request, \<open>i\<close> the index of the fresh id.\<close>

definition new_session_material :: "env \<Rightarrow> (nat \<Rightarrow> string) \<Rightarrow> nat \<Rightarrow> SessionMaterial" where
  "new_session_material E token i = \<lparr> sm_session_id = fresh E i, sm_secret = token 0, sm_csrf_token = token 1 \<rparr>"

definition session_expiry :: "datetime \<Rightarrow> int \<Rightarrow> int \<Rightarrow> datetime \<times> datetime" where
  "session_expiry current ttl_hours idle_minutes = (current + ttl_hours * 3600000000, current + idle_minutes * 60000000)"

definition verify_session_secret :: "env \<Rightarrow> environ \<Rightarrow> string \<Rightarrow> string \<Rightarrow> bool res" where
  "verify_session_secret E os secret secret_hash = bindr (hash_secret E os secret) (\<lambda>h. compare_digest h secret_hash)"

definition verify_csrf_token :: "env \<Rightarrow> environ \<Rightarrow> string \<Rightarrow> string \<Rightarrow> bool res" where
  "verify_csrf_token E os token token_hash = bindr (hash_secret E os token) (\<lambda>h. compare_digest h token_hash)"

definition PKCE_AAD :: string where
  "PKCE_AAD = ''memdot-oidc-pkce-v1''"

definition encrypt_ephemeral_secret :: "crypto \<Rightarrow> environ \<Rightarrow> string \<Rightarrow> string res" where
  "encrypt_ephemeral_secret C os v =
     bindr (session_pepper os) (\<lambda>pepper.
     let key = sha256_digest C pepper; nonce = token_bytes C
     in Inr (b64encode (nonce @ aesgcm_encrypt C key nonce v PKCE_AAD)))"

definition decrypt_ephemeral_secret :: "crypto \<Rightarrow> environ \<Rightarrow> string \<Rightarrow> string res" where
  "decrypt_ephemeral_secret C os v =
     bindr (session_pepper os) (\<lambda>pepper.
     case b64decode v of
       None \<Rightarrow> Inl (ValueError ''Incorrect padding'')
     | Some raw \<Rightarrow>
         if length raw < 13 then Inl (ValueError ''invalid encrypted auth material'')
         else (case aesgcm_decrypt C (sha256_digest C pepper) (take 12 raw) (drop 12 raw) PKCE_AAD of
                 None \<Rightarrow> Inl InvalidTag | Some p \<Rightarrow> Inr p))"

definition is_session_active :: "datetime \<Rightarrow> datetime \<Rightarrow> datetime option \<Rightarrow> datetime \<Rightarrow> bool" where
  "is_session_active expires_at idle_expires_at revoked_at current \<longleftrightarrow>
     revoked_at = None \<and> current \<le> expires_at \<and> current \<le> idle_expires_at"

definition recent_auth_satisfied :: "datetime \<Rightarrow> int \<Rightarrow> datetime \<Rightarrow> bool" where
  "recent_auth_satisfied last_auth_at max_age_minutes current \<longleftrightarrow> current - last_auth_at \<le> max_age_minutes * 60000000"

section \<open>The first-party request context\<close>

definition memdot_auth_load_session :: "uuid \<Rightarrow> string \<Rightarrow> 'a identity_db_scheme \<Rightarrow> BrowserSession list" where
  "memdot_auth_load_session session_id secret_hash d =
     filter (\<lambda>b. bs_id b = session_id \<and> bs_secret_hash b = secret_hash \<and> bs_revoked_at b = None) (t_browser_session d)"

text \<open>\<open>cookie.split(".", 1)\<close>; \<open>None\<close> when there is no dot.\<close>

definition split_dot :: "string \<Rightarrow> (string \<times> string) option" where
  "split_dot s =
     (if CHR ''.'' \<in> set s then Some (takeWhile (\<lambda>c. c \<noteq> CHR ''.'') s, tl (dropWhile (\<lambda>c. c \<noteq> CHR ''.'') s)) else None)"

definition first_session :: "BrowserSession list \<Rightarrow> BrowserSession option" where
  "first_session rows = (case rows of [] \<Rightarrow> None | r # _ \<Rightarrow> Some r)"

definition session_request_context :: "env \<Rightarrow> headers \<Rightarrow> BrowserSession \<Rightarrow> RequestContext" where
  "session_request_context E hdr b =
     \<lparr> ctx_account_id = bs_account_id b, ctx_actor_id = bs_actor_id b, ctx_user_id = bs_user_id b, ctx_purpose = FIRST_PARTY,
       ctx_correlation_id = correlation_id_for_request E hdr, ctx_session_id = Some (bs_id b), ctx_scopes = [],
       ctx_eligible_space_ids = [], ctx_last_auth_at = Some (bs_last_auth_at b) \<rparr>"

definition load_session_context ::
    "env \<Rightarrow> environ \<Rightarrow> (string \<Rightarrow> string option) \<Rightarrow> headers \<Rightarrow> bool \<Rightarrow> 'a identity_db_scheme \<Rightarrow> RequestContext option res" where
  "load_session_context E os cookies hdr csrf_required d =
     (case Option.bind (cookies ''memdot_session'') split_dot of
        None \<Rightarrow> Inr None
      | Some (session_id_raw, secret) \<Rightarrow>
          (case parse_uuid session_id_raw of
             Inl _ \<Rightarrow> Inr None
           | Inr session_id \<Rightarrow>
               (case hash_secret E os secret of
                  Inl _ \<Rightarrow> Inr None
                | Inr secret_digest \<Rightarrow>
                    (case first_session (memdot_auth_load_session session_id secret_digest d) of
                       None \<Rightarrow> Inr None
                     | Some row \<Rightarrow>
                         if \<not> is_session_active (bs_expires_at row) (bs_idle_expires_at row) (bs_revoked_at row) (now E)
                         then Inr None
                         else
                           bindr (if csrf_required
                               then let csrf_header = (case hdr ''X-CSRF-Token'' of None \<Rightarrow> [] | Some v \<Rightarrow> v)
                                    in if csrf_header = [] then Inr False
                                       else verify_csrf_token E os csrf_header (bs_csrf_token_hash row)
                               else Inr True) (\<lambda>ok.
                           Inr (if ok then Some (session_request_context E hdr row) else None))))))"

definition require_recent_auth_ctx :: "env \<Rightarrow> RequestContext \<Rightarrow> int \<Rightarrow> bool" where
  "require_recent_auth_ctx E ctx max_age_minutes =
     (case ctx_last_auth_at ctx of None \<Rightarrow> False | Some t \<Rightarrow> recent_auth_satisfied t max_age_minutes (now E))"

text \<open>Requests that are not reads need the CSRF token (\<open>deps.py\<close>).\<close>

definition get_request_context ::
    "env \<Rightarrow> environ \<Rightarrow> string \<Rightarrow> (string \<Rightarrow> string option) \<Rightarrow> headers \<Rightarrow> 'a identity_db_scheme \<Rightarrow> RequestContext option res" where
  "get_request_context E os http_method cookies hdr d =
     load_session_context E os cookies hdr (http_method \<notin> set [''GET'', ''HEAD'', ''OPTIONS'']) d"

end
