(* ===== verification/Identity.thy ===== *)
theory Identity
  imports Sessions
begin

text \<open>
  Sign-in and the life of a browser session: the OIDC adapter (\<open>auth/oidc.py\<close>), identity linkage and attestation
  (\<open>auth/activation.py\<close>), the operator bootstrap (\<open>auth/bootstrap.py\<close>) and the handlers of \<open>auth/routes.py\<close>, below
  \<open>services/core/src/memdot_core\<close>, with the database functions \<open>memdot_auth_*\<close> and \<open>memdot_oidc_*\<close> of migration 0001. PyJWT, the key
  endpoint and the HTTP client are the fields of \<open>oidc_env\<close>. A handler runs in one transaction: \<open>Inl\<close> is an exception, which
  rolls it back; a reply commits the session it returns. Header names are written as the code first writes them.
\<close>

section \<open>The OIDC adapter\<close>

datatype jwt_outcome = Decoded dict | ExpiredSignature | InvalidAudience | InvalidIssuer | InvalidSignature | OtherJwtError

record oidc_env =
  http_get :: "string \<Rightarrow> json res"
  http_post :: "string \<Rightarrow> (string \<times> string) list \<Rightarrow> json option"
  id_token_decode :: "string \<Rightarrow> string \<Rightarrow> string \<Rightarrow> jwt_outcome"

record OidcIssuerAdapter =
  oa_issuer :: string
  oa_audience :: string
  oa_hosted_google_only :: bool
  oa_google_issuer_hint :: string
  oa_authorization_endpoint :: "string option"
  oa_token_endpoint :: "string option"

record OidcClaims =
  oc_issuer :: string
  oc_audience :: string
  oc_subject :: string
  oc_email :: "string option"
  oc_provider :: "string option"
  oc_nonce :: "string option"
  oc_expires_at :: int
  oc_jti :: "string option"

definition json_dict :: "json \<Rightarrow> dict res" where
  "json_dict j = (case j of JObj d \<Rightarrow> Inr d | _ \<Rightarrow> Inl AttributeError)"

definition oidc_endpoints :: "oidc_env \<Rightarrow> OidcIssuerAdapter \<Rightarrow> (string \<times> string) res" where
  "oidc_endpoints X a =
     (if truthy_str (oa_authorization_endpoint a) \<and> truthy_str (oa_token_endpoint a)
      then Inr (the (oa_authorization_endpoint a), the (oa_token_endpoint a))
      else
        bindr (http_get X (oa_issuer a @ ''/.well-known/openid-configuration'')) (\<lambda>j.
        bindr (json_dict j) (\<lambda>body.
        let authorization_endpoint = py_str (jget_or body ''authorization_endpoint'' (JStr []));
            token_endpoint = py_str (jget_or body ''token_endpoint'' (JStr []))
        in if authorization_endpoint = [] \<or> token_endpoint = [] then Inl (OidcValidationError ''invalid_discovery'')
           else Inr (authorization_endpoint, token_endpoint))))"

text \<open>\<open>urllib.parse.urlencode\<close> on ASCII text.\<close>

definition hex_digit :: "nat \<Rightarrow> char" where
  "hex_digit n = ''0123456789ABCDEF'' ! n"

definition quote_plus :: "string \<Rightarrow> string" where
  "quote_plus s = concat (map (\<lambda>c.
     if c \<in> set ''ABCDEFGHIJKLMNOPQRSTUVWXYZabcdefghijklmnopqrstuvwxyz0123456789_.-~'' then [c] else if c = CHR '' '' then ''+''
     else [CHR ''%'', hex_digit (of_char c div 16), hex_digit (of_char c mod 16)]) s)"

fun urlencode :: "(string \<times> string) list \<Rightarrow> string" where
  "urlencode [] = []"
| "urlencode [(k, v)] = quote_plus k @ ''='' @ quote_plus v"
| "urlencode ((k, v) # q) = quote_plus k @ ''='' @ quote_plus v @ ''&'' @ urlencode q"

definition authorization_url :: "oidc_env \<Rightarrow> OidcIssuerAdapter \<Rightarrow> string \<Rightarrow> string \<Rightarrow> string \<Rightarrow> string \<Rightarrow> string \<Rightarrow> string res" where
  "authorization_url X a client_id redirect_uri state nonce code_challenge =
     bindr (oidc_endpoints X a) (\<lambda>(authorization_endpoint, _).
     Inr (authorization_endpoint @ ''?'' @ urlencode
       [(''response_type'', ''code''), (''client_id'', client_id), (''redirect_uri'', redirect_uri),
        (''scope'', ''openid email profile''), (''state'', state), (''nonce'', nonce), (''code_challenge'', code_challenge),
        (''code_challenge_method'', ''S256'')]))"

text \<open>\<open>None\<close> of \<open>http_post\<close> is an error of the request, of its status or of its JSON.\<close>

definition exchange_code :: "oidc_env \<Rightarrow> OidcIssuerAdapter \<Rightarrow> string \<Rightarrow> string \<Rightarrow> string \<Rightarrow> string \<Rightarrow> string \<Rightarrow> string res" where
  "exchange_code X a code code_verifier client_id client_secret redirect_uri =
     bindr (oidc_endpoints X a) (\<lambda>(_, token_endpoint).
     case http_post X token_endpoint
         [(''grant_type'', ''authorization_code''), (''code'', code), (''code_verifier'', code_verifier), (''client_id'', client_id),
          (''client_secret'', client_secret), (''redirect_uri'', redirect_uri)] of
       None \<Rightarrow> Inl (OidcValidationError ''oidc_code_exchange_failed'')
     | Some j \<Rightarrow>
         bindr (json_dict j) (\<lambda>body.
         let id_token = py_str (jget_or body ''id_token'' (JStr []))
         in if id_token = [] then Inl (OidcValidationError ''oidc_id_token_missing'') else Inr id_token))"

definition resolve_provider :: "OidcIssuerAdapter \<Rightarrow> dict \<Rightarrow> string option" where
  "resolve_provider a payload =
     (if py_in (oa_google_issuer_hint a) (py_str (jget_or payload ''iss'' (JStr []))) then Some ''google''
      else let identity_provider = jor (jget payload ''identity_provider'') (jget payload ''idp'')
           in if identity_provider = JNull then None else Some (py_str identity_provider))"

definition optional_text :: "json \<Rightarrow> string option" where
  "optional_text j = (if truthy j then Some (py_str j) else None)"

definition claims_audience :: "json \<Rightarrow> string res" where
  "claims_audience j = (case j of JList [] \<Rightarrow> Inl IndexError | JList (x # _) \<Rightarrow> Inr (py_str x) | _ \<Rightarrow> Inr (py_str j))"

definition decoded_payload :: "jwt_outcome \<Rightarrow> dict res" where
  "decoded_payload r =
     (case r of
        Decoded payload \<Rightarrow> Inr payload
      | ExpiredSignature \<Rightarrow> Inl (OidcValidationError ''token_expired'')
      | InvalidAudience \<Rightarrow> Inl (OidcValidationError ''invalid_audience'')
      | InvalidIssuer \<Rightarrow> Inl (OidcValidationError ''invalid_issuer'')
      | InvalidSignature \<Rightarrow> Inl (OidcValidationError ''invalid_signature'')
      | OtherJwtError \<Rightarrow> Inl (OidcValidationError ''invalid_token''))"

text \<open>\<open>seen\<close> is the caller's set of token ids, if it gives one; it comes back with the new id.\<close>

definition validate_id_token ::
    "oidc_env \<Rightarrow> env \<Rightarrow> OidcIssuerAdapter \<Rightarrow> string \<Rightarrow> string option \<Rightarrow> string list option \<Rightarrow> (OidcClaims \<times> string list option) res" where
  "validate_id_token X E a token expected_nonce seen =
     bindr (decoded_payload (id_token_decode X token (oa_audience a) (oa_issuer a))) (\<lambda>payload.
     let sub = py_strip (py_str (jget_or payload ''sub'' (JStr [])));
         jti = py_strip (py_str (jget_or payload ''jti'' (JStr [])));
         provider = resolve_provider a payload
     in if sub = [] then Inl (OidcValidationError ''missing_sub'')
        else if expected_nonce \<noteq> None \<and> jget payload ''nonce'' \<noteq> JStr (the expected_nonce) then Inl (OidcValidationError ''invalid_nonce'')
        else if seen \<noteq> None \<and> jti \<noteq> [] \<and> jti \<in> set (the seen) then Inl (OidcValidationError ''replay_detected'')
        else if oa_hosted_google_only a \<and> provider \<noteq> Some ''google'' then Inl (OidcValidationError ''non_google_provider'')
        else
          bindr (to_int (jget_or payload ''exp'' (JInt 0))) (\<lambda>e.
          bindr (case jget payload ''nbf'' of
              JNull \<Rightarrow> Inr ()
            | v \<Rightarrow> bindr (to_int v) (\<lambda>nbf. guard_res (nbf \<le> clock E) (OidcValidationError ''token_not_yet_valid''))) (\<lambda>_.
          bindr (json_item (JObj payload) ''aud'') (\<lambda>aud. bindr (claims_audience aud) (\<lambda>audience.
          bindr (json_item (JObj payload) ''iss'') (\<lambda>iss.
          Inr (\<lparr> oc_issuer = py_str iss, oc_audience = audience, oc_subject = sub, oc_email = optional_text (jget payload ''email''),
                 oc_provider = provider, oc_nonce = optional_text (jget payload ''nonce''), oc_expires_at = e,
                 oc_jti = (if jti = [] then None else Some jti) \<rparr>,
               map_option (\<lambda>js. if jti = [] then js else jti # js) seen)))))))"

section \<open>Identities\<close>

definition memdot_auth_find_identity :: "string \<Rightarrow> string \<Rightarrow> 'a identity_db_scheme \<Rightarrow> ExternalIdentity list" where
  "memdot_auth_find_identity issuer subject d = filter (\<lambda>i. ei_issuer i = issuer \<and> ei_subject i = subject) (t_identity d)"

definition memdot_auth_find_actor_for_user :: "uuid \<Rightarrow> uuid \<Rightarrow> 'a identity_db_scheme \<Rightarrow> Actor list" where
  "memdot_auth_find_actor_for_user account_id user_id d =
     take 1 (filter (\<lambda>a. act_account_id a = account_id \<and> act_reference_id a = Some user_id \<and> act_kind a = ''user'') (t_actor d))"

definition memdot_auth_bootstrap_exists :: "'a identity_db_scheme \<Rightarrow> bool" where
  "memdot_auth_bootstrap_exists d \<longleftrightarrow> (\<exists>b \<in> set (t_bootstrap d). ob_singleton_key b = 1 \<and> ob_revoked_at b = None)"

text \<open>The rows both provisioning functions write; \<open>fresh E i\<close> and the next id stand for \<open>gen_random_uuid()\<close>.\<close>

definition provision ::
    "env \<Rightarrow> nat \<Rightarrow> string \<Rightarrow> string option \<Rightarrow> uuid \<Rightarrow> uuid \<Rightarrow> uuid \<Rightarrow> string option \<Rightarrow> string \<Rightarrow> string \<Rightarrow> string option \<Rightarrow>
     'a identity_db_scheme \<Rightarrow> 'a identity_db_scheme res" where
  "provision E i status display_name account_id user_id actor_id email issuer subject provider d =
     bindr (insert_account \<lparr> acc_id = account_id, acc_account_id = account_id, acc_status = status, acc_display_name = display_name,
       acc_timezone = None, acc_created_at = now E, acc_updated_at = now E \<rparr> d) (\<lambda>d1.
     bindr (insert_user \<lparr> us_id = user_id, us_account_id = account_id, us_email = email, us_display_name = display_name,
       us_created_at = now E \<rparr> d1) (\<lambda>d2.
     bindr (insert_member \<lparr> am_id = fresh E i, am_account_id = account_id, am_user_id = user_id, am_role = ''owner'',
       am_created_at = now E \<rparr> d2) (\<lambda>d3.
     bindr (insert_identity \<lparr> ei_id = fresh E (i + 1), ei_account_id = account_id, ei_user_id = user_id, ei_issuer = issuer,
       ei_subject = subject, ei_provider = provider, ei_created_at = now E \<rparr> d3) (\<lambda>d4.
     insert_actor \<lparr> act_id = actor_id, act_account_id = account_id, act_kind = ''user'', act_reference_id = Some user_id,
       act_revoked_at = None, act_created_at = now E \<rparr> d4))))"

definition memdot_auth_provision_hosted ::
    "env \<Rightarrow> nat \<Rightarrow> uuid \<Rightarrow> uuid \<Rightarrow> uuid \<Rightarrow> string option \<Rightarrow> string \<Rightarrow> string \<Rightarrow> string option \<Rightarrow>
     'a identity_db_scheme \<Rightarrow> 'a identity_db_scheme res" where
  "memdot_auth_provision_hosted E i account_id user_id actor_id email issuer subject provider d =
     provision E i ''pending_attestation'' None account_id user_id actor_id email issuer subject provider d"

definition memdot_auth_provision_bootstrap ::
    "env \<Rightarrow> nat \<Rightarrow> uuid \<Rightarrow> uuid \<Rightarrow> uuid \<Rightarrow> uuid \<Rightarrow> string option \<Rightarrow> string \<Rightarrow> string \<Rightarrow> string option \<Rightarrow>
     'a identity_db_scheme \<Rightarrow> 'a identity_db_scheme res" where
  "memdot_auth_provision_bootstrap E i account_id user_id actor_id bootstrap_id email issuer subject provider d =
     (if memdot_auth_bootstrap_exists d then Inl (DBAPIError ''bootstrap_already_completed'')
      else bindr (provision E i ''active'' (Some ''Operator'') account_id user_id actor_id email issuer subject provider d) (\<lambda>d1.
        insert_bootstrap \<lparr> ob_id = bootstrap_id, ob_account_id = account_id, ob_issuer = issuer, ob_subject = subject,
          ob_singleton_key = 1, ob_completed_at = now E, ob_revoked_at = None \<rparr> d1))"

record IdentityLinkResult =
  il_account_id :: uuid
  il_user_id :: uuid
  il_actor_id :: uuid
  il_created :: bool

text \<open>Fresh ids of a request are numbered; \<open>i\<close> is the first one not used yet.\<close>

definition link_or_create_hosted_identity :: "env \<Rightarrow> nat \<Rightarrow> OidcClaims \<Rightarrow> ('a identity_db_scheme, IdentityLinkResult) op" where
  "link_or_create_hosted_identity E i claims s =
     (case memdot_auth_find_identity (oc_issuer claims) (oc_subject claims) (tables s) of
        existing # _ \<Rightarrow>
          (case memdot_auth_find_actor_for_user (ei_account_id existing) (ei_user_id existing) (tables s) of
             [] \<Rightarrow> Inl (RuntimeError ''actor_missing_for_identity'')
           | actor # _ \<Rightarrow>
               Inr (\<lparr> il_account_id = ei_account_id existing, il_user_id = ei_user_id existing, il_actor_id = act_id actor,
                 il_created = False \<rparr>, s))
      | [] \<Rightarrow>
          bindr (execute (memdot_auth_provision_hosted E (i + 3) (fresh E i) (fresh E (i + 1)) (fresh E (i + 2)) (oc_email claims)
              (oc_issuer claims) (oc_subject claims) (if truthy_str (oc_provider claims) then oc_provider claims else Some ''google'')) s)
            (\<lambda>s1. Inr (\<lparr> il_account_id = fresh E i, il_user_id = fresh E (i + 1), il_actor_id = fresh E (i + 2), il_created = True \<rparr>, s1)))"

definition record_adult_attestation :: "env \<Rightarrow> uuid \<Rightarrow> uuid \<Rightarrow> bool \<Rightarrow> ('a identity_db_scheme, unit) op" where
  "record_adult_attestation E account_id user_id confirmed s =
     (if \<not> confirmed then Inl (AttestationDeclinedError ''attestation_declined'')
      else if account_id \<notin> acc_id ` set (t_account (tables s)) then Inl (AttestationRequiredError ''account_missing'')
      else
        bindr (scalar_one_or_none (filter (\<lambda>a. ha_account_id a = account_id \<and> ha_user_id a = user_id) (t_attestation (tables s))))
          (\<lambda>existing.
           bindr (execute (\<lambda>d. Inr (d\<lparr> t_account := update_rows (\<lambda>a. acc_id a = account_id)
             (\<lambda>a. a\<lparr> acc_status := ''active'', acc_updated_at := now E \<rparr>) (t_account d) \<rparr>)) s) (\<lambda>s1.
           Inr ((), if existing \<noteq> None then s1
             else add (insert_attestation \<lparr> ha_id = fresh E 0, ha_account_id = account_id, ha_user_id = user_id,
               ha_confirmed = True, ha_attested_at = now E \<rparr>) s1))))"

record BootstrapResult =
  br_account_id :: uuid
  br_user_id :: uuid
  br_actor_id :: uuid
  br_bootstrap_id :: uuid

definition operator_bootstrap_exists :: "'a identity_db_scheme session \<Rightarrow> bool" where
  "operator_bootstrap_exists s = memdot_auth_bootstrap_exists (tables s)"

definition complete_operator_bootstrap :: "env \<Rightarrow> nat \<Rightarrow> OidcClaims \<Rightarrow> ('a identity_db_scheme, BootstrapResult) op" where
  "complete_operator_bootstrap E i claims s =
     (if operator_bootstrap_exists s then Inl (BootstrapReplayError ''bootstrap_already_completed'')
      else case execute (memdot_auth_provision_bootstrap E (i + 4) (fresh E i) (fresh E (i + 1)) (fresh E (i + 2)) (fresh E (i + 3))
          (oc_email claims) (oc_issuer claims) (oc_subject claims) (oc_provider claims)) s of
        Inl (DBAPIError m) \<Rightarrow>
          Inl (if py_in ''bootstrap_already_completed'' m then BootstrapReplayError ''bootstrap_already_completed'' else DBAPIError m)
      | Inl e \<Rightarrow> Inl e
      | Inr s1 \<Rightarrow> Inr (\<lparr> br_account_id = fresh E i, br_user_id = fresh E (i + 1), br_actor_id = fresh E (i + 2),
          br_bootstrap_id = fresh E (i + 3) \<rparr>, s1))"

end
