(* ===== verification/Login.thy ===== *)
theory Login
  imports Identity
begin

text \<open>
  The handlers of \<open>services/core/src/memdot_core/auth/routes.py\<close>: beginning and completing a sign-in, attestation, logout, session
  status and rotation, with the database functions of login challenges and token replay (migration 0001). The settings are those
  of \<open>settings.py\<close> that the handlers read.
\<close>

section \<open>Settings and replies\<close>

record CoreSettings =
  cs_env :: string
  cs_oidc_issuer :: string
  cs_oidc_audience :: string
  cs_oidc_client_id :: string
  cs_oidc_client_secret :: string
  cs_oidc_redirect_uri :: string

definition ALLOWED_MODES :: "string list" where
  "ALLOWED_MODES = [''hosted'', ''self_host'', ''test'', ''development'']"

definition normalize_mode :: "string \<Rightarrow> string res" where
  "normalize_mode v =
     (let cleaned = py_strip v in
      if cleaned = [] then Inl (ValueError ''env must be a non-empty string'')
      else let normalized = map (\<lambda>c. if c = CHR ''-'' then CHR ''_'' else c) (py_lower cleaned)
           in if normalized \<notin> set ALLOWED_MODES then Inl (ValueError ''env must be one of the allowed modes'') else Inr normalized)"

definition is_hosted :: "CoreSettings \<Rightarrow> bool res" where
  "is_hosted c = bindr (normalize_mode (cs_env c)) (\<lambda>m. Inr (m = ''hosted''))"

definition is_self_host :: "CoreSettings \<Rightarrow> bool res" where
  "is_self_host c = bindr (normalize_mode (cs_env c)) (\<lambda>m. Inr (m = ''self_host''))"

definition get_oidc_adapter :: "CoreSettings \<Rightarrow> OidcIssuerAdapter res" where
  "get_oidc_adapter c =
     bindr (is_hosted c) (\<lambda>hosted.
     Inr \<lparr> oa_issuer = rstrip_slash (cs_oidc_issuer c), oa_audience = cs_oidc_audience c, oa_hosted_google_only = hosted,
       oa_google_issuer_hint = ''accounts.google.com'', oa_authorization_endpoint = None, oa_token_endpoint = None \<rparr>)"

record auth_env =
  a_environ :: environ
  a_token :: "nat \<Rightarrow> string"
  a_crypto :: crypto
  a_oidc :: oidc_env
  a_settings :: CoreSettings

text \<open>A cookie of the response; a value of \<open>None\<close> deletes it.\<close>

record cookie =
  ck_name :: string
  ck_value :: "string option"
  ck_httponly :: bool
  ck_secure :: bool
  ck_max_age :: int

datatype reply = Reply dict "cookie list" | Problem int string

definition secure_cookies :: "CoreSettings \<Rightarrow> bool" where
  "secure_cookies c \<longleftrightarrow> cs_env c \<in> set [''hosted'', ''self_host'', ''production'']"

definition deleted_cookie :: "string \<Rightarrow> cookie" where
  "deleted_cookie name = \<lparr> ck_name = name, ck_value = None, ck_httponly = False, ck_secure = False, ck_max_age = 0 \<rparr>"

definition session_cookies :: "CoreSettings \<Rightarrow> SessionMaterial \<Rightarrow> cookie list" where
  "session_cookies c m =
     [\<lparr> ck_name = ''memdot_session'', ck_value = Some (str_uuid (sm_session_id m) @ ''.'' @ sm_secret m), ck_httponly = True,
        ck_secure = secure_cookies c, ck_max_age = 86400 \<rparr>,
      \<lparr> ck_name = ''memdot_csrf'', ck_value = Some (sm_csrf_token m), ck_httponly = False, ck_secure = secure_cookies c,
        ck_max_age = 86400 \<rparr>]"

section \<open>Login challenges\<close>

definition memdot_oidc_create_challenge ::
    "env \<Rightarrow> uuid \<Rightarrow> string \<Rightarrow> string \<Rightarrow> string \<Rightarrow> datetime \<Rightarrow> 'a identity_db_scheme \<Rightarrow> 'a identity_db_scheme res" where
  "memdot_oidc_create_challenge E i state_hash nonce_hash ciphertext expires_at d =
     insert_challenge \<lparr> lc_id = i, lc_state_hash = state_hash, lc_nonce_hash = nonce_hash, lc_pkce_verifier_ciphertext = ciphertext,
       lc_expires_at = expires_at, lc_consumed_at = None, lc_created_at = now E \<rparr> d"

definition memdot_oidc_load_challenge :: "string \<Rightarrow> 'a identity_db_scheme \<Rightarrow> OidcLoginChallenge list" where
  "memdot_oidc_load_challenge state_hash d = filter (\<lambda>c. lc_state_hash c = state_hash) (t_challenge d)"

definition challenge_open :: "uuid \<Rightarrow> datetime \<Rightarrow> OidcLoginChallenge \<Rightarrow> bool" where
  "challenge_open i consumed_at c \<longleftrightarrow> lc_id c = i \<and> lc_consumed_at c = None \<and> consumed_at < lc_expires_at c"

definition memdot_oidc_consume_challenge :: "uuid \<Rightarrow> datetime \<Rightarrow> 'a identity_db_scheme \<Rightarrow> bool \<times> 'a identity_db_scheme" where
  "memdot_oidc_consume_challenge i consumed_at d =
     (\<exists>c \<in> set (t_challenge d). challenge_open i consumed_at c,
      d\<lparr> t_challenge := update_rows (challenge_open i consumed_at) (\<lambda>c. c\<lparr> lc_consumed_at := Some consumed_at \<rparr>) (t_challenge d) \<rparr>)"

definition memdot_oidc_record_replay ::
    "env \<Rightarrow> uuid \<Rightarrow> string \<Rightarrow> string \<Rightarrow> datetime \<Rightarrow> 'a identity_db_scheme \<Rightarrow> 'a identity_db_scheme res" where
  "memdot_oidc_record_replay E i issuer jti expires_at d =
     insert_token_replay \<lparr> tr_id = i, tr_issuer = issuer, tr_jti = jti, tr_expires_at = expires_at, tr_created_at = now E \<rparr> d"

definition code_challenge_of :: "crypto \<Rightarrow> string \<Rightarrow> string" where
  "code_challenge_of C code_verifier = rstrip_pad (b64encode (sha256_digest C code_verifier))"

definition authorization_reply :: "auth_env \<Rightarrow> OidcIssuerAdapter \<Rightarrow> string \<Rightarrow> string \<Rightarrow> string \<Rightarrow> ('a identity_db_scheme, reply) op" where
  "authorization_reply A adapter state nonce code_verifier s =
     (let c = a_settings A in
      case authorization_url (a_oidc A) adapter (cs_oidc_client_id c) (cs_oidc_redirect_uri c) state nonce
          (code_challenge_of (a_crypto A) code_verifier) of
        Inl (OidcValidationError code) \<Rightarrow> Inl (HTTPException 503 code)
      | Inl e \<Rightarrow> Inl e
      | Inr url \<Rightarrow>
          Inr (Reply [(''status'', JStr ''challenge_issued''), (''authorization_url'', JStr url)]
            [\<lparr> ck_name = ''memdot_oidc_state'', ck_value = Some state, ck_httponly = True, ck_secure = secure_cookies c,
               ck_max_age = 600 \<rparr>], s))"

definition oidc_begin :: "auth_env \<Rightarrow> env \<Rightarrow> ('a identity_db_scheme, reply) op" where
  "oidc_begin A E s =
     (let os = a_environ A; state = a_token A 0; nonce = a_token A 1; code_verifier = a_token A 2 in
      bindr (get_oidc_adapter (a_settings A)) (\<lambda>adapter.
      bindr (hash_secret E os state) (\<lambda>state_hash. bindr (hash_secret E os nonce) (\<lambda>nonce_hash.
      bindr (encrypt_ephemeral_secret (a_crypto A) os code_verifier) (\<lambda>ciphertext.
      bindr (execute (memdot_oidc_create_challenge E (fresh E 0) state_hash nonce_hash ciphertext (now E + 600000000)) s)
        (authorization_reply A adapter state nonce code_verifier))))))"

section \<open>Completing a sign-in\<close>

definition challenge_refusal :: "env \<Rightarrow> OidcLoginChallenge option \<Rightarrow> string option" where
  "challenge_refusal E challenge =
     (case challenge of
        None \<Rightarrow> Some ''oidc_challenge_invalid''
      | Some c \<Rightarrow> if lc_consumed_at c \<noteq> None then Some ''oidc_challenge_invalid''
                  else if lc_expires_at c \<le> now E then Some ''oidc_challenge_expired'' else None)"

definition token_claims :: "auth_env \<Rightarrow> env \<Rightarrow> OidcIssuerAdapter \<Rightarrow> string \<Rightarrow> OidcLoginChallenge \<Rightarrow> OidcClaims res" where
  "token_claims A E adapter code challenge =
     bindr (decrypt_ephemeral_secret (a_crypto A) (a_environ A) (lc_pkce_verifier_ciphertext challenge)) (\<lambda>code_verifier.
     bindr (exchange_code (a_oidc A) adapter code code_verifier (cs_oidc_client_id (a_settings A)) (cs_oidc_client_secret (a_settings A))
       (cs_oidc_redirect_uri (a_settings A))) (\<lambda>id_token.
     bindr (validate_id_token (a_oidc A) E adapter id_token None None) (\<lambda>(claims, _). Inr claims)))"

text \<open>The account, user and actor of the claims: the operator's on the first sign-in of a self-hosted installation.\<close>

definition signed_in_identity :: "auth_env \<Rightarrow> env \<Rightarrow> OidcClaims \<Rightarrow> ('a identity_db_scheme, uuid \<times> uuid \<times> uuid) op" where
  "signed_in_identity A E claims s =
     bindr (is_self_host (a_settings A)) (\<lambda>self_host.
     if self_host \<and> \<not> operator_bootstrap_exists s
     then bindr (complete_operator_bootstrap E 1 claims s) (\<lambda>(r, s1). Inr ((br_account_id r, br_user_id r, br_actor_id r), s1))
     else bindr (link_or_create_hosted_identity E 1 claims s) (\<lambda>(r, s1). Inr ((il_account_id r, il_user_id r, il_actor_id r), s1)))"

definition session_row ::
    "env \<Rightarrow> environ \<Rightarrow> SessionMaterial \<Rightarrow> uuid \<Rightarrow> uuid \<Rightarrow> uuid \<Rightarrow> datetime \<Rightarrow> datetime option \<Rightarrow> BrowserSession res" where
  "session_row E os m account_id user_id actor_id last_auth_at rotated_at =
     bindr (hash_secret E os (sm_secret m)) (\<lambda>secret_hash. bindr (hash_secret E os (sm_csrf_token m)) (\<lambda>csrf_hash.
     let (expires_at, idle_expires_at) = session_expiry (now E) 24 60
     in Inr \<lparr> bs_id = sm_session_id m, bs_account_id = account_id, bs_user_id = user_id, bs_actor_id = actor_id,
          bs_secret_hash = secret_hash, bs_csrf_token_hash = csrf_hash, bs_expires_at = expires_at,
          bs_idle_expires_at = idle_expires_at, bs_last_auth_at = last_auth_at, bs_rotated_at = rotated_at,
          bs_revoked_at = None, bs_created_at = now E \<rparr>))"

definition first_party :: "uuid \<Rightarrow> uuid \<Rightarrow> TenantContext" where
  "first_party account_id actor_id = \<lparr> tc_account_id = account_id, tc_actor_id = actor_id, tc_purpose = FIRST_PARTY \<rparr>"

definition open_session :: "auth_env \<Rightarrow> env \<Rightarrow> uuid \<times> uuid \<times> uuid \<Rightarrow> ('a identity_db_scheme, reply) op" where
  "open_session A E who s =
     (case who of (account_id, user_id, actor_id) \<Rightarrow>
      let m = new_session_material E (a_token A) 7 in
      bindr (tenant_scope E (first_party account_id actor_id) (\<lambda>s1.
        bindr (session_row E (a_environ A) m account_id user_id actor_id (now E) None) (\<lambda>row.
        Inr ((), add (insert_browser_session row) s1))) s) (\<lambda>(_, s2).
      Inr (Reply [(''status'', JStr ''authenticated''), (''account_id'', JStr (str_uuid account_id))]
        (session_cookies (a_settings A) m @ [deleted_cookie ''memdot_oidc_state'']), s2)))"

text \<open>
  The replay record of the token id, if there is one: \<open>None\<close> is a repeated id. A bootstrap that was completed meanwhile
  aborts the transaction, so nothing of it is kept.
\<close>

definition record_token :: "env \<Rightarrow> OidcClaims \<Rightarrow> 'a identity_db_scheme session \<Rightarrow> 'a identity_db_scheme session option res" where
  "record_token E claims s =
     (if truthy_str (oc_jti claims)
      then (case execute (memdot_oidc_record_replay E (fresh E 0) (oc_issuer claims) (the (oc_jti claims))
                (oc_expires_at claims * 1000000)) s of
              Inl (IntegrityError _) \<Rightarrow> Inr None | Inl e \<Rightarrow> Inl e | Inr s1 \<Rightarrow> Inr (Some s1))
      else Inr (Some s))"

definition complete_sign_in :: "auth_env \<Rightarrow> env \<Rightarrow> OidcLoginChallenge \<Rightarrow> OidcClaims \<Rightarrow> ('a identity_db_scheme, reply) op" where
  "complete_sign_in A E challenge claims s =
     bindr (record_token E claims s) (\<lambda>recorded.
     case recorded of
       None \<Rightarrow> Inr (Problem 401 ''replay_detected'', s)
     | Some s1 \<Rightarrow>
         (let (consumed, d) = memdot_oidc_consume_challenge (lc_id challenge) (now E) (tables s1); s2 = (d, snd s1) in
          if \<not> consumed then Inr (Problem 401 ''oidc_challenge_invalid'', s1)
          else case signed_in_identity A E claims s2 of
              Inl (BootstrapReplayError _) \<Rightarrow> Inr (Problem 409 ''bootstrap_replay'', s)
            | Inl e \<Rightarrow> Inl e
            | Inr (who, s3) \<Rightarrow> open_session A E who s3))"

definition exchange_and_sign_in ::
    "auth_env \<Rightarrow> env \<Rightarrow> OidcIssuerAdapter \<Rightarrow> string \<Rightarrow> OidcLoginChallenge \<Rightarrow> ('a identity_db_scheme, reply) op" where
  "exchange_and_sign_in A E adapter code challenge s =
     (case token_claims A E adapter code challenge of
        Inl (OidcValidationError code) \<Rightarrow> Inr (Problem 401 code, s)
      | Inl e \<Rightarrow> Inl e
      | Inr claims \<Rightarrow>
          bindr (if truthy_str (oc_nonce claims)
              then bindr (hash_secret E (a_environ A) (the (oc_nonce claims))) (\<lambda>h. Inr (h = lc_nonce_hash challenge))
              else Inr False) (\<lambda>ok.
          if ok then complete_sign_in A E challenge claims s else Inr (Problem 401 ''invalid_nonce'', s)))"

definition oidc_callback :: "auth_env \<Rightarrow> env \<Rightarrow> headers \<Rightarrow> string \<Rightarrow> string \<Rightarrow> ('a identity_db_scheme, reply) op" where
  "oidc_callback A E cookies code state s =
     bindr (guard_res (4 \<le> length code \<and> 8 \<le> length state) (HTTPException 422 ''validation_error'')) (\<lambda>_.
     bindr (get_oidc_adapter (a_settings A)) (\<lambda>adapter.
     let cookie_state = (case cookies ''memdot_oidc_state'' of None \<Rightarrow> [] | Some v \<Rightarrow> v) in
     if cookie_state = [] \<or> cookie_state \<noteq> state then Inr (Problem 401 ''invalid_oidc_state'', s)
     else
       bindr (hash_secret E (a_environ A) state) (\<lambda>state_hash.
       bindr (scalar_one_or_none (memdot_oidc_load_challenge state_hash (tables s))) (\<lambda>found.
       case challenge_refusal E found of
         Some code \<Rightarrow> Inr (Problem 401 code, s)
       | None \<Rightarrow> exchange_and_sign_in A E adapter code (the found) s))))"

section \<open>The life of a session\<close>

text \<open>\<open>db.get(BrowserSession, id)\<close>.\<close>

definition session_by_id :: "uuid \<Rightarrow> ('a identity_db_scheme, BrowserSession) op" where
  "session_by_id i s =
     (case List.find (\<lambda>b. bs_id b = i) (t_browser_session (tables s)) of
        None \<Rightarrow> Inl (HTTPException 401 ''session_invalid'') | Some b \<Rightarrow> Inr (b, s))"

definition load_browser_session :: "env \<Rightarrow> environ \<Rightarrow> headers \<Rightarrow> ('a identity_db_scheme, TenantContext \<times> BrowserSession) op" where
  "load_browser_session E os cookies s =
     (case Option.bind (cookies ''memdot_session'') split_dot of
        None \<Rightarrow> Inl (HTTPException 401 ''session_missing'')
      | Some (session_id_str, secret) \<Rightarrow>
          (case parse_uuid session_id_str of
             Inl _ \<Rightarrow> Inl (HTTPException 401 ''session_malformed'')
           | Inr session_id \<Rightarrow>
               bindr (hash_secret E os secret) (\<lambda>secret_digest.
               case first_session (memdot_auth_load_session session_id secret_digest (tables s)) of
                 None \<Rightarrow> Inl (HTTPException 401 ''session_invalid'')
               | Some row \<Rightarrow>
                   if \<not> is_session_active (bs_expires_at row) (bs_idle_expires_at row) (bs_revoked_at row) (now E)
                   then Inl (HTTPException 401 ''session_expired'')
                   else let ctx = first_party (bs_account_id row) (bs_actor_id row) in
                     bindr (tenant_scope E ctx (session_by_id (bs_id row)) s) (\<lambda>(b, s2). Inr ((ctx, b), s2)))))"

definition require_csrf :: "env \<Rightarrow> environ \<Rightarrow> headers \<Rightarrow> BrowserSession \<Rightarrow> unit res" where
  "require_csrf E os hdr b =
     (let header = (case hdr ''X-CSRF-Token'' of None \<Rightarrow> [] | Some v \<Rightarrow> v) in
      if header = [] then Inl (HTTPException 403 ''csrf_failed'')
      else bindr (verify_session_secret E os header (bs_csrf_token_hash b)) (\<lambda>ok. guard_res ok (HTTPException 403 ''csrf_failed'')))"

definition require_recent_auth :: "env \<Rightarrow> BrowserSession \<Rightarrow> int \<Rightarrow> unit res" where
  "require_recent_auth E b max_age_minutes =
     guard_res (recent_auth_satisfied (bs_last_auth_at b) max_age_minutes (now E)) (HTTPException 401 ''recent_auth_required'')"

text \<open>How every handler that changes a session begins.\<close>

definition with_session ::
    "auth_env \<Rightarrow> env \<Rightarrow> headers \<Rightarrow> headers \<Rightarrow> (TenantContext \<Rightarrow> BrowserSession \<Rightarrow> ('a identity_db_scheme, reply) op) \<Rightarrow>
     ('a identity_db_scheme, reply) op" where
  "with_session A E cookies hdr k s =
     (case load_browser_session E (a_environ A) cookies s of
        Inl (HTTPException status code) \<Rightarrow> Inr (Problem status code, s)
      | Inl e \<Rightarrow> Inl e
      | Inr ((ctx, b), s1) \<Rightarrow>
          (case require_csrf E (a_environ A) hdr b of
             Inl (HTTPException _ _) \<Rightarrow> Inr (Problem 403 ''csrf_failed'', s1)
           | Inl e \<Rightarrow> Inl e
           | Inr _ \<Rightarrow> k ctx b s1))"

definition adult_attestation :: "auth_env \<Rightarrow> env \<Rightarrow> headers \<Rightarrow> headers \<Rightarrow> bool \<Rightarrow> ('a identity_db_scheme, reply) op" where
  "adult_attestation A E cookies hdr confirmed =
     with_session A E cookies hdr (\<lambda>ctx b s.
       case tenant_scope E ctx (record_adult_attestation E (bs_account_id b) (bs_user_id b) confirmed) s of
         Inl (AttestationDeclinedError _) \<Rightarrow> Inr (Problem 403 ''attestation_declined'', s)
       | Inl (AttestationRequiredError _) \<Rightarrow> Inr (Problem 400 ''attestation_required'', s)
       | Inl e \<Rightarrow> Inl e
       | Inr (_, s1) \<Rightarrow> Inr (Reply [(''status'', JStr ''active'')] [], s1))"

definition revoke_session :: "env \<Rightarrow> BrowserSession \<Rightarrow> 'a identity_db_scheme session \<Rightarrow> 'a identity_db_scheme session res" where
  "revoke_session E b s =
     bindr (execute (\<lambda>d. Inr (d\<lparr> t_browser_session := update_rows (\<lambda>x. bs_id x = bs_id b)
       (\<lambda>x. x\<lparr> bs_revoked_at := Some (now E) \<rparr>) (t_browser_session d) \<rparr>)) s) (\<lambda>s1.
     Inr (add (insert_revocation \<lparr> rv_id = fresh E 0, rv_account_id = bs_account_id b, rv_session_id = bs_id b,
       rv_revoked_at = now E \<rparr>) s1))"

definition logout :: "auth_env \<Rightarrow> env \<Rightarrow> headers \<Rightarrow> headers \<Rightarrow> ('a identity_db_scheme, reply) op" where
  "logout A E cookies hdr =
     with_session A E cookies hdr (\<lambda>ctx b s.
       bindr (tenant_scope E ctx (\<lambda>s1. bindr (revoke_session E b s1) (\<lambda>s2. Inr ((), s2))) s) (\<lambda>(_, s3).
       Inr (Reply [(''status'', JStr ''logged_out'')] [deleted_cookie ''memdot_session'', deleted_cookie ''memdot_csrf''], s3)))"

definition session_status :: "auth_env \<Rightarrow> env \<Rightarrow> headers \<Rightarrow> ('a identity_db_scheme, reply) op" where
  "session_status A E cookies s =
     (case load_browser_session E (a_environ A) cookies s of
        Inl (HTTPException _ _) \<Rightarrow> Inr (Problem 401 ''session_invalid'', s)
      | Inl e \<Rightarrow> Inl e
      | Inr ((ctx, b), s1) \<Rightarrow>
          bindr (tenant_scope E ctx (\<lambda>s2.
            bindr (scalar_one_or_none (filter (\<lambda>a. ha_account_id a = bs_account_id b \<and> ha_user_id a = bs_user_id b \<and> ha_confirmed a)
              (t_attestation (tables s2)))) (\<lambda>found. Inr (found \<noteq> None, s2))) s1) (\<lambda>(attested, s3).
          Inr (Reply [(''authenticated'', JBool True), (''account_id'', JStr (str_uuid (tc_account_id ctx))),
            (''recent_auth'', JBool (recent_auth_satisfied (bs_last_auth_at b) 15 (now E))), (''adult_attested'', JBool attested)] [], s3)))"

definition rotate_session :: "auth_env \<Rightarrow> env \<Rightarrow> headers \<Rightarrow> headers \<Rightarrow> ('a identity_db_scheme, reply) op" where
  "rotate_session A E cookies hdr =
     with_session A E cookies hdr (\<lambda>ctx b s.
       let m = new_session_material E (a_token A) 1 in
       bindr (tenant_scope E ctx (\<lambda>s1.
         bindr (revoke_session E b s1) (\<lambda>s2.
         bindr (session_row E (a_environ A) m (bs_account_id b) (bs_user_id b) (bs_actor_id b) (bs_last_auth_at b) (Some (now E))) (\<lambda>row.
         Inr ((), add (insert_browser_session row) s2)))) s) (\<lambda>(_, s3).
       Inr (Reply [(''status'', JStr ''rotated'')] (session_cookies (a_settings A) m), s3)))"

end
