(* ===== verification/Login_Invariants.thy ===== *)
theory Login_Invariants
  imports Login
begin

text \<open>
  What holds over every sequence of the handlers of \<open>auth/routes.py\<close>: a revoked session never comes back, a login challenge is
  used once, an external identity keeps its account, and how long a new session lives.
\<close>

section \<open>Facts that stay\<close>

definition spent :: "string \<Rightarrow> 'a identity_db_scheme \<Rightarrow> bool" where
  "spent h d \<longleftrightarrow> h \<in> lc_state_hash ` set (t_challenge d) \<and>
     (\<forall>c \<in> set (t_challenge d). lc_state_hash c = h \<longrightarrow> lc_consumed_at c \<noteq> None)"

definition dead :: "uuid \<Rightarrow> 'a identity_db_scheme \<Rightarrow> bool" where
  "dead i d \<longleftrightarrow> i \<in> bs_id ` set (t_browser_session d) \<and>
     (\<forall>b \<in> set (t_browser_session d). bs_id b = i \<longrightarrow> bs_revoked_at b \<noteq> None)"

definition linked :: "string \<Rightarrow> string \<Rightarrow> uuid \<Rightarrow> 'a identity_db_scheme \<Rightarrow> bool" where
  "linked issuer subject a d \<longleftrightarrow> (\<exists>r rest. memdot_auth_find_identity issuer subject d = r # rest \<and> ei_account_id r = a)"

definition evolves :: "'a identity_db_scheme \<Rightarrow> 'a identity_db_scheme \<Rightarrow> bool" where
  "evolves d d' \<longleftrightarrow> (\<forall>h. spent h d \<longrightarrow> spent h d') \<and> (\<forall>i. dead i d \<longrightarrow> dead i d') \<and>
     (\<forall>issuer subject a. linked issuer subject a d \<longrightarrow> linked issuer subject a d')"

lemma evolves_refl [simp]: "evolves d d"
  by (simp add: evolves_def)

lemma evolves_trans [trans]: "evolves d d1 \<Longrightarrow> evolves d1 d2 \<Longrightarrow> evolves d d2"
  by (auto simp: evolves_def)

text \<open>Only the three tables matter.\<close>

lemma evolves_cong:
  "t_challenge d' = t_challenge d \<Longrightarrow> t_browser_session d' = t_browser_session d \<Longrightarrow> t_identity d' = t_identity d \<Longrightarrow> evolves d d'"
  by (simp add: evolves_def spent_def dead_def linked_def memdot_auth_find_identity_def)

lemma evolves_settings [simp]: "evolves d (d\<lparr> settings := g \<rparr>)" "evolves (d\<lparr> settings := g \<rparr>) d' \<longleftrightarrow> evolves d d'"
  by (simp_all add: evolves_def spent_def dead_def linked_def memdot_auth_find_identity_def)

lemma evolves_insert:
  "insert_account acc d = Inr d' \<Longrightarrow> evolves d d'" "insert_user u d = Inr d' \<Longrightarrow> evolves d d'"
  "insert_member m d = Inr d' \<Longrightarrow> evolves d d'" "insert_actor a d = Inr d' \<Longrightarrow> evolves d d'"
  "insert_revocation rv d = Inr d' \<Longrightarrow> evolves d d'" "insert_attestation at' d = Inr d' \<Longrightarrow> evolves d d'"
  "insert_bootstrap b d = Inr d' \<Longrightarrow> evolves d d'" "insert_token_replay t d = Inr d' \<Longrightarrow> evolves d d'"
  by (auto simp: identity_inserts bindr_Inr_iff intro!: evolves_cong)

lemma evolves_insert_keyed:
  "insert_challenge c d = Inr d' \<Longrightarrow> evolves d d'"
  "insert_browser_session b d = Inr d' \<Longrightarrow> evolves d d'"
  "insert_identity i d = Inr d' \<Longrightarrow> evolves d d'"
  by (auto simp: identity_inserts bindr_Inr_iff evolves_def spent_def dead_def linked_def memdot_auth_find_identity_def)

lemmas evolves_inserts = evolves_insert evolves_insert_keyed

lemma update_rows_keys: "(\<And>r. k (f r) = k r) \<Longrightarrow> k ` set (update_rows sel f rows) = k ` set rows"
  using map_update_rows [of sel k f rows] by (metis list.set_map)

lemma in_update_rows: "r \<in> set (update_rows sel f rows) \<longleftrightarrow> (\<exists>x \<in> set rows. r = (if sel x then f x else x))"
  by (auto simp: update_rows_def)

lemma evolves_revoke: "evolves d (d\<lparr> t_browser_session := update_rows sel (\<lambda>b. b\<lparr> bs_revoked_at := Some t \<rparr>) (t_browser_session d) \<rparr>)"
  by (auto simp: evolves_def spent_def dead_def linked_def memdot_auth_find_identity_def update_rows_keys in_update_rows)

lemma evolves_consume:
  assumes "memdot_oidc_consume_challenge i t d = (ok, d')"
  shows "evolves d d'"
proof -
  have d': "d' = d\<lparr> t_challenge := update_rows (challenge_open i t) (\<lambda>c. c\<lparr> lc_consumed_at := Some t \<rparr>) (t_challenge d) \<rparr>"
    using assms by (simp add: memdot_oidc_consume_challenge_def)
  show ?thesis unfolding d'
    by (auto simp: evolves_def spent_def dead_def linked_def memdot_auth_find_identity_def update_rows_keys in_update_rows)
qed

lemma evolves_provision: "provision E i st dn account user actor email issuer subject prov d = Inr d' \<Longrightarrow> evolves d d'"
  by (auto simp: provision_def bindr_Inr_iff dest!: evolves_inserts) (blast intro: evolves_trans)

lemma provision_links:
  assumes "provision E i st dn account user actor email issuer subject prov d = Inr d'"
  shows "linked issuer subject account d'"
proof -
  obtain d3 d4 where i: "insert_identity \<lparr> ei_id = fresh E (i + 1), ei_account_id = account, ei_user_id = user, ei_issuer = issuer,
       ei_subject = subject, ei_provider = prov, ei_created_at = now E \<rparr> d3 = Inr d4"
    and a: "insert_actor \<lparr> act_id = actor, act_account_id = account, act_kind = ''user'', act_reference_id = Some user,
       act_revoked_at = None, act_created_at = now E \<rparr> d4 = Inr d'"
    using assms by (auto simp: provision_def bindr_Inr_iff)
  have "filter (\<lambda>x. ei_issuer x = issuer \<and> ei_subject x = subject) (t_identity d3) = []"
    using identities.ins_fresh [OF i] by (auto simp: filter_empty_conv image_iff)
  then have "linked issuer subject account d4"
    using identities.ins_appends [OF i] by (simp add: linked_def memdot_auth_find_identity_def)
  then show ?thesis using evolves_insert(4) [OF a] by (simp add: evolves_def)
qed

section \<open>Every handler keeps them\<close>

lemma link_evolves:
  assumes "link_or_create_hosted_identity E i claims (d, []) = Inr (r, s)"
  shows "\<exists>d'. s = (d', []) \<and> evolves d d' \<and> linked (oc_issuer claims) (oc_subject claims) (il_account_id r) d'"
proof (cases "memdot_auth_find_identity (oc_issuer claims) (oc_subject claims) d")
  case Nil
  then obtain d' where "provision E (i + 3) ''pending_attestation'' None (fresh E i) (fresh E (i + 1)) (fresh E (i + 2)) (oc_email claims)
      (oc_issuer claims) (oc_subject claims) (if truthy_str (oc_provider claims) then oc_provider claims else Some ''google'') d = Inr d'"
    and "s = (d', [])" "il_account_id r = fresh E i"
    using assms by (auto simp: link_or_create_hosted_identity_def memdot_auth_provision_hosted_def bindr_Inr_iff)
  then show ?thesis using evolves_provision provision_links by metis
next
  case (Cons row rest)
  then show ?thesis
    using assms by (auto simp: link_or_create_hosted_identity_def linked_def split: list.splits)
qed

lemma bootstrap_evolves:
  assumes "complete_operator_bootstrap E i claims (d, []) = Inr (r, s)"
  shows "\<exists>d'. s = (d', []) \<and> evolves d d' \<and> linked (oc_issuer claims) (oc_subject claims) (br_account_id r) d'"
proof -
  obtain d1 d' where p: "provision E (i + 4) ''active'' (Some ''Operator'') (fresh E i) (fresh E (i + 1)) (fresh E (i + 2)) (oc_email claims)
      (oc_issuer claims) (oc_subject claims) (oc_provider claims) d = Inr d1"
    and b: "\<exists>row. insert_bootstrap row d1 = Inr d'" and r: "s = (d', [])" "br_account_id r = fresh E i"
    using assms
    by (auto simp: complete_operator_bootstrap_def memdot_auth_provision_bootstrap_def bindr_Inr_iff
        split: if_splits sum.splits err.splits) (metis (no_types))
  obtain row where "insert_bootstrap row d1 = Inr d'" using b ..
  then have e: "evolves d1 d'" by (rule evolves_insert)
  then have "linked (oc_issuer claims) (oc_subject claims) (fresh E i) d'" using provision_links [OF p] by (simp add: evolves_def)
  then show ?thesis using r evolves_trans [OF evolves_provision [OF p] e] by simp
qed

lemma identity_evolves:
  assumes "signed_in_identity A E claims (d, []) = Inr ((account, user, actor), s)"
  shows "\<exists>d'. s = (d', []) \<and> evolves d d' \<and> linked (oc_issuer claims) (oc_subject claims) account d'"
proof -
  consider r where "link_or_create_hosted_identity E 1 claims (d, []) = Inr (r, s)" "account = il_account_id r"
    | r where "complete_operator_bootstrap E 1 claims (d, []) = Inr (r, s)" "account = br_account_id r"
    using assms by (auto simp: signed_in_identity_def bindr_Inr_iff split: if_splits)
  then show ?thesis
  proof cases
    case 1
    then show ?thesis using link_evolves [OF 1(1)] by simp
  next
    case 2
    then show ?thesis using bootstrap_evolves [OF 2(1)] by simp
  qed
qed

lemma open_session_Inr:
  assumes "open_session A E (account, user, actor) (d, []) = Inr (r, s)"
  obtains g row d' where "session_row E (a_environ A) (new_session_material E (a_token A) 7) account user actor (now E) None = Inr row"
    "insert_browser_session row (d\<lparr> settings := g \<rparr>) = Inr d'" "s = (d', [])"
    "r = Reply [(''status'', JStr ''authenticated''), (''account_id'', JStr (str_uuid account))]
        (session_cookies (a_settings A) (new_session_material E (a_token A) 7) @ [deleted_cookie ''memdot_oidc_state''])"
proof -
  obtain d' ps u where sc: "tenant_scope E (first_party account actor) (\<lambda>s1.
        bindr (session_row E (a_environ A) (new_session_material E (a_token A) 7) account user actor (now E) None) (\<lambda>row.
        Inr ((), add (insert_browser_session row) s1))) (d, []) = Inr (u, d', ps)" and r: "s = (d', ps)"
    "r = Reply [(''status'', JStr ''authenticated''), (''account_id'', JStr (str_uuid account))]
        (session_cookies (a_settings A) (new_session_material E (a_token A) 7) @ [deleted_cookie ''memdot_oidc_state''])"
    using assms by (auto simp: open_session_def Let_def bindr_Inr_iff)
  from sc show thesis
    by (rule tenant_scope_body) (use that r in \<open>auto simp: bindr_Inr_iff\<close>)
qed

lemma open_session_replies: "open_session A E who s \<noteq> Inr (Problem status code, s')"
  by (auto simp: open_session_def Let_def bindr_Inr_iff split: prod.splits)

lemma record_token_Inr:
  assumes "record_token E claims (d, []) = Inr (Some s)"
  shows "\<exists>d'. s = (d', []) \<and> evolves d d' \<and> t_challenge d' = t_challenge d"
proof (cases "truthy_str (oc_jti claims)")
  case True
  then obtain row d' where "insert_token_replay row d = Inr d'" "s = (d', [])"
    using assms by (auto simp: record_token_def memdot_oidc_record_replay_def bindr_Inr_iff split: sum.splits err.splits)
  then show ?thesis using evolves_insert(8) by (auto simp: insert_token_replay_def bindr_Inr_iff)
next
  case False
  then show ?thesis using assms by (auto simp: record_token_def)
qed

text \<open>A completed sign-in spent its challenge, linked its identity and added one session.\<close>

lemma complete_sign_in_Reply:
  assumes "complete_sign_in A E challenge claims (d, []) = Inr (Reply body cs, s)"
  obtains d1 d2 d3 account user actor where
    "evolves d d1" "t_challenge d1 = t_challenge d" "memdot_oidc_consume_challenge (lc_id challenge) (now E) d1 = (True, d2)"
    "evolves d2 d3" "linked (oc_issuer claims) (oc_subject claims) account d3"
    "open_session A E (account, user, actor) (d3, []) = Inr (Reply body cs, s)"
proof -
  obtain s1 where r: "record_token E claims (d, []) = Inr (Some s1)"
    using assms by (auto simp: complete_sign_in_def bindr_Inr_iff split: option.splits)
  obtain d1 where d1: "s1 = (d1, [])" "evolves d d1" "t_challenge d1 = t_challenge d" using record_token_Inr [OF r] by blast
  obtain ok d2 where c: "memdot_oidc_consume_challenge (lc_id challenge) (now E) d1 = (ok, d2)" by (rule prod.exhaust)
  have ok using assms r d1(1) c by (cases ok) (simp_all add: complete_sign_in_def)
  obtain account user actor s3 where i: "signed_in_identity A E claims (d2, []) = Inr ((account, user, actor), s3)"
    and o: "open_session A E (account, user, actor) s3 = Inr (Reply body cs, s)"
    using assms r d1(1) c \<open>ok\<close> by (auto simp: complete_sign_in_def split: sum.splits err.splits prod.splits)
  obtain d3 where d3: "s3 = (d3, [])" "evolves d2 d3" "linked (oc_issuer claims) (oc_subject claims) account d3"
    using identity_evolves [OF i] by blast
  show thesis using that [OF d1(2,3) _ d3(2,3)] c \<open>ok\<close> o d3(1) by simp
qed

lemma complete_sign_in_evolves:
  assumes "complete_sign_in A E challenge claims (d, []) = Inr (r, s)"
  shows "\<exists>d'. s = (d', []) \<and> evolves d d'"
proof (cases r)
  case (Reply body cs)
  from assms [unfolded Reply] show ?thesis
  proof (rule complete_sign_in_Reply)
    fix d1 d2 d3 account user actor
    assume a: "evolves d d1" and c: "memdot_oidc_consume_challenge (lc_id challenge) (now E) d1 = (True, d2)" and b: "evolves d2 d3"
      and o: "open_session A E (account, user, actor) (d3, []) = Inr (Reply body cs, s)"
    have "evolves d d3" using a evolves_consume [OF c] b by (blast intro: evolves_trans)
    moreover obtain d' where "s = (d', [])" "evolves d3 d'" using o by (rule open_session_Inr) (use evolves_insert_keyed in fastforce)
    ultimately show ?thesis by (blast intro: evolves_trans)
  qed
next
  case (Problem status code)
  obtain recorded where r: "record_token E claims (d, []) = Inr recorded"
    using assms by (auto simp: complete_sign_in_def bindr_Inr_iff)
  have "s = (d, []) \<or> recorded = Some s"
  proof (cases recorded)
    case None
    then show ?thesis using assms r by (simp add: complete_sign_in_def)
  next
    case (Some s1)
    obtain ok d2 where c: "memdot_oidc_consume_challenge (lc_id challenge) (now E) (tables s1) = (ok, d2)" by (rule prod.exhaust)
    note run = assms [unfolded Problem complete_sign_in_def r Some bindr_simps option.case c Let_def prod.case]
    show ?thesis
    proof (cases "ok \<and> (\<exists>x. signed_in_identity A E claims (d2, snd s1) = Inr x)")
      case True
      then show ?thesis using run by (auto simp: open_session_replies)
    next
      case False
      then show ?thesis using run Some by (auto split: sum.splits err.splits if_splits)
    qed
  qed
  then have "s = (d, []) \<or> record_token E claims (d, []) = Inr (Some s)" using r by auto
  then show ?thesis using record_token_Inr [of E claims d s] by auto
qed

lemma oidc_callback_cases:
  assumes "oidc_callback A E cookies code state (d, []) = Inr (r, s)"
  obtains (refused) status code' where "r = Problem status code'" "s = (d, [])"
  | (checked) h challenge claims where "hash_secret E (a_environ A) state = Inr h" "memdot_oidc_load_challenge h d = [challenge]"
    "lc_consumed_at challenge = None" "now E < lc_expires_at challenge" "cookies ''memdot_oidc_state'' = Some state"
    "complete_sign_in A E challenge claims (d, []) = Inr (r, s)"
proof -
  obtain adapter where ad: "get_oidc_adapter (a_settings A) = Inr adapter" and len: "4 \<le> length code \<and> 8 \<le> length state"
    using assms by (auto simp: oidc_callback_def bindr_Inr_iff)
  show thesis
  proof (cases "cookies ''memdot_oidc_state'' = Some state \<and> state \<noteq> []")
    case False
    then have "(case cookies ''memdot_oidc_state'' of None \<Rightarrow> [] | Some v \<Rightarrow> v) = [] \<or>
        (case cookies ''memdot_oidc_state'' of None \<Rightarrow> [] | Some v \<Rightarrow> v) \<noteq> state"
      by (auto split: option.splits)
    then show thesis using assms ad len refused by (auto simp: oidc_callback_def Let_def)
  next
    case True
    obtain h found where h: "hash_secret E (a_environ A) state = Inr h"
      and f: "scalar_one_or_none (memdot_oidc_load_challenge h d) = Inr found"
      using assms ad len True by (auto simp: oidc_callback_def Let_def bindr_Inr_iff)
    show thesis
    proof (cases "challenge_refusal E found")
      case (Some code')
      then show thesis using assms ad len True h f refused by (auto simp: oidc_callback_def Let_def)
    next
      case None
      then obtain challenge where ch: "found = Some challenge" "lc_consumed_at challenge = None" "now E < lc_expires_at challenge"
        by (auto simp: challenge_refusal_def split: option.splits if_splits)
      then have one: "memdot_oidc_load_challenge h d = [challenge]"
        using f by (cases "memdot_oidc_load_challenge h d" rule: scalar_one.cases) simp_all
      have "exchange_and_sign_in A E adapter code challenge (d, []) = Inr (r, s)"
        using assms ad len True h f None ch(1) by (simp add: oidc_callback_def Let_def)
      then consider claims where "complete_sign_in A E challenge claims (d, []) = Inr (r, s)"
        | status code' where "r = Problem status code'" "s = (d, [])"
        by (cases "token_claims A E adapter code challenge")
          (auto simp: exchange_and_sign_in_def bindr_Inr_iff split: err.splits if_splits)
      then show thesis using checked [OF h one ch(2,3)] True refused by cases auto
    qed
  qed
qed

lemma first_session_in: "first_session rows = Some r \<Longrightarrow> r \<in> set rows"
  by (auto simp: first_session_def split: list.splits)

lemma load_browser_session_Inr:
  assumes "load_browser_session E os cookies (d, []) = Inr ((ctx, b), s)"
  obtains i secret h row g where "Option.bind (cookies ''memdot_session'') split_dot = Some (i, secret)" "parse_uuid i = Inr (bs_id b)"
    "s = (d\<lparr> settings := g \<rparr>, [])" "b \<in> set (t_browser_session d)" "ctx = first_party (bs_account_id row) (bs_actor_id row)"
    "hash_secret E os secret = Inr h" "first_session (memdot_auth_load_session (bs_id b) h d) = Some row"
    "is_session_active (bs_expires_at row) (bs_idle_expires_at row) (bs_revoked_at row) (now E)"
proof -
  obtain i secret sid h row where c: "Option.bind (cookies ''memdot_session'') split_dot = Some (i, secret)" "parse_uuid i = Inr sid"
    "hash_secret E os secret = Inr h" "first_session (memdot_auth_load_session sid h d) = Some row"
    "is_session_active (bs_expires_at row) (bs_idle_expires_at row) (bs_revoked_at row) (now E)"
    and sc: "tenant_scope E (first_party (bs_account_id row) (bs_actor_id row)) (session_by_id (bs_id row)) (d, []) = Inr (b, s)"
    and ctx: "ctx = first_party (bs_account_id row) (bs_actor_id row)"
    using assms unfolding load_browser_session_def
    by (auto simp: Inr_iffs Let_def split: prod.splits)
  have row: "bs_id row = sid"
    using first_session_in [OF c(4)] by (simp add: memdot_auth_load_session_def)
  obtain d' ps where s: "s = (d', ps)" by (rule prod.exhaust)
  from sc [unfolded s] show thesis
  proof (rule tenant_scope_body)
    fix g s3
    assume "session_by_id (bs_id row) (d\<lparr> settings := g \<rparr>, []) = Inr (b, s3)"
      and "flush s3 = Inr (d', ps)" "ps = []"
    then show thesis
      using that [OF c(1) _ _ _ ctx] c row s by (auto simp: session_by_id_def find_Some_iff split: option.splits)
  qed
qed

text \<open>A handler that changes a session either refuses, which changes nothing but the settings, or runs its continuation.\<close>

lemma with_session_cases:
  assumes "with_session A E cookies hdr k (d, []) = Inr (r, s)"
  obtains (refused) status code g where "r = Problem status code" "s = (d, []) \<or> s = (d\<lparr> settings := g \<rparr>, [])"
  | (loaded) ctx b g where "load_browser_session E (a_environ A) cookies (d, []) = Inr ((ctx, b), d\<lparr> settings := g \<rparr>, [])"
    "require_csrf E (a_environ A) hdr b = Inr ()" "k ctx b (d\<lparr> settings := g \<rparr>, []) = Inr (r, s)"
proof (cases "load_browser_session E (a_environ A) cookies (d, [])")
  case (Inl e)
  then have "\<exists>status code. r = Problem status code \<and> s = (d, [])" using assms by (cases e) (auto simp: with_session_def)
  then show thesis using refused by blast
next
  case (Inr x)
  obtain ctx b s1 where x: "x = ((ctx, b), s1)" by (metis prod.exhaust)
  obtain g where s1: "s1 = (d\<lparr> settings := g \<rparr>, [])" using Inr unfolding x by (rule load_browser_session_Inr)
  show thesis
  proof (cases "require_csrf E (a_environ A) hdr b")
    case (Inl e)
    then have "\<exists>status code. r = Problem status code \<and> s = s1" using assms Inr x by (cases e) (auto simp: with_session_def)
    then show thesis using refused s1 by blast
  next
    case c: (Inr u)
    then show thesis using loaded [of ctx b g] assms Inr x s1 by (simp add: with_session_def)
  qed
qed

text \<open>The tables after the revocation of a session, in a scope with other settings.\<close>

definition revoked :: "uuid \<Rightarrow> datetime \<Rightarrow> tenant_settings \<Rightarrow> 'a identity_db_scheme \<Rightarrow> 'a identity_db_scheme" where
  "revoked i t g d = d\<lparr> settings := g, t_browser_session := update_rows (\<lambda>x. bs_id x = i) (\<lambda>x. x\<lparr> bs_revoked_at := Some t \<rparr>)
     (t_browser_session d) \<rparr>"

lemma revoked_evolves: "evolves d (revoked i t g d)"
  using evolves_revoke [of "d\<lparr> settings := g \<rparr>"] by (simp add: revoked_def)

lemma revoked_dead: "b \<in> set (t_browser_session d) \<Longrightarrow> dead (bs_id b) (revoked (bs_id b) t g d)"
  by (auto simp: dead_def revoked_def update_rows_keys in_update_rows)

lemma revoke_scope:
  assumes "tenant_scope E ctx (\<lambda>s1. bindr (revoke_session E b s1) (\<lambda>s2. rest s2)) (d, []) = Inr (r, s)"
  obtains g row s3 where "rest (revoked (bs_id b) (now E) g d, [insert_revocation row]) = Inr (r, s3)" "flush s3 = Inr s" "snd s = []"
proof -
  obtain d' ps where s: "s = (d', ps)" by (rule prod.exhaust)
  from assms [unfolded s] show thesis
    by (rule tenant_scope_body) (use that s in \<open>auto simp: bindr_Inr_iff revoke_session_def revoked_def\<close>)
qed

lemma dead_evolves: "dead i d \<Longrightarrow> evolves d d' \<Longrightarrow> dead i d'"
  by (simp add: evolves_def)

text \<open>Logging out and rotating leave the session of the cookie dead.\<close>

definition kills_session :: "env \<Rightarrow> environ \<Rightarrow> headers \<Rightarrow> 'a identity_db_scheme \<Rightarrow> 'a identity_db_scheme \<Rightarrow> bool" where
  "kills_session E os cookies d d' \<longleftrightarrow> (\<exists>ctx b s1. load_browser_session E os cookies (d, []) = Inr ((ctx, b), s1) \<and> dead (bs_id b) d')"

lemma logout_kills:
  assumes "logout A E cookies hdr (d, []) = Inr (Reply body cs, s)"
  shows "\<exists>d'. s = (d', []) \<and> evolves d d' \<and> kills_session E (a_environ A) cookies d d'"
  using assms unfolding logout_def
proof (cases rule: with_session_cases)
  case (loaded ctx b g)
  have b: "b \<in> set (t_browser_session d)" using loaded(1) by (rule load_browser_session_Inr)
  obtain u where "tenant_scope E ctx (\<lambda>s1. bindr (revoke_session E b s1) (\<lambda>s2. Inr ((), s2))) (d\<lparr> settings := g \<rparr>, []) = Inr (u, s)"
    using loaded(3) by (auto simp: bindr_Inr_iff)
  then obtain g' row d' where ins: "insert_revocation row (revoked (bs_id b) (now E) g' (d\<lparr> settings := g \<rparr>)) = Inr d'" "s = (d', [])"
    by (rule revoke_scope) (auto simp: bindr_Inr_iff)
  have "dead (bs_id b) (revoked (bs_id b) (now E) g' (d\<lparr> settings := g \<rparr>))" by (rule revoked_dead) (use b in simp)
  then have "evolves d d'" "dead (bs_id b) d'"
    using evolves_insert(5) [OF ins(1)] revoked_evolves [of "d\<lparr> settings := g \<rparr>"] by (auto intro: evolves_trans dead_evolves)
  then show ?thesis using ins(2) loaded(1) by (auto simp: kills_session_def)
qed auto

lemma rotate_kills:
  assumes "rotate_session A E cookies hdr (d, []) = Inr (Reply body cs, s)"
  obtains d' where "s = (d', [])" "evolves d d'" "kills_session E (a_environ A) cookies d d'"
proof -
  let ?m = "new_session_material E (a_token A) 1"
  from assms show thesis unfolding rotate_session_def
  proof (cases rule: with_session_cases)
    case (loaded ctx b g)
    have b: "b \<in> set (t_browser_session d)" using loaded(1) by (rule load_browser_session_Inr)
    obtain u where "tenant_scope E ctx (\<lambda>s1. bindr (revoke_session E b s1) (\<lambda>s2.
         bindr (session_row E (a_environ A) ?m (bs_account_id b) (bs_user_id b) (bs_actor_id b) (bs_last_auth_at b) (Some (now E))) (\<lambda>row.
         Inr ((), add (insert_browser_session row) s2)))) (d\<lparr> settings := g \<rparr>, []) = Inr (u, s)"
      using loaded(3) by (auto simp: bindr_Inr_iff Let_def)
    then obtain g' rev row d1 d' where ins: "insert_revocation rev (revoked (bs_id b) (now E) g' (d\<lparr> settings := g \<rparr>)) = Inr d1"
      "insert_browser_session row d1 = Inr d'" "s = (d', [])"
      by (rule revoke_scope) (auto simp: bindr_Inr_iff)
    have "evolves (revoked (bs_id b) (now E) g' (d\<lparr> settings := g \<rparr>)) d'"
      using evolves_insert(5) [OF ins(1)] evolves_insert_keyed(2) [OF ins(2)] by (rule evolves_trans)
    moreover have "dead (bs_id b) (revoked (bs_id b) (now E) g' (d\<lparr> settings := g \<rparr>))" by (rule revoked_dead) (use b in simp)
    ultimately have "evolves d d'" "dead (bs_id b) d'"
      using revoked_evolves [of "d\<lparr> settings := g \<rparr>"] by (auto intro: evolves_trans dead_evolves)
    then show thesis using that ins(3) loaded(1) by (auto simp: kills_session_def)
  qed auto
qed

lemma attestation_evolves:
  assumes "adult_attestation A E cookies hdr confirmed (d, []) = Inr (r, s)"
  shows "\<exists>d'. s = (d', []) \<and> evolves d d'"
  using assms unfolding adult_attestation_def
proof (cases rule: with_session_cases)
  case (loaded ctx b g)
  let ?body = "record_adult_attestation E (bs_account_id b) (bs_user_id b) confirmed"
  show ?thesis
  proof (cases "tenant_scope E ctx ?body (d\<lparr> settings := g \<rparr>, [])")
    case (Inl e)
    then show ?thesis using loaded(3) by (cases e) auto
  next
    case (Inr x)
    obtain d' ps where x: "x = ((), d', ps)" by (metis (full_types) prod.exhaust unit.exhaust)
    from Inr [unfolded x] have "ps = [] \<and> evolves d d'"
    proof (rule tenant_scope_body)
      fix g' s3
      assume "?body (d\<lparr> settings := g, settings := g' \<rparr>, []) = Inr ((), s3)" and f: "flush s3 = Inr (d', ps)" "ps = []"
      then obtain rows where "s3 = (d\<lparr> settings := g', t_account := rows \<rparr>, []) \<or>
          (\<exists>row. s3 = (d\<lparr> settings := g', t_account := rows \<rparr>, [insert_attestation row]))"
        by (auto simp: record_adult_attestation_def bindr_Inr_iff split: if_splits)
      moreover have "evolves d (d\<lparr> settings := g', t_account := rows \<rparr>)" by (rule evolves_cong) simp_all
      ultimately show ?thesis using f evolves_trans evolves_insert(6) by (elim disjE exE) (fastforce simp: bindr_Inr_iff)+
    qed
    then show ?thesis using loaded(3) Inr x by auto
  qed
qed auto

section \<open>Sequences of requests\<close>

inductive auth_request :: "'a identity_db_scheme \<Rightarrow> 'a identity_db_scheme \<Rightarrow> bool" where
  begins: "oidc_begin A E (d, []) = Inr (r, d', []) \<Longrightarrow> auth_request d d'"
| completes: "oidc_callback A E cookies code state (d, []) = Inr (r, d', []) \<Longrightarrow> auth_request d d'"
| attests: "adult_attestation A E cookies hdr confirmed (d, []) = Inr (r, d', []) \<Longrightarrow> auth_request d d'"
| logs_out: "logout A E cookies hdr (d, []) = Inr (r, d', []) \<Longrightarrow> auth_request d d'"
| rotates: "rotate_session A E cookies hdr (d, []) = Inr (r, d', []) \<Longrightarrow> auth_request d d'"
| asks: "session_status A E cookies (d, []) = Inr (r, d', []) \<Longrightarrow> auth_request d d'"

inductive auth_requests :: "'a identity_db_scheme \<Rightarrow> 'a identity_db_scheme \<Rightarrow> bool" where
  none: "auth_requests d d"
| next_request: "auth_requests d d1 \<Longrightarrow> auth_request d1 d2 \<Longrightarrow> auth_requests d d2"

lemma authorization_reply_state: "authorization_reply A adapter state nonce verifier s = Inr (r, s') \<Longrightarrow> s' = s"
  by (auto simp: authorization_reply_def Let_def split: sum.split_asm err.split_asm)

lemma begin_evolves:
  assumes "oidc_begin A E (d, []) = Inr (r, d', [])"
  shows "evolves d d'"
proof -
  obtain row where "insert_challenge row d = Inr d'"
    using assms by (auto simp: oidc_begin_def memdot_oidc_create_challenge_def Let_def bindr_Inr_iff dest!: authorization_reply_state)
  then show ?thesis by (rule evolves_insert_keyed)
qed

lemma callback_evolves: "oidc_callback A E cookies code state (d, []) = Inr (r, d', []) \<Longrightarrow> evolves d d'"
  by (erule oidc_callback_cases) (auto dest: complete_sign_in_evolves)

lemma refusal_evolves:
  assumes "with_session A E cookies hdr k (d, []) = Inr (Problem status code, d', [])"
    and "\<And>ctx b s s'. k ctx b s \<noteq> Inr (Problem status code, s')"
  shows "evolves d d'"
  using assms(1) by (rule with_session_cases) (use assms(2) in auto)

lemma logout_evolves:
  assumes "logout A E cookies hdr (d, []) = Inr (r, d', [])"
  shows "evolves d d'"
proof (cases r)
  case (Reply body cs)
  then show ?thesis using logout_kills assms by blast
next
  case (Problem status code)
  show ?thesis using assms unfolding Problem logout_def by (rule refusal_evolves) (auto simp: bindr_Inr_iff)
qed

lemma rotate_evolves:
  assumes "rotate_session A E cookies hdr (d, []) = Inr (r, d', [])"
  shows "evolves d d'"
proof (cases r)
  case (Reply body cs)
  from assms [unfolded Reply] show ?thesis by (rule rotate_kills) simp
next
  case (Problem status code)
  show ?thesis using assms unfolding Problem rotate_session_def by (rule refusal_evolves) (auto simp: bindr_Inr_iff Let_def)
qed

lemma status_evolves:
  assumes "session_status A E cookies (d, []) = Inr (r, d', [])"
  shows "evolves d d'"
proof (cases "load_browser_session E (a_environ A) cookies (d, [])")
  case (Inl e)
  then show ?thesis using assms by (cases e) (auto simp: session_status_def)
next
  case (Inr x)
  obtain ctx b s1 where x: "x = ((ctx, b), s1)" by (metis prod.exhaust)
  obtain g where s1: "s1 = (d\<lparr> settings := g \<rparr>, [])" using Inr unfolding x by (rule load_browser_session_Inr)
  obtain attested where "tenant_scope E ctx (\<lambda>s2.
            bindr (scalar_one_or_none (filter (\<lambda>a. ha_account_id a = bs_account_id b \<and> ha_user_id a = bs_user_id b \<and> ha_confirmed a)
              (t_attestation (tables s2)))) (\<lambda>found. Inr (found \<noteq> None, s2))) s1 = Inr (attested, d', [])"
    using assms Inr x by (auto simp: session_status_def bindr_Inr_iff)
  then show ?thesis unfolding s1 by (rule tenant_scope_body) (auto simp: bindr_Inr_iff)
qed

lemma requests_evolve: "auth_requests d d' \<Longrightarrow> evolves d d'"
proof (induction rule: auth_requests.induct)
  case (next_request d d1 d2)
  from next_request.hyps(2) have "evolves d1 d2"
    by cases (auto dest: begin_evolves callback_evolves logout_evolves rotate_evolves status_evolves attestation_evolves)
  then show ?case using next_request.IH by (rule evolves_trans [rotated])
qed simp

lemma consume_spends:
  assumes "memdot_oidc_consume_challenge (lc_id challenge) t d = (ok, d')"
    and rows: "filter (\<lambda>c. lc_state_hash c = h) (t_challenge d) = [challenge]"
    and "lc_consumed_at challenge = None" and "t < lc_expires_at challenge"
  shows "spent h d'"
proof -
  have d': "t_challenge d' = update_rows (challenge_open (lc_id challenge) t) (\<lambda>c. c\<lparr> lc_consumed_at := Some t \<rparr>) (t_challenge d)"
    using assms(1) by (auto simp: memdot_oidc_consume_challenge_def)
  have only: "c = challenge" if "c \<in> set (t_challenge d)" "lc_state_hash c = h" for c
  proof -
    have "c \<in> set (filter (\<lambda>c. lc_state_hash c = h) (t_challenge d))" using that by simp
    then show ?thesis unfolding rows by simp
  qed
  have op: "challenge_open (lc_id challenge) t challenge" using assms(3,4) by (simp add: challenge_open_def)
  show ?thesis unfolding spent_def
  proof (intro conjI ballI impI)
    show "h \<in> lc_state_hash ` set (t_challenge d')"
      unfolding d' using filter_singletonD [OF rows] by (auto simp: update_rows_keys)
    fix c
    assume c: "c \<in> set (t_challenge d')" "lc_state_hash c = h"
    then obtain x where x: "x \<in> set (t_challenge d)"
      "c = (if challenge_open (lc_id challenge) t x then x\<lparr> lc_consumed_at := Some t \<rparr> else x)"
      unfolding d' in_update_rows by blast
    have "lc_state_hash x = h" using c(2) x(2) by (simp split: if_splits)
    then have "x = challenge" using only x(1) by simp
    then show "lc_consumed_at c \<noteq> None" using x(2) op by simp
  qed
qed

lemma split_dot_str_uuid: "split_dot (str_uuid u @ CHR ''.'' # secret) = Some (str_uuid u, secret)"
proof -
  have "c \<noteq> CHR ''.''" if "c \<in> set (str_uuid u)" for c using that str_uuid_no_dot [of u] by metis
  then show ?thesis by (simp add: split_dot_def takeWhile_append2 dropWhile_append2)
qed

section \<open>Properties\<close>

text \<open>The cookies of a response, as the next request sends them.\<close>

definition cookie_jar :: "cookie list \<Rightarrow> headers" where
  "cookie_jar cs name = Option.bind (List.find (\<lambda>c. ck_name c = name) cs) ck_value"

text \<open>
  (C9) A login challenge is used once: after a sign-in that was completed, no request of whatever later sequence completes a sign-in with
  the same state, under the same pepper.
\<close>

theorem challenge_single_use:
  assumes "oidc_callback A E cookies code state (d, []) = Inr (Reply body cs, d1, [])" and "auth_requests d1 d2"
    and "hash_secret E' (a_environ A') state = hash_secret E (a_environ A) state"
  shows "oidc_callback A' E' cookies' code' state (d2, []) \<noteq> Inr (Reply body' cs', s)"
proof
  assume again: "oidc_callback A' E' cookies' code' state (d2, []) = Inr (Reply body' cs', s)"
  from assms(1) obtain h where h: "hash_secret E (a_environ A) state = Inr h" and sp: "spent h d1"
  proof (cases rule: oidc_callback_cases)
    case (checked h challenge claims)
    from checked(6) have "spent h d1"
    proof (rule complete_sign_in_Reply)
      fix da db dc account user actor
      assume t: "t_challenge da = t_challenge d" and c: "memdot_oidc_consume_challenge (lc_id challenge) (now E) da = (True, db)"
        and e: "evolves db dc" and o: "open_session A E (account, user, actor) (dc, []) = Inr (Reply body cs, d1, [])"
      have rows: "filter (\<lambda>c. lc_state_hash c = h) (t_challenge da) = [challenge]"
        using checked(2) t by (simp add: memdot_oidc_load_challenge_def)
      have "spent h db"
        by (rule consume_spends [OF c rows checked(3,4)])
      moreover have "evolves dc d1" using o by (rule open_session_Inr) (use evolves_insert_keyed in fastforce)
      ultimately show "spent h d1" using e by (simp add: evolves_def)
    qed
    then show thesis using that checked(1) by blast
  qed auto
  have "spent h d2" using sp requests_evolve [OF assms(2)] by (simp add: evolves_def)
  from again show False
  proof (cases rule: oidc_callback_cases)
    case (checked h' challenge claims)
    have "challenge \<in> set (filter (\<lambda>c. lc_state_hash c = h) (t_challenge d2))"
      using checked(1,2) assms(3) h by (simp add: memdot_oidc_load_challenge_def)
    then show False using \<open>spent h d2\<close> checked(3) by (force simp: spent_def)
  qed auto
qed

text \<open>
  (C10) A session that was logged out, or replaced by rotation, is gone for good: after whatever later sequence of requests no context is
  loaded for its cookie, whatever the headers and the time.
\<close>

theorem revoked_session_stays_out:
  assumes "(logout A E cookies hdr (d, []) = Inr (Reply body cs, d1, []) \<or> rotate_session A E cookies hdr (d, []) = Inr (Reply body cs, d1, []))"
    and "auth_requests d1 d2"
  shows "load_session_context E' os' cookies hdr' csrf d2 = Inr None"
proof -
  have "kills_session E (a_environ A) cookies d d1"
    using assms(1) by (auto dest: logout_kills elim: rotate_kills)
  then obtain ctx b s1 where l: "load_browser_session E (a_environ A) cookies (d, []) = Inr ((ctx, b), s1)" and k: "dead (bs_id b) d1"
    by (auto simp: kills_session_def)
  obtain i secret where c: "Option.bind (cookies ''memdot_session'') split_dot = Some (i, secret)" "parse_uuid i = Inr (bs_id b)"
    using l by (rule load_browser_session_Inr)
  have "dead (bs_id b) d2" using k requests_evolve [OF assms(2)] by (rule dead_evolves)
  then have "memdot_auth_load_session (bs_id b) h d2 = []" for h
    by (auto simp: memdot_auth_load_session_def dead_def filter_empty_conv)
  then show ?thesis using c by (simp add: load_session_context_def first_session_def split: sum.split)
qed

text \<open>
  (C11) An external identity keeps its account: if a sign-in with an issuer and a subject went to an account, every later sign-in with
  them goes to the same one, hosted or self-hosted.
\<close>

theorem identity_keeps_account:
  assumes "signed_in_identity A E claims (d, []) = Inr ((account, user, actor), d1, [])" and "auth_requests d1 d2"
    and "signed_in_identity A' E' claims' (d2, []) = Inr ((account', user', actor'), d3, [])"
    and "oc_issuer claims' = oc_issuer claims" and "oc_subject claims' = oc_subject claims"
  shows "account' = account"
proof -
  have "linked (oc_issuer claims) (oc_subject claims) account d1" using identity_evolves [OF assms(1)] by blast
  then have "linked (oc_issuer claims) (oc_subject claims) account d2" using requests_evolve [OF assms(2)] by (simp add: evolves_def)
  then have "linked (oc_issuer claims) (oc_subject claims) account d3" using identity_evolves [OF assms(3)] by (simp add: evolves_def)
  moreover have "linked (oc_issuer claims) (oc_subject claims) account' d3" using identity_evolves [OF assms(3)] assms(4,5) by auto
  ultimately show ?thesis by (auto simp: linked_def)
qed

text \<open>
  (C12) How long a new session lives: its cookie gives the context of the account the reply names for one hour after the sign-in and no
  longer, although the session's own expiry and the cookie's age are 24 hours; a request that needs the CSRF token gets nothing
  without it.
\<close>

theorem login_session_lifetime:
  assumes "oidc_callback A E cookies code state (d, []) = Inr (Reply body cs, d1, [])"
  shows "\<exists>row \<in> set (t_browser_session d1). map_of body ''account_id'' = Some (JStr (str_uuid (bs_account_id row))) \<and>
    bs_expires_at row = now E + 24 * 3600000000 \<and>
    load_session_context (E\<lparr> now := t \<rparr>) (a_environ A) (cookie_jar cs) hdr False d1 =
      Inr (if t \<le> now E + 3600000000 then Some (session_request_context (E\<lparr> now := t \<rparr>) hdr row) else None) \<and>
    (hdr ''X-CSRF-Token'' = None \<longrightarrow> load_session_context (E\<lparr> now := t \<rparr>) (a_environ A) (cookie_jar cs) hdr True d1 = Inr None)"
  using assms
proof (cases rule: oidc_callback_cases)
  case (checked h challenge claims)
  let ?m = "new_session_material E (a_token A) 7"
  from checked(6) obtain d3 account user actor where "open_session A E (account, user, actor) (d3, []) = Inr (Reply body cs, d1, [])"
    by (rule complete_sign_in_Reply)
  then obtain g row where row: "session_row E (a_environ A) ?m account user actor (now E) None = Inr row"
    and ins: "insert_browser_session row (d3\<lparr> settings := g \<rparr>) = Inr d1"
    and cs: "cs = session_cookies (a_settings A) ?m @ [deleted_cookie ''memdot_oidc_state'']"
      "body = [(''status'', JStr ''authenticated''), (''account_id'', JStr (str_uuid account))]"
    by (rule open_session_Inr) simp
  obtain h where h: "hash_secret E (a_environ A) (sm_secret ?m) = Inr h"
    and fields: "bs_id row = sm_session_id ?m" "bs_account_id row = account" "bs_secret_hash row = h" "bs_revoked_at row = None"
      "bs_expires_at row = now E + 24 * 3600000000" "bs_idle_expires_at row = now E + 3600000000"
    using row by (auto simp: session_row_def session_expiry_def bindr_Inr_iff)
  have "filter (\<lambda>b. bs_id b = bs_id row \<and> bs_secret_hash b = h \<and> bs_revoked_at b = None) (t_browser_session d1) = [row]"
    using browser_sessions.ins_appends [OF ins] browser_sessions.ins_fresh [OF ins] fields(3,4)
    by (auto simp: filter_empty_conv image_iff)
  then have found: "first_session (memdot_auth_load_session (bs_id row) h d1) = Some row" "row \<in> set (t_browser_session d1)"
    by (auto simp: memdot_auth_load_session_def first_session_def dest: filter_singletonD)
  have jar: "Option.bind (cookie_jar cs ''memdot_session'') split_dot = Some (str_uuid (bs_id row), sm_secret ?m)"
    by (simp add: cs cookie_jar_def session_cookies_def split_dot_str_uuid fields(1))
  have "hash_secret (E\<lparr> now := t \<rparr>) (a_environ A) (sm_secret ?m) = Inr h" using h by (simp add: hash_secret_def)
  then show ?thesis
    using jar found fields cs(2)
    by (intro bexI [of _ row]) (auto simp: load_session_context_def is_session_active_def)
qed auto

section \<open>A concrete sign-in\<close>

definition demo_auth :: auth_env where
  "demo_auth = \<lparr> a_environ = (\<lambda>name. if name = ''CORE_SESSION_SIGNING_PEPPER'' then Some (replicate 16 (CHR ''p'')) else None),
     a_token = (\<lambda>n. if n = 0 then ''secret'' else ''csrf''), a_crypto = demo_crypto,
     a_oidc = \<lparr> http_get = (\<lambda>_. Inr (JObj [(''authorization_endpoint'', JStr ''auth''), (''token_endpoint'', JStr ''token'')])),
       http_post = (\<lambda>_ _. Some (JObj [(''id_token'', JStr ''jwt'')])),
       id_token_decode = (\<lambda>_ _ _. Decoded [(''sub'', JStr ''u''), (''iss'', JStr ''idp''), (''aud'', JStr ''core''), (''exp'', JInt 900),
         (''nonce'', JStr ''n0nce'')]) \<rparr>,
     a_settings = \<lparr> cs_env = ''test'', cs_oidc_issuer = ''idp'', cs_oidc_audience = ''core'', cs_oidc_client_id = ''core'',
       cs_oidc_client_secret = [], cs_oidc_redirect_uri = ''cb'' \<rparr> \<rparr>"

abbreviation demo_hash :: "string \<Rightarrow> string" where
  "demo_hash v \<equiv> CHR ''h'' # replicate 16 (CHR ''p'') @ v"

lemma demo_hash_secret [simp]: "hash_secret demo_env (a_environ demo_auth) v = Inr (demo_hash v)"
  by (simp add: hash_secret_def session_pepper_def demo_auth_def demo_env_def)

definition demo_challenge :: OidcLoginChallenge where
  "demo_challenge = \<lparr> lc_id = 60, lc_state_hash = demo_hash ''state-12'', lc_nonce_hash = demo_hash ''n0nce'',
     lc_pkce_verifier_ciphertext = b64encode (replicate 12 (CHR ''n'') @ ''tverifier''), lc_expires_at = 2000000, lc_consumed_at = None,
     lc_created_at = 0 \<rparr>"

definition demo_identities :: identity_db where
  "demo_identities = access_db.extend demo_access
     \<lparr> t_user = [\<lparr> us_id = 10, us_account_id = 1, us_email = None, us_display_name = None, us_created_at = 0 \<rparr>],
       t_identity = [\<lparr> ei_id = 61, ei_account_id = 1, ei_user_id = 10, ei_issuer = ''idp'', ei_subject = ''u'', ei_provider = None,
         ei_created_at = 0 \<rparr>],
       t_browser_session = [\<lparr> bs_id = 50, bs_account_id = 1, bs_user_id = 10, bs_actor_id = 20, bs_secret_hash = demo_hash ''old'',
         bs_csrf_token_hash = demo_hash ''csrf'', bs_expires_at = 9000000, bs_idle_expires_at = 9000000, bs_last_auth_at = 0,
         bs_rotated_at = None, bs_revoked_at = None, bs_created_at = 0 \<rparr>],
       t_revocation = [], t_attestation = [], t_bootstrap = [], t_challenge = [demo_challenge], t_token_replay = [] \<rparr>"

lemma demo_identities_sel [simp]:
  "t_actor demo_identities = t_actor demo_core" "t_account_member demo_identities = t_account_member demo_core"
  "t_challenge demo_identities = [demo_challenge]"
  by (simp_all add: demo_identities_def access_db.defs demo_access_def core_db.defs)

definition demo_claims :: OidcClaims where
  "demo_claims = \<lparr> oc_issuer = ''idp'', oc_audience = ''core'', oc_subject = ''u'', oc_email = None, oc_provider = None,
     oc_nonce = Some ''n0nce'', oc_expires_at = 900, oc_jti = None \<rparr>"

definition demo_adapter :: OidcIssuerAdapter where
  "demo_adapter = \<lparr> oa_issuer = ''idp'', oa_audience = ''core'', oa_hosted_google_only = False,
      oa_google_issuer_hint = ''accounts.google.com'', oa_authorization_endpoint = None, oa_token_endpoint = None \<rparr>"

lemma demo_get_adapter: "get_oidc_adapter (a_settings demo_auth) = Inr demo_adapter"
  by code_simp

lemma demo_token_claims: "token_claims demo_auth demo_env demo_adapter ''code'' demo_challenge = Inr demo_claims"
proof -
  have "decrypt_ephemeral_secret (a_crypto demo_auth) (a_environ demo_auth) (lc_pkce_verifier_ciphertext demo_challenge) = Inr ''verifier''"
    by (simp add: decrypt_ephemeral_secret_def session_pepper_def demo_auth_def demo_challenge_def b64_roundtrip demo_crypto_def)
  moreover have "bindr (exchange_code (a_oidc demo_auth) demo_adapter ''code'' ''verifier'' (cs_oidc_client_id (a_settings demo_auth))
      (cs_oidc_client_secret (a_settings demo_auth)) (cs_oidc_redirect_uri (a_settings demo_auth)))
      (\<lambda>id_token. bindr (validate_id_token (a_oidc demo_auth) demo_env demo_adapter id_token None None) (\<lambda>(claims, _). Inr claims)) =
    Inr demo_claims"
    by code_simp
  ultimately show ?thesis by (simp add: token_claims_def)
qed

lemma demo_first_party: "first_party 1 20 = demo_tenant"
  by (simp add: first_party_def demo_tenant_def)

lemma demo_signed_in:
  assumes "t_identity d = t_identity demo_identities" and "t_actor d = t_actor demo_core"
  shows "signed_in_identity demo_auth E demo_claims (d, []) = Inr ((1, 10, 20), d, [])"
proof -
  have "is_self_host (a_settings demo_auth) = Inr False" by code_simp
  then show ?thesis
    using assms by (simp add: signed_in_identity_def link_or_create_hosted_identity_def memdot_auth_find_identity_def
        memdot_auth_find_actor_for_user_def demo_claims_def demo_identities_def access_db.defs demo_core_def)
qed

lemma demo_sign_in:
  obtains cs d1 where "oidc_callback demo_auth demo_env (\<lambda>_. Some ''state-12'') ''code'' ''state-12'' (demo_identities, []) =
    Inr (Reply [(''status'', JStr ''authenticated''), (''account_id'', JStr (str_uuid 1))] cs, d1, [])"
proof -
  obtain d where c: "memdot_oidc_consume_challenge 60 1000000 demo_identities = (True, d)"
    by (simp add: memdot_oidc_consume_challenge_def challenge_open_def demo_challenge_def)
  then obtain rows where d: "d = demo_identities\<lparr> t_challenge := rows \<rparr>" by (auto simp: memdot_oidc_consume_challenge_def)
  have same: "t_identity d = t_identity demo_identities" "t_actor d = t_actor demo_core" "t_account_member d = t_account_member demo_core"
    by (simp_all add: d)
  let ?m = "new_session_material demo_env (a_token demo_auth) 7"
  obtain row where row: "session_row demo_env (a_environ demo_auth) ?m 1 10 20 1000000 None = Inr row"
    and r: "bs_id row = 1007" "bs_account_id row = 1" "bs_user_id row = 10" "bs_actor_id row = 20"
    by (simp add: session_row_def session_expiry_def new_session_material_def)
  obtain g where sc: "tenant_scope demo_env demo_tenant (\<lambda>s1.
        bindr (session_row demo_env (a_environ demo_auth) ?m 1 10 20 1000000 None) (\<lambda>row.
        Inr ((), add (insert_browser_session row) s1))) (d, []) =
      bindr (bindr (session_row demo_env (a_environ demo_auth) ?m 1 10 20 1000000 None) (\<lambda>row.
        Inr ((), add (insert_browser_session row) (d\<lparr> settings := g \<rparr>, [])))) (\<lambda>(r, s3). bindr (flush s3) (\<lambda>s4. Inr (r, s4)))"
    using demo_scope [OF same(2,3)] by blast
  have "\<exists>d1. insert_browser_session row (d\<lparr> settings := g \<rparr>) = Inr d1"
    using r by (simp add: d insert_browser_session_def unique_key_def foreign_key_def demo_identities_def
        access_db.defs user_key_def demo_core_def demo_access_def core_db.defs)
  then obtain d1 where "insert_browser_session row (d\<lparr> settings := g \<rparr>) = Inr d1" ..
  then obtain cs where o: "open_session demo_auth demo_env (1, 10, 20) (d, []) =
      Inr (Reply [(''status'', JStr ''authenticated''), (''account_id'', JStr (str_uuid 1))] cs, d1, [])"
    using sc row by (simp add: open_session_def demo_first_party)
  have "complete_sign_in demo_auth demo_env demo_challenge demo_claims (demo_identities, []) =
      Inr (Reply [(''status'', JStr ''authenticated''), (''account_id'', JStr (str_uuid 1))] cs, d1, [])"
    using c o demo_signed_in [OF same(1,2)]
    by (simp add: complete_sign_in_def record_token_def truthy_str_def demo_claims_def demo_challenge_def)
  then have "oidc_callback demo_auth demo_env (\<lambda>_. Some ''state-12'') ''code'' ''state-12'' (demo_identities, []) =
      Inr (Reply [(''status'', JStr ''authenticated''), (''account_id'', JStr (str_uuid 1))] cs, d1, [])"
    using demo_get_adapter demo_token_claims
    by (simp add: oidc_callback_def memdot_oidc_load_challenge_def demo_challenge_def challenge_refusal_def exchange_and_sign_in_def
        demo_claims_def truthy_str_def)
  then show thesis by (rule that)
qed

lemma demo_logout:
  obtains cs d1 where "logout demo_auth demo_env (\<lambda>_. Some (str_uuid 50 @ ''.old'')) (\<lambda>_. Some ''csrf'') (demo_identities, []) =
    Inr (Reply [(''status'', JStr ''logged_out'')] cs, d1, [])"
proof -
  obtain b where b: "t_browser_session demo_identities = [b]" "bs_id b = 50" "bs_account_id b = 1" "bs_actor_id b = 20"
    "bs_secret_hash b = demo_hash ''old''" "bs_csrf_token_hash b = demo_hash ''csrf''" "bs_revoked_at b = None"
    "bs_expires_at b = 9000000" "bs_idle_expires_at b = 9000000" "t_revocation demo_identities = []"
    by (simp add: demo_identities_def access_db.defs)
  obtain g where "tenant_scope demo_env demo_tenant (session_by_id 50) (demo_identities, []) =
      bindr (session_by_id 50 (demo_identities\<lparr> settings := g \<rparr>, [])) (\<lambda>(r, s3). bindr (flush s3) (\<lambda>s4. Inr (r, s4)))"
    using demo_scope [of demo_identities "session_by_id 50" "[]"] by auto
  then have l: "load_browser_session demo_env (a_environ demo_auth) (\<lambda>_. Some (str_uuid 50 @ ''.old'')) (demo_identities, []) =
      Inr ((demo_tenant, b), demo_identities\<lparr> settings := g \<rparr>, [])"
    using b by (simp add: load_browser_session_def split_dot_str_uuid memdot_auth_load_session_def first_session_def is_session_active_def
        demo_first_party session_by_id_def)
  have csrf: "require_csrf demo_env (a_environ demo_auth) (\<lambda>_. Some ''csrf'') b = Inr ()"
    using b by (simp add: require_csrf_def verify_session_secret_def compare_digest_def ascii_def)
  obtain g' where sc: "tenant_scope demo_env demo_tenant (\<lambda>s1. bindr (revoke_session demo_env b s1) (\<lambda>s2. Inr ((), s2)))
        (demo_identities\<lparr> settings := g \<rparr>, []) =
      bindr (bindr (revoke_session demo_env b (demo_identities\<lparr> settings := g, settings := g' \<rparr>, [])) (\<lambda>s2. Inr ((), s2)))
        (\<lambda>(r, s3). bindr (flush s3) (\<lambda>s4. Inr (r, s4)))"
    using demo_scope [of "demo_identities\<lparr> settings := g \<rparr>" "\<lambda>s1. bindr (revoke_session demo_env b s1) (\<lambda>s2. Inr ((), s2))" "[]"] by auto
  have "\<exists>d1. tenant_scope demo_env demo_tenant (\<lambda>s1. bindr (revoke_session demo_env b s1) (\<lambda>s2. Inr ((), s2)))
        (demo_identities\<lparr> settings := g \<rparr>, []) = Inr ((), d1, [])"
    using b by (subst sc) (simp add: revoke_session_def insert_revocation_def unique_key_def foreign_key_def update_rows_def)
  then show thesis
    using that l csrf by (auto simp: logout_def with_session_def)
qed

theorem challenge_single_use_witness:
  "\<exists>cs d1. oidc_callback demo_auth demo_env (\<lambda>_. Some ''state-12'') ''code'' ''state-12'' (demo_identities, []) =
      Inr (Reply [(''status'', JStr ''authenticated''), (''account_id'', JStr (str_uuid 1))] cs, d1, []) \<and>
    oidc_callback demo_auth demo_env (\<lambda>_. Some ''state-12'') ''code'' ''state-12'' (d1, []) \<noteq> Inr (Reply [] [], d1, [])"
proof -
  obtain cs d1 where r: "oidc_callback demo_auth demo_env (\<lambda>_. Some ''state-12'') ''code'' ''state-12'' (demo_identities, []) =
      Inr (Reply [(''status'', JStr ''authenticated''), (''account_id'', JStr (str_uuid 1))] cs, d1, [])"
    by (rule demo_sign_in)
  then show ?thesis using challenge_single_use [OF r none refl] by blast
qed

theorem revoked_session_stays_out_witness:
  "\<exists>cs d1. logout demo_auth demo_env (\<lambda>_. Some (str_uuid 50 @ ''.old'')) (\<lambda>_. Some ''csrf'') (demo_identities, []) =
      Inr (Reply [(''status'', JStr ''logged_out'')] cs, d1, []) \<and>
    load_session_context demo_env (a_environ demo_auth) (\<lambda>_. Some (str_uuid 50 @ ''.old'')) (\<lambda>_. None) False d1 = Inr None"
proof -
  obtain cs d1 where r: "logout demo_auth demo_env (\<lambda>_. Some (str_uuid 50 @ ''.old'')) (\<lambda>_. Some ''csrf'') (demo_identities, []) =
      Inr (Reply [(''status'', JStr ''logged_out'')] cs, d1, [])"
    by (rule demo_logout)
  then show ?thesis using revoked_session_stays_out [OF disjI1 [OF r] none] by blast
qed

theorem identity_keeps_account_witness:
  "fst (fst (projr (signed_in_identity demo_auth demo_env demo_claims (demo_identities, [])))) = 1"
proof -
  have a: "signed_in_identity demo_auth demo_env demo_claims (demo_identities, []) = Inr ((1, 10, 20), demo_identities, [])"
    by (rule demo_signed_in) simp_all
  show ?thesis using identity_keeps_account [OF a none a refl refl] a by simp
qed

theorem login_session_lifetime_witness:
  "\<exists>cs d1 row. oidc_callback demo_auth demo_env (\<lambda>_. Some ''state-12'') ''code'' ''state-12'' (demo_identities, []) =
      Inr (Reply [(''status'', JStr ''authenticated''), (''account_id'', JStr (str_uuid 1))] cs, d1, []) \<and>
    load_session_context (demo_env\<lparr> now := 1001000000 \<rparr>) (a_environ demo_auth) (cookie_jar cs) (\<lambda>_. None) False d1 =
      Inr (Some (session_request_context (demo_env\<lparr> now := 1001000000 \<rparr>) (\<lambda>_. None) row)) \<and> bs_account_id row = 1"
proof -
  obtain cs d1 where r: "oidc_callback demo_auth demo_env (\<lambda>_. Some ''state-12'') ''code'' ''state-12'' (demo_identities, []) =
      Inr (Reply [(''status'', JStr ''authenticated''), (''account_id'', JStr (str_uuid 1))] cs, d1, [])"
    by (rule demo_sign_in)
  then show ?thesis using login_session_lifetime [OF r, where t = 1001000000 and hdr = "\<lambda>_. None"] by auto
qed

end
