(* ===== verification/Spec2Isabelle.thy ===== *)
theory Spec2Isabelle
  imports
    Prelude Json Numbers Json_Parse Ids Fsrs Learning Evidence Curriculum Retrieval Context_Compiler Policy
    Telemetry Mcp_Ids Object_Keys Ledger Tenant Row_Policies Deletion Jobs Idempotency Auth_Snapshot Conversations
    Document Pointers Documents Memory Learning_Service Learning_Invariants Ingestion_Domain Storage Sources Parsers
    Ingestion Processor Lanes Context_Service Mcp_Service Base64 Cursors Service_Auth External_Access
    Sessions Identity Login Login_Invariants
begin

text \<open>
  Memdot keeps a person's sources, notes, conversations, memory and learning record in one ledger and serves them to
  first-party clients, to workers and, through MCP, to external assistants. This development models the Python core:
  the domain package \<open>packages/domain-python\<close> and the service \<open>services/core\<close>, with the database functions and triggers of
  the migrations the service relies on.

  \<^bold>\<open>How the model is built.\<close> A row is a record with the columns of its class in \<open>db/models\<close>; a table is the list of its
  rows in insertion order; \<open>insert_*\<close> checks the primary key, unique, CHECK and foreign key constraints and the triggers of
  the table. A session is the tables and the insertions that are pending, because sessions are created with
  \<open>autoflush=False\<close>; \<open>flush\<close> runs them. A service operation takes and returns a session; an exception is a value of \<open>err\<close>
  (\<open>Inl\<close>). The clock, fresh identifiers, nonces, SHA-256, HMAC and keys are the fields of \<open>env\<close>; AES-GCM is in \<open>crypto\<close>,
  pydantic's validation in \<open>doc_model\<close>. Floats are exact rationals, strings are lists of ASCII characters, times are
  microseconds.

  \<^bold>\<open>Row policies.\<close> Every policy starts with the account test \<open>memdot_rls_ok\<close>; \<open>Tenant\<close> proves that under a live seal it lets through
  exactly the rows of the context's account, which every modelled query names itself, so it is not applied a second time. What a
  policy tests beyond the account, the purpose and the visibility of the space, is in \<open>Row_Policies\<close> and is applied where external
  contexts reach: reads of spaces, documents, elements, proposals and conversations (\<open>space_visibility_map\<close>, \<open>external_space_ids\<close>,
  \<open>visible_library\<close>, \<open>visible_chat\<close>), inserts of proposals, conversations and turns (\<open>policy_check\<close>). The other services run under
  first-party and worker contexts, which these tests let pass.

  \<^bold>\<open>Theories and sources.\<close>
  \<^item> \<open>Prelude\<close>, \<open>Json\<close>, \<open>Numbers\<close>, \<open>Json_Parse\<close>: the error monad, query results, Python's strings, JSON values with
    \<open>json.dumps\<close> and \<open>json.loads\<close>, number parsing. \<open>json_round_trip\<close> shows that what is printed is read back.
  \<^item> \<open>Ids\<close> (\<open>ids.py\<close>), \<open>Mcp_Ids\<close> (\<open>mcp.py\<close>), \<open>Object_Keys\<close> (\<open>object_keys.py\<close>, the in-memory storage adapter): identifiers
    and keys, their round trips and their binding to an account.
  \<^item> \<open>Fsrs\<close> (\<open>fsrs.py\<close>), \<open>Learning\<close> and \<open>Curriculum\<close> (\<open>learning.py\<close>), \<open>Evidence\<close> (\<open>evidence_twin.py\<close>): the scheduler's bounds,
    event eligibility, the cycle check against reachability, the replay's independence of order and repetition.
  \<^item> \<open>Retrieval\<close> (\<open>retrieval.py\<close>), \<open>Context_Compiler\<close> (\<open>context_compiler.py\<close>), \<open>Policy\<close> (\<open>policy.py\<close>), \<open>Telemetry\<close>
    (\<open>telemetry.py\<close>): fusion, budget packing, rate limits, the telemetry guard.
  \<^item> \<open>Ledger\<close> (\<open>db/models\<close>), \<open>Tenant\<close> (\<open>db/tenant.py\<close>, migration 0001): tables, sessions, the locale \<open>keyed_table\<close> that the
    unique tables interpret, the sealed tenant context and its account test. \<open>Row_Policies\<close> (migrations 0001 to 0005): what the
    policies ask of purpose and space.
  \<^item> \<open>Deletion\<close> (\<open>deletion/service.py\<close>), \<open>Jobs\<close> (\<open>jobs/service.py\<close>, migration 0002), \<open>Idempotency\<close> (\<open>idempotency.py\<close>),
    \<open>Auth_Snapshot\<close> (\<open>jobs/auth_snapshot.py\<close>): tombstones, the outbox leases as a step relation, job attempts, the
    refinement of the idempotency records to a map from keys to outcomes, signed snapshots and their revocation by tombstones over
    every later state of the table.
  \<^item> \<open>Conversations\<close> (\<open>conversations/\<close>), \<open>Document\<close> (\<open>document.py\<close>), \<open>Pointers\<close>, \<open>Documents\<close> (\<open>documents/service.py\<close>), \<open>Memory\<close>
    (\<open>memory/service.py\<close>, \<open>memory.py\<close>): capture and encryption of turns, the document walk, Markdown and HTML, revision
    pointers (the locales \<open>revision_pointer\<close> and \<open>stored_pointer\<close>, interpreted for documents and memory), proposals.
  \<^item> \<open>Learning_Service\<close> and \<open>Learning_Invariants\<close> (\<open>learning/service.py\<close>): every operation of the learning service, and
    invariants over all its sequences of operations by rule induction.

  \<^item> \<open>Storage\<close> (\<open>storage/s3.py\<close>, \<open>storage/factory.py\<close>): both storage adapters; the locale \<open>object_storage\<close> states what they
    promise. \<open>Sources\<close> (\<open>sources/service.py\<close>): sources, upload intents, completion, retries, as a step relation with an
    invariant. \<open>Parsers\<close> (\<open>parsers/\<close>): the parsers of the registry, limits and validation. \<open>Ingestion\<close> with
    \<open>Ingestion_Domain\<close> (\<open>ingestion/\<close>, \<open>ingestion.py\<close>): a parse run from stored bytes to the active pointer, every failure branch
    included. \<open>Processor\<close> (\<open>jobs/processor.py\<close>): dispatch of claimed events under signed snapshots.
  \<^item> \<open>Lanes\<close> (\<open>retrieval/\<close>, \<open>_local_candidates\<close> of \<open>context/service.py\<close>): the four lanes and the filters; the locale
    \<open>retrieval_lane\<close> states what a lane promises (its candidates stand for rows of the account in the given spaces) and every lane
    interprets it. \<open>Context_Service\<close> (\<open>context/service.py\<close>): a compiled context and its stored receipt. \<open>Mcp_Service\<close>
    (\<open>mcp/service.py\<close>): search, fetch, context preparation, proposals and recorded interactions, with the confinement of both
    reads, the agreement of search and fetch, and the rows of private spaces that fetch serves all the same.
  \<^item> \<open>Base64\<close>, \<open>Cursors\<close> (\<open>pagination.py\<close>): signed cursors. \<open>Service_Auth\<close> (\<open>auth/service_auth.py\<close>, migration 0007): the
    envelope of calls from the MCP edge, single use over every sequence of calls, what a replay can reach. \<open>External_Access\<close>
    (\<open>auth/bearer.py\<close>, \<open>auth/grant_resolve.py\<close>, \<open>external_context.py\<close>): from a bearer token or an envelope to the request
    context, which rests on the grant in the database.
  \<^item> \<open>Sessions\<close> (\<open>auth/sessions.py\<close>, \<open>request_context.py\<close>), \<open>Identity\<close> (\<open>auth/oidc.py\<close>, \<open>auth/activation.py\<close>, \<open>auth/bootstrap.py\<close>),
    \<open>Login\<close> (\<open>auth/routes.py\<close>) and \<open>Login_Invariants\<close>: sign-in, sessions and identities, as a step relation over all requests: single
    use of challenges, finality of logout, stability of accounts, the lifetime of a session.

  \<^bold>\<open>Fuel and termination.\<close> Loops are structural recursion or have a measure. The JSON parser is given twice the length of its
  text plus one as fuel; \<open>reads_back\<close> shows that this is enough for every text \<open>json.dumps\<close> prints. The depth-first search of
  the cycle check and the walks over documents terminate by measures.

  \<^bold>\<open>Not modelled.\<close> The HTTP routes other than those of \<open>auth\<close> (FastAPI glue around one service call), the retrieval of key sets, the
  worker entry points and probes: they are I/O or wrap libraries. PyJWT, the HTTP and S3 clients, UUIDv5, AES-GCM, the digests, text
  decoding and Docling's availability are parameters of the definitions that use them.
\<close>

end
